(* ===== verification/Prelude.thy ===== *)
theory Prelude
  imports Main "HOL-Library.Word"
begin

text \<open>
  Shared vocabulary of the development.

  A Rust \<open>Result<T, E>\<close> is the sum type \<open>'e + 'a\<close>, \<open>Inl\<close> for the error. The \<open>?\<close> operator
  is \<open>rbind\<close>; a sequence of validations that returns at the first failure is \<open>first_error\<close>.
  Machine integers of the persisted records keep their width (\<open>u64\<close>, \<open>u16\<close>); the release
  profile of the workspace leaves overflow checks off, so \<open>+\<close> wraps, as it does on
  \<^typ>\<open>64 word\<close>. Instants (\<open>DateTime<Utc>\<close>) are integers.
\<close>

type_synonym u64 = "64 word"
type_synonym u16 = "16 word"
type_synonym time = int

named_theorems guard_simps \<open>characterisations of validation guards\<close>
named_theorems step_defs \<open>definitions of the operations of a component\<close>

section \<open>Results\<close>

definition rbind :: "'e + 'a \<Rightarrow> ('a \<Rightarrow> 'e + 'b) \<Rightarrow> 'e + 'b" where
  "rbind r f = (case r of Inl e \<Rightarrow> Inl e | Inr a \<Rightarrow> f a)"

lemma rbind_simps [simp]:
  "rbind (Inl e) f = Inl e"
  "rbind (Inr a) f = f a"
  by (simp_all add: rbind_def)

lemma rbind_Inr_iff: "rbind r f = Inr b \<longleftrightarrow> (\<exists>a. r = Inr a \<and> f a = Inr b)"
  by (cases r) simp_all

lemma rbind_Inl_iff:
  "rbind r f = Inl e \<longleftrightarrow> r = Inl e \<or> (\<exists>a. r = Inr a \<and> f a = Inl e)"
  by (cases r) simp_all

text \<open>\<open>map_err\<close> of Rust.\<close>

definition map_err :: "('e \<Rightarrow> 'f) \<Rightarrow> 'e + 'a \<Rightarrow> 'f + 'a" where
  "map_err g r = (case r of Inl e \<Rightarrow> Inl (g e) | Inr a \<Rightarrow> Inr a)"

lemma map_err_simps [simp]:
  "map_err g (Inl e) = Inl (g e)"
  "map_err g (Inr a) = Inr a"
  by (simp_all add: map_err_def)

lemma map_err_Inr_iff [simp]: "map_err g r = Inr a \<longleftrightarrow> r = Inr a"
  by (cases r) simp_all

text \<open>One guard: \<open>bail!\<close> unless the condition holds.\<close>

definition require :: "bool \<Rightarrow> 'e \<Rightarrow> 'e + unit" where
  "require c e = (if c then Inr () else Inl e)"

lemma require_Inr_iff [simp]: "require c e = Inr u \<longleftrightarrow> c"
  by (simp add: require_def)

lemma require_Inl_iff [simp]: "require c e = Inl e' \<longleftrightarrow> \<not> c \<and> e' = e"
  by (auto simp: require_def)

lemma require_simps [simp]:
  "require True e = Inr ()"
  "require False e = Inl e"
  by (simp_all add: require_def)

text \<open>Guards in sequence: the first failing one is returned.\<close>

fun first_error :: "('e + unit) list \<Rightarrow> 'e + unit" where
  "first_error [] = Inr ()"
| "first_error (r # rs) = (case r of Inl e \<Rightarrow> Inl e | Inr _ \<Rightarrow> first_error rs)"

lemma first_error_Cons [simp]:
  "first_error (Inl e # rs) = Inl e"
  "first_error (Inr v # rs) = first_error rs"
  by simp_all

lemma first_error_Inr_iff [simp]:
  "first_error rs = Inr u \<longleftrightarrow> (\<forall>r \<in> set rs. r = Inr ())"
  by (induction rs) (auto split: sum.splits)

declare first_error.simps(2) [simp del]

lemma first_error_Inl: "first_error rs = Inl e \<Longrightarrow> Inl e \<in> set rs"
  by (induction rs) (auto simp: first_error.simps(2) split: sum.splits)

lemma first_error_cases:
  obtains "first_error rs = Inr ()" | e where "first_error rs = Inl e"
  by (cases "first_error rs") auto

text \<open>An optional field is checked only when it is present.\<close>

definition on_some :: "'a option \<Rightarrow> ('a \<Rightarrow> 'e + unit) \<Rightarrow> 'e + unit" where
  "on_some v f = (case v of None \<Rightarrow> Inr () | Some a \<Rightarrow> f a)"

lemma on_some_simps [simp]:
  "on_some None f = Inr ()"
  "on_some (Some a) f = f a"
  by (simp_all add: on_some_def)

lemma on_some_Inr_iff: "on_some v f = Inr u \<longleftrightarrow> (\<forall>a. v = Some a \<longrightarrow> f a = Inr ())"
  by (cases v) auto

text \<open>A validated continuation: the shape of \<open>check(..).map_err(f)?; rest\<close>.\<close>

lemma case_check_Inr_iff:
  "(case r of Inl v \<Rightarrow> Inl (f v) | Inr (_ :: unit) \<Rightarrow> k) = Inr b \<longleftrightarrow> r = Inr () \<and> k = Inr b"
  by (cases r) auto

section \<open>Lists\<close>

lemma filter_prefix_property:
  assumes "\<And>x. x \<in> set xs \<Longrightarrow> P x \<Longrightarrow> Q x"
  shows "filter P (filter Q xs) = filter P xs"
  using assms by (induction xs) auto

lemma distinct_map_filter: "distinct (map f xs) \<Longrightarrow> distinct (map f (filter P xs))"
  by (induction xs) auto

lemma sum_list_filter_le: "sum_list (map f (filter P xs)) \<le> sum_list (map (f :: 'a \<Rightarrow> nat) xs)"
  by (induction xs) auto

end
