(* ===== verification/DeploymentTypes.thy ===== *)
theory DeploymentTypes
  imports Prelude
begin

text \<open>
  The data of one deployment document (\<open>DeploymentState\<close> of
  \<open>src/src/target/deployment_state.rs\<close>) and of its parts, field for field.
\<close>

datatype ResourceOwnership = Managed | External
datatype ResourceScope = DeploymentScoped | Shared

record Resource =
  res_id :: string
  res_kind :: string
  res_locator :: string
  res_ownership :: ResourceOwnership
  res_scope :: ResourceScope

text \<open>\<open>RuntimeBackendKind\<close> of the runtime crate.\<close>

datatype RuntimeBackendKind = Podman | Docker | Host

definition runtime_kind_as_str :: "RuntimeBackendKind \<Rightarrow> string" where
  "runtime_kind_as_str k =
     (case k of Podman \<Rightarrow> ''podman'' | Docker \<Rightarrow> ''docker'' | Host \<Rightarrow> ''host'')"

definition runtime_kind_from_str :: "string \<Rightarrow> RuntimeBackendKind option" where
  "runtime_kind_from_str value =
     (if value = ''podman'' then Some Podman
      else if value = ''docker'' then Some Docker
      else if value = ''host'' then Some Host
      else None)"

record RuntimeSurface =
  rt_kind :: RuntimeBackendKind
  rt_object :: string
  rt_port :: u16

record ArtifactRefs =
  art_current :: "string option"
  art_previous :: "string option"

record ConfigState =
  cfg_reference :: string
  cfg_schema :: string
  cfg_revision :: u64

record HealthRecord =
  health_healthy :: bool
  health_summary :: string
  health_checked_at :: time

record ReleaseVersion =
  rel_version :: string

record ActiveHostOperationRef =
  act_operation_id :: string
  act_applied_at :: time

record AppliedMigration =
  mig_operation_id :: string
  mig_target_artifact :: string
  mig_applied_at :: time

record DeploymentState =
  ds_schema :: nat
  ds_deployment_id :: string
  ds_issuer :: string
  ds_runtime :: RuntimeSurface
  ds_artifact :: ArtifactRefs
  ds_config :: ConfigState
  ds_resources :: "Resource list"
  ds_local_health :: HealthRecord
  ds_applied_migration :: "AppliedMigration option"
  ds_active_host_operation :: "ActiveHostOperationRef option"
  ds_current_release :: "ReleaseVersion option"
  ds_previous_release :: "ReleaseVersion option"
  ds_previous_config_snapshot :: "string option"

definition DEPLOYMENT_STATE_SCHEMA :: nat where "DEPLOYMENT_STATE_SCHEMA = 8"

end
