(* ===== verification/Names.thy ===== *)
theory Names
  imports DeploymentTypes
begin

text \<open>
  Text rules shared by every store: the identifier, reference, token and digest checks of
  \<open>src/src/registry.rs\<close>, \<open>src/src/target/journal.rs\<close>, \<open>src/src/target/wire.rs\<close> and
  \<open>src/src/controller_identity/store.rs\<close>, and the values the program takes from crates it only
  calls (\<open>uuid\<close>, \<open>url\<close>, \<open>semver\<close>, \<open>serde_json\<close>), collected in the record \<open>externals\<close>.

  A Rust \<open>String\<close> is the list of its UTF-8 bytes, so \<open>length\<close> is \<open>str::len\<close>.
\<close>

section \<open>Character classes of the Rust standard library\<close>

definition in_range :: "nat \<Rightarrow> nat \<Rightarrow> char \<Rightarrow> bool" where
  "in_range lo hi c \<longleftrightarrow> lo \<le> of_char c \<and> of_char c \<le> hi"

definition is_digit :: "char \<Rightarrow> bool" where "is_digit = in_range 48 57"
definition is_upper :: "char \<Rightarrow> bool" where "is_upper = in_range 65 90"
definition is_lower :: "char \<Rightarrow> bool" where "is_lower = in_range 97 122"

definition is_alphanumeric :: "char \<Rightarrow> bool" where
  "is_alphanumeric c \<longleftrightarrow> is_digit c \<or> is_upper c \<or> is_lower c"

definition is_hexdigit :: "char \<Rightarrow> bool" where
  "is_hexdigit c \<longleftrightarrow> is_digit c \<or> in_range 65 70 c \<or> in_range 97 102 c"

definition is_lower_hex :: "char \<Rightarrow> bool" where
  "is_lower_hex c \<longleftrightarrow> is_digit c \<or> in_range 97 102 c"

definition is_graphic :: "char \<Rightarrow> bool" where "is_graphic = in_range 33 126"

lemmas char_class_defs = in_range_def is_digit_def is_upper_def is_lower_def
  is_alphanumeric_def is_hexdigit_def is_lower_hex_def is_graphic_def

text \<open>
  \<open>char::is_control\<close> is the Unicode class Cc: U+0000-U+001F, U+007F and U+0080-U+009F. The
  last range is the byte pair C2 80 to C2 9F in UTF-8.
\<close>

definition is_c0 :: "char \<Rightarrow> bool" where
  "is_c0 c \<longleftrightarrow> in_range 0 31 c \<or> in_range 127 127 c"

fun has_control :: "string \<Rightarrow> bool" where
  "has_control [] = False"
| "has_control [c] = is_c0 c"
| "has_control (c # d # s) =
     (is_c0 c \<or> (in_range 194 194 c \<and> in_range 128 159 d) \<or> has_control (d # s))"

text \<open>
  \<open>char::is_whitespace\<close> is Unicode \<open>White_Space\<close>: U+0009-U+000D, U+0020, U+0085, U+00A0,
  U+1680, U+2000-U+200A, U+2028, U+2029, U+202F, U+205F and U+3000.
\<close>

text \<open>The number of bytes of the whitespace character a string starts with, 0 if none.\<close>

definition white_len :: "string \<Rightarrow> nat" where
  "white_len s =
     (case s of
        [] \<Rightarrow> 0
      | a # t \<Rightarrow>
          if in_range 9 13 a \<or> in_range 32 32 a then 1
          else (case t of
             [] \<Rightarrow> 0
           | b # u \<Rightarrow>
               if in_range 194 194 a \<and> (in_range 133 133 b \<or> in_range 160 160 b) then 2
               else (case u of
                  [] \<Rightarrow> 0
                | c # _ \<Rightarrow>
                    if in_range 225 225 a \<and> in_range 154 154 b \<and> in_range 128 128 c
                       \<or> in_range 226 226 a \<and> in_range 128 128 b \<and>
                         (in_range 128 138 c \<or> in_range 168 169 c \<or> in_range 175 175 c)
                       \<or> in_range 226 226 a \<and> in_range 129 129 b \<and> in_range 159 159 c
                       \<or> in_range 227 227 a \<and> in_range 128 128 b \<and> in_range 128 128 c
                    then 3 else 0)))"

fun has_whitespace :: "string \<Rightarrow> bool" where
  "has_whitespace [] = False"
| "has_whitespace (c # s) = (white_len (c # s) \<noteq> 0 \<or> has_whitespace s)"

text \<open>\<open>s.trim().is_empty()\<close>: every character is whitespace.\<close>

function all_whitespace :: "string \<Rightarrow> bool" where
  "all_whitespace s =
     (if s = [] then True
      else if white_len s = 0 then False
      else all_whitespace (drop (white_len s) s))"
  by pat_completeness auto
termination
  by (relation "measure length") simp_all

declare all_whitespace.simps [simp del]

text \<open>\<open>str::split\<close> on one character: never empty, and the parts keep no separator.\<close>

fun split_on :: "char \<Rightarrow> string \<Rightarrow> string list" where
  "split_on c [] = [[]]"
| "split_on c (x # s) =
     (if x = c then [] # split_on c s
      else case split_on c s of [] \<Rightarrow> [[x]] | p # ps \<Rightarrow> (x # p) # ps)"

lemma split_on_not_Nil [simp]: "split_on c s \<noteq> []"
  by (induction s) (auto split: list.split)

lemma split_on_parts: "p \<in> set (split_on c s) \<Longrightarrow> c \<notin> set p"
proof (induction s arbitrary: p)
  case (Cons x s)
  then show ?case by (cases "split_on c s") (auto split: if_splits)
qed simp

text \<open>Joining the parts with the separator gives the text back, so distinct texts split differently.\<close>

fun join_with :: "char \<Rightarrow> string list \<Rightarrow> string" where
  "join_with c [] = []"
| "join_with c [p] = p"
| "join_with c (p # q # ps) = p @ c # join_with c (q # ps)"

lemma join_split [simp]: "join_with c (split_on c s) = s"
proof (induction s)
  case (Cons x s)
  then show ?case
    by (cases "split_on c s"; cases "tl (split_on c s)")
       (auto split: list.split)
qed simp

lemma split_on_inject: "split_on c s = split_on c t \<Longrightarrow> s = t"
  by (metis join_split)

section \<open>Values taken from crates outside the repository\<close>

text \<open>The parts of \<open>url::Url\<close> and \<open>url::Host\<close> the program looks at.\<close>

record url =
  url_cannot_be_base :: bool
  url_scheme :: string
  url_username :: string
  url_password :: "string option"
  url_host :: "string option"
  url_path :: string
  url_query :: "string option"
  url_fragment :: "string option"

datatype url_host_kind = Domain string | Ipv4 | Ipv6

text \<open>
  A \<open>Uuid\<close> value is represented by its canonical text. \<open>uuid_version s\<close> is
  \<open>Uuid::parse_str(s).get_version_num()\<close>, \<open>None\<close> where the parse fails, and \<open>uuid_text s\<close> is
  \<open>Uuid::parse_str(s).to_string()\<close> where it succeeds;
  \<open>parse_url\<close> and \<open>parse_host\<close> are \<open>Url::parse\<close> and \<open>Host::parse\<close>; \<open>semver_ok s\<close> says that
  \<open>semver::Version::parse(s)\<close> succeeds. \<open>state_bytes s\<close> is the length of what
  \<open>serde_json::to_vec_pretty\<close> yields for the document \<open>s\<close>.
\<close>

record externals =
  uuid_version :: "string \<Rightarrow> nat option"
  uuid_text :: "string \<Rightarrow> string"
  parse_url :: "string \<Rightarrow> url option"
  parse_host :: "string \<Rightarrow> url_host_kind option"
  semver_ok :: "string \<Rightarrow> bool"
  state_bytes :: "DeploymentState \<Rightarrow> u64"

section \<open>The rules\<close>

text \<open>One constructor per \<open>bail!\<close>; diagnostic prose is not modelled.\<close>

datatype violation =
    IdentifierRule string
  | ReferenceRule string
  | ScopeRule
  | InstanceIdentifierRule
  | KidRule
  | IssuerNotUrl
  | IssuerRule
  | TenantDomainNotHost
  | TenantDomainIp
  | TenantDomainRule
  | SuiteOriginNotUrl
  | SuiteOriginRule

text \<open>The character set of store-legal tokens, \<open>[A-Za-z0-9.:_+-]\<close>.\<close>

definition ident_char :: "char \<Rightarrow> bool" where
  "ident_char c \<longleftrightarrow> is_alphanumeric c \<or> c \<in> set ''.:_+-''"

definition validate_identifier :: "string \<Rightarrow> nat \<Rightarrow> string \<Rightarrow> violation + unit" where
  "validate_identifier value max_chars label =
     (if value = [] \<or> max_chars < length value \<or> \<not> list_all ident_char value
         \<or> hd value = CHR ''-'' \<or> value = ''.'' \<or> value = ''..''
      then Inl (IdentifierRule label)
      else Inr ())"

definition MAX_KEY_CHARS :: nat where "MAX_KEY_CHARS = 128"

definition validate_key :: "string \<Rightarrow> string \<Rightarrow> violation + unit" where
  "validate_key value label = validate_identifier value MAX_KEY_CHARS label"

definition validate_reference :: "string \<Rightarrow> string \<Rightarrow> violation + unit" where
  "validate_reference value label =
     (if value = [] \<or> 512 < length value \<or> has_whitespace value \<or> has_control value
      then Inl (ReferenceRule label)
      else Inr ())"

definition deployment_scope :: "string \<Rightarrow> violation + string" where
  "deployment_scope deployment_id =
     (let legal = deployment_id \<noteq> [] \<and> length deployment_id \<le> 128
        \<and> deployment_id \<noteq> ''.'' \<and> deployment_id \<noteq> ''..''
        \<and> list_all ident_char deployment_id
      in if legal then Inr deployment_id else Inl ScopeRule)"

definition HOST_SCOPE :: string where "HOST_SCOPE = ''host''"

definition scope_slug :: "string option \<Rightarrow> violation + string" where
  "scope_slug deployment_id =
     (case deployment_id of None \<Rightarrow> Inr HOST_SCOPE | Some d \<Rightarrow> deployment_scope d)"

definition validate_instance_identifier :: "string \<Rightarrow> violation + unit" where
  "validate_instance_identifier value =
     (if value = [] \<or> 128 < length value \<or> \<not> list_all ident_char value
         \<or> value = ''.'' \<or> value = ''..''
      then Inl InstanceIdentifierRule
      else Inr ())"

definition KID_LENGTH :: nat where "KID_LENGTH = 43"

definition validate_kid_shape :: "string \<Rightarrow> violation + unit" where
  "validate_kid_shape kid =
     (if length kid \<noteq> KID_LENGTH
         \<or> \<not> list_all (\<lambda>b. is_alphanumeric b \<or> b = CHR ''-'' \<or> b = CHR ''_'') kid
      then Inl KidRule
      else Inr ())"

definition KEY_REF_SCHEME :: string where "KEY_REF_SCHEME = ''controller-keys''"

definition controller_key_ref_for :: "string \<Rightarrow> violation + string" where
  "controller_key_ref_for deployment_id =
     rbind (validate_instance_identifier deployment_id)
       (\<lambda>_. Inr (KEY_REF_SCHEME @ ''/'' @ deployment_id))"

definition valid_token :: "string \<Rightarrow> nat \<Rightarrow> bool" where
  "valid_token value max_chars \<longleftrightarrow>
     value \<noteq> [] \<and> length value \<le> max_chars \<and> list_all is_graphic value"

definition valid_lower_hex_sha256 :: "string \<Rightarrow> bool" where
  "valid_lower_hex_sha256 value \<longleftrightarrow>
     length value = 64 \<and> list_all (\<lambda>b. is_hexdigit b \<and> \<not> is_upper b) value"

definition is_uuid_v7 :: "externals \<Rightarrow> string \<Rightarrow> bool" where
  "is_uuid_v7 X value \<longleftrightarrow> uuid_version X value = Some 7"

definition validate_issuer :: "externals \<Rightarrow> string \<Rightarrow> violation + unit" where
  "validate_issuer X value =
     (case parse_url X value of
        None \<Rightarrow> Inl IssuerNotUrl
      | Some parsed \<Rightarrow>
          if url_cannot_be_base parsed
             \<or> \<not> (url_scheme parsed = ''http'' \<or> url_scheme parsed = ''https'')
             \<or> url_username parsed \<noteq> [] \<or> url_password parsed \<noteq> None
          then Inl IssuerRule
          else Inr ())"

section \<open>How the rules relate\<close>

lemma validate_identifier_ok [guard_simps]:
  "validate_identifier v n l = Inr u \<longleftrightarrow>
     v \<noteq> [] \<and> length v \<le> n \<and> list_all ident_char v \<and> hd v \<noteq> CHR ''-'' \<and> v \<noteq> ''.'' \<and> v \<noteq> ''..''"
  by (auto simp: validate_identifier_def)

lemma deployment_scope_ok [guard_simps]:
  "deployment_scope d = Inr s \<longleftrightarrow>
     s = d \<and> d \<noteq> [] \<and> length d \<le> 128 \<and> d \<noteq> ''.'' \<and> d \<noteq> ''..'' \<and> list_all ident_char d"
  by (auto simp: deployment_scope_def Let_def)

lemma deployment_scope_cases:
  obtains (illegal) "deployment_scope d = Inl ScopeRule" | (legal) "deployment_scope d = Inr d"
  unfolding deployment_scope_def Let_def by meson

lemma validate_instance_identifier_ok [guard_simps]:
  "validate_instance_identifier v = Inr u \<longleftrightarrow>
     v \<noteq> [] \<and> length v \<le> 128 \<and> v \<noteq> ''.'' \<and> v \<noteq> ''..'' \<and> list_all ident_char v"
  by (auto simp: validate_instance_identifier_def)

lemma lower_hex_agree: "is_hexdigit c \<and> \<not> is_upper c \<longleftrightarrow> is_lower_hex c"
  by (auto simp: char_class_defs)

lemma valid_lower_hex_sha256_alt [guard_simps]:
  "valid_lower_hex_sha256 v \<longleftrightarrow> length v = 64 \<and> list_all is_lower_hex v"
  by (simp add: valid_lower_hex_sha256_def lower_hex_agree)

text \<open>No store-legal token leaves its directory: it holds no separator, and no dot name.\<close>

lemma ident_char_no_separator: "list_all ident_char v \<Longrightarrow> CHR ''/'' \<notin> set v \<and> CHR 0x5C \<notin> set v"
  by (auto simp: list_all_iff ident_char_def char_class_defs)

end
