(* ===== verification/FileStore.thy ===== *)
theory FileStore
  imports Names
begin

text \<open>
  The filesystem primitives of \<open>crates/nazoauthctl-runtime/src/filesystem.rs\<close> and the operation
  lock of \<open>src/src/file_lock.rs\<close>, at the level their callers rely on.

  A directory of files is a map from names to contents. Whether a system call fails is decided
  by the environment, so an operation takes the outcome as an argument: \<open>Committed\<close> where every
  call succeeds, \<open>Rejected\<close> where a call before the rename or the unlink fails, \<open>Unsynced\<close> where
  the rename or unlink took place and the synchronisation of the parent directory failed (the
  caller sees an error, and readers see the new file).
\<close>

datatype commit = Committed | Rejected | Unsynced

text \<open>\<open>atomic_write\<close>: stage, write, sync, rename, sync the parent.\<close>

definition atomic_write :: "commit \<Rightarrow> 'k \<Rightarrow> 'v \<Rightarrow> ('k \<rightharpoonup> 'v) \<Rightarrow> bool \<times> ('k \<rightharpoonup> 'v)" where
  "atomic_write outcome path bytes files =
     (case outcome of
        Rejected \<Rightarrow> (False, files)
      | Unsynced \<Rightarrow> (False, files(path \<mapsto> bytes))
      | Committed \<Rightarrow> (True, files(path \<mapsto> bytes)))"

text \<open>\<open>remove_file_durable\<close>: an absent file is success, without a parent sync.\<close>

definition remove_file_durable :: "commit \<Rightarrow> 'k \<Rightarrow> ('k \<rightharpoonup> 'v) \<Rightarrow> bool \<times> ('k \<rightharpoonup> 'v)" where
  "remove_file_durable outcome path files =
     (case outcome of
        Rejected \<Rightarrow> (False, files)
      | Unsynced \<Rightarrow> if files path = None then (True, files) else (False, files(path := None))
      | Committed \<Rightarrow> (True, files(path := None)))"

text \<open>
  \<open>FileLock::acquire\<close> never waits: it fails when some other process holds the lock file.
\<close>

definition acquire_lock :: "('k \<Rightarrow> bool) \<Rightarrow> 'k \<Rightarrow> bool" where
  "acquire_lock held path \<longleftrightarrow> \<not> held path"

section \<open>What clients rely on\<close>

text \<open>
  The contract of a durable write and a durable removal: success means the new contents,
  failure means the old or the new contents, and no other file is touched.
\<close>

locale durable_files =
  fixes put :: "'o \<Rightarrow> 'k \<Rightarrow> 'v \<Rightarrow> ('k \<rightharpoonup> 'v) \<Rightarrow> bool \<times> ('k \<rightharpoonup> 'v)"
    and del :: "'o \<Rightarrow> 'k \<Rightarrow> ('k \<rightharpoonup> 'v) \<Rightarrow> bool \<times> ('k \<rightharpoonup> 'v)"
  assumes put_ok: "put out k v m = (True, m') \<Longrightarrow> m' = m(k \<mapsto> v)"
    and put_err: "put out k v m = (False, m') \<Longrightarrow> m' = m \<or> m' = m(k \<mapsto> v)"
    and del_ok: "del out k m = (True, m') \<Longrightarrow> m' = m(k := None)"
    and del_err: "del out k m = (False, m') \<Longrightarrow> m' = m \<or> m' = m(k := None)"
begin

lemma put_cases: "snd (put out k v m) = m \<or> snd (put out k v m) = m(k \<mapsto> v)"
  using put_ok put_err by (cases "put out k v m"; cases "fst (put out k v m)") auto

lemma del_cases: "snd (del out k m) = m \<or> snd (del out k m) = m(k := None)"
  using del_ok del_err by (cases "del out k m"; cases "fst (del out k m)") auto

lemma put_other: "k' \<noteq> k \<Longrightarrow> snd (put out k v m) k' = m k'"
  using put_cases [of out k v m] by auto

lemma put_lookup: "fst (put out k v m) \<Longrightarrow> snd (put out k v m) k = Some v"
  using put_ok [of out k v m "snd (put out k v m)"] by (cases "put out k v m") auto

lemma del_other: "k' \<noteq> k \<Longrightarrow> snd (del out k m) k' = m k'"
  using del_cases [of out k m] by auto

lemma put_preserves:
  assumes "\<And>k v. m k = Some v \<Longrightarrow> P k v" and "P k v"
    and "snd (put out k v m) k' = Some v'"
  shows "P k' v'"
  using put_cases [of out k v m] assms by (auto split: if_splits)

lemma del_preserves:
  assumes "\<And>k v. m k = Some v \<Longrightarrow> P k v" and "snd (del out k m) k' = Some v'"
  shows "P k' v'"
  using del_cases [of out k m] assms by (auto split: if_splits)

end

interpretation files: durable_files atomic_write remove_file_durable
  by unfold_locales
     (auto simp: atomic_write_def remove_file_durable_def split: commit.splits if_splits)

end
