(* ===== verification/Deployment.thy ===== *)
theory Deployment
  imports Names
begin

text \<open>
  The rules of the persisted document of one deployment (\<open>DeploymentState\<close> of
  \<open>src/src/target/deployment_state.rs\<close>) and of its parts: the constructors that check them and
  the validation every load and most writes go through.
\<close>

section \<open>Validation\<close>

datatype state_violation =
    Rule violation
  | ResourceLocatorRule
  | ManagedSharedRule
  | RuntimeKindUnknown
  | RuntimeObjectRule
  | LoopbackPortRule
  | ConfigReferenceRule
  | ConfigRevisionZero
  | StateSchemaUnsupported nat
  | MigrationNotDigestBound
  | MigrationDigestRule
  | DuplicateResourceId string
  | HealthSummaryRule
  | ActiveOperationRule

definition Resource_validate :: "Resource \<Rightarrow> state_violation + unit" where
  "Resource_validate r = first_error
     [map_err Rule (validate_identifier (res_id r) 128 ''resource id''),
      map_err Rule (validate_identifier (res_kind r) 64 ''resource kind''),
      require (\<not> (res_locator r = [] \<or> 512 < length (res_locator r) \<or> has_control (res_locator r)))
        ResourceLocatorRule,
      require (\<not> (res_ownership r = Managed \<and> res_scope r = Shared)) ManagedSharedRule]"

definition Resource_new ::
  "string \<Rightarrow> string \<Rightarrow> string \<Rightarrow> ResourceOwnership \<Rightarrow> ResourceScope
   \<Rightarrow> state_violation + Resource" where
  "Resource_new i k l ow sc =
     (let resource = \<lparr>res_id = i, res_kind = k, res_locator = l, res_ownership = ow, res_scope = sc\<rparr>
      in rbind (Resource_validate resource) (\<lambda>_. Inr resource))"

definition RuntimeSurface_validate :: "RuntimeSurface \<Rightarrow> state_violation + unit" where
  "RuntimeSurface_validate r = first_error
     [require (\<not> (rt_object r = [] \<or> 256 < length (rt_object r)
                \<or> has_whitespace (rt_object r) \<or> has_control (rt_object r))) RuntimeObjectRule,
      require (\<not> rt_port r < 1024) LoopbackPortRule]"

definition RuntimeSurface_new :: "string \<Rightarrow> string \<Rightarrow> u16 \<Rightarrow> state_violation + RuntimeSurface" where
  "RuntimeSurface_new kind object port =
     (case runtime_kind_from_str kind of
        None \<Rightarrow> Inl RuntimeKindUnknown
      | Some k \<Rightarrow>
          (let surface = \<lparr>rt_kind = k, rt_object = object, rt_port = port\<rparr>
           in rbind (RuntimeSurface_validate surface) (\<lambda>_. Inr surface)))"

text \<open>The loop over \<open>[current, previous].into_iter().flatten()\<close>.\<close>

definition ArtifactRefs_validate :: "ArtifactRefs \<Rightarrow> state_violation + unit" where
  "ArtifactRefs_validate a = first_error
     [on_some (art_current a) (\<lambda>r. map_err Rule (validate_identifier r 256 ''artifact reference'')),
      on_some (art_previous a) (\<lambda>r. map_err Rule (validate_identifier r 256 ''artifact reference''))]"

definition ConfigState_seed :: "u64 \<Rightarrow> string \<Rightarrow> string \<Rightarrow> state_violation + ConfigState" where
  "ConfigState_seed revision reference schema =
     (let candidate = \<lparr>cfg_reference = reference, cfg_schema = schema, cfg_revision = revision\<rparr>
      in if reference = [] \<or> 512 < length reference then Inl ConfigReferenceRule
         else rbind (map_err Rule (validate_identifier schema 64 ''config schema''))
                (\<lambda>_. Inr candidate))"

text \<open>\<open>advance\<close> replaces the whole value only when the seed succeeds; \<open>self.revision + 1\<close> wraps.\<close>

definition ConfigState_advance :: "ConfigState \<Rightarrow> string \<Rightarrow> string \<Rightarrow> state_violation + ConfigState" where
  "ConfigState_advance c reference schema = ConfigState_seed (cfg_revision c + 1) reference schema"

definition ReleaseVersion_validate :: "ReleaseVersion \<Rightarrow> state_violation + unit" where
  "ReleaseVersion_validate r =
     map_err Rule (validate_identifier (rel_version r) 64 ''release version'')"

definition ReleaseVersion_new :: "string \<Rightarrow> state_violation + ReleaseVersion" where
  "ReleaseVersion_new version =
     (let identity = \<lparr>rel_version = version\<rparr>
      in rbind (ReleaseVersion_validate identity) (\<lambda>_. Inr identity))"

text \<open>\<open>str::strip_prefix\<close>.\<close>

fun strip_prefix :: "string \<Rightarrow> string \<Rightarrow> string option" where
  "strip_prefix [] s = Some s"
| "strip_prefix (p # ps) [] = None"
| "strip_prefix (p # ps) (c # s) = (if p = c then strip_prefix ps s else None)"

lemma strip_prefix_Some: "strip_prefix p s = Some t \<longleftrightarrow> s = p @ t"
  by (induction p s rule: strip_prefix.induct) auto

definition AppliedMigration_validate :: "AppliedMigration \<Rightarrow> state_violation + unit" where
  "AppliedMigration_validate m =
     rbind (map_err Rule (validate_identifier (mig_operation_id m) 128 ''applied migration operation id''))
       (\<lambda>_. case strip_prefix ''sha256:'' (mig_target_artifact m) of
              None \<Rightarrow> Inl MigrationNotDigestBound
            | Some digest \<Rightarrow>
                require (length digest = 64 \<and> list_all (\<lambda>b. is_digit b \<or> in_range 97 102 b) digest)
                  MigrationDigestRule)"

text \<open>The loop that validates each resource and refuses a repeated id, in list order.\<close>

fun check_resources :: "string list \<Rightarrow> Resource list \<Rightarrow> state_violation + unit" where
  "check_resources seen [] = Inr ()"
| "check_resources seen (r # rs) =
     (case Resource_validate r of
        Inl e \<Rightarrow> Inl e
      | Inr _ \<Rightarrow>
          if res_id r \<in> set seen then Inl (DuplicateResourceId (res_id r))
          else check_resources (seen @ [res_id r]) rs)"

definition DeploymentState_validate :: "externals \<Rightarrow> DeploymentState \<Rightarrow> state_violation + unit" where
  "DeploymentState_validate X s = first_error
     [require (ds_schema s = DEPLOYMENT_STATE_SCHEMA) (StateSchemaUnsupported (ds_schema s)),
      map_err Rule (rbind (deployment_scope (ds_deployment_id s)) (\<lambda>_. Inr ())),
      map_err Rule (validate_issuer X (ds_issuer s)),
      RuntimeSurface_validate (ds_runtime s),
      ArtifactRefs_validate (ds_artifact s),
      on_some (ds_applied_migration s) AppliedMigration_validate,
      require (\<not> (cfg_reference (ds_config s) = [] \<or> 512 < length (cfg_reference (ds_config s))))
        ConfigReferenceRule,
      map_err Rule (validate_identifier (cfg_schema (ds_config s)) 64 ''config schema''),
      require (cfg_revision (ds_config s) \<noteq> 0) ConfigRevisionZero,
      check_resources [] (ds_resources s),
      require (length (health_summary (ds_local_health s)) \<le> 512) HealthSummaryRule,
      on_some (ds_active_host_operation s)
        (\<lambda>a. require (\<not> (act_operation_id a = [] \<or> 128 < length (act_operation_id a)))
               ActiveOperationRule),
      on_some (ds_current_release s) ReleaseVersion_validate,
      on_some (ds_previous_release s) ReleaseVersion_validate]"

section \<open>What validation guarantees\<close>

lemma check_resources_ok:
  "check_resources seen rs = Inr u \<longleftrightarrow>
     (\<forall>r \<in> set rs. Resource_validate r = Inr ()) \<and> distinct (map res_id rs)
     \<and> set (map res_id rs) \<inter> set seen = {}"
proof (induction seen rs rule: check_resources.induct)
  case (1 seen)
  show ?case by simp
next
  case (2 seen r rs)
  show ?case
  proof (cases "Resource_validate r")
    case (Inl e)
    then show ?thesis by simp
  next
    case (Inr v)
    with "2" show ?thesis by auto
  qed
qed

lemma Resource_validate_ok:
  "Resource_validate r = Inr () \<Longrightarrow> \<not> (res_ownership r = Managed \<and> res_scope r = Shared)"
  by (simp add: Resource_validate_def)

lemma seed_ok:
  "ConfigState_seed n ref sch = Inr c \<longleftrightarrow>
     c = \<lparr>cfg_reference = ref, cfg_schema = sch, cfg_revision = n\<rparr>
     \<and> ref \<noteq> [] \<and> length ref \<le> 512 \<and> validate_identifier sch 64 ''config schema'' = Inr ()"
  by (auto simp: ConfigState_seed_def Let_def rbind_Inr_iff)

lemma advance_ok:
  "ConfigState_advance c ref sch = Inr c' \<longleftrightarrow>
     c' = \<lparr>cfg_reference = ref, cfg_schema = sch, cfg_revision = cfg_revision c + 1\<rparr>
     \<and> ref \<noteq> [] \<and> length ref \<le> 512 \<and> validate_identifier sch 64 ''config schema'' = Inr ()"
  by (simp add: ConfigState_advance_def seed_ok)

definition state_ok :: "externals \<Rightarrow> DeploymentState \<Rightarrow> bool" where
  "state_ok X s \<longleftrightarrow> DeploymentState_validate X s = Inr ()"

lemmas state_ok_iff = state_ok_def DeploymentState_validate_def

lemma runtime_kind_round_trip: "runtime_kind_from_str (runtime_kind_as_str k) = Some k"
  by (cases k) (simp_all add: runtime_kind_as_str_def runtime_kind_from_str_def)

end
