(* ===== verification/Persistence.thy ===== *)
theory Persistence
  imports Deployment
begin

text \<open>
  Readers for published deployment-state formats (\<open>src/src/target/persistence.rs\<close>).

  A state file is the JSON value it denotes, classified the way \<open>read_deployment_state\<close> looks at
  it: a document whose members parse as the current struct; a document that does not, with the
  members the legacy reader touches; a document whose schema member cannot be read; and a file
  that \<open>read_secure_regular_file\<close> refuses (symlink, unsafe mode, not readable, and a foreign or
  historical file above the size bound). A current document is the file \<open>persist\<close> writes for it,
  \<open>state_bytes\<close> bytes long; the store compares that length with its bound.
\<close>

section \<open>Historical documents\<close>

datatype LegacyDatabaseRestore = Backup | Pitr | NoRestore

record LegacyRollbackPolicy =
  lp_artifact :: bool
  lp_schema_compatible :: bool
  lp_database_restore :: LegacyDatabaseRestore
  lp_irreversible_migration :: bool
  lp_minimum_supported_version :: string
  lp_migration_floor :: string
  lp_rationale :: string

text \<open>One JSON member: absent, \<open>null\<close>, of the wrong shape, or a parsed value.\<close>

datatype 'a member = Absent | JsonNull | Malformed | Member 'a

text \<open>
  \<open>lm_migration_policy\<close> is \<open>None\<close> where \<open>applied_migration\<close> is absent or not an object.
  \<open>lm_rest\<close> is what the remaining members parse to, \<open>None\<close> where they do not.
\<close>

record legacy_members =
  lm_current_policy :: "LegacyRollbackPolicy member"
  lm_previous_policy :: "LegacyRollbackPolicy member"
  lm_migration_policy :: "LegacyRollbackPolicy member option"
  lm_rest :: "DeploymentState option"

datatype state_file =
    StateDoc DeploymentState
  | LegacyDoc nat "legacy_members option"
  | NoSchemaDoc
  | UnsafeFile

datatype read_error =
    InvalidState state_violation
  | CurrentParseError
  | SchemaProbeError
  | UnsafeToRead
  | NotAnObject
  | PolicyMissing
  | PolicyMalformed
  | InvalidPolicy
  | MigrationPolicyMissing
  | UnsupportedSchema nat
  | NormalizedParseError

section \<open>The reader\<close>

definition LegacyRollbackPolicy_validate ::
  "externals \<Rightarrow> LegacyRollbackPolicy \<Rightarrow> read_error + unit" where
  "LegacyRollbackPolicy_validate X p =
     (if \<not> semver_ok X (lp_minimum_supported_version p) then Inl InvalidPolicy
      else if all_whitespace (lp_rationale p)
         \<or> lp_migration_floor p = []
         \<or> \<not> list_all is_digit (lp_migration_floor p)
         \<or> (lp_irreversible_migration p \<and> lp_schema_compatible p)
         \<or> (lp_schema_compatible p \<and> \<not> lp_artifact p)
      then Inl InvalidPolicy
      else Inr ())"

definition allows_artifact_rollback :: "LegacyRollbackPolicy \<Rightarrow> bool" where
  "allows_artifact_rollback p \<longleftrightarrow>
     lp_artifact p \<and> lp_schema_compatible p \<and> \<not> lp_irreversible_migration p"

text \<open>\<open>object.remove(name).context(missing)?\<close>, then \<open>from_value\<close>, then \<open>validate\<close>.\<close>

definition required_policy ::
  "externals \<Rightarrow> read_error \<Rightarrow> LegacyRollbackPolicy member \<Rightarrow> read_error + LegacyRollbackPolicy" where
  "required_policy X missing m =
     (case m of
        Absent \<Rightarrow> Inl missing
      | JsonNull \<Rightarrow> Inl PolicyMalformed
      | Malformed \<Rightarrow> Inl PolicyMalformed
      | Member p \<Rightarrow> rbind (LegacyRollbackPolicy_validate X p) (\<lambda>_. Inr p))"

definition optional_policy ::
  "externals \<Rightarrow> LegacyRollbackPolicy member \<Rightarrow> read_error + unit" where
  "optional_policy X m =
     (case m of
        Absent \<Rightarrow> Inr ()
      | JsonNull \<Rightarrow> Inr ()
      | Malformed \<Rightarrow> Inl PolicyMalformed
      | Member p \<Rightarrow> LegacyRollbackPolicy_validate X p)"

text \<open>The prohibition recorded by the old policy: the previous artifact is no longer offered.\<close>

definition drop_previous_generation :: "DeploymentState \<Rightarrow> DeploymentState" where
  "drop_previous_generation s =
     s\<lparr>ds_artifact := (ds_artifact s)\<lparr>art_previous := None\<rparr>, ds_previous_release := None\<rparr>"

definition normalize_schema_7 ::
  "externals \<Rightarrow> legacy_members option \<Rightarrow> read_error + DeploymentState" where
  "normalize_schema_7 X value =
     (case value of
        None \<Rightarrow> Inl NotAnObject
      | Some object \<Rightarrow>
          rbind (required_policy X PolicyMissing (lm_current_policy object)) (\<lambda>policy.
          rbind (optional_policy X (lm_previous_policy object)) (\<lambda>_.
          rbind (on_some (lm_migration_policy object)
                   (\<lambda>m. rbind (required_policy X MigrationPolicyMissing m) (\<lambda>_. Inr ()))) (\<lambda>_.
          case lm_rest object of
            None \<Rightarrow> Inl NormalizedParseError
          | Some rest \<Rightarrow>
              (let kept = (if allows_artifact_rollback policy then rest
                           else drop_previous_generation rest);
                   state = kept\<lparr>ds_schema := DEPLOYMENT_STATE_SCHEMA\<rparr>
               in rbind (map_err InvalidState (DeploymentState_validate X state))
                    (\<lambda>_. Inr state))))))"

definition read_deployment_state :: "externals \<Rightarrow> state_file \<Rightarrow> read_error + DeploymentState" where
  "read_deployment_state X f =
     (case f of
        StateDoc state \<Rightarrow>
          rbind (map_err InvalidState (DeploymentState_validate X state)) (\<lambda>_. Inr state)
      | NoSchemaDoc \<Rightarrow> Inl SchemaProbeError
      | UnsafeFile \<Rightarrow> Inl UnsafeToRead
      | LegacyDoc schema value \<Rightarrow>
          if schema = DEPLOYMENT_STATE_SCHEMA then Inl CurrentParseError
          else if schema = 7 then normalize_schema_7 X value
          else Inl (UnsupportedSchema schema))"

section \<open>What a successful read guarantees\<close>

lemma read_StateDoc [simp]:
  "read_deployment_state X (StateDoc s) = Inr s' \<longleftrightarrow> s' = s \<and> state_ok X s"
  by (auto simp: read_deployment_state_def rbind_Inr_iff state_ok_def)

lemma normalize_schema_7_ok:
  assumes "normalize_schema_7 X value = Inr s"
  obtains object policy rest where "value = Some object"
    and "required_policy X PolicyMissing (lm_current_policy object) = Inr policy"
    and "lm_rest object = Some rest"
    and "s = (if allows_artifact_rollback policy then rest
              else drop_previous_generation rest)\<lparr>ds_schema := DEPLOYMENT_STATE_SCHEMA\<rparr>"
    and "state_ok X s"
  using assms
  by (auto simp: normalize_schema_7_def rbind_Inr_iff Let_def state_ok_def split: option.splits)

lemma read_deployment_state_ok: "read_deployment_state X f = Inr s \<Longrightarrow> state_ok X s"
  by (cases f)
     (auto simp: read_deployment_state_def rbind_Inr_iff state_ok_def
           elim: normalize_schema_7_ok split: if_splits)

lemma state_ok_schema: "state_ok X s \<Longrightarrow> ds_schema s = DEPLOYMENT_STATE_SCHEMA"
  by (simp add: state_ok_iff)

end
