(* ===== verification/StateStore.thy ===== *)
theory StateStore
  imports FileStore Persistence "HOL-Library.List_Lexorder" "HOL-Library.Char_ord"
begin

text \<open>
  The target-side store of deployment states (\<open>TargetStateStore\<close> of
  \<open>src/src/target/deployment_state.rs\<close>): bootstrap, the compare-and-swap mutations, removal and
  the uninstall completion record.

  A store is the contents of \<open><root>/deployments\<close>: per scope directory the file \<open>state.json\<close> and
  the file \<open>uninstall-complete.json\<close>, and the scope directories in the order the directory
  iterator yields them. The environment of one call says which lock files other processes hold,
  how each durable write ends (\<open>env_commit_2\<close> for the second one of a handler), whether a file can
  be opened for hashing, after how many entries the directory iteration fails where it does, and
  what the clock reads.
\<close>

section \<open>Failures\<close>

datatype fail_code =
    DEPLOYMENT_UNKNOWN
  | DEPLOYMENT_EXISTS
  | CONFIG_REVISION_MISMATCH
  | STATE_RESET_REQUIRED
  | ROLLBACK_UNAVAILABLE
  | ROLLBACK_RECOVERY_REQUIRED
  | HOST_ERR_OPERATION_INVALID

text \<open>The \<open>detail\<close> text is kept as a tag with the values it quotes.\<close>

datatype detail =
    BadScope
  | LockUnavailable
  | NoStateFile
  | UnreadableState
  | InvalidStateDocument read_error
  | PersistFailed
  | DirectoryUnlisted
  | RemoveFailed
  | StaleRevision u64 u64
  | Rejected_by state_violation
  | PortReserved u16 string
  | IncompleteState
  | StateExists u64
  | ForeignMigration
  | MigrationMismatch
  | MigrationApplied
  | NoPreviousArtifact
  | RecoveryFactsForeign
  | RecoveryArtifactNotSha256
  | RecoveryArtifactUnknown
  | RecoveryArtifactDigest
  | CompletionUnreadable
  | CompletionInvalid
  | HashFailed

datatype failure = Failure (code: fail_code) (detail: detail)

section \<open>The store\<close>

record UninstallCompletion =
  uc_schema :: nat
  uc_deployment_id :: string
  uc_operation_id :: string
  uc_revision :: u64
  uc_state_sha256 :: string

datatype completion_file = CompletionDoc UninstallCompletion | CompletionUnparsable | CompletionUnsafe

record store =
  st_dirs :: "string list"
  st_states :: "string \<rightharpoonup> state_file"
  st_completions :: "string \<rightharpoonup> completion_file"

definition empty_store :: store where
  "empty_store = \<lparr>st_dirs = [], st_states = Map.empty, st_completions = Map.empty\<rparr>"

record env =
  env_held :: "string \<Rightarrow> bool"
  env_ports_held :: bool
  env_commit :: commit
  env_commit_2 :: commit
  env_hash_readable :: bool
  env_list_stop :: "nat option"
  env_now :: time

text \<open>
  \<open>Path::with_extension("lock")\<close> replaces what follows the last dot of the directory name,
  where there is one after the first character.
\<close>

definition file_stem :: "string \<Rightarrow> string" where
  "file_stem name =
     (case dropWhile (\<lambda>c. c \<noteq> CHR ''.'') (rev name) of
        [] \<Rightarrow> name
      | _ # before \<Rightarrow> if before = [] then name else rev before)"

definition lock_path :: "string \<Rightarrow> failure + string" where
  "lock_path deployment_id =
     map_err (\<lambda>_. Failure DEPLOYMENT_UNKNOWN BadScope)
       (rbind (deployment_scope deployment_id) (\<lambda>scope. Inr (file_stem scope @ ''.lock'')))"

definition acquire_state_lock :: "(string \<Rightarrow> bool) \<Rightarrow> string \<Rightarrow> failure + unit" where
  "acquire_state_lock held path =
     require (acquire_lock held path) (Failure DEPLOYMENT_UNKNOWN LockUnavailable)"

section \<open>Reading and writing one document\<close>

definition unreadable_state :: "bool \<Rightarrow> failure" where
  "unreadable_state not_found =
     (if not_found then Failure DEPLOYMENT_UNKNOWN NoStateFile
      else Failure STATE_RESET_REQUIRED UnreadableState)"

definition invalid_state :: "read_error \<Rightarrow> failure" where
  "invalid_state e = Failure STATE_RESET_REQUIRED (InvalidStateDocument e)"

definition MAX_STATE_BYTES :: u64 where "MAX_STATE_BYTES = 1024 * 1024"

text \<open>
  \<open>read_secure_regular_file\<close> refuses a file above the bound. \<open>persist\<close> has no such bound, so a
  document it wrote can be one the reader refuses.
\<close>

definition oversized :: "externals \<Rightarrow> state_file \<Rightarrow> bool" where
  "oversized X f = (case f of StateDoc s \<Rightarrow> MAX_STATE_BYTES < state_bytes X s | _ \<Rightarrow> False)"

definition refused_file :: "externals \<Rightarrow> state_file \<Rightarrow> bool" where
  "refused_file X f \<longleftrightarrow> f = UnsafeFile \<or> oversized X f"

definition read_state :: "externals \<Rightarrow> state_file option \<Rightarrow> failure + DeploymentState" where
  "read_state X path =
     (case path of
        None \<Rightarrow> Inl (unreadable_state True)
      | Some f \<Rightarrow>
          if refused_file X f then Inl (unreadable_state False)
          else map_err invalid_state (read_deployment_state X f))"

definition load_existing :: "externals \<Rightarrow> store \<Rightarrow> string \<Rightarrow> failure + DeploymentState" where
  "load_existing X D deployment_id =
     rbind (map_err (\<lambda>_. Failure DEPLOYMENT_UNKNOWN BadScope) (deployment_scope deployment_id))
       (\<lambda>scope. read_state X (st_states D scope))"

definition ensure_dir :: "string \<Rightarrow> store \<Rightarrow> store" where
  "ensure_dir scope D = (if scope \<in> set (st_dirs D) then D else D\<lparr>st_dirs := st_dirs D @ [scope]\<rparr>)"

definition persist :: "env \<Rightarrow> string \<Rightarrow> DeploymentState \<Rightarrow> store \<Rightarrow> (failure + unit) \<times> store" where
  "persist E scope state D =
     (case atomic_write (env_commit E) scope (StateDoc state) (st_states D) of
        (ok, states) \<Rightarrow>
          (require ok (Failure DEPLOYMENT_UNKNOWN PersistFailed),
           (ensure_dir scope D)\<lparr>st_states := states\<rparr>))"

definition persist_exact ::
  "env \<Rightarrow> string \<Rightarrow> DeploymentState \<Rightarrow> store \<Rightarrow> (failure + DeploymentState) \<times> store" where
  "persist_exact E scope state D =
     (case persist E scope state D of (r, D') \<Rightarrow> (rbind r (\<lambda>_. Inr state), D'))"

section \<open>Enumeration\<close>

text \<open>The loop of \<open>list_deployments\<close> over the directory entries.\<close>

fun collect_states :: "externals \<Rightarrow> store \<Rightarrow> string list \<Rightarrow> failure + DeploymentState list" where
  "collect_states X D [] = Inr []"
| "collect_states X D (scope # scopes) =
     (case read_state X (st_states D scope) of
        Inr state \<Rightarrow>
          (case deployment_scope scope of
             Inl _ \<Rightarrow> Inl (Failure STATE_RESET_REQUIRED BadScope)
           | Inr _ \<Rightarrow> rbind (collect_states X D scopes) (\<lambda>states. Inr (state # states)))
      | Inl f \<Rightarrow> if code f = DEPLOYMENT_UNKNOWN then collect_states X D scopes else Inl f)"

text \<open>\<open>env_list_stop E = Some n\<close> where \<open>read_dir\<close> or its iterator fails after \<open>n\<close> entries.\<close>

definition list_deployments :: "externals \<Rightarrow> env \<Rightarrow> store \<Rightarrow> failure + DeploymentState list" where
  "list_deployments X E D =
     (case env_list_stop E of
        Some n \<Rightarrow> rbind (collect_states X D (take n (st_dirs D)))
                    (\<lambda>_. Inl (Failure DEPLOYMENT_UNKNOWN DirectoryUnlisted))
      | None \<Rightarrow> rbind (collect_states X D (st_dirs D))
                  (\<lambda>states. Inr (sort_key ds_deployment_id states)))"

section \<open>Bootstrap\<close>

record BootstrapParams =
  bp_issuer :: string
  bp_runtime :: RuntimeSurface
  bp_artifact :: ArtifactRefs
  bp_config_reference :: string
  bp_config_schema :: string
  bp_resources :: "Resource list"
  bp_current_release :: "ReleaseVersion option"

text \<open>\<open>state.active_host_operation\<close> names the given operation.\<close>

definition active_is :: "DeploymentState \<Rightarrow> string \<Rightarrow> bool" where
  "active_is s operation_id =
     (case ds_active_host_operation s of
        None \<Rightarrow> False
      | Some a \<Rightarrow> act_operation_id a = operation_id)"

definition fresh_state ::
  "string \<Rightarrow> BootstrapParams \<Rightarrow> string \<Rightarrow> HealthRecord \<Rightarrow> time \<Rightarrow> ConfigState \<Rightarrow> DeploymentState" where
  "fresh_state deployment_id params operation_id health now config =
     \<lparr>ds_schema = DEPLOYMENT_STATE_SCHEMA,
      ds_deployment_id = deployment_id,
      ds_issuer = bp_issuer params,
      ds_runtime = bp_runtime params,
      ds_artifact = bp_artifact params,
      ds_config = config,
      ds_resources = bp_resources params,
      ds_local_health = health,
      ds_applied_migration = None,
      ds_active_host_operation = Some \<lparr>act_operation_id = operation_id, act_applied_at = now\<rparr>,
      ds_current_release = bp_current_release params,
      ds_previous_release = None,
      ds_previous_config_snapshot = None\<rparr>"

text \<open>The part of \<open>bootstrap_with_health\<close> after the existing state was found absent.\<close>

definition bootstrap_fresh ::
  "externals \<Rightarrow> env \<Rightarrow> string \<Rightarrow> BootstrapParams \<Rightarrow> string \<Rightarrow> HealthRecord \<Rightarrow> store
   \<Rightarrow> (failure + DeploymentState) \<times> store" where
  "bootstrap_fresh X E deployment_id params operation_id health D =
     (case list_deployments X E D of
        Inl f \<Rightarrow> (Inl f, D)
      | Inr states \<Rightarrow>
     (case find (\<lambda>s. rt_port (ds_runtime s) = rt_port (bp_runtime params)) states of
        Some owner \<Rightarrow>
          (Inl (Failure HOST_ERR_OPERATION_INVALID
                  (PortReserved (rt_port (bp_runtime params)) (ds_deployment_id owner))), D)
      | None \<Rightarrow>
     (case deployment_scope deployment_id of
        Inl _ \<Rightarrow> (Inl (Failure DEPLOYMENT_UNKNOWN BadScope), D)
      | Inr scope \<Rightarrow>
     (case ConfigState_seed 1 (bp_config_reference params) (bp_config_schema params) of
        Inl v \<Rightarrow> (Inl (Failure HOST_ERR_OPERATION_INVALID (Rejected_by v)), D)
      | Inr config \<Rightarrow>
     (let state = fresh_state deployment_id params operation_id health (env_now E) config
      in case DeploymentState_validate X state of
           Inl v \<Rightarrow> (Inl (Failure HOST_ERR_OPERATION_INVALID (Rejected_by v)), D)
         | Inr _ \<Rightarrow> persist_exact E scope state D)))))"

definition bootstrap_with_health ::
  "externals \<Rightarrow> env \<Rightarrow> string \<Rightarrow> BootstrapParams \<Rightarrow> string \<Rightarrow> HealthRecord \<Rightarrow> store
   \<Rightarrow> (failure + DeploymentState) \<times> store" where
  "bootstrap_with_health X E deployment_id params operation_id health D =
     (if env_ports_held E then (Inl (Failure DEPLOYMENT_UNKNOWN LockUnavailable), D)
      else case rbind (lock_path deployment_id) (acquire_state_lock (env_held E)) of
        Inl f \<Rightarrow> (Inl f, D)
      | Inr _ \<Rightarrow>
     (case load_existing X D deployment_id of
        Inr existing \<Rightarrow>
          (if active_is existing operation_id then
             (if health_healthy (ds_local_health existing) = health_healthy health
              then (Inr existing, D)
              else (Inl (Failure DEPLOYMENT_EXISTS IncompleteState), D))
           else (Inl (Failure DEPLOYMENT_EXISTS (StateExists (cfg_revision (ds_config existing)))), D))
      | Inl f \<Rightarrow>
          if code f = DEPLOYMENT_UNKNOWN
          then bootstrap_fresh X E deployment_id params operation_id health D
          else (Inl f, D)))"

definition bootstrap ::
  "externals \<Rightarrow> env \<Rightarrow> string \<Rightarrow> BootstrapParams \<Rightarrow> string \<Rightarrow> store
   \<Rightarrow> (failure + DeploymentState) \<times> store" where
  "bootstrap X E deployment_id params operation_id D =
     bootstrap_with_health X E deployment_id params operation_id
       \<lparr>health_healthy = False,
        health_summary = ''bootstrapped; runtime health not yet observed'',
        health_checked_at = env_now E\<rparr> D"

definition bootstrap_healthy ::
  "externals \<Rightarrow> env \<Rightarrow> string \<Rightarrow> BootstrapParams \<Rightarrow> string \<Rightarrow> store
   \<Rightarrow> (failure + DeploymentState) \<times> store" where
  "bootstrap_healthy X E deployment_id params operation_id D =
     bootstrap_with_health X E deployment_id params operation_id
       \<lparr>health_healthy = True,
        health_summary = ''local readiness probe passed after clean install'',
        health_checked_at = env_now E\<rparr> D"

end
