(* ===== verification/StateMutations.thy ===== *)
theory StateMutations
  imports StateStore
begin

text \<open>
  The compare-and-swap mutations of \<open>TargetStateStore\<close>: apply-config, the migration fence,
  update, recovery and rollback, and the removal of a deployment.

  Each handler takes the state lock, loads the live document, decides, and persists. The
  decision is a \<open>_step\<close> function on the loaded document; \<open>run_step\<close> is the frame every handler
  of the source repeats.
\<close>

section \<open>The frame of a mutation\<close>

datatype mutation = Replay | Commit DeploymentState

definition with_live_state ::
  "externals \<Rightarrow> env \<Rightarrow> string \<Rightarrow> store \<Rightarrow> (DeploymentState \<Rightarrow> (failure + 'a) \<times> store)
   \<Rightarrow> (failure + 'a) \<times> store" where
  "with_live_state X E deployment_id D k =
     (case rbind (lock_path deployment_id) (acquire_state_lock (env_held E)) of
        Inl f \<Rightarrow> (Inl f, D)
      | Inr _ \<Rightarrow>
     (case load_existing X D deployment_id of
        Inl f \<Rightarrow> (Inl f, D)
      | Inr state \<Rightarrow> k state))"

definition run_step ::
  "externals \<Rightarrow> env \<Rightarrow> string \<Rightarrow> (DeploymentState \<Rightarrow> failure + mutation) \<Rightarrow> store
   \<Rightarrow> (failure + DeploymentState) \<times> store" where
  "run_step X E deployment_id step D =
     with_live_state X E deployment_id D (\<lambda>state.
       case step state of
         Inl f \<Rightarrow> (Inl f, D)
       | Inr Replay \<Rightarrow> (Inr state, D)
       | Inr (Commit state') \<Rightarrow>
           (case deployment_scope deployment_id of
              Inl _ \<Rightarrow> (Inl (Failure DEPLOYMENT_UNKNOWN BadScope), D)
            | Inr scope \<Rightarrow> persist_exact E scope state' D))"

definition stale :: "u64 \<Rightarrow> DeploymentState \<Rightarrow> failure" where
  "stale expected s =
     Failure CONFIG_REVISION_MISMATCH (StaleRevision expected (cfg_revision (ds_config s)))"

definition record_operation :: "string \<Rightarrow> time \<Rightarrow> DeploymentState \<Rightarrow> DeploymentState" where
  "record_operation operation_id now s =
     s\<lparr>ds_active_host_operation := Some \<lparr>act_operation_id = operation_id, act_applied_at = now\<rparr>\<rparr>"

definition mark_healthy :: "string \<Rightarrow> time \<Rightarrow> DeploymentState \<Rightarrow> DeploymentState" where
  "mark_healthy summary now s =
     s\<lparr>ds_local_health := \<lparr>health_healthy = True, health_summary = summary, health_checked_at = now\<rparr>\<rparr>"

text \<open>\<open>if let Some((reference, schema)) = config { state.config.advance(..)? }\<close>\<close>

definition advance_config ::
  "(string \<times> string) option \<Rightarrow> DeploymentState \<Rightarrow> failure + DeploymentState" where
  "advance_config config s =
     (case config of
        None \<Rightarrow> Inr s
      | Some (reference, schema) \<Rightarrow>
          (case ConfigState_advance (ds_config s) reference schema of
             Inl v \<Rightarrow> Inl (Failure CONFIG_REVISION_MISMATCH (Rejected_by v))
           | Inr c \<Rightarrow> Inr (s\<lparr>ds_config := c\<rparr>)))"

section \<open>apply-config\<close>

definition apply_config_step ::
  "string \<Rightarrow> string \<Rightarrow> u64 \<Rightarrow> string \<Rightarrow> time \<Rightarrow> DeploymentState \<Rightarrow> failure + mutation" where
  "apply_config_step reference schema expected_revision operation_id now s =
     (if active_is s operation_id then Inr Replay
      else if cfg_revision (ds_config s) \<noteq> expected_revision then Inl (stale expected_revision s)
      else rbind (advance_config (Some (reference, schema)) s)
             (\<lambda>s'. Inr (Commit (record_operation operation_id now s'))))"

definition apply_config ::
  "externals \<Rightarrow> env \<Rightarrow> string \<Rightarrow> u64 \<Rightarrow> string \<Rightarrow> string \<Rightarrow> string \<Rightarrow> store
   \<Rightarrow> (failure + ConfigState) \<times> store" where
  "apply_config X E deployment_id expected_revision reference schema operation_id D =
     (case run_step X E deployment_id
             (apply_config_step reference schema expected_revision operation_id (env_now E)) D of
        (r, D') \<Rightarrow> (rbind r (\<lambda>s. Inr (ds_config s)), D'))"

section \<open>The migration fence\<close>

definition record_migration_step ::
  "externals \<Rightarrow> string \<Rightarrow> u64 \<Rightarrow> string \<Rightarrow> time \<Rightarrow> DeploymentState \<Rightarrow> failure + mutation" where
  "record_migration_step X target_artifact expected_revision operation_id now s =
     (if cfg_revision (ds_config s) \<noteq> expected_revision then Inl (stale expected_revision s)
      else
        (let candidate = \<lparr>mig_operation_id = operation_id, mig_target_artifact = target_artifact,
                          mig_applied_at = now\<rparr>
         in case ds_applied_migration s of
              Some existing \<Rightarrow>
                if mig_operation_id existing = operation_id
                   \<and> mig_target_artifact existing = target_artifact
                then Inr Replay
                else Inl (Failure ROLLBACK_RECOVERY_REQUIRED ForeignMigration)
            | None \<Rightarrow>
                (let s' = s\<lparr>ds_applied_migration := Some candidate\<rparr>
                 in case DeploymentState_validate X s' of
                      Inl v \<Rightarrow> Inl (Failure HOST_ERR_OPERATION_INVALID (Rejected_by v))
                    | Inr _ \<Rightarrow> Inr (Commit s'))))"

definition record_migration_applied ::
  "externals \<Rightarrow> env \<Rightarrow> string \<Rightarrow> u64 \<Rightarrow> string \<Rightarrow> string \<Rightarrow> store \<Rightarrow> (failure + unit) \<times> store" where
  "record_migration_applied X E deployment_id expected_revision operation_id target_artifact D =
     (case run_step X E deployment_id
             (record_migration_step X target_artifact expected_revision operation_id (env_now E)) D of
        (r, D') \<Rightarrow> (rbind r (\<lambda>_. Inr ()), D'))"

section \<open>Update\<close>

record UpdateCommit =
  up_config_snapshot :: "string option"
  up_artifact :: string
  up_release :: "ReleaseVersion option"
  up_config :: "(string \<times> string) option"
  up_operation_id :: string

definition clear_previous :: "DeploymentState \<Rightarrow> DeploymentState" where
  "clear_previous s =
     s\<lparr>ds_artifact := (ds_artifact s)\<lparr>art_previous := None\<rparr>,
       ds_previous_release := None,
       ds_previous_config_snapshot := None\<rparr>"

text \<open>The generation swap of \<open>apply_update_healthy_from_live\<close>, guarded by its conditions.\<close>

definition swap_generation :: "UpdateCommit \<Rightarrow> bool \<Rightarrow> DeploymentState \<Rightarrow> DeploymentState" where
  "swap_generation u recorded_current_was_live s =
     (let artifact_changed = (art_current (ds_artifact s) \<noteq> Some (up_artifact u))
      in if artifact_changed \<or> up_config u \<noteq> None then
           (let s' =
              (if recorded_current_was_live \<and> ds_applied_migration s = None then
                 s\<lparr>ds_artifact := \<lparr>art_current = None, art_previous = art_current (ds_artifact s)\<rparr>,
                   ds_previous_release := ds_current_release s,
                   ds_current_release := None,
                   ds_previous_config_snapshot := up_config_snapshot u\<rparr>
               else clear_previous s)
            in s'\<lparr>ds_artifact := (ds_artifact s')\<lparr>art_current := Some (up_artifact u)\<rparr>\<rparr>)
         else s)"

definition apply_update_step ::
  "UpdateCommit \<Rightarrow> bool \<Rightarrow> u64 \<Rightarrow> string \<Rightarrow> time \<Rightarrow> DeploymentState \<Rightarrow> failure + mutation" where
  "apply_update_step u recorded_current_was_live expected_revision operation_id now s =
     (if active_is s operation_id then Inr Replay
      else if cfg_revision (ds_config s) \<noteq> expected_revision then Inl (stale expected_revision s)
      else case first_error
             [map_err Rule (validate_identifier (up_artifact u) 256 ''artifact reference''),
              on_some (up_release u) ReleaseVersion_validate] of
        Inl v \<Rightarrow> Inl (Failure HOST_ERR_OPERATION_INVALID (Rejected_by v))
      | Inr _ \<Rightarrow>
     (case (case ds_applied_migration s of
              None \<Rightarrow> Inr s
            | Some migration \<Rightarrow>
                if mig_operation_id migration \<noteq> operation_id
                   \<or> mig_target_artifact migration \<noteq> up_artifact u
                then Inl (Failure ROLLBACK_RECOVERY_REQUIRED MigrationMismatch)
                else Inr (clear_previous s)) of
        Inl f \<Rightarrow> Inl f
      | Inr s1 \<Rightarrow>
          rbind (advance_config (up_config u)
                   ((swap_generation u recorded_current_was_live s1)
                      \<lparr>ds_current_release := up_release u, ds_applied_migration := None\<rparr>))
            (\<lambda>s2. Inr (Commit
               (mark_healthy ''local readiness probe passed after update'' now
                  (record_operation operation_id now s2))))))"

definition apply_update_healthy_from_live ::
  "externals \<Rightarrow> env \<Rightarrow> string \<Rightarrow> u64 \<Rightarrow> UpdateCommit \<Rightarrow> bool \<Rightarrow> store
   \<Rightarrow> (failure + DeploymentState) \<times> store" where
  "apply_update_healthy_from_live X E deployment_id expected_revision u live D =
     run_step X E deployment_id
       (apply_update_step u live expected_revision (up_operation_id u) (env_now E)) D"

definition apply_update_healthy ::
  "externals \<Rightarrow> env \<Rightarrow> string \<Rightarrow> u64 \<Rightarrow> UpdateCommit \<Rightarrow> store
   \<Rightarrow> (failure + DeploymentState) \<times> store" where
  "apply_update_healthy X E deployment_id expected_revision u D =
     apply_update_healthy_from_live X E deployment_id expected_revision u True D"

section \<open>Recovery\<close>

datatype ArtifactReference =
    Oci string string
  | HostBinary string string
  | UnknownArtifact

record RecoveryFacts =
  rf_operation_id :: string
  rf_artifact :: ArtifactReference
  rf_release :: ReleaseVersion
  rf_config_schema :: string

definition canonical_recovery_artifact :: "ArtifactReference \<Rightarrow> failure + string" where
  "canonical_recovery_artifact artifact =
     rbind (case artifact of
              Oci _ digest \<Rightarrow>
                (case strip_prefix ''sha256:'' digest of
                   None \<Rightarrow> Inl (Failure HOST_ERR_OPERATION_INVALID RecoveryArtifactNotSha256)
                 | Some d \<Rightarrow> Inr d)
            | HostBinary _ sha256 \<Rightarrow> Inr sha256
            | UnknownArtifact \<Rightarrow> Inl (Failure HOST_ERR_OPERATION_INVALID RecoveryArtifactUnknown))
       (\<lambda>digest.
          if \<not> valid_lower_hex_sha256 digest
          then Inl (Failure HOST_ERR_OPERATION_INVALID RecoveryArtifactDigest)
          else Inr (''sha256:'' @ digest))"

definition apply_recovery_step ::
  "externals \<Rightarrow> RecoveryFacts \<Rightarrow> u64 \<Rightarrow> string \<Rightarrow> time \<Rightarrow> DeploymentState \<Rightarrow> failure + mutation" where
  "apply_recovery_step X facts expected_revision operation_id now s =
     (if active_is s operation_id then Inr Replay
      else if cfg_revision (ds_config s) \<noteq> expected_revision then Inl (stale expected_revision s)
      else if rf_operation_id facts \<noteq> operation_id
        then Inl (Failure HOST_ERR_OPERATION_INVALID RecoveryFactsForeign)
      else case ReleaseVersion_validate (rf_release facts) of
        Inl v \<Rightarrow> Inl (Failure HOST_ERR_OPERATION_INVALID (Rejected_by v))
      | Inr _ \<Rightarrow>
     rbind (canonical_recovery_artifact (rf_artifact facts)) (\<lambda>new_current.
     rbind (advance_config (Some (cfg_reference (ds_config s), rf_config_schema facts))
              ((clear_previous s)
                 \<lparr>ds_artifact := \<lparr>art_current = Some new_current, art_previous = None\<rparr>,
                  ds_current_release := Some (rf_release facts),
                  ds_applied_migration := None\<rparr>)) (\<lambda>s2.
     (let s3 = record_operation operation_id now s2
      in case DeploymentState_validate X s3 of
           Inl v \<Rightarrow> Inl (Failure HOST_ERR_OPERATION_INVALID (Rejected_by v))
         | Inr _ \<Rightarrow> Inr (Commit s3)))))"

definition apply_recovery ::
  "externals \<Rightarrow> env \<Rightarrow> string \<Rightarrow> u64 \<Rightarrow> RecoveryFacts \<Rightarrow> string \<Rightarrow> store
   \<Rightarrow> (failure + DeploymentState) \<times> store" where
  "apply_recovery X E deployment_id expected_revision facts operation_id D =
     run_step X E deployment_id
       (apply_recovery_step X facts expected_revision operation_id (env_now E)) D"

section \<open>Rollback\<close>

definition apply_rollback_step ::
  "(string \<times> string) option \<Rightarrow> u64 \<Rightarrow> string \<Rightarrow> time \<Rightarrow> DeploymentState \<Rightarrow> failure + mutation" where
  "apply_rollback_step config expected_revision operation_id now s =
     (if active_is s operation_id then Inr Replay
      else if cfg_revision (ds_config s) \<noteq> expected_revision then Inl (stale expected_revision s)
      else if ds_applied_migration s \<noteq> None
        then Inl (Failure ROLLBACK_RECOVERY_REQUIRED MigrationApplied)
      else case art_previous (ds_artifact s) of
        None \<Rightarrow> Inl (Failure ROLLBACK_UNAVAILABLE NoPreviousArtifact)
      | Some previous \<Rightarrow>
          rbind (advance_config config
                   (s\<lparr>ds_artifact := \<lparr>art_current = Some previous,
                                     art_previous = art_current (ds_artifact s)\<rparr>,
                      ds_current_release := ds_previous_release s,
                      ds_previous_release := ds_current_release s,
                      ds_previous_config_snapshot := map_option (\<lambda>_. operation_id) config\<rparr>))
            (\<lambda>s2. Inr (Commit
               (mark_healthy ''local readiness probe passed after rollback'' now
                  (record_operation operation_id now s2)))))"

definition apply_rollback_healthy ::
  "externals \<Rightarrow> env \<Rightarrow> string \<Rightarrow> u64 \<Rightarrow> (string \<times> string) option \<Rightarrow> string \<Rightarrow> store
   \<Rightarrow> (failure + DeploymentState) \<times> store" where
  "apply_rollback_healthy X E deployment_id expected_revision config operation_id D =
     run_step X E deployment_id
       (apply_rollback_step config expected_revision operation_id (env_now E)) D"

section \<open>Removal\<close>

text \<open>\<open>sha\<close> stands for the SHA-256 of the bytes of a state file, in hexadecimal.\<close>

definition read_uninstall_completion ::
  "completion_file option \<Rightarrow> failure + UninstallCompletion option" where
  "read_uninstall_completion path =
     (case path of
        None \<Rightarrow> Inr None
      | Some CompletionUnsafe \<Rightarrow> Inl (Failure STATE_RESET_REQUIRED CompletionUnreadable)
      | Some CompletionUnparsable \<Rightarrow> Inl (Failure STATE_RESET_REQUIRED CompletionUnreadable)
      | Some (CompletionDoc c) \<Rightarrow>
          if uc_schema c \<noteq> 1 \<or> \<not> valid_lower_hex_sha256 (uc_state_sha256 c)
          then Inl (Failure STATE_RESET_REQUIRED CompletionInvalid)
          else Inr (Some c))"

definition write_uninstall_completion ::
  "env \<Rightarrow> string \<Rightarrow> string \<Rightarrow> string \<Rightarrow> string \<Rightarrow> u64 \<Rightarrow> store \<Rightarrow> (failure + unit) \<times> store" where
  "write_uninstall_completion E scope state_sha256 deployment_id operation_id revision D =
     (case atomic_write (env_commit E) scope
             (CompletionDoc \<lparr>uc_schema = 1, uc_deployment_id = deployment_id,
                             uc_operation_id = operation_id, uc_revision = revision,
                             uc_state_sha256 = state_sha256\<rparr>) (st_completions D) of
        (ok, completions) \<Rightarrow>
          (require ok (Failure DEPLOYMENT_UNKNOWN PersistFailed),
           D\<lparr>st_completions := completions\<rparr>))"

definition completion_matches ::
  "UninstallCompletion option \<Rightarrow> string \<Rightarrow> u64 \<Rightarrow> string \<Rightarrow> bool" where
  "completion_matches completion deployment_id expected_revision operation_id =
     (case completion of
        None \<Rightarrow> False
      | Some c \<Rightarrow>
          uc_deployment_id c = deployment_id
          \<and> uc_operation_id c = operation_id
          \<and> uc_revision c = expected_revision)"

definition remove_state_file :: "commit \<Rightarrow> string \<Rightarrow> store \<Rightarrow> (failure + unit) \<times> store" where
  "remove_state_file outcome scope D =
     (case remove_file_durable outcome scope (st_states D) of
        (ok, states) \<Rightarrow>
          (require ok (Failure DEPLOYMENT_UNKNOWN RemoveFailed), D\<lparr>st_states := states\<rparr>))"

definition remove_deployment ::
  "externals \<Rightarrow> (state_file \<Rightarrow> string) \<Rightarrow> env \<Rightarrow> string \<Rightarrow> u64 \<Rightarrow> string \<Rightarrow> store
   \<Rightarrow> (failure + unit) \<times> store" where
  "remove_deployment X sha E deployment_id expected_revision operation_id D =
     (case deployment_scope deployment_id of
        Inl _ \<Rightarrow> (Inl (Failure DEPLOYMENT_UNKNOWN BadScope), D)
      | Inr scope \<Rightarrow>
     (case rbind (lock_path deployment_id) (acquire_state_lock (env_held E)) of
        Inl f \<Rightarrow> (Inl f, D)
      | Inr _ \<Rightarrow>
     (case st_states D scope of
        None \<Rightarrow>
          (case read_uninstall_completion (st_completions D scope) of
             Inl f \<Rightarrow> (Inl f, D)
           | Inr completion \<Rightarrow>
               if completion_matches completion deployment_id expected_revision operation_id
               then (Inr (), D) else (Inl (unreadable_state True), D))
      | Some bytes \<Rightarrow>
     (if refused_file X bytes then (Inl (unreadable_state False), D)
      else case read_deployment_state X bytes of
        Inl e \<Rightarrow> (Inl (invalid_state e), D)
      | Inr state \<Rightarrow>
     (if cfg_revision (ds_config state) \<noteq> expected_revision then (Inl (stale expected_revision state), D)
      else case write_uninstall_completion E scope (sha bytes) deployment_id operation_id
                  (cfg_revision (ds_config state)) D of
        (Inl f, D1) \<Rightarrow> (Inl f, D1)
      | (Inr _, D1) \<Rightarrow> remove_state_file (env_commit_2 E) scope D1)))))"

definition converge_uninstall_completion ::
  "(state_file \<Rightarrow> string) \<Rightarrow> env \<Rightarrow> string \<Rightarrow> u64 \<Rightarrow> string \<Rightarrow> store \<Rightarrow> (failure + bool) \<times> store" where
  "converge_uninstall_completion sha E deployment_id expected_revision operation_id D =
     (case deployment_scope deployment_id of
        Inl _ \<Rightarrow> (Inl (Failure DEPLOYMENT_UNKNOWN BadScope), D)
      | Inr scope \<Rightarrow>
     (case rbind (lock_path deployment_id) (acquire_state_lock (env_held E)) of
        Inl f \<Rightarrow> (Inl f, D)
      | Inr _ \<Rightarrow>
     (case read_uninstall_completion (st_completions D scope) of
        Inl f \<Rightarrow> (Inl f, D)
      | Inr None \<Rightarrow> (Inr False, D)
      | Inr (Some completion) \<Rightarrow>
     (if \<not> completion_matches (Some completion) deployment_id expected_revision operation_id
      then (Inr False, D)
      else case st_states D scope of
        None \<Rightarrow> (Inr True, D)
      | Some bytes \<Rightarrow>
     (if \<not> env_hash_readable E then (Inl (Failure STATE_RESET_REQUIRED HashFailed), D)
      else if sha bytes = uc_state_sha256 completion then
        (case remove_state_file (env_commit_2 E) scope D of
           (Inl f, D1) \<Rightarrow> (Inl f, D1)
         | (Inr _, D1) \<Rightarrow> (Inr True, D1))
      else (Inr True, D))))))"

end
