(* ===== verification/StateProofs.thy ===== *)
theory StateProofs
  imports StateMutations
begin

text \<open>
  Correctness of the deployment-state store: the contract every compare-and-swap mutation meets,
  what follows from it for the handlers, and the invariant of every reachable store.
\<close>

section \<open>Reading and persisting\<close>

lemma load_existing_ok:
  "load_existing X D d = Inr s \<longleftrightarrow>
     deployment_scope d = Inr d \<and> read_state X (st_states D d) = Inr s"
  by (auto simp: load_existing_def rbind_Inr_iff deployment_scope_ok)

lemma read_state_ok:
  "read_state X p = Inr s \<longleftrightarrow>
     (\<exists>f. p = Some f \<and> \<not> refused_file X f \<and> read_deployment_state X f = Inr s)"
  by (auto simp: read_state_def unreadable_state_def split: option.splits)

lemma read_state_valid: "read_state X p = Inr s \<Longrightarrow> state_ok X s"
  by (auto simp: read_state_ok read_deployment_state_ok)

text \<open>A document fits when the reader's bound admits the bytes \<open>persist\<close> writes for it.\<close>

definition state_fits :: "externals \<Rightarrow> DeploymentState \<Rightarrow> bool" where
  "state_fits X s \<longleftrightarrow> state_bytes X s \<le> MAX_STATE_BYTES"

lemma refused_file_simps [simp]:
  "refused_file X (StateDoc s) \<longleftrightarrow> \<not> state_fits X s"
  "refused_file X (LegacyDoc n v) \<longleftrightarrow> False"
  "refused_file X NoSchemaDoc \<longleftrightarrow> False"
  "refused_file X UnsafeFile"
  by (auto simp: refused_file_def oversized_def state_fits_def)

lemma read_state_doc [simp]:
  "read_state X (Some (StateDoc s)) = Inr s' \<longleftrightarrow> s' = s \<and> state_ok X s \<and> state_fits X s"
  by (auto simp: read_state_ok)

lemma read_state_oversized:
  "\<not> state_fits X s \<Longrightarrow> read_state X (Some (StateDoc s)) = Inl (unreadable_state False)"
  by (simp add: read_state_def)

lemma persist_store:
  "snd (persist E scope s D) =
     (ensure_dir scope D)\<lparr>st_states := snd (atomic_write (env_commit E) scope (StateDoc s) (st_states D))\<rparr>"
  by (simp add: persist_def split: prod.split)

lemma persist_result:
  "fst (persist E scope s D) =
     require (fst (atomic_write (env_commit E) scope (StateDoc s) (st_states D)))
       (Failure DEPLOYMENT_UNKNOWN PersistFailed)"
  by (simp add: persist_def split: prod.split)

lemma persist_exact_store: "snd (persist_exact E scope s D) = snd (persist E scope s D)"
  by (simp add: persist_exact_def split: prod.split)

lemma persist_exact_ok:
  assumes "fst (persist_exact E scope s D) = Inr s'"
  shows "s' = s \<and> st_states (snd (persist_exact E scope s D)) scope = Some (StateDoc s)"
proof -
  have "fst (persist E scope s D) = Inr () \<and> s' = s"
    using assms by (auto simp: persist_exact_def rbind_Inr_iff split: prod.splits)
  then show ?thesis
    using files.put_lookup [of "env_commit E" scope "StateDoc s" "st_states D"]
    by (simp add: persist_exact_store persist_store persist_result)
qed

text \<open>A persisted store holds the old or the new document, and nothing else changed.\<close>

lemma persist_exact_states:
  "st_states (snd (persist_exact E scope s D)) = st_states D
   \<or> st_states (snd (persist_exact E scope s D)) = (st_states D)(scope \<mapsto> StateDoc s)"
  using files.put_cases [of "env_commit E" scope "StateDoc s" "st_states D"]
  by (simp add: persist_exact_store persist_store)

lemma persist_exact_dirs:
  "set (st_dirs (snd (persist_exact E scope s D))) = insert scope (set (st_dirs D))"
  by (auto simp: persist_exact_store persist_store ensure_dir_def)

lemma persist_exact_completions:
  "st_completions (snd (persist_exact E scope s D)) = st_completions D"
  by (simp add: persist_exact_store persist_store ensure_dir_def)

section \<open>The shape of a run\<close>

text \<open>A handler either leaves the store alone or persists what its step committed.\<close>

lemma run_step_cases:
  obtains (unchanged) "snd (run_step X E d step D) = D"
  | (commit) s s' where "deployment_scope d = Inr d" and "read_state X (st_states D d) = Inr s"
      and "step s = Inr (Commit s')" and "run_step X E d step D = persist_exact E d s' D"
proof (cases "rbind (lock_path d) (acquire_state_lock (env_held E))")
  case (Inl f)
  then show ?thesis by (intro unchanged) (simp add: run_step_def with_live_state_def)
next
  case (Inr u)
  note lock = Inr
  show ?thesis
  proof (cases "load_existing X D d")
    case (Inl f)
    with lock show ?thesis by (intro unchanged) (simp add: run_step_def with_live_state_def)
  next
    case (Inr s)
    then have d: "deployment_scope d = Inr d" and s: "read_state X (st_states D d) = Inr s"
      by (simp_all add: load_existing_ok)
    show ?thesis
    proof (cases "step s")
      case (Inl f)
      with lock Inr show ?thesis by (intro unchanged) (simp add: run_step_def with_live_state_def)
    next
      case (Inr m)
      with lock \<open>load_existing X D d = Inr s\<close> d s show ?thesis
        by (cases m) (auto simp: run_step_def with_live_state_def intro: unchanged commit)
    qed
  qed
qed

lemma run_step_load_failure:
  "load_existing X D d = Inl f \<Longrightarrow> snd (run_step X E d step D) = D"
  by (simp add: run_step_def with_live_state_def split: sum.split)

lemma run_step_refused:
  assumes "load_existing X D d = Inr s" and "step s = Inl f"
  shows "snd (run_step X E d step D) = D \<and> (\<exists>f'. fst (run_step X E d step D) = Inl f')"
  using assms by (auto simp: run_step_def with_live_state_def split: sum.split)

text \<open>A call that gets the lock and reads the document returns what the step says.\<close>

lemma run_step_locked:
  assumes "load_existing X D d = Inr s"
    and "rbind (lock_path d) (acquire_state_lock (env_held E)) = Inr ()"
  shows "run_step X E d step D =
    (case step s of
       Inl f \<Rightarrow> (Inl f, D)
     | Inr Replay \<Rightarrow> (Inr s, D)
     | Inr (Commit s') \<Rightarrow> persist_exact E d s' D)"
proof -
  have "deployment_scope d = Inr d"
    using assms(1) by (simp add: load_existing_ok)
  with assms show ?thesis
    by (auto simp: run_step_def with_live_state_def split: sum.splits mutation.splits)
qed

section \<open>The contract of a guarded mutation\<close>

definition op_id_ok :: "string \<Rightarrow> bool" where
  "op_id_ok op \<longleftrightarrow> op \<noteq> [] \<and> length op \<le> 128"

definition revision_of :: "DeploymentState \<Rightarrow> u64" where
  "revision_of s = cfg_revision (ds_config s)"

definition port_of :: "DeploymentState \<Rightarrow> u16" where
  "port_of s = rt_port (ds_runtime s)"

text \<open>The facts no mutation may touch.\<close>

definition same_identity :: "DeploymentState \<Rightarrow> DeploymentState \<Rightarrow> bool" where
  "same_identity s s' \<longleftrightarrow>
     ds_deployment_id s' = ds_deployment_id s \<and> ds_issuer s' = ds_issuer s
     \<and> ds_runtime s' = ds_runtime s \<and> ds_resources s' = ds_resources s"

locale guarded_mutation =
  fixes X :: externals
    and step :: "u64 \<Rightarrow> string \<Rightarrow> time \<Rightarrow> DeploymentState \<Rightarrow> failure + mutation"
  assumes expected: "step e op now s = Inr (Commit s') \<Longrightarrow> revision_of s = e"
    and revision: "step e op now s = Inr (Commit s') \<Longrightarrow>
          revision_of s' = revision_of s \<or> revision_of s' = revision_of s + 1"
    and identity: "step e op now s = Inr (Commit s') \<Longrightarrow> same_identity s s'"
    and keeps_ok: "step e op now s = Inr (Commit s') \<Longrightarrow> state_ok X s \<Longrightarrow> op_id_ok op
          \<Longrightarrow> revision_of s + 1 \<noteq> 0 \<Longrightarrow> state_ok X s'"
begin

text \<open>A stale expectation never changes the store, whatever the environment does.\<close>

lemma stale_unchanged:
  assumes "read_state X (st_states D d) = Inr s" and "revision_of s \<noteq> e"
  shows "snd (run_step X E d (step e op now) D) = D"
  using assms expected by (cases rule: run_step_cases [of X E d "step e op now" D]) auto

lemma others_unchanged:
  assumes "d' \<noteq> d"
  shows "st_states (snd (run_step X E d (step e op now) D)) d' = st_states D d'"
proof (cases rule: run_step_cases [of X E d "step e op now" D])
  case unchanged
  then show ?thesis by simp
next
  case (commit s s')
  then show ?thesis using assms persist_exact_states [of E d s' D] by auto
qed

end

locale cas_mutation = guarded_mutation +
  assumes replay: "active_is s op \<Longrightarrow> step e op now s = Inr Replay"
    and records: "step e op now s = Inr (Commit s') \<Longrightarrow> active_is s' op"
begin

text \<open>
  Lost acknowledgement: once the document of an operation is published, any retry of that
  operation, under any expectation, changes nothing and answers what a load of it answers.
\<close>

lemma retry_after_publication:
  assumes "st_states D d = Some (StateDoc s')" and "active_is s' op"
  shows "snd (run_step X E d (step e op now) D) = D"
    and "rbind (lock_path d) (acquire_state_lock (env_held E)) = Inr ()
         \<Longrightarrow> fst (run_step X E d (step e op now) D) = load_existing X D d"
proof -
  have read: "t = s'" if "load_existing X D d = Inr t" for t
    using that assms(1) by (simp add: load_existing_ok)
  show "snd (run_step X E d (step e op now) D) = D"
    using assms replay by (cases rule: run_step_cases [of X E d "step e op now" D]) auto
  show "fst (run_step X E d (step e op now) D) = load_existing X D d"
    if lock: "rbind (lock_path d) (acquire_state_lock (env_held E)) = Inr ()"
  proof (cases "load_existing X D d")
    case (Inl f)
    with lock show ?thesis by (simp add: run_step_def with_live_state_def)
  next
    case (Inr t)
    then show ?thesis
      using run_step_locked [OF Inr lock] replay [OF assms(2)] read by simp
  qed
qed

text \<open>
  However the first attempt ended, a store it changed holds a document that records the operation.
\<close>

lemma changed_records:
  assumes "st_states (snd (run_step X E d (step e op now) D)) \<noteq> st_states D"
  obtains s s' where "read_state X (st_states D d) = Inr s"
    and "step e op now s = Inr (Commit s')" and "active_is s' op"
    and "st_states (snd (run_step X E d (step e op now) D)) = (st_states D)(d \<mapsto> StateDoc s')"
proof (cases rule: run_step_cases [of X E d "step e op now" D])
  case unchanged
  with assms show ?thesis by simp
next
  case (commit s s')
  then have "st_states (snd (run_step X E d (step e op now) D)) = (st_states D)(d \<mapsto> StateDoc s')"
    using assms persist_exact_states [of E d s' D] by auto
  with commit that records show ?thesis by blast
qed

end

section \<open>The handlers meet the contract\<close>

lemma advance_config_ok:
  "advance_config config s = Inr s' \<Longrightarrow>
     \<exists>c. s' = s\<lparr>ds_config := c\<rparr>
       \<and> (cfg_revision c = revision_of s \<or> cfg_revision c = revision_of s + 1)"
proof (cases config)
  case None
  assume "advance_config config s = Inr s'"
  with None show ?thesis
    by (intro exI [of _ "ds_config s"]) (simp add: advance_config_def revision_of_def)
next
  case (Some rs)
  assume "advance_config config s = Inr s'"
  with Some show ?thesis
    by (cases rs) (auto simp: advance_config_def advance_ok revision_of_def split: sum.splits)
qed

lemma advance_config_validates:
  assumes "advance_config config s = Inr s'" and "state_ok X s" and "revision_of s + 1 \<noteq> 0"
  shows "state_ok X s'"
proof (cases config)
  case None
  with assms show ?thesis by (simp add: advance_config_def)
next
  case (Some rs)
  with assms show ?thesis
    by (cases rs)
       (auto simp: advance_config_def advance_ok revision_of_def state_ok_iff split: sum.splits)
qed

lemma record_operation_simps [simp]:
  "active_is (record_operation op now s) op"
  "revision_of (record_operation op now s) = revision_of s"
  "same_identity s0 (record_operation op now s) = same_identity s0 s"
  by (simp_all add: record_operation_def active_is_def revision_of_def same_identity_def)

lemma mark_healthy_simps [simp]:
  "active_is (mark_healthy t now s) op = active_is s op"
  "revision_of (mark_healthy t now s) = revision_of s"
  "same_identity s0 (mark_healthy t now s) = same_identity s0 s"
  by (simp_all add: mark_healthy_def active_is_def revision_of_def same_identity_def)

lemma record_operation_ok: "state_ok X s \<Longrightarrow> op_id_ok op \<Longrightarrow> state_ok X (record_operation op now s)"
  by (simp add: state_ok_iff record_operation_def op_id_ok_def)

lemma mark_healthy_ok: "state_ok X s \<Longrightarrow> length t \<le> 512 \<Longrightarrow> state_ok X (mark_healthy t now s)"
  by (simp add: state_ok_iff mark_healthy_def)

text \<open>The facts of a commit besides validity follow from the shape of the record updates.\<close>

lemmas commit_simps = rbind_Inr_iff revision_of_def same_identity_def record_operation_def
  mark_healthy_def active_is_def clear_previous_def swap_generation_def Let_def

interpretation apply_config: cas_mutation X "apply_config_step reference schema"
proof unfold_locales
  show "state_ok X s'"
    if "apply_config_step reference schema e op now s = Inr (Commit s')" and "state_ok X s"
      and "op_id_ok op" and "revision_of s + 1 \<noteq> 0" for e op now s s'
    using that
    by (auto simp: apply_config_step_def rbind_Inr_iff split: if_splits
             intro!: record_operation_ok elim: advance_config_validates)
qed (auto simp: apply_config_step_def commit_simps dest!: advance_config_ok split: if_splits)

interpretation record_migration: guarded_mutation X "record_migration_step X target"
  by unfold_locales
     (auto simp: record_migration_step_def commit_simps state_ok_def
           split: if_splits option.splits sum.splits)

lemma clear_previous_ok: "state_ok X s \<Longrightarrow> state_ok X (clear_previous s)"
  by (simp add: state_ok_iff clear_previous_def ArtifactRefs_validate_def)

lemma swap_generation_ok:
  assumes "state_ok X s" and "validate_identifier (up_artifact u) 256 ''artifact reference'' = Inr ()"
  shows "state_ok X (swap_generation u live s)"
  using assms
  by (auto simp: state_ok_iff swap_generation_def clear_previous_def ArtifactRefs_validate_def Let_def)

lemma update_release_ok:
  "state_ok X s \<Longrightarrow> on_some r ReleaseVersion_validate = Inr () \<Longrightarrow>
     state_ok X (s\<lparr>ds_current_release := r, ds_applied_migration := None\<rparr>)"
  by (simp add: state_ok_iff)

lemma apply_update_replay: "active_is s op \<Longrightarrow> apply_update_step u live e op now s = Inr Replay"
  by (simp add: apply_update_step_def)

lemma apply_update_step_commit:
  assumes "apply_update_step u live e op now s = Inr (Commit s')"
  obtains s1 s2 where "\<not> active_is s op" and "revision_of s = e"
    and "validate_identifier (up_artifact u) 256 ''artifact reference'' = Inr ()"
    and "on_some (up_release u) ReleaseVersion_validate = Inr ()"
    and "s1 = (if ds_applied_migration s = None then s else clear_previous s)"
    and "\<And>m. ds_applied_migration s = Some m \<Longrightarrow>
           mig_operation_id m = op \<and> mig_target_artifact m = up_artifact u"
    and "advance_config (up_config u)
           ((swap_generation u live s1)\<lparr>ds_current_release := up_release u, ds_applied_migration := None\<rparr>)
         = Inr s2"
    and "s' = mark_healthy ''local readiness probe passed after update'' now (record_operation op now s2)"
  using assms
  by (auto simp: apply_update_step_def rbind_Inr_iff revision_of_def first_error.simps(2)
           split: if_splits sum.splits option.splits)

interpretation apply_update: cas_mutation X "apply_update_step u live"
proof unfold_locales
  show "state_ok X s'"
    if step: "apply_update_step u live e op now s = Inr (Commit s')" and ok: "state_ok X s"
      and op: "op_id_ok op" and room: "revision_of s + 1 \<noteq> 0" for e op now s s'
    using step
  proof (rule apply_update_step_commit)
    fix s1 s2
    assume art: "validate_identifier (up_artifact u) 256 ''artifact reference'' = Inr ()"
      and rel: "on_some (up_release u) ReleaseVersion_validate = Inr ()"
      and s1: "s1 = (if ds_applied_migration s = None then s else clear_previous s)"
      and s2: "advance_config (up_config u) ((swap_generation u live s1)
                 \<lparr>ds_current_release := up_release u, ds_applied_migration := None\<rparr>) = Inr s2"
      and s': "s' = mark_healthy ''local readiness probe passed after update'' now
                      (record_operation op now s2)"
    have "state_ok X s1" and "revision_of s1 = revision_of s"
      using ok s1 clear_previous_ok by (auto simp: clear_previous_def revision_of_def)
    then have "state_ok X s2"
      using s2 room swap_generation_ok [OF _ art, of X s1 live] update_release_ok [OF _ rel]
      by (elim advance_config_validates)
         (auto simp: swap_generation_def clear_previous_def revision_of_def Let_def)
    then show ?thesis
      using op by (simp add: s' mark_healthy_ok record_operation_ok)
  qed
qed (auto elim!: apply_update_step_commit simp: commit_simps apply_update_replay [unfolded active_is_def]
          dest!: advance_config_ok split: if_splits)

lemma canonical_recovery_artifact_ok:
  "canonical_recovery_artifact a = Inr c \<Longrightarrow> \<exists>d. c = ''sha256:'' @ d \<and> valid_lower_hex_sha256 d"
  by (auto simp: canonical_recovery_artifact_def rbind_Inr_iff split: if_splits)

lemma apply_recovery_replay: "active_is s op \<Longrightarrow> apply_recovery_step X facts e op now s = Inr Replay"
  by (simp add: apply_recovery_step_def)

lemma apply_recovery_step_commit:
  assumes "apply_recovery_step X facts e op now s = Inr (Commit s')"
  obtains c s2 where "\<not> active_is s op" and "revision_of s = e" and "rf_operation_id facts = op"
    and "canonical_recovery_artifact (rf_artifact facts) = Inr c"
    and "advance_config (Some (cfg_reference (ds_config s), rf_config_schema facts))
           ((clear_previous s)
              \<lparr>ds_artifact := \<lparr>art_current = Some c, art_previous = None\<rparr>,
               ds_current_release := Some (rf_release facts), ds_applied_migration := None\<rparr>) = Inr s2"
    and "s' = record_operation op now s2" and "state_ok X s'"
  using assms
  by (auto simp: apply_recovery_step_def rbind_Inr_iff revision_of_def Let_def state_ok_def
             case_check_Inr_iff split: if_splits)

interpretation apply_recovery: cas_mutation X "apply_recovery_step X facts"
  by unfold_locales
     (auto elim!: apply_recovery_step_commit simp: commit_simps apply_recovery_replay [unfolded active_is_def]
           dest!: advance_config_ok split: if_splits)

lemma apply_rollback_replay: "active_is s op \<Longrightarrow> apply_rollback_step config e op now s = Inr Replay"
  by (simp add: apply_rollback_step_def)

lemma apply_rollback_step_commit:
  assumes "apply_rollback_step config e op now s = Inr (Commit s')"
  obtains previous s2 where "\<not> active_is s op" and "revision_of s = e"
    and "ds_applied_migration s = None" and "art_previous (ds_artifact s) = Some previous"
    and "advance_config config
           (s\<lparr>ds_artifact := \<lparr>art_current = Some previous, art_previous = art_current (ds_artifact s)\<rparr>,
              ds_current_release := ds_previous_release s,
              ds_previous_release := ds_current_release s,
              ds_previous_config_snapshot := map_option (\<lambda>_. op) config\<rparr>) = Inr s2"
    and "s' = mark_healthy ''local readiness probe passed after rollback'' now (record_operation op now s2)"
  using assms
  by (auto simp: apply_rollback_step_def rbind_Inr_iff revision_of_def
           split: if_splits option.splits)

interpretation apply_rollback: cas_mutation X "apply_rollback_step config"
proof unfold_locales
  show "state_ok X s'"
    if step: "apply_rollback_step config e op now s = Inr (Commit s')" and ok: "state_ok X s"
      and op: "op_id_ok op" and room: "revision_of s + 1 \<noteq> 0" for e op now s s'
    using step
  proof (rule apply_rollback_step_commit)
    fix previous s2
    assume prev: "art_previous (ds_artifact s) = Some previous"
      and s2: "advance_config config
           (s\<lparr>ds_artifact := \<lparr>art_current = Some previous, art_previous = art_current (ds_artifact s)\<rparr>,
              ds_current_release := ds_previous_release s,
              ds_previous_release := ds_current_release s,
              ds_previous_config_snapshot := map_option (\<lambda>_. op) config\<rparr>) = Inr s2"
      and s': "s' = mark_healthy ''local readiness probe passed after rollback'' now
                      (record_operation op now s2)"
    have "state_ok X s2"
      using s2 ok room prev
      by (elim advance_config_validates)
         (auto simp: state_ok_iff ArtifactRefs_validate_def revision_of_def)
    then show ?thesis
      using op by (simp add: s' mark_healthy_ok record_operation_ok)
  qed
qed (auto elim!: apply_rollback_step_commit simp: commit_simps apply_rollback_replay [unfolded active_is_def]
          dest!: advance_config_ok split: if_splits)

end
