(* ===== verification/StateInvariant.thy ===== *)
theory StateInvariant
  imports StateProofs
begin

text \<open>
  The step relation of a deployment-state store (any operation, under any environment: locks
  held by others, writes that fail before or after publication, calls repeated in any order) and
  the invariant that holds in every store reachable from an empty one.
\<close>

section \<open>Enumeration finds every readable document\<close>

lemma read_state_unknown:
  "read_state X p = Inl f \<Longrightarrow> code f = DEPLOYMENT_UNKNOWN \<Longrightarrow> p = None"
  by (cases p)
     (auto simp: read_state_def unreadable_state_def invalid_state_def map_err_def
           split: if_splits sum.splits)

lemma collect_states_complete:
  assumes "collect_states X D ds = Inr ss" and "d \<in> set ds" and "read_state X (st_states D d) = Inr s"
  shows "s \<in> set ss"
  using assms
  by (induction ds arbitrary: ss) (auto simp: rbind_Inr_iff split: sum.splits if_splits)

lemma collect_states_sound:
  assumes "collect_states X D ds = Inr ss" and "s \<in> set ss"
  shows "\<exists>d \<in> set ds. read_state X (st_states D d) = Inr s"
  using assms
  by (induction ds arbitrary: ss) (auto simp: rbind_Inr_iff split: sum.splits if_splits)

lemma list_deployments_complete:
  assumes "list_deployments X E D = Inr ss" and "d \<in> set (st_dirs D)"
    and "read_state X (st_states D d) = Inr s"
  shows "s \<in> set ss"
  using assms collect_states_complete by (auto simp: list_deployments_def rbind_Inr_iff split: option.splits)

lemma collect_states_reads:
  assumes "collect_states X D ds = Inr ss" and "d \<in> set ds" and "st_states D d = Some f"
  shows "\<exists>s \<in> set ss. read_state X (Some f) = Inr s"
  using assms
proof (induction ds arbitrary: ss)
  case (Cons a ds)
  then show ?case
    using read_state_unknown [of X "Some f"]
    by (auto simp: rbind_Inr_iff split: sum.splits if_splits)
qed simp

text \<open>A listing that succeeds has read every file there is.\<close>

lemma list_deployments_reads:
  assumes "list_deployments X E D = Inr ss" and "d \<in> set (st_dirs D)" and "st_states D d = Some f"
  shows "\<exists>s \<in> set ss. read_state X (Some f) = Inr s"
  using assms collect_states_reads by (fastforce simp: list_deployments_def rbind_Inr_iff split: option.splits)

lemma list_deployments_sorted:
  "list_deployments X E D = Inr ss \<Longrightarrow> sorted (map ds_deployment_id ss)"
  by (auto simp: list_deployments_def rbind_Inr_iff split: option.splits)

section \<open>What bootstrap does to a store\<close>

lemma find_None_iff2: "find P xs = None \<longleftrightarrow> (\<forall>x \<in> set xs. \<not> P x)"
  by (induction xs) auto

lemma bootstrap_fresh_cases:
  obtains (unchanged) "snd (bootstrap_fresh X E d params op health D) = D"
  | (create) states config state where "deployment_scope d = Inr d"
      and "list_deployments X E D = Inr states"
      and "\<forall>s \<in> set states. port_of s \<noteq> rt_port (bp_runtime params)"
      and "ConfigState_seed 1 (bp_config_reference params) (bp_config_schema params) = Inr config"
      and "state = fresh_state d params op health (env_now E) config" and "state_ok X state"
      and "bootstrap_fresh X E d params op health D = persist_exact E d state D"
proof (cases "snd (bootstrap_fresh X E d params op health D) = D")
  case True
  then show ?thesis by (rule unchanged)
next
  case False
  show ?thesis
  proof (cases rule: deployment_scope_cases [of d])
    case illegal
    with False show ?thesis
      by (simp add: bootstrap_fresh_def split: sum.splits option.splits)
  next
    case legal
    with False obtain states config where ls: "list_deployments X E D = Inr states"
      and free: "find (\<lambda>s. rt_port (ds_runtime s) = rt_port (bp_runtime params)) states = None"
      and seed: "ConfigState_seed 1 (bp_config_reference params) (bp_config_schema params) = Inr config"
      and ok: "state_ok X (fresh_state d params op health (env_now E) config)"
      by (auto simp: bootstrap_fresh_def Let_def state_ok_def split: sum.splits option.splits)
    show ?thesis
    proof (rule create [OF legal ls _ seed refl ok])
      show "\<forall>s \<in> set states. port_of s \<noteq> rt_port (bp_runtime params)"
        using free by (simp add: find_None_iff2 port_of_def)
      show "bootstrap_fresh X E d params op health D =
          persist_exact E d (fresh_state d params op health (env_now E) config) D"
        using ls free legal seed ok by (simp add: bootstrap_fresh_def Let_def state_ok_def)
    qed
  qed
qed

lemma bootstrap_cases:
  obtains (unchanged) "snd (bootstrap_with_health X E d params op health D) = D"
  | (create) "st_states D d = None"
      and "snd (bootstrap_with_health X E d params op health D) =
           snd (bootstrap_fresh X E d params op health D)"
proof (cases "snd (bootstrap_with_health X E d params op health D) = D")
  case True
  then show ?thesis by (rule unchanged)
next
  case False
  then have absent: "\<exists>f. load_existing X D d = Inl f \<and> code f = DEPLOYMENT_UNKNOWN"
    and eq: "snd (bootstrap_with_health X E d params op health D) =
             snd (bootstrap_fresh X E d params op health D)"
    by (auto simp: bootstrap_with_health_def split: if_splits sum.splits)
  have "deployment_scope d = Inr d"
  proof (rule bootstrap_fresh_cases [of X E d params op health D])
    assume "snd (bootstrap_fresh X E d params op health D) = D"
    with False eq show ?thesis by simp
  qed simp
  with absent have "st_states D d = None"
    by (auto simp: load_existing_def rbind_Inl_iff intro: read_state_unknown)
  with eq show ?thesis by (intro create)
qed

section \<open>The invariant\<close>

text \<open>
  Every file under a scope is a current, valid document that carries the id of its directory and
  a revision that the number \<open>n\<close> of steps so far bounds, whether or not it fits the reader's
  bound; no two documents reserve one loopback port.
\<close>

definition store_inv :: "externals \<Rightarrow> nat \<Rightarrow> store \<Rightarrow> bool" where
  "store_inv X n D \<longleftrightarrow>
     (\<forall>d f. st_states D d = Some f \<longrightarrow>
        d \<in> set (st_dirs D) \<and> deployment_scope d = Inr d
        \<and> (\<exists>s. f = StateDoc s \<and> state_ok X s \<and> ds_deployment_id s = d \<and> unat (revision_of s) \<le> n))
     \<and> (\<forall>a b s t. st_states D a = Some (StateDoc s) \<longrightarrow> st_states D b = Some (StateDoc t)
           \<longrightarrow> port_of s = port_of t \<longrightarrow> a = b)"

lemma store_inv_empty: "store_inv X 0 empty_store"
  by (simp add: store_inv_def empty_store_def)

lemma store_inv_file:
  assumes "store_inv X n D" and "st_states D d = Some f"
  obtains s where "f = StateDoc s" and "state_ok X s" and "d \<in> set (st_dirs D)"
    and "deployment_scope d = Inr d" and "ds_deployment_id s = d" and "unat (revision_of s) \<le> n"
  using assms unfolding store_inv_def by blast

lemma store_inv_read:
  assumes "store_inv X n D" and "read_state X (st_states D d) = Inr s"
  shows "st_states D d = Some (StateDoc s)" and "d \<in> set (st_dirs D)"
    and "deployment_scope d = Inr d" and "ds_deployment_id s = d" and "unat (revision_of s) \<le> n"
proof -
  obtain f where f: "st_states D d = Some f" and r: "read_state X (Some f) = Inr s"
    using assms(2) by (auto simp: read_state_ok)
  from assms(1) f have "f = StateDoc s \<and> d \<in> set (st_dirs D) \<and> deployment_scope d = Inr d
      \<and> ds_deployment_id s = d \<and> unat (revision_of s) \<le> n"
  proof (rule store_inv_file)
    fix t
    assume t: "f = StateDoc t"
    then have "t = s" using r by simp
    moreover assume "d \<in> set (st_dirs D)" "deployment_scope d = Inr d" "ds_deployment_id t = d"
      "unat (revision_of t) \<le> n"
    ultimately show ?thesis using t by simp
  qed
  with f show "st_states D d = Some (StateDoc s)" and "d \<in> set (st_dirs D)"
    and "deployment_scope d = Inr d" and "ds_deployment_id s = d" and "unat (revision_of s) \<le> n"
    by simp_all
qed

lemma store_inv_ports:
  assumes "store_inv X n D" and "st_states D a = Some (StateDoc s)"
    and "st_states D b = Some (StateDoc t)" and "port_of s = port_of t"
  shows "a = b"
  using assms unfolding store_inv_def by blast

lemma store_inv_mono: "store_inv X n D \<Longrightarrow> n \<le> m \<Longrightarrow> store_inv X m D"
  by (fastforce simp: store_inv_def intro: order_trans)

lemma store_inv_put:
  assumes inv: "store_inv X n D" and "n \<le> m" and d: "deployment_scope d = Inr d"
    and s: "state_ok X s" "ds_deployment_id s = d" "unat (revision_of s) \<le> m"
    and port: "\<And>a t. a \<noteq> d \<Longrightarrow> st_states D a = Some (StateDoc t) \<Longrightarrow> port_of t \<noteq> port_of s"
  shows "store_inv X m (snd (persist_exact E d s D))" (is "store_inv X m ?D'")
proof -
  have states: "st_states ?D' = st_states D \<or> st_states ?D' = (st_states D)(d \<mapsto> StateDoc s)"
    by (rule persist_exact_states)
  have dirs: "set (st_dirs ?D') = insert d (set (st_dirs D))"
    by (rule persist_exact_dirs)
  have inv': "store_inv X m D" using inv \<open>n \<le> m\<close> by (rule store_inv_mono)
  from states show ?thesis
  proof
    assume "st_states ?D' = st_states D"
    with inv' dirs show ?thesis by (simp add: store_inv_def)
  next
    assume new: "st_states ?D' = (st_states D)(d \<mapsto> StateDoc s)"
    show ?thesis
      unfolding store_inv_def new dirs
    proof (intro conjI allI impI)
      fix a b u v
      assume u: "((st_states D)(d \<mapsto> StateDoc s)) a = Some (StateDoc u)"
        and v: "((st_states D)(d \<mapsto> StateDoc s)) b = Some (StateDoc v)"
        and eq: "port_of u = port_of v"
      show "a = b"
      proof (cases "a = d")
        case True
        then have "u = s" using u by simp
        with True v eq port [of b v] show ?thesis by (cases "b = d") simp_all
      next
        case False
        then have a: "st_states D a = Some (StateDoc u)" using u by simp
        have "b \<noteq> d" using port [OF False a] v eq by (cases "b = d") simp_all
        with v have "st_states D b = Some (StateDoc v)" by simp
        with a show ?thesis using store_inv_ports [OF inv'] eq by blast
      qed
    qed (use inv' s d in \<open>auto simp: store_inv_def split: if_splits\<close>)
  qed
qed

lemma store_inv_del:
  assumes "store_inv X n D" and "st_states D' = (st_states D)(d := None) \<or> st_states D' = st_states D"
    and "st_dirs D' = st_dirs D"
  shows "store_inv X n D'"
  using assms(2)
proof
  assume "st_states D' = (st_states D)(d := None)"
  with assms(1,3) show ?thesis
    by (auto simp: store_inv_def split: if_splits)
qed (use assms in \<open>simp add: store_inv_def\<close>)

lemma unat_Suc_bound:
  assumes "unat (r :: u64) \<le> n" and "n < 2 ^ 64 - 1"
  shows "r + 1 \<noteq> 0" and "unat (r + 1) \<le> Suc n"
proof -
  have "unat r + 1 < 2 ^ LENGTH(64)" using assms by simp
  then have eq: "unat (r + 1) = unat r + 1"
    by (simp add: unat_add_lem [THEN iffD1])
  then show "r + 1 \<noteq> 0" by (metis add_is_0 unat_0 zero_neq_one)
  from eq assms(1) show "unat (r + 1) \<le> Suc n" by simp
qed

context guarded_mutation
begin

lemma run_keeps_inv:
  assumes inv: "store_inv X n D" and n: "n < 2 ^ 64 - 1" and op: "op_id_ok op"
  shows "store_inv X (Suc n) (snd (run_step X E d (step e op now) D))"
proof (cases rule: run_step_cases [of X E d "step e op now" D])
  case unchanged
  with store_inv_mono [OF inv, of "Suc n"] show ?thesis by simp
next
  case (commit s s')
  note read = commit(2) and c = commit(3)
  have here: "st_states D d = Some (StateDoc s)" and rev: "unat (revision_of s) \<le> n"
    and id: "ds_deployment_id s = d"
    using store_inv_read [OF inv read] by simp_all
  note room = unat_Suc_bound [OF rev n]
  have "state_ok X s'"
    using keeps_ok [OF c read_state_valid [OF read] op] room by simp
  moreover have "ds_deployment_id s' = d" and port: "port_of s' = port_of s"
    using identity [OF c] id by (auto simp: same_identity_def port_of_def)
  moreover have "unat (revision_of s') \<le> Suc n"
    using revision [OF c] rev room by auto
  moreover have "port_of t \<noteq> port_of s'" if "a \<noteq> d" "st_states D a = Some (StateDoc t)" for a t
    using store_inv_ports [OF inv that(2) here] that(1) port by auto
  ultimately show ?thesis
    unfolding commit(4) by (intro store_inv_put [OF inv _ commit(1)]) simp_all
qed

end

lemma bootstrap_keeps_inv:
  assumes inv: "store_inv X n D"
  shows "store_inv X (Suc n) (snd (bootstrap_with_health X E d params op health D))"
proof (cases rule: bootstrap_cases [of X E d params op health D])
  case unchanged
  with store_inv_mono [OF inv, of "Suc n"] show ?thesis by simp
next
  case absent: create
  show ?thesis
  proof (cases rule: bootstrap_fresh_cases [of X E d params op health D])
    case unchanged
    with absent store_inv_mono [OF inv, of "Suc n"] show ?thesis by simp
  next
    case (create states config state)
    have rev: "revision_of state = 1" and id: "ds_deployment_id state = d"
      and port: "port_of state = rt_port (bp_runtime params)"
      using create by (auto simp: fresh_state_def revision_of_def port_of_def seed_ok)
    have free: "port_of t \<noteq> port_of state" if t: "st_states D a = Some (StateDoc t)" for a t
    proof -
      have "a \<in> set (st_dirs D)" using store_inv_file [OF inv t] by blast
      then obtain t' where "t' \<in> set states" and "read_state X (Some (StateDoc t)) = Inr t'"
        using list_deployments_reads [OF create(2) _ t] by blast
      then have "t \<in> set states" by simp
      with create(3) port show ?thesis by simp
    qed
    have "unat (revision_of state) \<le> Suc n" using rev by simp
    then show ?thesis
      unfolding absent(2) create(7)
      by (intro store_inv_put [OF inv _ create(1) create(6) id]) (simp_all add: free)
  qed
qed

section \<open>Steps and reachable stores\<close>

inductive store_step :: "externals \<Rightarrow> (state_file \<Rightarrow> string) \<Rightarrow> store \<Rightarrow> store \<Rightarrow> bool"
  for X :: externals and sha :: "state_file \<Rightarrow> string" where
  step_bootstrap:
    "store_step X sha D (snd (bootstrap_with_health X E d params op health D))"
| step_apply_config:
    "op_id_ok op \<Longrightarrow> store_step X sha D (snd (apply_config X E d e reference schema op D))"
| step_record_migration:
    "op_id_ok op \<Longrightarrow> store_step X sha D (snd (record_migration_applied X E d e op target D))"
| step_apply_update:
    "op_id_ok (up_operation_id u) \<Longrightarrow>
       store_step X sha D (snd (apply_update_healthy_from_live X E d e u live D))"
| step_apply_recovery:
    "op_id_ok op \<Longrightarrow> store_step X sha D (snd (apply_recovery X E d e facts op D))"
| step_apply_rollback:
    "op_id_ok op \<Longrightarrow> store_step X sha D (snd (apply_rollback_healthy X E d e config op D))"
| step_remove:
    "store_step X sha D (snd (remove_deployment X sha E d e op D))"
| step_converge:
    "store_step X sha D (snd (converge_uninstall_completion sha E d e op D))"

inductive reach :: "externals \<Rightarrow> (state_file \<Rightarrow> string) \<Rightarrow> nat \<Rightarrow> store \<Rightarrow> bool"
  for X :: externals and sha :: "state_file \<Rightarrow> string" where
  reach_start: "reach X sha 0 empty_store"
| reach_step: "reach X sha n D \<Longrightarrow> store_step X sha D D' \<Longrightarrow> reach X sha (Suc n) D'"

lemma apply_config_store:
  "snd (apply_config X E d e reference schema op D) =
     snd (run_step X E d (apply_config_step reference schema e op (env_now E)) D)"
  by (simp add: apply_config_def split: prod.split)

lemma record_migration_store:
  "snd (record_migration_applied X E d e op target D) =
     snd (run_step X E d (record_migration_step X target e op (env_now E)) D)"
  by (simp add: record_migration_applied_def split: prod.split)

lemmas handler_defs = apply_update_healthy_from_live_def apply_recovery_def apply_rollback_healthy_def

lemma remove_state_file_store:
  "(st_states (snd (remove_state_file c d D)) = (st_states D)(d := None)
    \<or> st_states (snd (remove_state_file c d D)) = st_states D)
   \<and> st_dirs (snd (remove_state_file c d D)) = st_dirs D
   \<and> st_completions (snd (remove_state_file c d D)) = st_completions D"
  using files.del_cases [of c d "st_states D"]
  by (auto simp: remove_state_file_def split: prod.splits)

lemma write_completion_store:
  "st_states (snd (write_uninstall_completion E d h i op r D)) = st_states D
   \<and> st_dirs (snd (write_uninstall_completion E d h i op r D)) = st_dirs D"
  by (simp add: write_uninstall_completion_def split: prod.split)

text \<open>Removal either leaves the state files alone or has published the completion record.\<close>

lemma remove_deployment_cases:
  obtains (unchanged) "snd (remove_deployment X sha E d e op D) = D"
  | (proved) f s D1 where "deployment_scope d = Inr d" and "st_states D d = Some f"
      and "\<not> refused_file X f" and "read_deployment_state X f = Inr s" and "revision_of s = e"
      and "D1 = snd (write_uninstall_completion E d (sha f) d op e D)"
      and "remove_deployment X sha E d e op D =
           (case fst (write_uninstall_completion E d (sha f) d op e D) of
              Inl x \<Rightarrow> (Inl x, D1)
            | Inr _ \<Rightarrow> remove_state_file (env_commit_2 E) d D1)"
proof (cases "snd (remove_deployment X sha E d e op D) = D")
  case True
  then show ?thesis by (rule unchanged)
next
  case changed: False
  show ?thesis
  proof (cases rule: deployment_scope_cases [of d])
    case illegal
    with changed show ?thesis by (simp add: remove_deployment_def)
  next
    case legal
    with changed obtain f where lock: "rbind (lock_path d) (acquire_state_lock (env_held E)) = Inr ()"
      and f: "st_states D d = Some f"
      by (auto simp: remove_deployment_def split: sum.splits option.splits if_splits)
    with legal changed obtain s where safe: "\<not> refused_file X f"
      and s: "read_deployment_state X f = Inr s" and e: "cfg_revision (ds_config s) = e"
      by (auto simp: remove_deployment_def split: sum.splits if_splits)
    show ?thesis
      by (rule proved [OF legal f safe s _ refl])
         (use e legal lock f safe s in \<open>simp_all add: remove_deployment_def revision_of_def
           split: prod.split sum.split\<close>)
  qed
qed

lemma remove_deployment_store:
  "(st_states (snd (remove_deployment X sha E d e op D)) = (st_states D)(d := None)
    \<or> st_states (snd (remove_deployment X sha E d e op D)) = st_states D)
   \<and> st_dirs (snd (remove_deployment X sha E d e op D)) = st_dirs D"
proof (cases rule: remove_deployment_cases [of X sha E d e op D])
  case unchanged
  then show ?thesis by simp
next
  case (proved f s D1)
  have "st_states D1 = st_states D \<and> st_dirs D1 = st_dirs D"
    unfolding proved(6) by (rule write_completion_store)
  then show ?thesis
    using remove_state_file_store [of "env_commit_2 E" d D1]
    by (auto simp: proved(7) split: sum.split)
qed

lemma converge_store:
  "(st_states (snd (converge_uninstall_completion sha E d e op D)) = (st_states D)(d := None)
    \<or> st_states (snd (converge_uninstall_completion sha E d e op D)) = st_states D)
   \<and> st_dirs (snd (converge_uninstall_completion sha E d e op D)) = st_dirs D"
proof -
  have "snd (converge_uninstall_completion sha E d e op D) = D
    \<or> snd (converge_uninstall_completion sha E d e op D) = snd (remove_state_file (env_commit_2 E) d D)"
    by (auto simp: converge_uninstall_completion_def deployment_scope_ok
          split: sum.splits option.splits prod.splits)
  then show ?thesis using remove_state_file_store [of "env_commit_2 E" d D] by auto
qed

lemma store_step_inv:
  assumes "store_step X sha D D'" and inv: "store_inv X n D" and n: "n < 2 ^ 64 - 1"
  shows "store_inv X (Suc n) D'"
  using assms(1)
proof (cases rule: store_step.cases)
  case (step_remove E d e op)
  then show ?thesis
    using store_inv_del [OF store_inv_mono [OF inv]] remove_deployment_store by (metis le_SucI order_refl)
next
  case (step_converge E d e op)
  then show ?thesis
    using store_inv_del [OF store_inv_mono [OF inv]] converge_store by (metis le_SucI order_refl)
qed (use inv n in \<open>simp_all add: bootstrap_keeps_inv apply_config_store record_migration_store
      handler_defs apply_config.run_keeps_inv record_migration.run_keeps_inv
      apply_update.run_keeps_inv apply_recovery.run_keeps_inv apply_rollback.run_keeps_inv\<close>)

lemma reach_inv: "reach X sha n D \<Longrightarrow> n < 2 ^ 64 - 1 \<Longrightarrow> store_inv X n D"
proof (induction rule: reach.induct)
  case reach_start
  show ?case by (rule store_inv_empty)
next
  case (reach_step n D D')
  then show ?case by (intro store_step_inv) auto
qed

end
