(* ===== verification/StateProperties.thy ===== *)
theory StateProperties
  imports StateInvariant
begin

text \<open>
  The properties of the deployment-state store, each with a witness on the sample deployment
  below: two deployments \<open>alpha\<close> and \<open>beta\<close> created on an empty store.
\<close>

section \<open>A sample deployment\<close>

definition sample_X :: externals where
  "sample_X =
     \<lparr>uuid_version = (\<lambda>_. Some 7),
      uuid_text = (\<lambda>s. s),
      parse_url = (\<lambda>_. Some \<lparr>url_cannot_be_base = False, url_scheme = ''https'', url_username = [],
         url_password = None, url_host = Some ''a.example'', url_path = ''/'', url_query = None,
         url_fragment = None\<rparr>),
      parse_host = (\<lambda>h. Some (Domain h)),
      semver_ok = (\<lambda>_. True), state_bytes = (\<lambda>_. 900)\<rparr>"

definition sample_E :: env where
  "sample_E = \<lparr>env_held = (\<lambda>_. False), env_ports_held = False, env_commit = Committed,
     env_commit_2 = Committed, env_hash_readable = True, env_list_stop = None, env_now = 1\<rparr>"

definition sample_params :: "u16 \<Rightarrow> BootstrapParams" where
  "sample_params port =
     \<lparr>bp_issuer = ''https://a.example'',
      bp_runtime = \<lparr>rt_kind = Podman, rt_object = ''nazo'', rt_port = port\<rparr>,
      bp_artifact = \<lparr>art_current = Some ''v1'', art_previous = None\<rparr>,
      bp_config_reference = ''/c'', bp_config_schema = ''1'', bp_resources = [],
      bp_current_release = Some \<lparr>rel_version = ''1''\<rparr>\<rparr>"

definition sample_health :: HealthRecord where
  "sample_health = \<lparr>health_healthy = True, health_summary = [], health_checked_at = 1\<rparr>"

definition sample_sha :: "state_file \<Rightarrow> string" where
  "sample_sha f = replicate 64 (case f of StateDoc s \<Rightarrow>
     (if ds_active_host_operation s = Some \<lparr>act_operation_id = ''o1'', act_applied_at = 1\<rparr>
      then CHR ''a'' else CHR ''b'') | _ \<Rightarrow> CHR ''c'')"

definition sample_config :: "u64 \<Rightarrow> ConfigState" where
  "sample_config r = \<lparr>cfg_reference = ''/c'', cfg_schema = ''1'', cfg_revision = r\<rparr>"

definition sample_state :: DeploymentState where
  "sample_state = fresh_state ''alpha'' (sample_params 2000) ''o1'' sample_health 1 (sample_config 1)"

definition sample_store :: store where
  "sample_store = snd (bootstrap_with_health sample_X sample_E ''alpha'' (sample_params 2000) ''o1''
     sample_health empty_store)"

definition sample_store_2 :: store where
  "sample_store_2 = snd (bootstrap_with_health sample_X sample_E ''beta'' (sample_params 3000) ''o2''
     sample_health sample_store)"

lemma sample_facts:
  "deployment_scope ''alpha'' = Inr ''alpha''"
  "read_state sample_X (st_states sample_store ''alpha'') = Inr sample_state"
  "st_states sample_store ''alpha'' = Some (StateDoc sample_state)"
  "op_id_ok ''o2''"
  "state_ok sample_X sample_state"
  "state_fits sample_X sample_state"
  by code_simp+

section \<open>Every reachable store\<close>

text \<open>C1: In every store reached from an empty one by fewer than 2^64 - 1 operations, in any
  order, under operation ids of 1 to 128 bytes (admission demands UUIDs), with any locks held by others, with directory iterations that fail and with writes that
  fail before or after publication, every state file holds a current document that passes
  validation, carries the id of the directory it is in, and has a revision of at most the number
  of operations. Loading the deployment answers exactly that document where its serialised form
  is at most 1 MiB, and STATE_RESET_REQUIRED where it is longer: the reader has a bound that no
  writer of the store enforces.\<close>

theorem reachable_documents_valid:
  assumes "reach X sha n D" and "n < 2 ^ 64 - 1" and "st_states D d = Some f"
  shows "\<exists>s. f = StateDoc s \<and> DeploymentState_validate X s = Inr ()
           \<and> ds_deployment_id s = d \<and> unat (cfg_revision (ds_config s)) \<le> n
           \<and> load_existing X D d =
               (if state_bytes X s \<le> MAX_STATE_BYTES then Inr s
                else Inl (Failure STATE_RESET_REQUIRED UnreadableState))"
proof -
  have inv: "store_inv X n D" using assms by (intro reach_inv)
  from inv assms(3) show ?thesis
  proof (rule store_inv_file)
    fix s
    assume s: "f = StateDoc s" "state_ok X s" "deployment_scope d = Inr d" "ds_deployment_id s = d"
      "unat (revision_of s) \<le> n"
    have "load_existing X D d = (if state_bytes X s \<le> MAX_STATE_BYTES then Inr s
        else Inl (Failure STATE_RESET_REQUIRED UnreadableState))"
      using s assms(3) read_state_oversized [of X s]
      by (auto simp: load_existing_def state_fits_def unreadable_state_def)
    with s show ?thesis by (auto simp: state_ok_def revision_of_def)
  qed
qed

lemma sample_reach: "reach sample_X sample_sha 2 sample_store_2"
proof -
  have "reach sample_X sample_sha (Suc (Suc 0)) sample_store_2"
    unfolding sample_store_2_def sample_store_def
    by (rule reach_step [OF reach_step [OF reach_start step_bootstrap] step_bootstrap])
  then show ?thesis by (simp add: numeral_2_eq_2)
qed

text \<open>The same deployment where its document serialises to more than the reader admits.\<close>

definition big_X :: externals where
  "big_X = sample_X\<lparr>state_bytes := (\<lambda>_. 1048577)\<rparr>"

definition big_store :: store where
  "big_store = snd (bootstrap_with_health big_X sample_E ''alpha'' (sample_params 2000) ''o1''
     sample_health empty_store)"

lemma big_reach: "reach big_X sample_sha 1 big_store"
proof -
  have "reach big_X sample_sha (Suc 0) big_store"
    unfolding big_store_def by (rule reach_step [OF reach_start step_bootstrap])
  then show ?thesis by simp
qed

lemma reachable_documents_valid_witness:
  "load_existing sample_X sample_store ''alpha'' = Inr sample_state
   \<and> load_existing big_X big_store ''alpha'' = Inl (Failure STATE_RESET_REQUIRED UnreadableState)"
proof -
  have "reach sample_X sample_sha (Suc 0) sample_store"
    unfolding sample_store_def by (rule reach_step [OF reach_start step_bootstrap])
  moreover have "(Suc 0 :: nat) < 2 ^ 64 - 1" by simp
  ultimately have "load_existing sample_X sample_store ''alpha'' = Inr sample_state"
    using reachable_documents_valid [of sample_X sample_sha "Suc 0" sample_store "''alpha''"]
    by (auto simp: sample_facts sample_X_def MAX_STATE_BYTES_def)
  moreover have big: "st_states big_store ''alpha'' = Some (StateDoc sample_state)" by code_simp
  have "(1 :: nat) < 2 ^ 64 - 1" by simp
  then have "load_existing big_X big_store ''alpha'' = Inl (Failure STATE_RESET_REQUIRED UnreadableState)"
    using reachable_documents_valid [OF big_reach _ big] by (auto simp: big_X_def MAX_STATE_BYTES_def)
  ultimately show ?thesis by simp
qed

text \<open>C2: In every reachable store no two deployments hold the same loopback port, stopped ones
  included.\<close>

theorem reachable_ports_unique:
  assumes "reach X sha n D" and "n < 2 ^ 64 - 1"
    and "load_existing X D a = Inr s" and "load_existing X D b = Inr t"
    and "rt_port (ds_runtime s) = rt_port (ds_runtime t)"
  shows "a = b"
proof -
  have inv: "store_inv X n D" using assms by (intro reach_inv)
  have "read_state X (st_states D a) = Inr s" and "read_state X (st_states D b) = Inr t"
    using assms(3,4) by (simp_all add: load_existing_ok)
  then have "st_states D a = Some (StateDoc s)" and "st_states D b = Some (StateDoc t)"
    using store_inv_read(1) [OF inv] by simp_all
  then show ?thesis using store_inv_ports [OF inv] assms(5) by (simp add: port_of_def)
qed

lemma reachable_ports_unique_witness:
  "\<exists>s. load_existing sample_X sample_store_2 ''alpha'' = Inr s
     \<and> load_existing sample_X sample_store_2 ''beta'' \<noteq> Inr s"
proof -
  have "case load_existing sample_X sample_store_2 ''alpha'' of Inl _ \<Rightarrow> False | Inr _ \<Rightarrow> True"
    by code_simp
  then obtain s where s: "load_existing sample_X sample_store_2 ''alpha'' = Inr s"
    by (auto split: sum.splits)
  have "load_existing sample_X sample_store_2 ''beta'' \<noteq> Inr s"
  proof
    assume "load_existing sample_X sample_store_2 ''beta'' = Inr s"
    from reachable_ports_unique [OF sample_reach _ s this] show False by simp
  qed
  with s show ?thesis by blast
qed

section \<open>Compare and swap\<close>

text \<open>C3: A mutation whose expected revision is not the live one never changes the store, on any
  of the five mutating handlers and under any environment.\<close>

theorem stale_revision_changes_nothing:
  assumes "load_existing X D d = Inr s" and "cfg_revision (ds_config s) \<noteq> e"
  shows "snd (apply_config X E d e reference schema op D) = D
    \<and> snd (record_migration_applied X E d e op target D) = D
    \<and> snd (apply_update_healthy_from_live X E d e u live D) = D
    \<and> snd (apply_recovery X E d e facts op D) = D
    \<and> snd (apply_rollback_healthy X E d e config op D) = D"
  using assms
  by (simp_all add: load_existing_ok apply_config_store record_migration_store handler_defs
      revision_of_def apply_config.stale_unchanged record_migration.stale_unchanged
      apply_update.stale_unchanged apply_recovery.stale_unchanged apply_rollback.stale_unchanged)

lemma sample_revision: "cfg_revision (ds_config sample_state) = 1"
  by (simp add: sample_state_def fresh_state_def sample_config_def)

lemma stale_revision_changes_nothing_witness:
  "snd (apply_config sample_X sample_E ''alpha'' 7 ''/d'' ''1'' ''o2'' sample_store) = sample_store"
proof -
  have load: "load_existing sample_X sample_store ''alpha'' = Inr sample_state"
    by (simp add: load_existing_ok sample_facts)
  show ?thesis
    using stale_revision_changes_nothing [OF load, of 7] by (simp add: sample_revision)
qed

text \<open>C4: Lost acknowledgement of an update. If an update changed the state files, even when its
  caller saw an error, the document it published records its operation, and every retry under the
  same operation id, with any contents, any expected revision and any environment, leaves the
  store alone and, once it gets the lock, answers what a load of the deployment answers. That is
  the published document itself where the operation id is admissible (not empty, at most 128
  bytes), the revision was not the last one and the document is at most 1 MiB; an answer that is
  not the published document is the error of the load.\<close>

theorem update_retry_is_idempotent:
  assumes D1: "D1 = snd (apply_update_healthy_from_live X E d e u live D)"
    and "st_states D1 \<noteq> st_states D"
    and same: "up_operation_id u' = up_operation_id u"
  shows "snd (apply_update_healthy_from_live X E' d e' u' live' D1) = D1
    \<and> (rbind (lock_path d) (acquire_state_lock (env_held E')) = Inr ()
         \<longrightarrow> fst (apply_update_healthy_from_live X E' d e' u' live' D1) = load_existing X D1 d)
    \<and> (\<exists>s s'. load_existing X D d = Inr s \<and> st_states D1 d = Some (StateDoc s')
         \<and> active_is s' (up_operation_id u)
         \<and> (load_existing X D1 d = Inr s' \<or> (\<exists>f. load_existing X D1 d = Inl f))
         \<and> (op_id_ok (up_operation_id u) \<and> cfg_revision (ds_config s) \<noteq> 2 ^ 64 - 1
              \<and> state_bytes X s' \<le> MAX_STATE_BYTES \<longrightarrow> load_existing X D1 d = Inr s'))"
proof -
  have changed: "st_states (snd (run_step X E d (apply_update_step u live e (up_operation_id u) (env_now E)) D))
      \<noteq> st_states D"
    using assms by (simp add: handler_defs)
  obtain s s' where s: "read_state X (st_states D d) = Inr s"
    and step: "apply_update_step u live e (up_operation_id u) (env_now E) s = Inr (Commit s')"
    and act: "active_is s' (up_operation_id u)"
    and new: "st_states D1 = (st_states D)(d \<mapsto> StateDoc s')"
    using apply_update.changed_records [OF changed] D1 by (metis handler_defs(1))
  have d: "deployment_scope d = Inr d"
    using changed by (cases rule: run_step_cases
      [of X E d "apply_update_step u live e (up_operation_id u) (env_now E)" D]) auto
  have doc: "st_states D1 d = Some (StateDoc s')" by (simp add: new)
  have act': "active_is s' (up_operation_id u')" using act same by simp
  have valid: "load_existing X D1 d = Inr s'"
    if "op_id_ok (up_operation_id u)" "cfg_revision (ds_config s) \<noteq> 2 ^ 64 - 1"
      "state_bytes X s' \<le> MAX_STATE_BYTES"
  proof -
    have "revision_of s + 1 \<noteq> 0"
      using that by (auto simp: revision_of_def add_eq_0_iff2)
    then have "state_ok X s'"
      using apply_update.keeps_ok [OF step read_state_valid [OF s] that(1)] by simp
    then show ?thesis using d that by (simp add: load_existing_ok doc state_fits_def)
  qed
  have "load_existing X D1 d = Inr s' \<or> (\<exists>f. load_existing X D1 d = Inl f)"
    by (cases "load_existing X D1 d") (auto simp: load_existing_ok doc)
  moreover have "load_existing X D d = Inr s" using s d by (simp add: load_existing_ok)
  ultimately show ?thesis
    using apply_update.retry_after_publication [OF doc act'] valid doc act
    by (auto simp: handler_defs)
qed

definition sample_update :: UpdateCommit where
  "sample_update = \<lparr>up_config_snapshot = Some ''snap'', up_artifact = ''v2'',
     up_release = Some \<lparr>rel_version = ''2''\<rparr>, up_config = None, up_operation_id = ''o2''\<rparr>"

text \<open>The write of the first attempt was published, its acknowledgement lost.\<close>

definition sample_lost :: store where
  "sample_lost = snd (apply_update_healthy_from_live sample_X (sample_E\<lparr>env_commit := Unsynced\<rparr>)
     ''alpha'' 1 sample_update True sample_store)"

lemma update_retry_is_idempotent_witness:
  "snd (apply_update_healthy_from_live sample_X sample_E ''alpha'' 1 sample_update True sample_lost)
     = sample_lost
   \<and> (\<exists>s'. fst (apply_update_healthy_from_live sample_X sample_E ''alpha'' 1 sample_update True
                  sample_lost) = Inr s' \<and> active_is s' ''o2'')"
proof -
  have load: "load_existing sample_X sample_store ''alpha'' = Inr sample_state"
    by (simp add: load_existing_ok sample_facts)
  have op: "op_id_ok (up_operation_id sample_update)" by code_simp
  have "st_states sample_lost ''alpha'' \<noteq> st_states sample_store ''alpha''" by code_simp
  then have changed: "st_states sample_lost \<noteq> st_states sample_store" by metis
  have lock: "rbind (lock_path ''alpha'') (acquire_state_lock (env_held sample_E)) = Inr ()" by code_simp
  have id: "up_operation_id sample_update = ''o2''" by (simp add: sample_update_def)
  have bytes: "state_bytes sample_X s' \<le> MAX_STATE_BYTES" for s'
    by (simp add: sample_X_def MAX_STATE_BYTES_def)
  show ?thesis
    using update_retry_is_idempotent [OF sample_lost_def changed refl, of sample_E 1 True]
      load lock op id bytes by (auto simp: sample_revision)
qed

section \<open>The migration fence\<close>

text \<open>A handler whose step refuses the live document leaves the store alone and returns an error.\<close>

lemma refused_run:
  assumes "load_existing X D d = Inr s" and "step s = Inl f"
  shows "snd (run_step X E d step D) = D \<and> \<not> (\<exists>t. fst (run_step X E d step D) = Inr t)"
  using run_step_refused [of X D d s step f E] assms by auto

lemma fenced_rollback_refused:
  assumes "ds_applied_migration s = Some m" and "\<not> active_is s op"
  shows "\<exists>f. apply_rollback_step config e op now s = Inl f"
  using assms by (auto simp: apply_rollback_step_def)

lemma fenced_update_refused:
  assumes "ds_applied_migration s = Some m" and "\<not> active_is s op"
    and "mig_operation_id m \<noteq> op \<or> mig_target_artifact m \<noteq> up_artifact u"
  shows "\<exists>f. apply_update_step u live e op now s = Inl f"
  using assms by (auto simp: apply_update_step_def split: sum.split)

lemma fenced_migration_refused:
  assumes "ds_applied_migration s = Some m"
    and "mig_operation_id m \<noteq> op \<or> mig_target_artifact m \<noteq> target"
  shows "\<exists>f. record_migration_step X target e op now s = Inl f"
  using assms by (auto simp: record_migration_step_def)

lemma refused_migration:
  assumes "load_existing X D d = Inr s" and "ds_applied_migration s = Some m"
    and "mig_operation_id m \<noteq> op \<or> mig_target_artifact m \<noteq> target"
  shows "snd (record_migration_applied X E d e op target D) = D
    \<and> (\<forall>t. fst (record_migration_applied X E d e op target D) \<noteq> Inr t)"
proof -
  obtain f where "record_migration_step X target e op (env_now E) s = Inl f"
    using fenced_migration_refused [OF assms(2,3)] by blast
  from refused_run [where E = E and step = "record_migration_step X target e op (env_now E)",
      OF assms(1) this] show ?thesis
    by (auto simp: record_migration_applied_def rbind_Inr_iff split: prod.split)
qed

lemma replayed_run:
  assumes "load_existing X D d = Inr s" and "step s = Inr Replay"
  shows "snd (run_step X E d step D) = D"
  using assms by (auto simp: run_step_def with_live_state_def split: sum.split)

text \<open>C5: While an applied migration is recorded, no rollback, no update that differs from the
  migrating operation or from the migrated artifact, and no second migration changes the store.
  The second migration is refused, and so are the rollback and the update, unless they repeat the
  operation the document records as its last one, which is answered as a replay.\<close>

theorem migration_fences_the_deployment:
  assumes "load_existing X D d = Inr s" and "ds_applied_migration s = Some m"
  shows "snd (apply_rollback_healthy X E d e config op D) = D
    \<and> (\<not> active_is s op \<longrightarrow> (\<forall>t. fst (apply_rollback_healthy X E d e config op D) \<noteq> Inr t))
    \<and> (mig_operation_id m \<noteq> up_operation_id u \<or> mig_target_artifact m \<noteq> up_artifact u \<longrightarrow>
         snd (apply_update_healthy_from_live X E d e u live D) = D
         \<and> (\<not> active_is s (up_operation_id u) \<longrightarrow>
              (\<forall>t. fst (apply_update_healthy_from_live X E d e u live D) \<noteq> Inr t)))
    \<and> (mig_operation_id m \<noteq> op2 \<or> mig_target_artifact m \<noteq> target \<longrightarrow>
         snd (record_migration_applied X E d e op2 target D) = D
         \<and> (\<forall>t. fst (record_migration_applied X E d e op2 target D) \<noteq> Inr t))"
proof -
  have rollback: "snd (apply_rollback_healthy X E d e config op D) = D
      \<and> (\<not> active_is s op \<longrightarrow> (\<forall>t. fst (apply_rollback_healthy X E d e config op D) \<noteq> Inr t))"
  proof (cases "active_is s op")
    case True
    then show ?thesis
      using replayed_run [where step = "apply_rollback_step config e op (env_now E)",
          OF assms(1) apply_rollback_replay] by (simp add: handler_defs)
  next
    case False
    then obtain f where "apply_rollback_step config e op (env_now E) s = Inl f"
      using fenced_rollback_refused [OF assms(2)] by blast
    from refused_run [where E = E and step = "apply_rollback_step config e op (env_now E)",
        OF assms(1) this] show ?thesis by (simp add: handler_defs)
  qed
  have update: "snd (apply_update_healthy_from_live X E d e u live D) = D
      \<and> (\<not> active_is s (up_operation_id u) \<longrightarrow>
           (\<forall>t. fst (apply_update_healthy_from_live X E d e u live D) \<noteq> Inr t))"
    if other: "mig_operation_id m \<noteq> up_operation_id u \<or> mig_target_artifact m \<noteq> up_artifact u"
  proof (cases "active_is s (up_operation_id u)")
    case True
    then show ?thesis
      using replayed_run [where step = "apply_update_step u live e (up_operation_id u) (env_now E)",
          OF assms(1) apply_update_replay] by (simp add: handler_defs)
  next
    case False
    obtain f where "apply_update_step u live e (up_operation_id u) (env_now E) s = Inl f"
      using fenced_update_refused [OF assms(2) False other] by blast
    from refused_run [where E = E
        and step = "apply_update_step u live e (up_operation_id u) (env_now E)", OF assms(1) this] show ?thesis by (simp add: handler_defs)
  qed
  show ?thesis
    using rollback update refused_migration [OF assms(1,2)] by simp
qed

definition sample_digest :: string where
  "sample_digest = ''sha256:'' @ replicate 64 (CHR ''a'')"

definition sample_fenced_store :: store where
  "sample_fenced_store =
     snd (record_migration_applied sample_X sample_E ''alpha'' 1 ''o2'' sample_digest sample_store)"

definition sample_fenced :: DeploymentState where
  "sample_fenced = sample_state\<lparr>ds_applied_migration :=
     Some \<lparr>mig_operation_id = ''o2'', mig_target_artifact = sample_digest, mig_applied_at = 1\<rparr>\<rparr>"

lemma sample_fenced_load: "load_existing sample_X sample_fenced_store ''alpha'' = Inr sample_fenced"
  by code_simp

lemma migration_fences_the_deployment_witness:
  "snd (apply_rollback_healthy sample_X sample_E ''alpha'' 1 None ''o3'' sample_fenced_store)
     = sample_fenced_store
   \<and> (\<forall>t. fst (apply_update_healthy_from_live sample_X sample_E ''alpha'' 1
              (sample_update\<lparr>up_operation_id := ''o3''\<rparr>) True sample_fenced_store) \<noteq> Inr t)
   \<and> (\<forall>t. fst (record_migration_applied sample_X sample_E ''alpha'' 1 ''o4'' sample_digest
              sample_fenced_store) \<noteq> Inr t)"
proof -
  let ?m = "\<lparr>mig_operation_id = ''o2'', mig_target_artifact = sample_digest, mig_applied_at = 1\<rparr>"
  have m: "ds_applied_migration sample_fenced = Some ?m" by (simp add: sample_fenced_def)
  have act: "\<not> active_is sample_fenced ''o3''" by code_simp
  show ?thesis
    using migration_fences_the_deployment [OF sample_fenced_load m, of sample_E 1 None "''o3''"
        "sample_update\<lparr>up_operation_id := ''o3''\<rparr>" True "''o4''" sample_digest] act
    by simp
qed

lemma migrated_commit:
  assumes "apply_update_step u live e op now s = Inr (Commit s')"
    and "ds_applied_migration s \<noteq> None"
  shows "ds_applied_migration s' = None \<and> art_current (ds_artifact s') = Some (up_artifact u)
    \<and> art_previous (ds_artifact s') = None \<and> ds_previous_release s' = None
    \<and> ds_previous_config_snapshot s' = None \<and> ds_current_release s' = up_release u"
  using assms(1)
proof (rule apply_update_step_commit)
  fix s1 s2
  assume s1: "s1 = (if ds_applied_migration s = None then s else clear_previous s)"
    and "advance_config (up_config u) ((swap_generation u live s1)
           \<lparr>ds_current_release := up_release u, ds_applied_migration := None\<rparr>) = Inr s2"
    and s': "s' = mark_healthy ''local readiness probe passed after update'' now
                    (record_operation op now s2)"
  then obtain c where "s2 = (swap_generation u live s1)
      \<lparr>ds_current_release := up_release u, ds_applied_migration := None, ds_config := c\<rparr>"
    using advance_config_ok by blast
  then show ?thesis
    using s1 assms(2)
    by (auto simp: s' mark_healthy_def record_operation_def swap_generation_def clear_previous_def Let_def)
qed

text \<open>The update that completes a recorded migration clears the fence and leaves no rollback
  generation: no previous artifact, release or configuration snapshot, so a rollback of the
  committed document by any other operation answers ROLLBACK_UNAVAILABLE.\<close>

theorem migrated_update_has_no_rollback:
  assumes "apply_update_step u live e op now s = Inr (Commit s')"
    and "ds_applied_migration s \<noteq> None" and "\<not> active_is s' op'"
  shows "ds_applied_migration s' = None \<and> art_current (ds_artifact s') = Some (up_artifact u)
    \<and> art_previous (ds_artifact s') = None \<and> ds_previous_release s' = None
    \<and> ds_previous_config_snapshot s' = None
    \<and> apply_rollback_step config (cfg_revision (ds_config s')) op' now' s'
        = Inl (Failure ROLLBACK_UNAVAILABLE NoPreviousArtifact)"
  using migrated_commit [OF assms(1,2)] assms(3) by (simp add: apply_rollback_step_def)

definition sample_migrating :: UpdateCommit where
  "sample_migrating = sample_update\<lparr>up_artifact := sample_digest\<rparr>"

definition sample_migrated :: DeploymentState where
  "sample_migrated =
     (case apply_update_step sample_migrating True 1 ''o2'' 2 sample_fenced of
        Inr (Commit s) \<Rightarrow> s | _ \<Rightarrow> sample_fenced)"

lemma migrated_update_has_no_rollback_witness:
  "apply_rollback_step None 1 ''o3'' 9 sample_migrated
     = Inl (Failure ROLLBACK_UNAVAILABLE NoPreviousArtifact)"
proof -
  have step: "apply_update_step sample_migrating True 1 ''o2'' 2 sample_fenced = Inr (Commit sample_migrated)"
    by code_simp
  have fence: "ds_applied_migration sample_fenced \<noteq> None" by code_simp
  have act: "\<not> active_is sample_migrated ''o3''" by code_simp
  have rev: "cfg_revision (ds_config sample_migrated) = 1" by code_simp
  show ?thesis
    using migrated_update_has_no_rollback [OF step fence act, of None 9] by (simp add: rev)
qed

section \<open>Rollback\<close>

text \<open>C6: Rolling back twice without a configuration returns to the generation one started from:
  the second rollback is accepted under the same revision and restores both artifacts, both
  releases and the configuration.\<close>

theorem rollback_twice_restores:
  assumes "apply_rollback_step None e op now s = Inr (Commit s1)"
    and "art_current (ds_artifact s) \<noteq> None" and "op' \<noteq> op"
  shows "\<exists>s2. apply_rollback_step None e op' now' s1 = Inr (Commit s2)
    \<and> ds_artifact s2 = ds_artifact s \<and> ds_current_release s2 = ds_current_release s
    \<and> ds_previous_release s2 = ds_previous_release s \<and> ds_config s2 = ds_config s
    \<and> same_identity s s2 \<and> active_is s2 op'"
  using assms(1)
proof (rule apply_rollback_step_commit)
  fix previous s2
  assume "revision_of s = e" and "ds_applied_migration s = None"
    and "art_previous (ds_artifact s) = Some previous"
    and "advance_config None
           (s\<lparr>ds_artifact := \<lparr>art_current = Some previous, art_previous = art_current (ds_artifact s)\<rparr>,
              ds_current_release := ds_previous_release s,
              ds_previous_release := ds_current_release s,
              ds_previous_config_snapshot := map_option (\<lambda>_. op) None\<rparr>) = Inr s2"
    and "s1 = mark_healthy ''local readiness probe passed after rollback'' now (record_operation op now s2)"
  then show ?thesis
    using assms(2,3)
    by (auto simp: apply_rollback_step_def advance_config_def commit_simps)
qed

definition sample_updated :: DeploymentState where
  "sample_updated =
     (case apply_update_step sample_update True 1 ''o2'' 2 sample_state of
        Inr (Commit s) \<Rightarrow> s | _ \<Rightarrow> sample_state)"

definition sample_rolled_back :: DeploymentState where
  "sample_rolled_back =
     (case apply_rollback_step None 1 ''o3'' 3 sample_updated of
        Inr (Commit s) \<Rightarrow> s | _ \<Rightarrow> sample_state)"

lemma rollback_twice_restores_witness:
  "art_current (ds_artifact sample_rolled_back) = Some ''v1''
   \<and> (\<exists>s2. apply_rollback_step None 1 ''o4'' 4 sample_rolled_back = Inr (Commit s2)
        \<and> art_current (ds_artifact s2) = Some ''v2'')"
proof -
  have step: "apply_rollback_step None 1 ''o3'' 3 sample_updated = Inr (Commit sample_rolled_back)"
    by code_simp
  have now: "art_current (ds_artifact sample_updated) = Some ''v2''" by code_simp
  moreover have "art_current (ds_artifact sample_rolled_back) = Some ''v1''" by code_simp
  ultimately show ?thesis
    using rollback_twice_restores [OF step, of "''o4''" 4] by auto
qed

section \<open>Configuration revisions\<close>

lemma apply_config_step_commit:
  "apply_config_step reference schema e op now s = Inr (Commit s') \<Longrightarrow>
     revision_of s = e \<and> ds_config s' = \<lparr>cfg_reference = reference, cfg_schema = schema,
                                      cfg_revision = e + 1\<rparr> \<and> active_is s' op"
  by (auto simp: apply_config_step_def rbind_Inr_iff advance_config_def advance_ok revision_of_def
        record_operation_def active_is_def split: if_splits sum.splits)

text \<open>An apply-config that answers has the document it answers for on disk, recorded under its
  operation id; where the operation was not yet recorded, the configuration is exactly the
  requested reference and schema at the expected revision plus one.\<close>

theorem apply_config_commits_next_revision:
  assumes "load_existing X D d = Inr s" and "fst (apply_config X E d e reference schema op D) = Inr c"
  shows "(active_is s op \<longrightarrow> c = ds_config s \<and> snd (apply_config X E d e reference schema op D) = D)
    \<and> (\<not> active_is s op \<longrightarrow> cfg_revision (ds_config s) = e
         \<and> c = \<lparr>cfg_reference = reference, cfg_schema = schema, cfg_revision = e + 1\<rparr>
         \<and> (\<exists>s'. st_states (snd (apply_config X E d e reference schema op D)) d = Some (StateDoc s')
                \<and> ds_config s' = c \<and> active_is s' op \<and> same_identity s s'))"
proof -
  let ?step = "apply_config_step reference schema e op (env_now E)"
  have fst: "\<exists>t. fst (run_step X E d ?step D) = Inr t \<and> c = ds_config t"
    using assms(2) by (auto simp: apply_config_def rbind_Inr_iff split: prod.splits)
  have lock: "rbind (lock_path d) (acquire_state_lock (env_held E)) = Inr ()"
    using fst by (auto simp: run_step_def with_live_state_def split: sum.splits)
  note run = run_step_locked [OF assms(1) lock, of ?step]
  show ?thesis
  proof (cases "?step s")
    case (Inl f)
    with fst run show ?thesis by simp
  next
    case (Inr m)
    show ?thesis
    proof (cases m)
      case Replay
      with Inr have "active_is s op"
        by (auto simp: apply_config_step_def rbind_Inr_iff split: if_splits)
      with Replay Inr fst run show ?thesis by (simp add: apply_config_store)
    next
      case (Commit s')
      with Inr have step: "?step s = Inr (Commit s')" by simp
      then have new: "\<not> active_is s op" by (auto simp: apply_config_step_def)
      have "fst (persist_exact E d s' D) = Inr s' \<and> c = ds_config s'"
        using fst run step persist_exact_ok by fastforce
      then show ?thesis
        using new run step apply_config_step_commit [OF step] apply_config.identity [OF step]
          persist_exact_ok [of E d s' D s']
        by (auto simp: apply_config_store revision_of_def)
    qed
  qed
qed

lemma apply_config_commits_next_revision_witness:
  "\<exists>s'. st_states (snd (apply_config sample_X sample_E ''alpha'' 1 ''/d'' ''2'' ''o2'' sample_store)) ''alpha''
      = Some (StateDoc s')
    \<and> ds_config s' = \<lparr>cfg_reference = ''/d'', cfg_schema = ''2'', cfg_revision = 2\<rparr>"
proof -
  have load: "load_existing sample_X sample_store ''alpha'' = Inr sample_state"
    by (simp add: load_existing_ok sample_facts)
  have "fst (apply_config sample_X sample_E ''alpha'' 1 ''/d'' ''2'' ''o2'' sample_store)
      = Inr \<lparr>cfg_reference = ''/d'', cfg_schema = ''2'', cfg_revision = 2\<rparr>"
    by code_simp
  moreover have "\<not> active_is sample_state ''o2''" by code_simp
  ultimately show ?thesis
    using apply_config_commits_next_revision [OF load] by blast
qed

lemma exhausted_document_unreadable:
  assumes "cfg_revision (ds_config s) = 0"
  shows "\<exists>f. read_state X (Some (StateDoc s)) = Inl f \<and> code f = STATE_RESET_REQUIRED"
proof -
  have "DeploymentState_validate X s \<noteq> Inr ()"
    using assms by (auto simp: DeploymentState_validate_def)
  then obtain v where "DeploymentState_validate X s = Inl v"
    by (metis (full_types) old.unit.exhaust sum.exhaust_sel)
  then show ?thesis
    by (simp add: read_state_def read_deployment_state_def invalid_state_def unreadable_state_def)
qed

text \<open>C7: The revision counter wraps: an apply-config at the largest 64-bit revision answers with
  revision zero and publishes a document that every later load of the deployment refuses as
  STATE_RESET_REQUIRED.\<close>

theorem exhausted_revision_bricks_the_deployment:
  assumes "load_existing X D d = Inr s" and "cfg_revision (ds_config s) = e" and "e = 2 ^ 64 - 1"
    and "\<not> active_is s op" and "rbind (lock_path d) (acquire_state_lock (env_held E)) = Inr ()"
    and "env_commit E = Committed"
    and seed: "ConfigState_seed 0 reference schema = Inr c"
  shows "fst (apply_config X E d e reference schema op D) = Inr c \<and> cfg_revision c = 0
    \<and> (\<exists>f. load_existing X (snd (apply_config X E d e reference schema op D)) d = Inl f
         \<and> code f = STATE_RESET_REQUIRED)"
proof -
  let ?s = "record_operation op (env_now E) (s\<lparr>ds_config := c\<rparr>)"
  have c: "cfg_revision c = 0" using seed by (simp add: seed_ok)
  have "cfg_revision (ds_config s) + 1 = 0" unfolding assms(2,3) by simp
  then have "ConfigState_advance (ds_config s) reference schema = Inr c"
    using seed by (simp only: ConfigState_advance_def)
  then have "apply_config_step reference schema e op (env_now E) s = Inr (Commit ?s)"
    using assms(2,4) by (simp add: apply_config_step_def advance_config_def)
  then have run: "run_step X E d (apply_config_step reference schema e op (env_now E)) D
      = persist_exact E d ?s D"
    using run_step_locked [OF assms(1,5), of "apply_config_step reference schema e op (env_now E)"]
    by simp
  have p: "persist_exact E d ?s D = (Inr ?s, (ensure_dir d D)\<lparr>st_states := (st_states D)(d \<mapsto> StateDoc ?s)\<rparr>)"
    using assms(6) by (simp add: persist_exact_def persist_def atomic_write_def)
  have d: "deployment_scope d = Inr d" using assms(1) by (simp add: load_existing_ok)
  obtain f where "read_state X (Some (StateDoc ?s)) = Inl f \<and> code f = STATE_RESET_REQUIRED"
    using exhausted_document_unreadable [of ?s X] c by (auto simp: record_operation_def)
  moreover have "ds_config ?s = c" by (simp add: record_operation_def)
  ultimately show ?thesis
    using c d by (auto simp: apply_config_def run p load_existing_def)
qed

definition sample_last :: DeploymentState where
  "sample_last = sample_state\<lparr>ds_config := sample_config (2 ^ 64 - 1)\<rparr>"

definition sample_last_store :: store where
  "sample_last_store =
     \<lparr>st_dirs = [''alpha''], st_states = [''alpha'' \<mapsto> StateDoc sample_last], st_completions = Map.empty\<rparr>"

lemma exhausted_revision_bricks_the_deployment_witness:
  "\<exists>f. load_existing sample_X
         (snd (apply_config sample_X sample_E ''alpha'' (2 ^ 64 - 1) ''/c'' ''1'' ''o2'' sample_last_store))
         ''alpha'' = Inl f \<and> code f = STATE_RESET_REQUIRED"
proof -
  have load: "load_existing sample_X sample_last_store ''alpha'' = Inr sample_last" by code_simp
  have rev: "cfg_revision (ds_config sample_last) = 2 ^ 64 - 1"
    by (simp add: sample_last_def sample_config_def)
  have act: "\<not> active_is sample_last ''o2''" by code_simp
  have lock: "rbind (lock_path ''alpha'') (acquire_state_lock (env_held sample_E)) = Inr ()" by code_simp
  have com: "env_commit sample_E = Committed" by (simp add: sample_E_def)
  have seed: "ConfigState_seed 0 ''/c'' ''1'' = Inr (sample_config 0)" by code_simp
  show ?thesis
    using exhausted_revision_bricks_the_deployment [OF load rev refl act lock com seed] by blast
qed

section \<open>Isolation\<close>

text \<open>Bootstrap never overwrites: where the deployment has a state file, readable or not, the
  store is untouched, and an answer is possible only for the operation that created it with the
  same health verdict.\<close>

theorem bootstrap_never_overwrites:
  assumes "st_states D d \<noteq> None"
  shows "snd (bootstrap_with_health X E d params op health D) = D
    \<and> (\<forall>s. fst (bootstrap_with_health X E d params op health D) = Inr s \<longrightarrow>
         load_existing X D d = Inr s \<and> active_is s op
         \<and> health_healthy (ds_local_health s) = health_healthy health)"
proof (cases "load_existing X D d")
  case (Inr s)
  then show ?thesis by (auto simp: bootstrap_with_health_def split: sum.splits)
next
  case (Inl f)
  show ?thesis
  proof (cases rule: deployment_scope_cases [of d])
    case illegal
    with Inl show ?thesis
      by (auto simp: bootstrap_with_health_def lock_path_def)
  next
    case legal
    with Inl assms have "code f \<noteq> DEPLOYMENT_UNKNOWN"
      using read_state_unknown [of X "st_states D d" f] by (auto simp: load_existing_def)
    with Inl show ?thesis by (auto simp: bootstrap_with_health_def split: sum.splits)
  qed
qed

lemma bootstrap_never_overwrites_witness:
  "snd (bootstrap_with_health sample_X sample_E ''alpha'' (sample_params 2001) ''o9'' sample_health sample_store)
     = sample_store"
  by (rule bootstrap_never_overwrites [THEN conjunct1]) (simp add: sample_facts)

text \<open>No handler touches the state file of another deployment.\<close>

theorem handlers_touch_one_deployment:
  assumes "d' \<noteq> d"
  shows "st_states (snd (bootstrap_with_health X E d params op health D)) d' = st_states D d'
    \<and> st_states (snd (apply_config X E d e reference schema op D)) d' = st_states D d'
    \<and> st_states (snd (record_migration_applied X E d e op target D)) d' = st_states D d'
    \<and> st_states (snd (apply_update_healthy_from_live X E d e u live D)) d' = st_states D d'
    \<and> st_states (snd (apply_recovery X E d e facts op D)) d' = st_states D d'
    \<and> st_states (snd (apply_rollback_healthy X E d e config op D)) d' = st_states D d'
    \<and> st_states (snd (remove_deployment X sha E d e op D)) d' = st_states D d'
    \<and> st_states (snd (converge_uninstall_completion sha E d e op D)) d' = st_states D d'"
proof -
  have "st_states (snd (bootstrap_with_health X E d params op health D)) d' = st_states D d'"
  proof (cases rule: bootstrap_cases [of X E d params op health D])
    case create
    then show ?thesis
      using assms persist_exact_states
      by (cases rule: bootstrap_fresh_cases [of X E d params op health D]) (metis fun_upd_other)+
  qed simp
  moreover have "st_states (snd (remove_deployment X sha E d e op D)) d' = st_states D d'"
    using assms remove_deployment_store by (metis fun_upd_other)
  moreover have "st_states (snd (converge_uninstall_completion sha E d e op D)) d' = st_states D d'"
    using assms converge_store by (metis fun_upd_other)
  ultimately show ?thesis
    using assms by (simp add: apply_config_store record_migration_store handler_defs
      apply_config.others_unchanged record_migration.others_unchanged apply_update.others_unchanged
      apply_recovery.others_unchanged apply_rollback.others_unchanged)
qed

lemma handlers_touch_one_deployment_witness:
  "st_states (snd (remove_deployment sample_X sample_sha sample_E ''alpha'' 1 ''o5'' sample_store_2)) ''beta''
     = st_states sample_store_2 ''beta''"
  using handlers_touch_one_deployment [of "''beta''" "''alpha''"] by simp

section \<open>Uninstall\<close>

text \<open>A removal that changed the store published its completion record.\<close>

lemma changed_removal_converges:
  assumes digest: "\<And>f. valid_lower_hex_sha256 (sha f)"
    and D1: "D1 = snd (remove_deployment X sha E d e op D)" and changed: "D1 \<noteq> D"
    and lock: "rbind (lock_path d) (acquire_state_lock (env_held E')) = Inr ()"
    and good: "env_hash_readable E'" "env_commit_2 E' = Committed"
  shows "fst (converge_uninstall_completion sha E' d e op D1) = Inr True
    \<and> st_states (snd (converge_uninstall_completion sha E' d e op D1)) d = None"
proof (cases rule: remove_deployment_cases [of X sha E d e op D])
  case unchanged
  with D1 changed show ?thesis by simp
next
  case (proved f s D2)
  let ?c = "\<lparr>uc_schema = 1, uc_deployment_id = d, uc_operation_id = op, uc_revision = e,
              uc_state_sha256 = sha f\<rparr>"
  let ?w = "write_uninstall_completion E d (sha f) d op e D"
  have published: "st_completions D1 d = Some (CompletionDoc ?c)"
    and left: "st_states D1 d = None \<or> st_states D1 d = Some f"
  proof -
    have w: "st_completions D2 d = Some (CompletionDoc ?c) \<and> st_states D2 = st_states D
        \<or> D2 = D \<and> (\<exists>x. fst ?w = Inl x)"
      unfolding proved(6)
      by (cases "env_commit E") (auto simp: write_uninstall_completion_def atomic_write_def require_def)
    have r: "D1 = D2 \<and> (\<exists>x. fst ?w = Inl x) \<or> D1 = snd (remove_state_file (env_commit_2 E) d D2)
        \<and> fst ?w = Inr ()"
      unfolding D1 proved(7) by (cases "fst ?w") auto
    show "st_completions D1 d = Some (CompletionDoc ?c)"
      using w r changed remove_state_file_store [of "env_commit_2 E" d D2] by auto
    show "st_states D1 d = None \<or> st_states D1 d = Some f"
      using w r changed proved(2) remove_state_file_store [of "env_commit_2 E" d D2] by auto
  qed
  have read: "read_uninstall_completion (st_completions D1 d) = Inr (Some ?c)"
    using digest by (simp add: published read_uninstall_completion_def)
  show ?thesis
    using left
    by (auto simp: converge_uninstall_completion_def proved(1) lock read completion_matches_def good
        remove_state_file_def remove_file_durable_def require_def)
qed

text \<open>C8: The crash window of an uninstall. If a removal changed the store at all, even when it
  reported an error, then converging under the same operation and revision, with the lock free,
  the state file readable and its removal durable, answers that the uninstall is complete and leaves
  no state file. The digest of a file is 64 characters of lower-case hexadecimal.\<close>

theorem interrupted_uninstall_converges:
  assumes digest: "\<And>f. valid_lower_hex_sha256 (sha f)"
    and D1: "D1 = snd (remove_deployment X sha E d e op D)" and changed: "D1 \<noteq> D"
    and lock: "rbind (lock_path d) (acquire_state_lock (env_held E')) = Inr ()"
    and good: "env_hash_readable E'" "env_commit_2 E' = Committed"
  shows "fst (converge_uninstall_completion sha E' d e op D1) = Inr True
    \<and> st_states (snd (converge_uninstall_completion sha E' d e op D1)) d = None"
  using changed_removal_converges [OF assms] .

text \<open>The completion record was published and the process died before the unlink.\<close>

definition sample_crashed :: store where
  "sample_crashed = snd (remove_deployment sample_X sample_sha (sample_E\<lparr>env_commit_2 := Rejected\<rparr>)
     ''alpha'' 1 ''o5'' sample_store)"

lemma sample_sha_ok: "valid_lower_hex_sha256 (sample_sha f)"
proof -
  have "valid_lower_hex_sha256 (replicate 64 CHR ''a'') \<and> valid_lower_hex_sha256 (replicate 64 CHR ''b'')
      \<and> valid_lower_hex_sha256 (replicate 64 CHR ''c'')"
    by code_simp
  then show ?thesis by (auto simp: sample_sha_def split: state_file.split)
qed

lemma interrupted_uninstall_converges_witness:
  "st_states sample_crashed ''alpha'' = Some (StateDoc sample_state)
   \<and> st_states (snd (converge_uninstall_completion sample_sha sample_E ''alpha'' 1 ''o5'' sample_crashed))
       ''alpha'' = None"
proof -
  have lock: "rbind (lock_path ''alpha'') (acquire_state_lock (env_held sample_E)) = Inr ()" by code_simp
  have "st_completions sample_crashed ''alpha'' \<noteq> st_completions sample_store ''alpha''" by code_simp
  then have "sample_crashed \<noteq> sample_store" by metis
  then have "fst (converge_uninstall_completion sample_sha sample_E ''alpha'' 1 ''o5'' sample_crashed) = Inr True
    \<and> st_states (snd (converge_uninstall_completion sample_sha sample_E ''alpha'' 1 ''o5'' sample_crashed))
        ''alpha'' = None"
    using lock sample_sha_ok
    by (intro interrupted_uninstall_converges [OF _ sample_crashed_def]) (simp_all add: sample_E_def)
  moreover have "st_states sample_crashed ''alpha'' = Some (StateDoc sample_state)" by code_simp
  ultimately show ?thesis by simp
qed

text \<open>A completion record never removes a deployment it was not written for: where the state
  file has another digest than the record, or the record names another deployment, operation or
  revision, converging leaves every state file in place.\<close>

theorem stale_completion_removes_nothing:
  assumes "\<And>c f. st_completions D d = Some (CompletionDoc c) \<Longrightarrow> st_states D d = Some f \<Longrightarrow>
      sha f \<noteq> uc_state_sha256 c \<or> uc_deployment_id c \<noteq> d \<or> uc_operation_id c \<noteq> op \<or> uc_revision c \<noteq> e"
  shows "snd (converge_uninstall_completion sha E d e op D) = D"
  using assms
  by (auto simp: converge_uninstall_completion_def deployment_scope_ok read_uninstall_completion_def
        completion_matches_def split: sum.splits option.splits completion_file.splits if_splits)

text \<open>The deployment was removed and created again under another operation.\<close>

definition sample_reborn :: store where
  "sample_reborn = snd (bootstrap_with_health sample_X sample_E ''alpha'' (sample_params 2000) ''o6''
     sample_health (snd (remove_deployment sample_X sample_sha sample_E ''alpha'' 1 ''o5'' sample_store)))"

lemma stale_completion_removes_nothing_witness:
  "snd (converge_uninstall_completion sample_sha sample_E ''alpha'' 1 ''o5'' sample_reborn) = sample_reborn
   \<and> st_states sample_reborn ''alpha'' \<noteq> None"
proof -
  have "(case (st_completions sample_reborn ''alpha'', st_states sample_reborn ''alpha'') of
      (Some (CompletionDoc c), Some f) \<Rightarrow> sample_sha f \<noteq> uc_state_sha256 c | _ \<Rightarrow> False)"
    by code_simp
  then show ?thesis
    by (intro conjI stale_completion_removes_nothing)
       (auto split: option.splits completion_file.splits)
qed

section \<open>Historical documents\<close>

text \<open>Reading a historical document yields a valid current one, only for schema 7, and the
  prohibition of its policy is kept: where the policy forbids an artifact rollback, the previous
  artifact and release are gone, and everything but them and the schema is what the file says.\<close>

theorem legacy_prohibition_kept:
  assumes "read_deployment_state X (LegacyDoc schema value) = Inr s"
  shows "schema = 7 \<and> state_ok X s
    \<and> (\<exists>object policy rest. value = Some object \<and> lm_current_policy object = Member policy
         \<and> lm_rest object = Some rest \<and> LegacyRollbackPolicy_validate X policy = Inr ()
         \<and> (\<not> allows_artifact_rollback policy \<longrightarrow>
              art_previous (ds_artifact s) = None \<and> ds_previous_release s = None)
         \<and> (allows_artifact_rollback policy \<longrightarrow>
              ds_artifact s = ds_artifact rest \<and> ds_previous_release s = ds_previous_release rest)
         \<and> art_current (ds_artifact s) = art_current (ds_artifact rest)
         \<and> ds_applied_migration s = ds_applied_migration rest \<and> ds_config s = ds_config rest
         \<and> same_identity rest s)"
proof -
  have "schema = 7" and n: "normalize_schema_7 X value = Inr s"
    using assms by (simp_all add: read_deployment_state_def split: if_splits)
  from n show ?thesis
  proof (rule normalize_schema_7_ok)
    fix object policy rest
    assume "value = Some object" "lm_rest object = Some rest" "state_ok X s"
      and pol: "required_policy X PolicyMissing (lm_current_policy object) = Inr policy"
      and s: "s = (if allows_artifact_rollback policy then rest
                else drop_previous_generation rest)\<lparr>ds_schema := DEPLOYMENT_STATE_SCHEMA\<rparr>"
    moreover have "lm_current_policy object = Member policy \<and> LegacyRollbackPolicy_validate X policy = Inr ()"
      using pol by (auto simp: required_policy_def rbind_Inr_iff split: member.splits)
    ultimately show ?thesis
      using \<open>schema = 7\<close> by (auto simp: s drop_previous_generation_def same_identity_def)
  qed
qed

definition sample_policy :: LegacyRollbackPolicy where
  "sample_policy = \<lparr>lp_artifact = False, lp_schema_compatible = False, lp_database_restore = Backup,
     lp_irreversible_migration = True, lp_minimum_supported_version = ''1.0.0'',
     lp_migration_floor = ''12'', lp_rationale = ''drops a column''\<rparr>"

definition sample_legacy :: state_file where
  "sample_legacy = LegacyDoc 7 (Some \<lparr>lm_current_policy = Member sample_policy, lm_previous_policy = Absent,
     lm_migration_policy = None, lm_rest = Some sample_updated\<rparr>)"

lemma legacy_prohibition_kept_witness:
  "\<exists>s. read_deployment_state sample_X sample_legacy = Inr s
     \<and> art_previous (ds_artifact sample_updated) \<noteq> None \<and> state_ok sample_X s
     \<and> art_current (ds_artifact s) = Some ''v2'' \<and> art_previous (ds_artifact s) = None"
proof -
  let ?s = "drop_previous_generation sample_updated"
  have read: "read_deployment_state sample_X sample_legacy = Inr ?s" by code_simp
  have facts: "art_current (ds_artifact ?s) = Some ''v2'' \<and> art_previous (ds_artifact ?s) = None
    \<and> art_previous (ds_artifact sample_updated) \<noteq> None" by code_simp
  have "state_ok sample_X ?s"
    using legacy_prohibition_kept [OF read [unfolded sample_legacy_def]] by blast
  with read facts show ?thesis by blast
qed

end
