(* ===== verification/Backup.thy ===== *)
theory Backup
  imports StateMutations
begin

text \<open>
  Target-owned backup evidence (\<open>src/src/target/backup.rs\<close>): the snapshot manifest, the
  restore-test receipt and the off-host receipt, their validation, the three evidence files of a
  deployment scope, and the projection every inspection derives from them.

  \<open>H\<close> stands for the SHA-256 of a manifest's JSON encoding, \<open>sz\<close> for the length of a document's
  encoding. The evidence files of one scope are a map from their fixed names to what reading and
  parsing them yields.
\<close>

section \<open>Documents\<close>

definition BACKUP_MANIFEST_SCHEMA :: nat where "BACKUP_MANIFEST_SCHEMA = 5"
definition RESTORE_TEST_RECEIPT_SCHEMA :: nat where "RESTORE_TEST_RECEIPT_SCHEMA = 2"
definition OFF_HOST_COPY_RECEIPT_SCHEMA :: nat where "OFF_HOST_COPY_RECEIPT_SCHEMA = 1"
definition MAX_BACKUP_EVIDENCE_BYTES :: nat where "MAX_BACKUP_EVIDENCE_BYTES = 4 * 1024 * 1024"
definition MAX_ARCHIVE_FILES :: nat where "MAX_ARCHIVE_FILES = 4096"

record SnapshotFile =
  sf_path :: string
  sf_size :: u64
  sf_sha256 :: string

record SnapshotManifest =
  sm_schema :: nat
  sm_deployment_id :: string
  sm_snapshot_id :: string
  sm_created_at :: time
  sm_runtime_artifact :: ArtifactReference
  sm_release :: ReleaseVersion
  sm_rollback_policy :: "LegacyRollbackPolicy option"
  sm_config_schema :: string
  sm_files :: "SnapshotFile list"
  sm_archive_files :: "SnapshotFile list"
  sm_database_sentinel_sha256 :: string
  sm_mfa_key_sha256 :: string
  sm_runtime_instance_key_id :: string
  sm_oidc_signing_key_ids :: "string list"
  sm_manifest_sha256 :: string

record RestoreTestReceipt =
  rr_schema :: nat
  rr_deployment_id :: string
  rr_snapshot_id :: string
  rr_manifest_sha256 :: string
  rr_restored_at :: time
  rr_isolated_database :: string
  rr_candidate_runtime_object :: string
  rr_runtime_instance_key_id :: string
  rr_database_sentinel_sha256 :: string

record OffHostCopyReceipt =
  oh_schema :: nat
  oh_deployment_id :: string
  oh_snapshot_id :: string
  oh_manifest_sha256 :: string
  oh_source_host_id :: string
  oh_destination_host_id :: string
  oh_verified_at :: time

datatype backup_violation =
    BRule violation
  | BState state_violation
  | BPolicy read_error
  | BackupPathRule
  | BackupDigestRule string
  | ManifestSchemaRule nat
  | ManifestPolicyMismatch
  | SnapshotIdRule
  | FileCountRule
  | DuplicateFilePath
  | ArchiveCountRule
  | DuplicateArchivePath
  | KeyCountRule
  | KeyOrderRule
  | OciImageRule
  | OciDigestRule
  | HostPathRule
  | ArtifactUnknownRule
  | ManifestHashMismatch
  | ReceiptSchemaRule nat
  | ReceiptBindingMismatch
  | ReceiptIdentityMismatch
  | OffHostBindingMismatch
  | OffHostSameHost
  | DeploymentMismatch
  | EvidenceUnreadable string
  | EvidenceUnparsable string
  | EvidenceTooLarge
  | EvidenceWriteFailed

section \<open>Validation of a manifest\<close>

definition validate_sha256 :: "string \<Rightarrow> string \<Rightarrow> backup_violation + unit" where
  "validate_sha256 value label =
     (if length value \<noteq> 64 \<or> \<not> list_all (\<lambda>b. is_hexdigit b \<and> \<not> is_upper b) value
      then Inl (BackupDigestRule label) else Inr ())"

definition SnapshotFile_validate :: "SnapshotFile \<Rightarrow> backup_violation + unit" where
  "SnapshotFile_validate f =
     (if sf_path f = [] \<or> 512 < length (sf_path f) \<or> hd (sf_path f) = CHR ''/''
         \<or> list_ex (\<lambda>part. part = [] \<or> part = ''.'' \<or> part = ''..'') (split_on (CHR ''/'') (sf_path f))
         \<or> \<not> list_all (\<lambda>b. is_graphic b \<and> b \<noteq> CHR 0x5C) (sf_path f)
      then Inl BackupPathRule
      else validate_sha256 (sf_sha256 f) ''backup file sha256'')"

definition validate_runtime_artifact :: "ArtifactReference \<Rightarrow> backup_violation + unit" where
  "validate_runtime_artifact artifact =
     (case artifact of
        Oci image_reference digest \<Rightarrow>
          if image_reference = [] \<or> 512 < length image_reference \<or> has_whitespace image_reference
          then Inl OciImageRule
          else (case strip_prefix ''sha256:'' digest of
                  None \<Rightarrow> Inl OciDigestRule
                | Some d \<Rightarrow> validate_sha256 d ''backup OCI artifact digest'')
      | HostBinary path sha256 \<Rightarrow>
          if path = [] \<or> hd path \<noteq> CHR ''/'' then Inl HostPathRule
          else validate_sha256 sha256 ''backup host artifact sha256''
      | UnknownArtifact \<Rightarrow> Inl ArtifactUnknownRule)"

text \<open>The loop over \<open>archive_files\<close> with its \<open>HashSet\<close> of paths.\<close>

fun check_archive :: "string list \<Rightarrow> SnapshotFile list \<Rightarrow> backup_violation + unit" where
  "check_archive seen [] = Inr ()"
| "check_archive seen (f # fs) =
     (case SnapshotFile_validate f of
        Inl e \<Rightarrow> Inl e
      | Inr _ \<Rightarrow>
          if sf_path f \<in> set seen then Inl DuplicateArchivePath
          else check_archive (sf_path f # seen) fs)"

text \<open>The loop over \<open>oidc_signing_key_ids\<close>: strictly ascending byte strings.\<close>

fun check_key_ids :: "string option \<Rightarrow> string list \<Rightarrow> backup_violation + unit" where
  "check_key_ids previous [] = Inr ()"
| "check_key_ids previous (k # ks) =
     (case validate_identifier k 256 ''OIDC signing key id'' of
        Inl e \<Rightarrow> Inl (BRule e)
      | Inr _ \<Rightarrow>
          if (case previous of None \<Rightarrow> False | Some p \<Rightarrow> k \<le> p) then Inl KeyOrderRule
          else check_key_ids (Some k) ks)"

definition validate_contents :: "externals \<Rightarrow> SnapshotManifest \<Rightarrow> backup_violation + unit" where
  "validate_contents X m = first_error
     [require (sm_schema m = BACKUP_MANIFEST_SCHEMA \<or> sm_schema m = 4) (ManifestSchemaRule (sm_schema m)),
      (case sm_rollback_policy m of
         Some policy \<Rightarrow>
           if sm_schema m = 4 then map_err BPolicy (LegacyRollbackPolicy_validate X policy)
           else Inl ManifestPolicyMismatch
       | None \<Rightarrow>
           if sm_schema m = BACKUP_MANIFEST_SCHEMA then Inr () else Inl ManifestPolicyMismatch),
      map_err BRule (validate_identifier (sm_deployment_id m) 128 ''backup deployment id''),
      require (uuid_version X (sm_snapshot_id m) \<noteq> None) SnapshotIdRule,
      map_err BState (ReleaseVersion_validate (sm_release m)),
      map_err BRule (validate_identifier (sm_config_schema m) 64 ''backup config schema''),
      validate_runtime_artifact (sm_runtime_artifact m),
      require (length (sm_files m) = 2) FileCountRule,
      first_error (map SnapshotFile_validate (sm_files m)),
      require (\<not> (length (sm_files m) = 2 \<and> sf_path (sm_files m ! 0) = sf_path (sm_files m ! 1)))
        DuplicateFilePath,
      require (\<not> (sm_archive_files m = [] \<or> MAX_ARCHIVE_FILES < length (sm_archive_files m)))
        ArchiveCountRule,
      check_archive [] (sm_archive_files m),
      validate_sha256 (sm_database_sentinel_sha256 m) ''database sentinel sha256'',
      validate_sha256 (sm_mfa_key_sha256 m) ''MFA key sha256'',
      map_err BRule (validate_identifier (sm_runtime_instance_key_id m) 128 ''runtime instance key id''),
      require (\<not> (sm_oidc_signing_key_ids m = [] \<or> 32 < length (sm_oidc_signing_key_ids m)))
        KeyCountRule,
      check_key_ids None (sm_oidc_signing_key_ids m)]"

definition computed_sha256 :: "(SnapshotManifest \<Rightarrow> string) \<Rightarrow> SnapshotManifest \<Rightarrow> string" where
  "computed_sha256 H m = H (m\<lparr>sm_manifest_sha256 := []\<rparr>)"

definition SnapshotManifest_validate ::
  "externals \<Rightarrow> (SnapshotManifest \<Rightarrow> string) \<Rightarrow> SnapshotManifest \<Rightarrow> backup_violation + unit" where
  "SnapshotManifest_validate X H m =
     rbind (validate_contents X m)
       (\<lambda>_. require (sm_manifest_sha256 m = computed_sha256 H m) ManifestHashMismatch)"

section \<open>Validation of the receipts against a manifest\<close>

definition OffHostCopyReceipt_validate_against ::
  "OffHostCopyReceipt \<Rightarrow> SnapshotManifest \<Rightarrow> backup_violation + unit" where
  "OffHostCopyReceipt_validate_against r m = first_error
     [require (\<not> (oh_schema r \<noteq> OFF_HOST_COPY_RECEIPT_SCHEMA
                \<or> oh_deployment_id r \<noteq> sm_deployment_id m
                \<or> oh_snapshot_id r \<noteq> sm_snapshot_id m
                \<or> oh_manifest_sha256 r \<noteq> sm_manifest_sha256 m)) OffHostBindingMismatch,
      map_err BRule (validate_identifier (oh_source_host_id r) 128 ''source host id''),
      map_err BRule (validate_identifier (oh_destination_host_id r) 128 ''destination host id''),
      require (oh_source_host_id r \<noteq> oh_destination_host_id r) OffHostSameHost]"

definition RestoreTestReceipt_validate_against ::
  "RestoreTestReceipt \<Rightarrow> SnapshotManifest \<Rightarrow> backup_violation + unit" where
  "RestoreTestReceipt_validate_against r m = first_error
     [require (rr_schema r = RESTORE_TEST_RECEIPT_SCHEMA) (ReceiptSchemaRule (rr_schema r)),
      require (\<not> (rr_deployment_id r \<noteq> sm_deployment_id m
                \<or> rr_snapshot_id r \<noteq> sm_snapshot_id m
                \<or> rr_manifest_sha256 r \<noteq> sm_manifest_sha256 m)) ReceiptBindingMismatch,
      map_err BRule (validate_identifier (rr_isolated_database r) 128 ''isolated restore database''),
      map_err BRule (validate_identifier (rr_candidate_runtime_object r) 256
        ''restore-test runtime object''),
      require (\<not> (rr_runtime_instance_key_id r \<noteq> sm_runtime_instance_key_id m
                \<or> rr_database_sentinel_sha256 r \<noteq> sm_database_sentinel_sha256 m))
        ReceiptIdentityMismatch]"

section \<open>The evidence files\<close>

datatype evidence_path = manifest_path | receipt_path | off_host_receipt_path

datatype evidence =
    ManifestDoc SnapshotManifest
  | ReceiptDoc RestoreTestReceipt
  | OffHostDoc OffHostCopyReceipt
  | MalformedEvidence
  | UnsafeEvidence

type_synonym scope_dir = "evidence_path \<rightharpoonup> evidence"

definition load_evidence ::
  "scope_dir \<Rightarrow> evidence_path \<Rightarrow> string \<Rightarrow> (evidence \<Rightarrow> backup_violation + 'a)
   \<Rightarrow> backup_violation + 'a option" where
  "load_evidence dir path label parse =
     (case dir path of
        None \<Rightarrow> Inr None
      | Some doc \<Rightarrow>
          if doc = UnsafeEvidence then Inl (EvidenceUnreadable label)
          else rbind (parse doc) (\<lambda>v. Inr (Some v)))"

definition load_manifest ::
  "externals \<Rightarrow> (SnapshotManifest \<Rightarrow> string) \<Rightarrow> scope_dir \<Rightarrow> backup_violation + SnapshotManifest option" where
  "load_manifest X H dir =
     load_evidence dir manifest_path ''backup snapshot manifest''
       (\<lambda>doc. case doc of
          ManifestDoc m \<Rightarrow> rbind (SnapshotManifest_validate X H m) (\<lambda>_. Inr m)
        | _ \<Rightarrow> Inl (EvidenceUnparsable ''backup snapshot manifest''))"

definition load_receipt :: "scope_dir \<Rightarrow> backup_violation + RestoreTestReceipt option" where
  "load_receipt dir =
     load_evidence dir receipt_path ''backup restore-test receipt''
       (\<lambda>doc. case doc of
          ReceiptDoc r \<Rightarrow> Inr r
        | _ \<Rightarrow> Inl (EvidenceUnparsable ''backup restore-test receipt''))"

definition load_off_host_receipt :: "scope_dir \<Rightarrow> backup_violation + OffHostCopyReceipt option" where
  "load_off_host_receipt dir =
     load_evidence dir off_host_receipt_path ''off-host backup copy receipt''
       (\<lambda>doc. case doc of
          OffHostDoc r \<Rightarrow> Inr r
        | _ \<Rightarrow> Inl (EvidenceUnparsable ''off-host backup copy receipt''))"

definition write_evidence ::
  "(evidence \<Rightarrow> nat) \<Rightarrow> commit \<Rightarrow> evidence_path \<Rightarrow> evidence \<Rightarrow> scope_dir
   \<Rightarrow> (backup_violation + unit) \<times> scope_dir" where
  "write_evidence sz outcome path doc dir =
     (if MAX_BACKUP_EVIDENCE_BYTES < sz doc then (Inl EvidenceTooLarge, dir)
      else case atomic_write outcome path doc dir of
        (ok, dir') \<Rightarrow> (require ok EvidenceWriteFailed, dir'))"

definition write_manifest ::
  "(evidence \<Rightarrow> nat) \<Rightarrow> commit \<Rightarrow> SnapshotManifest \<Rightarrow> scope_dir \<Rightarrow> (backup_violation + unit) \<times> scope_dir" where
  "write_manifest sz outcome m dir = write_evidence sz outcome manifest_path (ManifestDoc m) dir"

definition write_receipt ::
  "(evidence \<Rightarrow> nat) \<Rightarrow> commit \<Rightarrow> RestoreTestReceipt \<Rightarrow> scope_dir \<Rightarrow> (backup_violation + unit) \<times> scope_dir" where
  "write_receipt sz outcome r dir = write_evidence sz outcome receipt_path (ReceiptDoc r) dir"

definition write_off_host_receipt ::
  "(evidence \<Rightarrow> nat) \<Rightarrow> commit \<Rightarrow> OffHostCopyReceipt \<Rightarrow> scope_dir \<Rightarrow> (backup_violation + unit) \<times> scope_dir" where
  "write_off_host_receipt sz outcome r dir =
     write_evidence sz outcome off_host_receipt_path (OffHostDoc r) dir"

section \<open>The projection\<close>

record SnapshotProjection =
  sp_snapshot_id :: string
  sp_created_at :: time
  sp_manifest_sha256 :: string
  sp_restore_tested_at :: "time option"
  sp_off_host_verified_at :: "time option"

record BackupProjection =
  bpr_local_rollback_ready :: bool
  bpr_snapshot :: "SnapshotProjection option"

text \<open>\<open>match \<dots> { Ok(value) => value, Err(error) => { diagnostics.push(\<dots>); None } }\<close>\<close>

definition or_diagnose ::
  "backup_violation + 'a option \<Rightarrow> backup_violation list \<Rightarrow> 'a option \<times> backup_violation list" where
  "or_diagnose r diagnostics =
     (case r of Inr v \<Rightarrow> (v, diagnostics) | Inl e \<Rightarrow> (None, diagnostics @ [e]))"

definition bound_receipt ::
  "backup_violation + 'r option \<Rightarrow> ('r \<Rightarrow> backup_violation + unit) \<Rightarrow> ('r \<Rightarrow> time)
   \<Rightarrow> backup_violation + time option" where
  "bound_receipt receipt valid at =
     rbind receipt (\<lambda>receipt. case receipt of
       None \<Rightarrow> Inr None
     | Some r \<Rightarrow> rbind (valid r) (\<lambda>_. Inr (Some (at r))))"

definition inspect_backup ::
  "externals \<Rightarrow> (SnapshotManifest \<Rightarrow> string) \<Rightarrow> scope_dir \<Rightarrow> DeploymentState
   \<Rightarrow> backup_violation list \<Rightarrow> BackupProjection \<times> backup_violation list" where
  "inspect_backup X H dir state diagnostics =
     (let projection = \<lparr>bpr_local_rollback_ready = (art_previous (ds_artifact state) \<noteq> None),
                        bpr_snapshot = None\<rparr>;
          loaded = rbind (load_manifest X H dir) (\<lambda>manifest. case manifest of
            None \<Rightarrow> Inr None
          | Some m \<Rightarrow>
              if sm_deployment_id m \<noteq> ds_deployment_id state then Inl DeploymentMismatch
              else Inr (Some m))
      in case loaded of
           Inl e \<Rightarrow> (projection, diagnostics @ [e])
         | Inr None \<Rightarrow> (projection, diagnostics)
         | Inr (Some m) \<Rightarrow>
             (case or_diagnose (bound_receipt (load_receipt dir)
                     (\<lambda>r. RestoreTestReceipt_validate_against r m) rr_restored_at) diagnostics of
                (restore_tested_at, d1) \<Rightarrow>
             (case or_diagnose (bound_receipt (load_off_host_receipt dir)
                     (\<lambda>r. OffHostCopyReceipt_validate_against r m) oh_verified_at) d1 of
                (off_host_verified_at, d2) \<Rightarrow>
             (projection\<lparr>bpr_snapshot := Some
                \<lparr>sp_snapshot_id = sm_snapshot_id m, sp_created_at = sm_created_at m,
                 sp_manifest_sha256 = sm_manifest_sha256 m,
                 sp_restore_tested_at = restore_tested_at,
                 sp_off_host_verified_at = off_host_verified_at\<rparr>\<rparr>, d2))))"

definition backup_projection ::
  "externals \<Rightarrow> (SnapshotManifest \<Rightarrow> string) \<Rightarrow> scope_dir \<Rightarrow> DeploymentState
   \<Rightarrow> backup_violation list + BackupProjection" where
  "backup_projection X H dir state =
     (case inspect_backup X H dir state [] of
        (projection, diagnostics) \<Rightarrow>
          if diagnostics \<noteq> [] then Inl diagnostics else Inr projection)"

end
