(* ===== verification/BackupProperties.thy ===== *)
theory BackupProperties
  imports Backup StateProperties
begin

text \<open>
  What the backup evidence guarantees: archived paths stay below the restore root, a manifest is
  bound by its hash, a projected fact is backed by the documents on disk, and evidence that was
  written durably reads back.
\<close>

section \<open>Loops of the validator\<close>

lemma validate_sha256_ok [guard_simps]: "validate_sha256 v l = Inr u \<longleftrightarrow> valid_lower_hex_sha256 v"
  by (simp add: validate_sha256_def valid_lower_hex_sha256_def)

lemma check_archive_ok:
  "check_archive seen fs = Inr u \<longleftrightarrow>
     (\<forall>f \<in> set fs. SnapshotFile_validate f = Inr ()) \<and> distinct (map sf_path fs)
     \<and> set (map sf_path fs) \<inter> set seen = {}"
proof (induction fs arbitrary: seen)
  case (Cons f fs)
  then show ?case by (cases "SnapshotFile_validate f") auto
qed simp

lemma check_key_ids_ok:
  "check_key_ids previous ks = Inr u \<longleftrightarrow>
     (\<forall>k \<in> set ks. validate_identifier k 256 ''OIDC signing key id'' = Inr ())
     \<and> sorted_wrt (<) (case previous of None \<Rightarrow> ks | Some p \<Rightarrow> p # ks)"
proof (induction ks arbitrary: previous)
  case Nil
  then show ?case by (cases previous) auto
next
  case (Cons k ks)
  show ?case
  proof (cases "validate_identifier k 256 ''OIDC signing key id''")
    case (Inr v)
    have "(\<forall>x \<in> set ks. k < x) \<longrightarrow> p < k \<longrightarrow> (\<forall>x \<in> set ks. p < x)" for p
      by (meson less_trans)
    with Inr Cons show ?thesis by (cases previous) (auto simp: not_le)
  qed simp
qed

lemma validate_contents_archive:
  "validate_contents X m = Inr u \<Longrightarrow>
     (\<forall>f \<in> set (sm_files m) \<union> set (sm_archive_files m). SnapshotFile_validate f = Inr ())
     \<and> distinct (map sf_path (sm_archive_files m)) \<and> sorted_wrt (<) (sm_oidc_signing_key_ids m)
     \<and> distinct (map sf_path (sm_files m))"
  by (auto simp: validate_contents_def check_archive_ok check_key_ids_ok numeral_2_eq_2 length_Suc_conv)

lemma manifest_ok:
  "SnapshotManifest_validate X H m = Inr u \<longleftrightarrow>
     validate_contents X m = Inr () \<and> sm_manifest_sha256 m = computed_sha256 H m"
  by (simp add: SnapshotManifest_validate_def rbind_Inr_iff)

section \<open>Archived paths stay below the restore root\<close>

text \<open>Where the operating system ends up when it follows the parts of a relative path.\<close>

fun resolve :: "string list \<Rightarrow> string list \<Rightarrow> string list" where
  "resolve base [] = base"
| "resolve base (p # ps) =
     (if p = [] \<or> p = ''.'' then resolve base ps
      else if p = ''..'' then resolve (butlast base) ps
      else resolve (base @ [p]) ps)"

lemma resolve_plain:
  "list_all (\<lambda>p. \<not> (p = [] \<or> p = ''.'' \<or> p = ''..'')) ps \<Longrightarrow> resolve base ps = base @ ps"
  by (induction ps arbitrary: base) auto

lemma SnapshotFile_resolves:
  "SnapshotFile_validate f = Inr () \<Longrightarrow>
     resolve base (split_on (CHR ''/'') (sf_path f)) = base @ split_on (CHR ''/'') (sf_path f)"
  by (rule resolve_plain)
     (auto simp: SnapshotFile_validate_def list_all_iff list_ex_iff split: if_splits)

text \<open>C9: Every file a valid manifest names resolves strictly below the directory it is restored
  into, and two archived files never resolve to the same place.\<close>

theorem archive_stays_below_root:
  assumes "SnapshotManifest_validate X H m = Inr ()"
  shows "(\<forall>f \<in> set (sm_files m) \<union> set (sm_archive_files m).
            \<exists>rel. rel \<noteq> [] \<and> resolve root (split_on (CHR ''/'') (sf_path f)) = root @ rel)
    \<and> distinct (map (\<lambda>f. resolve root (split_on (CHR ''/'') (sf_path f))) (sm_archive_files m))"
proof -
  have ok: "\<forall>f \<in> set (sm_files m) \<union> set (sm_archive_files m). SnapshotFile_validate f = Inr ()"
    and d: "distinct (map sf_path (sm_archive_files m))"
    using assms validate_contents_archive by (auto simp: manifest_ok)
  have "inj_on (\<lambda>p. root @ split_on (CHR ''/'') p) (set (map sf_path (sm_archive_files m)))"
    using split_on_inject by (auto simp: inj_on_def)
  with d have "distinct (map ((\<lambda>p. root @ split_on (CHR ''/'') p) \<circ> sf_path) (sm_archive_files m))"
    unfolding map_map [symmetric] distinct_map by blast
  then have "distinct (map (\<lambda>f. resolve root (split_on (CHR ''/'') (sf_path f))) (sm_archive_files m))"
    using ok SnapshotFile_resolves
    by (metis (no_types, lifting) UnCI comp_apply map_cong)
  then show ?thesis using ok SnapshotFile_resolves by (metis split_on_not_Nil)
qed

definition sample_hex :: string where "sample_hex = replicate 64 (CHR ''a'')"

definition sample_manifest :: SnapshotManifest where
  "sample_manifest =
     \<lparr>sm_schema = 5, sm_deployment_id = ''alpha'', sm_snapshot_id = ''s'', sm_created_at = 7,
      sm_runtime_artifact = HostBinary ''/bin/nazo'' sample_hex, sm_release = \<lparr>rel_version = ''1''\<rparr>,
      sm_rollback_policy = None, sm_config_schema = ''1'',
      sm_files = [\<lparr>sf_path = ''postgresql.dump'', sf_size = 1, sf_sha256 = sample_hex\<rparr>,
                  \<lparr>sf_path = ''deployment.tar'', sf_size = 1, sf_sha256 = sample_hex\<rparr>],
      sm_archive_files = [\<lparr>sf_path = ''data/a'', sf_size = 1, sf_sha256 = sample_hex\<rparr>,
                          \<lparr>sf_path = ''data/b'', sf_size = 1, sf_sha256 = sample_hex\<rparr>],
      sm_database_sentinel_sha256 = sample_hex, sm_mfa_key_sha256 = sample_hex,
      sm_runtime_instance_key_id = ''k'', sm_oidc_signing_key_ids = [''k1'', ''k2''],
      sm_manifest_sha256 = sample_hex\<rparr>"

definition sample_H :: "SnapshotManifest \<Rightarrow> string" where
  "sample_H m = (if sm_config_schema m = ''1'' then sample_hex else [])"

lemma sample_hex_ok: "valid_lower_hex_sha256 sample_hex"
  by code_simp

lemma sample_manifest_ok: "SnapshotManifest_validate sample_X sample_H sample_manifest = Inr ()"
proof -
  have files: "list_all (\<lambda>f. SnapshotFile_validate f = Inr ())
      (sm_files sample_manifest @ sm_archive_files sample_manifest)"
    by (simp add: sample_manifest_def SnapshotFile_validate_def validate_sha256_ok sample_hex_ok
        char_class_defs)
  have keys: "check_key_ids None (sm_oidc_signing_key_ids sample_manifest) = Inr ()" by code_simp
  have names: "validate_identifier (sm_deployment_id sample_manifest) 128 ''backup deployment id'' = Inr ()
    \<and> ReleaseVersion_validate (sm_release sample_manifest) = Inr ()
    \<and> validate_identifier (sm_config_schema sample_manifest) 64 ''backup config schema'' = Inr ()
    \<and> validate_identifier (sm_runtime_instance_key_id sample_manifest) 128 ''runtime instance key id'' = Inr ()
    \<and> uuid_version sample_X (sm_snapshot_id sample_manifest) \<noteq> None"
    by code_simp
  have archive: "check_archive [] (sm_archive_files sample_manifest) = Inr ()"
    using files by (simp add: check_archive_ok list_all_iff) (simp add: sample_manifest_def)
  have "validate_contents sample_X sample_manifest = Inr ()"
    using files keys names archive
    by (simp add: validate_contents_def list_all_iff)
       (simp add: sample_manifest_def validate_runtime_artifact_def validate_sha256_ok sample_hex_ok
          BACKUP_MANIFEST_SCHEMA_def MAX_ARCHIVE_FILES_def)
  then show ?thesis
    by (simp add: manifest_ok computed_sha256_def sample_H_def sample_manifest_def)
qed

lemma archive_stays_below_root_witness:
  "distinct (map (\<lambda>f. resolve [''restore''] (split_on (CHR ''/'') (sf_path f)))
     (sm_archive_files sample_manifest))"
  using archive_stays_below_root [OF sample_manifest_ok] by blast

section \<open>The manifest hash\<close>

text \<open>The hash binds the manifest: two valid manifests with the same recorded hash are equal,
  unless the digest function itself maps two different documents to the same digest.\<close>

theorem manifest_hash_binds_contents:
  assumes "SnapshotManifest_validate X H m = Inr ()" and "SnapshotManifest_validate X H m' = Inr ()"
    and "sm_manifest_sha256 m' = sm_manifest_sha256 m"
  shows "m' = m
    \<or> (\<exists>a b. a \<noteq> b \<and> sm_manifest_sha256 a = [] \<and> sm_manifest_sha256 b = [] \<and> H a = H b)"
proof (cases "m'\<lparr>sm_manifest_sha256 := []\<rparr> = m\<lparr>sm_manifest_sha256 := []\<rparr>")
  case True
  then have "m'\<lparr>sm_manifest_sha256 := []\<rparr>\<lparr>sm_manifest_sha256 := sm_manifest_sha256 m'\<rparr>
      = m\<lparr>sm_manifest_sha256 := []\<rparr>\<lparr>sm_manifest_sha256 := sm_manifest_sha256 m\<rparr>"
    using assms(3) by (simp only:)
  then show ?thesis by simp
next
  case False
  have "H (m'\<lparr>sm_manifest_sha256 := []\<rparr>) = H (m\<lparr>sm_manifest_sha256 := []\<rparr>)"
    using assms by (simp add: manifest_ok computed_sha256_def)
  with False show ?thesis
    by (intro disjI2 exI [of _ "m'\<lparr>sm_manifest_sha256 := []\<rparr>"] exI [of _ "m\<lparr>sm_manifest_sha256 := []\<rparr>"])
       simp
qed

text \<open>A digest that keeps the created-at time apart: the tampered copy is not accepted.\<close>

lemma manifest_hash_binds_contents_witness:
  "sample_manifest = sample_manifest
   \<and> SnapshotManifest_validate sample_X sample_H (sample_manifest\<lparr>sm_config_schema := ''2''\<rparr>) \<noteq> Inr ()
   \<and> (sample_manifest = sample_manifest
      \<or> (\<exists>a b. a \<noteq> b \<and> sm_manifest_sha256 a = [] \<and> sm_manifest_sha256 b = [] \<and> sample_H a = sample_H b))"
proof (intro conjI)
  show "SnapshotManifest_validate sample_X sample_H (sample_manifest\<lparr>sm_config_schema := ''2''\<rparr>) \<noteq> Inr ()"
    by (simp add: manifest_ok computed_sha256_def sample_H_def sample_manifest_def sample_hex_def)
  show "sample_manifest = sample_manifest
      \<or> (\<exists>a b. a \<noteq> b \<and> sm_manifest_sha256 a = [] \<and> sm_manifest_sha256 b = [] \<and> sample_H a = sample_H b)"
    by (rule manifest_hash_binds_contents [OF sample_manifest_ok sample_manifest_ok refl])
qed (rule refl)

section \<open>The projection\<close>

lemma bound_receipt_Some:
  "bound_receipt r valid at = Inr (Some t) \<longleftrightarrow> (\<exists>x. r = Inr (Some x) \<and> valid x = Inr () \<and> at x = t)"
  by (auto simp: bound_receipt_def rbind_Inr_iff split: option.splits)

lemma or_diagnose_Some:
  "or_diagnose r d = (v, d') \<Longrightarrow> v = Some t \<Longrightarrow> r = Inr (Some t)"
  by (auto simp: or_diagnose_def split: sum.splits)

lemma load_manifest_ok:
  "load_manifest X H dir = Inr (Some m) \<longleftrightarrow>
     dir manifest_path = Some (ManifestDoc m) \<and> SnapshotManifest_validate X H m = Inr ()"
  by (auto simp: load_manifest_def load_evidence_def rbind_Inr_iff split: option.splits evidence.splits)

lemma load_receipt_ok:
  "load_receipt dir = Inr (Some r) \<longleftrightarrow> dir receipt_path = Some (ReceiptDoc r)"
  by (auto simp: load_receipt_def load_evidence_def rbind_Inr_iff split: option.splits evidence.splits)

lemma load_off_host_receipt_ok:
  "load_off_host_receipt dir = Inr (Some r) \<longleftrightarrow> dir off_host_receipt_path = Some (OffHostDoc r)"
  by (auto simp: load_off_host_receipt_def load_evidence_def rbind_Inr_iff
      split: option.splits evidence.splits)

lemma inspect_backup_snapshot:
  assumes "inspect_backup X H dir state d0 = (p, d)" and "bpr_snapshot p = Some sp"
  obtains m where "load_manifest X H dir = Inr (Some m)" and "sm_deployment_id m = ds_deployment_id state"
    and "sp_snapshot_id sp = sm_snapshot_id m" and "sp_manifest_sha256 sp = sm_manifest_sha256 m"
    and "\<And>t. sp_restore_tested_at sp = Some t \<Longrightarrow>
           bound_receipt (load_receipt dir) (\<lambda>r. RestoreTestReceipt_validate_against r m) rr_restored_at
             = Inr (Some t)"
    and "\<And>t. sp_off_host_verified_at sp = Some t \<Longrightarrow>
           bound_receipt (load_off_host_receipt dir) (\<lambda>r. OffHostCopyReceipt_validate_against r m)
             oh_verified_at = Inr (Some t)"
proof -
  from assms obtain m v1 d1 v2 where load: "load_manifest X H dir = Inr (Some m)"
    and dep: "sm_deployment_id m = ds_deployment_id state"
    and r: "or_diagnose (bound_receipt (load_receipt dir)
              (\<lambda>r. RestoreTestReceipt_validate_against r m) rr_restored_at) d0 = (v1, d1)"
    and o: "or_diagnose (bound_receipt (load_off_host_receipt dir)
              (\<lambda>r. OffHostCopyReceipt_validate_against r m) oh_verified_at) d1 = (v2, d)"
    and sp: "sp = \<lparr>sp_snapshot_id = sm_snapshot_id m, sp_created_at = sm_created_at m,
                 sp_manifest_sha256 = sm_manifest_sha256 m,
                 sp_restore_tested_at = v1, sp_off_host_verified_at = v2\<rparr>"
    by (auto simp: inspect_backup_def Let_def rbind_Inr_iff
        split: sum.splits option.splits prod.splits if_splits)
  show ?thesis
    by (rule that [OF load dep]) (simp_all add: sp or_diagnose_Some [OF r] or_diagnose_Some [OF o])
qed

text \<open>A projected fact is backed by evidence: a shown snapshot is a valid manifest of this very
  deployment, a shown restore test is a receipt that names the manifest's hash, instance key and
  database sentinel, and a shown off-host copy names the manifest's hash and two different hosts.
  This holds for the diagnostic projection too, whatever other evidence is damaged.\<close>

theorem projection_is_backed_by_evidence:
  assumes "inspect_backup X H dir state d0 = (p, d)" and "bpr_snapshot p = Some sp"
  shows "\<exists>m. dir manifest_path = Some (ManifestDoc m) \<and> SnapshotManifest_validate X H m = Inr ()
    \<and> sm_deployment_id m = ds_deployment_id state \<and> sp_manifest_sha256 sp = computed_sha256 H m
    \<and> (\<forall>t. sp_restore_tested_at sp = Some t \<longrightarrow>
         (\<exists>r. dir receipt_path = Some (ReceiptDoc r) \<and> rr_restored_at r = t
            \<and> rr_deployment_id r = ds_deployment_id state \<and> rr_snapshot_id r = sm_snapshot_id m
            \<and> rr_manifest_sha256 r = computed_sha256 H m
            \<and> rr_runtime_instance_key_id r = sm_runtime_instance_key_id m
            \<and> rr_database_sentinel_sha256 r = sm_database_sentinel_sha256 m))
    \<and> (\<forall>t. sp_off_host_verified_at sp = Some t \<longrightarrow>
         (\<exists>r. dir off_host_receipt_path = Some (OffHostDoc r) \<and> oh_verified_at r = t
            \<and> oh_deployment_id r = ds_deployment_id state \<and> oh_manifest_sha256 r = computed_sha256 H m
            \<and> oh_source_host_id r \<noteq> oh_destination_host_id r))"
proof (rule inspect_backup_snapshot [OF assms])
  fix m
  assume m: "load_manifest X H dir = Inr (Some m)" "sm_deployment_id m = ds_deployment_id state"
    "sp_manifest_sha256 sp = sm_manifest_sha256 m"
    and r: "\<And>t. sp_restore_tested_at sp = Some t \<Longrightarrow>
       bound_receipt (load_receipt dir) (\<lambda>r. RestoreTestReceipt_validate_against r m) rr_restored_at
         = Inr (Some t)"
    and o: "\<And>t. sp_off_host_verified_at sp = Some t \<Longrightarrow>
       bound_receipt (load_off_host_receipt dir) (\<lambda>r. OffHostCopyReceipt_validate_against r m)
         oh_verified_at = Inr (Some t)"
  have valid: "SnapshotManifest_validate X H m = Inr ()" and doc: "dir manifest_path = Some (ManifestDoc m)"
    using m(1) by (simp_all add: load_manifest_ok)
  then have h: "computed_sha256 H m = sm_manifest_sha256 m" by (simp add: manifest_ok)
  have "\<exists>r. dir receipt_path = Some (ReceiptDoc r) \<and> rr_restored_at r = t
      \<and> rr_deployment_id r = ds_deployment_id state \<and> rr_snapshot_id r = sm_snapshot_id m
      \<and> rr_manifest_sha256 r = computed_sha256 H m
      \<and> rr_runtime_instance_key_id r = sm_runtime_instance_key_id m
      \<and> rr_database_sentinel_sha256 r = sm_database_sentinel_sha256 m"
    if "sp_restore_tested_at sp = Some t" for t
    using r [OF that] m(2) unfolding h
    by (auto simp: bound_receipt_Some load_receipt_ok RestoreTestReceipt_validate_against_def)
  moreover have "\<exists>r. dir off_host_receipt_path = Some (OffHostDoc r) \<and> oh_verified_at r = t
      \<and> oh_deployment_id r = ds_deployment_id state \<and> oh_manifest_sha256 r = computed_sha256 H m
      \<and> oh_source_host_id r \<noteq> oh_destination_host_id r"
    if "sp_off_host_verified_at sp = Some t" for t
    using o [OF that] m(2) unfolding h
    by (auto simp: bound_receipt_Some load_off_host_receipt_ok OffHostCopyReceipt_validate_against_def)
  ultimately show ?thesis
    using doc valid m(2,3) h by (intro exI [of _ m]) metis
qed

definition sample_receipt :: RestoreTestReceipt where
  "sample_receipt = \<lparr>rr_schema = 2, rr_deployment_id = ''alpha'', rr_snapshot_id = ''s'',
     rr_manifest_sha256 = sample_hex, rr_restored_at = 9, rr_isolated_database = ''db'',
     rr_candidate_runtime_object = ''c'', rr_runtime_instance_key_id = ''k'',
     rr_database_sentinel_sha256 = sample_hex\<rparr>"

definition sample_evidence :: scope_dir where
  "sample_evidence = [manifest_path \<mapsto> ManifestDoc sample_manifest,
     receipt_path \<mapsto> ReceiptDoc sample_receipt]"

definition sample_projection :: BackupProjection where
  "sample_projection = fst (inspect_backup sample_X sample_H sample_evidence sample_state [])"

lemma projection_is_backed_by_evidence_witness:
  "\<exists>sp. bpr_snapshot sample_projection = Some sp \<and> sp_restore_tested_at sp = Some 9
     \<and> sp_manifest_sha256 sp = computed_sha256 sample_H sample_manifest"
proof -
  let ?sp = "\<lparr>sp_snapshot_id = ''s'', sp_created_at = 7, sp_manifest_sha256 = sample_hex,
              sp_restore_tested_at = Some 9, sp_off_host_verified_at = None\<rparr>"
  have load: "load_manifest sample_X sample_H sample_evidence = Inr (Some sample_manifest)"
    by (simp add: load_manifest_ok sample_evidence_def sample_manifest_ok)
  have receipt: "bound_receipt (load_receipt sample_evidence)
      (\<lambda>r. RestoreTestReceipt_validate_against r sample_manifest) rr_restored_at = Inr (Some 9)"
    by code_simp
  have off: "bound_receipt (load_off_host_receipt sample_evidence) v a = Inr None" for v a
    by (simp add: bound_receipt_def load_off_host_receipt_def load_evidence_def sample_evidence_def)
  have dep: "sm_deployment_id sample_manifest = ds_deployment_id sample_state" by code_simp
  have eval: "inspect_backup sample_X sample_H sample_evidence sample_state [] =
      (\<lparr>bpr_local_rollback_ready = False, bpr_snapshot = Some ?sp\<rparr>, [])"
    by (simp add: inspect_backup_def load receipt off dep or_diagnose_def)
       (simp add: sample_manifest_def sample_state_def fresh_state_def sample_params_def)
  then have sp: "bpr_snapshot sample_projection = Some ?sp" by (simp add: sample_projection_def)
  from eval have "snd (inspect_backup sample_X sample_H sample_evidence sample_state []) = []" by simp
  then have "inspect_backup sample_X sample_H sample_evidence sample_state [] = (sample_projection, [])"
    by (simp add: sample_projection_def prod_eq_iff)
  from projection_is_backed_by_evidence [OF this sp]
  have "sp_manifest_sha256 ?sp = computed_sha256 sample_H sample_manifest"
    by (auto simp: sample_evidence_def)
  with sp show ?thesis by force
qed

section \<open>Writing evidence\<close>

text \<open>Evidence round trip: a write that answers success is what the next load returns, a write
  that fails leaves the old document or the new one, and no other evidence file changes.\<close>

theorem evidence_round_trip:
  assumes "SnapshotManifest_validate X H m = Inr ()"
  shows "(fst (write_manifest sz out m dir) = Inr () \<longrightarrow>
           load_manifest X H (snd (write_manifest sz out m dir)) = Inr (Some m))
    \<and> (load_manifest X H (snd (write_manifest sz out m dir)) = load_manifest X H dir
       \<or> load_manifest X H (snd (write_manifest sz out m dir)) = Inr (Some m))
    \<and> load_receipt (snd (write_manifest sz out m dir)) = load_receipt dir
    \<and> load_off_host_receipt (snd (write_manifest sz out m dir)) = load_off_host_receipt dir"
proof -
  let ?w = "write_manifest sz out m dir"
  have put: "snd ?w = dir \<and> fst ?w \<noteq> Inr () \<or> snd ?w = dir(manifest_path \<mapsto> ManifestDoc m)"
    by (cases out) (auto simp: write_manifest_def write_evidence_def atomic_write_def)
  have "load_manifest X H (dir(manifest_path \<mapsto> ManifestDoc m)) = Inr (Some m)"
    using assms by (simp add: load_manifest_ok)
  moreover have "load_receipt (dir(manifest_path \<mapsto> d)) = load_receipt dir"
    and "load_off_host_receipt (dir(manifest_path \<mapsto> d)) = load_off_host_receipt dir" for d
    by (simp_all add: load_receipt_def load_off_host_receipt_def load_evidence_def)
  ultimately show ?thesis using put by metis
qed

lemma evidence_round_trip_witness:
  "load_manifest sample_X sample_H (snd (write_manifest (\<lambda>_. 100) Committed sample_manifest Map.empty))
     = Inr (Some sample_manifest)"
proof -
  have "fst (write_manifest (\<lambda>_. 100) Committed sample_manifest Map.empty) = Inr ()"
    by (simp add: write_manifest_def write_evidence_def atomic_write_def MAX_BACKUP_EVIDENCE_BYTES_def)
  then show ?thesis
    using evidence_round_trip [OF sample_manifest_ok, of "\<lambda>_. 100" Committed Map.empty] by blast
qed

end
