(* ===== verification/Orders.thy ===== *)
theory Orders
  imports Backup
begin

text \<open>
  The typed payloads a state mutation carries: the install order and the staged configuration of
  \<open>src/src/target/install_exec.rs\<close>, the backup precondition and the mutation set of
  \<open>src/src/target/deployment_state.rs\<close>, and the bounded byte carriers of
  \<open>src/src/target/wire.rs\<close>.

  A rejected message is its \<open>RejectionCode\<close>; the \<open>detail\<close> prose is not modelled. Paths follow the
  POSIX rules of \<open>std::path\<close>. \<open>b64url\<close> is the unpadded URL-safe base64 decoder of the \<open>base64\<close>
  crate, \<open>None\<close> where it refuses the text.
\<close>

datatype RejectionCode =
    OperationOversize
  | OperationMalformed
  | OperationSchemaUnsupported
  | OperationKindUnknown
  | ResultOversize
  | ResultMalformed
  | ResultSchemaUnsupported

definition RejectionCode_as_str :: "RejectionCode \<Rightarrow> string" where
  "RejectionCode_as_str c =
     (case c of
        OperationOversize \<Rightarrow> ''HOST_OPERATION_OVERSIZE''
      | OperationMalformed \<Rightarrow> ''HOST_OPERATION_MALFORMED''
      | OperationSchemaUnsupported \<Rightarrow> ''HOST_OPERATION_SCHEMA_UNSUPPORTED''
      | OperationKindUnknown \<Rightarrow> ''HOST_OPERATION_KIND_UNKNOWN''
      | ResultOversize \<Rightarrow> ''HOST_RESULT_OVERSIZE''
      | ResultMalformed \<Rightarrow> ''HOST_RESULT_MALFORMED''
      | ResultSchemaUnsupported \<Rightarrow> ''HOST_RESULT_SCHEMA_UNSUPPORTED'')"

text \<open>The guard every admission rule is written with.\<close>

abbreviation malformed_unless :: "bool \<Rightarrow> RejectionCode + unit" where
  "malformed_unless c \<equiv> require c OperationMalformed"

section \<open>Bounded byte carriers\<close>

definition MAX_CONTROL_CHANGE_SET_BYTES :: nat where
  "MAX_CONTROL_CHANGE_SET_BYTES = 4 * 1024 * 1024"

definition MAX_BACKUP_TRANSFER_CHUNK_BYTES :: nat where
  "MAX_BACKUP_TRANSFER_CHUNK_BYTES = 256 * 1024"

datatype SecretMaterial = SecretMaterial (secret_bytes: string)
datatype BackupTransferBytes = BackupTransferBytes (transfer_bytes: string)

definition SecretMaterial_try_new :: "string \<Rightarrow> RejectionCode + SecretMaterial" where
  "SecretMaterial_try_new bytes =
     (if bytes = [] \<or> MAX_CONTROL_CHANGE_SET_BYTES < length bytes then Inl OperationMalformed
      else Inr (SecretMaterial bytes))"

definition BackupTransferBytes_try_new :: "string \<Rightarrow> RejectionCode + BackupTransferBytes" where
  "BackupTransferBytes_try_new bytes =
     (if bytes = [] \<or> MAX_BACKUP_TRANSFER_CHUNK_BYTES < length bytes then Inl OperationMalformed
      else Inr (BackupTransferBytes bytes))"

definition div_ceil :: "nat \<Rightarrow> nat \<Rightarrow> nat" where
  "div_ceil a b = (a + b - 1) div b"

text \<open>The \<open>Deserialize\<close> implementations: the encoded bound first, then the decoder, then \<open>try_new\<close>.\<close>

definition SecretMaterial_deserialize ::
  "(string \<Rightarrow> string option) \<Rightarrow> string \<Rightarrow> SecretMaterial option" where
  "SecretMaterial_deserialize b64 encoded =
     (if div_ceil MAX_CONTROL_CHANGE_SET_BYTES 3 * 4 < length encoded then None
      else case b64 encoded of
             None \<Rightarrow> None
           | Some bytes \<Rightarrow>
               (case SecretMaterial_try_new bytes of Inl _ \<Rightarrow> None | Inr s \<Rightarrow> Some s))"

definition BackupTransferBytes_deserialize ::
  "(string \<Rightarrow> string option) \<Rightarrow> string \<Rightarrow> BackupTransferBytes option" where
  "BackupTransferBytes_deserialize b64 encoded =
     (if div_ceil MAX_BACKUP_TRANSFER_CHUNK_BYTES 3 * 4 < length encoded then None
      else case b64 encoded of
             None \<Rightarrow> None
           | Some bytes \<Rightarrow>
               (case BackupTransferBytes_try_new bytes of Inl _ \<Rightarrow> None | Inr s \<Rightarrow> Some s))"

section \<open>Install paths\<close>

definition SECRET_PURPOSES :: "string list" where
  "SECRET_PURPOSES =
     [''database-runtime-url'', ''database-lifecycle-url'', ''valkey-url'', ''mfa-totp-key'',
      ''signing-key-encryption-key'', ''client-secret-pepper'', ''dynamic-registration-token'',
      ''openid4vc-data-encryption-key'', ''openid4vci-management-token'',
      ''openid4vp-management-token'']"

definition MAX_CONFIG_CONTENT_BYTES :: nat where "MAX_CONFIG_CONTENT_BYTES = 32 * 1024"

text \<open>
  \<open>Path::components\<close> of an absolute path, the root left out: empty and \<open>.\<close> parts are dropped.
  \<open>Path::parent\<close> of an absolute path is the list without its last part, \<open>None\<close> for the root.
\<close>

definition path_components :: "string \<Rightarrow> string list" where
  "path_components path = filter (\<lambda>p. p \<noteq> [] \<and> p \<noteq> ''.'') (split_on (CHR ''/'') path)"

definition path_parent :: "string \<Rightarrow> string list option" where
  "path_parent path =
     (let parts = path_components path in if parts = [] then None else Some (butlast parts))"

definition safe_absolute_install_path :: "string \<Rightarrow> bool" where
  "safe_absolute_install_path value \<longleftrightarrow>
     value \<noteq> [] \<and> length value \<le> 512 \<and> hd value = CHR ''/'' \<and> \<not> has_control value
     \<and> ''..'' \<notin> set (path_components value)"

definition valid_tls_material_root :: "string \<Rightarrow> bool" where
  "valid_tls_material_root path \<longleftrightarrow>
     safe_absolute_install_path path
     \<and> hd path = CHR ''/''
     \<and> last path \<noteq> CHR ''/''
     \<and> CHR 0x5C \<notin> set path \<and> CHR '':'' \<notin> set path \<and> CHR '','' \<notin> set path
     \<and> take 2 path \<noteq> ''//''
     \<and> \<not> list_ex (\<lambda>p. p = [] \<or> p = ''.'' \<or> p = ''..'') (tl (split_on (CHR ''/'') path))"

text \<open>\<open>str::trim\<close>.\<close>

function trim_start :: "string \<Rightarrow> string" where
  "trim_start s = (if white_len s = 0 then s else trim_start (drop (white_len s) s))"
  by pat_completeness auto
termination
  by (relation "measure length") (auto simp: white_len_def split: list.splits if_splits)

declare trim_start.simps [simp del]

fun trim_end :: "string \<Rightarrow> string" where
  "trim_end [] = []"
| "trim_end (c # s) = (if all_whitespace (c # s) then [] else c # trim_end s)"

definition trim :: "string \<Rightarrow> string" where "trim s = trim_end (trim_start s)"

definition validate_signing_key_encryption_key :: "(string \<Rightarrow> string option) \<Rightarrow> string \<Rightarrow> bool" where
  "validate_signing_key_encryption_key b64url bytes \<longleftrightarrow>
     (case b64url (trim bytes) of None \<Rightarrow> False | Some decoded \<Rightarrow> length decoded = 32)"

section \<open>Orders\<close>

record OfficialArtifactRef =
  oa_repository :: string
  oa_version :: "string option"

record PlannedSecret =
  ps_purpose :: string
  ps_path :: string
  ps_value :: "SecretMaterial option"

record StagedConfig =
  sc_content :: string
  sc_sha256 :: string
  sc_schema :: string

record ExternalEndpoint =
  ee_host :: string
  ee_port :: u16
  ee_name :: string
  ee_user :: string

record InstallOrder =
  io_artifact :: OfficialArtifactRef
  io_config_content :: string
  io_config_sha256 :: string
  io_data_root :: string
  io_runtime_root :: "string option"
  io_tls_material_root :: "string option"
  io_secrets :: "PlannedSecret list"
  io_database_runtime_endpoint :: ExternalEndpoint
  io_database_lifecycle_endpoint :: ExternalEndpoint
  io_valkey_endpoint :: ExternalEndpoint

definition StagedConfig_validate :: "StagedConfig \<Rightarrow> RejectionCode + unit" where
  "StagedConfig_validate c = first_error
     [malformed_unless (\<not> (sc_content c = [] \<or> MAX_CONFIG_CONTENT_BYTES < length (sc_content c))),
      malformed_unless (valid_lower_hex_sha256 (sc_sha256 c)),
      map_err (\<lambda>_. OperationMalformed) (validate_identifier (sc_schema c) 64 ''update config schema'')]"

definition postgres_token :: "string \<Rightarrow> bool" where
  "postgres_token value \<longleftrightarrow>
     value \<noteq> [] \<and> length value \<le> 63
     \<and> list_all (\<lambda>b. is_alphanumeric b \<or> b = CHR ''_'' \<or> b = CHR ''-'') value"

text \<open>The loop over \<open>self.secrets\<close>.\<close>

fun check_secrets ::
  "(string \<Rightarrow> string option) \<Rightarrow> string list \<Rightarrow> PlannedSecret list \<Rightarrow> RejectionCode + unit" where
  "check_secrets b64url seen [] = Inr ()"
| "check_secrets b64url seen (secret # secrets) =
     (if ps_purpose secret \<notin> set SECRET_PURPOSES \<or> ps_purpose secret \<in> set seen
      then Inl OperationMalformed
      else if \<not> safe_absolute_install_path (ps_path secret) \<or> path_parent (ps_path secret) = None
      then Inl OperationMalformed
      else if (ps_value secret \<noteq> None) \<noteq> (ps_purpose secret \<noteq> ''mfa-totp-key'')
      then Inl OperationMalformed
      else if ps_purpose secret = ''signing-key-encryption-key''
         \<and> \<not> validate_signing_key_encryption_key b64url (secret_bytes (the (ps_value secret)))
      then Inl OperationMalformed
      else check_secrets b64url (seen @ [ps_purpose secret]) secrets)"

definition shared_secret_dir :: "PlannedSecret list \<Rightarrow> bool" where
  "shared_secret_dir secrets \<longleftrightarrow>
     (case secrets of
        [] \<Rightarrow> True
      | first # rest \<Rightarrow>
          (case path_parent (ps_path first) of
             None \<Rightarrow> True
           | Some shared \<Rightarrow> list_all (\<lambda>s. path_parent (ps_path s) = Some shared) rest))"

definition InstallOrder_validate ::
  "(string \<Rightarrow> string option) \<Rightarrow> InstallOrder \<Rightarrow> RejectionCode + unit" where
  "InstallOrder_validate b64url ord =
     (let runtime = io_database_runtime_endpoint ord;
          lifecycle = io_database_lifecycle_endpoint ord;
          valkey = io_valkey_endpoint ord
      in first_error
       ([malformed_unless (\<not> (ee_host e = [] \<or> 253 < length (ee_host e))). e \<leftarrow> [runtime, lifecycle, valkey]]
        @ [malformed_unless (\<not> (ee_port runtime = 0 \<or> ee_port lifecycle = 0 \<or> ee_port valkey = 0)),
           malformed_unless (\<not> (\<not> postgres_token (ee_name runtime) \<or> \<not> postgres_token (ee_user runtime)
             \<or> \<not> postgres_token (ee_name lifecycle) \<or> \<not> postgres_token (ee_user lifecycle))),
           malformed_unless (\<not> (io_config_content ord = []
             \<or> MAX_CONFIG_CONTENT_BYTES < length (io_config_content ord))),
           malformed_unless (valid_lower_hex_sha256 (io_config_sha256 ord)),
           malformed_unless (safe_absolute_install_path (io_data_root ord)),
           on_some (io_runtime_root ord) (\<lambda>p. malformed_unless (safe_absolute_install_path p)),
           on_some (io_tls_material_root ord) (\<lambda>p. malformed_unless (valid_tls_material_root p)),
           malformed_unless (\<not> (ee_host runtime \<noteq> ee_host lifecycle \<or> ee_port runtime \<noteq> ee_port lifecycle
             \<or> ee_name runtime \<noteq> ee_name lifecycle \<or> ee_user runtime = ee_user lifecycle)),
           malformed_unless (length (io_secrets ord) = length SECRET_PURPOSES),
           check_secrets b64url [] (io_secrets ord),
           malformed_unless (shared_secret_dir (io_secrets ord))]))"

section \<open>Connection strings\<close>

definition hex_digit :: "nat \<Rightarrow> char" where "hex_digit n = ''0123456789ABCDEF'' ! n"

definition unreserved :: "char \<Rightarrow> bool" where
  "unreserved b \<longleftrightarrow> is_alphanumeric b \<or> b \<in> set ''-._~''"

definition percent_encode_byte :: "char \<Rightarrow> string" where
  "percent_encode_byte b =
     (if unreserved b then [b]
      else [CHR ''%'', hex_digit (of_char b div 16), hex_digit (of_char b mod 16)])"

definition percent_encode_credential :: "string \<Rightarrow> string" where
  "percent_encode_credential credential = concat (map percent_encode_byte credential)"

text \<open>\<open>show_port\<close> is the decimal text of a port.\<close>

definition postgres_url :: "(u16 \<Rightarrow> string) \<Rightarrow> ExternalEndpoint \<Rightarrow> string \<Rightarrow> string" where
  "postgres_url show_port e password =
     ''postgresql://'' @ ee_user e @ '':'' @ percent_encode_credential password @ ''@''
       @ ee_host e @ '':'' @ show_port (ee_port e) @ ''/'' @ ee_name e"

definition valkey_url :: "(u16 \<Rightarrow> string) \<Rightarrow> ExternalEndpoint \<Rightarrow> string \<Rightarrow> string" where
  "valkey_url show_port e password =
     ''valkey://:'' @ percent_encode_credential password @ ''@'' @ ee_host e @ '':'' @ show_port (ee_port e)"

section \<open>State mutations\<close>

datatype UpdateBackupPrecondition =
    NotRequired
  | Require string time u64

definition UpdateBackupPrecondition_validate :: "UpdateBackupPrecondition \<Rightarrow> RejectionCode + unit" where
  "UpdateBackupPrecondition_validate p =
     (case p of
        NotRequired \<Rightarrow> Inr ()
      | Require manifest_sha256 restore_tested_at max_age_seconds \<Rightarrow> first_error
          [malformed_unless (\<not> (length manifest_sha256 \<noteq> 64
             \<or> \<not> list_all (\<lambda>b. is_hexdigit b \<and> \<not> is_upper b) manifest_sha256)),
           malformed_unless (\<not> (max_age_seconds = 0 \<or> 31536000 < max_age_seconds))])"

record bootstrap_payload =
  bm_issuer :: string
  bm_runtime :: RuntimeSurface
  bm_artifact :: "ArtifactRefs option"
  bm_config_reference :: string
  bm_config_schema :: string
  bm_resources :: "Resource list"
  bm_install :: "InstallOrder option"

record update_payload =
  um_artifact :: OfficialArtifactRef
  um_backup_precondition :: UpdateBackupPrecondition
  um_config :: "StagedConfig option"
  um_migration_jws :: "string option"
  um_migration_request_hash :: "string option"

datatype StateMutationPayload =
    MutBootstrap bootstrap_payload
  | MutApplyConfig string string
  | MutUpdate update_payload
  | MutRollback
  | MutUninstall

end
