(* ===== verification/Wire.thy ===== *)
theory Wire
  imports Orders
begin

text \<open>
  The HostOperation and HostResult contract (\<open>src/src/target/wire.rs\<close>): the closed set of
  operation bodies, which of them are journaled, admission, the handshake, the bounded codec and
  the projection the replay hash is taken over.

  JSON parsing is a parameter: \<open>parsed_operation\<close> is what \<open>serde_json\<close> makes of the bytes, a typed
  operation or, where that fails, the kind the bytes name if they are JSON at all.
\<close>

definition HOST_PROTOCOL_SCHEMA :: nat where "HOST_PROTOCOL_SCHEMA = 11"
definition MAX_HOST_OPERATION_BYTES :: nat where "MAX_HOST_OPERATION_BYTES = 6 * 1024 * 1024"
definition MAX_HOST_RESULT_BYTES :: nat where
  "MAX_HOST_RESULT_BYTES = MAX_BACKUP_EVIDENCE_BYTES + 64 * 1024"
definition MAX_BACKUP_TRANSFER_FILE_BYTES :: u64 where
  "MAX_BACKUP_TRANSFER_FILE_BYTES = 64 * 1024 * 1024 * 1024"
definition MAX_CONTROL_JWS_BYTES :: nat where "MAX_CONTROL_JWS_BYTES = 60 * 1024"

section \<open>Operations\<close>

record RecoveryCandidateEndpoint =
  rce_object_reference :: string
  rce_object_id :: string
  rce_deployment_id :: string
  rce_operation_id :: string
  rce_loopback_port :: u16
  rce_https :: bool

record transfer_write =
  tw_transfer_operation_id :: string
  tw_file_name :: string
  tw_offset :: u64
  tw_total_bytes :: u64
  tw_file_sha256 :: string
  tw_bytes :: BackupTransferBytes

datatype HostOperationBody =
    Ping string
  | Hello
  | StateInspect
  | StateMutate StateMutationPayload
  | ControlOperation string string "SecretMaterial option"
  | StateList
  | AdminCreate string SecretMaterial
  | RuntimeLogs nat
  | JournalRead nat
  | BackupSnapshot
  | BackupRestoreTest
  | BackupRecover string string
  | BackupRecoveryCandidateStage string string OfficialArtifactRef
  | BackupRecoveryCandidateControl RecoveryCandidateEndpoint string string string
  | BackupRecoveryCandidateCleanup RecoveryCandidateEndpoint
  | BackupRecoveryActivate string string int
  | BackupExportPrepare
  | BackupImportPrepare
  | BackupTransferRead string string u64 nat
  | BackupTransferWrite transfer_write
  | BackupImportFinalize string string string string
  | BackupOffHostRecord OffHostCopyReceipt
  | BackupTransferCleanup string

record HostOperation =
  ho_schema :: nat
  ho_operation_id :: string
  ho_deployment_id :: "string option"
  ho_expected_revision :: "u64 option"
  ho_operation :: HostOperationBody

fun requires_journal :: "HostOperationBody \<Rightarrow> bool" where
  "requires_journal (Ping _) = False"
| "requires_journal Hello = False"
| "requires_journal StateInspect = False"
| "requires_journal StateList = False"
| "requires_journal (RuntimeLogs _) = False"
| "requires_journal (JournalRead _) = False"
| "requires_journal (BackupTransferRead _ _ _ _) = False"
| "requires_journal _ = True"

fun kind :: "HostOperationBody \<Rightarrow> string" where
  "kind (Ping _) = ''ping''"
| "kind Hello = ''hello''"
| "kind StateInspect = ''state-inspect''"
| "kind (StateMutate _) = ''state-mutate''"
| "kind (ControlOperation _ _ _) = ''control-operation''"
| "kind StateList = ''state-list''"
| "kind (AdminCreate _ _) = ''admin-create''"
| "kind (RuntimeLogs _) = ''runtime-logs''"
| "kind (JournalRead _) = ''journal-read''"
| "kind BackupSnapshot = ''backup-snapshot''"
| "kind BackupRestoreTest = ''backup-restore-test''"
| "kind (BackupRecover _ _) = ''backup-recover''"
| "kind (BackupRecoveryCandidateStage _ _ _) = ''backup-recovery-candidate-stage''"
| "kind (BackupRecoveryCandidateControl _ _ _ _) = ''backup-recovery-candidate-control''"
| "kind (BackupRecoveryCandidateCleanup _) = ''backup-recovery-candidate-cleanup''"
| "kind (BackupRecoveryActivate _ _ _) = ''backup-recovery-activate''"
| "kind BackupExportPrepare = ''backup-export-prepare''"
| "kind BackupImportPrepare = ''backup-import-prepare''"
| "kind (BackupTransferRead _ _ _ _) = ''backup-transfer-read''"
| "kind (BackupTransferWrite _) = ''backup-transfer-write''"
| "kind (BackupImportFinalize _ _ _ _) = ''backup-import-finalize''"
| "kind (BackupOffHostRecord _) = ''backup-offhost-record''"
| "kind (BackupTransferCleanup _) = ''backup-transfer-cleanup''"

definition HOST_OPERATION_KINDS :: "string list" where
  "HOST_OPERATION_KINDS =
     [''hello'', ''ping'', ''state-inspect'', ''state-mutate'', ''control-operation'', ''state-list'',
      ''admin-create'', ''runtime-logs'', ''journal-read'', ''backup-snapshot'', ''backup-restore-test'',
      ''backup-recover'', ''backup-recovery-candidate-stage'', ''backup-recovery-candidate-control'',
      ''backup-recovery-candidate-cleanup'', ''backup-recovery-activate'', ''backup-export-prepare'',
      ''backup-import-prepare'', ''backup-transfer-read'', ''backup-transfer-write'',
      ''backup-import-finalize'', ''backup-offhost-record'', ''backup-transfer-cleanup'']"

section \<open>Constructors\<close>

text \<open>
  The constructors of \<open>impl HostOperation\<close>. A received chunk is passed on unchanged but for the
  transfer id it is written under.
\<close>

definition host_operation :: "string \<Rightarrow> string option \<Rightarrow> u64 option \<Rightarrow> HostOperationBody \<Rightarrow> HostOperation" where
  "host_operation i d e body =
     \<lparr>ho_schema = HOST_PROTOCOL_SCHEMA, ho_operation_id = i, ho_deployment_id = d,
      ho_expected_revision = e, ho_operation = body\<rparr>"

definition ping :: "string \<Rightarrow> string \<Rightarrow> HostOperation" where
  "ping i nonce = host_operation i None None (Ping nonce)"

definition hello :: "string \<Rightarrow> HostOperation" where
  "hello i = host_operation i None None (Hello)"

definition state_inspect :: "string \<Rightarrow> string \<Rightarrow> HostOperation" where
  "state_inspect i d = host_operation i (Some d) None (StateInspect)"

definition state_list :: "string \<Rightarrow> HostOperation" where
  "state_list i = host_operation i None None (StateList)"

definition admin_create :: "string \<Rightarrow> string \<Rightarrow> string \<Rightarrow> SecretMaterial \<Rightarrow> HostOperation" where
  "admin_create i d email password = host_operation i (Some d) None (AdminCreate email password)"

definition state_mutate :: "string \<Rightarrow> string \<Rightarrow> u64 option \<Rightarrow> StateMutationPayload \<Rightarrow> HostOperation" where
  "state_mutate i d expected mutation = host_operation i (Some d) (expected) (StateMutate mutation)"

definition backup_snapshot :: "string \<Rightarrow> string \<Rightarrow> HostOperation" where
  "backup_snapshot i d = host_operation i (Some d) None (BackupSnapshot)"

definition backup_restore_test :: "string \<Rightarrow> string \<Rightarrow> HostOperation" where
  "backup_restore_test i d = host_operation i (Some d) None (BackupRestoreTest)"

definition backup_recover :: "string \<Rightarrow> string \<Rightarrow> u64 \<Rightarrow> string \<Rightarrow> string \<Rightarrow> HostOperation" where
  "backup_recover i d e manifest epoch = host_operation i (Some d) (Some e) (BackupRecover manifest epoch)"

definition backup_recovery_candidate_stage :: "string \<Rightarrow> string \<Rightarrow> u64 \<Rightarrow> string \<Rightarrow> string \<Rightarrow> OfficialArtifactRef \<Rightarrow> HostOperation" where
  "backup_recovery_candidate_stage i d e recovery epoch artifact = host_operation i (Some d) (Some e) (BackupRecoveryCandidateStage recovery epoch artifact)"

definition backup_recovery_candidate_cleanup :: "string \<Rightarrow> string \<Rightarrow> RecoveryCandidateEndpoint \<Rightarrow> HostOperation" where
  "backup_recovery_candidate_cleanup i d endpoint = host_operation i (Some d) None (BackupRecoveryCandidateCleanup endpoint)"

definition backup_recovery_candidate_control :: "string \<Rightarrow> string \<Rightarrow> u64 \<Rightarrow> RecoveryCandidateEndpoint \<Rightarrow> string \<Rightarrow> string \<Rightarrow> string \<Rightarrow> HostOperation" where
  "backup_recovery_candidate_control i d e endpoint epoch control jws = host_operation i (Some d) (Some e) (BackupRecoveryCandidateControl endpoint epoch control jws)"

definition backup_recovery_activate :: "string \<Rightarrow> string \<Rightarrow> u64 \<Rightarrow> string \<Rightarrow> string \<Rightarrow> int \<Rightarrow> HostOperation" where
  "backup_recovery_activate i d e recovery epoch not_before = host_operation i (Some d) (Some e) (BackupRecoveryActivate recovery epoch not_before)"

definition backup_export_prepare :: "string \<Rightarrow> string \<Rightarrow> HostOperation" where
  "backup_export_prepare i d = host_operation i (Some d) None (BackupExportPrepare)"

definition backup_import_prepare :: "string \<Rightarrow> string \<Rightarrow> HostOperation" where
  "backup_import_prepare i d = host_operation i (Some d) None (BackupImportPrepare)"

definition backup_transfer_read :: "string \<Rightarrow> string \<Rightarrow> string \<Rightarrow> string \<Rightarrow> u64 \<Rightarrow> HostOperation" where
  "backup_transfer_read i d t name offset = host_operation i (Some d) None (BackupTransferRead t name offset MAX_BACKUP_TRANSFER_CHUNK_BYTES)"

definition backup_transfer_write :: "string \<Rightarrow> string \<Rightarrow> string \<Rightarrow> transfer_write \<Rightarrow> HostOperation" where
  "backup_transfer_write i d t chunk = host_operation i (Some d) None (BackupTransferWrite (chunk\<lparr>tw_transfer_operation_id := t\<rparr>))"

definition backup_import_finalize :: "string \<Rightarrow> string \<Rightarrow> string \<Rightarrow> string \<Rightarrow> string \<Rightarrow> string \<Rightarrow> HostOperation" where
  "backup_import_finalize i d t manifest source destination = host_operation i (Some d) None (BackupImportFinalize t manifest source destination)"

definition backup_offhost_record :: "string \<Rightarrow> string \<Rightarrow> OffHostCopyReceipt \<Rightarrow> HostOperation" where
  "backup_offhost_record i d receipt = host_operation i (Some d) None (BackupOffHostRecord receipt)"

definition backup_transfer_cleanup :: "string \<Rightarrow> string \<Rightarrow> string \<Rightarrow> HostOperation" where
  "backup_transfer_cleanup i d t = host_operation i (Some d) None (BackupTransferCleanup t)"

definition control_operation :: "string \<Rightarrow> string \<Rightarrow> string \<Rightarrow> SecretMaterial option \<Rightarrow> HostOperation" where
  "control_operation i d jws change_set = host_operation i (Some d) None (ControlOperation jws d change_set)"

definition runtime_logs :: "string \<Rightarrow> string \<Rightarrow> nat \<Rightarrow> HostOperation" where
  "runtime_logs i d limit = host_operation i (Some d) None (RuntimeLogs limit)"

definition journal_read :: "string \<Rightarrow> string \<Rightarrow> nat \<Rightarrow> HostOperation" where
  "journal_read i d limit = host_operation i (Some d) None (JournalRead limit)"

section \<open>Admission\<close>

definition valid_backup_transfer_file :: "string \<Rightarrow> bool" where
  "valid_backup_transfer_file value \<longleftrightarrow>
     value \<in> set [''postgresql.dump'', ''deployment.tar'', ''snapshot-manifest.json'']"

definition valid_compact_jws :: "string \<Rightarrow> bool" where
  "valid_compact_jws value \<longleftrightarrow>
     value \<noteq> [] \<and> length value \<le> MAX_CONTROL_JWS_BYTES
     \<and> list_all (\<lambda>b. is_alphanumeric b \<or> b \<in> set ''._-'') value
     \<and> length (split_on (CHR ''.'') value) = 3"

definition parses_as_uuid :: "externals \<Rightarrow> string \<Rightarrow> bool" where
  "parses_as_uuid X value \<longleftrightarrow> uuid_version X value \<noteq> None"

text \<open>\<open>u64::checked_add\<close> of an offset and the length of a chunk.\<close>

definition checked_end :: "u64 \<Rightarrow> BackupTransferBytes \<Rightarrow> u64 option" where
  "checked_end offset bytes =
     (let end = unat offset + length (transfer_bytes bytes)
      in if end < 2 ^ 64 then Some (of_nat end) else None)"

text \<open>The \<open>match mutation\<close> of the state-mutate arm.\<close>

definition mutation_admissible ::
  "(string \<Rightarrow> string option) \<Rightarrow> u64 option \<Rightarrow> StateMutationPayload \<Rightarrow> RejectionCode + unit" where
  "mutation_admissible b64url expected_revision mutation =
     (case mutation of
        MutBootstrap b \<Rightarrow> first_error
          [malformed_unless (expected_revision = None),
           malformed_unless (\<not> ((bm_install b \<noteq> None) = (bm_artifact b \<noteq> None))),
           map_err (\<lambda>_. OperationMalformed) (RuntimeSurface_validate (bm_runtime b)),
           on_some (bm_install b) (InstallOrder_validate b64url)]
      | MutApplyConfig _ _ \<Rightarrow> malformed_unless (expected_revision \<noteq> None)
      | MutUpdate u \<Rightarrow> first_error
          [malformed_unless (expected_revision \<noteq> None),
           malformed_unless (\<not> (oa_repository (um_artifact u) = []
             \<or> 128 < length (oa_repository (um_artifact u)))),
           on_some (um_config u) StagedConfig_validate,
           UpdateBackupPrecondition_validate (um_backup_precondition u)]
      | MutRollback \<Rightarrow> malformed_unless (expected_revision \<noteq> None)
      | MutUninstall \<Rightarrow> malformed_unless (expected_revision \<noteq> None))"

definition endpoint_ok :: "externals \<Rightarrow> string option \<Rightarrow> RecoveryCandidateEndpoint \<Rightarrow> bool" where
  "endpoint_ok X deployment_id e \<longleftrightarrow>
     \<not> (deployment_id \<noteq> Some (rce_deployment_id e)
        \<or> \<not> is_uuid_v7 X (rce_operation_id e)
        \<or> rce_object_reference e = []
        \<or> rce_object_id e = []
        \<or> rce_loopback_port e = 0)"

text \<open>The arms of the snapshot and transfer kinds.\<close>

definition transfer_admissible ::
  "externals \<Rightarrow> string option \<Rightarrow> u64 option \<Rightarrow> HostOperationBody \<Rightarrow> RejectionCode + unit" where
  "transfer_admissible X dep expected body =
     (case body of
        BackupSnapshot \<Rightarrow> malformed_unless (\<not> (dep = None \<or> expected \<noteq> None))
      | BackupRestoreTest \<Rightarrow> malformed_unless (\<not> (dep = None \<or> expected \<noteq> None))
      | BackupExportPrepare \<Rightarrow> malformed_unless (\<not> (dep = None \<or> expected \<noteq> None))
      | BackupImportPrepare \<Rightarrow> malformed_unless (\<not> (dep = None \<or> expected \<noteq> None))
      | BackupOffHostRecord _ \<Rightarrow> malformed_unless (\<not> (dep = None \<or> expected \<noteq> None))
      | BackupTransferRead transfer_operation_id file_name _ maximum_bytes \<Rightarrow>
          malformed_unless (\<not> (dep = None \<or> expected \<noteq> None
            \<or> \<not> is_uuid_v7 X transfer_operation_id
            \<or> \<not> valid_backup_transfer_file file_name
            \<or> maximum_bytes = 0
            \<or> MAX_BACKUP_TRANSFER_CHUNK_BYTES < maximum_bytes))
      | BackupTransferWrite w \<Rightarrow>
          malformed_unless (\<not> (dep = None \<or> expected \<noteq> None
            \<or> \<not> is_uuid_v7 X (tw_transfer_operation_id w)
            \<or> \<not> valid_backup_transfer_file (tw_file_name w)
            \<or> tw_total_bytes w = 0
            \<or> MAX_BACKUP_TRANSFER_FILE_BYTES < tw_total_bytes w
            \<or> \<not> valid_lower_hex_sha256 (tw_file_sha256 w)
            \<or> (case checked_end (tw_offset w) (tw_bytes w) of
                 None \<Rightarrow> True | Some end \<Rightarrow> tw_total_bytes w < end)))
      | _ \<Rightarrow> Inr ())"

text \<open>The arms of the recovery kinds.\<close>

definition recovery_admissible ::
  "externals \<Rightarrow> string option \<Rightarrow> u64 option \<Rightarrow> HostOperationBody \<Rightarrow> RejectionCode + unit" where
  "recovery_admissible X dep expected body =
     (case body of
        BackupRecover expected_manifest_sha256 state_epoch \<Rightarrow>
          malformed_unless (\<not> (dep = None \<or> expected = None
            \<or> \<not> valid_lower_hex_sha256 expected_manifest_sha256
            \<or> \<not> is_uuid_v7 X state_epoch))
      | BackupRecoveryCandidateStage recovery_operation_id state_epoch artifact \<Rightarrow>
          malformed_unless (\<not> (dep = None \<or> expected = None
            \<or> \<not> is_uuid_v7 X recovery_operation_id \<or> \<not> is_uuid_v7 X state_epoch
            \<or> oa_repository artifact = [] \<or> 128 < length (oa_repository artifact)))
      | BackupRecoveryCandidateCleanup endpoint \<Rightarrow>
          malformed_unless (endpoint_ok X dep endpoint \<and> expected = None)
      | BackupRecoveryCandidateControl endpoint state_epoch control_operation_id compact_jws \<Rightarrow>
          malformed_unless (endpoint_ok X dep endpoint \<and> expected \<noteq> None
            \<and> is_uuid_v7 X state_epoch \<and> is_uuid_v7 X control_operation_id
            \<and> valid_compact_jws compact_jws)
      | BackupRecoveryActivate recovery_operation_id state_epoch not_before \<Rightarrow>
          malformed_unless (\<not> (dep = None \<or> expected = None
            \<or> \<not> is_uuid_v7 X recovery_operation_id \<or> \<not> is_uuid_v7 X state_epoch
            \<or> not_before \<le> 0))
      | _ \<Rightarrow> Inr ())"

text \<open>The remaining instance-scoped arms.\<close>

definition delivery_admissible ::
  "externals \<Rightarrow> string option \<Rightarrow> u64 option \<Rightarrow> HostOperationBody \<Rightarrow> RejectionCode + unit" where
  "delivery_admissible X dep expected body =
     (case body of
        BackupImportFinalize transfer_operation_id expected_manifest_sha256 source_host_id
          destination_host_id \<Rightarrow>
          malformed_unless (\<not> (dep = None \<or> expected \<noteq> None
            \<or> \<not> parses_as_uuid X transfer_operation_id
            \<or> \<not> valid_lower_hex_sha256 expected_manifest_sha256
            \<or> \<not> parses_as_uuid X source_host_id \<or> \<not> parses_as_uuid X destination_host_id
            \<or> source_host_id = destination_host_id))
      | BackupTransferCleanup transfer_operation_id \<Rightarrow>
          malformed_unless (\<not> (dep = None \<or> expected \<noteq> None \<or> \<not> parses_as_uuid X transfer_operation_id))
      | ControlOperation compact_jws expected_deployment_id _ \<Rightarrow> first_error
          [malformed_unless (\<not> (dep = None \<or> expected \<noteq> None)),
           malformed_unless (valid_compact_jws compact_jws),
           malformed_unless (expected_deployment_id = (case dep of None \<Rightarrow> [] | Some d \<Rightarrow> d))]
      | RuntimeLogs limit \<Rightarrow>
          malformed_unless (\<not> (dep = None \<or> expected \<noteq> None \<or> \<not> (1 \<le> limit \<and> limit \<le> 500)))
      | JournalRead limit \<Rightarrow>
          malformed_unless (\<not> (dep = None \<or> expected \<noteq> None \<or> \<not> (1 \<le> limit \<and> limit \<le> 1000)))
      | _ \<Rightarrow> Inr ())"

text \<open>The \<open>match &self.operation\<close> of \<open>HostOperation::validate\<close>.\<close>

definition body_admissible ::
  "externals \<Rightarrow> (string \<Rightarrow> string option) \<Rightarrow> string option \<Rightarrow> u64 option \<Rightarrow> HostOperationBody
   \<Rightarrow> RejectionCode + unit" where
  "body_admissible X b64url dep expected body =
     (case body of
        Ping nonce \<Rightarrow> first_error
          [malformed_unless (valid_token nonce 128),
           malformed_unless (\<not> (dep \<noteq> None \<or> expected \<noteq> None))]
      | Hello \<Rightarrow> malformed_unless (\<not> (dep \<noteq> None \<or> expected \<noteq> None))
      | StateInspect \<Rightarrow> malformed_unless (\<not> (dep = None \<or> expected \<noteq> None))
      | StateList \<Rightarrow> malformed_unless (\<not> (dep \<noteq> None \<or> expected \<noteq> None))
      | AdminCreate email _ \<Rightarrow> first_error
          [malformed_unless (\<not> (dep = None \<or> expected \<noteq> None)),
           malformed_unless (\<not> (email = [] \<or> 254 < length email \<or> has_control email))]
      | StateMutate mutation \<Rightarrow> first_error
          [malformed_unless (dep \<noteq> None), mutation_admissible b64url expected mutation]
      | BackupSnapshot \<Rightarrow> transfer_admissible X dep expected body
      | BackupRestoreTest \<Rightarrow> transfer_admissible X dep expected body
      | BackupExportPrepare \<Rightarrow> transfer_admissible X dep expected body
      | BackupImportPrepare \<Rightarrow> transfer_admissible X dep expected body
      | BackupOffHostRecord _ \<Rightarrow> transfer_admissible X dep expected body
      | BackupTransferRead _ _ _ _ \<Rightarrow> transfer_admissible X dep expected body
      | BackupTransferWrite _ \<Rightarrow> transfer_admissible X dep expected body
      | BackupRecover _ _ \<Rightarrow> recovery_admissible X dep expected body
      | BackupRecoveryCandidateStage _ _ _ \<Rightarrow> recovery_admissible X dep expected body
      | BackupRecoveryCandidateCleanup _ \<Rightarrow> recovery_admissible X dep expected body
      | BackupRecoveryCandidateControl _ _ _ _ \<Rightarrow> recovery_admissible X dep expected body
      | BackupRecoveryActivate _ _ _ \<Rightarrow> recovery_admissible X dep expected body
      | BackupImportFinalize _ _ _ _ \<Rightarrow> delivery_admissible X dep expected body
      | BackupTransferCleanup _ \<Rightarrow> delivery_admissible X dep expected body
      | ControlOperation _ _ _ \<Rightarrow> delivery_admissible X dep expected body
      | RuntimeLogs _ \<Rightarrow> delivery_admissible X dep expected body
      | JournalRead _ \<Rightarrow> delivery_admissible X dep expected body)"

definition HostOperation_validate ::
  "externals \<Rightarrow> (string \<Rightarrow> string option) \<Rightarrow> HostOperation \<Rightarrow> RejectionCode + unit" where
  "HostOperation_validate X b64url op = first_error
     [require (ho_schema op = HOST_PROTOCOL_SCHEMA) OperationSchemaUnsupported,
      malformed_unless (is_uuid_v7 X (ho_operation_id op)),
      on_some (ho_deployment_id op) (\<lambda>d. malformed_unless (valid_token d 128)),
      body_admissible X b64url (ho_deployment_id op) (ho_expected_revision op) (ho_operation op)]"

section \<open>Results and diagnostics\<close>

text \<open>The characters of a UTF-8 byte string: a byte with the continuation bytes that follow it.\<close>

definition is_cont :: "char \<Rightarrow> bool" where "is_cont = in_range 128 191"

function chars :: "string \<Rightarrow> string list" where
  "chars [] = []"
| "chars (c # s) = (c # takeWhile is_cont s) # chars (dropWhile is_cont s)"
  by pat_completeness auto
termination
  by (relation "measure length") (auto simp: length_dropWhile_le le_imp_less_Suc)

text \<open>The ellipsis U+2026 as its three bytes.\<close>

definition ellipsis :: string where "ellipsis = [CHR 0xE2, CHR 0x80, CHR 0xA6]"

definition sanitize :: "string \<Rightarrow> string" where
  "sanitize value =
     (let characters = chars value;
          bounded = map (\<lambda>c. if \<not> has_control c then c else ''?'') (take 200 characters)
      in concat bounded @ (if 200 < length characters then ellipsis else []))"

text \<open>\<open>'b\<close> is the completion body, which only the executors of a kind look into.\<close>

datatype 'b HostOutcome = Completed 'b | Failed string string

record 'b HostResult =
  hr_schema :: nat
  hr_operation_id :: string
  hr_outcome :: "'b HostOutcome"

definition HostResult_completed :: "string \<Rightarrow> 'b \<Rightarrow> 'b HostResult" where
  "HostResult_completed operation_id body =
     \<lparr>hr_schema = HOST_PROTOCOL_SCHEMA, hr_operation_id = operation_id, hr_outcome = Completed body\<rparr>"

definition HostResult_failed :: "string \<Rightarrow> string \<Rightarrow> string \<Rightarrow> 'b HostResult" where
  "HostResult_failed operation_id failure_code text =
     \<lparr>hr_schema = HOST_PROTOCOL_SCHEMA, hr_operation_id = operation_id,
      hr_outcome = Failed failure_code (sanitize text)\<rparr>"

definition HostResult_validate :: "externals \<Rightarrow> 'b HostResult \<Rightarrow> RejectionCode + unit" where
  "HostResult_validate X r = first_error
     [require (hr_schema r = HOST_PROTOCOL_SCHEMA) ResultSchemaUnsupported,
      require (is_uuid_v7 X (hr_operation_id r)) ResultMalformed]"

section \<open>Codec\<close>

datatype parsed_operation = TypedOperation HostOperation | UntypedOperation "string option"

definition parse_host_operation ::
  "externals \<Rightarrow> (string \<Rightarrow> string option) \<Rightarrow> (string \<Rightarrow> parsed_operation) \<Rightarrow> string
   \<Rightarrow> RejectionCode + HostOperation" where
  "parse_host_operation X b64url json raw =
     (if MAX_HOST_OPERATION_BYTES < length raw then Inl OperationOversize
      else case json raw of
        UntypedOperation (Some k) \<Rightarrow>
          if k \<notin> set HOST_OPERATION_KINDS then Inl OperationKindUnknown else Inl OperationMalformed
      | UntypedOperation None \<Rightarrow> Inl OperationMalformed
      | TypedOperation op \<Rightarrow> rbind (HostOperation_validate X b64url op) (\<lambda>_. Inr op))"

definition parse_host_result ::
  "externals \<Rightarrow> (string \<Rightarrow> 'b HostResult option) \<Rightarrow> string \<Rightarrow> RejectionCode + 'b HostResult" where
  "parse_host_result X json raw =
     (if MAX_HOST_RESULT_BYTES < length raw then Inl ResultOversize
      else case json raw of
        None \<Rightarrow> Inl ResultMalformed
      | Some r \<Rightarrow> rbind (HostResult_validate X r) (\<lambda>_. Inr r))"

definition encode_bounded :: "('a \<Rightarrow> string) \<Rightarrow> nat \<Rightarrow> RejectionCode \<Rightarrow> 'a \<Rightarrow> RejectionCode + string" where
  "encode_bounded json limit oversize v =
     (let bytes = json v in if limit < length bytes then Inl oversize else Inr bytes)"

definition encode_host_operation :: "(HostOperation \<Rightarrow> string) \<Rightarrow> HostOperation \<Rightarrow> RejectionCode + string" where
  "encode_host_operation json op = encode_bounded json MAX_HOST_OPERATION_BYTES OperationOversize op"

definition encode_host_result :: "('b HostResult \<Rightarrow> string) \<Rightarrow> 'b HostResult \<Rightarrow> RejectionCode + string" where
  "encode_host_result json r = encode_bounded json MAX_HOST_RESULT_BYTES ResultOversize r"

section \<open>The replay identity\<close>

text \<open>
  \<open>serde_json::Value\<close>, as far as it is built here: an object is a map, since its keys are sorted
  and unique.
\<close>

datatype json =
    JText string
  | JNumber int
  | JObject "string \<rightharpoonup> json"

text \<open>
  What the crates contribute: the derived serialisation of an operation, and the SHA-256 of the
  compact text of a JSON value, in hexadecimal.
\<close>

record hasher =
  to_value :: "HostOperation \<Rightarrow> json"
  json_sha256 :: "json \<Rightarrow> string"

definition ADMIN_CREATE_CREDENTIALS_REDACTED :: string where
  "ADMIN_CREATE_CREDENTIALS_REDACTED = ''<redacted>''"

definition canonical_operation_value :: "hasher \<Rightarrow> HostOperation \<Rightarrow> json" where
  "canonical_operation_value sha op =
     (case ho_operation op of
        AdminCreate email _ \<Rightarrow>
          (let value =
                 [''schema'' \<mapsto> JNumber (int (ho_schema op)),
                  ''operation_id'' \<mapsto> JText (ho_operation_id op),
                  ''operation'' \<mapsto> JObject
                     [''kind'' \<mapsto> JText ''admin-create'', ''email'' \<mapsto> JText email,
                      ''password'' \<mapsto> JText ADMIN_CREATE_CREDENTIALS_REDACTED]];
               value = (case ho_deployment_id op of
                  Some deployment_id \<Rightarrow> value(''deployment_id'' \<mapsto> JText deployment_id) | None \<Rightarrow> value);
               value = (case ho_expected_revision op of
                  Some revision \<Rightarrow> value(''expected_revision'' \<mapsto> JNumber (uint revision)) | None \<Rightarrow> value)
           in JObject value)
      | _ \<Rightarrow> to_value sha op)"

definition canonical_operation_hash :: "hasher \<Rightarrow> HostOperation \<Rightarrow> string" where
  "canonical_operation_hash sha op = json_sha256 sha (canonical_operation_value sha op)"

section \<open>Handshake\<close>

record RemoteHello =
  rh_product :: string
  rh_target_id :: string
  rh_remote_exec_schema :: nat
  rh_version :: string
  rh_os :: string
  rh_arch :: string
  rh_supported_runtimes :: "string list"

datatype hello_error =
    HelloProductToken
  | HelloTargetId
  | HelloVersionToken
  | HelloPlatform
  | HelloRuntimes
  | HelloProductMismatch
  | HelloSchemaMismatch

definition HELLO_PRODUCT :: string where "HELLO_PRODUCT = ''nazoauthctl''"

text \<open>\<open>version\<close>, \<open>os\<close> and \<open>arch\<close> are compile-time facts of the helper.\<close>

definition local_hello_for_target ::
  "string \<Rightarrow> string \<Rightarrow> string \<Rightarrow> string list \<Rightarrow> string \<Rightarrow> RemoteHello" where
  "local_hello_for_target version os arch supported_runtimes target_id =
     \<lparr>rh_product = HELLO_PRODUCT, rh_target_id = target_id,
      rh_remote_exec_schema = HOST_PROTOCOL_SCHEMA, rh_version = version, rh_os = os,
      rh_arch = arch, rh_supported_runtimes = supported_runtimes\<rparr>"

definition verify_remote_hello :: "externals \<Rightarrow> RemoteHello \<Rightarrow> hello_error + string" where
  "verify_remote_hello X announced =
     rbind (first_error
       [require (valid_token (rh_product announced) 64) HelloProductToken,
        require (uuid_version X (rh_target_id announced) = Some 7) HelloTargetId,
        require (valid_token (rh_version announced) 64) HelloVersionToken,
        require (valid_token (rh_os announced) 32) HelloPlatform,
        require (valid_token (rh_arch announced) 32) HelloPlatform,
        require (\<not> (16 < length (rh_supported_runtimes announced)
          \<or> list_ex (\<lambda>r. \<not> valid_token r 32) (rh_supported_runtimes announced))) HelloRuntimes,
        require (rh_product announced = HELLO_PRODUCT) HelloProductMismatch,
        require (rh_remote_exec_schema announced = HOST_PROTOCOL_SCHEMA) HelloSchemaMismatch])
       (\<lambda>_. Inr (uuid_text X (rh_target_id announced)))"

end
