(* ===== verification/WireProperties.thy ===== *)
theory WireProperties
  imports Wire BackupProperties
begin

text \<open>
  What admission and the codec of the HostOperation contract guarantee.
\<close>

lemmas body_admissible_defs = body_admissible_def transfer_admissible_def recovery_admissible_def
  delivery_admissible_def

section \<open>Which operations carry a binding and a revision\<close>

text \<open>The operations that replace state under an optimistic expectation.\<close>

fun compare_and_swap :: "HostOperationBody \<Rightarrow> bool" where
  "compare_and_swap (StateMutate (MutBootstrap _)) = False"
| "compare_and_swap (StateMutate _) = True"
| "compare_and_swap (BackupRecover _ _) = True"
| "compare_and_swap (BackupRecoveryCandidateStage _ _ _) = True"
| "compare_and_swap (BackupRecoveryCandidateControl _ _ _ _) = True"
| "compare_and_swap (BackupRecoveryActivate _ _ _) = True"
| "compare_and_swap _ = False"

fun host_level :: "HostOperationBody \<Rightarrow> bool" where
  "host_level (Ping _) = True"
| "host_level Hello = True"
| "host_level StateList = True"
| "host_level _ = False"

lemma mutation_revision:
  "mutation_admissible b64url r m = Inr u \<Longrightarrow> r \<noteq> None \<longleftrightarrow> compare_and_swap (StateMutate m)"
  by (cases m) (auto simp: mutation_admissible_def)

lemma body_binding:
  "body_admissible X b64url d r body = Inr u \<Longrightarrow>
     (d = None \<longleftrightarrow> host_level body) \<and> (r \<noteq> None \<longleftrightarrow> compare_and_swap body)"
  by (cases body) (auto simp: body_admissible_defs endpoint_ok_def dest: mutation_revision)

text \<open>Admission pairs every kind with its addressing: exactly ping, hello and state-list carry no
  deployment, exactly the compare-and-swap operations carry an expected revision, and so every
  operation that is journaled is bound to one deployment.\<close>

theorem admission_binds_operations:
  assumes "HostOperation_validate X b64url op = Inr ()"
  shows "(ho_deployment_id op = None \<longleftrightarrow> host_level (ho_operation op))
    \<and> (ho_expected_revision op \<noteq> None \<longleftrightarrow> compare_and_swap (ho_operation op))
    \<and> (requires_journal (ho_operation op) \<longrightarrow> ho_deployment_id op \<noteq> None)
    \<and> (compare_and_swap (ho_operation op) \<longrightarrow> requires_journal (ho_operation op))"
proof -
  have "body_admissible X b64url (ho_deployment_id op) (ho_expected_revision op) (ho_operation op) = Inr ()"
    using assms by (simp add: HostOperation_validate_def)
  note b = body_binding [OF this]
  have "host_level body \<Longrightarrow> \<not> requires_journal body" for body by (cases body) auto
  moreover have "compare_and_swap body \<Longrightarrow> requires_journal body" for body by (cases body) auto
  ultimately show ?thesis using b by blast
qed

definition sample_rollback :: HostOperation where
  "sample_rollback = \<lparr>ho_schema = 11, ho_operation_id = ''u'', ho_deployment_id = Some ''alpha'',
     ho_expected_revision = Some 3, ho_operation = StateMutate MutRollback\<rparr>"

lemma sample_rollback_ok: "HostOperation_validate sample_X b sample_rollback = Inr ()"
  by (simp add: HostOperation_validate_def sample_rollback_def HOST_PROTOCOL_SCHEMA_def is_uuid_v7_def
      sample_X_def valid_token_def char_class_defs body_admissible_defs mutation_admissible_def)

lemma admission_binds_operations_witness:
  "requires_journal (ho_operation sample_rollback) \<and> ho_deployment_id sample_rollback \<noteq> None"
  using admission_binds_operations [OF sample_rollback_ok]
  by (simp add: sample_rollback_def)

lemmas constructor_defs = host_operation_def ping_def hello_def state_inspect_def state_list_def
  admin_create_def state_mutate_def backup_snapshot_def backup_restore_test_def
  backup_recover_def backup_recovery_candidate_stage_def backup_recovery_candidate_cleanup_def
  backup_recovery_candidate_control_def backup_recovery_activate_def backup_export_prepare_def
  backup_import_prepare_def backup_transfer_read_def backup_transfer_write_def
  backup_import_finalize_def backup_offhost_record_def backup_transfer_cleanup_def
  control_operation_def runtime_logs_def journal_read_def

text \<open>What the controller constructs is addressed correctly: every constructor carries the current
  schema and the given id, a deployment exactly where the kind is not host-level, an expected
  revision exactly where the kind is compare-and-swap (for a state mutation, where the caller pairs
  it so), and a control operation repeats its binding.\<close>

theorem constructors_address_correctly:
  "list_all (\<lambda>op. ho_schema op = HOST_PROTOCOL_SCHEMA \<and> ho_operation_id op = i
        \<and> (ho_deployment_id op = None \<longleftrightarrow> host_level (ho_operation op))
        \<and> (ho_expected_revision op \<noteq> None \<longleftrightarrow> compare_and_swap (ho_operation op)))
     [ping i nonce, hello i, state_inspect i d, state_list i, admin_create i d email password,
      state_mutate i d (if compare_and_swap (StateMutate mutation) then Some e else None) mutation,
      backup_snapshot i d, backup_restore_test i d, backup_recover i d e manifest epoch,
      backup_recovery_candidate_stage i d e recovery epoch artifact,
      backup_recovery_candidate_cleanup i d endpoint,
      backup_recovery_candidate_control i d e endpoint epoch control jws,
      backup_recovery_activate i d e recovery epoch not_before, backup_export_prepare i d,
      backup_import_prepare i d, backup_transfer_read i d t name offset,
      backup_transfer_write i d t chunk, backup_import_finalize i d t manifest source destination,
      backup_offhost_record i d receipt, backup_transfer_cleanup i d t,
      control_operation i d jws change_set, runtime_logs i d limit, journal_read i d limit]
   \<and> ho_operation (control_operation i d jws change_set) = ControlOperation jws d change_set
   \<and> ho_deployment_id (control_operation i d jws change_set) = Some d"
  by (simp add: constructor_defs)

section \<open>Backup transfer\<close>

text \<open>C10: An admitted transfer write fits its file: the chunk ends at or before the announced length,
  computed without wrap-around, and the file is at most 64 GiB.\<close>

theorem transfer_write_fits_the_file:
  assumes "HostOperation_validate X b64url op = Inr ()" and "ho_operation op = BackupTransferWrite w"
  shows "unat (tw_offset w) + length (transfer_bytes (tw_bytes w)) \<le> unat (tw_total_bytes w)
    \<and> unat (tw_total_bytes w) \<le> 64 * 2 ^ 30 \<and> tw_total_bytes w \<noteq> 0
    \<and> valid_backup_transfer_file (tw_file_name w)"
proof -
  have "body_admissible X b64url (ho_deployment_id op) (ho_expected_revision op) (BackupTransferWrite w) = Inr ()"
    using assms by (simp add: HostOperation_validate_def)
  then have name: "valid_backup_transfer_file (tw_file_name w)" and nz: "tw_total_bytes w \<noteq> 0"
    and max: "tw_total_bytes w \<le> MAX_BACKUP_TRANSFER_FILE_BYTES"
    and fits: "case checked_end (tw_offset w) (tw_bytes w) of None \<Rightarrow> False | Some e \<Rightarrow> e \<le> tw_total_bytes w"
    by (auto simp: body_admissible_defs not_less split: option.splits)
  let ?stop = "unat (tw_offset w) + length (transfer_bytes (tw_bytes w))"
  have small: "?stop < 2 ^ 64" and le: "of_nat ?stop \<le> tw_total_bytes w"
    using fits by (auto simp: checked_end_def Let_def split: if_splits)
  have "unat (of_nat n :: u64) = n" if "n < 2 ^ 64" for n
    using that by (simp add: unat_of_nat)
  then have "unat (of_nat ?stop :: u64) = ?stop"
    using small by blast
  then have "?stop \<le> unat (tw_total_bytes w)"
    using le by (simp add: word_le_nat_alt)
  moreover have "unat (tw_total_bytes w) \<le> 64 * 2 ^ 30"
    using max by (simp add: word_le_nat_alt MAX_BACKUP_TRANSFER_FILE_BYTES_def)
  ultimately show ?thesis using name nz by blast
qed

definition sample_write :: HostOperation where
  "sample_write = \<lparr>ho_schema = 11, ho_operation_id = ''u'', ho_deployment_id = Some ''alpha'',
     ho_expected_revision = None, ho_operation = BackupTransferWrite
       \<lparr>tw_transfer_operation_id = ''t'', tw_file_name = ''deployment.tar'', tw_offset = 2,
        tw_total_bytes = 4, tw_file_sha256 = sample_hex, tw_bytes = BackupTransferBytes ''xy''\<rparr>\<rparr>"

lemma sample_write_ok: "HostOperation_validate sample_X b sample_write = Inr ()"
  by (simp add: HostOperation_validate_def sample_write_def HOST_PROTOCOL_SCHEMA_def is_uuid_v7_def
      sample_X_def valid_token_def char_class_defs body_admissible_defs valid_backup_transfer_file_def
      MAX_BACKUP_TRANSFER_FILE_BYTES_def sample_hex_ok checked_end_def)

lemma transfer_write_fits_the_file_witness:
  "\<exists>w. ho_operation sample_write = BackupTransferWrite w
     \<and> unat (tw_offset w) + length (transfer_bytes (tw_bytes w)) \<le> unat (tw_total_bytes w)"
  using transfer_write_fits_the_file [OF sample_write_ok] by (simp add: sample_write_def)

section \<open>Diagnostics\<close>

definition groups :: "string list \<Rightarrow> bool" where
  "groups gs \<longleftrightarrow> (\<forall>g \<in> set gs. g \<noteq> [] \<and> list_all is_cont (tl g)) \<and> (\<forall>g \<in> set (tl gs). \<not> is_cont (hd g))"

lemma groups_Cons:
  "groups (g # gs) \<longleftrightarrow> g \<noteq> [] \<and> list_all is_cont (tl g) \<and> groups gs \<and> (gs \<noteq> [] \<longrightarrow> \<not> is_cont (hd (hd gs)))"
  by (cases gs) (auto simp: groups_def)

lemma chars_head: "chars s \<noteq> [] \<Longrightarrow> hd (hd (chars s)) = hd s"
  by (cases s) auto

lemma groups_chars: "groups (chars s)"
proof (induction s rule: chars.induct)
  case (2 c s)
  have "\<not> is_cont (hd (hd (chars (dropWhile is_cont s))))" if "chars (dropWhile is_cont s) \<noteq> []"
  proof -
    from that have "dropWhile is_cont s \<noteq> []" by (metis chars.simps(1))
    then show ?thesis using chars_head [OF that] hd_dropWhile by metis
  qed
  moreover have "list_all is_cont (takeWhile is_cont s)"
    by (auto simp: list_all_iff dest: set_takeWhileD)
  ultimately show ?case using 2 by (simp add: groups_Cons)
qed (simp add: groups_def)

lemma span_append:
  "list_all P t \<Longrightarrow> r = [] \<or> \<not> P (hd r) \<Longrightarrow> takeWhile P (t @ r) = t \<and> dropWhile P (t @ r) = r"
  by (induction t) (cases r; auto)+

lemma chars_concat: "groups gs \<Longrightarrow> chars (concat gs) = gs"
proof (induction gs)
  case (Cons g gs)
  then obtain c t where g: "g = c # t" "list_all is_cont t" by (cases g) (auto simp: groups_Cons)
  have stop: "concat gs = [] \<or> \<not> is_cont (hd (concat gs))"
    using Cons.prems by (cases gs) (auto simp: groups_Cons)
  have "takeWhile is_cont (t @ concat gs) = t \<and> dropWhile is_cont (t @ concat gs) = concat gs"
    using span_append [OF g(2) stop] .
  with Cons g show ?case by (simp add: groups_Cons)
qed simp

lemma groups_take: "groups gs \<Longrightarrow> groups (take n gs)"
  unfolding groups_def using set_take_subset [of n gs] set_take_subset [of "n - 1" "tl gs"]
  by (cases gs; cases n) auto

lemma question_mark: "\<not> has_control ''?'' \<and> \<not> is_cont (CHR ''?'')"
  by (simp add: is_c0_def is_cont_def char_class_defs)

lemma ellipsis_char: "\<not> has_control ellipsis \<and> groups [ellipsis] \<and> \<not> is_cont (hd ellipsis)"
  by (simp add: is_c0_def is_cont_def char_class_defs ellipsis_def groups_def)

lemma groups_map:
  "groups gs \<Longrightarrow> groups (map (\<lambda>c. if \<not> has_control c then c else ''?'') gs)"
  using question_mark by (auto simp: groups_def map_tl [symmetric])

lemma groups_snoc:
  "groups gs \<Longrightarrow> groups [e] \<Longrightarrow> \<not> is_cont (hd e) \<Longrightarrow> groups (gs @ [e])"
  by (cases gs) (auto simp: groups_def)

lemma chars_sanitize:
  "chars (sanitize s) = map (\<lambda>c. if \<not> has_control c then c else ''?'') (take 200 (chars s))
     @ (if 200 < length (chars s) then [ellipsis] else [])"
proof -
  let ?g = "map (\<lambda>c. if \<not> has_control c then c else ''?'') (take 200 (chars s))"
  have "groups ?g" by (intro groups_map groups_take groups_chars)
  then have "groups (?g @ (if 200 < length (chars s) then [ellipsis] else []))"
    using ellipsis_char groups_snoc by auto
  note chars_concat [OF this]
  then show ?thesis by (simp add: sanitize_def Let_def split: if_splits)
qed

text \<open>Sanitised text is safe to show: at most 200 characters and an ellipsis, none of them a
  control character, and sanitising it again changes nothing.\<close>

theorem sanitize_is_bounded_and_idempotent:
  "length (chars (sanitize s)) \<le> 201
   \<and> (\<forall>c \<in> set (chars (sanitize s)). \<not> has_control c)
   \<and> sanitize (sanitize s) = sanitize s"
proof (intro conjI)
  show clean: "\<forall>c \<in> set (chars (sanitize s)). \<not> has_control c"
    using question_mark ellipsis_char by (auto simp: chars_sanitize)
  show "length (chars (sanitize s)) \<le> 201" by (simp add: chars_sanitize)
  let ?t = "chars (sanitize s)"
  have keep: "map (\<lambda>c. if \<not> has_control c then c else ''?'') (take 200 ?t) = take 200 ?t"
    using clean by (intro map_idI) (auto dest: in_set_takeD)
  have "take 200 ?t @ (if 200 < length ?t then [ellipsis] else []) = ?t"
    by (auto simp: chars_sanitize)
  then have "chars (sanitize (sanitize s)) = ?t"
    by (simp only: chars_sanitize [of "sanitize s"] keep)
  moreover have "concat (chars u) = u" for u
    by (induction u rule: chars.induct) auto
  ultimately show "sanitize (sanitize s) = sanitize s" by metis
qed

lemma sanitize_is_bounded_and_idempotent_witness:
  "sanitize [CHR ''a'', CHR 0x0A] = ''a?'' \<and> sanitize (sanitize [CHR ''a'', CHR 0x0A]) = ''a?''"
proof -
  have "sanitize [CHR ''a'', CHR 0x0A] = ''a?''"
    by (simp add: sanitize_def is_c0_def is_cont_def char_class_defs)
  then show ?thesis
    using sanitize_is_bounded_and_idempotent [of "[CHR ''a'', CHR 0x0A]"] by simp
qed

section \<open>Install orders\<close>

lemma check_secrets_ok:
  "check_secrets b64url seen ss = Inr u \<Longrightarrow>
     distinct (map ps_purpose ss) \<and> set (map ps_purpose ss) \<subseteq> set SECRET_PURPOSES
     \<and> set (map ps_purpose ss) \<inter> set seen = {}
     \<and> (\<forall>s \<in> set ss. safe_absolute_install_path (ps_path s) \<and> path_parent (ps_path s) \<noteq> None
          \<and> (ps_value s \<noteq> None \<longleftrightarrow> ps_purpose s \<noteq> ''mfa-totp-key''))"
proof (induction ss arbitrary: seen)
  case (Cons s ss)
  then have "check_secrets b64url (seen @ [ps_purpose s]) ss = Inr u"
    by (simp split: if_splits)
  from Cons.IH [OF this] Cons.prems show ?case
    by (simp split: if_splits)
qed simp

lemma order_secrets:
  assumes "InstallOrder_validate b64url ord = Inr u"
  shows "check_secrets b64url [] (io_secrets ord) = Inr ()" and "shared_secret_dir (io_secrets ord)"
    and "length (io_secrets ord) = length SECRET_PURPOSES"
  using assms by (auto simp: InstallOrder_validate_def Let_def)

text \<open>An admitted install order declares every secret of the closed vocabulary exactly once, all
  of them in one directory, and carries material for each of them but the key the target mints.\<close>

theorem install_order_declares_every_secret_once:
  assumes "InstallOrder_validate b64url ord = Inr ()"
  shows "distinct (map ps_purpose (io_secrets ord))
    \<and> set (map ps_purpose (io_secrets ord)) = set SECRET_PURPOSES
    \<and> (\<exists>dir. \<forall>s \<in> set (io_secrets ord). path_parent (ps_path s) = Some dir)
    \<and> (\<forall>s \<in> set (io_secrets ord). ps_value s = None \<longleftrightarrow> ps_purpose s = ''mfa-totp-key'')"
proof -
  note c = check_secrets_ok [OF order_secrets(1) [OF assms]]
  have "distinct SECRET_PURPOSES" by code_simp
  then have "card (set (map ps_purpose (io_secrets ord))) = card (set SECRET_PURPOSES)"
    using c order_secrets(3) [OF assms] by (metis distinct_card length_map)
  then have "set (map ps_purpose (io_secrets ord)) = set SECRET_PURPOSES"
    using c by (simp add: card_subset_eq)
  moreover have "\<exists>dir. \<forall>s \<in> set (io_secrets ord). path_parent (ps_path s) = Some dir"
  proof (cases "io_secrets ord")
    case (Cons first rest)
    then obtain dir where "path_parent (ps_path first) = Some dir" using c by fastforce
    then show ?thesis
      using order_secrets(2) [OF assms] Cons by (auto simp: shared_secret_dir_def list_all_iff)
  qed simp
  ultimately show ?thesis using c by blast
qed

definition sample_endpoint :: "string \<Rightarrow> ExternalEndpoint" where
  "sample_endpoint user = \<lparr>ee_host = ''db'', ee_port = 5432, ee_name = ''nazo'', ee_user = user\<rparr>"

definition sample_order :: InstallOrder where
  "sample_order =
     \<lparr>io_artifact = \<lparr>oa_repository = ''r'', oa_version = None\<rparr>, io_config_content = ''c'',
      io_config_sha256 = sample_hex, io_data_root = ''/d'', io_runtime_root = None,
      io_tls_material_root = None,
      io_secrets = map (\<lambda>p. \<lparr>ps_purpose = p, ps_path = ''/s/'' @ p,
         ps_value = (if p = ''mfa-totp-key'' then None else Some (SecretMaterial ''x''))\<rparr>) SECRET_PURPOSES,
      io_database_runtime_endpoint = sample_endpoint ''app'',
      io_database_lifecycle_endpoint = sample_endpoint ''owner'',
      io_valkey_endpoint = sample_endpoint ''x''\<rparr>"

definition sample_b64url :: "string \<Rightarrow> string option" where
  "sample_b64url s = Some (replicate 32 (CHR ''k''))"

lemma sample_order_ok: "InstallOrder_validate sample_b64url sample_order = Inr ()"
proof -
  have s: "check_secrets sample_b64url [] (io_secrets sample_order) = Inr ()" by code_simp
  have d: "shared_secret_dir (io_secrets sample_order)" by code_simp
  have h: "io_config_sha256 sample_order = sample_hex"
    and c: "io_config_content sample_order = ''c''" by (simp_all add: sample_order_def)
  have p: "safe_absolute_install_path (io_data_root sample_order)" by code_simp
  have e: "postgres_token ''nazo'' \<and> postgres_token ''app'' \<and> postgres_token ''owner''" by code_simp
  show ?thesis
    by (simp add: InstallOrder_validate_def Let_def s d p h c sample_hex_ok MAX_CONFIG_CONTENT_BYTES_def)
       (simp add: sample_order_def sample_endpoint_def e)
qed

lemma install_order_declares_every_secret_once_witness:
  "set (map ps_purpose (io_secrets sample_order)) = set SECRET_PURPOSES"
  using install_order_declares_every_secret_once [OF sample_order_ok] by blast

section \<open>Connection strings\<close>

definition hex_value :: "char \<Rightarrow> nat" where
  "hex_value c = (if is_digit c then of_char c - 48 else of_char c - 55)"

text \<open>Percent decoding (RFC 3986).\<close>

fun percent_decode :: "string \<Rightarrow> string option" where
  "percent_decode [] = Some []"
| "percent_decode (c # s) =
     (if c = CHR ''%'' then
        (case s of
           h # l # t \<Rightarrow> map_option (Cons (char_of (hex_value h * 16 + hex_value l))) (percent_decode t)
         | _ \<Rightarrow> None)
      else map_option (Cons c) (percent_decode s))"

lemma hex_digit_value:
  assumes "n < 16"
  shows "hex_value (hex_digit n) = n \<and> hex_digit n \<in> set ''0123456789ABCDEF''"
proof -
  have "list_all (\<lambda>n. hex_value (hex_digit n) = n \<and> hex_digit n \<in> set ''0123456789ABCDEF'') [0..<16]"
    by code_simp
  with assms show ?thesis by (simp add: list_all_iff)
qed

lemma byte_halves: "(of_char b :: nat) div 16 < 16 \<and> (of_char b :: nat) mod 16 < 16"
proof -
  have "(of_char b :: nat) < 256"
    by (metis mod_less_divisor of_char_mod_256 zero_less_numeral)
  then show ?thesis by (auto intro!: less_mult_imp_div_less)
qed

lemma percent_decode_byte:
  "percent_decode (percent_encode_byte b @ s) = map_option (Cons b) (percent_decode s)"
proof (cases "unreserved b")
  case True
  then have "b \<noteq> CHR ''%''" by (auto simp: unreserved_def char_class_defs)
  with True show ?thesis by (simp add: percent_encode_byte_def)
next
  case False
  note byte_halves [of b]
  then have "hex_value (hex_digit (of_char b div 16)) * 16 + hex_value (hex_digit (of_char b mod 16))
      = (of_char b :: nat)"
    using hex_digit_value by simp
  with False show ?thesis by (simp add: percent_encode_byte_def)
qed

text \<open>A password survives its connection string: percent decoding gives it back, and the encoded
  text holds only unreserved characters, percent signs and hexadecimal digits, so no password can
  end the user-information part of the URL early.\<close>

theorem credential_round_trip:
  "percent_decode (percent_encode_credential password) = Some password
   \<and> set (percent_encode_credential password) \<subseteq> Collect unreserved \<union> set ''%0123456789ABCDEF''"
proof
  show "percent_decode (percent_encode_credential password) = Some password"
    by (induction password) (simp_all add: percent_encode_credential_def percent_decode_byte)
  define S where "S = set ''0123456789ABCDEF''"
  have "hex_digit (of_char b div 16) \<in> S \<and> hex_digit (of_char b mod 16) \<in> S" for b
    using hex_digit_value byte_halves [of b] unfolding S_def by blast
  then have "c \<in> set (percent_encode_byte b) \<Longrightarrow> unreserved c \<or> c = CHR ''%'' \<or> c \<in> S" for b c
    by (auto simp: percent_encode_byte_def split: if_splits)
  then have "\<forall>c \<in> set (percent_encode_credential password). unreserved c \<or> c = CHR ''%'' \<or> c \<in> S"
    by (auto simp: percent_encode_credential_def)
  moreover have "set ''%0123456789ABCDEF'' = insert (CHR ''%'') S" by (simp add: S_def)
  ultimately show "set (percent_encode_credential password) \<subseteq> Collect unreserved \<union> set ''%0123456789ABCDEF''"
    by auto
qed

section \<open>Codec\<close>

text \<open>What the controller encodes the target parses to the same operation, given that the JSON
  reader inverts the JSON writer on it; and the target accepts only operations within the size
  limit that pass admission.\<close>

theorem host_operation_codec:
  assumes "json (print_json op) = TypedOperation op" and "HostOperation_validate X b64url op = Inr ()"
  shows "(encode_host_operation print_json op = Inr raw \<longrightarrow> parse_host_operation X b64url json raw = Inr op)
    \<and> (parse_host_operation X b64url json raw' = Inr op' \<longrightarrow>
         HostOperation_validate X b64url op' = Inr () \<and> length raw' \<le> MAX_HOST_OPERATION_BYTES)"
  using assms
  by (auto simp: encode_host_operation_def encode_bounded_def parse_host_operation_def Let_def
      rbind_Inr_iff split: if_splits parsed_operation.splits option.splits)

lemma host_operation_codec_witness:
  "parse_host_operation sample_X sample_b64url (\<lambda>_. TypedOperation sample_rollback) ''{}'' = Inr sample_rollback"
proof -
  have "encode_host_operation (\<lambda>_. ''{}'') sample_rollback = Inr ''{}''"
    by (simp add: encode_host_operation_def encode_bounded_def MAX_HOST_OPERATION_BYTES_def)
  then show ?thesis
    using host_operation_codec [where json = "\<lambda>_. TypedOperation sample_rollback"
        and print_json = "\<lambda>_. ''{}''" and op = sample_rollback, OF refl sample_rollback_ok]
    by blast
qed

text \<open>The literal registry of kinds is the enumeration.\<close>

lemma kinds_are_registered: "kind body \<in> set HOST_OPERATION_KINDS"
  by (cases body) (simp_all add: HOST_OPERATION_KINDS_def)

lemma kinds_are_inhabited: "k \<in> set HOST_OPERATION_KINDS \<Longrightarrow> \<exists>body. kind body = k"
  by (simp add: HOST_OPERATION_KINDS_def) (metis kind.simps)

end
