(* ===== verification/Journal.thy ===== *)
theory Journal
  imports Wire
begin

text \<open>
  The target-side operation journal (\<open>src/src/target/journal.rs\<close>).

  A journal file is its complete records and what follows the last newline. \<open>sz\<close> is the length of
  a record's JSON encoding with its newline, \<open>sha\<close> the serialisation and the digest of the canonical value. The
  environment of one call decides who holds the lock, how each durable write ends, and what the
  clock reads; the executor is a parameter and answers \<open>None\<close> where the process dies in it. A call
  also yields the file as it was on disk when the executor was entered, \<open>None\<close> where it never was.
\<close>

section \<open>Records and files\<close>

definition JOURNAL_SCHEMA :: nat where "JOURNAL_SCHEMA = 2"

record bounds =
  max_bytes :: nat
  max_pending_bytes :: nat
  target_bytes :: nat
  min_terminal_retained :: nat
  read_cap :: nat

definition default_bounds :: bounds where
  "default_bounds =
     \<lparr>max_bytes = 16 * 1024 * 1024, max_pending_bytes = 8 * 1024 * 1024,
      target_bytes = 8 * 1024 * 1024, min_terminal_retained = 128, read_cap = 32 * 1024 * 1024\<rparr>"

datatype JournalStatus = StPending | StCompleted | StFailed

record 'b JournalLine =
  jl_schema :: nat
  jl_operation_id :: string
  jl_operation_hash :: string
  jl_action :: string
  jl_recorded_at :: time
  jl_status :: JournalStatus
  jl_result :: "'b HostResult option"

text \<open>
  A complete line is a record, or bytes that are blank or do not parse. The bytes after the last
  newline are absent, a record that only lacks its newline, the incomplete beginning of a record
  (the parser reports the end of input), or anything else.
\<close>

datatype 'b journal_record = Record "'b JournalLine" | BadRecord nat

datatype 'b tail = NoTail | Unterminated "'b JournalLine" | Torn nat | BadTail nat

record 'b journal_file =
  jf_records :: "'b journal_record list"
  jf_tail :: "'b tail"

definition empty_journal :: "'b journal_file" where
  "empty_journal = \<lparr>jf_records = [], jf_tail = NoTail\<rparr>"

definition of_lines :: "'b JournalLine list \<Rightarrow> 'b journal_file" where
  "of_lines ls = \<lparr>jf_records = map Record ls, jf_tail = NoTail\<rparr>"

fun record_size :: "('b JournalLine \<Rightarrow> nat) \<Rightarrow> 'b journal_record \<Rightarrow> nat" where
  "record_size sz (Record l) = sz l"
| "record_size sz (BadRecord n) = n"

fun tail_size :: "('b JournalLine \<Rightarrow> nat) \<Rightarrow> 'b tail \<Rightarrow> nat" where
  "tail_size sz NoTail = 0"
| "tail_size sz (Unterminated l) = sz l - 1"
| "tail_size sz (Torn n) = n"
| "tail_size sz (BadTail n) = n"

definition file_size :: "('b JournalLine \<Rightarrow> nat) \<Rightarrow> 'b journal_file \<Rightarrow> nat" where
  "file_size sz f = sum_list (map (record_size sz) (jf_records f)) + tail_size sz (jf_tail f)"

datatype journal_error =
    JScope violation
  | JLockHeld
  | JOversized
  | JInvalidTail
  | JUnparsable
  | JSchema nat
  | JOperationId
  | JOperationHash
  | JUnknownAction
  | JTerminalResult
  | JPendingResult
  | JWriteFailed
  | JExecutorDied

section \<open>Reading\<close>

definition validate_entry :: "externals \<Rightarrow> 'b JournalLine \<Rightarrow> journal_error + unit" where
  "validate_entry X entry =
     (if jl_schema entry \<noteq> JOURNAL_SCHEMA then Inl (JSchema (jl_schema entry))
      else if uuid_version X (jl_operation_id entry) = None then Inl JOperationId
      else if \<not> (length (jl_operation_hash entry) = 64
                 \<and> list_all (\<lambda>c. is_hexdigit c \<and> \<not> is_upper c) (jl_operation_hash entry))
        then Inl JOperationHash
      else if jl_action entry \<notin> set HOST_OPERATION_KINDS then Inl JUnknownAction
      else case jl_status entry of
        StPending \<Rightarrow> require (jl_result entry = None) JPendingResult
      | status \<Rightarrow>
          if status = StCompleted \<and> jl_action entry = ''backup-transfer-read'' \<and> jl_result entry = None
          then Inr ()
          else (case jl_result entry of
                  None \<Rightarrow> Inl JTerminalResult
                | Some r \<Rightarrow> require (hr_operation_id r = jl_operation_id entry) JTerminalResult))"

text \<open>The loop over \<open>text.lines()\<close>.\<close>

fun parse_records ::
  "externals \<Rightarrow> 'b journal_record list \<Rightarrow> journal_error + 'b JournalLine list" where
  "parse_records X [] = Inr []"
| "parse_records X (BadRecord _ # rs) = Inl JUnparsable"
| "parse_records X (Record l # rs) =
     rbind (validate_entry X l) (\<lambda>_. rbind (parse_records X rs) (\<lambda>ls. Inr (l # ls)))"

text \<open>The treatment of a final record without newline: completed, discarded, or refused.\<close>

definition settle_tail :: "'b journal_file \<Rightarrow> journal_error + 'b journal_record list" where
  "settle_tail f =
     (case jf_tail f of
        NoTail \<Rightarrow> Inr (jf_records f)
      | Unterminated l \<Rightarrow> Inr (jf_records f @ [Record l])
      | Torn _ \<Rightarrow> Inr (jf_records f)
      | BadTail _ \<Rightarrow> Inl JInvalidTail)"

text \<open>
  \<open>outcome\<close> is how the repairing write ends. The answer carries the file as it is afterwards.
\<close>

definition read_lines_with ::
  "externals \<Rightarrow> ('b JournalLine \<Rightarrow> nat) \<Rightarrow> nat \<Rightarrow> bool \<Rightarrow> commit \<Rightarrow> 'b journal_file option
   \<Rightarrow> (journal_error + 'b JournalLine list) \<times> 'b journal_file option" where
  "read_lines_with X sz cap repair_tail outcome path =
     (case path of
        None \<Rightarrow> (Inr [], None)
      | Some f \<Rightarrow>
          if cap < file_size sz f then (Inl JOversized, path)
          else case rbind (settle_tail f) (parse_records X) of
            Inl e \<Rightarrow> (Inl e, path)
          | Inr lines \<Rightarrow>
              if jf_tail f \<noteq> NoTail \<and> repair_tail then
                (case outcome of
                   Rejected \<Rightarrow> (Inl JWriteFailed, path)
                 | Unsynced \<Rightarrow> (Inl JWriteFailed, Some (of_lines lines))
                 | Committed \<Rightarrow> (Inr lines, Some (of_lines lines)))
              else (Inr lines, path))"

section \<open>Compaction\<close>

text \<open>
  Newest first: the pending record of every operation no newer record settles.
\<close>

fun unsettled_rev :: "string list \<Rightarrow> 'b JournalLine list \<Rightarrow> 'b JournalLine list" where
  "unsettled_rev seen [] = []"
| "unsettled_rev seen (l # ls) =
     (if jl_operation_id l \<notin> set seen \<and> jl_status l = StPending
      then l # unsettled_rev (jl_operation_id l # seen) ls
      else unsettled_rev (jl_operation_id l # seen) ls)"

definition unsettled :: "'b JournalLine list \<Rightarrow> 'b JournalLine list" where
  "unsettled lines = unsettled_rev [] (rev lines)"

text \<open>The second pass, newest first: which records stay.\<close>

fun retain_rev ::
  "('b JournalLine \<Rightarrow> nat) \<Rightarrow> nat \<Rightarrow> string list \<Rightarrow> nat \<Rightarrow> nat \<Rightarrow> nat \<Rightarrow> 'b JournalLine list
   \<Rightarrow> 'b JournalLine list" where
  "retain_rev sz min_terminal seen budget hard_budget retained [] = []"
| "retain_rev sz min_terminal seen budget hard_budget retained (l # ls) =
     (let seen' = jl_operation_id l # seen in
      if jl_status l = StPending then
        (if jl_operation_id l \<notin> set seen
         then l # retain_rev sz min_terminal seen' budget hard_budget retained ls
         else retain_rev sz min_terminal seen' budget hard_budget retained ls)
      else if sz l \<le> hard_budget \<and> (retained < min_terminal \<or> sz l \<le> budget)
        then l # retain_rev sz min_terminal seen' (budget - sz l) (hard_budget - sz l) (Suc retained) ls
      else retain_rev sz min_terminal seen' budget hard_budget retained ls)"

definition compact_lines :: "('b JournalLine \<Rightarrow> nat) \<Rightarrow> bounds \<Rightarrow> 'b JournalLine list \<Rightarrow> 'b JournalLine list" where
  "compact_lines sz B lines =
     (let hard_budget = foldl (\<lambda>h l. h - sz l) (max_bytes B) (unsettled lines)
      in rev (retain_rev sz (min_terminal_retained B) [] (target_bytes B) hard_budget 0 (rev lines)))"

record journal_env =
  je_lock_held :: bool
  je_repair :: commit
  je_compact :: commit
  je_append_pending :: "commit \<times> nat option"
  je_compact_2 :: commit
  je_append_terminal :: "commit \<times> nat option"
  je_compact_3 :: commit
  je_discard :: commit
  je_accepted_at :: time
  je_completed_at :: time

definition compact_if_needed ::
  "externals \<Rightarrow> ('b JournalLine \<Rightarrow> nat) \<Rightarrow> bounds \<Rightarrow> commit \<Rightarrow> commit \<Rightarrow> 'b journal_file option
   \<Rightarrow> (journal_error + 'b JournalLine list option) \<times> 'b journal_file option" where
  "compact_if_needed X sz B repair outcome path =
     (case path of
        None \<Rightarrow> (Inr None, path)
      | Some f \<Rightarrow>
          if file_size sz f \<le> max_bytes B then (Inr None, path)
          else case read_lines_with X sz (read_cap B) True repair path of
            (Inl e, path') \<Rightarrow> (Inl e, path')
          | (Inr lines, path') \<Rightarrow>
              (let kept = compact_lines sz B lines
               in case outcome of
                    Rejected \<Rightarrow> (Inl JWriteFailed, path')
                  | Unsynced \<Rightarrow> (Inl JWriteFailed, Some (of_lines kept))
                  | Committed \<Rightarrow> (Inr (Some kept), Some (of_lines kept))))"

section \<open>Appending\<close>

text \<open>
  One \<open>write_all\<close> on an append handle, then the syncs. \<open>(Rejected, Some n)\<close> is a write that
  stopped after \<open>n\<close> bytes; \<open>(Unsynced, _)\<close> wrote the whole line and reported an error.
\<close>

definition add_bytes :: "('b JournalLine \<Rightarrow> nat) \<Rightarrow> 'b JournalLine \<Rightarrow> nat \<Rightarrow> 'b journal_file \<Rightarrow> 'b journal_file" where
  "add_bytes sz line n f =
     (if n = 0 then f
      else case jf_tail f of
        NoTail \<Rightarrow>
          if sz line \<le> n then f\<lparr>jf_records := jf_records f @ [Record line]\<rparr>
          else f\<lparr>jf_tail := (if n = sz line - 1 then Unterminated line else Torn n)\<rparr>
      | t \<Rightarrow>
          if sz line \<le> n
          then f\<lparr>jf_records := jf_records f @ [BadRecord (tail_size sz t + sz line)], jf_tail := NoTail\<rparr>
          else f\<lparr>jf_tail := BadTail (tail_size sz t + n)\<rparr>)"

definition append_line ::
  "('b JournalLine \<Rightarrow> nat) \<Rightarrow> commit \<times> nat option \<Rightarrow> 'b JournalLine \<Rightarrow> 'b journal_file option
   \<Rightarrow> bool \<times> 'b journal_file option" where
  "append_line sz outcome line path =
     (let f = (case path of None \<Rightarrow> empty_journal | Some f \<Rightarrow> f)
      in case outcome of
           (Committed, _) \<Rightarrow> (True, Some (add_bytes sz line (sz line) f))
         | (Unsynced, _) \<Rightarrow> (False, Some (add_bytes sz line (sz line) f))
         | (Rejected, None) \<Rightarrow> (False, path)
         | (Rejected, Some n) \<Rightarrow> (False, Some (add_bytes sz line (min n (sz line - 1)) f)))"

definition remove_operation ::
  "externals \<Rightarrow> ('b JournalLine \<Rightarrow> nat) \<Rightarrow> bounds \<Rightarrow> commit \<Rightarrow> commit \<Rightarrow> string \<Rightarrow> 'b journal_file option
   \<Rightarrow> bool \<times> 'b journal_file option" where
  "remove_operation X sz B repair outcome operation_id path =
     (case read_lines_with X sz (read_cap B) True repair path of
        (Inl e, path') \<Rightarrow> (False, path')
      | (Inr lines, path') \<Rightarrow>
          (let kept = filter (\<lambda>l. jl_operation_id l \<noteq> operation_id) lines
           in case outcome of
                Rejected \<Rightarrow> (False, path')
              | Unsynced \<Rightarrow> (False, Some (of_lines kept))
              | Committed \<Rightarrow> (True, Some (of_lines kept))))"

section \<open>Running an operation\<close>

fun retry_failed_kind :: "HostOperationBody \<Rightarrow> bool" where
  "retry_failed_kind (BackupRecover _ _) = True"
| "retry_failed_kind (BackupRecoveryCandidateStage _ _ _) = True"
| "retry_failed_kind (BackupRecoveryCandidateControl _ _ _ _) = True"
| "retry_failed_kind (BackupRecoveryCandidateCleanup _) = True"
| "retry_failed_kind (BackupRecoveryActivate _ _ _) = True"
| "retry_failed_kind (StateMutate MutUninstall) = True"
| "retry_failed_kind _ = False"

fun is_update :: "HostOperationBody \<Rightarrow> bool" where
  "is_update (StateMutate (MutUpdate _)) = True"
| "is_update _ = False"

definition outcome_unknown_codes :: "string list" where
  "outcome_unknown_codes =
     [''CONTROL_OUTCOME_UNKNOWN'', ''CONTROL_EXECUTION_UNAVAILABLE'', ''OUTCOME_UNKNOWN'',
      ''PRIVILEGE_REQUIRED'']"

definition leaves_pending :: "'b HostResult \<Rightarrow> bool" where
  "leaves_pending r =
     (case hr_outcome r of Failed c _ \<Rightarrow> c \<in> set outcome_unknown_codes | Completed _ \<Rightarrow> False)"

definition is_noop_update :: "('b \<Rightarrow> bool) \<Rightarrow> HostOperationBody \<Rightarrow> 'b HostResult \<Rightarrow> bool" where
  "is_noop_update noop body r \<longleftrightarrow>
     is_update body \<and> (case hr_outcome r of Completed b \<Rightarrow> noop b | Failed _ _ \<Rightarrow> False)"

definition pending_line :: "string \<Rightarrow> HostOperation \<Rightarrow> time \<Rightarrow> 'b JournalLine" where
  "pending_line operation_hash op now =
     \<lparr>jl_schema = JOURNAL_SCHEMA, jl_operation_id = ho_operation_id op,
      jl_operation_hash = operation_hash, jl_action = kind (ho_operation op), jl_recorded_at = now,
      jl_status = StPending, jl_result = None\<rparr>"

definition terminal_line :: "string \<Rightarrow> HostOperation \<Rightarrow> time \<Rightarrow> 'b HostResult \<Rightarrow> 'b JournalLine" where
  "terminal_line operation_hash op now result =
     \<lparr>jl_schema = JOURNAL_SCHEMA, jl_operation_id = ho_operation_id op,
      jl_operation_hash = operation_hash, jl_action = kind (ho_operation op), jl_recorded_at = now,
      jl_status = (case hr_outcome result of Completed _ \<Rightarrow> StCompleted | Failed _ _ \<Rightarrow> StFailed),
      jl_result = Some result\<rparr>"

datatype 'b verdict = Conflict | Answer "'b HostResult" | Resume | Start

text \<open>What the stored lines of the operation's id decide.\<close>

definition consult ::
  "'b JournalLine list \<Rightarrow> string \<Rightarrow> HostOperation \<Rightarrow> 'b verdict" where
  "consult lines operation_hash op =
     (let own = filter (\<lambda>l. jl_operation_id l = ho_operation_id op) lines
      in if \<not> list_all (\<lambda>l. jl_operation_hash l = operation_hash) own then Conflict
         else if own = [] then Start
         else (let latest = last own;
                   retry_failed_phase =
                     (jl_status latest = StFailed \<and> retry_failed_kind (ho_operation op))
               in if jl_status latest = StPending then Resume
                  else if retry_failed_phase then Start
                  else (case jl_result latest of Some r \<Rightarrow> Answer r | None \<Rightarrow> Start)))"

definition admits :: "('b JournalLine \<Rightarrow> nat) \<Rightarrow> bounds \<Rightarrow> 'b JournalLine list \<Rightarrow> 'b JournalLine \<Rightarrow> bool" where
  "admits sz B lines pending \<longleftrightarrow>
     \<not> max_pending_bytes B < sz pending + sum_list (map sz (unsettled lines))"

definition conflict_result :: "HostOperation \<Rightarrow> 'b HostResult" where
  "conflict_result op =
     HostResult_failed (ho_operation_id op) ''OPERATION_ID_CONFLICT''
       ''generate a new operation_id instead of retrying''"

definition capacity_result :: "HostOperation \<Rightarrow> 'b HostResult" where
  "capacity_result op =
     HostResult_failed (ho_operation_id op) ''TARGET_JOURNAL_CAPACITY''
       ''unsettled operations fill the journal admission budget''"

type_synonym 'b run =
  "(journal_error + 'b HostResult) \<times> 'b journal_file option \<times> 'b journal_file option"

text \<open>\<open>compact_if_needed\<close>, then \<open>read_lines_with\<close> unless compaction already read the lines.\<close>

definition open_journal ::
  "externals \<Rightarrow> ('b JournalLine \<Rightarrow> nat) \<Rightarrow> bounds \<Rightarrow> journal_env \<Rightarrow> 'b journal_file option
   \<Rightarrow> (journal_error + 'b JournalLine list) \<times> 'b journal_file option" where
  "open_journal X sz B E path =
     (case compact_if_needed X sz B (je_repair E) (je_compact E) path of
        (Inl e, path') \<Rightarrow> (Inl e, path')
      | (Inr (Some lines), path') \<Rightarrow> (Inr lines, path')
      | (Inr None, path') \<Rightarrow> read_lines_with X sz (read_cap B) True (je_repair E) path')"

text \<open>\<open>append\<close>, then \<open>compact_if_needed\<close>, each with \<open>?\<close>.\<close>

definition append_bounded ::
  "externals \<Rightarrow> ('b JournalLine \<Rightarrow> nat) \<Rightarrow> bounds \<Rightarrow> commit \<Rightarrow> commit \<times> nat option \<Rightarrow> commit
   \<Rightarrow> 'b JournalLine \<Rightarrow> 'b journal_file option \<Rightarrow> (journal_error + unit) \<times> 'b journal_file option" where
  "append_bounded X sz B repair write compact line path =
     (case append_line sz write line path of
        (False, path') \<Rightarrow> (Inl JWriteFailed, path')
      | (True, path') \<Rightarrow>
          (case compact_if_needed X sz B repair compact path' of
             (r, path'') \<Rightarrow> (rbind r (\<lambda>_. Inr ()), path'')))"

text \<open>From the executor on; \<open>path\<close> is on disk when it is entered.\<close>

definition execute_and_settle ::
  "externals \<Rightarrow> ('b JournalLine \<Rightarrow> nat) \<Rightarrow> bounds \<Rightarrow> ('b \<Rightarrow> bool) \<Rightarrow> journal_env
   \<Rightarrow> (HostOperation \<Rightarrow> 'b HostResult option) \<Rightarrow> string \<Rightarrow> HostOperation \<Rightarrow> 'b journal_file option
   \<Rightarrow> 'b run" where
  "execute_and_settle X sz B noop E execute operation_hash op path =
     (case execute op of
        None \<Rightarrow> (Inl JExecutorDied, path, path)
      | Some result \<Rightarrow>
          if is_noop_update noop (ho_operation op) result then
            (case remove_operation X sz B (je_repair E) (je_discard E) (ho_operation_id op) path of
               (True, path') \<Rightarrow> (Inr result, path', path)
             | (False, path') \<Rightarrow> (Inl JWriteFailed, path', path))
          else if leaves_pending result then (Inr result, path, path)
          else (case append_bounded X sz B (je_repair E) (je_append_terminal E) (je_compact_3 E)
                       (terminal_line operation_hash op (je_completed_at E) result) path of
                  (r, path') \<Rightarrow> (rbind r (\<lambda>_. Inr result), path', path)))"

definition run_journaled_at ::
  "externals \<Rightarrow> ('b JournalLine \<Rightarrow> nat) \<Rightarrow> bounds \<Rightarrow> ('b \<Rightarrow> bool) \<Rightarrow> hasher \<Rightarrow> journal_env
   \<Rightarrow> (HostOperation \<Rightarrow> 'b HostResult option) \<Rightarrow> HostOperation \<Rightarrow> 'b journal_file option \<Rightarrow> 'b run" where
  "run_journaled_at X sz B noop sha E execute op path =
     (if je_lock_held E then (Inl JLockHeld, path, None)
      else let operation_hash = canonical_operation_hash sha op
      in case open_journal X sz B E path of
        (Inl e, path1) \<Rightarrow> (Inl e, path1, None)
      | (Inr lines, path1) \<Rightarrow>
     (case consult lines operation_hash op of
        Conflict \<Rightarrow> (Inr (conflict_result op), path1, None)
      | Answer r \<Rightarrow> (Inr r, path1, None)
      | Resume \<Rightarrow> execute_and_settle X sz B noop E execute operation_hash op path1
      | Start \<Rightarrow>
          (let pending = pending_line operation_hash op (je_accepted_at E)
           in if \<not> admits sz B lines pending then (Inr (capacity_result op), path1, None)
              else case append_bounded X sz B (je_repair E) (je_append_pending E) (je_compact_2 E)
                          pending path1 of
                (Inl e, path2) \<Rightarrow> (Inl e, path2, None)
              | (Inr _, path2) \<Rightarrow>
                  execute_and_settle X sz B noop E execute operation_hash op path2)))"

text \<open>The journals of a target, one per scope.\<close>

definition run_journaled ::
  "externals \<Rightarrow> ('b JournalLine \<Rightarrow> nat) \<Rightarrow> bounds \<Rightarrow> ('b \<Rightarrow> bool) \<Rightarrow> hasher \<Rightarrow> journal_env
   \<Rightarrow> (HostOperation \<Rightarrow> 'b HostResult option) \<Rightarrow> HostOperation \<Rightarrow> (string \<rightharpoonup> 'b journal_file)
   \<Rightarrow> (journal_error + 'b HostResult) \<times> (string \<rightharpoonup> 'b journal_file)" where
  "run_journaled X sz B noop sha E execute op J =
     (case scope_slug (ho_deployment_id op) of
        Inl e \<Rightarrow> (Inl (JScope e), J)
      | Inr scope \<Rightarrow>
          (case run_journaled_at X sz B noop sha E execute op (J scope) of
             (r, path, _) \<Rightarrow> (r, J(scope := path))))"

section \<open>The operation log\<close>

datatype OperationOutcomeSummary = SumCompleted | SumFailed string string

record OperationLogEntry =
  le_operation_id :: string
  le_action :: string
  le_status :: JournalStatus
  le_recorded_at :: time
  le_outcome :: "OperationOutcomeSummary option"

definition project_entry :: "'b JournalLine \<Rightarrow> OperationLogEntry" where
  "project_entry line =
     \<lparr>le_operation_id = jl_operation_id line, le_action = jl_action line,
      le_status = jl_status line, le_recorded_at = jl_recorded_at line,
      le_outcome = (case (jl_status line, jl_result line) of
          (StPending, _) \<Rightarrow> None
        | (_, None) \<Rightarrow> None
        | (_, Some r) \<Rightarrow> Some (case hr_outcome r of
                           Completed _ \<Rightarrow> SumCompleted
                         | Failed c d \<Rightarrow> SumFailed c d))\<rparr>"

definition project_log ::
  "externals \<Rightarrow> ('b JournalLine \<Rightarrow> nat) \<Rightarrow> bounds \<Rightarrow> 'b journal_file option
   \<Rightarrow> journal_error + OperationLogEntry list" where
  "project_log X sz B path =
     rbind (fst (read_lines_with X sz (read_cap B) False Committed path))
       (\<lambda>lines. Inr (map project_entry lines))"

definition operation_log ::
  "externals \<Rightarrow> ('b JournalLine \<Rightarrow> nat) \<Rightarrow> bounds \<Rightarrow> string \<Rightarrow> (string \<rightharpoonup> 'b journal_file)
   \<Rightarrow> journal_error + OperationLogEntry list" where
  "operation_log X sz B deployment_id J =
     rbind (map_err JScope (deployment_scope deployment_id)) (\<lambda>scope. project_log X sz B (J scope))"

definition host_operation_log ::
  "externals \<Rightarrow> ('b JournalLine \<Rightarrow> nat) \<Rightarrow> bounds \<Rightarrow> (string \<rightharpoonup> 'b journal_file)
   \<Rightarrow> journal_error + OperationLogEntry list" where
  "host_operation_log X sz B J = project_log X sz B (J HOST_SCOPE)"

text \<open>A deployment named \<open>host\<close> shares its journal with the host-level scope.\<close>

lemma host_scope_is_shared:
  "scope_slug (Some ''host'') = scope_slug None \<and>
   operation_log X sz B ''host'' J = host_operation_log X sz B J"
proof -
  have "deployment_scope ''host'' = Inr ''host''" by code_simp
  then show ?thesis
    by (simp add: scope_slug_def operation_log_def host_operation_log_def HOST_SCOPE_def)
qed

end
