(* ===== verification/JournalProofs.thy ===== *)
theory JournalProofs
  imports Journal "HOL-Library.Sublist"
begin

text \<open>
  The lemma library of the operation journal: what compaction selects, how reading, compacting and
  appending act on well-formed files, and the invariant of a journal file.
\<close>

section \<open>Compaction\<close>

lemma unsettled_rev_seen_cong:
  "set seen = set seen' \<Longrightarrow> unsettled_rev seen ls = unsettled_rev seen' ls"
proof (induction ls arbitrary: seen seen')
  case (Cons l ls)
  then have "unsettled_rev (jl_operation_id l # seen) ls = unsettled_rev (jl_operation_id l # seen') ls"
    by (intro Cons.IH) simp
  with Cons.prems show ?case by simp
qed simp

lemma unsettled_rev_absorb:
  "i \<in> set seen \<Longrightarrow> unsettled_rev (i # seen) ls = unsettled_rev seen ls"
  by (rule unsettled_rev_seen_cong) auto

lemma retain_subseq: "subseq (retain_rev sz m seen b h r ls) ls"
  by (induction ls arbitrary: seen b h r) (auto simp: Let_def)

lemma retain_pending:
  "filter (\<lambda>l. jl_status l = StPending) (retain_rev sz m seen b h r ls) = unsettled_rev seen ls"
  by (induction ls arbitrary: seen b h r) (auto simp: Let_def)

lemma unsettled_retain:
  "set seen' \<subseteq> set seen \<Longrightarrow>
     unsettled_rev seen' (retain_rev sz m seen b h r ls) = unsettled_rev seen ls"
proof (induction ls arbitrary: seen seen' b h r)
  case (Cons l ls)
  have "set (jl_operation_id l # seen') \<subseteq> set (jl_operation_id l # seen)"
    and "set seen' \<subseteq> set (jl_operation_id l # seen)"
    using Cons.prems by auto
  with Cons show ?case by (auto simp: Let_def)
qed simp

lemma retain_idem:
  "set seen' \<subseteq> set seen \<Longrightarrow>
     retain_rev sz m seen' b h r (retain_rev sz m seen b h r ls) = retain_rev sz m seen b h r ls"
proof (induction ls arbitrary: seen seen' b h r)
  case (Cons l ls)
  have "set (jl_operation_id l # seen') \<subseteq> set (jl_operation_id l # seen)"
    and "set seen' \<subseteq> set (jl_operation_id l # seen)"
    using Cons.prems by auto
  with Cons show ?case by (auto simp: Let_def)
qed simp

lemma retain_size:
  "sum_list (map sz (retain_rev sz m seen b h r ls)) \<le> h + sum_list (map sz (unsettled_rev seen ls))"
proof (induction ls arbitrary: seen b h r)
  case (Cons l ls)
  show ?case
  proof (cases "sz l \<le> h")
    case True
    with Cons [of "jl_operation_id l # seen" "b - sz l" "h - sz l" "Suc r"]
      Cons [of "jl_operation_id l # seen" b h r]
    show ?thesis by (auto simp: Let_def)
  next
    case False
    with Cons [of "jl_operation_id l # seen" b h r] show ?thesis by (auto simp: Let_def)
  qed
qed simp

lemma foldl_minus: "foldl (\<lambda>h l. h - sz l) (n :: nat) ls = n - sum_list (map sz ls)"
  by (induction ls arbitrary: n) simp_all

definition unsettled_size :: "('b JournalLine \<Rightarrow> nat) \<Rightarrow> 'b JournalLine list \<Rightarrow> nat" where
  "unsettled_size sz ls = sum_list (map sz (unsettled ls))"

lemma compact_lines_alt:
  "compact_lines sz B ls =
     rev (retain_rev sz (min_terminal_retained B) [] (target_bytes B)
            (max_bytes B - unsettled_size sz ls) 0 (rev ls))"
  by (simp add: compact_lines_def foldl_minus unsettled_size_def)

lemma compact_unsettled [simp]: "unsettled (compact_lines sz B ls) = unsettled ls"
  by (simp add: unsettled_def compact_lines_alt unsettled_retain)

lemma compact_unsettled_size [simp]: "unsettled_size sz (compact_lines sz' B ls) = unsettled_size sz ls"
  by (simp add: unsettled_size_def)

lemma subseq_rev: "subseq xs ys \<Longrightarrow> subseq (rev xs) (rev ys)"
  by (induction rule: list_emb.induct) (auto intro: subseq_rev_drop_many list_emb_append_mono)

lemma compact_subseq: "subseq (compact_lines sz B ls) ls"
  using subseq_rev [OF retain_subseq [of sz "min_terminal_retained B" "[]" "target_bytes B" _ 0 "rev ls"]]
  by (simp add: compact_lines_alt)

lemma compact_pending:
  "filter (\<lambda>l. jl_status l = StPending) (compact_lines sz B ls) = rev (unsettled ls)"
  by (simp add: compact_lines_alt rev_filter [symmetric] retain_pending unsettled_def)

lemma compact_idem: "compact_lines sz B (compact_lines sz B ls) = compact_lines sz B ls"
  by (simp add: compact_lines_alt [of sz B "compact_lines sz B ls"])
     (simp add: compact_lines_alt retain_idem)

lemma compact_size:
  "sum_list (map sz (compact_lines sz B ls)) \<le> max (max_bytes B) (unsettled_size sz ls)"
  using retain_size [of sz "min_terminal_retained B" "[]" "target_bytes B"
      "max_bytes B - unsettled_size sz ls" 0 "rev ls"]
  by (simp add: compact_lines_alt rev_map [symmetric] unsettled_size_def unsettled_def)

lemma compact_set: "set (compact_lines sz B ls) \<subseteq> set ls"
proof
  fix l
  assume "l \<in> set (compact_lines sz B ls)"
  from list_emb_set [OF compact_subseq this] show "l \<in> set ls" by blast
qed

text \<open>The newest line is kept when it fits beside the unsettled ones.\<close>

lemma compact_snoc:
  assumes "jl_status l \<noteq> StPending" and "0 < min_terminal_retained B"
    and "sz l + unsettled_size sz (ls @ [l]) \<le> max_bytes B"
  shows "\<exists>ks. compact_lines sz B (ls @ [l]) = ks @ [l]"
  using assms by (auto simp: compact_lines_alt Let_def)

lemma unsettled_snoc_pending:
  "jl_status l = StPending \<Longrightarrow>
     unsettled (ls @ [l]) = l # unsettled_rev [jl_operation_id l] (rev ls)"
  by (simp add: unsettled_def)

lemma unsettled_rev_filter:
  "unsettled_rev (i # seen) ls = filter (\<lambda>l. jl_operation_id l \<noteq> i) (unsettled_rev seen ls)"
proof (induction ls arbitrary: seen)
  case (Cons l ls)
  have swap: "unsettled_rev (jl_operation_id l # i # seen) ls = unsettled_rev (i # jl_operation_id l # seen) ls"
    by (rule unsettled_rev_seen_cong) auto
  show ?case
  proof (cases "jl_operation_id l = i")
    case True
    have "unsettled_rev (i # i # seen) ls = unsettled_rev (i # seen) ls"
      by (rule unsettled_rev_absorb) simp
    with True Cons.IH [of seen] Cons.IH [of "i # seen"] show ?thesis by auto
  next
    case False
    with swap Cons.IH [of "jl_operation_id l # seen"] show ?thesis by auto
  qed
qed simp

lemma unsettled_snoc_size:
  "unsettled_size sz (ls @ [l]) \<le>
     (if jl_status l = StPending then sz l else 0) + unsettled_size sz ls"
  using sum_list_filter_le [of sz "\<lambda>k. jl_operation_id k \<noteq> jl_operation_id l" "unsettled_rev [] (rev ls)"]
  by (simp add: unsettled_size_def unsettled_def unsettled_rev_filter)

section \<open>Well-formed files\<close>

definition line_ok :: "externals \<Rightarrow> 'b JournalLine \<Rightarrow> bool" where
  "line_ok X l \<longleftrightarrow> validate_entry X l = Inr ()"

text \<open>The records a reader sees: all complete ones, and a final one that only lacks its newline.\<close>

fun tail_lines :: "'b tail \<Rightarrow> 'b JournalLine list" where
  "tail_lines (Unterminated l) = [l]"
| "tail_lines _ = []"

inductive holds :: "'b journal_file option \<Rightarrow> 'b JournalLine list \<Rightarrow> bool" where
  holds_none: "holds None []"
| holds_file: "(\<forall>n. t \<noteq> BadTail n) \<Longrightarrow>
     holds (Some \<lparr>jf_records = map Record ls, jf_tail = t\<rparr>) (ls @ tail_lines t)"

lemma holds_of_lines [intro, simp]: "holds (Some (of_lines ls)) ls"
  using holds_file [of NoTail ls] by (simp add: of_lines_def)

definition lines_size :: "('b JournalLine \<Rightarrow> nat) \<Rightarrow> 'b JournalLine list \<Rightarrow> nat" where
  "lines_size sz ls = sum_list (map sz ls)"

lemma lines_size_simps [simp]:
  "lines_size sz [] = 0" "lines_size sz (l # ls) = sz l + lines_size sz ls"
  "lines_size sz (ls @ ks) = lines_size sz ls + lines_size sz ks"
  by (simp_all add: lines_size_def)

lemma file_size_of_lines [simp]: "file_size sz (of_lines ls) = lines_size sz ls"
  by (simp add: file_size_def of_lines_def lines_size_def comp_def)

lemma parse_records_ok: "list_all (line_ok X) ls \<Longrightarrow> parse_records X (map Record ls) = Inr ls"
  by (induction ls) (simp_all add: line_ok_def)

lemma settle_holds:
  "holds (Some f) ls \<Longrightarrow> settle_tail f = Inr (map Record ls)"
  by (auto simp: settle_tail_def elim!: holds.cases split: tail.split)

text \<open>Bounds of a file by the records it holds: completing the tail adds at most its newline.\<close>

lemma holds_size: "holds (Some f) ls \<Longrightarrow> lines_size sz ls \<le> file_size sz f + 1"
  by (auto simp: file_size_def lines_size_def comp_def elim!: holds.cases; case_tac t; simp)

text \<open>How reading for repair can end on a well-formed file that is not oversized.\<close>

lemma read_repair:
  assumes "holds p ls" and "list_all (line_ok X) ls" and "\<And>f. p = Some f \<Longrightarrow> file_size sz f \<le> cap"
  obtains (failed) e p' where "read_lines_with X sz cap True out p = (Inl e, p')" and "out \<noteq> Committed"
      and "p' = p \<or> p' = Some (of_lines ls)"
  | (clean) p' where "read_lines_with X sz cap True out p = (Inr ls, p')"
      and "p' = Some (of_lines ls) \<or> p' = None \<and> ls = []"
proof (cases p)
  case None
  with assms(1) have "ls = []" by (auto elim: holds.cases)
  with None show ?thesis by (intro clean [of None]) (simp_all add: read_lines_with_def)
next
  case (Some f)
  have r: "rbind (settle_tail f) (parse_records X) = Inr ls"
    using assms(1,2) Some by (simp add: settle_holds parse_records_ok)
  have size: "\<not> cap < file_size sz f" using assms(3) Some by (simp add: not_less)
  show ?thesis
  proof (cases "jf_tail f = NoTail")
    case True
    with assms(1) Some have "f = of_lines ls" by (auto simp: of_lines_def elim: holds.cases)
    with Some r size True show ?thesis by (intro clean) (auto simp: read_lines_with_def)
  next
    case False
    with Some r size show ?thesis
      by (cases out) (auto simp: read_lines_with_def intro: failed clean)
  qed
qed

lemma read_view:
  assumes "holds p ls" and "list_all (line_ok X) ls" and "\<And>f. p = Some f \<Longrightarrow> file_size sz f \<le> cap"
  shows "read_lines_with X sz cap False out p = (Inr ls, p)"
proof (cases p)
  case None
  with assms(1) show ?thesis by (auto simp: read_lines_with_def elim: holds.cases)
next
  case (Some f)
  with assms show ?thesis by (auto simp: read_lines_with_def settle_holds parse_records_ok)
qed

lemma read_of_lines:
  "list_all (line_ok X) ls \<Longrightarrow> lines_size sz ls \<le> cap \<Longrightarrow>
     read_lines_with X sz cap repair out (Some (of_lines ls)) = (Inr ls, Some (of_lines ls))"
  using settle_holds [OF holds_of_lines, of ls]
  by (simp add: read_lines_with_def parse_records_ok) (simp add: of_lines_def)

text \<open>How a bounding step can end on such a file.\<close>

lemma compact_cases:
  assumes "holds p ls" and "list_all (line_ok X) ls"
    and "\<And>f. p = Some f \<Longrightarrow> file_size sz f \<le> read_cap B"
  obtains (failed) e p' where "compact_if_needed X sz B rep out p = (Inl e, p')"
      and "rep \<noteq> Committed \<or> out \<noteq> Committed"
      and "p' = p \<or> p' = Some (of_lines ls) \<or> p' = Some (of_lines (compact_lines sz B ls))"
  | (small) "compact_if_needed X sz B rep out p = (Inr None, p)"
      and "\<And>f. p = Some f \<Longrightarrow> file_size sz f \<le> max_bytes B"
  | (rewritten) "compact_if_needed X sz B rep out p =
        (Inr (Some (compact_lines sz B ls)), Some (of_lines (compact_lines sz B ls)))"
proof (cases p)
  case None
  then show ?thesis by (intro small) (simp_all add: compact_if_needed_def)
next
  case (Some f)
  show ?thesis
  proof (cases "file_size sz f \<le> max_bytes B")
    case True
    with Some show ?thesis by (intro small) (simp_all add: compact_if_needed_def)
  next
    case False
    show ?thesis
    proof (rule read_repair [OF assms, where out = rep])
      fix e p'
      assume "read_lines_with X sz (read_cap B) True rep p = (Inl e, p')" and "rep \<noteq> Committed"
        and "p' = p \<or> p' = Some (of_lines ls)"
      with Some False show ?thesis
        by (intro failed [of e p']) (auto simp: compact_if_needed_def)
    next
      fix p'
      assume "read_lines_with X sz (read_cap B) True rep p = (Inr ls, p')"
        and "p' = Some (of_lines ls) \<or> p' = None \<and> ls = []"
      moreover from this Some have "p' = Some (of_lines ls)"
        by (auto simp: read_lines_with_def split: if_splits sum.splits commit.splits)
      ultimately show ?thesis
        using Some False failed rewritten
        by (cases out) (auto simp: compact_if_needed_def Let_def)
    qed
  qed
qed

section \<open>The invariant of a journal file\<close>

text \<open>
  \<open>M\<close> bounds one record. A file holds valid records; completing its tail it is at most one record
  and one newline beyond the steady-state cap; the unsettled operations fit the admission budget.
\<close>

definition journal_inv ::
  "externals \<Rightarrow> ('b JournalLine \<Rightarrow> nat) \<Rightarrow> bounds \<Rightarrow> nat \<Rightarrow> 'b JournalLine list \<Rightarrow> bool" where
  "journal_inv X sz B M ls \<longleftrightarrow>
     list_all (line_ok X) ls \<and> unsettled_size sz ls \<le> max_pending_bytes B
     \<and> lines_size sz ls \<le> max_bytes B + 1 + M"

definition bounds_ok :: "bounds \<Rightarrow> nat \<Rightarrow> bool" where
  "bounds_ok B M \<longleftrightarrow>
     max_pending_bytes B \<le> max_bytes B \<and> max_bytes B + 1 + M \<le> read_cap B"

text \<open>A file on disk: the invariant on what it holds, and the bytes of a torn tail within the cap.\<close>

definition journal_ok ::
  "externals \<Rightarrow> ('b JournalLine \<Rightarrow> nat) \<Rightarrow> bounds \<Rightarrow> nat \<Rightarrow> 'b journal_file option \<Rightarrow> 'b JournalLine list \<Rightarrow> bool" where
  "journal_ok X sz B M p ls \<longleftrightarrow>
     holds p ls \<and> journal_inv X sz B M ls
     \<and> (\<forall>f. p = Some f \<longrightarrow> file_size sz f \<le> max_bytes B + 1 + M)"

lemma journal_ok_of_lines [simp]:
  "journal_ok X sz B M (Some (of_lines ls)) ls \<longleftrightarrow> journal_inv X sz B M ls"
  by (auto simp: journal_ok_def journal_inv_def)

lemma journal_inv_compact:
  "journal_inv X sz B M ls \<Longrightarrow> bounds_ok B M \<Longrightarrow> journal_inv X sz B M (compact_lines sz B ls)"
  using compact_set [of sz B ls] compact_size [of sz B ls]
  by (auto simp: journal_inv_def bounds_ok_def list_all_iff lines_size_def)

lemma compact_small:
  "journal_inv X sz B M ls \<Longrightarrow> bounds_ok B M \<Longrightarrow> lines_size sz (compact_lines sz B ls) \<le> max_bytes B"
  using compact_size [of sz B ls] by (auto simp: journal_inv_def bounds_ok_def lines_size_def)

lemma journal_ok_within_cap:
  "journal_ok X sz B M p ls \<Longrightarrow> bounds_ok B M \<Longrightarrow> p = Some f \<Longrightarrow> file_size sz f \<le> read_cap B"
  by (auto simp: journal_ok_def bounds_ok_def)

lemma journal_ok_empty [simp]: "journal_ok X sz B M None []"
  by (auto simp: journal_ok_def journal_inv_def unsettled_size_def unsettled_def intro: holds_none)

section \<open>The newest record of an operation\<close>

definition latest :: "string \<Rightarrow> 'b JournalLine list \<Rightarrow> 'b JournalLine option" where
  "latest i ls = find (\<lambda>l. jl_operation_id l = i) (rev ls)"

lemma find_rev_last: "filter P xs \<noteq> [] \<Longrightarrow> find P (rev xs) = Some (last (filter P xs))"
  by (induction xs rule: rev_induct) auto

lemma latest_None: "latest i ls = None \<longleftrightarrow> filter (\<lambda>l. jl_operation_id l = i) ls = []"
  by (auto simp: latest_def find_None_iff filter_empty_conv)

lemma latest_snoc [simp]:
  "latest i (ls @ [l]) = (if jl_operation_id l = i then Some l else latest i ls)"
  by (simp add: latest_def)

lemma latest_Some: "latest i ls = Some l \<Longrightarrow> l \<in> set ls \<and> jl_operation_id l = i"
  by (induction ls rule: rev_induct) (auto simp: latest_def split: if_splits)

definition same_hash :: "string \<Rightarrow> string \<Rightarrow> 'b JournalLine list \<Rightarrow> bool" where
  "same_hash i h ls \<longleftrightarrow> (\<forall>l \<in> set ls. jl_operation_id l = i \<longrightarrow> jl_operation_hash l = h)"

lemma consult_alt:
  "consult ls h op =
     (if \<not> same_hash (ho_operation_id op) h ls then Conflict
      else case latest (ho_operation_id op) ls of
        None \<Rightarrow> Start
      | Some l \<Rightarrow>
          if jl_status l = StPending then Resume
          else if jl_status l = StFailed \<and> retry_failed_kind (ho_operation op) then Start
          else (case jl_result l of Some r \<Rightarrow> Answer r | None \<Rightarrow> Start))"
proof -
  let ?own = "filter (\<lambda>l. jl_operation_id l = ho_operation_id op) ls"
  have "list_all (\<lambda>l. jl_operation_hash l = h) ?own \<longleftrightarrow> same_hash (ho_operation_id op) h ls"
    by (auto simp: list_all_iff same_hash_def)
  moreover have "?own \<noteq> [] \<Longrightarrow> latest (ho_operation_id op) ls = Some (last ?own)"
    unfolding latest_def by (rule find_rev_last)
  moreover have "?own = [] \<Longrightarrow> latest (ho_operation_id op) ls = None"
    by (simp add: latest_None)
  ultimately show ?thesis by (cases "?own = []") (simp_all add: consult_def Let_def)
qed

lemma unsettled_rev_newest:
  assumes "find (\<lambda>l. jl_operation_id l = i) ls = Some l" and "jl_status l = StPending" and "i \<notin> set seen"
  shows "l \<in> set (unsettled_rev seen ls)"
  using assms by (induction ls arbitrary: seen) (auto split: if_splits)

lemma latest_pending_unsettled:
  "latest i ls = Some l \<Longrightarrow> jl_status l = StPending \<Longrightarrow> l \<in> set (unsettled ls)"
  by (simp add: latest_def unsettled_def unsettled_rev_newest)

lemma retain_find_pending:
  assumes "find (\<lambda>l. jl_operation_id l = i) ls = Some l" and "jl_status l = StPending" and "i \<notin> set seen"
  shows "find (\<lambda>l. jl_operation_id l = i) (retain_rev sz m seen b h r ls) = Some l"
  using assms by (induction ls arbitrary: seen b h r) (auto simp: Let_def split: if_splits)

lemma compact_latest_pending:
  "latest i ls = Some l \<Longrightarrow> jl_status l = StPending \<Longrightarrow> latest i (compact_lines sz B ls) = Some l"
  by (simp add: latest_def compact_lines_alt retain_find_pending)

lemma same_hash_compact: "same_hash i h ls \<Longrightarrow> same_hash i h (compact_lines sz B ls)"
  using compact_set [of sz B ls] by (auto simp: same_hash_def)

lemma unsettled_set: "set (unsettled ls) \<subseteq> set ls"
proof -
  have "set (unsettled_rev seen rs) \<subseteq> set rs" for seen and rs :: "'a JournalLine list"
    by (induction rs arbitrary: seen) auto
  then show ?thesis by (simp add: unsettled_def) (metis set_rev)
qed

section \<open>Opening and appending on well-formed files\<close>

definition clean :: "'b journal_file option \<Rightarrow> 'b JournalLine list \<Rightarrow> bool" where
  "clean p ls \<longleftrightarrow> p = Some (of_lines ls) \<or> p = None \<and> ls = []"

lemma clean_holds: "clean p ls \<Longrightarrow> holds p ls"
  by (auto simp: clean_def intro: holds_none)

lemma clean_ok: "clean p ls \<Longrightarrow> journal_inv X sz B M ls \<Longrightarrow> journal_ok X sz B M p ls"
  by (auto simp: clean_def)

lemma open_cases:
  assumes "journal_ok X sz B M p ls" and "bounds_ok B M"
  obtains (failed) e p' ls' where "open_journal X sz B E p = (Inl e, p')"
      and "je_repair E \<noteq> Committed \<or> je_compact E \<noteq> Committed"
      and "ls' = ls \<or> ls' = compact_lines sz B ls" and "journal_ok X sz B M p' ls'"
  | (opened) ls' p' where "open_journal X sz B E p = (Inr ls', p')" and "clean p' ls'"
      and "ls' = ls \<and> (\<forall>f. p = Some f \<longrightarrow> file_size sz f \<le> max_bytes B) \<or> ls' = compact_lines sz B ls"
      and "journal_inv X sz B M ls'" and "lines_size sz ls' \<le> max_bytes B + 1"
proof -
  have h: "holds p ls" and ok: "list_all (line_ok X) ls" and inv: "journal_inv X sz B M ls"
    using assms by (auto simp: journal_ok_def journal_inv_def)
  note cap = journal_ok_within_cap [OF assms]
  note inv' = journal_inv_compact [OF inv assms(2)]
  show ?thesis
  proof (rule compact_cases [OF h ok cap, where rep = "je_repair E" and out = "je_compact E"])
    fix e p'
    assume "compact_if_needed X sz B (je_repair E) (je_compact E) p = (Inl e, p')"
      and "je_repair E \<noteq> Committed \<or> je_compact E \<noteq> Committed"
      and "p' = p \<or> p' = Some (of_lines ls) \<or> p' = Some (of_lines (compact_lines sz B ls))"
    then show ?thesis
      using failed [of e p' ls] failed [of e p' "compact_lines sz B ls"] assms(1) inv inv'
      by (auto simp: open_journal_def)
  next
    assume none: "compact_if_needed X sz B (je_repair E) (je_compact E) p = (Inr None, p)"
      and small: "\<And>f. p = Some f \<Longrightarrow> file_size sz f \<le> max_bytes B"
    have size: "lines_size sz ls \<le> max_bytes B + 1"
    proof (cases p)
      case None
      with h show ?thesis by (auto elim: holds.cases)
    next
      case (Some f)
      with holds_size [of f ls sz] small [of f] h show ?thesis by simp
    qed
    show ?thesis
    proof (rule read_repair [OF h ok cap, where out = "je_repair E"])
      fix e p'
      assume "read_lines_with X sz (read_cap B) True (je_repair E) p = (Inl e, p')"
        and "je_repair E \<noteq> Committed" and "p' = p \<or> p' = Some (of_lines ls)"
      then show ?thesis
        using failed [of e p' ls] assms(1) inv none by (auto simp: open_journal_def)
    next
      fix p'
      assume "read_lines_with X sz (read_cap B) True (je_repair E) p = (Inr ls, p')"
        and "p' = Some (of_lines ls) \<or> p' = None \<and> ls = []"
      then show ?thesis
        using opened [of ls p'] none small size inv by (auto simp: open_journal_def clean_def)
    qed
  next
    assume "compact_if_needed X sz B (je_repair E) (je_compact E) p =
      (Inr (Some (compact_lines sz B ls)), Some (of_lines (compact_lines sz B ls)))"
    then show ?thesis
      using opened [of "compact_lines sz B ls"] inv' compact_small [OF inv assms(2)]
      by (auto simp: open_journal_def clean_def)
  qed
qed

lemma append_line_cases:
  assumes "clean p ls" and "0 < sz l"
  obtains (failed) p' ls' where "append_line sz w l p = (False, p')" and "holds p' ls'"
      and "ls' = ls \<and> fst w = Rejected \<or> ls' = ls @ [l]"
      and "\<And>f. p' = Some f \<Longrightarrow> file_size sz f \<le> lines_size sz (ls @ [l])"
  | (appended) "append_line sz w l p = (True, Some (of_lines (ls @ [l])))"
proof -
  let ?f = "case p of None \<Rightarrow> empty_journal | Some f \<Rightarrow> f"
  have f: "?f = of_lines ls"
    using assms(1) by (auto simp: clean_def of_lines_def empty_journal_def)
  have full: "add_bytes sz l (sz l) (of_lines ls) = of_lines (ls @ [l])"
    using assms(2) by (simp add: add_bytes_def of_lines_def)
  obtain c n where w: "w = (c, n)" by (cases w)
  show ?thesis
  proof (cases c)
    case Committed
    with w f full appended show ?thesis by (simp add: append_line_def)
  next
    case Unsynced
    with w f full show ?thesis by (intro failed [of _ "ls @ [l]"]) (auto simp: append_line_def)
  next
    case Rejected
    show ?thesis
    proof (cases n)
      case None
      with w Rejected assms(1) f show ?thesis
        by (intro failed [of p ls]) (auto simp: append_line_def clean_holds clean_def)
    next
      case (Some k)
      let ?k = "min k (sz l - 1)"
      have app: "append_line sz w l p = (False, Some (add_bytes sz l ?k (of_lines ls)))"
        using w Rejected Some f by (simp add: append_line_def)
      have size: "file_size sz (add_bytes sz l ?k (of_lines ls)) \<le> lines_size sz (ls @ [l])"
        by (auto simp: add_bytes_def of_lines_def file_size_def lines_size_def comp_def)
      have "holds (Some (add_bytes sz l ?k (of_lines ls))) ls
        \<or> holds (Some (add_bytes sz l ?k (of_lines ls))) (ls @ [l])"
        using assms(2) holds_file [of "Unterminated l" ls] holds_file [of "Torn ?k" ls]
          holds_of_lines [of ls]
        by (auto simp: add_bytes_def of_lines_def)
      then show ?thesis using failed [OF app] size w Rejected by auto
    qed
  qed
qed

text \<open>Appending a valid record to an opened journal, whatever the environment does.\<close>

lemma append_bounded_cases:
  assumes "clean p ls" and inv: "journal_inv X sz B M ls" and "lines_size sz ls \<le> max_bytes B + 1"
    and B: "bounds_ok B M" and l: "line_ok X l" "0 < sz l" "sz l \<le> M"
    and room: "unsettled_size sz (ls @ [l]) \<le> max_pending_bytes B"
  obtains (failed) e p' ls' where "append_bounded X sz B rep w out l p = (Inl e, p')"
      and "journal_ok X sz B M p' ls'"
      and "ls' = ls \<and> fst w = Rejected \<or> ls' = ls @ [l] \<or> ls' = compact_lines sz B (ls @ [l])"
  | (appended) ls' where "append_bounded X sz B rep w out l p = (Inr (), Some (of_lines ls'))"
      and "ls' = ls @ [l] \<or> ls' = compact_lines sz B (ls @ [l])"
      and "journal_inv X sz B M ls'" and "lines_size sz ls' \<le> max_bytes B"
proof -
  have inv2: "journal_inv X sz B M (ls @ [l])"
    using assms by (auto simp: journal_inv_def)
  show ?thesis
  proof (rule append_line_cases [where sz = sz and l = l and w = w, OF assms(1) l(2)])
    fix p' ls'
    assume a: "append_line sz w l p = (False, p')" and h: "holds p' ls'"
      and "ls' = ls \<and> fst w = Rejected \<or> ls' = ls @ [l]"
      and "\<And>f. p' = Some f \<Longrightarrow> file_size sz f \<le> lines_size sz (ls @ [l])"
    moreover from this have "journal_ok X sz B M p' ls'"
      using inv inv2 assms(3) l(3) by (fastforce simp: journal_ok_def)
    ultimately show ?thesis
      by (intro failed [of JWriteFailed p' ls']) (auto simp: append_bounded_def)
  next
    assume a: "append_line sz w l p = (True, Some (of_lines (ls @ [l])))"
    let ?p = "Some (of_lines (ls @ [l]))"
    have ok: "list_all (line_ok X) (ls @ [l])" and small: "lines_size sz (ls @ [l]) \<le> read_cap B"
      using inv2 B by (auto simp: journal_inv_def bounds_ok_def)
    note inv3 = journal_inv_compact [OF inv2 B]
    have cap: "\<And>f. ?p = Some f \<Longrightarrow> file_size sz f \<le> read_cap B" using small by simp
    show ?thesis
    proof (rule compact_cases [OF holds_of_lines ok cap, where rep = rep and out = out])
      fix e p'
      assume "compact_if_needed X sz B rep out ?p = (Inl e, p')"
        and "p' = ?p \<or> p' = Some (of_lines (ls @ [l])) \<or> p' = Some (of_lines (compact_lines sz B (ls @ [l])))"
      then show ?thesis
        using failed [of e p' "ls @ [l]"] failed [of e p' "compact_lines sz B (ls @ [l])"] inv2 inv3 a
        by (auto simp: append_bounded_def)
    next
      assume "compact_if_needed X sz B rep out ?p = (Inr None, ?p)"
        and "\<And>f. ?p = Some f \<Longrightarrow> file_size sz f \<le> max_bytes B"
      then show ?thesis
        using appended [of "ls @ [l]"] inv2 a by (simp add: append_bounded_def)
    next
      assume "compact_if_needed X sz B rep out ?p = (Inr (Some (compact_lines sz B (ls @ [l]))),
        Some (of_lines (compact_lines sz B (ls @ [l]))))"
      then show ?thesis
        using appended [of "compact_lines sz B (ls @ [l])"] inv3 a compact_small [OF inv2 B]
        by (simp add: append_bounded_def)
    qed
  qed
qed

lemma unsettled_rev_remove:
  "unsettled_rev seen (filter (\<lambda>l. jl_operation_id l \<noteq> i) ls) =
     filter (\<lambda>l. jl_operation_id l \<noteq> i) (unsettled_rev seen ls)"
proof (induction ls arbitrary: seen)
  case (Cons l ls)
  show ?case
  proof (cases "jl_operation_id l = i")
    case True
    with Cons.IH [of seen] show ?thesis by (simp add: unsettled_rev_filter)
  next
    case False
    with Cons.IH [of "jl_operation_id l # seen"] show ?thesis by simp
  qed
qed simp

lemma journal_inv_remove:
  assumes "journal_inv X sz B M ls"
  shows "journal_inv X sz B M (filter (\<lambda>l. jl_operation_id l \<noteq> i) ls)"
  using assms sum_list_filter_le [of sz "\<lambda>l. jl_operation_id l \<noteq> i" ls]
    sum_list_filter_le [of sz "\<lambda>l. jl_operation_id l \<noteq> i" "unsettled_rev [] (rev ls)"]
  by (auto simp: journal_inv_def unsettled_size_def unsettled_def rev_filter unsettled_rev_remove
      lines_size_def list_all_iff)

lemma remove_cases:
  assumes "clean p ls" and inv: "journal_inv X sz B M ls" and B: "bounds_ok B M"
  shows "\<exists>ok p' ls'. remove_operation X sz B rep out i p = (ok, p') \<and> journal_ok X sz B M p' ls'
    \<and> (ls' = ls \<and> \<not> ok \<or> ls' = filter (\<lambda>l. jl_operation_id l \<noteq> i) ls)"
proof -
  have read: "read_lines_with X sz (read_cap B) True rep p = (Inr ls, p)"
  proof (cases p)
    case None
    with assms(1) show ?thesis by (simp add: clean_def read_lines_with_def)
  next
    case (Some f)
    with assms(1) have p: "p = Some (of_lines ls)" by (simp add: clean_def)
    have "list_all (line_ok X) ls" and "lines_size sz ls \<le> read_cap B"
      using inv B by (auto simp: journal_inv_def bounds_ok_def)
    then show ?thesis unfolding p by (rule read_of_lines)
  qed
  let ?kept = "filter (\<lambda>l. jl_operation_id l \<noteq> i) ls"
  have kept: "journal_ok X sz B M (Some (of_lines ?kept)) ?kept"
    using journal_inv_remove [OF inv] by simp
  note unchanged = clean_ok [OF assms(1,2)]
  show ?thesis
  proof (cases out)
    case Rejected
    then have "remove_operation X sz B rep out i p = (False, p)"
      by (simp add: remove_operation_def read)
    with unchanged show ?thesis by blast
  next
    case Unsynced
    then have "remove_operation X sz B rep out i p = (False, Some (of_lines ?kept))"
      by (simp add: remove_operation_def read)
    with kept show ?thesis by blast
  next
    case Committed
    then have "remove_operation X sz B rep out i p = (True, Some (of_lines ?kept))"
      by (simp add: remove_operation_def read)
    with kept show ?thesis by blast
  qed
qed

end
