(* ===== verification/JournalProperties.thy ===== *)
theory JournalProperties
  imports JournalProofs WireProperties
begin

text \<open>
  The contract of the operation journal: write-ahead, replay, conflict, resumption, and the bound
  that keeps the file readable whatever the environment does.
\<close>

section \<open>The setting of a call\<close>

text \<open>
  Bounds that leave room for one record of at most \<open>M\<close> bytes, records that are never empty, and a
  digest in lower-case hexadecimal.
\<close>

definition setting_ok ::
  "('b JournalLine \<Rightarrow> nat) \<Rightarrow> bounds \<Rightarrow> nat \<Rightarrow> hasher \<Rightarrow> bool" where
  "setting_ok sz B M sha \<longleftrightarrow>
     bounds_ok B M \<and> (\<forall>l. 0 < sz l) \<and> (\<forall>v. valid_lower_hex_sha256 (json_sha256 sha v))"

text \<open>
  The operation has a UUID, its records fit, and the executor answers under the operation's id.
\<close>

definition call_ok ::
  "externals \<Rightarrow> ('b JournalLine \<Rightarrow> nat) \<Rightarrow> nat \<Rightarrow> hasher \<Rightarrow> journal_env
   \<Rightarrow> (HostOperation \<Rightarrow> 'b HostResult option) \<Rightarrow> HostOperation \<Rightarrow> bool" where
  "call_ok X sz M sha E execute op \<longleftrightarrow>
     uuid_version X (ho_operation_id op) \<noteq> None
     \<and> sz (pending_line (canonical_operation_hash sha op) op (je_accepted_at E)) \<le> M
     \<and> (case execute op of None \<Rightarrow> True
        | Some r \<Rightarrow> hr_operation_id r = ho_operation_id op
            \<and> sz (terminal_line (canonical_operation_hash sha op) op (je_completed_at E) r) \<le> M)"

lemma pending_line_ok:
  "setting_ok sz B M sha \<Longrightarrow> uuid_version X (ho_operation_id op) \<noteq> None \<Longrightarrow>
     line_ok X (pending_line (canonical_operation_hash sha op) op now)"
  by (simp add: line_ok_def validate_entry_def pending_line_def kinds_are_registered setting_ok_def
      canonical_operation_hash_def valid_lower_hex_sha256_def)

lemma terminal_line_ok:
  "setting_ok sz B M sha \<Longrightarrow> uuid_version X (ho_operation_id op) \<noteq> None \<Longrightarrow>
     hr_operation_id r = ho_operation_id op \<Longrightarrow>
     line_ok X (terminal_line (canonical_operation_hash sha op) op now r)"
  by (auto simp: line_ok_def validate_entry_def terminal_line_def kinds_are_registered setting_ok_def
      canonical_operation_hash_def valid_lower_hex_sha256_def split: HostOutcome.split)

lemma line_facts [simp]:
  "jl_operation_id (pending_line h op now) = ho_operation_id op"
  "jl_operation_hash (pending_line h op now) = h"
  "jl_status (pending_line h op now) = StPending"
  "jl_operation_id (terminal_line h op now r) = ho_operation_id op"
  "jl_operation_hash (terminal_line h op now r) = h"
  "jl_status (terminal_line h op now r) \<noteq> StPending"
  "jl_result (terminal_line h op now r) = Some r"
  by (simp_all add: pending_line_def terminal_line_def split: HostOutcome.split)

text \<open>The journal as the executor finds it: clean, bounded, its newest own record pending.\<close>

definition entered ::
  "externals \<Rightarrow> ('b JournalLine \<Rightarrow> nat) \<Rightarrow> bounds \<Rightarrow> nat \<Rightarrow> string \<Rightarrow> HostOperation
   \<Rightarrow> 'b journal_file option \<Rightarrow> 'b JournalLine list \<Rightarrow> bool" where
  "entered X sz B M h op p ls \<longleftrightarrow>
     clean p ls \<and> journal_inv X sz B M ls \<and> lines_size sz ls \<le> max_bytes B + 1
     \<and> same_hash (ho_operation_id op) h ls
     \<and> (\<exists>l. latest (ho_operation_id op) ls = Some l \<and> jl_status l = StPending)"

lemma entered_compact:
  assumes "entered X sz B M h op p ls" and "bounds_ok B M"
  shows "entered X sz B M h op (Some (of_lines (compact_lines sz B ls))) (compact_lines sz B ls)"
  using assms journal_inv_compact [of X sz B M ls] compact_small [of X sz B M ls]
    same_hash_compact [of _ h ls sz B] compact_latest_pending [of _ ls _ sz B]
  by (auto simp: entered_def clean_def)

text \<open>How a call on a well-formed journal can go: idle, or into the executor.\<close>

lemma run_cases:
  assumes ok: "journal_ok X sz B M p ls" and S: "setting_ok sz B M sha"
    and C: "call_ok X sz M sha E execute op"
  obtains (idle) r p' ls' where "run_journaled_at X sz B noop sha E execute op p = (r, p', None)"
      and "journal_ok X sz B M p' ls'"
  | (executed) p1 ls1 where "run_journaled_at X sz B noop sha E execute op p =
        execute_and_settle X sz B noop E execute (canonical_operation_hash sha op) op p1"
      and "entered X sz B M (canonical_operation_hash sha op) op p1 ls1"
proof -
  let ?h = "canonical_operation_hash sha op" and ?run = "run_journaled_at X sz B noop sha E execute op p"
  let ?pl = "pending_line ?h op (je_accepted_at E)"
  have B: "bounds_ok B M" and pos: "0 < sz ?pl" and plok: "line_ok X ?pl" and fit: "sz ?pl \<le> M"
    using S C pending_line_ok [OF S] by (auto simp: setting_ok_def call_ok_def)
  show ?thesis
  proof (cases "je_lock_held E")
    case True
    then show ?thesis using ok by (intro idle [of _ p ls]) (auto simp: run_journaled_at_def)
  next
    case free: False
    show ?thesis
    proof (rule open_cases [OF ok B, where E = E])
      fix e p' ls'
      assume "open_journal X sz B E p = (Inl e, p')" and "journal_ok X sz B M p' ls'"
      then show ?thesis using free by (intro idle [of _ p' ls']) (auto simp: run_journaled_at_def)
    next
      fix ls' p'
      assume o: "open_journal X sz B E p = (Inr ls', p')" and cl: "clean p' ls'"
        and inv: "journal_inv X sz B M ls'" and size: "lines_size sz ls' \<le> max_bytes B + 1"
      note run = run_journaled_at_def free o Let_def
      show ?thesis
      proof (cases "consult ls' ?h op")
        case Conflict
        with clean_ok [OF cl inv] show ?thesis by (intro idle) (auto simp: run)
      next
        case (Answer r)
        with clean_ok [OF cl inv] show ?thesis by (intro idle) (auto simp: run)
      next
        case Resume
        then have "entered X sz B M ?h op p' ls'"
          using cl inv size by (auto simp: entered_def consult_alt split: if_splits option.splits)
        then show ?thesis using Resume by (intro executed [of p' ls']) (auto simp: run)
      next
        case Start
        then have hash: "same_hash (ho_operation_id op) ?h ls'"
          by (simp add: consult_alt split: if_splits)
        show ?thesis
        proof (cases "admits sz B ls' ?pl")
          case False
          with Start clean_ok [OF cl inv] show ?thesis by (intro idle) (auto simp: run)
        next
          case True
          then have room: "unsettled_size sz (ls' @ [?pl]) \<le> max_pending_bytes B"
            using unsettled_snoc_size [of sz ls' ?pl] by (simp add: admits_def unsettled_size_def)
          show ?thesis
          proof (rule append_bounded_cases [OF cl inv size B plok pos fit room,
                where rep = "je_repair E" and w = "je_append_pending E" and out = "je_compact_2 E"])
            fix e p2 ls2
            assume "append_bounded X sz B (je_repair E) (je_append_pending E) (je_compact_2 E) ?pl p' = (Inl e, p2)"
              and "journal_ok X sz B M p2 ls2"
            then show ?thesis using Start True by (intro idle [of _ p2 ls2]) (auto simp: run)
          next
            fix ls2
            assume a: "append_bounded X sz B (je_repair E) (je_append_pending E) (je_compact_2 E) ?pl p'
                = (Inr (), Some (of_lines ls2))"
              and l2: "ls2 = ls' @ [?pl] \<or> ls2 = compact_lines sz B (ls' @ [?pl])"
              and "journal_inv X sz B M ls2" "lines_size sz ls2 \<le> max_bytes B"
            moreover have "latest (ho_operation_id op) ls2 = Some ?pl"
              using l2 compact_latest_pending [of "ho_operation_id op" "ls' @ [?pl]" ?pl sz B] by auto
            moreover have "same_hash (ho_operation_id op) ?h (ls' @ [?pl])"
              using hash by (auto simp: same_hash_def)
            then have "same_hash (ho_operation_id op) ?h ls2"
              using l2 same_hash_compact by auto
            ultimately have "entered X sz B M ?h op (Some (of_lines ls2)) ls2"
              by (auto simp: entered_def clean_def)
            then show ?thesis using a Start True by (intro executed) (auto simp: run)
          qed
        qed
      qed
    qed
  qed
qed

lemma settle_keeps:
  assumes "entered X sz B M (canonical_operation_hash sha op) op p ls" and S: "setting_ok sz B M sha"
    and C: "call_ok X sz M sha E execute op"
  shows "\<exists>r p' ls'. execute_and_settle X sz B noop E execute (canonical_operation_hash sha op) op p
      = (r, p', p) \<and> journal_ok X sz B M p' ls'"
proof (cases "execute op")
  case None
  with assms(1) show ?thesis by (auto simp: execute_and_settle_def entered_def intro: clean_ok)
next
  case (Some r)
  let ?t = "terminal_line (canonical_operation_hash sha op) op (je_completed_at E) r"
  have cl: "clean p ls" and inv: "journal_inv X sz B M ls" and size: "lines_size sz ls \<le> max_bytes B + 1"
    using assms(1) by (simp_all add: entered_def)
  have B: "bounds_ok B M" and t: "line_ok X ?t" "0 < sz ?t" "sz ?t \<le> M"
    using S C Some terminal_line_ok [OF S, of X op r "je_completed_at E"]
    by (auto simp: setting_ok_def call_ok_def)
  have room: "unsettled_size sz (ls @ [?t]) \<le> max_pending_bytes B"
    using unsettled_snoc_size [of sz ls ?t] inv by (simp add: journal_inv_def)
  consider "is_noop_update noop (ho_operation op) r" | "\<not> is_noop_update noop (ho_operation op) r" "leaves_pending r"
    | "\<not> is_noop_update noop (ho_operation op) r" "\<not> leaves_pending r" by blast
  then show ?thesis
  proof cases
    case 1
    obtain b p' ls' where "remove_operation X sz B (je_repair E) (je_discard E) (ho_operation_id op) p = (b, p')"
      and "journal_ok X sz B M p' ls'"
      using remove_cases [OF cl inv B] by blast
    with 1 Some show ?thesis by (cases b) (auto simp: execute_and_settle_def)
  next
    case 2
    with Some clean_ok [OF cl inv] show ?thesis by (auto simp: execute_and_settle_def)
  next
    case 3
    show ?thesis
    proof (rule append_bounded_cases [OF cl inv size B t room,
          where rep = "je_repair E" and w = "je_append_terminal E" and out = "je_compact_3 E"])
      fix e p2 ls2
      assume "append_bounded X sz B (je_repair E) (je_append_terminal E) (je_compact_3 E) ?t p = (Inl e, p2)"
        and "journal_ok X sz B M p2 ls2"
      with 3 Some show ?thesis by (auto simp: execute_and_settle_def)
    next
      fix ls2
      assume "append_bounded X sz B (je_repair E) (je_append_terminal E) (je_compact_3 E) ?t p
          = (Inr (), Some (of_lines ls2))" and "journal_inv X sz B M ls2"
      with 3 Some show ?thesis by (auto simp: execute_and_settle_def intro!: exI [of _ ls2])
    qed
  qed
qed

section \<open>A sample journal\<close>

definition sample_sz :: "nat JournalLine \<Rightarrow> nat" where "sample_sz l = 10"

definition sample_bounds :: bounds where
  "sample_bounds = \<lparr>max_bytes = 50, max_pending_bytes = 20, target_bytes = 20,
     min_terminal_retained = 1, read_cap = 100\<rparr>"

definition sample_digest_of :: hasher where
  "sample_digest_of = \<lparr>to_value = (\<lambda>op. JText (ho_operation_id op)), json_sha256 = (\<lambda>_. sample_hex)\<rparr>"

definition sample_JE :: journal_env where
  "sample_JE = \<lparr>je_lock_held = False, je_repair = Committed, je_compact = Committed,
     je_append_pending = (Committed, None), je_compact_2 = Committed,
     je_append_terminal = (Committed, None), je_compact_3 = Committed, je_discard = Committed,
     je_accepted_at = 1, je_completed_at = 2\<rparr>"

definition sample_execute :: "HostOperation \<Rightarrow> nat HostResult option" where
  "sample_execute op = Some (HostResult_completed (ho_operation_id op) 7)"

definition sample_die :: "HostOperation \<Rightarrow> nat HostResult option" where
  "sample_die op = None"

definition sample_run ::
  "(HostOperation \<Rightarrow> nat HostResult option) \<Rightarrow> nat journal_file option \<Rightarrow> nat run" where
  "sample_run execute p =
     run_journaled_at sample_X sample_sz sample_bounds (\<lambda>_. False) sample_digest_of sample_JE execute
       sample_rollback p"

lemma sample_setting: "setting_ok sample_sz sample_bounds 10 sample_digest_of"
  by (simp add: setting_ok_def bounds_ok_def sample_bounds_def sample_sz_def sample_digest_of_def
      sample_hex_ok)

lemma sample_call:
  "call_ok sample_X sample_sz 10 sample_digest_of sample_JE sample_execute sample_rollback"
  "call_ok sample_X sample_sz 10 sample_digest_of sample_JE sample_die sample_rollback"
  by (simp_all add: call_ok_def sample_X_def sample_sz_def sample_execute_def sample_die_def
      HostResult_completed_def)

definition sample_pending :: "nat JournalLine" where
  "sample_pending = pending_line sample_hex sample_rollback 1"

definition sample_terminal :: "nat JournalLine" where
  "sample_terminal = terminal_line sample_hex sample_rollback 2 (HostResult_completed ''u'' 7)"

lemmas sample_journal_defs = run_journaled_at_def open_journal_def compact_if_needed_def read_lines_with_def
  sample_JE_def canonical_operation_hash_def sample_digest_of_def consult_def admits_def
  append_bounded_def append_line_def add_bytes_def empty_journal_def file_size_def
  execute_and_settle_def unsettled_def sample_sz_def sample_bounds_def of_lines_def Let_def

lemma sample_first_run:
  "sample_run sample_execute None =
     (Inr (HostResult_completed ''u'' 7), Some (of_lines [sample_pending, sample_terminal]),
      Some (of_lines [sample_pending]))"
  by (simp add: sample_run_def sample_journal_defs sample_execute_def HostResult_completed_def
      is_noop_update_def leaves_pending_def sample_pending_def sample_terminal_def)
     (simp add: sample_rollback_def)

lemma sample_died:
  "sample_run sample_die None =
     (Inl JExecutorDied, Some (of_lines [sample_pending]), Some (of_lines [sample_pending]))"
  by (simp add: sample_run_def sample_journal_defs sample_die_def sample_pending_def)

section \<open>The file stays bounded and readable\<close>

text \<open>C11: A journal never wedges. From a well-formed journal, whatever a call's environment does
  (writes that fail, tear or are reported wrongly, a compaction that fails, an executor that
  dies), the file afterwards is well formed again: every record valid, the unsettled operations
  within the admission budget, its size within the read cap, so that the log can be read.\<close>

theorem journal_never_wedges:
  assumes "journal_ok X sz B M p ls" and "setting_ok sz B M sha" and "call_ok X sz M sha E execute op"
    and "run_journaled_at X sz B noop sha E execute op p = (r, p', entry)"
  shows "\<exists>ls'. journal_ok X sz B M p' ls' \<and> unsettled_size sz ls' \<le> max_pending_bytes B
    \<and> project_log X sz B p' = Inr (map project_entry ls')"
proof -
  have B: "bounds_ok B M" using assms(2) by (simp add: setting_ok_def)
  obtain ls' where ok: "journal_ok X sz B M p' ls'"
  proof (cases rule: run_cases [OF assms(1-3), of noop])
    case (1 r p1 ls1)
    then show ?thesis using assms(4) that by simp
  next
    case (2 p1 ls1)
    then show ?thesis using settle_keeps [OF 2(2) assms(2,3), of noop] assms(4) that by auto
  qed
  have "holds p' ls'" and "list_all (line_ok X) ls'" and "unsettled_size sz ls' \<le> max_pending_bytes B"
    using ok by (auto simp: journal_ok_def journal_inv_def)
  moreover note read_view [OF this(1,2) journal_ok_within_cap [OF ok B]]
  ultimately show ?thesis using ok by (auto simp: project_log_def)
qed

lemma journal_never_wedges_witness:
  "\<exists>ls' :: nat JournalLine list. project_log sample_X sample_sz sample_bounds (Some (of_lines [sample_pending, sample_terminal]))
     = Inr (map project_entry ls')"
  using journal_never_wedges [OF journal_ok_empty sample_setting sample_call(1)
      sample_first_run [unfolded sample_run_def]]
  by blast

section \<open>Write-ahead\<close>

text \<open>C12: Write-ahead: whenever the executor is entered, the journal on disk holds the operation as
  unsettled under its own hash, and no record of the same id has another hash.\<close>

theorem executor_runs_only_behind_a_pending_record:
  assumes "journal_ok X sz B M p ls" and "setting_ok sz B M sha" and "call_ok X sz M sha E execute op"
    and "run_journaled_at X sz B noop sha E execute op p = (r, p', Some entry)"
  shows "\<exists>ks. entry = of_lines ks \<and> same_hash (ho_operation_id op) (canonical_operation_hash sha op) ks
    \<and> (\<exists>l \<in> set (unsettled ks). jl_operation_id l = ho_operation_id op \<and> jl_status l = StPending)"
proof (cases rule: run_cases [OF assms(1-3), of noop])
  case (1 r p1 ls1)
  then show ?thesis using assms(4) by simp
next
  case (2 p1 ls1)
  then obtain l where l: "latest (ho_operation_id op) ls1 = Some l" "jl_status l = StPending"
    and "clean p1 ls1" and h: "same_hash (ho_operation_id op) (canonical_operation_hash sha op) ls1"
    by (auto simp: entered_def)
  moreover have "p1 = Some entry"
    using settle_keeps [OF 2(2) assms(2,3), of noop] 2(1) assms(4) by auto
  ultimately have "entry = of_lines ls1" by (auto simp: clean_def)
  then show ?thesis using latest_pending_unsettled [OF l] latest_Some [OF l(1)] l(2) h by blast
qed

lemma executor_runs_only_behind_a_pending_record_witness:
  "\<exists>ks. of_lines [sample_pending] = of_lines ks
     \<and> (\<exists>l \<in> set (unsettled ks). jl_operation_id l = ho_operation_id sample_rollback)"
  using executor_runs_only_behind_a_pending_record [OF journal_ok_empty sample_setting sample_call(1)
      sample_first_run [unfolded sample_run_def]]
  by blast

section \<open>Resumption\<close>

lemma parse_records_alive: "parse_records X rs \<noteq> Inl JExecutorDied"
proof (induction rs rule: parse_records.induct)
  case (3 X l rs)
  have "validate_entry X l \<noteq> Inl JExecutorDied"
    by (auto simp: validate_entry_def require_def split: JournalStatus.split option.split)
  with 3 show ?case by (auto simp: rbind_Inl_iff)
qed simp_all

text \<open>C13: An interrupted operation resumes. When the process died in the executor, the next call of
  the same operation, with the lock free and its own writes succeeding, enters the executor again
  without consulting the admission budget, over the same unsettled operations and without a
  second pending record.\<close>

theorem interrupted_operation_resumes:
  assumes "journal_ok X sz B M p ls" and S: "setting_ok sz B M sha" and "call_ok X sz M sha E execute op"
    and "run_journaled_at X sz B noop sha E execute op p = (Inl JExecutorDied, p', Some entry)"
    and free: "\<not> je_lock_held E'" "je_repair E' = Committed" "je_compact E' = Committed"
  shows "\<exists>ks ks'. p' = Some (of_lines ks)
    \<and> snd (snd (run_journaled_at X sz B noop' sha E' execute' op p')) = Some (of_lines ks')
    \<and> unsettled ks' = unsettled ks \<and> set ks' \<subseteq> set ks"
proof (cases rule: run_cases [OF assms(1-3), of noop])
  case (1 r p1 ls1)
  then show ?thesis using assms(4) by simp
next
  case (2 p1 ls1)
  let ?h = "canonical_operation_hash sha op"
  have B: "bounds_ok B M" using S by (simp add: setting_ok_def)
  have p1: "p1 = Some entry" "p' = p1"
  proof -
    obtain r p2 where "execute_and_settle X sz B noop E execute ?h op p1 = (r, p2, p1)"
      using settle_keeps [OF 2(2) assms(2,3)] by blast
    then have "p1 = Some entry" and r: "execute_and_settle X sz B noop E execute ?h op p1 = (Inl JExecutorDied, p', p1)"
      using 2(1) assms(4) by simp_all
    then show "p1 = Some entry" by simp
    have "execute op = None"
    proof (rule ccontr)
      assume "execute op \<noteq> None"
      then obtain r where "execute op = Some r" by blast
      with r parse_records_alive show False
        by (auto simp: execute_and_settle_def append_bounded_def compact_if_needed_def Let_def
            read_lines_with_def rbind_def settle_tail_def
            split: if_splits bool.splits prod.splits sum.splits option.splits commit.splits tail.splits)
    qed
    with r show "p' = p1" by (simp add: execute_and_settle_def)
  qed
  have cl: "clean p1 ls1" and inv: "journal_inv X sz B M ls1"
    using 2(2) by (simp_all add: entered_def)
  then have entry: "p' = Some (of_lines ls1)" using p1 by (auto simp: clean_def)
  show ?thesis
  proof (rule open_cases [OF clean_ok [OF cl inv] B, where E = E'])
    fix e q ls'
    assume "je_repair E' \<noteq> Committed \<or> je_compact E' \<noteq> Committed"
    with free show ?thesis by simp
  next
    fix ls' q
    assume o: "open_journal X sz B E' p1 = (Inr ls', q)" and q: "clean q ls'"
      and l: "ls' = ls1 \<and> (\<forall>f. p1 = Some f \<longrightarrow> file_size sz f \<le> max_bytes B) \<or> ls' = compact_lines sz B ls1"
    have e: "same_hash (ho_operation_id op) ?h ls' \<and>
        (\<exists>x. latest (ho_operation_id op) ls' = Some x \<and> jl_status x = StPending)"
      using 2(2) entered_compact [OF 2(2) B] l by (auto simp: entered_def)
    then have "consult ls' ?h op = Resume" and "ls' \<noteq> []"
      by (auto simp: consult_alt latest_def)
    moreover from this q have "q = Some (of_lines ls')" by (auto simp: clean_def)
    moreover have "snd (snd (execute_and_settle X sz B noop' E' execute' ?h op q)) = q"
      by (auto simp: execute_and_settle_def Let_def split: option.split prod.split bool.split)
    ultimately have "snd (snd (run_journaled_at X sz B noop' sha E' execute' op p')) = Some (of_lines ls')"
      using free o p1 by (simp add: run_journaled_at_def Let_def)
    moreover have "unsettled ls' = unsettled ls1 \<and> set ls' \<subseteq> set ls1"
      using l compact_set by auto
    ultimately show ?thesis using entry by blast
  qed
qed

lemma interrupted_operation_resumes_witness:
  "\<exists>ks'. snd (snd (sample_run sample_execute (Some (of_lines [sample_pending])))) = Some (of_lines ks')
     \<and> unsettled ks' = unsettled [sample_pending]"
proof -
  have free: "\<not> je_lock_held sample_JE" "je_repair sample_JE = Committed" "je_compact sample_JE = Committed"
    by (simp_all add: sample_JE_def)
  obtain ks ks' where "Some (of_lines [sample_pending]) = Some (of_lines ks)"
    and "snd (snd (sample_run sample_execute (Some (of_lines [sample_pending])))) = Some (of_lines ks')"
    and "unsettled ks' = unsettled ks"
    using interrupted_operation_resumes [OF journal_ok_empty sample_setting sample_call(2)
        sample_died [unfolded sample_run_def] free, where noop' = "\<lambda>_. False" and execute' = sample_execute]
    unfolding sample_run_def by blast
  moreover from this(1) have "ks = [sample_pending]"
    by (auto simp: of_lines_def)
  ultimately show ?thesis by blast
qed

section \<open>Replay\<close>

lemma compact_snoc_latest:
  assumes "journal_inv X sz B M (ls @ [t])" and "jl_status t \<noteq> StPending"
    and "0 < min_terminal_retained B" and "sz t + max_pending_bytes B \<le> max_bytes B"
  shows "latest (jl_operation_id t) (compact_lines sz B (ls @ [t])) = Some t"
proof -
  have "sz t + unsettled_size sz (ls @ [t]) \<le> max_bytes B"
    using assms by (auto simp: journal_inv_def)
  from compact_snoc [OF assms(2,3) this] show ?thesis by auto
qed

text \<open>C14: Lost acknowledgement. Once the terminal record of an operation reached the file, even where
  the call reported an error, calling the operation again answers the stored result and does not
  enter the executor, for every kind but the recovery phases and uninstall that failed.\<close>

theorem settled_operation_is_replayed:
  assumes "journal_ok X sz B M p ls" and S: "setting_ok sz B M sha" and C: "call_ok X sz M sha E execute op"
    and run: "run_journaled_at X sz B noop sha E execute op p = (a, p', Some entry)"
    and r: "execute op = Some r" "\<not> is_noop_update noop (ho_operation op) r" "\<not> leaves_pending r"
    and once: "\<not> retry_failed_kind (ho_operation op) \<or> (\<exists>b. hr_outcome r = Completed b)"
    and written: "fst (je_append_terminal E) \<noteq> Rejected"
    and room: "0 < min_terminal_retained B" "M + max_pending_bytes B \<le> max_bytes B"
    and free: "\<not> je_lock_held E'" "je_repair E' = Committed" "je_compact E' = Committed"
  shows "\<exists>q. run_journaled_at X sz B noop' sha E' execute' op p' = (Inr r, q, None)"
proof (cases rule: run_cases [OF assms(1-3), of noop])
  case (1 r p1 ls1)
  then show ?thesis using run by simp
next
  case (2 p1 ls1)
  let ?h = "canonical_operation_hash sha op" and ?i = "ho_operation_id op"
  let ?t = "terminal_line ?h op (je_completed_at E) r"
  have B: "bounds_ok B M" and t: "line_ok X ?t" "0 < sz ?t" "sz ?t \<le> M"
    using S C r terminal_line_ok [OF S, of X op r "je_completed_at E"]
    by (auto simp: setting_ok_def call_ok_def)
  have cl: "clean p1 ls1" and inv: "journal_inv X sz B M ls1" and size: "lines_size sz ls1 \<le> max_bytes B + 1"
    and hash: "same_hash ?i ?h ls1"
    using 2(2) by (simp_all add: entered_def)
  have budget: "unsettled_size sz (ls1 @ [?t]) \<le> max_pending_bytes B"
    using unsettled_snoc_size [of sz ls1 ?t] inv by (simp add: journal_inv_def)
  have invt: "journal_inv X sz B M (ls1 @ [?t])"
    using inv size t budget by (auto simp: journal_inv_def)
  let ?c = "compact_lines sz B (ls1 @ [?t])"
  have ct: "latest ?i ?c = Some ?t"
    using compact_snoc_latest [OF invt _ room(1)] room(2) t(3) by simp
  have answers: "consult ks ?h op = Answer r"
    if "ks = ls1 @ [?t] \<or> ks = ?c" for ks
  proof -
    have "same_hash ?i ?h (ls1 @ [?t])" using hash by (auto simp: same_hash_def)
    then have "same_hash ?i ?h ks" using that same_hash_compact by auto
    moreover have "latest ?i ks = Some ?t" using that ct by auto
    moreover have "\<not> (jl_status ?t = StFailed \<and> retry_failed_kind (ho_operation op))"
      using once by (auto simp: terminal_line_def)
    ultimately show ?thesis by (auto simp: consult_alt)
  qed
  have settled: "\<exists>ks. journal_ok X sz B M p' ks \<and> (ks = ls1 @ [?t] \<or> ks = ?c)"
  proof (rule append_bounded_cases [OF cl inv size B t budget,
        where rep = "je_repair E" and w = "je_append_terminal E" and out = "je_compact_3 E"])
    fix e p2 ls2
    assume "append_bounded X sz B (je_repair E) (je_append_terminal E) (je_compact_3 E) ?t p1 = (Inl e, p2)"
      and "journal_ok X sz B M p2 ls2"
      and "ls2 = ls1 \<and> fst (je_append_terminal E) = Rejected \<or> ls2 = ls1 @ [?t] \<or> ls2 = ?c"
    with 2(1) run r written show ?thesis by (auto simp: execute_and_settle_def)
  next
    fix ls2
    assume "append_bounded X sz B (je_repair E) (je_append_terminal E) (je_compact_3 E) ?t p1
        = (Inr (), Some (of_lines ls2))" and "journal_inv X sz B M ls2"
      and "ls2 = ls1 @ [?t] \<or> ls2 = ?c"
    with 2(1) run r show ?thesis
      by (intro exI [of _ ls2]) (auto simp: execute_and_settle_def)
  qed
  then obtain ks where ok: "journal_ok X sz B M p' ks" and ks: "ks = ls1 @ [?t] \<or> ks = ?c" by blast
  show ?thesis
  proof (rule open_cases [OF ok B, where E = E'])
    fix e q ls'
    assume "je_repair E' \<noteq> Committed \<or> je_compact E' \<noteq> Committed"
    with free show ?thesis by simp
  next
    fix ls' q
    assume o: "open_journal X sz B E' p' = (Inr ls', q)"
      and l: "ls' = ks \<and> (\<forall>f. p' = Some f \<longrightarrow> file_size sz f \<le> max_bytes B) \<or> ls' = compact_lines sz B ks"
    then have "ls' = ls1 @ [?t] \<or> ls' = ?c" using ks compact_idem by auto
    then have "consult ls' ?h op = Answer r" by (rule answers)
    with o free show ?thesis by (simp add: run_journaled_at_def Let_def)
  qed
qed

lemma settled_operation_is_replayed_witness:
  "\<exists>q. sample_run sample_die (Some (of_lines [sample_pending, sample_terminal]))
     = (Inr (HostResult_completed ''u'' 7), q, None)"
  unfolding sample_run_def
proof (rule settled_operation_is_replayed [OF journal_ok_empty sample_setting sample_call(1)
      sample_first_run [unfolded sample_run_def]])
qed (simp_all add: sample_execute_def is_noop_update_def leaves_pending_def HostResult_completed_def
      sample_rollback_def sample_JE_def sample_bounds_def)

section \<open>Conflict\<close>

text \<open>C15: An operation id is bound to its first intent: while an unsettled record or, in a file within
  its cap, any record of the id has another hash, a call answers OPERATION_ID_CONFLICT, never
  enters the executor and adds no record.\<close>

theorem conflicting_operation_never_runs:
  assumes "journal_ok X sz B M p ls" and S: "setting_ok sz B M sha"
    and l: "l \<in> set ls" "jl_operation_id l = ho_operation_id op"
      "jl_operation_hash l \<noteq> canonical_operation_hash sha op"
    and kept: "l \<in> set (unsettled ls) \<or> (\<forall>f. p = Some f \<longrightarrow> file_size sz f \<le> max_bytes B)"
    and free: "\<not> je_lock_held E" "je_repair E = Committed" "je_compact E = Committed"
  shows "\<exists>q ks. run_journaled_at X sz B noop sha E execute op p = (Inr (conflict_result op), q, None)
    \<and> clean q ks \<and> set ks \<subseteq> set ls \<and> unsettled ks = unsettled ls"
proof -
  have B: "bounds_ok B M" using S by (simp add: setting_ok_def)
  show ?thesis
  proof (rule open_cases [OF assms(1) B, where E = E])
    fix e q ls'
    assume "je_repair E \<noteq> Committed \<or> je_compact E \<noteq> Committed"
    with free show ?thesis by simp
  next
    fix ls' q
    assume o: "open_journal X sz B E p = (Inr ls', q)" and cl: "clean q ls'"
      and ls': "ls' = ls \<and> (\<forall>f. p = Some f \<longrightarrow> file_size sz f \<le> max_bytes B) \<or> ls' = compact_lines sz B ls"
    have "l \<in> set ls'"
    proof (cases "ls' = ls")
      case True
      with l show ?thesis by simp
    next
      case False
      then have c: "ls' = compact_lines sz B ls" using ls' by simp
      have "\<not> (\<forall>f. p = Some f \<longrightarrow> file_size sz f \<le> max_bytes B)"
      proof
        assume small: "\<forall>f. p = Some f \<longrightarrow> file_size sz f \<le> max_bytes B"
        have "open_journal X sz B E p = read_lines_with X sz (read_cap B) True (je_repair E) p"
          using small by (auto simp: open_journal_def compact_if_needed_def split: option.split)
        moreover have "holds p ls" "list_all (line_ok X) ls"
          using assms(1) by (auto simp: journal_ok_def journal_inv_def)
        ultimately have "ls' = ls"
          using read_repair [OF _ _ journal_ok_within_cap [OF assms(1) B], where out = "je_repair E"] o
          by (metis Inl_Inr_False Inr_inject prod.inject)
        with False show False by simp
      qed
      with kept have "l \<in> set (unsettled ls)" by blast
      then have "l \<in> set (unsettled ls')" using c by simp
      then show ?thesis using unsettled_set by auto
    qed
    then have "\<not> same_hash (ho_operation_id op) (canonical_operation_hash sha op) ls'"
      using l by (auto simp: same_hash_def)
    then have "consult ls' (canonical_operation_hash sha op) op = Conflict" by (simp add: consult_alt)
    moreover have "set ls' \<subseteq> set ls \<and> unsettled ls' = unsettled ls" using ls' compact_set by auto
    ultimately show ?thesis using o free cl by (auto simp: run_journaled_at_def Let_def)
  qed
qed

definition sample_foreign :: "nat JournalLine" where
  "sample_foreign = sample_pending\<lparr>jl_operation_hash := replicate 64 (CHR ''b'')\<rparr>"

lemma conflicting_operation_never_runs_witness:
  "\<exists>q ks. sample_run sample_execute (Some (of_lines [sample_foreign]))
     = (Inr (conflict_result sample_rollback), q, None) \<and> unsettled ks = unsettled [sample_foreign]"
proof -
  have hex: "valid_lower_hex_sha256 (replicate 64 (CHR ''b''))" by code_simp
  have "line_ok sample_X sample_foreign"
    using hex by (simp add: line_ok_def validate_entry_def sample_foreign_def sample_pending_def
        pending_line_def kinds_are_registered sample_X_def valid_lower_hex_sha256_def)
  then have ok: "journal_ok sample_X sample_sz sample_bounds 10 (Some (of_lines [sample_foreign])) [sample_foreign]"
    by (simp add: journal_inv_def unsettled_size_def unsettled_def sample_sz_def sample_bounds_def)
  have other: "jl_operation_hash sample_foreign \<noteq> canonical_operation_hash sample_digest_of sample_rollback"
    by (simp add: sample_foreign_def canonical_operation_hash_def sample_digest_of_def sample_hex_def)
  show ?thesis
    unfolding sample_run_def
    using conflicting_operation_never_runs [OF ok sample_setting, of sample_foreign sample_rollback
        sample_JE "\<lambda>_. False" sample_execute] other
    by (auto simp: sample_foreign_def sample_pending_def sample_JE_def unsettled_def)
qed

section \<open>Compaction\<close>

text \<open>C16: Compaction keeps what recovery needs and bounds the rest: the kept records are a
  subsequence of the old ones, the pending records among them are exactly the newest ones of the
  unsettled operations, the kept bytes stay within the cap (or the unsettled records alone), and
  compacting again changes nothing.\<close>

theorem compaction_keeps_the_resume_points:
  "subseq (compact_lines sz B ls) ls
   \<and> filter (\<lambda>l. jl_status l = StPending) (compact_lines sz B ls) = rev (unsettled ls)
   \<and> unsettled (compact_lines sz B ls) = unsettled ls
   \<and> lines_size sz (compact_lines sz B ls) \<le> max (max_bytes B) (unsettled_size sz ls)
   \<and> compact_lines sz B (compact_lines sz B ls) = compact_lines sz B ls"
  using compact_size [of sz B ls]
  by (simp add: compact_subseq compact_pending compact_idem lines_size_def)

end
