(* ===== verification/Registry.thy ===== *)
theory Registry
  imports FileStore Wire "HOL-Library.AList" "HOL-Library.List_Lexorder" "HOL-Library.Char_ord"
begin

text \<open>
  The controller's user-scoped registry of hosts and instances (\<open>src/src/registry.rs\<close>): the two
  record types with their validation, the discovery evidence, and every operation of
  \<open>RegistryStore\<close>.

  A directory of record files is an association list from file names to contents, in the order
  the directory iterator yields them. A file is a document within the size limit, a file that
  does not parse, or one the secure reader refuses (unsafe mode, link, too large). The
  environment of a call says whether the registry lock is held by another process, whether the
  directories can be listed, and how each durable write or removal ends.
\<close>

section \<open>Records\<close>

datatype HostTransport = LocalTransport | SshTransport
datatype HostPrivilege = Direct | Sudo

record ObservationCache =
  obs_observed_at :: time
  obs_reachable :: bool
  obs_summary :: string

record HostRecord =
  host_schema :: nat
  host_host_id :: string
  host_alias :: string
  host_transport :: HostTransport
  host_ssh_profile :: "string option"
  host_privilege :: HostPrivilege
  host_last_observation :: "ObservationCache option"

datatype BackupBeforeUpdatePolicy = PolicyOff | PolicyWarn | PolicyRequire u64

record InstanceRecord =
  inst_schema :: nat
  inst_deployment_id :: string
  inst_alias :: string
  inst_host_id :: string
  inst_issuer :: string
  inst_oidf_tenant_domain :: "string option"
  inst_oidf_suite_origin :: "string option"
  inst_controller_id :: "string option"
  inst_controller_key_ref :: "string option"
  inst_backup_before_update :: BackupBeforeUpdatePolicy
  inst_last_observation :: "ObservationCache option"

definition REGISTRY_RECORD_SCHEMA :: nat where "REGISTRY_RECORD_SCHEMA = 3"
definition LOCAL_HOST_ALIAS :: string where "LOCAL_HOST_ALIAS = ''local''"

section \<open>Validation\<close>

datatype record_violation =
    HostSchemaUnsupported nat
  | HostIdNotV7
  | LocalAliasReserved
  | LocalWithProfile
  | SshWithoutProfile
  | InstanceSchemaUnsupported nat
  | BackupAgeRule
  | Text_rule violation

definition validate_oidf_tenant_domain :: "externals \<Rightarrow> string \<Rightarrow> violation + unit" where
  "validate_oidf_tenant_domain X value =
     (case parse_host X value of
        None \<Rightarrow> Inl TenantDomainNotHost
      | Some (Domain domain) \<Rightarrow>
          if domain \<noteq> value \<or> CHR ''.'' \<notin> set domain then Inl TenantDomainRule else Inr ()
      | Some _ \<Rightarrow> Inl TenantDomainIp)"

definition validate_oidf_suite_origin :: "externals \<Rightarrow> string \<Rightarrow> violation + unit" where
  "validate_oidf_suite_origin X value =
     (case parse_url X value of
        None \<Rightarrow> Inl SuiteOriginNotUrl
      | Some parsed \<Rightarrow>
          if url_scheme parsed \<noteq> ''https'' \<or> url_host parsed = None
             \<or> url_username parsed \<noteq> [] \<or> url_password parsed \<noteq> None
             \<or> url_query parsed \<noteq> None \<or> url_fragment parsed \<noteq> None
             \<or> \<not> (url_path parsed = [] \<or> url_path parsed = ''/'')
          then Inl SuiteOriginRule
          else Inr ())"

definition BackupBeforeUpdatePolicy_validate ::
  "BackupBeforeUpdatePolicy \<Rightarrow> record_violation + unit" where
  "BackupBeforeUpdatePolicy_validate policy =
     (case policy of
        PolicyRequire max_age_seconds \<Rightarrow>
          require (\<not> (max_age_seconds = 0 \<or> 31536000 < max_age_seconds)) BackupAgeRule
      | _ \<Rightarrow> Inr ())"

definition HostRecord_validate :: "externals \<Rightarrow> HostRecord \<Rightarrow> record_violation + unit" where
  "HostRecord_validate X h = first_error
     [require (host_schema h = REGISTRY_RECORD_SCHEMA) (HostSchemaUnsupported (host_schema h)),
      map_err Text_rule (validate_key (host_alias h) ''host alias''),
      require (uuid_version X (host_host_id h) = Some 7) HostIdNotV7,
      (case host_transport h of
         LocalTransport \<Rightarrow> first_error
           [require (host_alias h = LOCAL_HOST_ALIAS) LocalAliasReserved,
            require (host_ssh_profile h = None) LocalWithProfile]
       | SshTransport \<Rightarrow>
           (case host_ssh_profile h of
              None \<Rightarrow> Inl SshWithoutProfile
            | Some profile \<Rightarrow> first_error
                [map_err Text_rule (validate_key profile ''ssh profile alias''),
                 require (host_alias h \<noteq> LOCAL_HOST_ALIAS) LocalAliasReserved]))]"

definition InstanceRecord_validate :: "externals \<Rightarrow> InstanceRecord \<Rightarrow> record_violation + unit" where
  "InstanceRecord_validate X i = first_error
     [require (inst_schema i = REGISTRY_RECORD_SCHEMA) (InstanceSchemaUnsupported (inst_schema i)),
      map_err Text_rule (validate_key (inst_deployment_id i) ''deployment id''),
      map_err Text_rule (validate_key (inst_alias i) ''instance alias''),
      map_err Text_rule (validate_issuer X (inst_issuer i)),
      on_some (inst_oidf_tenant_domain i)
        (\<lambda>domain. map_err Text_rule (validate_oidf_tenant_domain X domain)),
      on_some (inst_oidf_suite_origin i)
        (\<lambda>origin. map_err Text_rule (validate_oidf_suite_origin X origin)),
      BackupBeforeUpdatePolicy_validate (inst_backup_before_update i),
      on_some (inst_controller_id i)
        (\<lambda>id. map_err Text_rule (validate_key id ''controller id'')),
      on_some (inst_controller_key_ref i)
        (\<lambda>key_ref. map_err Text_rule (validate_reference key_ref ''controller key ref''))]"

section \<open>Constructors\<close>

definition HostRecord_new_local :: "string \<Rightarrow> HostRecord" where
  "HostRecord_new_local host_id =
     \<lparr>host_schema = REGISTRY_RECORD_SCHEMA, host_host_id = host_id,
      host_alias = LOCAL_HOST_ALIAS, host_transport = LocalTransport, host_ssh_profile = None,
      host_privilege = Direct, host_last_observation = None\<rparr>"

definition HostRecord_new_ssh ::
  "externals \<Rightarrow> string \<Rightarrow> string \<Rightarrow> HostPrivilege \<Rightarrow> string \<Rightarrow> record_violation + HostRecord" where
  "HostRecord_new_ssh X alias ssh_profile privilege host_id =
     (let h = HostRecord_new_local host_id
        \<lparr>host_alias := alias, host_transport := SshTransport,
         host_ssh_profile := Some ssh_profile, host_privilege := privilege\<rparr>
      in rbind (HostRecord_validate X h) (\<lambda>_. Inr h))"

text \<open>The nil UUID, which is not of version 7.\<close>

definition nil_uuid :: string where
  "nil_uuid = ''00000000-0000-0000-0000-000000000000''"

definition HostRecord_new_ssh_unbound :: "string \<Rightarrow> string \<Rightarrow> HostPrivilege \<Rightarrow> HostRecord" where
  "HostRecord_new_ssh_unbound alias ssh_profile privilege =
     \<lparr>host_schema = REGISTRY_RECORD_SCHEMA, host_host_id = nil_uuid, host_alias = alias,
      host_transport = SshTransport, host_ssh_profile = Some ssh_profile,
      host_privilege = privilege, host_last_observation = None\<rparr>"

definition InstanceRecord_new ::
  "externals \<Rightarrow> string \<Rightarrow> string \<Rightarrow> string \<Rightarrow> string \<Rightarrow> record_violation + InstanceRecord" where
  "InstanceRecord_new X deployment_id alias host_id issuer =
     (let i = \<lparr>inst_schema = REGISTRY_RECORD_SCHEMA, inst_deployment_id = deployment_id,
        inst_alias = alias, inst_host_id = host_id, inst_issuer = issuer,
        inst_oidf_tenant_domain = None, inst_oidf_suite_origin = None,
        inst_controller_id = None, inst_controller_key_ref = None,
        inst_backup_before_update = PolicyOff, inst_last_observation = None\<rparr>
      in rbind (InstanceRecord_validate X i) (\<lambda>_. Inr i))"

definition InstanceRecord_renamed ::
  "externals \<Rightarrow> string \<Rightarrow> InstanceRecord \<Rightarrow> record_violation + InstanceRecord" where
  "InstanceRecord_renamed X new_alias i =
     (let i' = i\<lparr>inst_alias := new_alias\<rparr>
      in rbind (InstanceRecord_validate X i') (\<lambda>_. Inr i'))"

section \<open>Discovery evidence\<close>

record DiscoveredDeployment =
  dd_deployment_id :: string
  dd_issuer :: string

record DiscoveryEvidence =
  ev_schema :: nat
  ev_evidence :: string
  ev_observed_at :: time
  ev_host_id :: string
  ev_host_alias :: string
  ev_transport :: HostTransport
  ev_hello :: RemoteHello
  ev_deployment :: DiscoveredDeployment

definition DISCOVERY_EVIDENCE_SCHEMA :: nat where "DISCOVERY_EVIDENCE_SCHEMA = 1"
definition DISCOVERY_EVIDENCE_KIND :: string where
  "DISCOVERY_EVIDENCE_KIND = ''instance-discovery-v1''"

datatype evidence_violation =
    EvidenceSchema nat
  | EvidenceKind string
  | EvidenceHello hello_error
  | EvidenceTargetMismatch
  | EvidenceText violation

definition DiscoveryEvidence_validate ::
  "externals \<Rightarrow> DiscoveryEvidence \<Rightarrow> evidence_violation + unit" where
  "DiscoveryEvidence_validate X e = first_error
     [require (ev_schema e = DISCOVERY_EVIDENCE_SCHEMA) (EvidenceSchema (ev_schema e)),
      require (ev_evidence e = DISCOVERY_EVIDENCE_KIND) (EvidenceKind (ev_evidence e)),
      map_err EvidenceText (validate_key (ev_host_alias e) ''evidence host alias''),
      rbind (map_err EvidenceHello (verify_remote_hello X (ev_hello e)))
        (\<lambda>target_id. require (target_id = ev_host_id e) EvidenceTargetMismatch),
      map_err EvidenceText (validate_key (dd_deployment_id (ev_deployment e)) ''evidence deployment id''),
      map_err EvidenceText (validate_issuer X (dd_issuer (ev_deployment e)))]"

definition DiscoveryEvidence_new ::
  "externals \<Rightarrow> time \<Rightarrow> HostRecord \<Rightarrow> RemoteHello \<Rightarrow> string \<Rightarrow> string
   \<Rightarrow> evidence_violation + DiscoveryEvidence" where
  "DiscoveryEvidence_new X now host announced deployment_id issuer =
     (let e = \<lparr>ev_schema = DISCOVERY_EVIDENCE_SCHEMA, ev_evidence = DISCOVERY_EVIDENCE_KIND,
        ev_observed_at = now, ev_host_id = host_host_id host, ev_host_alias = host_alias host,
        ev_transport = host_transport host, ev_hello = announced,
        ev_deployment = \<lparr>dd_deployment_id = deployment_id, dd_issuer = issuer\<rparr>\<rparr>
      in rbind (DiscoveryEvidence_validate X e) (\<lambda>_. Inr e))"

end
