(* ===== verification/RegistryStore.thy ===== *)
theory RegistryStore
  imports Registry
begin

text \<open>
  The operations of \<open>RegistryStore\<close> (\<open>src/src/registry.rs\<close>) on the two directories of record
  files.
\<close>

section \<open>Directories of record files\<close>

datatype 'r record_file = Record 'r | Unparsable | Unsafe

type_synonym 'r directory = "(string \<times> 'r record_file) list"

record registry =
  rg_hosts :: "HostRecord directory"
  rg_instances :: "InstanceRecord directory"

definition empty_registry :: registry where
  "empty_registry = \<lparr>rg_hosts = [], rg_instances = []\<rparr>"

text \<open>What one call meets: the lock, the listing, the outcome of its writes and removals.\<close>

record registry_env =
  re_held :: bool
  re_listable :: bool
  re_commit :: commit
  re_removals :: "nat \<Rightarrow> commit"
  re_local_hello :: "RemoteHello option"

text \<open>
  The parts of the program outside this repository: the parsers, and the length of the JSON
  text of a record.
\<close>

record registry_codec =
  rc_externals :: externals
  rc_host_bytes :: "HostRecord \<Rightarrow> nat"
  rc_instance_bytes :: "InstanceRecord \<Rightarrow> nat"

datatype reset_cause = RecordUnsafe | RecordUnparsable | RecordInvalid record_violation | RecordMisnamed

datatype registry_error =
    RegistryLocked
  | ListFailed
  | RecordMissing
  | StateReset reset_cause
  | RecordTooLarge
  | RecordNotPersisted
  | RecordNotRemoved
  | RecordRule record_violation
  | TextRule violation
  | EvidenceRule evidence_violation
  | LocalIdentityUnavailable
  | LocalHelloRejected hello_error
  | DuplicateHostAlias
  | DuplicateHostId
  | DuplicateInstanceAlias
  | DuplicateDeployment
  | UnknownHost
  | UnknownInstance
  | InstanceNotRegistered
  | EvidenceDrifted
  | LocalHostPermanent
  | HostStillReferenced "string list"
  | AlreadyBound
  | TargetIdentityMismatch

definition MAX_RECORD_BYTES :: nat where "MAX_RECORD_BYTES = 4 * 1024 * 1024"

text \<open>\<open>dir.join(format!("{stem}.json"))\<close>, and the stem of a name with that extension.\<close>

definition record_path :: "string \<Rightarrow> string" where
  "record_path stem = stem @ ''.json''"

definition record_stem :: "string \<Rightarrow> string option" where
  "record_stem name =
     (if 5 < length name \<and> drop (length name - 5) name = ''.json''
      then Some (take (length name - 5) name) else None)"

section \<open>Reading and writing one record\<close>

text \<open>The trait \<open>ConformingRecord\<close>: validation on load, and the identity the file name claims.\<close>

definition read_record ::
  "('r \<Rightarrow> record_violation + unit) \<Rightarrow> ('r \<Rightarrow> string) \<Rightarrow> 'r record_file option \<Rightarrow> string
   \<Rightarrow> registry_error + 'r" where
  "read_record validate_loaded identity path stem =
     (case path of
        None \<Rightarrow> Inl RecordMissing
      | Some Unsafe \<Rightarrow> Inl (StateReset RecordUnsafe)
      | Some Unparsable \<Rightarrow> Inl (StateReset RecordUnparsable)
      | Some (Record r) \<Rightarrow>
          (case validate_loaded r of
             Inl v \<Rightarrow> Inl (StateReset (RecordInvalid v))
           | Inr _ \<Rightarrow>
               if identity r \<noteq> stem then Inl (StateReset RecordMisnamed) else Inr r))"

definition read_optional_record ::
  "('r \<Rightarrow> record_violation + unit) \<Rightarrow> ('r \<Rightarrow> string) \<Rightarrow> 'r record_file option \<Rightarrow> string
   \<Rightarrow> registry_error + 'r option" where
  "read_optional_record validate_loaded identity path stem =
     (case read_record validate_loaded identity path stem of
        Inr r \<Rightarrow> Inr (Some r)
      | Inl RecordMissing \<Rightarrow> Inr None
      | Inl e \<Rightarrow> Inl e)"

fun load_entries ::
  "('r \<Rightarrow> record_violation + unit) \<Rightarrow> ('r \<Rightarrow> string) \<Rightarrow> 'r directory \<Rightarrow> registry_error + 'r list" where
  "load_entries validate_loaded identity [] = Inr []"
| "load_entries validate_loaded identity ((name, content) # entries) =
     (case record_stem name of
        None \<Rightarrow> load_entries validate_loaded identity entries
      | Some stem \<Rightarrow>
          rbind (read_record validate_loaded identity (Some content) stem)
            (\<lambda>r. rbind (load_entries validate_loaded identity entries) (\<lambda>rs. Inr (r # rs))))"

definition load_all_locked ::
  "('r \<Rightarrow> record_violation + unit) \<Rightarrow> ('r \<Rightarrow> string) \<Rightarrow> registry_env \<Rightarrow> 'r directory
   \<Rightarrow> registry_error + 'r list" where
  "load_all_locked validate_loaded identity E dir =
     (if \<not> re_listable E then Inl ListFailed
      else load_entries validate_loaded identity (sort_key fst dir))"

text \<open>\<open>atomic_write\<close> and \<open>remove_file_durable\<close> on a directory that is listed.\<close>

definition put_file :: "commit \<Rightarrow> string \<Rightarrow> 'f \<Rightarrow> (string \<times> 'f) list \<Rightarrow> bool \<times> (string \<times> 'f) list" where
  "put_file outcome name content dir =
     (case outcome of
        Rejected \<Rightarrow> (False, dir)
      | Unsynced \<Rightarrow> (False, AList.update name content dir)
      | Committed \<Rightarrow> (True, AList.update name content dir))"

definition drop_file :: "commit \<Rightarrow> string \<Rightarrow> (string \<times> 'f) list \<Rightarrow> bool \<times> (string \<times> 'f) list" where
  "drop_file outcome name dir =
     (case outcome of
        Rejected \<Rightarrow> (False, dir)
      | Unsynced \<Rightarrow> if map_of dir name = None then (True, dir) else (False, AList.delete name dir)
      | Committed \<Rightarrow> (True, AList.delete name dir))"

definition write_record ::
  "nat \<Rightarrow> commit \<Rightarrow> string \<Rightarrow> 'r \<Rightarrow> 'r directory \<Rightarrow> (registry_error + unit) \<times> 'r directory" where
  "write_record bytes outcome path r dir =
     (if MAX_RECORD_BYTES < bytes then (Inl RecordTooLarge, dir)
      else case put_file outcome path (Record r) dir of
        (True, dir') \<Rightarrow> (Inr (), dir')
      | (False, dir') \<Rightarrow> (Inl RecordNotPersisted, dir'))"

section \<open>The two namespaces\<close>

definition read_optional_host ::
  "registry_codec \<Rightarrow> HostRecord directory \<Rightarrow> string \<Rightarrow> registry_error + HostRecord option" where
  "read_optional_host C dir host_id =
     read_optional_record (HostRecord_validate (rc_externals C)) host_host_id
       (map_of dir (record_path host_id)) host_id"

definition read_optional_instance ::
  "registry_codec \<Rightarrow> InstanceRecord directory \<Rightarrow> string \<Rightarrow> registry_error + InstanceRecord option" where
  "read_optional_instance C dir stem =
     read_optional_record (InstanceRecord_validate (rc_externals C)) inst_deployment_id
       (map_of dir (record_path stem)) stem"

definition load_hosts ::
  "registry_codec \<Rightarrow> registry_env \<Rightarrow> registry \<Rightarrow> registry_error + HostRecord list" where
  "load_hosts C E G =
     load_all_locked (HostRecord_validate (rc_externals C)) host_host_id E (rg_hosts G)"

definition load_instances ::
  "registry_codec \<Rightarrow> registry_env \<Rightarrow> registry \<Rightarrow> registry_error + InstanceRecord list" where
  "load_instances C E G =
     load_all_locked (InstanceRecord_validate (rc_externals C)) inst_deployment_id E (rg_instances G)"

definition write_host_locked ::
  "registry_codec \<Rightarrow> registry_env \<Rightarrow> HostRecord \<Rightarrow> registry \<Rightarrow> (registry_error + unit) \<times> registry" where
  "write_host_locked C E h G =
     (case write_record (rc_host_bytes C h) (re_commit E) (record_path (host_host_id h)) h
             (rg_hosts G) of
        (r, dir) \<Rightarrow> (r, G\<lparr>rg_hosts := dir\<rparr>))"

definition write_instance ::
  "registry_codec \<Rightarrow> registry_env \<Rightarrow> string \<Rightarrow> InstanceRecord \<Rightarrow> registry
   \<Rightarrow> (registry_error + InstanceRecord) \<times> registry" where
  "write_instance C E deployment_id i G =
     (case write_record (rc_instance_bytes C i) (re_commit E) (record_path deployment_id) i
             (rg_instances G) of
        (r, dir) \<Rightarrow> (rbind r (\<lambda>_. Inr i), G\<lparr>rg_instances := dir\<rparr>))"

definition find_host_by_alias_locked ::
  "registry_codec \<Rightarrow> registry_env \<Rightarrow> registry \<Rightarrow> string \<Rightarrow> registry_error + HostRecord option" where
  "find_host_by_alias_locked C E G alias =
     rbind (load_hosts C E G) (\<lambda>hosts. Inr (find (\<lambda>h. host_alias h = alias) hosts))"

definition find_host_by_id_locked ::
  "registry_codec \<Rightarrow> registry \<Rightarrow> string \<Rightarrow> registry_error + HostRecord option" where
  "find_host_by_id_locked C G host_id = read_optional_host C (rg_hosts G) host_id"

definition find_instance_by_deployment_locked ::
  "registry_codec \<Rightarrow> registry \<Rightarrow> string \<Rightarrow> registry_error + InstanceRecord option" where
  "find_instance_by_deployment_locked C G deployment_id =
     rbind (map_err TextRule (validate_identifier deployment_id 128 ''deployment id''))
       (\<lambda>_. read_optional_instance C (rg_instances G) deployment_id)"

definition find_instance_by_alias_locked ::
  "registry_codec \<Rightarrow> registry_env \<Rightarrow> registry \<Rightarrow> string \<Rightarrow> registry_error + InstanceRecord option" where
  "find_instance_by_alias_locked C E G alias =
     rbind (load_instances C E G) (\<lambda>records. Inr (find (\<lambda>i. inst_alias i = alias) records))"

section \<open>Queries\<close>

text \<open>Every public operation takes the registry lock or fails.\<close>

definition lock_registry :: "registry_env \<Rightarrow> registry_error + unit" where
  "lock_registry E = require (acquire_lock (\<lambda>_ :: unit. re_held E) ()) RegistryLocked"

definition host_by_alias ::
  "registry_codec \<Rightarrow> registry_env \<Rightarrow> registry \<Rightarrow> string \<Rightarrow> registry_error + HostRecord option" where
  "host_by_alias C E G alias =
     rbind (lock_registry E) (\<lambda>_. find_host_by_alias_locked C E G alias)"

definition host_by_id ::
  "registry_codec \<Rightarrow> registry_env \<Rightarrow> registry \<Rightarrow> string \<Rightarrow> registry_error + HostRecord option" where
  "host_by_id C E G host_id = rbind (lock_registry E) (\<lambda>_. find_host_by_id_locked C G host_id)"

definition list_hosts ::
  "registry_codec \<Rightarrow> registry_env \<Rightarrow> registry \<Rightarrow> registry_error + HostRecord list" where
  "list_hosts C E G =
     rbind (lock_registry E) (\<lambda>_.
       rbind (load_hosts C E G) (\<lambda>hosts. Inr (sort_key host_alias hosts)))"

definition instance_by_alias ::
  "registry_codec \<Rightarrow> registry_env \<Rightarrow> registry \<Rightarrow> string \<Rightarrow> registry_error + InstanceRecord option" where
  "instance_by_alias C E G alias =
     rbind (lock_registry E) (\<lambda>_. find_instance_by_alias_locked C E G alias)"

definition instance_by_deployment ::
  "registry_codec \<Rightarrow> registry_env \<Rightarrow> registry \<Rightarrow> string \<Rightarrow> registry_error + InstanceRecord option" where
  "instance_by_deployment C E G deployment_id =
     rbind (lock_registry E) (\<lambda>_. find_instance_by_deployment_locked C G deployment_id)"

definition list_instances ::
  "registry_codec \<Rightarrow> registry_env \<Rightarrow> registry \<Rightarrow> registry_error + InstanceRecord list" where
  "list_instances C E G =
     rbind (lock_registry E) (\<lambda>_.
       rbind (load_instances C E G) (\<lambda>records. Inr (sort_key inst_alias records)))"

definition resolve_instance ::
  "registry_codec \<Rightarrow> registry_env \<Rightarrow> registry \<Rightarrow> string \<Rightarrow> registry_error + InstanceRecord" where
  "resolve_instance C E G selector =
     rbind (map_err (\<lambda>_. InstanceNotRegistered)
             (validate_identifier selector 128 ''instance selector'')) (\<lambda>_.
       rbind (lock_registry E) (\<lambda>_.
         rbind (read_optional_instance C (rg_instances G) selector) (\<lambda>by_id.
           case by_id of
             Some i \<Rightarrow> Inr i
           | None \<Rightarrow>
               rbind (find_instance_by_alias_locked C E G selector) (\<lambda>by_alias.
                 case by_alias of None \<Rightarrow> Inl InstanceNotRegistered | Some i \<Rightarrow> Inr i))))"

text \<open>The guard a caller runs on a live target before it reads or changes it.\<close>

definition verify_registered_target_identity :: "string \<Rightarrow> string \<Rightarrow> registry_error + unit" where
  "verify_registered_target_identity host_id observed =
     (if observed \<noteq> host_id then Inl TargetIdentityMismatch else Inr ())"

end
