(* ===== verification/RegistryOps.thy ===== *)
theory RegistryOps
  imports RegistryStore
begin

text \<open>
  The operations of \<open>RegistryStore\<close> (\<open>src/src/registry.rs\<close>) that change the registry. Each
  returns its result with the registry it leaves behind, on every path.
\<close>

text \<open>The operator \<open>?\<close> in an operation: an error ends it and leaves the registry as it is.\<close>

definition attempt :: "'e + 'a \<Rightarrow> 's \<Rightarrow> ('a \<Rightarrow> ('e + 'b) \<times> 's) \<Rightarrow> ('e + 'b) \<times> 's" where
  "attempt r s k = (case r of Inl e \<Rightarrow> (Inl e, s) | Inr a \<Rightarrow> k a)"

lemma attempt_simps [simp]:
  "attempt (Inl e) s k = (Inl e, s)"
  "attempt (Inr a) s k = k a"
  by (simp_all add: attempt_def)

text \<open>
  The \<open>?\<close> of a statement that has effects of its own, which survive its failure.
\<close>

definition then_run ::
  "('e + 'a) \<times> 's \<Rightarrow> ('a \<Rightarrow> 's \<Rightarrow> ('e + 'b) \<times> 's) \<Rightarrow> ('e + 'b) \<times> 's" where
  "then_run m k = (case m of (Inl e, s) \<Rightarrow> (Inl e, s) | (Inr a, s) \<Rightarrow> k a s)"

lemma then_run_simps [simp]:
  "then_run (Inl e, s) k = (Inl e, s)"
  "then_run (Inr a, s) k = k a s"
  by (simp_all add: then_run_def)

lemma then_run_cases [case_names err ok]:
  obtains e s1 where "m = (Inl e, s1)" "then_run m k = (Inl e, s1)"
  | a s1 where "m = (Inr a, s1)" "then_run m k = k a s1"
  by (cases m; cases "fst m") auto

lemma then_run_Inr_iff:
  "then_run m k = (Inr b, s') \<longleftrightarrow> (\<exists>a s1. m = (Inr a, s1) \<and> k a s1 = (Inr b, s'))"
  by (cases m; cases "fst m") auto

lemma attempt_Inr_iff: "attempt r s k = (Inr b, s') \<longleftrightarrow> (\<exists>a. r = Inr a \<and> k a = (Inr b, s'))"
  by (cases r) auto

lemma attempt_state:
  assumes "\<And>a. r = Inr a \<Longrightarrow> Q (snd (k a))" and "Q s"
  shows "Q (snd (attempt r s k))"
  using assms by (cases r) auto

lemma then_run_state:
  assumes "Q (snd m)" and "\<And>a s1. m = (Inr a, s1) \<Longrightarrow> Q s1 \<Longrightarrow> Q (snd (k a s1))"
  shows "Q (snd (then_run m k))"
  using assms by (cases m; cases "fst m") auto

text \<open>\<open>with_context\<close> on an option.\<close>

definition expect :: "'e \<Rightarrow> 'a option \<Rightarrow> 'e + 'a" where
  "expect e v = (case v of None \<Rightarrow> Inl e | Some a \<Rightarrow> Inr a)"

lemma expect_Inr_iff [simp]: "expect e v = Inr a \<longleftrightarrow> v = Some a"
  by (cases v) (simp_all add: expect_def)

lemma expect_simps [simp]:
  "expect e None = Inl e"
  "expect e (Some a) = Inr a"
  by (simp_all add: expect_def)

section \<open>Hosts\<close>

text \<open>\<open>local_target_id\<close>: the identity the local target's own hello reports.\<close>

definition local_target_id :: "registry_codec \<Rightarrow> registry_env \<Rightarrow> registry_error + string" where
  "local_target_id C E =
     (case re_local_hello E of
        None \<Rightarrow> Inl LocalIdentityUnavailable
      | Some announced \<Rightarrow>
          map_err LocalHelloRejected (verify_remote_hello (rc_externals C) announced))"

definition ensure_local_host ::
  "registry_codec \<Rightarrow> registry_env \<Rightarrow> registry \<Rightarrow> (registry_error + HostRecord) \<times> registry" where
  "ensure_local_host C E G =
     attempt (lock_registry E) G (\<lambda>_.
       attempt (find_host_by_alias_locked C E G LOCAL_HOST_ALIAS) G (\<lambda>found.
         case found of
           Some existing \<Rightarrow> (Inr existing, G)
         | None \<Rightarrow>
             attempt (local_target_id C E) G (\<lambda>target_id.
               let h = HostRecord_new_local target_id
               in case write_host_locked C E h G of
                    (r, G') \<Rightarrow> (rbind r (\<lambda>_. Inr h), G'))))"

definition add_host ::
  "registry_codec \<Rightarrow> registry_env \<Rightarrow> HostRecord \<Rightarrow> registry
   \<Rightarrow> (registry_error + HostRecord) \<times> registry" where
  "add_host C E h G =
     attempt (map_err RecordRule (HostRecord_validate (rc_externals C) h)) G (\<lambda>_.
       attempt (lock_registry E) G (\<lambda>_.
         attempt (load_hosts C E G) G (\<lambda>hosts.
           if list_ex (\<lambda>other. host_alias other = host_alias h) hosts
           then (Inl DuplicateHostAlias, G)
           else if list_ex (\<lambda>other. host_host_id other = host_host_id h) hosts
           then (Inl DuplicateHostId, G)
           else case write_host_locked C E h G of (r, G') \<Rightarrow> (rbind r (\<lambda>_. Inr h), G'))))"

definition set_host_observation ::
  "registry_codec \<Rightarrow> registry_env \<Rightarrow> string \<Rightarrow> ObservationCache \<Rightarrow> registry
   \<Rightarrow> (registry_error + unit) \<times> registry" where
  "set_host_observation C E host_id observation G =
     attempt (lock_registry E) G (\<lambda>_.
       attempt (find_host_by_id_locked C G host_id) G (\<lambda>found.
         attempt (expect UnknownHost found) G (\<lambda>h.
           write_host_locked C E (h\<lparr>host_last_observation := Some observation\<rparr>) G)))"

text \<open>The removal loop of a cascade: it stops at the first removal that fails.\<close>

fun remove_instances ::
  "(nat \<Rightarrow> commit) \<Rightarrow> nat \<Rightarrow> InstanceRecord list \<Rightarrow> InstanceRecord directory
   \<Rightarrow> bool \<times> InstanceRecord directory" where
  "remove_instances outcomes n [] dir = (True, dir)"
| "remove_instances outcomes n (i # is) dir =
     (case drop_file (outcomes n) (record_path (inst_deployment_id i)) dir of
        (False, dir') \<Rightarrow> (False, dir')
      | (True, dir') \<Rightarrow> remove_instances outcomes (Suc n) is dir')"

definition forget_host ::
  "registry_codec \<Rightarrow> registry_env \<Rightarrow> string \<Rightarrow> bool \<Rightarrow> registry
   \<Rightarrow> (registry_error + HostRecord \<times> InstanceRecord list) \<times> registry" where
  "forget_host C E alias cascade G =
     attempt (lock_registry E) G (\<lambda>_.
       attempt (find_host_by_alias_locked C E G alias) G (\<lambda>found.
         attempt (expect UnknownHost found) G (\<lambda>h.
           if host_transport h = LocalTransport then (Inl LocalHostPermanent, G)
           else attempt (load_instances C E G) G (\<lambda>records.
             let referencing = filter (\<lambda>i. inst_host_id i = host_host_id h) records
             in if referencing \<noteq> [] \<and> \<not> cascade
                then (Inl (HostStillReferenced (map inst_alias referencing)), G)
                else case remove_instances (re_removals E) 0 referencing (rg_instances G) of
                  (False, dir) \<Rightarrow> (Inl RecordNotRemoved, G\<lparr>rg_instances := dir\<rparr>)
                | (True, dir) \<Rightarrow>
                    (case drop_file (re_commit E) (record_path (host_host_id h)) (rg_hosts G) of
                       (False, hosts) \<Rightarrow>
                         (Inl RecordNotRemoved, G\<lparr>rg_instances := dir, rg_hosts := hosts\<rparr>)
                     | (True, hosts) \<Rightarrow>
                         (Inr (h, referencing), G\<lparr>rg_instances := dir, rg_hosts := hosts\<rparr>))))))"

section \<open>Instances\<close>

definition register_instance ::
  "registry_codec \<Rightarrow> registry_env \<Rightarrow> DiscoveryEvidence \<Rightarrow> string option \<Rightarrow> ObservationCache
   \<Rightarrow> registry \<Rightarrow> (registry_error + InstanceRecord) \<times> registry" where
  "register_instance C E evidence alias observation G =
     attempt (map_err EvidenceRule (DiscoveryEvidence_validate (rc_externals C) evidence)) G (\<lambda>_.
       attempt (lock_registry E) G (\<lambda>_.
         attempt (find_host_by_id_locked C G (ev_host_id evidence)) G (\<lambda>found.
           attempt (expect UnknownHost found) G (\<lambda>h.
             if host_alias h \<noteq> ev_host_alias evidence \<or> host_transport h \<noteq> ev_transport evidence
             then (Inl EvidenceDrifted, G)
             else let deployment_id = dd_deployment_id (ev_deployment evidence) in
               attempt (find_instance_by_deployment_locked C G deployment_id) G (\<lambda>duplicate.
                 if duplicate \<noteq> None then (Inl DuplicateDeployment, G)
                 else let alias = (case alias of None \<Rightarrow> deployment_id | Some a \<Rightarrow> a) in
                   attempt (find_instance_by_alias_locked C E G alias) G (\<lambda>same_alias.
                     if same_alias \<noteq> None then (Inl DuplicateInstanceAlias, G)
                     else attempt (map_err RecordRule
                         (InstanceRecord_new (rc_externals C) deployment_id alias
                           (ev_host_id evidence) (dd_issuer (ev_deployment evidence)))) G (\<lambda>i.
                       write_instance C E deployment_id
                         (i\<lparr>inst_last_observation := Some observation\<rparr>) G)))))))"

definition rename_instance ::
  "registry_codec \<Rightarrow> registry_env \<Rightarrow> string \<Rightarrow> string \<Rightarrow> registry
   \<Rightarrow> (registry_error + InstanceRecord) \<times> registry" where
  "rename_instance C E old_alias new_alias G =
     attempt (lock_registry E) G (\<lambda>_.
       attempt (load_instances C E G) G (\<lambda>records.
         attempt (expect UnknownInstance (find (\<lambda>i. inst_alias i = old_alias) records)) G (\<lambda>i.
           if new_alias \<noteq> old_alias \<and> list_ex (\<lambda>other. inst_alias other = new_alias) records
           then (Inl DuplicateInstanceAlias, G)
           else attempt (map_err RecordRule
               (InstanceRecord_renamed (rc_externals C) new_alias i)) G (\<lambda>renamed.
             write_instance C E (inst_deployment_id renamed) renamed G))))"

text \<open>\<open>trim_end_matches('/')\<close>\<close>

definition trim_end_slashes :: "string \<Rightarrow> string" where
  "trim_end_slashes s = rev (dropWhile (\<lambda>c. c = CHR ''/'') (rev s))"

definition set_oidf_configuration ::
  "registry_codec \<Rightarrow> registry_env \<Rightarrow> string \<Rightarrow> string \<Rightarrow> string \<Rightarrow> registry
   \<Rightarrow> (registry_error + InstanceRecord) \<times> registry" where
  "set_oidf_configuration C E deployment_id tenant_domain suite_origin G =
     attempt (map_err TextRule (validate_oidf_tenant_domain (rc_externals C) tenant_domain)) G (\<lambda>_.
       attempt (map_err TextRule (validate_oidf_suite_origin (rc_externals C) suite_origin)) G (\<lambda>_.
         attempt (lock_registry E) G (\<lambda>_.
           attempt (find_instance_by_deployment_locked C G deployment_id) G (\<lambda>found.
             attempt (expect UnknownInstance found) G (\<lambda>i.
               let i' = i\<lparr>inst_oidf_tenant_domain := Some tenant_domain,
                          inst_oidf_suite_origin := Some (trim_end_slashes suite_origin)\<rparr>
               in write_instance C E (inst_deployment_id i') i' G)))))"

definition set_instance_observation ::
  "registry_codec \<Rightarrow> registry_env \<Rightarrow> string \<Rightarrow> ObservationCache \<Rightarrow> registry
   \<Rightarrow> (registry_error + unit) \<times> registry" where
  "set_instance_observation C E deployment_id observation G =
     attempt (lock_registry E) G (\<lambda>_.
       attempt (find_instance_by_deployment_locked C G deployment_id) G (\<lambda>found.
         attempt (expect UnknownInstance found) G (\<lambda>i.
           case write_instance C E deployment_id
                  (i\<lparr>inst_last_observation := Some observation\<rparr>) G of
             (r, G') \<Rightarrow> (rbind r (\<lambda>_. Inr ()), G'))))"

definition update_controller_binding ::
  "registry_codec \<Rightarrow> registry_env \<Rightarrow> string \<Rightarrow> string option \<Rightarrow> string option \<Rightarrow> registry
   \<Rightarrow> (registry_error + InstanceRecord) \<times> registry" where
  "update_controller_binding C E deployment_id controller_id key_ref G =
     attempt (lock_registry E) G (\<lambda>_.
       attempt (find_instance_by_deployment_locked C G deployment_id) G (\<lambda>found.
         attempt (expect UnknownInstance found) G (\<lambda>i.
           let i' = i\<lparr>inst_controller_id := controller_id, inst_controller_key_ref := key_ref\<rparr>
           in attempt (map_err RecordRule (InstanceRecord_validate (rc_externals C) i')) G (\<lambda>_.
             write_instance C E deployment_id i' G))))"

definition set_backup_before_update ::
  "registry_codec \<Rightarrow> registry_env \<Rightarrow> string \<Rightarrow> BackupBeforeUpdatePolicy \<Rightarrow> registry
   \<Rightarrow> (registry_error + InstanceRecord) \<times> registry" where
  "set_backup_before_update C E deployment_id policy G =
     attempt (map_err RecordRule (BackupBeforeUpdatePolicy_validate policy)) G (\<lambda>_.
       attempt (lock_registry E) G (\<lambda>_.
         attempt (find_instance_by_deployment_locked C G deployment_id) G (\<lambda>found.
           attempt (expect UnknownInstance found) G (\<lambda>i.
             write_instance C E deployment_id (i\<lparr>inst_backup_before_update := policy\<rparr>) G))))"

definition relocate_instance ::
  "registry_codec \<Rightarrow> registry_env \<Rightarrow> string \<Rightarrow> string \<Rightarrow> registry
   \<Rightarrow> (registry_error + InstanceRecord) \<times> registry" where
  "relocate_instance C E deployment_id new_host_id G =
     attempt (lock_registry E) G (\<lambda>_.
       attempt (find_instance_by_deployment_locked C G deployment_id) G (\<lambda>found.
         attempt (expect UnknownInstance found) G (\<lambda>i.
           if inst_host_id i = new_host_id then (Inl AlreadyBound, G)
           else attempt (find_host_by_id_locked C G new_host_id) G (\<lambda>new_host.
             attempt (expect UnknownHost new_host) G (\<lambda>_.
               let i' = i\<lparr>inst_host_id := new_host_id, inst_last_observation := None\<rparr>
               in attempt (map_err RecordRule (InstanceRecord_validate (rc_externals C) i')) G (\<lambda>_.
                 write_instance C E deployment_id i' G))))))"

definition forget_instance_by_deployment ::
  "registry_codec \<Rightarrow> registry_env \<Rightarrow> string \<Rightarrow> registry
   \<Rightarrow> (registry_error + InstanceRecord) \<times> registry" where
  "forget_instance_by_deployment C E deployment_id G =
     attempt (lock_registry E) G (\<lambda>_.
       attempt (find_instance_by_deployment_locked C G deployment_id) G (\<lambda>found.
         attempt (expect UnknownInstance found) G (\<lambda>i.
           case drop_file (re_commit E) (record_path deployment_id) (rg_instances G) of
             (False, dir) \<Rightarrow> (Inl RecordNotRemoved, G\<lparr>rg_instances := dir\<rparr>)
           | (True, dir) \<Rightarrow> (Inr i, G\<lparr>rg_instances := dir\<rparr>))))"

section \<open>A call of any operation\<close>

datatype registry_op =
    EnsureLocalHost
  | AddHost HostRecord
  | SetHostObservation string ObservationCache
  | ForgetHost string bool
  | RegisterInstance DiscoveryEvidence "string option" ObservationCache
  | RenameInstance string string
  | SetOidfConfiguration string string string
  | SetInstanceObservation string ObservationCache
  | UpdateControllerBinding string "string option" "string option"
  | SetBackupBeforeUpdate string BackupBeforeUpdatePolicy
  | RelocateInstance string string
  | ForgetInstance string

definition failed_with :: "('e + 'a) \<times> 's \<Rightarrow> 'e option \<times> 's" where
  "failed_with r = (case fst r of Inl e \<Rightarrow> Some e | Inr _ \<Rightarrow> None, snd r)"

lemma snd_failed_with [simp]: "snd (failed_with r) = snd r"
  by (simp add: failed_with_def)

fun registry_call ::
  "registry_codec \<Rightarrow> registry_env \<Rightarrow> registry_op \<Rightarrow> registry \<Rightarrow> registry_error option \<times> registry" where
  "registry_call C E EnsureLocalHost G = failed_with (ensure_local_host C E G)"
| "registry_call C E (AddHost h) G = failed_with (add_host C E h G)"
| "registry_call C E (SetHostObservation a ob) G = failed_with (set_host_observation C E a ob G)"
| "registry_call C E (ForgetHost name cascade) G = failed_with (forget_host C E name cascade G)"
| "registry_call C E (RegisterInstance evidence name ob) G =
     failed_with (register_instance C E evidence name ob G)"
| "registry_call C E (RenameInstance old_alias new_alias) G =
     failed_with (rename_instance C E old_alias new_alias G)"
| "registry_call C E (SetOidfConfiguration d tenant_domain suite_origin) G =
     failed_with (set_oidf_configuration C E d tenant_domain suite_origin G)"
| "registry_call C E (SetInstanceObservation d ob) G =
     failed_with (set_instance_observation C E d ob G)"
| "registry_call C E (UpdateControllerBinding d controller_id key_ref) G =
     failed_with (update_controller_binding C E d controller_id key_ref G)"
| "registry_call C E (SetBackupBeforeUpdate d policy) G =
     failed_with (set_backup_before_update C E d policy G)"
| "registry_call C E (RelocateInstance d a) G = failed_with (relocate_instance C E d a G)"
| "registry_call C E (ForgetInstance d) G = failed_with (forget_instance_by_deployment C E d G)"

end
