(* ===== verification/RegistryProofs.thy ===== *)
theory RegistryProofs
  imports RegistryOps
begin

text \<open>
  Directories of record files as finite maps from identities to records, for both kinds of
  record, and the effect of every registry operation on those maps.
\<close>

section \<open>Names of record files\<close>

lemma record_stem_path: "record_stem (record_path s) = (if s = [] then None else Some s)"
  by (simp add: record_stem_def record_path_def)

lemma record_stem_Some: "record_stem n = Some s \<longleftrightarrow> n = record_path s \<and> s \<noteq> []"
proof
  assume "record_stem n = Some s"
  then have "5 < length n" and "drop (length n - 5) n = ''.json''" and "s = take (length n - 5) n"
    by (auto simp: record_stem_def split: if_splits)
  then show "n = record_path s \<and> s \<noteq> []"
    unfolding record_path_def by (metis append_take_drop_id length_drop length_greater_0_conv
        length_take less_imp_le_nat min.absorb2 diff_le_self zero_less_diff)
qed (simp add: record_stem_path)

lemma record_path_inject [simp]: "record_path a = record_path b \<longleftrightarrow> a = b"
  by (simp add: record_path_def)

section \<open>Writes and removals on a listed directory refine those on maps\<close>

lemma map_of_update [simp]: "map_of (AList.update k v xs) = (map_of xs)(k \<mapsto> v)"
  by (simp add: update_conv')

lemma map_of_delete [simp]: "map_of (AList.delete k xs) = (map_of xs)(k := None)"
  by (simp add: delete_conv')

lemma put_file_refines:
  "atomic_write out n c (map_of dir) =
     (fst (put_file out n c dir), map_of (snd (put_file out n c dir)))"
  by (cases out) (simp_all add: atomic_write_def put_file_def)

lemma drop_file_refines:
  "remove_file_durable out n (map_of dir) =
     (fst (drop_file out n dir), map_of (snd (drop_file out n dir)))"
  by (cases out) (simp_all add: remove_file_durable_def drop_file_def)

lemma put_file_cases:
  obtains (kept) "put_file out n c dir = (False, dir)"
  | (put) ok where "put_file out n c dir = (ok, AList.update n c dir)"
  by (cases out) (auto simp: put_file_def)

lemma drop_file_cases:
  obtains (kept) "drop_file out n dir = (False, dir)"
  | (absent) "drop_file out n dir = (True, dir)" "map_of dir n = None"
  | (dropped) ok where "drop_file out n dir = (ok, AList.delete n dir)"
  by (cases out; cases "map_of dir n") (auto simp: drop_file_def)

lemma write_record_cases:
  obtains (refused) e where "write_record b out n r dir = (Inl e, dir)"
  | (written) res where "write_record b out n r dir = (res, AList.update n (Record r) dir)"
      "b \<le> MAX_RECORD_BYTES"
proof (cases "MAX_RECORD_BYTES < b")
  case True
  then show ?thesis by (intro refused) (simp add: write_record_def)
next
  case False
  show ?thesis
  proof (cases rule: put_file_cases [of out n "Record r" dir])
    case kept
    with False show ?thesis by (intro refused) (simp add: write_record_def)
  next
    case (put ok)
    with False show ?thesis by (cases ok) (auto simp: write_record_def intro: written)
  qed
qed

lemma write_record_Inr:
  "fst (write_record b out n r dir) = Inr u \<Longrightarrow>
     write_record b out n r dir = (Inr (), AList.update n (Record r) dir) \<and> b \<le> MAX_RECORD_BYTES"
  by (cases out) (auto simp: write_record_def put_file_def split: if_splits)

section \<open>One kind of record\<close>

text \<open>The record a directory holds under an identity, and a directory every load accepts.\<close>

definition stored ::
  "('r \<Rightarrow> record_violation + unit) \<Rightarrow> ('r \<Rightarrow> string) \<Rightarrow> 'r directory \<Rightarrow> string \<Rightarrow> 'r option" where
  "stored validate_loaded identity dir key =
     (case read_record validate_loaded identity (map_of dir (record_path key)) key of
        Inl _ \<Rightarrow> None | Inr r \<Rightarrow> Some r)"

definition entry_ok ::
  "('r \<Rightarrow> record_violation + unit) \<Rightarrow> ('r \<Rightarrow> string) \<Rightarrow> string \<times> 'r record_file \<Rightarrow> bool" where
  "entry_ok validate_loaded identity entry =
     (case record_stem (fst entry) of
        None \<Rightarrow> True
      | Some stem \<Rightarrow>
          (case snd entry of
             Record r \<Rightarrow> validate_loaded r = Inr () \<and> identity r = stem
           | _ \<Rightarrow> False))"

definition conforming ::
  "('r \<Rightarrow> record_violation + unit) \<Rightarrow> ('r \<Rightarrow> string) \<Rightarrow> 'r directory \<Rightarrow> bool" where
  "conforming validate_loaded identity dir \<longleftrightarrow>
     distinct (map fst dir) \<and> list_all (entry_ok validate_loaded identity) dir"

text \<open>
  The trait \<open>ConformingRecord\<close>: a record that validates carries a legal identity, and no legal
  identity is empty, so the record's file has a name the loader looks at.
\<close>

locale conforming_record =
  fixes validate_loaded :: "'r \<Rightarrow> record_violation + unit"
    and identity :: "'r \<Rightarrow> string"
    and legal :: "string \<Rightarrow> bool"
  assumes validated_identity: "validate_loaded r = Inr () \<Longrightarrow> legal (identity r)"
begin

lemma read_record_Inr [simp]:
  "read_record validate_loaded identity path key = Inr r \<longleftrightarrow>
     path = Some (Record r) \<and> validate_loaded r = Inr () \<and> identity r = key"
  by (auto simp: read_record_def split: option.splits record_file.splits sum.splits if_splits)

lemma stored_Some:
  "stored validate_loaded identity dir key = Some r \<longleftrightarrow>
     map_of dir (record_path key) = Some (Record r) \<and> validate_loaded r = Inr () \<and> identity r = key"
proof -
  have "stored validate_loaded identity dir key = Some r \<longleftrightarrow>
      read_record validate_loaded identity (map_of dir (record_path key)) key = Inr r"
    by (simp add: stored_def del: read_record_Inr split: sum.split)
  then show ?thesis by simp
qed

lemma stored_identity: "stored validate_loaded identity dir key = Some r \<Longrightarrow> identity r = key"
  by (simp add: stored_Some)

lemma stored_valid: "stored validate_loaded identity dir key = Some r \<Longrightarrow> validate_loaded r = Inr ()"
  by (simp add: stored_Some)

lemma stored_legal: "stored validate_loaded identity dir key = Some r \<Longrightarrow> legal key"
  using validated_identity by (auto simp: stored_Some)

lemma read_optional_Some:
  "read_optional_record validate_loaded identity (map_of dir (record_path key)) key = Inr (Some r) \<longleftrightarrow>
     stored validate_loaded identity dir key = Some r"
proof -
  have "read_optional_record validate_loaded identity p key = Inr (Some r) \<longleftrightarrow>
      read_record validate_loaded identity p key = Inr r" for p
    by (auto simp: read_optional_record_def simp del: read_record_Inr
             split: sum.splits registry_error.splits)
  then show ?thesis by (simp add: stored_Some)
qed

lemma read_optional_None:
  "read_optional_record validate_loaded identity p key = Inr None \<longleftrightarrow> p = None"
proof -
  have "read_record validate_loaded identity p key = Inl RecordMissing \<longleftrightarrow> p = None"
    by (auto simp: read_record_def split: option.splits record_file.splits sum.splits)
  then show ?thesis
    by (auto simp: read_optional_record_def simp del: read_record_Inr
             split: sum.splits registry_error.splits)
qed

lemma stored_update:
  assumes "validate_loaded r = Inr ()" and "identity r = key"
  shows "stored validate_loaded identity (AList.update (record_path key) (Record r) dir) =
         (stored validate_loaded identity dir)(key \<mapsto> r)"
  using assms by (intro ext) (auto simp: stored_def read_record_def)

lemma stored_delete:
  "stored validate_loaded identity (AList.delete (record_path key) dir) =
     (stored validate_loaded identity dir)(key := None)"
  by (intro ext) (auto simp: stored_def read_record_def)

lemma entry_ok_Some:
  "record_stem name = Some stem \<Longrightarrow> entry_ok validate_loaded identity (name, c) \<longleftrightarrow>
     (\<exists>r. c = Record r \<and> validate_loaded r = Inr () \<and> identity r = stem)"
  by (cases c) (simp_all add: entry_ok_def)

lemma conforming_content:
  assumes "conforming validate_loaded identity dir" and "(name, c) \<in> set dir"
    and "record_stem name = Some stem"
  shows "\<exists>r. c = Record r \<and> validate_loaded r = Inr () \<and> identity r = stem"
proof -
  have "entry_ok validate_loaded identity (name, c)"
    using assms(1,2) by (auto simp: conforming_def list_all_iff)
  then show ?thesis using entry_ok_Some [OF assms(3)] by simp
qed

lemma conforming_member:
  assumes "conforming validate_loaded identity dir" and "map_of dir (record_path key) = Some c"
    and "key \<noteq> []"
  shows "\<exists>r. c = Record r \<and> stored validate_loaded identity dir key = Some r"
  using conforming_content [OF assms(1) map_of_SomeD [OF assms(2)]] assms(2,3)
  by (force simp: record_stem_path stored_Some)

lemma read_optional_conforming:
  assumes "conforming validate_loaded identity dir" and "key \<noteq> []"
  shows "read_optional_record validate_loaded identity (map_of dir (record_path key)) key =
         Inr (stored validate_loaded identity dir key)"
proof (cases "map_of dir (record_path key)")
  case None
  then show ?thesis by (simp add: read_optional_record_def stored_def read_record_def)
next
  case (Some c)
  then obtain r where "stored validate_loaded identity dir key = Some r"
    using conforming_member [OF assms(1) Some assms(2)] by auto
  then show ?thesis using read_optional_Some by simp
qed

lemma conforming_update:
  assumes "conforming validate_loaded identity dir" and "validate_loaded r = Inr ()"
    and "identity r = key"
  shows "conforming validate_loaded identity (AList.update (record_path key) (Record r) dir)"
proof -
  have "entry_ok validate_loaded identity (record_path key, Record r)"
    using assms(2,3) by (simp add: entry_ok_def record_stem_path)
  moreover have "list_all P (AList.update k v xs)" if "P (k, v)" and "list_all P xs"
    for P and k :: string and v :: "'r record_file" and xs
    using that by (induction xs) auto
  ultimately show ?thesis
    using assms(1) by (simp add: conforming_def distinct_update)
qed

lemma conforming_delete:
  assumes "conforming validate_loaded identity dir"
  shows "conforming validate_loaded identity (AList.delete k dir)"
proof -
  have "set (AList.delete k dir) \<subseteq> set dir"
    by (auto simp: AList.delete_eq)
  moreover have "distinct (map fst (AList.delete k dir))"
    using assms by (auto simp: conforming_def distinct_delete)
  ultimately show ?thesis
    using assms by (auto simp: conforming_def list_all_iff)
qed

lemma load_entries_conforming:
  assumes "list_all (entry_ok validate_loaded identity) es"
  shows "\<exists>rs. load_entries validate_loaded identity es = Inr rs \<and>
     map identity rs = List.map_filter (\<lambda>e. record_stem (fst e)) es \<and>
     set rs = {r. \<exists>name stem. (name, Record r) \<in> set es \<and> record_stem name = Some stem}"
  using assms
proof (induction es)
  case (Cons e es)
  obtain name c where e: "e = (name, c)" by (cases e)
  obtain rs where rs: "load_entries validate_loaded identity es = Inr rs"
      "map identity rs = List.map_filter (\<lambda>e. record_stem (fst e)) es"
      "set rs = {r. \<exists>name stem. (name, Record r) \<in> set es \<and> record_stem name = Some stem}"
    using Cons by auto
  show ?case
  proof (cases "record_stem name")
    case None
    then show ?thesis using e rs by (auto simp: map_filter_simps)
  next
    case (Some stem)
    then obtain r where "c = Record r" "validate_loaded r = Inr ()" "identity r = stem"
      using Cons.prems e entry_ok_Some by auto
    then show ?thesis using e rs Some
      by (auto simp: map_filter_simps read_record_def)
  qed
qed (simp add: map_filter_simps)

lemma map_filter_stems_distinct:
  "distinct (map fst es) \<Longrightarrow> distinct (List.map_filter (\<lambda>e. record_stem (fst e)) es)"
proof (induction es)
  case (Cons e es)
  have "s \<notin> set (List.map_filter (\<lambda>e. record_stem (fst e)) es)" if "record_stem (fst e) = Some s" for s
  proof
    assume "s \<in> set (List.map_filter (\<lambda>e. record_stem (fst e)) es)"
    then obtain e' where "e' \<in> set es" "record_stem (fst e') = Some s"
      by (auto simp: List.map_filter_def)
    with that have "fst e' = fst e" by (simp add: record_stem_Some)
    with \<open>e' \<in> set es\<close> Cons.prems show False by (metis distinct.simps(2) image_eqI list.set_map list.simps(9))
  qed
  with Cons show ?case by (auto simp: map_filter_simps split: option.split)
qed (simp add: map_filter_simps)

lemma load_conforming:
  assumes dir: "conforming validate_loaded identity dir" and listable: "re_listable E"
    and nonempty: "\<And>key. legal key \<Longrightarrow> key \<noteq> []"
  shows "\<exists>rs. load_all_locked validate_loaded identity E dir = Inr rs
     \<and> distinct (map identity rs) \<and> set rs = ran (stored validate_loaded identity dir)"
proof -
  let ?es = "sort_key fst dir"
  have names: "distinct (map fst ?es)"
    using dir by (auto simp: conforming_def distinct_map)
  have ok: "list_all (entry_ok validate_loaded identity) ?es"
    using dir by (simp add: conforming_def list_all_iff)
  obtain rs where rs: "load_entries validate_loaded identity ?es = Inr rs"
      "map identity rs = List.map_filter (\<lambda>e. record_stem (fst e)) ?es"
      "set rs = {r. \<exists>name stem. (name, Record r) \<in> set ?es \<and> record_stem name = Some stem}"
    using load_entries_conforming [OF ok] by blast
  have "(\<exists>name stem. (name, Record r) \<in> set dir \<and> record_stem name = Some stem) \<longleftrightarrow>
      (\<exists>key. stored validate_loaded identity dir key = Some r)" for r
  proof
    assume "\<exists>name stem. (name, Record r) \<in> set dir \<and> record_stem name = Some stem"
    then obtain stem where m: "(record_path stem, Record r) \<in> set dir" "stem \<noteq> []"
      by (auto simp: record_stem_Some)
    then have "map_of dir (record_path stem) = Some (Record r)"
      using dir by (simp add: conforming_def)
    with m conforming_member [OF dir this] show "\<exists>key. stored validate_loaded identity dir key = Some r"
      by auto
  next
    assume "\<exists>key. stored validate_loaded identity dir key = Some r"
    then obtain key where s: "stored validate_loaded identity dir key = Some r" ..
    then have "key \<noteq> []" using nonempty stored_legal by blast
    with s show "\<exists>name stem. (name, Record r) \<in> set dir \<and> record_stem name = Some stem"
      by (auto simp: stored_Some record_stem_Some dest: map_of_SomeD)
  qed
  then have "set rs = ran (stored validate_loaded identity dir)"
    using rs(3) by (auto simp: ran_def)
  moreover have "distinct (map identity rs)"
    unfolding rs(2) by (rule map_filter_stems_distinct [OF names])
  ultimately show ?thesis
    using rs(1) listable by (auto simp: load_all_locked_def)
qed

end

text \<open>Both record types of the registry satisfy the contract.\<close>

definition legal_host_id :: "externals \<Rightarrow> string \<Rightarrow> bool" where
  "legal_host_id X key \<longleftrightarrow> uuid_version X key = Some 7"

definition legal_deployment_id :: "string \<Rightarrow> bool" where
  "legal_deployment_id key \<longleftrightarrow> validate_identifier key 128 ''deployment id'' = Inr ()"

interpretation hosts: conforming_record "HostRecord_validate X" host_host_id "legal_host_id X" for X
  by unfold_locales (simp add: HostRecord_validate_def legal_host_id_def)

interpretation instances:
  conforming_record "InstanceRecord_validate X" inst_deployment_id legal_deployment_id for X
  by unfold_locales
     (simp add: InstanceRecord_validate_def legal_deployment_id_def validate_key_def
        validate_identifier_ok MAX_KEY_CHARS_def)

end
