(* ===== verification/RegistryInvariant.thy ===== *)
theory RegistryInvariant
  imports RegistryProofs
begin

text \<open>
  The step relation of the registry (any operation, in any environment, with any arguments) and
  the invariant that holds in every registry reachable from an empty one.
\<close>

section \<open>What the registry holds\<close>

definition hosts_of :: "registry_codec \<Rightarrow> registry \<Rightarrow> string \<Rightarrow> HostRecord option" where
  "hosts_of C G = stored (HostRecord_validate (rc_externals C)) host_host_id (rg_hosts G)"

definition instances_of :: "registry_codec \<Rightarrow> registry \<Rightarrow> string \<Rightarrow> InstanceRecord option" where
  "instances_of C G =
     stored (InstanceRecord_validate (rc_externals C)) inst_deployment_id (rg_instances G)"

definition host_ok :: "registry_codec \<Rightarrow> HostRecord \<Rightarrow> bool" where
  "host_ok C h \<longleftrightarrow> HostRecord_validate (rc_externals C) h = Inr ()"

definition instance_ok :: "registry_codec \<Rightarrow> InstanceRecord \<Rightarrow> bool" where
  "instance_ok C i \<longleftrightarrow> InstanceRecord_validate (rc_externals C) i = Inr ()"

text \<open>
  What the program relies on in the crates it calls: the empty text is no UUID, the canonical
  text of a UUID parses to the same UUID, and a bare origin stays one without its final slash.
\<close>

definition uuid_laws :: "externals \<Rightarrow> bool" where
  "uuid_laws X \<longleftrightarrow> uuid_version X [] = None \<and>
     (\<forall>s. uuid_version X s \<noteq> None \<longrightarrow> uuid_version X (uuid_text X s) = uuid_version X s)"

definition origin_laws :: "externals \<Rightarrow> bool" where
  "origin_laws X \<longleftrightarrow>
     (\<forall>s. validate_oidf_suite_origin X s = Inr () \<longrightarrow>
          validate_oidf_suite_origin X (trim_end_slashes s) = Inr ())"

definition unique_by :: "('r \<Rightarrow> string) \<Rightarrow> (string \<Rightarrow> 'r option) \<Rightarrow> bool" where
  "unique_by alias M \<longleftrightarrow>
     (\<forall>a b r s. M a = Some r \<longrightarrow> M b = Some s \<longrightarrow> alias r = alias s \<longrightarrow> a = b)"

text \<open>
  Every record file is readable, valid and named after its record; aliases are unique in each
  namespace; every instance is bound to a registered host.
\<close>

definition registry_inv :: "registry_codec \<Rightarrow> registry \<Rightarrow> bool" where
  "registry_inv C G \<longleftrightarrow>
     conforming (HostRecord_validate (rc_externals C)) host_host_id (rg_hosts G) \<and>
     conforming (InstanceRecord_validate (rc_externals C)) inst_deployment_id (rg_instances G) \<and>
     unique_by host_alias (hosts_of C G) \<and> unique_by inst_alias (instances_of C G) \<and>
     (\<forall>d i. instances_of C G d = Some i \<longrightarrow> hosts_of C G (inst_host_id i) \<noteq> None)"

lemma unique_by_update:
  assumes "unique_by alias M" and "\<And>b s. b \<noteq> a \<Longrightarrow> M b = Some s \<Longrightarrow> alias s \<noteq> alias r"
  shows "unique_by alias (M(a \<mapsto> r))"
  using assms by (force simp: unique_by_def)

lemma unique_by_restrict:
  "unique_by alias M \<Longrightarrow> (\<And>k r. M' k = Some r \<Longrightarrow> M k = Some r) \<Longrightarrow> unique_by alias M'"
  by (force simp: unique_by_def)

section \<open>Lookups\<close>

lemma hosts_of_update [simp]: "hosts_of C (rg_instances_update f G) = hosts_of C G"
  by (simp add: hosts_of_def)

lemma instances_of_update [simp]: "instances_of C (rg_hosts_update f G) = instances_of C G"
  by (simp add: instances_of_def)

lemma hosts_of_Some: "hosts_of C G a = Some h \<Longrightarrow> host_ok C h \<and> host_host_id h = a"
  by (simp add: hosts_of_def host_ok_def hosts.stored_Some)

lemma instances_of_Some:
  "instances_of C G d = Some i \<Longrightarrow> instance_ok C i \<and> inst_deployment_id i = d \<and> legal_deployment_id d"
  using instances.stored_legal by (auto simp: instances_of_def instance_ok_def instances.stored_Some)

lemma find_host_by_id_Some:
  "find_host_by_id_locked C G a = Inr (Some h) \<longleftrightarrow> hosts_of C G a = Some h"
  by (simp add: find_host_by_id_locked_def read_optional_host_def hosts_of_def
      hosts.read_optional_Some)

lemma find_instance_by_deployment_Some:
  "find_instance_by_deployment_locked C G d = Inr (Some i) \<longleftrightarrow> instances_of C G d = Some i"
proof -
  have "instances_of C G d = Some i \<Longrightarrow> validate_identifier d 128 ''deployment id'' = Inr ()"
    using instances_of_Some by (auto simp: legal_deployment_id_def)
  then show ?thesis
    by (auto simp: find_instance_by_deployment_locked_def rbind_Inr_iff read_optional_instance_def
        instances.read_optional_Some instances_of_def)
qed

lemma find_instance_by_deployment_None:
  "find_instance_by_deployment_locked C G d = Inr None \<Longrightarrow> instances_of C G d = None"
  by (auto simp: find_instance_by_deployment_locked_def rbind_Inr_iff read_optional_instance_def
      instances.read_optional_None instances_of_def stored_def read_record_def)

lemma load_hosts_inv:
  assumes inv: "registry_inv C G" and laws: "uuid_laws (rc_externals C)" and "re_listable E"
  shows "\<exists>hs. load_hosts C E G = Inr hs \<and> distinct (map host_host_id hs)
     \<and> set hs = ran (hosts_of C G)"
  unfolding load_hosts_def hosts_of_def
  by (rule hosts.load_conforming [OF _ assms(3)])
     (use inv laws in \<open>auto simp: registry_inv_def legal_host_id_def uuid_laws_def\<close>)

lemma load_instances_inv:
  assumes inv: "registry_inv C G" and "re_listable E"
  shows "\<exists>is. load_instances C E G = Inr is \<and> distinct (map inst_deployment_id is)
     \<and> set is = ran (instances_of C G)"
  unfolding load_instances_def instances_of_def
  by (rule instances.load_conforming [OF _ assms(2)])
     (use inv in \<open>auto simp: registry_inv_def legal_deployment_id_def validate_identifier_ok\<close>)

lemma load_instances_set:
  "registry_inv C G \<Longrightarrow> load_instances C E G = Inr is \<Longrightarrow> set is = ran (instances_of C G)"
  using load_instances_inv [of C G E]
  by (cases "re_listable E") (auto simp: load_instances_def load_all_locked_def)

lemma load_hosts_set:
  "registry_inv C G \<Longrightarrow> uuid_laws (rc_externals C) \<Longrightarrow> load_hosts C E G = Inr hs \<Longrightarrow>
     set hs = ran (hosts_of C G)"
  using load_hosts_inv [of C G E]
  by (cases "re_listable E") (auto simp: load_hosts_def load_all_locked_def)

lemma find_SomeD: "find P xs = Some x \<Longrightarrow> x \<in> set xs \<and> P x"
  by (induction xs) (auto split: if_splits)

lemma find_host_by_alias_Some:
  assumes "registry_inv C G" and "uuid_laws (rc_externals C)"
    and "find_host_by_alias_locked C E G name = Inr (Some h)"
  shows "hosts_of C G (host_host_id h) = Some h \<and> host_alias h = name"
proof -
  obtain hs where "load_hosts C E G = Inr hs" and "find (\<lambda>h. host_alias h = name) hs = Some h"
    using assms(3) by (auto simp: find_host_by_alias_locked_def rbind_Inr_iff)
  then obtain a where "hosts_of C G a = Some h" and "host_alias h = name"
    using load_hosts_set [OF assms(1,2)] by (auto dest!: find_SomeD simp: ran_def)
  then show ?thesis using hosts_of_Some by auto
qed

lemma find_host_by_alias_None:
  assumes "registry_inv C G" and "uuid_laws (rc_externals C)"
    and "find_host_by_alias_locked C E G name = Inr None" and "hosts_of C G a = Some h"
  shows "host_alias h \<noteq> name"
proof -
  obtain hs where hs: "load_hosts C E G = Inr hs" and "find (\<lambda>h. host_alias h = name) hs = None"
    using assms(3) by (auto simp: find_host_by_alias_locked_def rbind_Inr_iff)
  moreover have "h \<in> set hs"
    using load_hosts_set [OF assms(1,2) hs] assms(4) by (auto simp: ran_def)
  ultimately show ?thesis by (auto simp: find_None_iff)
qed

lemma find_instance_by_alias_Some:
  assumes "registry_inv C G" and "find_instance_by_alias_locked C E G name = Inr (Some i)"
  shows "instances_of C G (inst_deployment_id i) = Some i \<and> inst_alias i = name"
proof -
  obtain xs where "load_instances C E G = Inr xs" and "find (\<lambda>i. inst_alias i = name) xs = Some i"
    using assms(2) by (auto simp: find_instance_by_alias_locked_def rbind_Inr_iff)
  then obtain d where "instances_of C G d = Some i" and "inst_alias i = name"
    using load_instances_set [OF assms(1)] by (auto dest!: find_SomeD simp: ran_def)
  then show ?thesis using instances_of_Some by auto
qed

lemma find_instance_by_alias_None:
  assumes "registry_inv C G" and "find_instance_by_alias_locked C E G name = Inr None"
    and "instances_of C G d = Some i"
  shows "inst_alias i \<noteq> name"
proof -
  obtain xs where xs: "load_instances C E G = Inr xs" and "find (\<lambda>i. inst_alias i = name) xs = None"
    using assms(2) by (auto simp: find_instance_by_alias_locked_def rbind_Inr_iff)
  moreover have "i \<in> set xs"
    using load_instances_set [OF assms(1) xs] assms(3) by (auto simp: ran_def)
  ultimately show ?thesis by (auto simp: find_None_iff)
qed

section \<open>Writes and removals\<close>

abbreviation put_host :: "HostRecord \<Rightarrow> registry \<Rightarrow> registry" where
  "put_host h G \<equiv> G\<lparr>rg_hosts := AList.update (record_path (host_host_id h)) (Record h) (rg_hosts G)\<rparr>"

abbreviation put_instance :: "string \<Rightarrow> InstanceRecord \<Rightarrow> registry \<Rightarrow> registry" where
  "put_instance d i G \<equiv> G\<lparr>rg_instances := AList.update (record_path d) (Record i) (rg_instances G)\<rparr>"

lemma write_host_cases:
  obtains (kept) e where "write_host_locked C E h G = (Inl e, G)"
  | (put) r where "write_host_locked C E h G = (r, put_host h G)"
  by (rule write_record_cases [of "rc_host_bytes C h" "re_commit E" "record_path (host_host_id h)" h
        "rg_hosts G"])
     (auto simp: write_host_locked_def)

lemma write_instance_cases:
  obtains (kept) e where "write_instance C E d i G = (Inl e, G)"
  | (put) r where "write_instance C E d i G = (r, put_instance d i G)"
  by (rule write_record_cases [of "rc_instance_bytes C i" "re_commit E" "record_path d" i
        "rg_instances G"])
     (auto simp: write_instance_def)

lemma write_instance_Inr:
  "write_instance C E d i G = (Inr j, G') \<Longrightarrow> j = i \<and> G' = put_instance d i G"
  by (auto simp: write_instance_def rbind_Inr_iff split: prod.splits dest: write_record_Inr)
     (metis fst_conv prod.inject write_record_Inr)+

lemma hosts_of_put:
  "host_ok C h \<Longrightarrow> hosts_of C (put_host h G) = (hosts_of C G)(host_host_id h \<mapsto> h)"
  by (simp add: hosts_of_def host_ok_def hosts.stored_update)

lemma instances_of_put:
  "instance_ok C i \<Longrightarrow> inst_deployment_id i = d \<Longrightarrow>
     instances_of C (put_instance d i G) = (instances_of C G)(d \<mapsto> i)"
  by (simp add: instances_of_def instance_ok_def instances.stored_update)

lemma inv_write_host:
  assumes inv: "registry_inv C G" and ok: "host_ok C h"
    and fresh: "\<And>b k. b \<noteq> host_host_id h \<Longrightarrow> hosts_of C G b = Some k \<Longrightarrow> host_alias k \<noteq> host_alias h"
  shows "registry_inv C (snd (write_host_locked C E h G))"
proof (cases rule: write_host_cases [of C E h G])
  case (put r)
  have "registry_inv C (put_host h G)"
    using inv ok
    unfolding registry_inv_def hosts_of_put [OF ok]
    by (auto simp: host_ok_def intro!: hosts.conforming_update unique_by_update dest: fresh)
  with put show ?thesis by simp
qed (simp add: inv)

lemma inv_write_instance:
  assumes inv: "registry_inv C G" and ok: "instance_ok C i" and d: "inst_deployment_id i = d"
    and host: "hosts_of C G (inst_host_id i) \<noteq> None"
    and fresh: "\<And>b k. b \<noteq> d \<Longrightarrow> instances_of C G b = Some k \<Longrightarrow> inst_alias k \<noteq> inst_alias i"
  shows "registry_inv C (snd (write_instance C E d i G))"
proof (cases rule: write_instance_cases [of C E d i G])
  case (put r)
  have other: "inst_alias k \<noteq> inst_alias i"
    if "b \<noteq> inst_deployment_id i" "instances_of C G b = Some k" for b k
    using fresh d that by simp
  have "registry_inv C (put_instance d i G)"
    using inv ok d host
    unfolding registry_inv_def instances_of_put [OF ok d]
    by (auto simp: instance_ok_def intro!: instances.conforming_update unique_by_update dest: other)
  with put show ?thesis by simp
qed (simp add: inv)

text \<open>An update that keeps the identity, the alias and the host of a stored record.\<close>

lemma inv_rewrite_instance:
  assumes "registry_inv C G" and "instances_of C G d = Some i" and "instance_ok C i'"
    and "inst_deployment_id i' = inst_deployment_id i" and "inst_alias i' = inst_alias i"
    and "inst_host_id i' = inst_host_id i"
  shows "registry_inv C (snd (write_instance C E d i' G))"
proof (rule inv_write_instance [OF assms(1,3)])
  show "inst_deployment_id i' = d" using assms(2,4) instances_of_Some by simp
  show "hosts_of C G (inst_host_id i') \<noteq> None" using assms(1,2,6) by (auto simp: registry_inv_def)
  show "inst_alias k \<noteq> inst_alias i'" if "b \<noteq> d" "instances_of C G b = Some k" for b k
    using assms(1,2,5) that by (auto simp: registry_inv_def unique_by_def)
qed

lemma inv_attempt:
  assumes "registry_inv C G" and "\<And>a. r = Inr a \<Longrightarrow> registry_inv C (snd (k a))"
  shows "registry_inv C (snd (attempt r G k))"
  using assms by (cases r) simp_all

lemma snd_case_result [simp]: "snd (case p of (r, G') \<Rightarrow> (f r, G')) = snd p"
  by (cases p) simp

section \<open>Every operation keeps the invariant\<close>

lemma validate_observation [simp]:
  "HostRecord_validate X (h\<lparr>host_last_observation := v\<rparr>) = HostRecord_validate X h"
  "InstanceRecord_validate X (i\<lparr>inst_last_observation := v\<rparr>) = InstanceRecord_validate X i"
  by (simp_all add: HostRecord_validate_def InstanceRecord_validate_def
      split: HostTransport.split option.split)

lemma validate_policy:
  "InstanceRecord_validate X i = Inr () \<Longrightarrow> BackupBeforeUpdatePolicy_validate p = Inr () \<Longrightarrow>
     InstanceRecord_validate X (i\<lparr>inst_backup_before_update := p\<rparr>) = Inr ()"
  by (simp add: InstanceRecord_validate_def)

lemma validate_oidf:
  "InstanceRecord_validate X i = Inr () \<Longrightarrow> validate_oidf_tenant_domain X t = Inr () \<Longrightarrow>
     validate_oidf_suite_origin X s = Inr () \<Longrightarrow>
     InstanceRecord_validate X
       (i\<lparr>inst_oidf_tenant_domain := Some t, inst_oidf_suite_origin := Some s\<rparr>) = Inr ()"
  by (simp add: InstanceRecord_validate_def)

lemma local_target_id_ok:
  assumes "uuid_laws (rc_externals C)" and "local_target_id C E = Inr a"
  shows "host_ok C (HostRecord_new_local a)"
proof -
  have "validate_key LOCAL_HOST_ALIAS ''host alias'' = Inr ()" by code_simp
  moreover have "uuid_version (rc_externals C) a = Some 7"
    using assms
    by (auto simp: local_target_id_def verify_remote_hello_def rbind_Inr_iff uuid_laws_def
        split: option.splits)
  ultimately show ?thesis
    by (simp add: host_ok_def HostRecord_validate_def HostRecord_new_local_def)
qed

lemma ensure_local_host_inv:
  assumes inv: "registry_inv C G" and laws: "uuid_laws (rc_externals C)"
  shows "registry_inv C (snd (ensure_local_host C E G))"
  unfolding ensure_local_host_def Let_def
proof (intro inv_attempt inv)
  fix found
  assume found: "find_host_by_alias_locked C E G LOCAL_HOST_ALIAS = Inr found"
  show "registry_inv C (snd (case found of
        Some existing \<Rightarrow> (Inr existing, G)
      | None \<Rightarrow> attempt (local_target_id C E) G (\<lambda>target_id.
          case write_host_locked C E (HostRecord_new_local target_id) G of
            (r, G') \<Rightarrow> (rbind r (\<lambda>_. Inr (HostRecord_new_local target_id)), G'))))"
  proof (cases found)
    case None
    with found have "host_alias k \<noteq> LOCAL_HOST_ALIAS" if "hosts_of C G b = Some k" for b k
      using find_host_by_alias_None [OF inv laws] that by blast
    then have "registry_inv C (snd (write_host_locked C E (HostRecord_new_local a) G))"
      if "local_target_id C E = Inr a" for a
      using inv_write_host [OF inv local_target_id_ok [OF laws that]]
      by (simp add: HostRecord_new_local_def)
    with None show ?thesis by (auto intro!: inv_attempt inv)
  qed (simp add: inv)
qed

lemma add_host_inv:
  assumes inv: "registry_inv C G" and laws: "uuid_laws (rc_externals C)"
  shows "registry_inv C (snd (add_host C E h G))"
  unfolding add_host_def
proof (intro inv_attempt inv)
  fix u hs
  assume "map_err RecordRule (HostRecord_validate (rc_externals C) h) = Inr u"
    and hs: "load_hosts C E G = Inr hs"
  then have ok: "host_ok C h" by (simp add: host_ok_def)
  have set: "set hs = ran (hosts_of C G)" by (rule load_hosts_set [OF inv laws hs])
  show "registry_inv C (snd (
      if list_ex (\<lambda>other. host_alias other = host_alias h) hs then (Inl DuplicateHostAlias, G)
      else if list_ex (\<lambda>other. host_host_id other = host_host_id h) hs then (Inl DuplicateHostId, G)
      else case write_host_locked C E h G of (r, G') \<Rightarrow> (rbind r (\<lambda>_. Inr h), G')))"
    using set by (auto intro!: inv inv_write_host ok simp: list_ex_iff ran_def)
qed

lemma set_host_observation_inv:
  assumes inv: "registry_inv C G"
  shows "registry_inv C (snd (set_host_observation C E a observation G))"
  unfolding set_host_observation_def
proof (intro inv_attempt inv)
  fix found h
  assume "find_host_by_id_locked C G a = Inr found" and "expect UnknownHost found = Inr h"
  then have h: "hosts_of C G a = Some h" by (simp add: find_host_by_id_Some)
  show "registry_inv C
      (snd (write_host_locked C E (h\<lparr>host_last_observation := Some observation\<rparr>) G))"
  proof (rule inv_write_host [OF inv])
    show "host_ok C (h\<lparr>host_last_observation := Some observation\<rparr>)"
      using hosts_of_Some [OF h] by (simp add: host_ok_def)
  qed (use inv h hosts_of_Some [OF h] in \<open>auto simp: registry_inv_def unique_by_def\<close>)
qed

lemma set_instance_observation_inv:
  assumes inv: "registry_inv C G"
  shows "registry_inv C (snd (set_instance_observation C E d observation G))"
  unfolding set_instance_observation_def snd_case_result
proof (intro inv_attempt inv)
  fix found i
  assume "find_instance_by_deployment_locked C G d = Inr found"
    and "expect UnknownInstance found = Inr i"
  then have i: "instances_of C G d = Some i" by (simp add: find_instance_by_deployment_Some)
  show "registry_inv C (snd (case write_instance C E d
          (i\<lparr>inst_last_observation := Some observation\<rparr>) G of
        (r, G') \<Rightarrow> (rbind r (\<lambda>_. Inr ()), G')))"
    using instances_of_Some [OF i, THEN conjunct1]
    by (auto intro!: inv_rewrite_instance [OF inv i] simp: instance_ok_def)
qed

lemma set_backup_before_update_inv:
  assumes inv: "registry_inv C G"
  shows "registry_inv C (snd (set_backup_before_update C E d policy G))"
  unfolding set_backup_before_update_def
proof (intro inv_attempt inv)
  fix u found i
  assume "map_err RecordRule (BackupBeforeUpdatePolicy_validate policy) = Inr u"
    and "find_instance_by_deployment_locked C G d = Inr found"
    and "expect UnknownInstance found = Inr i"
  then have i: "instances_of C G d = Some i" and p: "BackupBeforeUpdatePolicy_validate policy = Inr ()"
    by (simp_all add: find_instance_by_deployment_Some)
  show "registry_inv C (snd (write_instance C E d (i\<lparr>inst_backup_before_update := policy\<rparr>) G))"
    using instances_of_Some [OF i, THEN conjunct1] p
    by (auto intro!: inv_rewrite_instance [OF inv i] validate_policy simp: instance_ok_def)
qed

lemma update_controller_binding_inv:
  assumes inv: "registry_inv C G"
  shows "registry_inv C (snd (update_controller_binding C E d controller_id key_ref G))"
  unfolding update_controller_binding_def Let_def
proof (intro inv_attempt inv)
  fix found i u
  assume "find_instance_by_deployment_locked C G d = Inr found"
    and "expect UnknownInstance found = Inr i"
    and "map_err RecordRule (InstanceRecord_validate (rc_externals C)
          (i\<lparr>inst_controller_id := controller_id, inst_controller_key_ref := key_ref\<rparr>)) = Inr u"
  then show "registry_inv C (snd (write_instance C E d
      (i\<lparr>inst_controller_id := controller_id, inst_controller_key_ref := key_ref\<rparr>) G))"
    by (intro inv_rewrite_instance [OF inv]) (auto simp: find_instance_by_deployment_Some instance_ok_def)
qed

lemma set_oidf_configuration_inv:
  assumes inv: "registry_inv C G" and laws: "origin_laws (rc_externals C)"
  shows "registry_inv C (snd (set_oidf_configuration C E d tenant_domain suite_origin G))"
  unfolding set_oidf_configuration_def Let_def
proof (intro inv_attempt inv)
  fix u v found i
  assume "map_err TextRule (validate_oidf_tenant_domain (rc_externals C) tenant_domain) = Inr u"
    and "map_err TextRule (validate_oidf_suite_origin (rc_externals C) suite_origin) = Inr v"
    and "find_instance_by_deployment_locked C G d = Inr found"
    and "expect UnknownInstance found = Inr i"
  then have i: "instances_of C G d = Some i"
    and t: "validate_oidf_tenant_domain (rc_externals C) tenant_domain = Inr ()"
    and s: "validate_oidf_suite_origin (rc_externals C) (trim_end_slashes suite_origin) = Inr ()"
    using laws by (simp_all add: find_instance_by_deployment_Some origin_laws_def)
  let ?i = "i\<lparr>inst_oidf_tenant_domain := Some tenant_domain,
               inst_oidf_suite_origin := Some (trim_end_slashes suite_origin)\<rparr>"
  have "inst_deployment_id ?i = d" using instances_of_Some [OF i] by simp
  moreover have "registry_inv C (snd (write_instance C E d ?i G))"
    using instances_of_Some [OF i, THEN conjunct1] t s
    by (auto intro!: inv_rewrite_instance [OF inv i] validate_oidf simp: instance_ok_def)
  ultimately show "registry_inv C (snd (write_instance C E (inst_deployment_id ?i) ?i G))"
    by (simp only:)
qed

lemma relocate_instance_inv:
  assumes inv: "registry_inv C G"
  shows "registry_inv C (snd (relocate_instance C E d a G))"
  unfolding relocate_instance_def Let_def
proof (intro inv_attempt inv)
  fix found i
  assume "find_instance_by_deployment_locked C G d = Inr found"
    and "expect UnknownInstance found = Inr i"
  then have i: "instances_of C G d = Some i" by (simp add: find_instance_by_deployment_Some)
  let ?i = "i\<lparr>inst_host_id := a, inst_last_observation := None\<rparr>"
  have "registry_inv C (snd (write_instance C E d ?i G))"
    if "instance_ok C ?i" and "hosts_of C G a = Some h" for h
  proof (rule inv_write_instance [OF inv that(1)])
    show "inst_alias k \<noteq> inst_alias ?i" if "b \<noteq> d" "instances_of C G b = Some k" for b k
      using inv i that by (auto simp: registry_inv_def unique_by_def)
  qed (use that instances_of_Some [OF i] in auto)
  then show "registry_inv C (snd (
      if inst_host_id i = a then (Inl AlreadyBound, G)
      else attempt (find_host_by_id_locked C G a) G (\<lambda>new_host.
        attempt (expect UnknownHost new_host) G (\<lambda>_.
          attempt (map_err RecordRule (InstanceRecord_validate (rc_externals C) ?i)) G (\<lambda>_.
            write_instance C E d ?i G)))))"
    by (auto intro!: inv_attempt inv simp: find_host_by_id_Some instance_ok_def)
qed

lemma InstanceRecord_renamed_Inr:
  "InstanceRecord_renamed X n i = Inr j \<longleftrightarrow>
     j = i\<lparr>inst_alias := n\<rparr> \<and> InstanceRecord_validate X j = Inr ()"
  by (auto simp: InstanceRecord_renamed_def Let_def rbind_Inr_iff)

lemma rename_instance_inv:
  assumes inv: "registry_inv C G"
  shows "registry_inv C (snd (rename_instance C E old_alias new_alias G))"
  unfolding rename_instance_def
proof (intro inv_attempt inv)
  fix records i
  assume load: "load_instances C E G = Inr records"
    and "expect UnknownInstance (find (\<lambda>i. inst_alias i = old_alias) records) = Inr i"
  then have "i \<in> set records" and old: "inst_alias i = old_alias"
    by (auto dest: find_SomeD)
  have all: "set records = ran (instances_of C G)" by (rule load_instances_set [OF inv load])
  with \<open>i \<in> set records\<close> obtain d where i: "instances_of C G d = Some i" by (auto simp: ran_def)
  let ?i = "i\<lparr>inst_alias := new_alias\<rparr>"
  have "registry_inv C (snd (write_instance C E (inst_deployment_id ?i) ?i G))"
    if "instance_ok C ?i"
      and free: "new_alias = old_alias \<or> \<not> list_ex (\<lambda>j. inst_alias j = new_alias) records"
  proof (rule inv_write_instance [OF inv that(1) refl])
    show "hosts_of C G (inst_host_id ?i) \<noteq> None" using inv i by (auto simp: registry_inv_def)
    show "inst_alias k \<noteq> inst_alias ?i"
      if "b \<noteq> inst_deployment_id ?i" and k: "instances_of C G b = Some k" for b k
    proof
      assume same: "inst_alias k = inst_alias ?i"
      have "k \<in> set records" using all k by (auto simp: ran_def)
      with free same have "inst_alias k = inst_alias i" using old by (auto simp: list_ex_iff)
      with inv i k have "b = d" by (auto simp: registry_inv_def unique_by_def)
      with that(1) show False using instances_of_Some [OF i] by simp
    qed
  qed
  then show "registry_inv C (snd (
      if new_alias \<noteq> old_alias \<and> list_ex (\<lambda>other. inst_alias other = new_alias) records
      then (Inl DuplicateInstanceAlias, G)
      else attempt (map_err RecordRule (InstanceRecord_renamed (rc_externals C) new_alias i)) G
        (\<lambda>renamed. write_instance C E (inst_deployment_id renamed) renamed G)))"
    by (auto intro!: inv_attempt inv simp: InstanceRecord_renamed_Inr instance_ok_def)
qed

lemma InstanceRecord_new_Inr:
  "InstanceRecord_new X d a h s = Inr i \<Longrightarrow>
     InstanceRecord_validate X i = Inr () \<and> inst_deployment_id i = d \<and> inst_alias i = a \<and>
     inst_host_id i = h \<and> inst_issuer i = s"
  by (auto simp: InstanceRecord_new_def Let_def rbind_Inr_iff)

lemma register_instance_inv:
  assumes inv: "registry_inv C G"
  shows "registry_inv C (snd (register_instance C E evidence name observation G))"
  unfolding register_instance_def Let_def
proof (intro inv_attempt inv)
  fix found h
  assume "find_host_by_id_locked C G (ev_host_id evidence) = Inr found"
    and "expect UnknownHost found = Inr h"
  then have h: "hosts_of C G (ev_host_id evidence) = Some h" by (simp add: find_host_by_id_Some)
  let ?d = "dd_deployment_id (ev_deployment evidence)"
  let ?a = "case name of None \<Rightarrow> ?d | Some a \<Rightarrow> a"
  have "registry_inv C (snd (write_instance C E ?d (i\<lparr>inst_last_observation := Some observation\<rparr>) G))"
    if "find_instance_by_alias_locked C E G ?a = Inr None"
      and "InstanceRecord_new (rc_externals C) ?d ?a (ev_host_id evidence)
             (dd_issuer (ev_deployment evidence)) = Inr i" for i
    using InstanceRecord_new_Inr [OF that(2)] h find_instance_by_alias_None [OF inv that(1)]
    by (intro inv_write_instance [OF inv]) (simp_all add: instance_ok_def)
  then show "registry_inv C (snd (
      if host_alias h \<noteq> ev_host_alias evidence \<or> host_transport h \<noteq> ev_transport evidence
      then (Inl EvidenceDrifted, G)
      else attempt (find_instance_by_deployment_locked C G ?d) G (\<lambda>duplicate.
        if duplicate \<noteq> None then (Inl DuplicateDeployment, G)
        else attempt (find_instance_by_alias_locked C E G ?a) G (\<lambda>same_alias.
          if same_alias \<noteq> None then (Inl DuplicateInstanceAlias, G)
          else attempt (map_err RecordRule (InstanceRecord_new (rc_externals C) ?d ?a
                 (ev_host_id evidence) (dd_issuer (ev_deployment evidence)))) G (\<lambda>i.
            write_instance C E ?d (i\<lparr>inst_last_observation := Some observation\<rparr>) G)))))"
    by (auto intro!: inv_attempt inv)
qed

section \<open>Forgetting\<close>

lemma drop_instance_file:
  assumes "drop_file out (record_path d) (rg_instances G) = (ok, dir)"
  obtains "dir = rg_instances G" "ok \<longrightarrow> instances_of C G d = None"
  | "instances_of C (G\<lparr>rg_instances := dir\<rparr>) = (instances_of C G)(d := None)"
    "dir = AList.delete (record_path d) (rg_instances G)"
  using assms
  by (cases rule: drop_file_cases [of out "record_path d" "rg_instances G"])
     (auto simp: instances_of_def instances.stored_delete stored_def read_record_def)

lemma inv_fewer_instances:
  assumes "registry_inv C G"
    and "conforming (InstanceRecord_validate (rc_externals C)) inst_deployment_id dir"
    and "\<And>d i. instances_of C (G\<lparr>rg_instances := dir\<rparr>) d = Some i \<Longrightarrow> instances_of C G d = Some i"
  shows "registry_inv C (G\<lparr>rg_instances := dir\<rparr>)"
  using assms(1,2) unfolding registry_inv_def
  by (auto intro: unique_by_restrict [OF _ assms(3)] dest!: assms(3))

lemma inv_drop_instance:
  assumes inv: "registry_inv C G" and "drop_file out (record_path d) (rg_instances G) = (ok, dir)"
  shows "registry_inv C (G\<lparr>rg_instances := dir\<rparr>)"
  using assms(2)
proof (cases rule: drop_instance_file [where C = C])
  case 2
  show ?thesis
  proof (rule inv_fewer_instances [OF inv])
    show "conforming (InstanceRecord_validate (rc_externals C)) inst_deployment_id dir"
      unfolding 2(2) by (rule instances.conforming_delete) (use inv in \<open>simp add: registry_inv_def\<close>)
  qed (auto simp: 2(1) split: if_splits)
qed (simp add: inv)

lemma forget_instance_inv:
  assumes inv: "registry_inv C G"
  shows "registry_inv C (snd (forget_instance_by_deployment C E d G))"
  unfolding forget_instance_by_deployment_def
  by (intro inv_attempt inv) (auto split: prod.split bool.split intro: inv_drop_instance [OF inv])

text \<open>The cascade removes records of the list it was given and no other, in any outcome.\<close>

lemma remove_instances_effect:
  assumes "registry_inv C G"
    and "remove_instances outs n xs (rg_instances G) = (ok, dir)"
  shows "registry_inv C (G\<lparr>rg_instances := dir\<rparr>) \<and>
     (\<forall>d. instances_of C (G\<lparr>rg_instances := dir\<rparr>) d = None \<and> d \<in> inst_deployment_id ` set xs
        \<or> instances_of C (G\<lparr>rg_instances := dir\<rparr>) d = instances_of C G d) \<and>
     (ok \<longrightarrow> (\<forall>i \<in> set xs. instances_of C (G\<lparr>rg_instances := dir\<rparr>) (inst_deployment_id i) = None))"
  using assms
proof (induction xs arbitrary: n G)
  case Nil
  then have same: "G\<lparr>rg_instances := dir\<rparr> = G" by simp
  show ?case unfolding same using Nil by simp
next
  case (Cons x xs)
  obtain ok1 dir1 where d1: "drop_file (outs n) (record_path (inst_deployment_id x)) (rg_instances G)
      = (ok1, dir1)" by (cases "drop_file (outs n) (record_path (inst_deployment_id x)) (rg_instances G)")
  let ?G1 = "G\<lparr>rg_instances := dir1\<rparr>"
  have inv1: "registry_inv C ?G1" by (rule inv_drop_instance [OF Cons.prems(1) d1])
  have one: "(\<forall>d. instances_of C ?G1 d = None \<and> d = inst_deployment_id x
        \<or> instances_of C ?G1 d = instances_of C G d)
      \<and> (ok1 \<longrightarrow> instances_of C ?G1 (inst_deployment_id x) = None)"
    using d1 by (cases rule: drop_instance_file [where C = C]) auto
  show ?case
  proof (cases ok1)
    case False
    with Cons.prems(2) d1 have "ok = False" "dir = dir1" by auto
    with inv1 one show ?thesis by auto
  next
    case True
    with Cons.prems(2) d1 have "remove_instances outs (Suc n) xs (rg_instances ?G1) = (ok, dir)"
      by simp
    from Cons.IH [OF inv1 this] one True show ?thesis
      by simp (metis (no_types, lifting) image_insert insertCI list.simps(15))
  qed
qed

lemma drop_host_file:
  assumes "drop_file out (record_path a) (rg_hosts G) = (ok, dir)"
  obtains "dir = rg_hosts G" "ok \<longrightarrow> hosts_of C G a = None"
  | "hosts_of C (G\<lparr>rg_hosts := dir\<rparr>) = (hosts_of C G)(a := None)"
    "dir = AList.delete (record_path a) (rg_hosts G)"
  using assms
  by (cases rule: drop_file_cases [of out "record_path a" "rg_hosts G"])
     (auto simp: hosts_of_def hosts.stored_delete stored_def read_record_def)

lemma inv_drop_host:
  assumes inv: "registry_inv C G" and drop: "drop_file out (record_path a) (rg_hosts G) = (ok, dir)"
    and unused: "\<And>d i. instances_of C G d = Some i \<Longrightarrow> inst_host_id i \<noteq> a"
  shows "registry_inv C (G\<lparr>rg_hosts := dir\<rparr>)"
  using drop
proof (cases rule: drop_host_file [where C = C])
  case 2
  have "conforming (HostRecord_validate (rc_externals C)) host_host_id dir"
    unfolding 2(2) by (rule hosts.conforming_delete) (use inv in \<open>simp add: registry_inv_def\<close>)
  then show ?thesis
    using inv unused unfolding registry_inv_def 2(1)
    by (auto intro: unique_by_restrict split: if_splits)
qed (simp add: inv)

text \<open>The last part of \<open>forget_host\<close>, once the host and its instances are known.\<close>

lemma forget_host_inv:
  assumes inv: "registry_inv C G"
  shows "registry_inv C (snd (forget_host C E name cascade G))"
  unfolding forget_host_def Let_def
proof (intro inv_attempt inv)
  fix h
  have "registry_inv C (snd (
      case remove_instances outs 0 (filter (\<lambda>i. inst_host_id i = host_host_id h) records)
             (rg_instances G) of
        (False, dir) \<Rightarrow> (Inl RecordNotRemoved, G\<lparr>rg_instances := dir\<rparr>)
      | (True, dir) \<Rightarrow>
          (case drop_file (re_commit E) (record_path (host_host_id h)) (rg_hosts G) of
             (False, hosts) \<Rightarrow> (Inl RecordNotRemoved, G\<lparr>rg_instances := dir, rg_hosts := hosts\<rparr>)
           | (True, hosts) \<Rightarrow>
               (Inr (h, filter (\<lambda>i. inst_host_id i = host_host_id h) records),
                G\<lparr>rg_instances := dir, rg_hosts := hosts\<rparr>))))"
    if load: "load_instances C E G = Inr records" for records outs
  proof -
    let ?refs = "filter (\<lambda>i. inst_host_id i = host_host_id h) records"
    obtain ok dir where rem: "remove_instances outs 0 ?refs (rg_instances G) = (ok, dir)"
      by (cases "remove_instances outs 0 ?refs (rg_instances G)")
    obtain ok2 hosts where dr: "drop_file (re_commit E) (record_path (host_host_id h)) (rg_hosts G)
        = (ok2, hosts)" by (cases "drop_file (re_commit E) (record_path (host_host_id h)) (rg_hosts G)")
    let ?G1 = "G\<lparr>rg_instances := dir\<rparr>"
    note eff = remove_instances_effect [OF inv rem]
    have "registry_inv C (?G1\<lparr>rg_hosts := hosts\<rparr>)" if ok
    proof (rule inv_drop_host)
      show "registry_inv C ?G1" using eff by simp
      show "drop_file (re_commit E) (record_path (host_host_id h)) (rg_hosts ?G1) = (ok2, hosts)"
        using dr by simp
      show "inst_host_id i \<noteq> host_host_id h" if i: "instances_of C ?G1 d = Some i" for d i
      proof
        assume same: "inst_host_id i = host_host_id h"
        from i eff have "instances_of C G d = Some i" by (metis option.distinct(1))
        with load_instances_set [OF inv load] same have "i \<in> set ?refs"
          and "inst_deployment_id i = d" by (auto simp: ran_def dest: instances_of_Some)
        with eff \<open>ok\<close> i show False by auto
      qed
    qed
    with eff rem dr show ?thesis by (cases ok; cases ok2) simp_all
  qed
  then show "registry_inv C (snd (
      if host_transport h = LocalTransport then (Inl LocalHostPermanent, G)
      else attempt (load_instances C E G) G (\<lambda>records.
        if filter (\<lambda>i. inst_host_id i = host_host_id h) records \<noteq> [] \<and> \<not> cascade
        then (Inl (HostStillReferenced
               (map inst_alias (filter (\<lambda>i. inst_host_id i = host_host_id h) records))), G)
        else case remove_instances (re_removals E) 0
               (filter (\<lambda>i. inst_host_id i = host_host_id h) records) (rg_instances G) of
          (False, dir) \<Rightarrow> (Inl RecordNotRemoved, G\<lparr>rg_instances := dir\<rparr>)
        | (True, dir) \<Rightarrow>
            (case drop_file (re_commit E) (record_path (host_host_id h)) (rg_hosts G) of
               (False, hosts) \<Rightarrow> (Inl RecordNotRemoved, G\<lparr>rg_instances := dir, rg_hosts := hosts\<rparr>)
             | (True, hosts) \<Rightarrow>
                 (Inr (h, filter (\<lambda>i. inst_host_id i = host_host_id h) records),
                  G\<lparr>rg_instances := dir, rg_hosts := hosts\<rparr>)))))"
    by (auto intro!: inv_attempt inv simp del: split_paired_All)
qed

section \<open>Histories of a registry\<close>

text \<open>Calls of any operation, in any environment, from an empty registry.\<close>

inductive registry_reachable :: "registry_codec \<Rightarrow> registry \<Rightarrow> bool" for C where
  reachable_empty: "registry_reachable C empty_registry"
| reachable_call:
    "registry_reachable C G \<Longrightarrow> registry_reachable C (snd (registry_call C E call G))"

lemma empty_registry_inv: "registry_inv C empty_registry"
  by (simp add: registry_inv_def empty_registry_def conforming_def unique_by_def hosts_of_def
      instances_of_def stored_def read_record_def)

lemmas operation_invs =
  ensure_local_host_inv add_host_inv set_host_observation_inv forget_host_inv
  register_instance_inv rename_instance_inv set_oidf_configuration_inv
  set_instance_observation_inv update_controller_binding_inv set_backup_before_update_inv
  relocate_instance_inv forget_instance_inv

lemma registry_call_inv:
  assumes "registry_inv C G" and "uuid_laws (rc_externals C)" and "origin_laws (rc_externals C)"
  shows "registry_inv C (snd (registry_call C E call G))"
  using assms by (cases call) (simp_all add: operation_invs)

lemma registry_reachable_inv:
  assumes "registry_reachable C G" and "uuid_laws (rc_externals C)" and "origin_laws (rc_externals C)"
  shows "registry_inv C G"
  using assms by (induction rule: registry_reachable.induct)
    (auto intro: empty_registry_inv registry_call_inv)

end
