(* ===== verification/RegistryBinding.thy ===== *)
theory RegistryBinding
  imports RegistryInvariant
begin

text \<open>
  What a step of the registry may change in a stored instance: the issuer a deployment was
  registered with is permanent, and only a relocation changes the host it is bound to. The
  abstract registry at the end has two maps and seven kinds of step; every operation of the
  program is one of them.
\<close>

section \<open>The abstract registry\<close>

type_synonym registry_view = "(string \<Rightarrow> HostRecord option) \<times> (string \<Rightarrow> InstanceRecord option)"

definition view :: "registry_codec \<Rightarrow> registry \<Rightarrow> registry_view" where
  "view C G = (hosts_of C G, instances_of C G)"

text \<open>
  The promise of the registry to its clients: a host record appears under its own identity and
  keeps the address it was added with unless the local host takes that identity over; an instance
  appears only under an unused identity and alias, on a registered host; later changes keep its
  identity and issuer; a host disappears only with nothing bound to it.
\<close>

inductive abstract_step :: "registry_view \<Rightarrow> registry_view \<Rightarrow> bool" where
  unchanged: "abstract_step V V"
| host_written:
    "\<lbrakk>\<And>b k. b \<noteq> host_host_id h \<Longrightarrow> H b = Some k \<Longrightarrow> host_alias k \<noteq> host_alias h;
      \<And>k. H (host_host_id h) = Some k \<Longrightarrow>
         host_transport h = LocalTransport \<or>
         host_alias h = host_alias k \<and> host_transport h = host_transport k
         \<and> host_ssh_profile h = host_ssh_profile k \<and> host_privilege h = host_privilege k\<rbrakk>
     \<Longrightarrow> abstract_step (H, I) (H(host_host_id h \<mapsto> h), I)"
| instance_registered:
    "\<lbrakk>I (inst_deployment_id i) = None; H (inst_host_id i) = Some h;
      \<And>b k. I b = Some k \<Longrightarrow> inst_alias k \<noteq> inst_alias i;
      inst_controller_id i = None; inst_controller_key_ref i = None\<rbrakk>
     \<Longrightarrow> abstract_step (H, I) (H, I(inst_deployment_id i \<mapsto> i))"
| instance_rewritten:
    "\<lbrakk>I (inst_deployment_id j) = Some i; inst_issuer j = inst_issuer i;
      inst_host_id j = inst_host_id i \<or>
        H (inst_host_id j) \<noteq> None \<and> inst_last_observation j = None;
      inst_alias j = inst_alias i \<or> (\<forall>b k. I b = Some k \<longrightarrow> inst_alias k \<noteq> inst_alias j)\<rbrakk>
     \<Longrightarrow> abstract_step (H, I) (H, I(inst_deployment_id j \<mapsto> j))"
| instance_forgotten: "abstract_step (H, I) (H, I(d := None))"
| host_forgotten:
    "\<lbrakk>H a = Some h; host_transport h \<noteq> LocalTransport;
      \<And>b. I' b = I b \<or> I' b = None \<and> (\<exists>k. I b = Some k \<and> inst_host_id k = a);
      H' = H \<or> H' = H(a := None) \<and> (\<forall>b k. I' b = Some k \<longrightarrow> inst_host_id k \<noteq> a)\<rbrakk>
     \<Longrightarrow> abstract_step (H, I) (H', I')"

abbreviation refines :: "registry_codec \<Rightarrow> registry \<Rightarrow> registry \<Rightarrow> bool" where
  "refines C G G' \<equiv> abstract_step (view C G) (view C G')"

lemma refines_attempt:
  assumes "\<And>a. r = Inr a \<Longrightarrow> refines C G (snd (k a))"
  shows "refines C G (snd (attempt r G k))"
  using assms by (cases r) (simp_all add: unchanged)

lemma refines_write_host:
  assumes "host_ok C h"
    and "\<And>b k. b \<noteq> host_host_id h \<Longrightarrow> hosts_of C G b = Some k \<Longrightarrow> host_alias k \<noteq> host_alias h"
    and "\<And>k. hosts_of C G (host_host_id h) = Some k \<Longrightarrow>
         host_transport h = LocalTransport \<or>
         host_alias h = host_alias k \<and> host_transport h = host_transport k
         \<and> host_ssh_profile h = host_ssh_profile k \<and> host_privilege h = host_privilege k"
  shows "refines C G (snd (write_host_locked C E h G))"
proof (cases rule: write_host_cases [of C E h G])
  case (put r)
  then show ?thesis
    unfolding view_def put snd_conv hosts_of_put [OF assms(1)] instances_of_update
    by (intro host_written assms(2,3))
qed (simp add: unchanged)

lemma refines_rewrite:
  assumes "instance_ok C j" and "inst_deployment_id j = d" and "instances_of C G d = Some i"
    and "inst_issuer j = inst_issuer i"
    and "inst_host_id j = inst_host_id i \<or>
        hosts_of C G (inst_host_id j) \<noteq> None \<and> inst_last_observation j = None"
    and "inst_alias j = inst_alias i \<or> (\<forall>b k. instances_of C G b = Some k \<longrightarrow> inst_alias k \<noteq> inst_alias j)"
  shows "refines C G (snd (write_instance C E d j G))"
proof (cases rule: write_instance_cases [of C E d j G])
  case (put r)
  show ?thesis
    unfolding view_def put snd_conv instances_of_put [OF assms(1,2)] hosts_of_update
    using assms(2-) by (auto intro: instance_rewritten)
qed (simp add: unchanged)

lemma refines_register:
  assumes "instance_ok C j" and "inst_deployment_id j = d" and "instances_of C G d = None"
    and "hosts_of C G (inst_host_id j) = Some h"
    and "\<And>b k. instances_of C G b = Some k \<Longrightarrow> inst_alias k \<noteq> inst_alias j"
    and "inst_controller_id j = None" and "inst_controller_key_ref j = None"
  shows "refines C G (snd (write_instance C E d j G))"
proof (cases rule: write_instance_cases [of C E d j G])
  case (put r)
  show ?thesis
    unfolding view_def put snd_conv instances_of_put [OF assms(1,2)] hosts_of_update
    using assms(2-) by (auto intro: instance_registered)
qed (simp add: unchanged)

section \<open>Operations that rewrite one instance\<close>

lemma found_instance:
  assumes "find_instance_by_deployment_locked C G d = Inr found" and "expect e found = Inr i"
  shows "instances_of C G d = Some i \<and> instance_ok C i \<and> inst_deployment_id i = d"
  using assms instances_of_Some by (simp add: find_instance_by_deployment_Some)

lemma set_instance_observation_refines:
  "refines C G (snd (set_instance_observation C E d ob G))"
  unfolding set_instance_observation_def
  by (intro refines_attempt, drule (1) found_instance)
     (auto intro!: refines_rewrite simp: instance_ok_def)

lemma set_backup_before_update_refines:
  "refines C G (snd (set_backup_before_update C E d policy G))"
  unfolding set_backup_before_update_def
  by (intro refines_attempt, drule (1) found_instance)
     (auto intro!: refines_rewrite validate_policy simp: instance_ok_def)

lemma update_controller_binding_refines:
  "refines C G (snd (update_controller_binding C E d controller_id key_ref G))"
  unfolding update_controller_binding_def Let_def
  by (intro refines_attempt, drule (1) found_instance)
     (auto intro!: refines_rewrite simp: instance_ok_def)

lemma set_oidf_configuration_refines:
  assumes "origin_laws (rc_externals C)"
  shows "refines C G (snd (set_oidf_configuration C E d tenant_domain suite_origin G))"
  unfolding set_oidf_configuration_def Let_def
  by (insert assms, intro refines_attempt, drule (1) found_instance)
     (auto intro!: refines_rewrite validate_oidf simp: instance_ok_def origin_laws_def)

lemma relocate_instance_refines:
  "refines C G (snd (relocate_instance C E d a G))"
  unfolding relocate_instance_def Let_def
proof (intro refines_attempt, drule (1) found_instance)
  fix i
  assume i: "instances_of C G d = Some i \<and> instance_ok C i \<and> inst_deployment_id i = d"
  show "refines C G (snd (if inst_host_id i = a then (Inl AlreadyBound, G)
      else attempt (find_host_by_id_locked C G a) G (\<lambda>new_host.
        attempt (expect UnknownHost new_host) G (\<lambda>_.
          attempt (map_err RecordRule (InstanceRecord_validate (rc_externals C)
              (i\<lparr>inst_host_id := a, inst_last_observation := None\<rparr>))) G (\<lambda>_.
            write_instance C E d (i\<lparr>inst_host_id := a, inst_last_observation := None\<rparr>) G)))))"
    using i by (auto intro!: refines_attempt unchanged
        refines_rewrite [where i = i] simp: find_host_by_id_Some instance_ok_def)
qed

lemma rename_instance_refines:
  assumes inv: "registry_inv C G"
  shows "refines C G (snd (rename_instance C E old_alias new_alias G))"
  unfolding rename_instance_def
proof (intro refines_attempt)
  fix records i
  assume load: "load_instances C E G = Inr records"
    and "expect UnknownInstance (find (\<lambda>i. inst_alias i = old_alias) records) = Inr i"
  then have "i \<in> set records" and old: "inst_alias i = old_alias" by (auto dest: find_SomeD)
  have all: "set records = ran (instances_of C G)" by (rule load_instances_set [OF inv load])
  with \<open>i \<in> set records\<close> have i: "instances_of C G (inst_deployment_id i) = Some i"
    by (auto simp: ran_def dest: instances_of_Some)
  have other: "inst_alias k \<noteq> new_alias"
    if "\<not> list_ex (\<lambda>j. inst_alias j = new_alias) records" "instances_of C G b = Some k" for b k
    using that all by (auto simp: list_ex_iff ran_def)
  show "refines C G (snd (
      if new_alias \<noteq> old_alias \<and> list_ex (\<lambda>other. inst_alias other = new_alias) records
      then (Inl DuplicateInstanceAlias, G)
      else attempt (map_err RecordRule (InstanceRecord_renamed (rc_externals C) new_alias i)) G
        (\<lambda>renamed. write_instance C E (inst_deployment_id renamed) renamed G)))"
    using i old other
    by (auto intro!: refines_attempt unchanged refines_rewrite [where i = i]
        simp: InstanceRecord_renamed_Inr instance_ok_def)
qed

section \<open>Registration and hosts\<close>

lemma InstanceRecord_new_unbound:
  "InstanceRecord_new X d a h s = Inr i \<Longrightarrow> inst_controller_id i = None \<and> inst_controller_key_ref i = None"
  by (auto simp: InstanceRecord_new_def Let_def rbind_Inr_iff)

lemma register_instance_refines:
  assumes inv: "registry_inv C G"
  shows "refines C G (snd (register_instance C E evidence name ob G))"
  unfolding register_instance_def Let_def
proof (intro refines_attempt)
  fix found h
  assume "find_host_by_id_locked C G (ev_host_id evidence) = Inr found"
    and "expect UnknownHost found = Inr h"
  then have h: "hosts_of C G (ev_host_id evidence) = Some h" by (simp add: find_host_by_id_Some)
  let ?d = "dd_deployment_id (ev_deployment evidence)"
  let ?a = "case name of None \<Rightarrow> ?d | Some a \<Rightarrow> a"
  have "refines C G (snd (write_instance C E ?d (i\<lparr>inst_last_observation := Some ob\<rparr>) G))"
    if "find_instance_by_deployment_locked C G ?d = Inr None"
      and "find_instance_by_alias_locked C E G ?a = Inr None"
      and "InstanceRecord_new (rc_externals C) ?d ?a (ev_host_id evidence)
             (dd_issuer (ev_deployment evidence)) = Inr i" for i
    using InstanceRecord_new_Inr [OF that(3)] InstanceRecord_new_unbound [OF that(3)] h
      find_instance_by_alias_None [OF inv that(2)] find_instance_by_deployment_None [OF that(1)]
    by (intro refines_register) (simp_all add: instance_ok_def)
  then show "refines C G (snd (
      if host_alias h \<noteq> ev_host_alias evidence \<or> host_transport h \<noteq> ev_transport evidence
      then (Inl EvidenceDrifted, G)
      else attempt (find_instance_by_deployment_locked C G ?d) G (\<lambda>duplicate.
        if duplicate \<noteq> None then (Inl DuplicateDeployment, G)
        else attempt (find_instance_by_alias_locked C E G ?a) G (\<lambda>same_alias.
          if same_alias \<noteq> None then (Inl DuplicateInstanceAlias, G)
          else attempt (map_err RecordRule (InstanceRecord_new (rc_externals C) ?d ?a
                 (ev_host_id evidence) (dd_issuer (ev_deployment evidence)))) G (\<lambda>i.
            write_instance C E ?d (i\<lparr>inst_last_observation := Some ob\<rparr>) G)))))"
    by (auto intro!: refines_attempt unchanged)
qed

lemma set_host_observation_refines:
  assumes inv: "registry_inv C G"
  shows "refines C G (snd (set_host_observation C E a ob G))"
  unfolding set_host_observation_def
proof (intro refines_attempt)
  fix found h
  assume "find_host_by_id_locked C G a = Inr found" and "expect UnknownHost found = Inr h"
  then have h: "hosts_of C G a = Some h" by (simp add: find_host_by_id_Some)
  with inv have unique: "host_alias k \<noteq> host_alias h" if "b \<noteq> a" "hosts_of C G b = Some k" for b k
    using that by (auto simp: registry_inv_def unique_by_def)
  show "refines C G (snd (write_host_locked C E (h\<lparr>host_last_observation := Some ob\<rparr>) G))"
    using hosts_of_Some [OF h] h unique
    by (intro refines_write_host) (auto simp: host_ok_def)
qed

lemma add_host_refines:
  assumes inv: "registry_inv C G" and laws: "uuid_laws (rc_externals C)"
  shows "refines C G (snd (add_host C E h G))"
  unfolding add_host_def
proof (intro refines_attempt)
  fix u hs
  assume "map_err RecordRule (HostRecord_validate (rc_externals C) h) = Inr u"
    and hs: "load_hosts C E G = Inr hs"
  then have ok: "host_ok C h" by (simp add: host_ok_def)
  have "set hs = ran (hosts_of C G)" by (rule load_hosts_set [OF inv laws hs])
  then have "k \<in> set hs \<and> host_host_id k = b" if "hosts_of C G b = Some k" for b k
    using that hosts_of_Some by (auto simp: ran_def)
  then show "refines C G (snd (
      if list_ex (\<lambda>other. host_alias other = host_alias h) hs then (Inl DuplicateHostAlias, G)
      else if list_ex (\<lambda>other. host_host_id other = host_host_id h) hs then (Inl DuplicateHostId, G)
      else case write_host_locked C E h G of (r, G') \<Rightarrow> (rbind r (\<lambda>_. Inr h), G')))"
    by (auto intro!: unchanged refines_write_host ok simp: list_ex_iff)
qed

lemma ensure_local_host_refines:
  assumes inv: "registry_inv C G" and laws: "uuid_laws (rc_externals C)"
  shows "refines C G (snd (ensure_local_host C E G))"
  unfolding ensure_local_host_def Let_def
proof (intro refines_attempt)
  fix found
  assume found: "find_host_by_alias_locked C E G LOCAL_HOST_ALIAS = Inr found"
  have "refines C G (snd (write_host_locked C E (HostRecord_new_local a) G))"
    if "found = None" "local_target_id C E = Inr a" for a
    using find_host_by_alias_None [OF inv laws] found that
    by (intro refines_write_host local_target_id_ok [OF laws]) (auto simp: HostRecord_new_local_def)
  then show "refines C G (snd (case found of
        Some existing \<Rightarrow> (Inr existing, G)
      | None \<Rightarrow> attempt (local_target_id C E) G (\<lambda>target_id.
          case write_host_locked C E (HostRecord_new_local target_id) G of
            (r, G') \<Rightarrow> (rbind r (\<lambda>_. Inr (HostRecord_new_local target_id)), G'))))"
    by (cases found) (auto intro!: refines_attempt unchanged)
qed

section \<open>Forgetting\<close>

lemma forget_instance_refines:
  "refines C G (snd (forget_instance_by_deployment C E d G))"
proof -
  have "refines C G (G\<lparr>rg_instances := dir\<rparr>)"
    if "drop_file (re_commit E) (record_path d) (rg_instances G) = (ok, dir)" for ok dir
    using that
    by (cases rule: drop_instance_file [where C = C])
       (auto simp: view_def intro: unchanged instance_forgotten)
  then show ?thesis
    unfolding forget_instance_by_deployment_def
    by (intro refines_attempt) (auto split: prod.split bool.split)
qed

text \<open>The guards of \<open>forget_host\<close>, and the removals they lead to.\<close>

lemma forget_host_guards:
  obtains (refused) e where "forget_host C E name cascade G = (Inl e, G)"
  | (removing) h records where
      "find_host_by_alias_locked C E G name = Inr (Some h)" "host_transport h \<noteq> LocalTransport"
      "load_instances C E G = Inr records"
      "filter (\<lambda>i. inst_host_id i = host_host_id h) records = [] \<or> cascade"
      "forget_host C E name cascade G =
        (let referencing = filter (\<lambda>i. inst_host_id i = host_host_id h) records
         in case remove_instances (re_removals E) 0 referencing (rg_instances G) of
              (False, dir) \<Rightarrow> (Inl RecordNotRemoved, G\<lparr>rg_instances := dir\<rparr>)
            | (True, dir) \<Rightarrow>
                (case drop_file (re_commit E) (record_path (host_host_id h)) (rg_hosts G) of
                   (False, hosts) \<Rightarrow>
                     (Inl RecordNotRemoved, G\<lparr>rg_instances := dir, rg_hosts := hosts\<rparr>)
                 | (True, hosts) \<Rightarrow>
                     (Inr (h, referencing), G\<lparr>rg_instances := dir, rg_hosts := hosts\<rparr>)))"
proof -
  let ?found = "find_host_by_alias_locked C E G name"
  let ?h = "the (projr ?found)"
  let ?refs = "filter (\<lambda>i. inst_host_id i = host_host_id ?h) (projr (load_instances C E G))"
  show thesis
    using refused removing
    by (cases "lock_registry E"; cases ?found; cases "projr ?found"; cases "host_transport ?h";
        cases "load_instances C E G"; cases "?refs = [] \<or> cascade")
       (auto simp: forget_host_def Let_def)
qed

lemma forget_host_refines:
  assumes inv: "registry_inv C G" and laws: "uuid_laws (rc_externals C)"
  shows "refines C G (snd (forget_host C E name cascade G))"
proof (cases rule: forget_host_guards [of C E name cascade G])
  case (removing h records)
  let ?refs = "filter (\<lambda>i. inst_host_id i = host_host_id h) records"
  have h: "hosts_of C G (host_host_id h) = Some h"
    using find_host_by_alias_Some [OF inv laws removing(1)] by simp
  note host_removed = host_forgotten
    [where H = "hosts_of C G" and a = "host_host_id h" and h = h, OF h removing(2)]
  obtain ok dir where rem: "remove_instances (re_removals E) 0 ?refs (rg_instances G) = (ok, dir)"
    by (cases "remove_instances (re_removals E) 0 ?refs (rg_instances G)")
  let ?G1 = "G\<lparr>rg_instances := dir\<rparr>"
  note eff = remove_instances_effect [OF inv rem]
  have I1: "instances_of C ?G1 b = instances_of C G b \<or> instances_of C ?G1 b = None \<and>
      (\<exists>k. instances_of C G b = Some k \<and> inst_host_id k = host_host_id h)" for b
  proof (cases "b \<in> inst_deployment_id ` set ?refs")
    case True
    then obtain k where "k \<in> set records" "inst_host_id k = host_host_id h" "inst_deployment_id k = b"
      by auto
    then have "instances_of C G b = Some k" "inst_host_id k = host_host_id h"
      using load_instances_set [OF inv removing(3)] by (auto simp: ran_def dest: instances_of_Some)
    then show ?thesis using eff by metis
  qed (use eff in blast)
  have gone: "inst_host_id k \<noteq> host_host_id h" if "ok" "instances_of C ?G1 b = Some k" for b k
  proof
    assume same: "inst_host_id k = host_host_id h"
    have "instances_of C G b = Some k" using I1 [of b] that by auto
    then have "k \<in> set ?refs" "inst_deployment_id k = b"
      using load_instances_set [OF inv removing(3)] same by (auto simp: ran_def dest: instances_of_Some)
    then show False using eff that by auto
  qed
  have "refines C G (?G1\<lparr>rg_hosts := dir2\<rparr>)"
    if "ok" "drop_file (re_commit E) (record_path (host_host_id h)) (rg_hosts G) = (ok2, dir2)" for ok2 dir2
    using that(2)
  proof (cases rule: drop_host_file [where C = C])
    case 1
    then have "hosts_of C (?G1\<lparr>rg_hosts := dir2\<rparr>) = hosts_of C G" by (simp add: hosts_of_def)
    then show ?thesis
      using I1 unfolding view_def by (auto intro!: host_removed)
  next
    case 2
    have "hosts_of C (?G1\<lparr>rg_hosts := dir2\<rparr>) = (hosts_of C G)(host_host_id h := None)"
      using 2(1) by (simp add: hosts_of_def)
    then show ?thesis
      using I1 gone [OF that(1)] unfolding view_def
      by (auto intro!: host_removed)
  qed
  moreover have "refines C G ?G1"
    using I1 unfolding view_def by (auto intro!: host_removed)
  ultimately show ?thesis
    using rem unfolding removing(5) Let_def by (auto split: prod.split bool.split)
qed (simp add: unchanged)

lemmas operation_refines =
  set_instance_observation_refines set_backup_before_update_refines
  update_controller_binding_refines set_oidf_configuration_refines relocate_instance_refines
  rename_instance_refines register_instance_refines set_host_observation_refines
  add_host_refines ensure_local_host_refines forget_instance_refines forget_host_refines

end
