(* ===== verification/RegistryProperties.thy ===== *)
theory RegistryProperties
  imports RegistryBinding
begin

text \<open>
  The properties of the registry, each with a witness on a small registry: the local host, one
  SSH host \<open>edge\<close> and the instance \<open>prod\<close> registered on it.
\<close>

section \<open>A sample registry\<close>

definition reg_X :: externals where
  "reg_X =
     \<lparr>uuid_version = (\<lambda>s. if s = [] then None else Some 7),
      uuid_text = (\<lambda>s. s),
      parse_url = (\<lambda>_. Some \<lparr>url_cannot_be_base = False, url_scheme = ''https'', url_username = [],
         url_password = None, url_host = Some ''a.example'', url_path = ''/'', url_query = None,
         url_fragment = None\<rparr>),
      parse_host = (\<lambda>h. Some (Domain h)),
      semver_ok = (\<lambda>_. True), state_bytes = (\<lambda>_. 900)\<rparr>"

definition reg_C :: registry_codec where
  "reg_C = \<lparr>rc_externals = reg_X, rc_host_bytes = (\<lambda>_. 300), rc_instance_bytes = (\<lambda>_. 500)\<rparr>"

definition reg_hello :: "string \<Rightarrow> RemoteHello" where
  "reg_hello target_id =
     \<lparr>rh_product = HELLO_PRODUCT, rh_target_id = target_id,
      rh_remote_exec_schema = HOST_PROTOCOL_SCHEMA, rh_version = ''1'', rh_os = ''linux'',
      rh_arch = ''x'', rh_supported_runtimes = [''podman'']\<rparr>"

definition reg_E :: registry_env where
  "reg_E = \<lparr>re_held = False, re_listable = True, re_commit = Committed,
     re_removals = (\<lambda>_. Committed), re_local_hello = Some (reg_hello ''u1'')\<rparr>"

definition reg_ssh :: HostRecord where
  "reg_ssh = \<lparr>host_schema = 3, host_host_id = ''u2'', host_alias = ''edge'',
     host_transport = SshTransport, host_ssh_profile = Some ''edge'', host_privilege = Sudo,
     host_last_observation = None\<rparr>"

definition reg_evidence :: DiscoveryEvidence where
  "reg_evidence = \<lparr>ev_schema = 1, ev_evidence = ''instance-discovery-v1'', ev_observed_at = 5,
     ev_host_id = ''u2'', ev_host_alias = ''edge'', ev_transport = SshTransport,
     ev_hello = reg_hello ''u2'',
     ev_deployment = \<lparr>dd_deployment_id = ''prod'', dd_issuer = ''https://a.example''\<rparr>\<rparr>"

definition reg_observation :: ObservationCache where
  "reg_observation = \<lparr>obs_observed_at = 5, obs_reachable = True, obs_summary = []\<rparr>"

definition reg_hosts_only :: registry where
  "reg_hosts_only = snd (registry_call reg_C reg_E (AddHost reg_ssh)
     (snd (registry_call reg_C reg_E EnsureLocalHost empty_registry)))"

definition reg_full :: registry where
  "reg_full = snd (registry_call reg_C reg_E (RegisterInstance reg_evidence None reg_observation)
     reg_hosts_only)"

definition reg_prod :: InstanceRecord where
  "reg_prod = \<lparr>inst_schema = 3, inst_deployment_id = ''prod'', inst_alias = ''prod'',
     inst_host_id = ''u2'', inst_issuer = ''https://a.example'', inst_oidf_tenant_domain = None,
     inst_oidf_suite_origin = None, inst_controller_id = None, inst_controller_key_ref = None,
     inst_backup_before_update = PolicyOff, inst_last_observation = Some reg_observation\<rparr>"

lemma reg_laws: "uuid_laws (rc_externals reg_C) \<and> origin_laws (rc_externals reg_C)"
  by (simp add: reg_C_def reg_X_def uuid_laws_def origin_laws_def validate_oidf_suite_origin_def)

lemma reg_full_reachable: "registry_reachable reg_C reg_full"
  unfolding reg_full_def reg_hosts_only_def by (intro reachable_call reachable_empty)

lemma reg_hosts_only_inv: "registry_inv reg_C reg_hosts_only"
  using reg_laws by (simp add: reg_hosts_only_def registry_call_inv empty_registry_inv
      del: registry_call.simps)

lemma reg_full_inv: "registry_inv reg_C reg_full"
  using registry_reachable_inv [OF reg_full_reachable] reg_laws by simp

lemma reg_texts:
  "validate_key ''local'' l = Inr ()" "validate_key ''edge'' l = Inr ()"
  "validate_key ''prod'' l = Inr ()" "validate_identifier ''prod'' 128 l = Inr ()"
  by (simp_all add: validate_key_def validate_identifier_def MAX_KEY_CHARS_def ident_char_def
      char_class_defs)

lemma reg_hello_ok: "uuid_version reg_X a = Some 7 \<Longrightarrow> verify_remote_hello reg_X (reg_hello a) = Inr a"
  by (simp add: verify_remote_hello_def reg_hello_def reg_X_def HELLO_PRODUCT_def valid_token_def
      char_class_defs)

lemma reg_records_ok:
  "HostRecord_validate reg_X (HostRecord_new_local ''u1'') = Inr ()"
  "HostRecord_validate reg_X reg_ssh = Inr ()"
  "InstanceRecord_validate reg_X reg_prod = Inr ()"
  "DiscoveryEvidence_validate reg_X reg_evidence = Inr ()"
  by (simp_all add: HostRecord_validate_def HostRecord_new_local_def reg_ssh_def
      InstanceRecord_validate_def reg_prod_def REGISTRY_RECORD_SCHEMA_def LOCAL_HOST_ALIAS_def
      reg_texts reg_X_def validate_issuer_def BackupBeforeUpdatePolicy_validate_def
      DiscoveryEvidence_validate_def reg_evidence_def DISCOVERY_EVIDENCE_SCHEMA_def
      DISCOVERY_EVIDENCE_KIND_def reg_hello_ok [unfolded reg_X_def])

lemmas reg_run = lock_registry_def acquire_lock_def reg_E_def reg_C_def load_hosts_def
  load_instances_def load_all_locked_def read_record_def record_stem_def record_path_def
  find_host_by_alias_locked_def find_instance_by_alias_locked_def find_host_by_id_locked_def
  find_instance_by_deployment_locked_def read_optional_host_def read_optional_instance_def
  read_optional_record_def write_host_locked_def write_instance_def write_record_def put_file_def
  MAX_RECORD_BYTES_def failed_with_def

lemma reg_fields [simp]:
  "host_host_id (HostRecord_new_local a) = a" "host_alias (HostRecord_new_local a) = ''local''"
  "host_host_id reg_ssh = ''u2''" "host_alias reg_ssh = ''edge''"
  "host_transport reg_ssh = SshTransport"
  "ev_host_id reg_evidence = ''u2''" "ev_host_alias reg_evidence = ''edge''"
  "ev_transport reg_evidence = SshTransport"
  "dd_deployment_id (ev_deployment reg_evidence) = ''prod''"
  "dd_issuer (ev_deployment reg_evidence) = ''https://a.example''"
  "inst_deployment_id reg_prod = ''prod''" "inst_alias reg_prod = ''prod''"
  "inst_host_id reg_prod = ''u2''"
  "reg_prod\<lparr>inst_last_observation := Some reg_observation\<rparr> = reg_prod"
  by (simp_all add: HostRecord_new_local_def LOCAL_HOST_ALIAS_def reg_ssh_def reg_evidence_def reg_prod_def)

lemma reg_hosts_eq:
  "reg_hosts_only = \<lparr>rg_hosts = [(''u1.json'', Record (HostRecord_new_local ''u1'')),
       (''u2.json'', Record reg_ssh)], rg_instances = []\<rparr>"
proof -
  have "verify_remote_hello reg_X (reg_hello ''u1'') = Inr ''u1''"
    by (rule reg_hello_ok) (simp add: reg_X_def)
  then have "snd (registry_call reg_C reg_E EnsureLocalHost empty_registry) =
      \<lparr>rg_hosts = [(''u1.json'', Record (HostRecord_new_local ''u1''))], rg_instances = []\<rparr>"
    by (simp add: ensure_local_host_def empty_registry_def local_target_id_def reg_run Let_def)
  then show ?thesis
    using reg_records_ok by (simp add: reg_hosts_only_def add_host_def reg_run)
qed

lemma reg_register:
  "register_instance reg_C reg_E reg_evidence None reg_observation reg_hosts_only =
     (Inr reg_prod, reg_full)"
  "rg_instances reg_full = [(''prod.json'', Record reg_prod)]"
  "rg_hosts reg_full = rg_hosts reg_hosts_only"
proof -
  have new: "InstanceRecord_new reg_X ''prod'' ''prod'' ''u2'' ''https://a.example'' =
      Inr (reg_prod\<lparr>inst_last_observation := None\<rparr>)"
    using reg_records_ok(3)
    by (simp add: InstanceRecord_new_def Let_def reg_prod_def InstanceRecord_validate_def
        REGISTRY_RECORD_SCHEMA_def)
  have "register_instance reg_C reg_E reg_evidence None reg_observation reg_hosts_only =
     (Inr reg_prod, reg_hosts_only\<lparr>rg_instances := [(''prod.json'', Record reg_prod)]\<rparr>)"
    using reg_records_ok new reg_texts
    by (simp add: register_instance_def reg_run reg_hosts_eq Let_def)
  then show "register_instance reg_C reg_E reg_evidence None reg_observation reg_hosts_only =
      (Inr reg_prod, reg_full)"
    "rg_instances reg_full = [(''prod.json'', Record reg_prod)]"
    "rg_hosts reg_full = rg_hosts reg_hosts_only"
    by (simp_all add: reg_full_def failed_with_def)
qed

lemma reg_full_view:
  "hosts_of reg_C reg_full ''u2'' = Some reg_ssh"
  "instances_of reg_C reg_full ''prod'' = Some reg_prod"
  using reg_records_ok
  by (simp_all add: hosts_of_def instances_of_def stored_def read_record_def record_path_def
      reg_register reg_hosts_eq reg_C_def)

section \<open>Properties\<close>

text \<open>C17: In every registry that any sequence of calls can leave behind, with writes and removals
  failing before or after publication, every record file parses, validates and carries the
  identity of its file name, host and instance aliases are unique, and every instance is bound
  to a registered host.\<close>

theorem reachable_registries_are_sound:
  assumes "registry_reachable C G" and "uuid_laws (rc_externals C)" and "origin_laws (rc_externals C)"
  shows "registry_inv C G"
  by (rule registry_reachable_inv [OF assms])

theorem reachable_registries_are_sound_witness: "registry_inv reg_C reg_full"
  using reachable_registries_are_sound [OF reg_full_reachable] reg_laws by blast

lemma distinct_by_alias:
  assumes "distinct (map ident rs)" and "set rs = ran M" and "unique_by name M"
    and "\<And>k r. M k = Some r \<Longrightarrow> ident r = k"
  shows "distinct (map name rs)"
proof -
  have "inj_on name (set rs)"
    using assms(2-4) by (fastforce simp: inj_on_def ran_def unique_by_def)
  then show ?thesis using assms(1) by (simp add: distinct_map)
qed

text \<open>In a reachable registry both listings always succeed when the lock is free and the
  directories can be listed: they return exactly the stored records, in the order of their
  aliases, each alias once.\<close>

theorem listings_always_succeed:
  assumes "registry_reachable C G" and "uuid_laws (rc_externals C)" and "origin_laws (rc_externals C)"
    and "\<not> re_held E" and "re_listable E"
  shows "\<exists>hs is. list_hosts C E G = Inr hs \<and> list_instances C E G = Inr is
     \<and> set hs = ran (hosts_of C G) \<and> set is = ran (instances_of C G)
     \<and> sorted (map host_alias hs) \<and> distinct (map host_alias hs)
     \<and> sorted (map inst_alias is) \<and> distinct (map inst_alias is)"
proof -
  have inv: "registry_inv C G" by (rule registry_reachable_inv [OF assms(1-3)])
  obtain hs where hs: "load_hosts C E G = Inr hs" "distinct (map host_host_id hs)"
      "set hs = ran (hosts_of C G)"
    using load_hosts_inv [OF inv assms(2,5)] by blast
  obtain xs where xs: "load_instances C E G = Inr xs" "distinct (map inst_deployment_id xs)"
      "set xs = ran (instances_of C G)"
    using load_instances_inv [OF inv assms(5)] by blast
  have "distinct (map host_alias hs)"
    by (rule distinct_by_alias [OF hs(2,3)]) (use inv hosts_of_Some in \<open>auto simp: registry_inv_def\<close>)
  moreover have "distinct (map inst_alias xs)"
    by (rule distinct_by_alias [OF xs(2,3)]) (use inv instances_of_Some in \<open>auto simp: registry_inv_def\<close>)
  ultimately show ?thesis
    using hs xs assms(4)
    by (auto simp: list_hosts_def list_instances_def lock_registry_def acquire_lock_def
        distinct_map)
qed

theorem listings_always_succeed_witness:
  "\<exists>hs is. list_hosts reg_C reg_E reg_full = Inr hs \<and> list_instances reg_C reg_E reg_full = Inr is
     \<and> set hs = ran (hosts_of reg_C reg_full) \<and> set is = ran (instances_of reg_C reg_full)
     \<and> sorted (map host_alias hs) \<and> distinct (map host_alias hs)
     \<and> sorted (map inst_alias is) \<and> distinct (map inst_alias is)"
  using reg_laws
  by (intro listings_always_succeed [OF reg_full_reachable]) (auto simp: reg_E_def)

text \<open>A selector resolves to the instance whose deployment id it spells, whatever aliases say;
  only when no deployment has that id does the (unique) alias decide, and a selector that is
  neither is refused as not registered.\<close>

theorem deployment_id_takes_precedence:
  assumes "registry_reachable C G" and "uuid_laws (rc_externals C)" and "origin_laws (rc_externals C)"
    and "\<not> re_held E" and "re_listable E"
    and "validate_identifier selector 128 ''instance selector'' = Inr ()"
  shows "case resolve_instance C E G selector of
      Inr i \<Rightarrow> instances_of C G selector = Some i \<or>
        instances_of C G selector = None \<and> inst_alias i = selector \<and>
        instances_of C G (inst_deployment_id i) = Some i
    | Inl e \<Rightarrow> e = InstanceNotRegistered \<and> instances_of C G selector = None \<and>
        (\<forall>d i. instances_of C G d = Some i \<longrightarrow> inst_alias i \<noteq> selector)"
proof -
  have inv: "registry_inv C G" by (rule registry_reachable_inv [OF assms(1-3)])
  have "selector \<noteq> []" using assms(6) by (simp add: validate_identifier_ok)
  then have read: "read_optional_instance C (rg_instances G) selector = Inr (instances_of C G selector)"
    using inv by (simp add: read_optional_instance_def instances_of_def registry_inv_def
        instances.read_optional_conforming)
  obtain found where found: "find_instance_by_alias_locked C E G selector = Inr found"
    using load_instances_inv [OF inv assms(5)] by (auto simp: find_instance_by_alias_locked_def)
  have lock: "lock_registry E = Inr ()"
    using assms(4) by (simp add: lock_registry_def acquire_lock_def)
  show ?thesis
  proof (cases "instances_of C G selector")
    case None
    then show ?thesis
      using assms(6) read found lock find_instance_by_alias_Some [OF inv]
        find_instance_by_alias_None [OF inv]
      by (cases found) (auto simp: resolve_instance_def)
  qed (use assms(6) read lock in \<open>simp add: resolve_instance_def\<close>)
qed

theorem deployment_id_takes_precedence_witness:
  "case resolve_instance reg_C reg_E reg_full ''prod'' of
      Inr i \<Rightarrow> instances_of reg_C reg_full ''prod'' = Some i \<or>
        instances_of reg_C reg_full ''prod'' = None \<and> inst_alias i = ''prod'' \<and>
        instances_of reg_C reg_full (inst_deployment_id i) = Some i
    | Inl e \<Rightarrow> e = InstanceNotRegistered \<and> instances_of reg_C reg_full ''prod'' = None \<and>
        (\<forall>d i. instances_of reg_C reg_full d = Some i \<longrightarrow> inst_alias i \<noteq> ''prod'')"
  using reg_laws
  by (intro deployment_id_takes_precedence [OF reg_full_reachable]) (auto simp: reg_E_def reg_texts)

text \<open>C19: A registration succeeds only behind evidence that validates: its helper answered with the
  identity of a host already registered under the same alias and transport, and neither the
  deployment nor the alias was in use. The new record binds exactly the deployment, issuer and
  host of the evidence, no controller, and nothing else in the registry changes.\<close>

theorem registration_binds_only_matching_evidence:
  assumes inv: "registry_inv C G"
    and reg: "register_instance C E evidence name ob G = (Inr i, G')"
  shows "verify_remote_hello (rc_externals C) (ev_hello evidence) = Inr (inst_host_id i)
     \<and> (\<exists>h. hosts_of C G (inst_host_id i) = Some h \<and> host_alias h = ev_host_alias evidence
            \<and> host_transport h = ev_transport evidence)
     \<and> inst_deployment_id i = dd_deployment_id (ev_deployment evidence)
     \<and> inst_issuer i = dd_issuer (ev_deployment evidence)
     \<and> inst_controller_id i = None \<and> inst_controller_key_ref i = None
     \<and> instances_of C G (inst_deployment_id i) = None
     \<and> (\<forall>d k. instances_of C G d = Some k \<longrightarrow> inst_alias k \<noteq> inst_alias i)
     \<and> instances_of C G' = (instances_of C G)(inst_deployment_id i \<mapsto> i)
     \<and> hosts_of C G' = hosts_of C G"
proof -
  let ?d = "dd_deployment_id (ev_deployment evidence)"
  let ?a = "case name of None \<Rightarrow> ?d | Some a \<Rightarrow> a"
  obtain h r where ev: "DiscoveryEvidence_validate (rc_externals C) evidence = Inr ()"
    and h: "find_host_by_id_locked C G (ev_host_id evidence) = Inr (Some h)"
      "host_alias h = ev_host_alias evidence" "host_transport h = ev_transport evidence"
    and free: "find_instance_by_deployment_locked C G ?d = Inr None"
      "find_instance_by_alias_locked C E G ?a = Inr None"
    and new: "InstanceRecord_new (rc_externals C) ?d ?a (ev_host_id evidence)
        (dd_issuer (ev_deployment evidence)) = Inr r"
    and w: "write_instance C E ?d (r\<lparr>inst_last_observation := Some ob\<rparr>) G = (Inr i, G')"
    using reg
    by (auto simp: register_instance_def Let_def attempt_def split: sum.splits if_splits)
  have i: "i = r\<lparr>inst_last_observation := Some ob\<rparr>" and G': "G' = put_instance ?d i G"
    using write_instance_Inr [OF w] by auto
  note r = InstanceRecord_new_Inr [OF new] InstanceRecord_new_unbound [OF new]
  have "instances_of C G' = (instances_of C G)(?d \<mapsto> i)"
    unfolding G' using r i by (intro instances_of_put) (simp_all add: instance_ok_def)
  moreover have "verify_remote_hello (rc_externals C) (ev_hello evidence) = Inr (ev_host_id evidence)"
    using ev by (auto simp: DiscoveryEvidence_validate_def rbind_Inr_iff)
  ultimately show ?thesis
    using r i G' h find_instance_by_deployment_None [OF free(1)]
      find_instance_by_alias_None [OF inv free(2)]
    by (simp add: find_host_by_id_Some)
qed

theorem registration_binds_only_matching_evidence_witness:
  "verify_remote_hello (rc_externals reg_C) (ev_hello reg_evidence) = Inr (inst_host_id reg_prod)
     \<and> (\<exists>h. hosts_of reg_C reg_hosts_only (inst_host_id reg_prod) = Some h
            \<and> host_alias h = ev_host_alias reg_evidence
            \<and> host_transport h = ev_transport reg_evidence)
     \<and> inst_deployment_id reg_prod = dd_deployment_id (ev_deployment reg_evidence)
     \<and> inst_issuer reg_prod = dd_issuer (ev_deployment reg_evidence)
     \<and> inst_controller_id reg_prod = None \<and> inst_controller_key_ref reg_prod = None
     \<and> instances_of reg_C reg_hosts_only (inst_deployment_id reg_prod) = None
     \<and> \<not> (\<exists>d k. instances_of reg_C reg_hosts_only d = Some k \<and> inst_alias k = inst_alias reg_prod)
     \<and> instances_of reg_C reg_full =
         (instances_of reg_C reg_hosts_only)(inst_deployment_id reg_prod \<mapsto> reg_prod)
     \<and> hosts_of reg_C reg_full = hosts_of reg_C reg_hosts_only"
  using registration_binds_only_matching_evidence [OF reg_hosts_only_inv reg_register(1)]
  by (elim conjE) (intro conjI; simp)

text \<open>C18: Every call of every operation, however its writes and removals end, is a step of the
  abstract registry: a host keeps the address it was added with (unless the built-in local host
  takes its identity over), an instance appears only under an unused id and alias on a registered
  host, keeps its issuer through every later change, and a host goes only after everything bound
  to it is gone.\<close>

theorem registry_refines_its_specification:
  assumes "registry_inv C G" and "uuid_laws (rc_externals C)" and "origin_laws (rc_externals C)"
  shows "abstract_step (view C G) (view C (snd (registry_call C E call G)))"
  using assms by (cases call) (simp_all add: operation_refines)

theorem registry_refines_its_specification_witness:
  "abstract_step (view reg_C reg_full)
     (view reg_C (snd (registry_call reg_C reg_E (ForgetHost ''edge'' True) reg_full)))"
  using reg_laws by (intro registry_refines_its_specification [OF reg_full_inv]) auto

section \<open>Refused calls\<close>

definition refusal :: "registry \<Rightarrow> (registry_error + 'a) \<times> registry \<Rightarrow> bool" where
  "refusal G r \<longleftrightarrow>
     (\<forall>e. fst r = Inl e \<longrightarrow> e \<noteq> RecordNotPersisted \<longrightarrow> e \<noteq> RecordNotRemoved \<longrightarrow> snd r = G)"

lemma refusal_simps [simp]:
  "refusal G (Inl e, G)"
  "refusal G (Inr a, G')"
  "refusal G (Inl RecordNotPersisted, G')"
  "refusal G (Inl RecordNotRemoved, G')"
  by (simp_all add: refusal_def)

lemma refusal_attempt [simp]:
  "(\<And>a. r = Inr a \<Longrightarrow> refusal G (k a)) \<Longrightarrow> refusal G (attempt r G k)"
  by (cases r) simp_all

lemma refusal_write_record:
  "write_record b out n r dir = (Inl e, dir') \<Longrightarrow> e = RecordNotPersisted \<or> dir' = dir"
  by (auto simp: write_record_def split: if_splits prod.splits bool.splits)

lemma refusal_write [simp]:
  "refusal G (write_host_locked C E h G)"
  "refusal G (write_instance C E d i G)"
  using refusal_write_record
  by (fastforce simp: refusal_def write_host_locked_def write_instance_def rbind_Inl_iff
      split: prod.splits)+

lemma refusal_then [simp]:
  "refusal G p \<Longrightarrow> refusal G (case p of (r, G') \<Rightarrow> (rbind r (\<lambda>a. Inr (f a)), G'))"
  by (cases p; cases "fst p") (auto simp: refusal_def)

text \<open>C20: A call that fails for any reason other than a write or removal that did not complete
  leaves the registry exactly as it was: lock contention, failing guards, records that do not
  validate, duplicates, unknown names and oversized records change nothing.\<close>

theorem refused_calls_change_nothing:
  assumes "registry_call C E call G = (Some e, G')"
    and "e \<noteq> RecordNotPersisted" and "e \<noteq> RecordNotRemoved"
  shows "G' = G"
proof -
  have all: "refusal G (ensure_local_host C E G)" "refusal G (add_host C E h G)"
    "refusal G (set_host_observation C E a ob G)" "refusal G (forget_host C E name cascade G)"
    "refusal G (register_instance C E evidence name' ob G)"
    "refusal G (rename_instance C E name name2 G)"
    "refusal G (set_oidf_configuration C E d dom origin G)"
    "refusal G (set_instance_observation C E d ob G)"
    "refusal G (update_controller_binding C E d cid key_ref G)"
    "refusal G (set_backup_before_update C E d policy G)"
    "refusal G (relocate_instance C E d a G)"
    "refusal G (forget_instance_by_deployment C E d G)"
    for h a ob name cascade evidence name' name2 d dom origin cid key_ref policy
    by (simp_all add: ensure_local_host_def add_host_def set_host_observation_def forget_host_def
        register_instance_def rename_instance_def set_oidf_configuration_def
        set_instance_observation_def update_controller_binding_def set_backup_before_update_def
        relocate_instance_def forget_instance_by_deployment_def Let_def
        split: option.split prod.split bool.split)
  show ?thesis
    using assms all by (cases call) (auto simp: refusal_def failed_with_def split: sum.splits)
qed

text \<open>The refusal of a host that instances are still bound to.\<close>

theorem refused_calls_change_nothing_witness:
  "fst (registry_call reg_C reg_E (ForgetHost ''edge'' False) reg_full) =
     Some (HostStillReferenced [''prod'']) \<and>
   snd (registry_call reg_C reg_E (ForgetHost ''edge'' False) reg_full) = reg_full"
proof -
  have f: "fst (registry_call reg_C reg_E (ForgetHost ''edge'' False) reg_full) =
      Some (HostStillReferenced [''prod''])"
    using reg_records_ok by (simp add: forget_host_def reg_run reg_register reg_hosts_eq Let_def)
  then have "registry_call reg_C reg_E (ForgetHost ''edge'' False) reg_full =
      (Some (HostStillReferenced [''prod'']),
       snd (registry_call reg_C reg_E (ForgetHost ''edge'' False) reg_full))"
    by (metis prod.collapse)
  from refused_calls_change_nothing [OF this] f show ?thesis by simp
qed

section \<open>The local host takes over an SSH record\<close>

text \<open>
  \<open>add_host\<close> refuses a second record for one target identity; \<open>ensure_local_host\<close> does not look.
  Where the control machine was first added over SSH, creating the built-in host overwrites that
  record: the alias \<open>edge\<close> is gone, and instances bound to it are on the local host.
\<close>

definition reg_loopback :: registry where
  "reg_loopback = snd (registry_call reg_C (reg_E\<lparr>re_local_hello := Some (reg_hello ''u2'')\<rparr>)
     EnsureLocalHost (reg_full\<lparr>rg_hosts := [(''u2.json'', Record reg_ssh)]\<rparr>))"

lemma local_host_replaces_an_ssh_record:
  "hosts_of reg_C reg_loopback ''u2'' = Some (HostRecord_new_local ''u2'') \<and>
   find_host_by_alias_locked reg_C reg_E reg_loopback ''edge'' = Inr None \<and>
   instances_of reg_C reg_loopback ''prod'' = Some reg_prod"
proof -
  have "verify_remote_hello reg_X (reg_hello ''u2'') = Inr ''u2''"
    by (rule reg_hello_ok) (simp add: reg_X_def)
  then have "rg_hosts reg_loopback = [(''u2.json'', Record (HostRecord_new_local ''u2''))] \<and>
      rg_instances reg_loopback = [(''prod.json'', Record reg_prod)]"
    using reg_records_ok
    by (simp add: reg_loopback_def ensure_local_host_def local_target_id_def reg_run Let_def
        reg_register LOCAL_HOST_ALIAS_def registry.defs)
  moreover have "HostRecord_validate reg_X (HostRecord_new_local ''u2'') = Inr ()"
    using reg_texts(1)
    by (simp add: HostRecord_validate_def HostRecord_new_local_def reg_X_def LOCAL_HOST_ALIAS_def)
  ultimately show ?thesis
    using reg_records_ok
    by (simp add: hosts_of_def instances_of_def stored_def reg_run)
qed

end
