(* ===== verification/KeyStore.thy ===== *)
theory KeyStore
  imports RegistryOps
begin

text \<open>
  The controller key directory of one deployment (\<open>src/src/controller_identity/store.rs\<close>): key
  records named after the digest of their public key, and the pointer that selects the active
  one. The operation journal of the deployment lives in the same directory under the same lock,
  so the directory record has a slot for it.

  Base64, Ed25519 and the key digest come from crates and are the record \<open>key_crypto\<close>.
\<close>

type_synonym bytes = "8 word list"

section \<open>Records and files\<close>

record KeyRecord =
  kr_schema :: nat
  kr_kid :: string
  kr_public_key :: string
  kr_private_key :: string
  kr_created_at :: time

record ControllerKeySummary =
  sum_kid :: string
  sum_public_key :: string
  sum_created_at :: time
  sum_active :: bool

record ActivePointer =
  ap_schema :: nat
  ap_active_kid :: string

record LoadedControllerKey =
  lk_kid :: string
  lk_signing_key :: bytes

record ValidatedKeyRecord =
  vk_loaded :: LoadedControllerKey
  vk_public_key :: string
  vk_created_at :: time

definition CONTROLLER_KEY_STORE_SCHEMA :: nat where "CONTROLLER_KEY_STORE_SCHEMA = 1"

definition into_summary :: "ValidatedKeyRecord \<Rightarrow> bool \<Rightarrow> ControllerKeySummary" where
  "into_summary v active =
     \<lparr>sum_kid = lk_kid (vk_loaded v), sum_public_key = vk_public_key v,
      sum_created_at = vk_created_at v, sum_active = active\<rparr>"

text \<open>
  \<open>decode32\<close> is \<open>URL_SAFE_NO_PAD.decode_slice\<close> into a buffer of 32 bytes: the bytes written, if
  it succeeds. \<open>public_of\<close> is the public key of a seed, \<open>kid_of\<close> is \<open>controller_key_id\<close>.
\<close>

record key_crypto =
  decode32 :: "string \<Rightarrow> bytes option"
  encode_b64 :: "bytes \<Rightarrow> string"
  public_of :: "bytes \<Rightarrow> bytes"
  kid_of :: "bytes \<Rightarrow> string"

text \<open>
  The instance directory: the files of \<open>keys/\<close> (a missing subdirectory holds none), the pointer
  \<open>active.json\<close> and the slot of \<open>operation-journal.json\<close>. Real key records and pointers are far
  below the limits of the secure reader, so a document here is one within its limit.
\<close>

record 'j instance_dir =
  id_keys :: "KeyRecord directory"
  id_active :: "ActivePointer record_file option"
  id_journal :: "'j record_file option"

definition empty_dir :: "'j instance_dir" where
  "empty_dir = \<lparr>id_keys = [], id_active = None, id_journal = None\<rparr>"

text \<open>What one call meets: the instance lock, directories, randomness, the clock, its writes.\<close>

record key_env =
  ke_held :: bool
  ke_dirs_ok :: bool
  ke_listable :: bool
  ke_seed :: bytes
  ke_now :: time
  ke_commit :: commit
  ke_commit_2 :: commit

datatype key_fault =
    KeyMissing | KeyUnsafe | KeyUnparsable | KeySchema nat | KeyMisnamed | PrivateNotB64
  | PrivateNot32 | PublicNot32 | KidMismatch | PublicMismatch | PointerUnsafe | PointerUnparsable
  | PointerSchema nat | PointerKid violation | ActiveRecordMissing

datatype key_error =
    KeyInstance violation
  | KeyLocked
  | KeyDirectoryRejected
  | KeyShape violation
  | KeyReset key_fault
  | KeyExists
  | KeyNotPersisted
  | PointerNotPersisted
  | PointerNotCleared
  | KeyListFailed
  | KeyStillActive
  | KeyNotRetired
  | InstanceNotRemoved

section \<open>One file\<close>

definition put_one :: "commit \<Rightarrow> 'f \<Rightarrow> 'f option \<Rightarrow> bool \<times> 'f option" where
  "put_one outcome content path =
     (case outcome of
        Rejected \<Rightarrow> (False, path) | Unsynced \<Rightarrow> (False, Some content) | Committed \<Rightarrow> (True, Some content))"

definition drop_one :: "commit \<Rightarrow> 'f option \<Rightarrow> bool \<times> 'f option" where
  "drop_one outcome path =
     (case outcome of
        Rejected \<Rightarrow> (False, path)
      | Unsynced \<Rightarrow> if path = None then (True, None) else (False, None)
      | Committed \<Rightarrow> (True, None))"

lemma put_one_refines:
  "atomic_write out () v (\<lambda>_. p) = (fst (put_one out v p), \<lambda>_. snd (put_one out v p))"
  by (cases out) (auto simp: atomic_write_def put_one_def)

lemma drop_one_refines:
  "remove_file_durable out () (\<lambda>_. p) = (fst (drop_one out p), \<lambda>_. snd (drop_one out p))"
  by (cases out) (auto simp: remove_file_durable_def drop_one_def)

section \<open>Reading\<close>

definition read_key_record ::
  "key_crypto \<Rightarrow> 'j instance_dir \<Rightarrow> string \<Rightarrow> key_error + ValidatedKeyRecord" where
  "read_key_record K D kid =
     rbind (map_err KeyShape (validate_kid_shape kid)) (\<lambda>_.
       case map_of (id_keys D) (record_path kid) of
         None \<Rightarrow> Inl (KeyReset KeyMissing)
       | Some Unsafe \<Rightarrow> Inl (KeyReset KeyUnsafe)
       | Some Unparsable \<Rightarrow> Inl (KeyReset KeyUnparsable)
       | Some (Record r) \<Rightarrow>
           if kr_schema r \<noteq> CONTROLLER_KEY_STORE_SCHEMA then Inl (KeyReset (KeySchema (kr_schema r)))
           else if kr_kid r \<noteq> kid then Inl (KeyReset KeyMisnamed)
           else (case decode32 K (kr_private_key r) of
               None \<Rightarrow> Inl (KeyReset PrivateNotB64)
             | Some seed \<Rightarrow>
                 if length seed \<noteq> 32 then Inl (KeyReset PrivateNot32)
                 else (case decode32 K (kr_public_key r) of
                     None \<Rightarrow> Inl (KeyReset PublicNot32)
                   | Some public \<Rightarrow>
                       if length public \<noteq> 32 then Inl (KeyReset PublicNot32)
                       else if kid_of K (public_of K seed) \<noteq> kr_kid r then Inl (KeyReset KidMismatch)
                       else if public_of K seed \<noteq> public then Inl (KeyReset PublicMismatch)
                       else Inr \<lparr>vk_loaded = \<lparr>lk_kid = kr_kid r, lk_signing_key = seed\<rparr>,
                              vk_public_key = kr_public_key r, vk_created_at = kr_created_at r\<rparr>)))"

definition read_active_pointer :: "'j instance_dir \<Rightarrow> key_error + ActivePointer option" where
  "read_active_pointer D =
     (case id_active D of
        None \<Rightarrow> Inr None
      | Some Unsafe \<Rightarrow> Inl (KeyReset PointerUnsafe)
      | Some Unparsable \<Rightarrow> Inl (KeyReset PointerUnparsable)
      | Some (Record p) \<Rightarrow>
          if ap_schema p \<noteq> CONTROLLER_KEY_STORE_SCHEMA then Inl (KeyReset (PointerSchema (ap_schema p)))
          else (case validate_kid_shape (ap_active_kid p) of
              Inl v \<Rightarrow> Inl (KeyReset (PointerKid v))
            | Inr _ \<Rightarrow> Inr (Some p)))"

text \<open>The deployment id names a directory of the store, and the instance lock must be free.\<close>

definition enter_instance :: "key_env \<Rightarrow> string \<Rightarrow> key_error + unit" where
  "enter_instance E deployment_id =
     rbind (map_err KeyInstance (validate_instance_identifier deployment_id))
       (\<lambda>_. require (acquire_lock (\<lambda>_ :: unit. ke_held E) ()) KeyLocked)"

definition load_active ::
  "key_crypto \<Rightarrow> key_env \<Rightarrow> string \<Rightarrow> 'j instance_dir \<Rightarrow> key_error + LoadedControllerKey option" where
  "load_active K E deployment_id D =
     rbind (enter_instance E deployment_id) (\<lambda>_.
       rbind (read_active_pointer D) (\<lambda>pointer.
         case pointer of
           None \<Rightarrow> Inr None
         | Some p \<Rightarrow> rbind (read_key_record K D (ap_active_kid p)) (\<lambda>k. Inr (Some (vk_loaded k)))))"

definition public_key ::
  "key_crypto \<Rightarrow> key_env \<Rightarrow> string \<Rightarrow> string \<Rightarrow> 'j instance_dir \<Rightarrow> key_error + string" where
  "public_key K E deployment_id kid D =
     rbind (enter_instance E deployment_id) (\<lambda>_.
       rbind (read_key_record K D kid) (\<lambda>k. Inr (vk_public_key k)))"

fun summarize_keys ::
  "key_crypto \<Rightarrow> 'j instance_dir \<Rightarrow> string option \<Rightarrow> KeyRecord directory
   \<Rightarrow> key_error + ControllerKeySummary list" where
  "summarize_keys K D active_kid [] = Inr []"
| "summarize_keys K D active_kid ((name, _) # entries) =
     (case record_stem name of
        None \<Rightarrow> summarize_keys K D active_kid entries
      | Some stem \<Rightarrow>
          rbind (read_key_record K D stem) (\<lambda>k.
            rbind (summarize_keys K D active_kid entries) (\<lambda>rest.
              Inr (into_summary k (active_kid = Some stem) # rest))))"

definition list_keys ::
  "key_crypto \<Rightarrow> key_env \<Rightarrow> string \<Rightarrow> 'j instance_dir \<Rightarrow> key_error + ControllerKeySummary list" where
  "list_keys K E deployment_id D =
     rbind (enter_instance E deployment_id) (\<lambda>_.
       rbind (read_active_pointer D) (\<lambda>pointer.
         let active_kid = map_option ap_active_kid pointer
         in if \<not> ke_listable E then Inl KeyListFailed
            else rbind (summarize_keys K D active_kid (id_keys D)) (\<lambda>summaries.
              if active_kid \<noteq> None \<and> \<not> list_ex sum_active summaries
              then Inl (KeyReset ActiveRecordMissing)
              else Inr (sort_key sum_created_at summaries))))"

section \<open>Changing the directory\<close>

text \<open>\<open>generate_candidate_locked\<close>: a record that exists, in whatever state, is never overwritten.\<close>

definition generate_candidate_locked ::
  "key_crypto \<Rightarrow> key_env \<Rightarrow> 'j instance_dir \<Rightarrow> (key_error + ValidatedKeyRecord) \<times> 'j instance_dir" where
  "generate_candidate_locked K E D =
     (let public = public_of K (ke_seed E);
          r = \<lparr>kr_schema = CONTROLLER_KEY_STORE_SCHEMA, kr_kid = kid_of K public,
               kr_public_key = encode_b64 K public, kr_private_key = encode_b64 K (ke_seed E),
               kr_created_at = ke_now E\<rparr>
      in if map_of (id_keys D) (record_path (kr_kid r)) \<noteq> None then (Inl KeyExists, D)
         else case put_file (ke_commit E) (record_path (kr_kid r)) (Record r) (id_keys D) of
           (False, keys) \<Rightarrow> (Inl KeyNotPersisted, D\<lparr>id_keys := keys\<rparr>)
         | (True, keys) \<Rightarrow>
             (Inr \<lparr>vk_loaded = \<lparr>lk_kid = kr_kid r, lk_signing_key = ke_seed E\<rparr>,
                vk_public_key = kr_public_key r, vk_created_at = kr_created_at r\<rparr>,
              D\<lparr>id_keys := keys\<rparr>))"

definition generate_candidate ::
  "key_crypto \<Rightarrow> key_env \<Rightarrow> string \<Rightarrow> 'j instance_dir
   \<Rightarrow> (key_error + ControllerKeySummary) \<times> 'j instance_dir" where
  "generate_candidate K E deployment_id D =
     (case map_err KeyInstance (validate_instance_identifier deployment_id) of
        Inl e \<Rightarrow> (Inl e, D)
      | Inr _ \<Rightarrow>
          if \<not> ke_dirs_ok E then (Inl KeyDirectoryRejected, D)
          else if \<not> acquire_lock (\<lambda>_ :: unit. ke_held E) () then (Inl KeyLocked, D)
          else case generate_candidate_locked K E D of
            (r, D') \<Rightarrow> (rbind r (\<lambda>v. Inr (into_summary v False)), D'))"

definition write_active_pointer ::
  "commit \<Rightarrow> string \<Rightarrow> 'j instance_dir \<Rightarrow> (key_error + unit) \<times> 'j instance_dir" where
  "write_active_pointer outcome kid D =
     (case put_one outcome
             (Record \<lparr>ap_schema = CONTROLLER_KEY_STORE_SCHEMA, ap_active_kid = kid\<rparr>) (id_active D) of
        (True, p) \<Rightarrow> (Inr (), D\<lparr>id_active := p\<rparr>)
      | (False, p) \<Rightarrow> (Inl PointerNotPersisted, D\<lparr>id_active := p\<rparr>))"

definition set_active_kid ::
  "key_crypto \<Rightarrow> key_env \<Rightarrow> string \<Rightarrow> string \<Rightarrow> 'j instance_dir
   \<Rightarrow> (key_error + unit) \<times> 'j instance_dir" where
  "set_active_kid K E deployment_id kid D =
     attempt (enter_instance E deployment_id) D (\<lambda>_.
       attempt (read_key_record K D kid) D (\<lambda>k.
         write_active_pointer (ke_commit E) (lk_kid (vk_loaded k)) D))"

definition get_or_create_active ::
  "key_crypto \<Rightarrow> key_env \<Rightarrow> string \<Rightarrow> 'j instance_dir
   \<Rightarrow> (key_error + LoadedControllerKey) \<times> 'j instance_dir" where
  "get_or_create_active K E deployment_id D =
     attempt (enter_instance E deployment_id) D (\<lambda>_.
       attempt (read_active_pointer D) D (\<lambda>pointer.
         case pointer of
           Some p \<Rightarrow> (rbind (read_key_record K D (ap_active_kid p)) (\<lambda>k. Inr (vk_loaded k)), D)
         | None \<Rightarrow>
             if \<not> ke_dirs_ok E then (Inl KeyDirectoryRejected, D)
             else case generate_candidate_locked K E D of
               (Inl e, D1) \<Rightarrow> (Inl e, D1)
             | (Inr candidate, D1) \<Rightarrow>
                 (case write_active_pointer (ke_commit_2 E) (lk_kid (vk_loaded candidate)) D1 of
                    (Inl e, D2) \<Rightarrow> (Inl e, D2)
                  | (Inr _, D2) \<Rightarrow> (Inr (vk_loaded candidate), D2))))"

definition clear_active ::
  "key_env \<Rightarrow> string \<Rightarrow> 'j instance_dir \<Rightarrow> (key_error + unit) \<times> 'j instance_dir" where
  "clear_active E deployment_id D =
     attempt (enter_instance E deployment_id) D (\<lambda>_.
       case drop_one (ke_commit E) (id_active D) of
         (True, p) \<Rightarrow> (Inr (), D\<lparr>id_active := p\<rparr>)
       | (False, p) \<Rightarrow> (Inl PointerNotCleared, D\<lparr>id_active := p\<rparr>))"

definition retire_kid ::
  "key_crypto \<Rightarrow> key_env \<Rightarrow> string \<Rightarrow> string \<Rightarrow> 'j instance_dir
   \<Rightarrow> (key_error + unit) \<times> 'j instance_dir" where
  "retire_kid K E deployment_id kid D =
     attempt (enter_instance E deployment_id) D (\<lambda>_.
       attempt (read_active_pointer D) D (\<lambda>pointer.
         if map_option ap_active_kid pointer = Some kid then (Inl KeyStillActive, D)
         else attempt (read_key_record K D kid) D (\<lambda>_.
           case drop_file (ke_commit E) (record_path kid) (id_keys D) of
             (True, keys) \<Rightarrow> (Inr (), D\<lparr>id_keys := keys\<rparr>)
           | (False, keys) \<Rightarrow> (Inl KeyNotRetired, D\<lparr>id_keys := keys\<rparr>))))"

text \<open>
  \<open>remove_instance\<close> empties the directory, artifact by artifact in the order the directory is
  listed; lock files stay. Deleting the subdirectory \<open>keys\<close> is not atomic: a failure leaves the
  files the environment names. (A directory that does not exist is success without a lock.)
\<close>

datatype artifact = KeysDirectory | ActiveFile | JournalFile

datatype removal = Removed | NotRemoved "string list"

definition remove_artifact :: "removal \<Rightarrow> artifact \<Rightarrow> 'j instance_dir \<Rightarrow> bool \<times> 'j instance_dir" where
  "remove_artifact outcome a D =
     (case a of
        ActiveFile \<Rightarrow> (case outcome of
            Removed \<Rightarrow> (True, D\<lparr>id_active := None\<rparr>)
          | NotRemoved left \<Rightarrow>
              (False, if ''active.json'' \<in> set left then D else D\<lparr>id_active := None\<rparr>))
      | JournalFile \<Rightarrow> (case outcome of
            Removed \<Rightarrow> (True, D\<lparr>id_journal := None\<rparr>)
          | NotRemoved left \<Rightarrow>
              (False, if ''operation-journal.json'' \<in> set left then D else D\<lparr>id_journal := None\<rparr>))
      | KeysDirectory \<Rightarrow> (case outcome of
            Removed \<Rightarrow> (True, D\<lparr>id_keys := []\<rparr>)
          | NotRemoved left \<Rightarrow> (False, D\<lparr>id_keys := filter (\<lambda>(n, _). n \<in> set left) (id_keys D)\<rparr>)))"

fun remove_artifacts ::
  "(artifact \<Rightarrow> removal) \<Rightarrow> artifact list \<Rightarrow> 'j instance_dir \<Rightarrow> (key_error + unit) \<times> 'j instance_dir" where
  "remove_artifacts outcomes [] D = (Inr (), D)"
| "remove_artifacts outcomes (a # as) D =
     (case remove_artifact (outcomes a) a D of
        (False, D') \<Rightarrow> (Inl InstanceNotRemoved, D')
      | (True, D') \<Rightarrow> remove_artifacts outcomes as D')"

definition remove_instance ::
  "(artifact \<Rightarrow> removal) \<Rightarrow> artifact list \<Rightarrow> key_env \<Rightarrow> string \<Rightarrow> 'j instance_dir
   \<Rightarrow> (key_error + unit) \<times> 'j instance_dir" where
  "remove_instance outcomes listing E deployment_id D =
     (case map_err KeyInstance (validate_instance_identifier deployment_id) of
        Inl e \<Rightarrow> (Inl e, D)
      | Inr _ \<Rightarrow>
          if \<not> ke_dirs_ok E then (Inl KeyDirectoryRejected, D)
          else if \<not> acquire_lock (\<lambda>_ :: unit. ke_held E) () then (Inl KeyLocked, D)
          else if \<not> ke_listable E then (Inl KeyListFailed, D)
          else remove_artifacts outcomes listing D)"

end
