(* ===== verification/OperationJournal.thy ===== *)
theory OperationJournal
  imports KeyStore
begin

text \<open>
  The controller's single-slot operation journal
  (\<open>src/src/controller_identity/journal.rs\<close>) and the construction of a signed control operation
  (\<open>src/src/controller_identity/operation.rs\<close>).

  The protocol crate is the record \<open>protocol\<close>: canonical bytes, request hash, signing, and what a
  compact JWS says in its header and payload.
\<close>

section \<open>Journal entries\<close>

datatype JournalState = Dispatched | Accepted

record OperationJournalEntry =
  oj_schema :: nat
  oj_operation_id :: string
  oj_request_hash :: string
  oj_kid :: string
  oj_compact_jws :: string
  oj_created_at :: time
  oj_state :: JournalState

definition OPERATION_JOURNAL_SCHEMA :: nat where "OPERATION_JOURNAL_SCHEMA = 2"

definition OperationJournalEntry_new ::
  "time \<Rightarrow> string \<Rightarrow> string \<Rightarrow> string \<Rightarrow> string \<Rightarrow> OperationJournalEntry" where
  "OperationJournalEntry_new now operation_id request_hash kid compact_jws =
     \<lparr>oj_schema = OPERATION_JOURNAL_SCHEMA, oj_operation_id = operation_id,
      oj_request_hash = request_hash, oj_kid = kid, oj_compact_jws = compact_jws,
      oj_created_at = now, oj_state = Dispatched\<rparr>"

definition has_same_identity :: "OperationJournalEntry \<Rightarrow> OperationJournalEntry \<Rightarrow> bool" where
  "has_same_identity a b \<longleftrightarrow>
     oj_operation_id a = oj_operation_id b \<and> oj_request_hash a = oj_request_hash b
     \<and> oj_kid a = oj_kid b \<and> oj_compact_jws a = oj_compact_jws b"

section \<open>The operator protocol\<close>

text \<open>
  The operations of the protocol that the program names. What a variant carries is opaque to it
  and is the type \<open>'a\<close>; the data of a result is the type \<open>'r\<close>.
\<close>

datatype 'a ControlOperationPayload =
    MigrateApply
  | KeysList
  | KeysValidate
  | KeysGenerateLocal 'a
  | KeysRegisterExternal 'a
  | TenantKeysGenerateLocal 'a
  | TenantResourceApply 'a
  | TenantResourceEnumerate 'a
  | TenantResourceRevoke 'a
  | RecoveryInvalidate 'a
  | TenantDirectoryCreate 'a
  | TenantDirectoryUpdate 'a
  | TenantDirectoryDisable 'a
  | TenantDirectoryReload 'a
  | TenantDirectoryFinalize 'a
  | TenantDirectoryDescribe

datatype 'r ControlResultData =
    MigrationApplied 'r
  | TenantKeyGenerated 'r
  | TenantResourceApplied 'r
  | TenantResourceEnumerated 'r
  | TenantResourceRevoked 'r
  | RecoveryInvalidation 'r
  | TenantDirectoryMutation 'r
  | TenantDirectoryDescribed 'r

datatype ControlOutcome = InProgress | OutcomeSucceeded | OutcomeFailed

record 'r ControlResult =
  cr_operation_id :: string
  cr_request_hash :: string
  cr_outcome :: ControlOutcome
  cr_result :: "'r ControlResultData option"

record 'a ControlOperation =
  co_schema :: nat
  co_operation_id :: string
  co_kid :: string
  co_deployment_id :: string
  co_config_revision :: string
  co_operation :: "'a ControlOperationPayload"

text \<open>
  \<open>protected_header\<close> gives the kid and the type of a compact JWS; \<open>decode_payload\<close> is the unpadded
  base64url decoding of a segment; \<open>sign_control_operation\<close> gives the compact JWS and the request
  hash; \<open>control_result_ok\<close> is \<open>validate_control_result\<close>.
\<close>

record ('a, 'r) protocol =
  protected_header :: "string \<Rightarrow> (string \<times> string) option"
  CONTROL_OPERATION_JWS_TYPE :: string
  CONTROL_OPERATION_SCHEMA :: nat
  canonical_control_operation_bytes :: "'a ControlOperation \<Rightarrow> string option"
  control_operation_request_hash :: "string \<Rightarrow> string"
  sign_control_operation :: "'a ControlOperation \<Rightarrow> bytes \<Rightarrow> (string \<times> string) option"
  decode_payload :: "string \<Rightarrow> string option"
  control_result_ok :: "'r ControlResult \<Rightarrow> bool"

section \<open>The slot\<close>

datatype journal_fault =
    JournalUnsafe | JournalUnparsable | JournalSchema nat | JournalFields | JournalJws
  | JournalBinding

datatype slot_error =
    SlotReset journal_fault
  | SlotNotFresh
  | SlotLocked
  | SlotContentDiffers
  | SlotAlreadyAccepted
  | SlotOccupied
  | SlotAbsent
  | SlotChanged
  | SlotNotPersisted
  | SlotNotCleared

definition validate_journal_entry ::
  "externals \<Rightarrow> ('a, 'r) protocol \<Rightarrow> OperationJournalEntry \<Rightarrow> slot_error + unit" where
  "validate_journal_entry X P e =
     (if oj_schema e \<noteq> OPERATION_JOURNAL_SCHEMA then Inl (SlotReset (JournalSchema (oj_schema e)))
      else if uuid_version X (oj_operation_id e) \<noteq> Some 7
        \<or> \<not> (length (oj_request_hash e) = 64 \<and> list_all is_lower_hex (oj_request_hash e))
        \<or> validate_kid_shape (oj_kid e) \<noteq> Inr ()
      then Inl (SlotReset JournalFields)
      else case protected_header P (oj_compact_jws e) of
          None \<Rightarrow> Inl (SlotReset JournalJws)
        | Some (kid, typ) \<Rightarrow>
            if kid \<noteq> oj_kid e \<or> typ \<noteq> CONTROL_OPERATION_JWS_TYPE P
            then Inl (SlotReset JournalBinding) else Inr ())"

type_synonym slot = "OperationJournalEntry record_file option"

definition load_slot ::
  "externals \<Rightarrow> ('a, 'r) protocol \<Rightarrow> slot \<Rightarrow> slot_error + OperationJournalEntry option" where
  "load_slot X P path =
     (case path of
        None \<Rightarrow> Inr None
      | Some Unsafe \<Rightarrow> Inl (SlotReset JournalUnsafe)
      | Some Unparsable \<Rightarrow> Inl (SlotReset JournalUnparsable)
      | Some (Record e) \<Rightarrow> rbind (validate_journal_entry X P e) (\<lambda>_. Inr (Some e)))"

text \<open>A call of the journal meets the instance lock and its write.\<close>

record slot_env =
  se_held :: bool
  se_commit :: commit

definition lock_slot :: "slot_env \<Rightarrow> slot_error + unit" where
  "lock_slot E = require (acquire_lock (\<lambda>_ :: unit. se_held E) ()) SlotLocked"

definition write_slot ::
  "slot_env \<Rightarrow> OperationJournalEntry \<Rightarrow> slot \<Rightarrow> (slot_error + unit) \<times> slot" where
  "write_slot E e path =
     (case put_one (se_commit E) (Record e) path of
        (True, p) \<Rightarrow> (Inr (), p) | (False, p) \<Rightarrow> (Inl SlotNotPersisted, p))"

definition remove_slot :: "slot_env \<Rightarrow> slot \<Rightarrow> (slot_error + unit) \<times> slot" where
  "remove_slot E path =
     (case drop_one (se_commit E) path of
        (True, p) \<Rightarrow> (Inr (), p) | (False, p) \<Rightarrow> (Inl SlotNotCleared, p))"

definition record_dispatched ::
  "externals \<Rightarrow> ('a, 'r) protocol \<Rightarrow> slot_env \<Rightarrow> OperationJournalEntry \<Rightarrow> slot
   \<Rightarrow> (slot_error + unit) \<times> slot" where
  "record_dispatched X P E e path =
     attempt (validate_journal_entry X P e) path (\<lambda>_.
       if oj_state e \<noteq> Dispatched then (Inl SlotNotFresh, path)
       else attempt (lock_slot E) path (\<lambda>_.
         attempt (load_slot X P path) path (\<lambda>existing.
           case existing of
             None \<Rightarrow> write_slot E e path
           | Some x \<Rightarrow>
               if oj_operation_id x = oj_operation_id e
               then if \<not> has_same_identity x e then (Inl SlotContentDiffers, path)
                 else if oj_state x \<noteq> Dispatched then (Inl SlotAlreadyAccepted, path)
                 else (Inr (), path)
               else (Inl SlotOccupied, path))))"

definition mark_accepted_if_matches ::
  "externals \<Rightarrow> ('a, 'r) protocol \<Rightarrow> slot_env \<Rightarrow> OperationJournalEntry \<Rightarrow> slot
   \<Rightarrow> (slot_error + unit) \<times> slot" where
  "mark_accepted_if_matches X P E expected path =
     attempt (lock_slot E) path (\<lambda>_.
       attempt (load_slot X P path) path (\<lambda>existing.
         case existing of
           None \<Rightarrow> (Inl SlotAbsent, path)
         | Some e \<Rightarrow>
             if \<not> has_same_identity e expected then (Inl SlotChanged, path)
             else if oj_state e = Accepted then (Inr (), path)
             else write_slot E (e\<lparr>oj_state := Accepted\<rparr>) path))"

definition clear_if_matches ::
  "externals \<Rightarrow> ('a, 'r) protocol \<Rightarrow> slot_env \<Rightarrow> OperationJournalEntry \<Rightarrow> slot
   \<Rightarrow> (slot_error + unit) \<times> slot" where
  "clear_if_matches X P E expected path =
     attempt (lock_slot E) path (\<lambda>_.
       attempt (load_slot X P path) path (\<lambda>existing.
         case existing of
           None \<Rightarrow> (Inl SlotAbsent, path)
         | Some e \<Rightarrow>
             if \<not> has_same_identity e expected then (Inl SlotChanged, path)
             else remove_slot E path))"

definition clear_slot :: "slot_env \<Rightarrow> slot \<Rightarrow> (slot_error + unit) \<times> slot" where
  "clear_slot E path = attempt (lock_slot E) path (\<lambda>_. remove_slot E path)"

section \<open>Building a control operation\<close>

record 'a ControlOperationInput =
  ci_operation :: "'a ControlOperationPayload"
  ci_config_revision :: string

record 'a SignedControlOperation =
  sg_operation :: "'a ControlOperation"
  sg_compact_jws :: string
  sg_request_hash :: string

datatype sign_error =
    BindingRequired
  | KeyRefRule
  | KeyRefInstance violation
  | KeyRefForeign
  | KeyStoreFailed key_error
  | NoActiveKey
  | SigningFailed

definition CONTROLLER_KEY_REF_PREFIX :: string where
  "CONTROLLER_KEY_REF_PREFIX = ''controller-keys/''"

definition deployment_from_key_ref :: "string \<Rightarrow> sign_error + string" where
  "deployment_from_key_ref key_ref =
     (let n = length CONTROLLER_KEY_REF_PREFIX
      in if take n key_ref \<noteq> CONTROLLER_KEY_REF_PREFIX then Inl KeyRefRule
         else rbind (map_err KeyRefInstance (validate_instance_identifier (drop n key_ref)))
           (\<lambda>_. Inr (drop n key_ref)))"

definition validate_record_key_ref :: "InstanceRecord \<Rightarrow> sign_error + unit" where
  "validate_record_key_ref i =
     (case inst_controller_key_ref i of
        None \<Rightarrow> Inl BindingRequired
      | Some key_ref \<Rightarrow>
          rbind (deployment_from_key_ref key_ref)
            (\<lambda>ref_deployment. require (ref_deployment = inst_deployment_id i) KeyRefForeign))"

definition build_control_operation_with_id_and_kid ::
  "('a, 'r) protocol \<Rightarrow> string \<Rightarrow> 'a ControlOperationInput \<Rightarrow> string \<Rightarrow> string \<Rightarrow> 'a ControlOperation" where
  "build_control_operation_with_id_and_kid P deployment_id input operation_id kid =
     \<lparr>co_schema = CONTROL_OPERATION_SCHEMA P, co_operation_id = operation_id, co_kid = kid,
      co_deployment_id = deployment_id, co_config_revision = ci_config_revision input,
      co_operation = ci_operation input\<rparr>"

text \<open>\<open>operation_id\<close> is the UUIDv7 the call mints.\<close>

definition build_signed_control_operation_for_record ::
  "key_crypto \<Rightarrow> ('a, 'r) protocol \<Rightarrow> key_env \<Rightarrow> string \<Rightarrow> 'j instance_dir \<Rightarrow> InstanceRecord
   \<Rightarrow> 'a ControlOperationInput \<Rightarrow> sign_error + 'a SignedControlOperation" where
  "build_signed_control_operation_for_record K P E operation_id D i input =
     rbind (validate_record_key_ref i) (\<lambda>_.
       rbind (map_err KeyStoreFailed (load_active K E (inst_deployment_id i) D)) (\<lambda>active.
         case active of
           None \<Rightarrow> Inl NoActiveKey
         | Some loaded \<Rightarrow>
             let operation = build_control_operation_with_id_and_kid P (inst_deployment_id i) input
               operation_id (lk_kid loaded)
             in (case sign_control_operation P operation (lk_signing_key loaded) of
                   None \<Rightarrow> Inl SigningFailed
                 | Some (jws, request_hash) \<Rightarrow>
                     Inr \<lparr>sg_operation = operation, sg_compact_jws = jws,
                          sg_request_hash = request_hash\<rparr>)))"

end
