(* ===== verification/ControlDispatch.thy ===== *)
theory ControlDispatch
  imports OperationJournal
begin

text \<open>
  One authorization per control operation (\<open>src/src/controller_identity/dispatch.rs\<close>): an
  operation is prepared from the journal or signed afresh, dispatched, its receipt classified,
  and the journal settled. The receipt of a target answer is
  \<open>control_operation_receipt\<close> of \<open>src/src/target/mod.rs\<close>.
\<close>

section \<open>Prepared operations\<close>

datatype AttemptKind = Fresh | Resumed

record 'a PreparedOperation =
  pp_signed :: "'a SignedControlOperation"
  pp_kind :: AttemptKind

record ControlOperationRequest =
  rq_operation_id :: string
  rq_deployment_id :: string
  rq_compact_jws :: string
  rq_change_set :: "SecretMaterial option"

record 'r ControlOperationReceipt =
  rp_operation_id :: string
  rp_accepted :: bool
  rp_result :: "'r ControlResult option"
  rp_rejection_code :: "string option"

datatype 'r DispatchVerdict =
    DefinitivelyRejected string
  | OutcomeUnknown
  | InProgressAccepted
  | Terminal "'r ControlResult"

datatype dispatch_error =
    RegistryFailed registry_error
  | SlotFailed slot_error
  | SignFailed sign_error
  | NotCanonical
  | JwsWithoutPayload
  | JwsPayloadEncoding
  | JwsPayloadMismatch
  | SlotHoldsOther
  | SlotChangedInRecovery
  | ChangeSetRequired
  | ChangeSetUnexpected
  | TargetFailed
  | EchoedOtherOperation
  | RejectedWithResult
  | RejectedWithoutCode
  | AcceptedWithoutResult
  | InvalidControlResult
  | ResultOperationMismatch
  | ResultHashMismatch
  | ResultContract
  | TerminalNotPersisted
  | UnexpectedCompletion
  | TargetRejected string

definition journal_entry :: "time \<Rightarrow> 'a PreparedOperation \<Rightarrow> OperationJournalEntry" where
  "journal_entry now p = OperationJournalEntry_new now
     (co_operation_id (sg_operation (pp_signed p))) (sg_request_hash (pp_signed p))
     (co_kid (sg_operation (pp_signed p))) (sg_compact_jws (pp_signed p))"

definition validate_control_change_set ::
  "'a ControlOperationPayload \<Rightarrow> SecretMaterial option \<Rightarrow> dispatch_error + unit" where
  "validate_control_change_set operation change_set =
     (let applies = (case operation of TenantResourceApply _ \<Rightarrow> True | _ \<Rightarrow> False)
      in case (applies, change_set) of
           (True, None) \<Rightarrow> Inl ChangeSetRequired
         | (False, Some _) \<Rightarrow> Inl ChangeSetUnexpected
         | _ \<Rightarrow> Inr ())"

definition request ::
  "'a PreparedOperation \<Rightarrow> SecretMaterial option \<Rightarrow> dispatch_error + ControlOperationRequest" where
  "request p change_set =
     rbind (validate_control_change_set (co_operation (sg_operation (pp_signed p))) change_set) (\<lambda>_.
       Inr \<lparr>rq_operation_id = co_operation_id (sg_operation (pp_signed p)),
            rq_deployment_id = co_deployment_id (sg_operation (pp_signed p)),
            rq_compact_jws = sg_compact_jws (pp_signed p), rq_change_set = change_set\<rparr>)"

section \<open>Preparing\<close>

definition journaled_payload_matches ::
  "('a, 'r) protocol \<Rightarrow> OperationJournalEntry \<Rightarrow> string \<Rightarrow> dispatch_error + bool" where
  "journaled_payload_matches P e canonical =
     (case split_on (CHR ''.'') (oj_compact_jws e) of
        _ # payload # _ \<Rightarrow>
          (case decode_payload P payload of
             None \<Rightarrow> Inl JwsPayloadEncoding
           | Some decoded \<Rightarrow> Inr (decoded = canonical))
      | _ \<Rightarrow> Inl JwsWithoutPayload)"

definition prepare_entry_resume ::
  "('a, 'r) protocol \<Rightarrow> OperationJournalEntry \<Rightarrow> InstanceRecord \<Rightarrow> 'a ControlOperationInput
   \<Rightarrow> dispatch_error + 'a PreparedOperation option" where
  "prepare_entry_resume P e i input =
     (let operation = build_control_operation_with_id_and_kid P (inst_deployment_id i) input
        (oj_operation_id e) (oj_kid e)
      in case canonical_control_operation_bytes P operation of
           None \<Rightarrow> Inl NotCanonical
         | Some canonical \<Rightarrow>
             let request_hash = control_operation_request_hash P canonical
             in if request_hash \<noteq> oj_request_hash e then Inr None
                else rbind (journaled_payload_matches P e canonical) (\<lambda>same.
                  if \<not> same then Inl JwsPayloadMismatch
                  else Inr (Some \<lparr>pp_signed = \<lparr>sg_operation = operation,
                      sg_compact_jws = oj_compact_jws e, sg_request_hash = request_hash\<rparr>,
                    pp_kind = Resumed\<rparr>)))"

type_synonym instance_dirs = "string \<Rightarrow> OperationJournalEntry instance_dir"

text \<open>
  \<open>journal_dir\<close> is the instance directory the journal handle was opened in. The call mints
  \<open>operation_id\<close> and reads the clock \<open>now\<close> when it signs afresh.
\<close>

definition prepare_control_operation ::
  "registry_codec \<Rightarrow> key_crypto \<Rightarrow> ('a, 'r) protocol \<Rightarrow> registry_env \<Rightarrow> key_env \<Rightarrow> slot_env
   \<Rightarrow> string \<Rightarrow> time \<Rightarrow> registry \<Rightarrow> string \<Rightarrow> string \<Rightarrow> 'a ControlOperationInput \<Rightarrow> instance_dirs
   \<Rightarrow> (dispatch_error + 'a PreparedOperation) \<times> instance_dirs" where
  "prepare_control_operation C K P RE KE SE operation_id now G journal_dir selector input dirs =
     attempt (map_err RegistryFailed (resolve_instance C RE G selector)) dirs (\<lambda>i.
       attempt (map_err SlotFailed (load_slot (rc_externals C) P (id_journal (dirs journal_dir)))) dirs
         (\<lambda>journaled.
         case journaled of
           Some e \<Rightarrow>
             attempt (prepare_entry_resume P e i input) dirs (\<lambda>resumed.
               case resumed of Some p \<Rightarrow> (Inr p, dirs) | None \<Rightarrow> (Inl SlotHoldsOther, dirs))
         | None \<Rightarrow>
             attempt (map_err SignFailed (build_signed_control_operation_for_record K P KE operation_id
                 (dirs (inst_deployment_id i)) i input)) dirs (\<lambda>signed.
               let p = \<lparr>pp_signed = signed, pp_kind = Fresh\<rparr>
               in case record_dispatched (rc_externals C) P SE (journal_entry now p)
                      (id_journal (dirs journal_dir)) of
                    (r, slot) \<Rightarrow> (rbind (map_err SlotFailed r) (\<lambda>_. Inr p),
                      dirs(journal_dir := (dirs journal_dir)\<lparr>id_journal := slot\<rparr>)))))"

definition prepare_pending_control_operation ::
  "registry_codec \<Rightarrow> ('a, 'r) protocol \<Rightarrow> registry_env \<Rightarrow> registry \<Rightarrow> OperationJournalEntry
   \<Rightarrow> string \<Rightarrow> 'a ControlOperationInput \<Rightarrow> slot \<Rightarrow> dispatch_error + 'a PreparedOperation option" where
  "prepare_pending_control_operation C P RE G expected selector input path =
     rbind (map_err RegistryFailed (resolve_instance C RE G selector)) (\<lambda>i.
       rbind (map_err SlotFailed (load_slot (rc_externals C) P path)) (\<lambda>journaled.
         case journaled of
           None \<Rightarrow> Inr None
         | Some e \<Rightarrow>
             if \<not> has_same_identity e expected then Inl SlotChangedInRecovery
             else prepare_entry_resume P e i input))"

section \<open>Classifying the answer\<close>

definition validate_result_contract ::
  "'a ControlOperationPayload \<Rightarrow> 'r ControlResult \<Rightarrow> dispatch_error + unit" where
  "validate_result_contract operation result =
     (if cr_outcome result \<noteq> OutcomeSucceeded then Inr ()
      else let data = cr_result result;
          matches_operation = (case operation of
              MigrateApply \<Rightarrow> data = None \<or> (case data of Some (MigrationApplied _) \<Rightarrow> True | _ \<Rightarrow> False)
            | KeysList \<Rightarrow> data = None
            | KeysValidate \<Rightarrow> data = None
            | KeysGenerateLocal _ \<Rightarrow> data = None
            | KeysRegisterExternal _ \<Rightarrow> data = None
            | TenantKeysGenerateLocal _ \<Rightarrow> (case data of Some (TenantKeyGenerated _) \<Rightarrow> True | _ \<Rightarrow> False)
            | TenantResourceApply _ \<Rightarrow> (case data of Some (TenantResourceApplied _) \<Rightarrow> True | _ \<Rightarrow> False)
            | TenantResourceEnumerate _ \<Rightarrow>
                (case data of Some (TenantResourceEnumerated _) \<Rightarrow> True | _ \<Rightarrow> False)
            | TenantResourceRevoke _ \<Rightarrow> (case data of Some (TenantResourceRevoked _) \<Rightarrow> True | _ \<Rightarrow> False)
            | RecoveryInvalidate _ \<Rightarrow> (case data of Some (RecoveryInvalidation _) \<Rightarrow> True | _ \<Rightarrow> False)
            | TenantDirectoryDescribe \<Rightarrow>
                (case data of Some (TenantDirectoryDescribed _) \<Rightarrow> True | _ \<Rightarrow> False)
            | _ \<Rightarrow> (case data of Some (TenantDirectoryMutation _) \<Rightarrow> True | _ \<Rightarrow> False))
        in require matches_operation ResultContract)"

definition validate_control_result_binding ::
  "('a, 'r) protocol \<Rightarrow> string \<Rightarrow> string \<Rightarrow> 'a ControlOperationPayload \<Rightarrow> 'r ControlResult
   \<Rightarrow> dispatch_error + unit" where
  "validate_control_result_binding P expected_operation_id expected_request_hash payload result =
     first_error
       [require (control_result_ok P result) InvalidControlResult,
        require (cr_operation_id result = expected_operation_id) ResultOperationMismatch,
        require (cr_request_hash result = expected_request_hash) ResultHashMismatch,
        validate_result_contract payload result]"

definition validate_result_binding ::
  "('a, 'r) protocol \<Rightarrow> 'a PreparedOperation \<Rightarrow> 'r ControlResult \<Rightarrow> dispatch_error + unit" where
  "validate_result_binding P p result =
     validate_control_result_binding P (co_operation_id (sg_operation (pp_signed p)))
       (sg_request_hash (pp_signed p)) (co_operation (sg_operation (pp_signed p))) result"

definition classify_receipt ::
  "('a, 'r) protocol \<Rightarrow> 'a PreparedOperation \<Rightarrow> 'r ControlOperationReceipt
   \<Rightarrow> dispatch_error + 'r DispatchVerdict" where
  "classify_receipt P p receipt =
     (if rp_operation_id receipt \<noteq> co_operation_id (sg_operation (pp_signed p))
      then Inl EchoedOtherOperation
      else if \<not> rp_accepted receipt
      then if rp_result receipt \<noteq> None then Inl RejectedWithResult
        else (case rp_rejection_code receipt of
            None \<Rightarrow> Inl RejectedWithoutCode | Some rejection \<Rightarrow> Inr (DefinitivelyRejected rejection))
      else (case rp_result receipt of
          None \<Rightarrow> Inl AcceptedWithoutResult
        | Some result \<Rightarrow>
            rbind (validate_result_binding P p result) (\<lambda>_.
              case cr_outcome result of
                InProgress \<Rightarrow> Inr InProgressAccepted
              | _ \<Rightarrow> Inr (Terminal result))))"

definition dispatch_via_target ::
  "('a, 'r) protocol \<Rightarrow> (ControlOperationRequest \<Rightarrow> 'r ControlOperationReceipt option)
   \<Rightarrow> 'a PreparedOperation \<Rightarrow> SecretMaterial option \<Rightarrow> dispatch_error + 'r DispatchVerdict" where
  "dispatch_via_target P target p change_set =
     rbind (request p change_set) (\<lambda>rq.
       case target rq of None \<Rightarrow> Inl TargetFailed | Some receipt \<Rightarrow> classify_receipt P p receipt)"

definition accepted_control_operation_receipt ::
  "('a, 'r) protocol \<Rightarrow> string \<Rightarrow> 'r ControlResult \<Rightarrow> dispatch_error + 'r ControlOperationReceipt" where
  "accepted_control_operation_receipt P request_operation_id result =
     (if \<not> control_result_ok P result then Inl InvalidControlResult
      else if cr_operation_id result \<noteq> request_operation_id then Inl EchoedOtherOperation
      else Inr \<lparr>rp_operation_id = request_operation_id, rp_accepted = True, rp_result = Some result,
                rp_rejection_code = None\<rparr>)"

definition pre_acceptance_codes :: "string list" where
  "pre_acceptance_codes = [''INPUT_INVALID'', ''CONTROLLER_KEY_UNAUTHORIZED'',
     ''TARGET_IDENTITY_MISMATCH'', ''CONFIG_REVISION_MISMATCH'', ''OPERATION_ID_CONFLICT'']"

text \<open>\<open>control_result_of\<close> gives the result of the two completions that carry one.\<close>

definition control_operation_receipt ::
  "('a, 'r) protocol \<Rightarrow> ('b \<Rightarrow> 'r ControlResult option) \<Rightarrow> string \<Rightarrow> 'b HostOutcome
   \<Rightarrow> dispatch_error + 'r ControlOperationReceipt" where
  "control_operation_receipt P control_result_of request_operation_id outcome =
     (case outcome of
        Completed body \<Rightarrow>
          (case control_result_of body of
             None \<Rightarrow> Inl UnexpectedCompletion
           | Some result \<Rightarrow> accepted_control_operation_receipt P request_operation_id result)
      | Failed failure_code _ \<Rightarrow>
          if failure_code \<in> set pre_acceptance_codes
          then Inr \<lparr>rp_operation_id = request_operation_id, rp_accepted = False, rp_result = None,
                    rp_rejection_code = Some failure_code\<rparr>
          else Inl (TargetRejected failure_code))"

section \<open>Settling the journal\<close>

definition OPERATION_ID_CONFLICT :: string where "OPERATION_ID_CONFLICT = ''OPERATION_ID_CONFLICT''"

text \<open>\<open>persisted\<close> is the answer of the callback that stores a terminal result durably.\<close>

definition settle_journal ::
  "externals \<Rightarrow> ('a, 'r) protocol \<Rightarrow> slot_env \<Rightarrow> slot_env \<Rightarrow> time \<Rightarrow> 'a PreparedOperation
   \<Rightarrow> 'r DispatchVerdict \<Rightarrow> bool \<Rightarrow> slot \<Rightarrow> (dispatch_error + unit) \<times> slot" where
  "settle_journal X P SE SE2 now p verdict persisted path =
     (let expected = journal_entry now p;
          fail = (\<lambda>r :: (slot_error + unit) \<times> slot. (map_err SlotFailed (fst r), snd r))
      in case verdict of
           DefinitivelyRejected rejection \<Rightarrow>
             if rejection = OPERATION_ID_CONFLICT then (Inr (), path)
             else fail (clear_if_matches X P SE expected path)
         | OutcomeUnknown \<Rightarrow> (Inr (), path)
         | InProgressAccepted \<Rightarrow> fail (mark_accepted_if_matches X P SE expected path)
         | Terminal result \<Rightarrow>
             attempt (validate_result_binding P p result) path (\<lambda>_.
               case fail (mark_accepted_if_matches X P SE expected path) of
                 (Inl e, path1) \<Rightarrow> (Inl e, path1)
               | (Inr _, path1) \<Rightarrow>
                   if \<not> persisted then (Inl TerminalNotPersisted, path1)
                   else fail (clear_if_matches X P SE2 expected path1)))"

end
