(* ===== verification/KeyStoreProofs.thy ===== *)
theory KeyStoreProofs
  imports KeyStore RegistryProofs
begin

text \<open>
  The invariant of a controller key directory: every record in it loads, and the active pointer,
  where there is one, names a record. Every operation keeps it, however its writes end.
\<close>

section \<open>The laws of the crates\<close>

definition crypto_laws :: "key_crypto \<Rightarrow> bool" where
  "crypto_laws K \<longleftrightarrow>
     (\<forall>b. length b = 32 \<longrightarrow> decode32 K (encode_b64 K b) = Some b) \<and>
     (\<forall>b. length (public_of K b) = 32) \<and>
     (\<forall>b. validate_kid_shape (kid_of K b) = Inr ())"

section \<open>Invariant\<close>

abbreviation loads :: "key_crypto \<Rightarrow> 'j instance_dir \<Rightarrow> string \<Rightarrow> bool" where
  "loads K D kid \<equiv> \<exists>v. read_key_record K D kid = Inr v"

definition key_inv :: "key_crypto \<Rightarrow> 'j instance_dir \<Rightarrow> bool" where
  "key_inv K D \<longleftrightarrow>
     (\<forall>name content. map_of (id_keys D) name = Some content \<longrightarrow>
        (\<exists>kid. name = record_path kid \<and> loads K D kid)) \<and>
     (\<forall>f. id_active D = Some f \<longrightarrow>
        (\<exists>p. read_active_pointer D = Inr (Some p) \<and> loads K D (ap_active_kid p)))"

lemma key_inv_file:
  assumes "key_inv K D" and "map_of (id_keys D) name = Some c"
  obtains kid where "name = record_path kid" "loads K D kid"
  using assms unfolding key_inv_def by blast

lemma key_inv_active:
  assumes "key_inv K D" and "id_active D = Some f"
  obtains p where "read_active_pointer D = Inr (Some p)" "loads K D (ap_active_kid p)"
  using assms unfolding key_inv_def by blast

lemma read_key_cong:
  "map_of (id_keys D) (record_path kid) = map_of (id_keys D') (record_path kid) \<Longrightarrow>
     read_key_record K D kid = read_key_record K D' kid"
  by (simp add: read_key_record_def)

lemma read_key_present:
  "read_key_record K D kid = Inr v \<Longrightarrow> map_of (id_keys D) (record_path kid) \<noteq> None"
  by (cases "map_of (id_keys D) (record_path kid)") (auto simp: read_key_record_def rbind_Inr_iff)

lemma read_key_Inr:
  assumes "read_key_record K D kid = Inr v"
  shows "lk_kid (vk_loaded v) = kid \<and> kid_of K (public_of K (lk_signing_key (vk_loaded v))) = kid
     \<and> validate_kid_shape kid = Inr () \<and> decode32 K (vk_public_key v) = Some (public_of K (lk_signing_key (vk_loaded v)))"
  using assms
  by (auto simp: read_key_record_def rbind_Inr_iff
      split: option.splits record_file.splits if_splits)

lemma read_active_cong: "id_active D = id_active D' \<Longrightarrow> read_active_pointer D = read_active_pointer D'"
  by (simp add: read_active_pointer_def)

lemma key_inv_journal: "key_inv K (D\<lparr>id_journal := j\<rparr>) = key_inv K D"
proof -
  have "read_key_record K (D\<lparr>id_journal := j\<rparr>) kid = read_key_record K D kid" for kid
    by (rule read_key_cong) simp
  moreover have "read_active_pointer (D\<lparr>id_journal := j\<rparr>) = read_active_pointer D"
    by (rule read_active_cong) simp
  ultimately show ?thesis by (simp add: key_inv_def)
qed

text \<open>A directory that keeps every record of another one, and its pointer.\<close>

lemma key_inv_add:
  assumes inv: "key_inv K D" and law: "loads K (D\<lparr>id_keys := AList.update (record_path kid) f (id_keys D)\<rparr>) kid"
    and fresh: "map_of (id_keys D) (record_path kid) = None"
  shows "key_inv K (D\<lparr>id_keys := AList.update (record_path kid) f (id_keys D)\<rparr>)"
proof -
  let ?D = "D\<lparr>id_keys := AList.update (record_path kid) f (id_keys D)\<rparr>"
  have keep: "loads K ?D k" if "loads K D k" for k
  proof (cases "k = kid")
    case False
    then have "read_key_record K ?D k = read_key_record K D k" by (intro read_key_cong) simp
    with that show ?thesis by simp
  qed (use law in simp)
  have "\<exists>k. name = record_path k \<and> loads K ?D k" if "map_of (id_keys ?D) name = Some c" for name c
  proof (cases "name = record_path kid")
    case False
    then have "map_of (id_keys D) name = Some c" using that by simp
    then obtain k where "name = record_path k" "loads K D k" by (rule key_inv_file [OF inv])
    then show ?thesis using keep by blast
  qed (use law in auto)
  moreover have "\<exists>p. read_active_pointer ?D = Inr (Some p) \<and> loads K ?D (ap_active_kid p)"
    if active: "id_active D = Some c" for c
  proof -
    obtain p where "read_active_pointer D = Inr (Some p)" "loads K D (ap_active_kid p)"
      by (rule key_inv_active [OF inv active])
    moreover have "read_active_pointer ?D = read_active_pointer D" by (rule read_active_cong) simp
    ultimately show ?thesis using keep by metis
  qed
  ultimately show ?thesis unfolding key_inv_def by simp
qed

lemma generated_loads:
  assumes laws: "crypto_laws K" and seed: "length (ke_seed E) = 32"
    and r: "r = \<lparr>kr_schema = CONTROLLER_KEY_STORE_SCHEMA, kr_kid = kid_of K (public_of K (ke_seed E)),
        kr_public_key = encode_b64 K (public_of K (ke_seed E)),
        kr_private_key = encode_b64 K (ke_seed E), kr_created_at = ke_now E\<rparr>"
    and there: "map_of (id_keys D) (record_path (kr_kid r)) = Some (Record r)"
  shows "read_key_record K D (kr_kid r) =
     Inr \<lparr>vk_loaded = \<lparr>lk_kid = kr_kid r, lk_signing_key = ke_seed E\<rparr>,
          vk_public_key = kr_public_key r, vk_created_at = ke_now E\<rparr>"
  using assms by (simp add: read_key_record_def crypto_laws_def)

lemma generate_cases:
  assumes laws: "crypto_laws K" and seed: "length (ke_seed E) = 32" and inv: "key_inv K D"
  obtains (kept) e where "generate_candidate_locked K E D = (Inl e, D)"
  | (stored) D' v where "snd (generate_candidate_locked K E D) = D'" "key_inv K D'"
      "id_active D' = id_active D" "id_journal D' = id_journal D"
      "read_key_record K D' (lk_kid (vk_loaded v)) = Inr v" "lk_signing_key (vk_loaded v) = ke_seed E"
      "map_of (id_keys D) (record_path (lk_kid (vk_loaded v))) = None"
      "fst (generate_candidate_locked K E D) = Inr v \<or>
       fst (generate_candidate_locked K E D) = Inl KeyNotPersisted"
proof -
  define r where "r = \<lparr>kr_schema = CONTROLLER_KEY_STORE_SCHEMA, kr_kid = kid_of K (public_of K (ke_seed E)),
        kr_public_key = encode_b64 K (public_of K (ke_seed E)),
        kr_private_key = encode_b64 K (ke_seed E), kr_created_at = ke_now E\<rparr>"
  define v where "v = \<lparr>vk_loaded = \<lparr>lk_kid = kr_kid r, lk_signing_key = ke_seed E\<rparr>,
          vk_public_key = kr_public_key r, vk_created_at = ke_now E\<rparr>"
  show ?thesis
  proof (cases "map_of (id_keys D) (record_path (kr_kid r))")
    case (Some f)
    then show ?thesis by (intro kept) (simp add: generate_candidate_locked_def Let_def r_def)
  next
    case None
    show ?thesis
    proof (cases rule: put_file_cases [of "ke_commit E" "record_path (kr_kid r)" "Record r" "id_keys D"])
      case kept': kept
      with None show ?thesis
        by (intro kept) (simp add: generate_candidate_locked_def Let_def r_def)
    next
      case (put ok)
      let ?D = "D\<lparr>id_keys := AList.update (record_path (kr_kid r)) (Record r) (id_keys D)\<rparr>"
      have load: "read_key_record K ?D (kr_kid r) = Inr v"
        unfolding v_def by (rule generated_loads [OF laws seed r_def]) simp
      have gen: "generate_candidate_locked K E D = (if ok then Inr v else Inl KeyNotPersisted, ?D)"
        using None put by (cases ok) (simp_all add: generate_candidate_locked_def Let_def r_def v_def)
      show ?thesis
        by (rule stored [of ?D v]) (use gen load None key_inv_add [OF inv _ None] in \<open>auto simp: v_def\<close>)
    qed
  qed
qed

lemma key_inv_pointer:
  assumes inv: "key_inv K D" and "loads K D kid"
  shows "key_inv K (D\<lparr>id_active := Some (Record \<lparr>ap_schema = CONTROLLER_KEY_STORE_SCHEMA, ap_active_kid = kid\<rparr>)\<rparr>)"
proof -
  let ?D = "D\<lparr>id_active := Some (Record \<lparr>ap_schema = CONTROLLER_KEY_STORE_SCHEMA, ap_active_kid = kid\<rparr>)\<rparr>"
  have same: "read_key_record K ?D k = read_key_record K D k" for k by (rule read_key_cong) simp
  have "validate_kid_shape kid = Inr ()" using assms(2) read_key_Inr by blast
  then have "read_active_pointer ?D = Inr (Some \<lparr>ap_schema = CONTROLLER_KEY_STORE_SCHEMA, ap_active_kid = kid\<rparr>)"
    by (simp add: read_active_pointer_def)
  then show ?thesis using inv assms(2) by (simp add: key_inv_def same)
qed

lemma write_active_pointer_cases:
  obtains (kept) "write_active_pointer out kid D = (Inl PointerNotPersisted, D)"
  | (put) r where "write_active_pointer out kid D =
      (r, D\<lparr>id_active := Some (Record \<lparr>ap_schema = CONTROLLER_KEY_STORE_SCHEMA, ap_active_kid = kid\<rparr>)\<rparr>)"
  by (cases out) (auto simp: write_active_pointer_def put_one_def)

lemma key_inv_no_pointer: "key_inv K D \<Longrightarrow> key_inv K (D\<lparr>id_active := None\<rparr>)"
  using read_key_cong [of "D\<lparr>id_active := None\<rparr>" _ D] by (simp add: key_inv_def)

section \<open>Every operation keeps the invariant\<close>

lemma generate_candidate_inv:
  assumes "crypto_laws K" and "length (ke_seed E) = 32" and "key_inv K D"
  shows "key_inv K (snd (generate_candidate K E d D))"
  by (cases rule: generate_cases [OF assms])
     (auto simp: generate_candidate_def assms(3) split: sum.split prod.split)

lemma attempt_inv:
  "I s \<Longrightarrow> (\<And>a. r = Inr a \<Longrightarrow> I (snd (k a))) \<Longrightarrow> I (snd (attempt r s k))"
  by (cases r) simp_all

lemma set_active_kid_inv:
  assumes inv: "key_inv K D"
  shows "key_inv K (snd (set_active_kid K E d kid D))"
  unfolding set_active_kid_def
proof (intro attempt_inv [where I = "key_inv K"] inv)
  fix k assume k: "read_key_record K D kid = Inr k"
  show "key_inv K (snd (write_active_pointer (ke_commit E) (lk_kid (vk_loaded k)) D))"
    using k read_key_Inr [OF k]
    by (cases rule: write_active_pointer_cases [of "ke_commit E" "lk_kid (vk_loaded k)" D])
       (auto simp: inv intro: key_inv_pointer [OF inv])
qed

lemma get_or_create_active_inv:
  assumes laws: "crypto_laws K" "length (ke_seed E) = 32" and inv: "key_inv K D"
  shows "key_inv K (snd (get_or_create_active K E d D))"
  unfolding get_or_create_active_def
proof (intro attempt_inv [where I = "key_inv K"] inv)
  fix pointer
  have "key_inv K (snd (case generate_candidate_locked K E D of
        (Inl e, D1) \<Rightarrow> (Inl e, D1)
      | (Inr candidate, D1) \<Rightarrow>
          (case write_active_pointer (ke_commit_2 E) (lk_kid (vk_loaded candidate)) D1 of
             (Inl e, D2) \<Rightarrow> (Inl e, D2) | (Inr _, D2) \<Rightarrow> (Inr (vk_loaded candidate), D2))))"
  proof (cases rule: generate_cases [OF laws(1) laws(2) inv, case_names kept stored])
    case (stored D' v)
    have "key_inv K (snd (write_active_pointer (ke_commit_2 E) (lk_kid (vk_loaded v)) D'))"
      using stored(2,5)
      by (cases rule: write_active_pointer_cases [of "ke_commit_2 E" "lk_kid (vk_loaded v)" D'])
         (auto intro: key_inv_pointer)
    with stored show ?thesis
      by (auto split: prod.split sum.split)
  qed (simp add: inv)
  then show "key_inv K (snd (case pointer of
      Some p \<Rightarrow> (rbind (read_key_record K D (ap_active_kid p)) (\<lambda>k. Inr (vk_loaded k)), D)
    | None \<Rightarrow> if \<not> ke_dirs_ok E then (Inl KeyDirectoryRejected, D)
        else case generate_candidate_locked K E D of
        (Inl e, D1) \<Rightarrow> (Inl e, D1)
      | (Inr candidate, D1) \<Rightarrow>
          (case write_active_pointer (ke_commit_2 E) (lk_kid (vk_loaded candidate)) D1 of
             (Inl e, D2) \<Rightarrow> (Inl e, D2) | (Inr _, D2) \<Rightarrow> (Inr (vk_loaded candidate), D2))))"
    by (simp add: inv split: option.split)
qed

lemma clear_active_inv:
  assumes inv: "key_inv K D"
  shows "key_inv K (snd (clear_active E d D))"
  unfolding clear_active_def
proof (intro attempt_inv [where I = "key_inv K"] inv)
  have "D\<lparr>id_active := id_active D\<rparr> = D" by simp
  then show "key_inv K (snd (case drop_one (ke_commit E) (id_active D) of
      (True, p) \<Rightarrow> (Inr (), D\<lparr>id_active := p\<rparr>)
    | (False, p) \<Rightarrow> (Inl PointerNotCleared, D\<lparr>id_active := p\<rparr>)))"
    using inv by (cases "ke_commit E") (simp_all add: drop_one_def key_inv_no_pointer)
qed

lemma retire_kid_inv:
  assumes inv: "key_inv K D"
  shows "key_inv K (snd (retire_kid K E d kid D))"
  unfolding retire_kid_def
proof (intro attempt_inv [where I = "key_inv K"] inv)
  fix pointer
  assume pointer: "read_active_pointer D = Inr pointer"
  let ?D = "D\<lparr>id_keys := AList.delete (record_path kid) (id_keys D)\<rparr>"
  have deleted: "key_inv K ?D" if other: "map_option ap_active_kid pointer \<noteq> Some kid"
  proof -
    have keep: "loads K ?D k" if "loads K D k" "k \<noteq> kid" for k
      using that read_key_cong [of ?D k D K] by simp
    have "\<exists>k. name = record_path k \<and> loads K ?D k" if "map_of (id_keys ?D) name = Some c" for name c
    proof -
      have other: "name \<noteq> record_path kid" and "map_of (id_keys D) name = Some c"
        using that by (auto split: if_splits)
      from this(2) obtain k where "name = record_path k" "loads K D k" by (rule key_inv_file [OF inv])
      then show ?thesis using keep other by blast
    qed
    moreover have "\<exists>p. read_active_pointer ?D = Inr (Some p) \<and> loads K ?D (ap_active_kid p)"
      if active: "id_active D = Some f" for f
    proof -
      obtain p where p: "read_active_pointer D = Inr (Some p)" "loads K D (ap_active_kid p)"
        by (rule key_inv_active [OF inv active])
      then have "ap_active_kid p \<noteq> kid" using other pointer by auto
      moreover have "read_active_pointer ?D = read_active_pointer D" by (rule read_active_cong) simp
      ultimately show ?thesis using p keep by auto
    qed
    ultimately show ?thesis unfolding key_inv_def by simp
  qed
  have "key_inv K (D\<lparr>id_keys := keys\<rparr>)"
    if other: "map_option ap_active_kid pointer \<noteq> Some kid"
      and drop: "drop_file (ke_commit E) (record_path kid) (id_keys D) = (ok, keys)" for ok keys
  proof (cases "keys = id_keys D")
    case True
    then have "D\<lparr>id_keys := keys\<rparr> = D" by simp
    with inv show ?thesis by simp
  next
    case False
    then have "keys = AList.delete (record_path kid) (id_keys D)"
      using drop by (cases rule: drop_file_cases [of "ke_commit E" "record_path kid" "id_keys D"]) auto
    with deleted other show ?thesis by simp
  qed
  then show "key_inv K (snd (
      if map_option ap_active_kid pointer = Some kid then (Inl KeyStillActive, D)
      else attempt (read_key_record K D kid) D (\<lambda>_.
        case drop_file (ke_commit E) (record_path kid) (id_keys D) of
          (True, keys) \<Rightarrow> (Inr (), D\<lparr>id_keys := keys\<rparr>)
        | (False, keys) \<Rightarrow> (Inl KeyNotRetired, D\<lparr>id_keys := keys\<rparr>))))"
    by (auto intro!: attempt_inv [where I = "key_inv K"] inv split: prod.split bool.split)
qed

section \<open>The instance directory over time\<close>

text \<open>
  The calls that write a living instance. \<open>remove_instance\<close>, which ends one, is a step of its own
  in the relations below.
\<close>

datatype key_call =
    GenerateCandidate
  | SetActiveKid string
  | GetOrCreateActive
  | ClearActive
  | RetireKid string

fun key_call_dir ::
  "key_crypto \<Rightarrow> key_env \<Rightarrow> string \<Rightarrow> key_call \<Rightarrow> 'j instance_dir \<Rightarrow> 'j instance_dir" where
  "key_call_dir K E d GenerateCandidate D = snd (generate_candidate K E d D)"
| "key_call_dir K E d (SetActiveKid kid) D = snd (set_active_kid K E d kid D)"
| "key_call_dir K E d GetOrCreateActive D = snd (get_or_create_active K E d D)"
| "key_call_dir K E d ClearActive D = snd (clear_active E d D)"
| "key_call_dir K E d (RetireKid kid) D = snd (retire_kid K E d kid D)"

lemma key_call_inv:
  assumes "crypto_laws K" and "length (ke_seed E) = 32" and "key_inv K D"
  shows "key_inv K (key_call_dir K E d call D)"
  using assms
  by (cases call) (simp_all add: generate_candidate_inv set_active_kid_inv get_or_create_active_inv
      clear_active_inv retire_kid_inv)

text \<open>
  A directory that some sequence of calls left behind: random seeds of 32 bytes, any outcome of
  any write, and an uninstall that completed.
\<close>

inductive key_reachable :: "key_crypto \<Rightarrow> string \<Rightarrow> 'j instance_dir \<Rightarrow> bool" for K d where
  key_empty: "key_reachable K d empty_dir"
| key_called:
    "key_reachable K d D \<Longrightarrow> length (ke_seed E) = 32 \<Longrightarrow> key_reachable K d (key_call_dir K E d call D)"
| key_removed:
    "key_reachable K d D \<Longrightarrow> remove_instance outcomes listing E d D = (Inr (), D') \<Longrightarrow>
     {KeysDirectory, ActiveFile} \<subseteq> set listing \<Longrightarrow> key_reachable K d D'"
| key_journaled: "key_reachable K d D \<Longrightarrow> key_reachable K d (D\<lparr>id_journal := j\<rparr>)"

lemma key_inv_empty: "id_keys D = [] \<Longrightarrow> id_active D = None \<Longrightarrow> key_inv K D"
  by (simp add: key_inv_def)

lemma remove_artifact_done:
  "remove_artifact out a D = (True, D') \<Longrightarrow>
     (id_keys D' = [] \<or> a \<noteq> KeysDirectory \<and> id_keys D' = id_keys D) \<and>
     (id_active D' = None \<or> a \<noteq> ActiveFile \<and> id_active D' = id_active D)"
  by (cases a; cases out) (auto simp: remove_artifact_def)

lemma remove_artifacts_done:
  "remove_artifacts outs as D = (Inr (), D') \<Longrightarrow>
     (id_keys D' = [] \<or> KeysDirectory \<notin> set as \<and> id_keys D' = id_keys D) \<and>
     (id_active D' = None \<or> ActiveFile \<notin> set as \<and> id_active D' = id_active D)"
proof (induction as arbitrary: D)
  case (Cons a as)
  obtain ok D1 where one: "remove_artifact (outs a) a D = (ok, D1)"
    by (cases "remove_artifact (outs a) a D")
  with Cons.prems have "ok" and rest: "remove_artifacts outs as D1 = (Inr (), D')"
    by (auto split: bool.splits)
  with one have "remove_artifact (outs a) a D = (True, D1)" by simp
  from remove_artifact_done [OF this] Cons.IH [OF rest] show ?case by auto
qed simp

lemma remove_instance_done:
  assumes "remove_instance outs as E d D = (Inr (), D')" and "{KeysDirectory, ActiveFile} \<subseteq> set as"
  shows "id_keys D' = [] \<and> id_active D' = None"
proof -
  have "remove_artifacts outs as D = (Inr (), D')"
    using assms(1) by (auto simp: remove_instance_def map_err_def split: sum.splits if_splits)
  from remove_artifacts_done [OF this] assms(2) show ?thesis by auto
qed

lemma key_reachable_inv:
  assumes "key_reachable K d D" and "crypto_laws K"
  shows "key_inv K D"
  using assms
proof (induction rule: key_reachable.induct)
  case key_empty
  then show ?case by (simp add: key_inv_empty empty_dir_def)
next
  case (key_removed D outcomes listing E D')
  from remove_instance_done [OF key_removed(2,3)] show ?case by (simp add: key_inv_empty)
qed (simp_all add: key_call_inv key_inv_journal)

lemma put_file_names:
  "distinct (map fst dir) \<Longrightarrow> put_file out n c dir = (ok, dir') \<Longrightarrow> distinct (map fst dir')"
  by (cases out) (auto simp: put_file_def distinct_update)

lemma drop_file_names:
  "distinct (map fst dir) \<Longrightarrow> drop_file out n dir = (ok, dir') \<Longrightarrow> distinct (map fst dir')"
  by (cases out; cases "map_of dir n") (auto simp: drop_file_def distinct_delete)

lemma attempt_keys:
  "(\<And>a. r = Inr a \<Longrightarrow> distinct (map fst (id_keys (snd (k a))))) \<Longrightarrow> distinct (map fst (id_keys D)) \<Longrightarrow>
     distinct (map fst (id_keys (snd (attempt r D k))))"
  by (cases r) simp_all

lemma generate_names:
  "distinct (map fst (id_keys D)) \<Longrightarrow> generate_candidate_locked K E D = (r, D') \<Longrightarrow>
     distinct (map fst (id_keys D'))"
  by (auto simp: generate_candidate_locked_def Let_def split: if_splits prod.splits bool.splits
      dest: put_file_names)

lemma pointer_names:
  "distinct (map fst (id_keys D)) \<Longrightarrow> write_active_pointer out kid D = (r, D') \<Longrightarrow>
     distinct (map fst (id_keys D'))"
  by (auto simp: write_active_pointer_def split: prod.splits bool.splits)

lemma pointer_keeps_keys [simp]: "id_keys (snd (write_active_pointer out kid D)) = id_keys D"
  by (cases out) (simp_all add: write_active_pointer_def put_one_def)

lemma key_call_names:
  assumes "distinct (map fst (id_keys D))"
  shows "distinct (map fst (id_keys (key_call_dir K E d call D)))"
proof (cases call)
  case GetOrCreateActive
  obtain r1 D1 where gen: "generate_candidate_locked K E D = (r1, D1)"
    by (cases "generate_candidate_locked K E D")
  note names = generate_names [OF assms gen]
  show ?thesis
    using GetOrCreateActive assms gen names pointer_names [OF names]
    by (auto simp: get_or_create_active_def intro!: attempt_keys
        split: option.split prod.split sum.split)
next
  case (RetireKid kid)
  obtain ok keys where drop: "drop_file (ke_commit E) (record_path kid) (id_keys D) = (ok, keys)"
    by (cases "drop_file (ke_commit E) (record_path kid) (id_keys D)")
  show ?thesis
    using RetireKid assms drop drop_file_names [OF assms drop]
    by (auto simp: retire_kid_def intro!: attempt_keys split: bool.split)
qed (use assms in \<open>auto simp: generate_candidate_def set_active_kid_def clear_active_def
      intro!: attempt_keys split: prod.split bool.split sum.split dest: generate_names [OF assms] pointer_names [OF assms]\<close>)

lemma key_reachable_names: "key_reachable K d D \<Longrightarrow> distinct (map fst (id_keys D))"
proof (induction rule: key_reachable.induct)
  case (key_removed D outcomes listing E D')
  from remove_instance_done [OF key_removed(2,3)] show ?case by simp
qed (simp_all add: empty_dir_def key_call_names)

section \<open>Reading a directory that satisfies the invariant\<close>

lemma inv_pointer:
  assumes "key_inv K D"
  obtains pointer where "read_active_pointer D = Inr pointer"
    "\<forall>q. pointer = Some q \<longrightarrow> loads K D (ap_active_kid q)"
proof (cases "id_active D")
  case None
  then have "read_active_pointer D = Inr None" by (simp add: read_active_pointer_def)
  then show ?thesis by (rule that) simp
next
  case (Some f)
  then obtain p where p: "read_active_pointer D = Inr (Some p)" and l: "loads K D (ap_active_kid p)"
    by (rule key_inv_active [OF assms])
  show ?thesis by (rule that [OF p]) (use l in simp)
qed

lemma summarize_inv:
  assumes "\<forall>(n, c) \<in> set es. \<exists>kid. n = record_path kid \<and> loads K D kid"
  shows "\<exists>ss. summarize_keys K D active es = Inr ss \<and>
     (\<forall>kid. active = Some kid \<and> record_path kid \<in> fst ` set es \<and> kid \<noteq> [] \<longrightarrow> list_ex sum_active ss)"
  using assms
proof (induction es)
  case (Cons e es)
  obtain kid c v where e: "e = (record_path kid, c)" "read_key_record K D kid = Inr v"
    using Cons.prems by (cases e) auto
  have "kid \<noteq> []" using read_key_Inr [OF e(2)] by (auto simp: validate_kid_shape_def KID_LENGTH_def)
  obtain ss where ss: "summarize_keys K D active es = Inr ss"
      "\<forall>kid. active = Some kid \<and> record_path kid \<in> fst ` set es \<and> kid \<noteq> [] \<longrightarrow> list_ex sum_active ss"
    using Cons by auto
  show ?case
  proof (intro exI conjI allI impI)
    show "summarize_keys K D active (e # es) = Inr (into_summary v (active = Some kid) # ss)"
      using e ss(1) \<open>kid \<noteq> []\<close> by (simp add: record_stem_path)
    fix k assume k: "active = Some k \<and> record_path k \<in> fst ` set (e # es) \<and> k \<noteq> []"
    show "list_ex sum_active (into_summary v (active = Some kid) # ss)"
    proof (cases "k = kid")
      case False
      with k e(1) have "record_path k \<in> fst ` set es" by auto
      with k ss(2) show ?thesis by simp
    qed (use k in \<open>simp add: into_summary_def\<close>)
  qed
qed simp

lemma list_keys_inv:
  assumes inv: "key_inv K D" and names: "distinct (map fst (id_keys D))"
    and enter: "enter_instance E d = Inr ()" and "ke_listable E"
  shows "\<exists>ks. list_keys K E d D = Inr ks"
proof -
  have files: "\<forall>(n, c) \<in> set (id_keys D). \<exists>kid. n = record_path kid \<and> loads K D kid"
  proof clarify
    fix n c assume "(n, c) \<in> set (id_keys D)"
    then have "map_of (id_keys D) n = Some c" using names by simp
    then show "\<exists>kid. n = record_path kid \<and> loads K D kid" by (rule key_inv_file [OF inv]) blast
  qed
  obtain pointer where p: "read_active_pointer D = Inr pointer"
    and loaded: "\<forall>q. pointer = Some q \<longrightarrow> loads K D (ap_active_kid q)"
    by (rule inv_pointer [OF inv])
  obtain ss where ss: "summarize_keys K D (map_option ap_active_kid pointer) (id_keys D) = Inr ss"
      "\<forall>kid. map_option ap_active_kid pointer = Some kid \<and> record_path kid \<in> fst ` set (id_keys D)
         \<and> kid \<noteq> [] \<longrightarrow> list_ex sum_active ss"
    using summarize_inv [OF files, of "map_option ap_active_kid pointer"] by (elim exE conjE)
  have "list_ex sum_active ss" if some: "pointer = Some q" for q
  proof -
    obtain v where v: "read_key_record K D (ap_active_kid q) = Inr v" using loaded some by blast
    have "map_of (id_keys D) (record_path (ap_active_kid q)) \<noteq> None" by (rule read_key_present [OF v])
    then have "record_path (ap_active_kid q) \<in> fst ` set (id_keys D)" by (simp add: map_of_eq_None_iff)
    moreover have "ap_active_kid q \<noteq> []"
      using read_key_Inr [OF v] by (auto simp: validate_kid_shape_def KID_LENGTH_def)
    ultimately show ?thesis using ss(2) some by auto
  qed
  then show ?thesis
    using enter p ss(1) assms(4) by (cases pointer) (auto simp: list_keys_def Let_def)
qed

end
