(* ===== verification/ControlSystem.thy ===== *)
theory ControlSystem
  imports ControlDispatch KeyStoreProofs
begin

text \<open>
  The controller side of one instance as a system: key-store calls, the removal of the instance,
  preparations, settlements and the explicit clearing of the slot in any order and environment, with
  the operations it has released and neither concluded nor given up as a ghost set.
\<close>

section \<open>The journal slot\<close>

definition ident :: "OperationJournalEntry \<Rightarrow> string \<times> string \<times> string \<times> string" where
  "ident e = (oj_operation_id e, oj_request_hash e, oj_kid e, oj_compact_jws e)"

lemma has_same_identity_ident: "has_same_identity a b \<longleftrightarrow> ident a = ident b"
  by (auto simp: has_same_identity_def ident_def)

lemma ident_accepted [simp]: "ident (e\<lparr>oj_state := s\<rparr>) = ident e"
  by (simp add: ident_def)

lemma validate_accepted [simp]: "validate_journal_entry X P (e\<lparr>oj_state := s\<rparr>) = validate_journal_entry X P e"
  by (simp add: validate_journal_entry_def split: option.split)

lemma load_slot_Inr:
  "load_slot X P path = Inr r \<longleftrightarrow>
     (case r of None \<Rightarrow> path = None | Some e \<Rightarrow> path = Some (Record e) \<and> validate_journal_entry X P e = Inr ())"
  by (cases path) (auto simp: load_slot_def rbind_Inr_iff split: option.splits record_file.splits)

lemma write_slot_cases:
  obtains "write_slot E e path = (Inl SlotNotPersisted, path)" | r where "write_slot E e path = (r, Some (Record e))"
  by (cases "se_commit E") (auto simp: write_slot_def put_one_def)

lemma remove_slot_cases:
  obtains "remove_slot E path = (Inl SlotNotCleared, path)" | r where "remove_slot E path = (r, None)"
  by (cases "se_commit E"; cases path) (auto simp: remove_slot_def drop_one_def)

lemma write_slot_Inr: "write_slot E e path = (Inr u, path') \<Longrightarrow> path' = Some (Record e)"
  by (cases "se_commit E") (auto simp: write_slot_def put_one_def)

text \<open>What each operation of the slot can do to it.\<close>

lemma record_dispatched_cases:
  obtains (kept) r where "record_dispatched X P E e path = (r, path)"
      "r = Inr () \<Longrightarrow> \<exists>x. load_slot X P path = Inr (Some x) \<and> ident x = ident e"
  | (stored) r where "record_dispatched X P E e path = (r, Some (Record e))" "path = None"
      "validate_journal_entry X P e = Inr ()"
proof -
  note defs = record_dispatched_def
  show thesis
  proof (cases "validate_journal_entry X P e = Inr () \<and> oj_state e = Dispatched \<and> lock_slot E = Inr () \<and> path = None")
    case True
    then show thesis
      by (cases rule: write_slot_cases [of E e path])
         (auto simp: defs load_slot_def intro: kept stored)
  next
    case False
    show thesis
    proof (rule kept)
      show "record_dispatched X P E e path = (fst (record_dispatched X P E e path), path)"
        using False by (auto simp: defs attempt_def load_slot_Inr split: sum.splits option.splits)
      show "\<exists>x. load_slot X P path = Inr (Some x) \<and> ident x = ident e"
        if "fst (record_dispatched X P E e path) = Inr ()"
        using that False
        by (auto simp: defs attempt_def load_slot_Inr has_same_identity_ident
            split: sum.splits option.splits if_splits)
    qed
  qed
qed

lemma mark_accepted_cases:
  obtains (kept) r where "mark_accepted_if_matches X P E e path = (r, path)"
  | (marked) r x where "mark_accepted_if_matches X P E e path = (r, Some (Record (x\<lparr>oj_state := Accepted\<rparr>)))"
      "load_slot X P path = Inr (Some x)" "ident x = ident e"
proof -
  show thesis
  proof (cases "\<exists>x. lock_slot E = Inr () \<and> load_slot X P path = Inr (Some x) \<and> ident x = ident e")
    case True
    then obtain x where x: "lock_slot E = Inr ()" "load_slot X P path = Inr (Some x)" "ident x = ident e"
      by blast
    then show thesis
      by (cases rule: write_slot_cases [of E "x\<lparr>oj_state := Accepted\<rparr>" path])
         (cases "oj_state x = Accepted";
          auto simp: mark_accepted_if_matches_def has_same_identity_ident intro: kept marked)+
  next
    case False
    then show thesis
      by (intro kept [of "fst (mark_accepted_if_matches X P E e path)"])
         (auto simp: mark_accepted_if_matches_def attempt_def has_same_identity_ident
          split: sum.splits option.splits)
  qed
qed

lemma clear_if_matches_cases:
  obtains (kept) r where "clear_if_matches X P E e path = (r, path)"
  | (cleared) r x where "clear_if_matches X P E e path = (r, None)"
      "load_slot X P path = Inr (Some x)" "ident x = ident e"
proof -
  show thesis
  proof (cases "\<exists>x. lock_slot E = Inr () \<and> load_slot X P path = Inr (Some x) \<and> ident x = ident e")
    case True
    then obtain x where x: "lock_slot E = Inr ()" "load_slot X P path = Inr (Some x)" "ident x = ident e"
      by blast
    then show thesis
      by (cases rule: remove_slot_cases [of E path])
         (auto simp: clear_if_matches_def has_same_identity_ident intro: kept cleared)
  next
    case False
    then show thesis
      by (intro kept [of "fst (clear_if_matches X P E e path)"])
         (auto simp: clear_if_matches_def attempt_def has_same_identity_ident
          split: sum.splits option.splits)
  qed
qed

section \<open>Preparing and settling\<close>

lemma prepare_entry_resume_Some:
  assumes "prepare_entry_resume P e i input = Inr (Some p)"
  shows "ident (journal_entry now p) = ident e \<and> pp_kind p = Resumed \<and>
     co_deployment_id (sg_operation (pp_signed p)) = inst_deployment_id i \<and>
     co_operation (sg_operation (pp_signed p)) = ci_operation input"
  using assms
  by (auto simp: prepare_entry_resume_def Let_def rbind_Inr_iff journal_entry_def ident_def
      OperationJournalEntry_new_def build_control_operation_with_id_and_kid_def
      split: option.splits if_splits)

text \<open>Whatever preparation returns is what the slot holds when it returns.\<close>

lemma prepare_Inr:
  assumes "prepare_control_operation C K P RE KE SE op_id now G jd selector input dirs = (Inr p, dirs')"
  obtains (resumed) e where "dirs' = dirs" "pp_kind p = Resumed"
      "load_slot (rc_externals C) P (id_journal (dirs jd)) = Inr (Some e)" "ident (journal_entry now p) = ident e"
  | (signed) "id_journal (dirs jd) = None" "pp_kind p = Fresh"
      "dirs' = dirs(jd := (dirs jd)\<lparr>id_journal := Some (Record (journal_entry now p))\<rparr>)"
      "validate_journal_entry (rc_externals C) P (journal_entry now p) = Inr ()"
proof -
  obtain i journaled where i: "resolve_instance C RE G selector = Inr i"
    and j: "load_slot (rc_externals C) P (id_journal (dirs jd)) = Inr journaled"
    using assms by (auto simp: prepare_control_operation_def attempt_def split: sum.splits)
  show thesis
  proof (cases journaled)
    case (Some e)
    then have "prepare_entry_resume P e i input = Inr (Some p)" "dirs' = dirs"
      using assms i j by (auto simp: prepare_control_operation_def attempt_def split: sum.splits option.splits)
    then show thesis using prepare_entry_resume_Some [of P e i input p now] j Some by (intro resumed) auto
  next
    case None
    then have empty: "id_journal (dirs jd) = None" using j by (simp add: load_slot_Inr)
    obtain slot where rec: "record_dispatched (rc_externals C) P SE (journal_entry now p) None = (Inr (), slot)"
      and dirs': "dirs' = dirs(jd := (dirs jd)\<lparr>id_journal := slot\<rparr>)" and kind: "pp_kind p = Fresh"
      using assms i j None empty
      by (auto simp: prepare_control_operation_def attempt_def Let_def rbind_Inr_iff
          split: sum.splits prod.splits)
    from rec show thesis
      by (cases rule: record_dispatched_cases [of "rc_externals C" P SE "journal_entry now p" None])
         (use empty dirs' kind in \<open>auto simp: load_slot_Inr intro: signed\<close>)
  qed
qed

lemma prepare_dirs:
  fixes input :: "'a ControlOperationInput"
  assumes "prepare_control_operation C K P RE KE SE op_id now G jd selector input dirs = (r, dirs')"
  obtains "dirs' = dirs" | e where "id_journal (dirs jd) = None" "validate_journal_entry (rc_externals C) P e = Inr ()"
      "dirs' = dirs(jd := (dirs jd)\<lparr>id_journal := Some (Record e)\<rparr>)"
proof (cases "dirs' = dirs")
  case False
  then obtain signed :: "'a SignedControlOperation" and rr slot where
      rec: "record_dispatched (rc_externals C) P SE (journal_entry now \<lparr>pp_signed = signed, pp_kind = Fresh\<rparr>)
        (id_journal (dirs jd)) = (rr, slot)"
    and dirs': "dirs' = dirs(jd := (dirs jd)\<lparr>id_journal := slot\<rparr>)"
    using assms
    by (auto simp: prepare_control_operation_def attempt_def Let_def split: sum.splits option.splits prod.splits)
  have "dirs(jd := (dirs jd)\<lparr>id_journal := id_journal (dirs jd)\<rparr>) = dirs" by (simp add: fun_upd_idem)
  with rec dirs' False that(2) show thesis
    by (cases rule: record_dispatched_cases [of "rc_externals C" P SE
          "journal_entry now \<lparr>pp_signed = signed, pp_kind = Fresh\<rparr>" "id_journal (dirs jd)"]) auto
qed (rule that(1))

text \<open>
  The verdicts after which the operation needs no recovery anchor: the target refused it before
  accepting it, or its terminal result has been stored.
\<close>

definition concluded ::
  "externals \<Rightarrow> ('a, 'r) protocol \<Rightarrow> slot_env \<Rightarrow> time \<Rightarrow> 'a PreparedOperation \<Rightarrow> 'r DispatchVerdict
   \<Rightarrow> bool \<Rightarrow> slot \<Rightarrow> bool" where
  "concluded X P SE now p verdict persisted path \<longleftrightarrow>
     (case verdict of
        DefinitivelyRejected rejection \<Rightarrow> rejection \<noteq> OPERATION_ID_CONFLICT
      | Terminal result \<Rightarrow>
          validate_result_binding P p result = Inr () \<and> persisted \<and>
          fst (mark_accepted_if_matches X P SE (journal_entry now p) path) = Inr ()
      | _ \<Rightarrow> False)"

text \<open>Settling changes only the state of the entry it was told about, or removes that entry once concluded.\<close>

lemma settle_cases:
  obtains (kept) r where "settle_journal X P SE SE2 now p verdict persisted path = (r, path)"
  | (marked) r x where
      "settle_journal X P SE SE2 now p verdict persisted path = (r, Some (Record (x\<lparr>oj_state := Accepted\<rparr>)))"
      "load_slot X P path = Inr (Some x)" "ident x = ident (journal_entry now p)"
  | (cleared) r x where "settle_journal X P SE SE2 now p verdict persisted path = (r, None)"
      "load_slot X P path = Inr (Some x)" "ident x = ident (journal_entry now p)"
      "concluded X P SE now p verdict persisted path"
proof (cases verdict)
  case (DefinitivelyRejected c)
  then show thesis
    by (cases rule: clear_if_matches_cases [of X P SE "journal_entry now p" path])
       (cases "c = OPERATION_ID_CONFLICT";
        auto simp: settle_journal_def Let_def concluded_def intro: kept cleared)+
next
  case OutcomeUnknown
  then show thesis by (intro kept) (simp add: settle_journal_def Let_def)
next
  case InProgressAccepted
  then show thesis
    by (cases rule: mark_accepted_cases [of X P SE "journal_entry now p" path])
       (auto simp: settle_journal_def Let_def intro: kept marked)
next
  case (Terminal result)
  show thesis
  proof (cases "validate_result_binding P p result")
    case (Inl e)
    then show thesis using Terminal by (intro kept) (simp add: settle_journal_def Let_def)
  next
    case valid: (Inr u)
    obtain r1 path1 where mark: "mark_accepted_if_matches X P SE (journal_entry now p) path = (r1, path1)"
      by (cases "mark_accepted_if_matches X P SE (journal_entry now p) path")
    have same: "path1 = path \<or> (\<exists>x. load_slot X P path = Inr (Some x) \<and>
        ident x = ident (journal_entry now p) \<and> path1 = Some (Record (x\<lparr>oj_state := Accepted\<rparr>)))"
      using mark by (cases rule: mark_accepted_cases [of X P SE "journal_entry now p" path]) auto
    have settle: "settle_journal X P SE SE2 now p verdict persisted path =
        (case r1 of Inl e \<Rightarrow> (Inl (SlotFailed e), path1)
         | Inr _ \<Rightarrow> if \<not> persisted then (Inl TerminalNotPersisted, path1)
             else (map_err SlotFailed (fst (clear_if_matches X P SE2 (journal_entry now p) path1)),
                   snd (clear_if_matches X P SE2 (journal_entry now p) path1)))"
      using Terminal valid mark by (simp add: settle_journal_def Let_def split: sum.split)
    have anchor: "\<exists>x. load_slot X P path = Inr (Some x) \<and> ident x = ident (journal_entry now p)"
      if "load_slot X P path1 = Inr (Some y)" "ident y = ident (journal_entry now p)" for y
      using same that by auto
    show thesis
    proof (cases "\<exists>u. r1 = Inr u \<and> persisted")
      case True
      then show thesis
        using settle same anchor Terminal valid mark
        by (cases rule: clear_if_matches_cases [of X P SE2 "journal_entry now p" path1])
           (auto simp: concluded_def intro: kept marked cleared)
    next
      case False
      then show thesis using settle same by (cases r1) (auto intro: kept marked)
    qed
  qed
qed

section \<open>The controller as a system\<close>

lemma key_call_journal [simp]: "id_journal (key_call_dir K E d call D) = id_journal D"
proof -
  have candidate: "id_journal (snd (generate_candidate_locked K E D)) = id_journal D"
    by (simp add: generate_candidate_locked_def Let_def split: prod.split bool.split)
  have pointer: "id_journal (snd (write_active_pointer out kid D')) = id_journal D'"
    for out kid and D' :: "'a instance_dir"
    by (cases out) (simp_all add: write_active_pointer_def put_one_def)
  show ?thesis
  proof (cases call)
    case GetOrCreateActive
    obtain r D1 where gen: "generate_candidate_locked K E D = (r, D1)"
      by (cases "generate_candidate_locked K E D")
    have "id_journal (snd (case write_active_pointer out kid D1 of
        (Inl e, D2) \<Rightarrow> (Inl e, D2) | (Inr _, D2) \<Rightarrow> (Inr v, D2))) = id_journal D" for out kid v
      using candidate gen pointer [of out kid D1] by (auto split: prod.split sum.split)
    then show ?thesis
      using GetOrCreateActive candidate gen
      by (auto simp: get_or_create_active_def attempt_def split: sum.split option.split)
  qed (use candidate pointer in \<open>auto simp: generate_candidate_def set_active_kid_def clear_active_def
      retire_kid_def attempt_def split: sum.split prod.split bool.split\<close>)
qed

lemma clear_slot_cases:
  obtains (kept) r where "clear_slot E path = (r, path)" | (cleared) r where "clear_slot E path = (r, None)"
proof (cases "lock_slot E")
  case (Inl e)
  then show thesis by (intro kept) (simp add: clear_slot_def)
next
  case (Inr u)
  then show thesis
    by (cases rule: remove_slot_cases [of E path]) (auto simp: clear_slot_def intro: kept cleared)
qed

lemma remove_instance_journal:
  assumes "remove_instance outcomes listing E d D = (r, D')"
  shows "id_journal D' = id_journal D \<or> id_journal D' = None"
proof -
  have one: "id_journal (snd (remove_artifact out a D0)) \<in> {id_journal D0, None}"
    for out a and D0 :: "'a instance_dir"
    by (simp add: remove_artifact_def split: artifact.split removal.split)
  have all: "id_journal (snd (remove_artifacts outcomes as D0)) \<in> {id_journal D0, None}"
    for as and D0 :: "'a instance_dir"
  proof (induction as arbitrary: D0)
    case (Cons a as)
    obtain ok D1 where step: "remove_artifact (outcomes a) a D0 = (ok, D1)" by (rule prod.exhaust)
    then have "id_journal D1 \<in> {id_journal D0, None}" using one [of "outcomes a" a D0] by simp
    then show ?case using Cons.IH [of D1] step by (cases ok) auto
  qed simp
  show ?thesis
    using assms all [of listing D] by (auto simp: remove_instance_def split: sum.splits if_splits)
qed

text \<open>
  The instance directories under one open journal, and the identities of the operations the
  controller has released and neither concluded nor given up. A preparation adds what it hands out,
  and so does an update that records its pending operation again; settling takes an operation out
  once it is concluded. What gives an operation up is the removal of the instance after an uninstall
  and the explicit \<open>clear\<close>, which an update calls when the target reported that nothing had to be
  done and so never took the operation: where they empty the slot, the set is empty. A removal may
  stop half way. A crash between two calls is the absence of the second.
\<close>

inductive client_reachable ::
  "registry_codec \<Rightarrow> key_crypto \<Rightarrow> ('a, 'r) protocol \<Rightarrow> string \<Rightarrow> instance_dirs
   \<Rightarrow> (string \<times> string \<times> string \<times> string) set \<Rightarrow> bool"
  for C K and P :: "('a, 'r) protocol" and jd where
  started: "id_journal (dirs jd) = None \<Longrightarrow> client_reachable C K P jd dirs {}"
| prepared:
    "client_reachable C K P jd dirs Q \<Longrightarrow>
     prepare_control_operation C K P RE KE SE operation_id now G jd selector input dirs = (r, dirs') \<Longrightarrow>
     Q' = (case r of Inl _ \<Rightarrow> Q | Inr p \<Rightarrow> insert (ident (journal_entry now p)) Q) \<Longrightarrow>
     client_reachable C K P jd dirs' Q'"
| settled:
    "client_reachable C K P jd dirs Q \<Longrightarrow>
     settle_journal (rc_externals C) P SE SE2 now p verdict persisted (id_journal (dirs jd)) = (s, path) \<Longrightarrow>
     Q' = (if concluded (rc_externals C) P SE now p verdict persisted (id_journal (dirs jd))
           then Q - {ident (journal_entry now p)} else Q) \<Longrightarrow>
     client_reachable C K P jd (dirs(jd := (dirs jd)\<lparr>id_journal := path\<rparr>)) Q'"
| recorded:
    "client_reachable C K P jd dirs Q \<Longrightarrow>
     record_dispatched (rc_externals C) P SE e (id_journal (dirs jd)) = (s, path) \<Longrightarrow>
     Q' = (case s of Inl _ \<Rightarrow> Q | Inr _ \<Rightarrow> insert (ident e) Q) \<Longrightarrow>
     client_reachable C K P jd (dirs(jd := (dirs jd)\<lparr>id_journal := path\<rparr>)) Q'"
| cleared:
    "client_reachable C K P jd dirs Q \<Longrightarrow>
     clear_slot SE (id_journal (dirs jd)) = (s, path) \<Longrightarrow>
     Q' = (if path = None then {} else Q) \<Longrightarrow>
     client_reachable C K P jd (dirs(jd := (dirs jd)\<lparr>id_journal := path\<rparr>)) Q'"
| key_changed:
    "client_reachable C K P jd dirs Q \<Longrightarrow>
     client_reachable C K P jd (dirs(d := key_call_dir K KE d call (dirs d))) Q"
| instance_removed:
    "client_reachable C K P jd dirs Q \<Longrightarrow>
     remove_instance outcomes listing KE d (dirs d) = (res, D') \<Longrightarrow>
     Q' = (if d = jd \<and> id_journal D' = None then {} else Q) \<Longrightarrow>
     client_reachable C K P jd (dirs(d := D')) Q'"

text \<open>Every released operation that is neither concluded nor given up is the one the slot holds.\<close>

definition anchored ::
  "externals \<Rightarrow> ('a, 'r) protocol \<Rightarrow> slot \<Rightarrow> (string \<times> string \<times> string \<times> string) set \<Rightarrow> bool" where
  "anchored X P path Q \<longleftrightarrow> (\<forall>q \<in> Q. \<exists>e. load_slot X P path = Inr (Some e) \<and> ident e = q)"

lemma anchored_empty [simp]: "anchored X P path {}"
  by (simp add: anchored_def)

lemma anchored_None: "anchored X P None Q \<longleftrightarrow> Q = {}"
  by (auto simp: anchored_def load_slot_def)

lemma anchored_all:
  "anchored X P path Q \<Longrightarrow> q \<in> Q \<Longrightarrow> load_slot X P path = Inr (Some e) \<Longrightarrow> q = ident e"
  by (auto simp: anchored_def)

lemma anchored_mark:
  assumes "anchored X P path Q" and "load_slot X P path = Inr (Some x)"
  shows "anchored X P (Some (Record (x\<lparr>oj_state := Accepted\<rparr>))) Q"
  using assms by (simp add: anchored_def load_slot_Inr)

lemma anchored_insert:
  assumes "anchored X P path Q" and "load_slot X P path = Inr (Some e)"
  shows "anchored X P path (insert (ident e) Q)"
  using assms by (simp add: anchored_def)

lemma anchored_subset: "anchored X P path Q \<Longrightarrow> Q' \<subseteq> Q \<Longrightarrow> anchored X P path Q'"
  by (auto simp: anchored_def)

lemma client_reachable_anchored:
  fixes P :: "('a, 'r) protocol"
  assumes "client_reachable C K P jd dirs Q"
  shows "anchored (rc_externals C) P (id_journal (dirs jd)) Q"
  using assms
proof (induction rule: client_reachable.induct)
  case (prepared dirs Q RE KE SE operation_id now G selector input r dirs' Q')
  show ?case
  proof (cases r)
    case (Inr p)
    from prepared.hyps(2) [unfolded Inr] show ?thesis
    proof (cases rule: prepare_Inr [where now = now])
      case (resumed e)
      with prepared.IH prepared.hyps(3) Inr show ?thesis by (simp add: anchored_insert)
    next
      case signed
      then have "Q = {}" using prepared.IH by (simp add: anchored_None)
      with signed prepared.hyps(3) Inr show ?thesis by (simp add: anchored_def load_slot_Inr)
    qed
  next
    case (Inl e)
    with prepared.hyps(3) have "Q' = Q" by simp
    moreover from prepared.hyps(2) have "anchored (rc_externals C) P (id_journal (dirs' jd)) Q"
    proof (cases rule: prepare_dirs)
      case (2 e)
      then have "Q = {}" using prepared.IH by (simp add: anchored_None)
      then show ?thesis by simp
    qed (use prepared.IH in simp)
    ultimately show ?thesis by simp
  qed
next
  case (settled dirs Q SE SE2 now p verdict persisted s path Q')
  have "Q' \<subseteq> Q" using settled.hyps(3) by auto
  then have less: "anchored (rc_externals C) P path' Q \<Longrightarrow> anchored (rc_externals C) P path' Q'" for path'
    by (rule anchored_subset [rotated])
  show ?case
  proof (cases rule: settle_cases [of "rc_externals C" P SE SE2 now p verdict persisted "id_journal (dirs jd)"])
    case (kept r)
    with settled.hyps(2) settled.IH less show ?thesis by simp
  next
    case (marked r x)
    with settled.hyps(2) anchored_mark [OF settled.IH marked(2)] less show ?thesis by simp
  next
    case (cleared r x)
    then have "Q \<subseteq> {ident (journal_entry now p)}"
      using anchored_all [OF settled.IH _ cleared(2)] by auto
    then have "Q' = {}" using settled.hyps(3) cleared(4) by auto
    then show ?thesis by simp
  qed
next
  case (recorded dirs Q SE e s path Q')
  show ?case
  proof (cases rule: record_dispatched_cases [of "rc_externals C" P SE e "id_journal (dirs jd)"])
    case (kept r)
    then have path: "path = id_journal (dirs jd)" "s = r" using recorded.hyps(2) by simp_all
    show ?thesis
    proof (cases s)
      case (Inl x)
      then show ?thesis using recorded.IH recorded.hyps(3) path by simp
    next
      case (Inr u)
      then obtain x where "load_slot (rc_externals C) P (id_journal (dirs jd)) = Inr (Some x)" "ident x = ident e"
        using kept(2) path by auto
      with recorded.IH recorded.hyps(3) Inr path show ?thesis
        using anchored_insert [of "rc_externals C" P "id_journal (dirs jd)" Q x] by simp
    qed
  next
    case (stored r)
    then have "path = Some (Record e)" "Q = {}"
      using recorded.hyps(2) recorded.IH by (simp_all add: anchored_None)
    then show ?thesis
      using recorded.hyps(3) stored(3) by (cases s) (simp_all add: anchored_def load_slot_Inr)
  qed
next
  case (cleared dirs Q SE s path Q')
  then show ?case
    by (cases rule: clear_slot_cases [of SE "id_journal (dirs jd)"])
      (auto simp: anchored_None)
next
  case (key_changed dirs Q d KE call)
  then show ?case by (cases "jd = d") simp_all
next
  case (instance_removed dirs Q outcomes listing KE d res D' Q')
  show ?case
  proof (cases "d = jd \<and> id_journal D' = None")
    case True
    then show ?thesis using instance_removed.hyps(3) by simp
  next
    case False
    then have "id_journal ((dirs(d := D')) jd) = id_journal (dirs jd)"
      using remove_instance_journal [OF instance_removed.hyps(2)] by auto
    then show ?thesis using instance_removed.IH instance_removed.hyps(3) False by auto
  qed
qed simp

section \<open>Resuming\<close>

text \<open>
  What the crates promise of a signature: the compact JWS carries the canonical bytes of the
  operation as its second segment, and the request hash is the hash of those bytes.
\<close>

definition protocol_laws :: "('a, 'r) protocol \<Rightarrow> bool" where
  "protocol_laws P \<longleftrightarrow>
     (\<forall>operation seed jws request_hash.
        sign_control_operation P operation seed = Some (jws, request_hash) \<longrightarrow>
        (\<exists>canonical header payload rest.
           canonical_control_operation_bytes P operation = Some canonical \<and>
           request_hash = control_operation_request_hash P canonical \<and>
           split_on (CHR ''.'') jws = header # payload # rest \<and> decode_payload P payload = Some canonical))"

text \<open>An operation that any entry with its identity resumes, in an instance of that deployment.\<close>

definition resumable ::
  "('a, 'r) protocol \<Rightarrow> string \<Rightarrow> 'a ControlOperationInput \<Rightarrow> 'a PreparedOperation \<Rightarrow> bool" where
  "resumable P deployment_id input p \<longleftrightarrow>
     (let operation = sg_operation (pp_signed p)
      in operation = build_control_operation_with_id_and_kid P deployment_id input
           (co_operation_id operation) (co_kid operation) \<and>
         (\<exists>canonical header payload rest.
            canonical_control_operation_bytes P operation = Some canonical \<and>
            sg_request_hash (pp_signed p) = control_operation_request_hash P canonical \<and>
            split_on (CHR ''.'') (sg_compact_jws (pp_signed p)) = header # payload # rest \<and>
            decode_payload P payload = Some canonical))"

lemma resumable_resumes:
  assumes "resumable P (inst_deployment_id i) input p" and "ident e = ident (journal_entry now p)"
  shows "prepare_entry_resume P e i input = Inr (Some (p\<lparr>pp_kind := Resumed\<rparr>))"
proof -
  let ?op = "sg_operation (pp_signed p)"
  have e: "oj_operation_id e = co_operation_id ?op" "oj_request_hash e = sg_request_hash (pp_signed p)"
      "oj_kid e = co_kid ?op" "oj_compact_jws e = sg_compact_jws (pp_signed p)"
    using assms(2) by (simp_all add: ident_def journal_entry_def OperationJournalEntry_new_def)
  from assms(1) have op: "build_control_operation_with_id_and_kid P (inst_deployment_id i) input
      (co_operation_id ?op) (co_kid ?op) = ?op"
    by (simp add: resumable_def Let_def)
  obtain canonical header payload rest where c:
      "canonical_control_operation_bytes P ?op = Some canonical"
      "sg_request_hash (pp_signed p) = control_operation_request_hash P canonical"
      "split_on (CHR ''.'') (sg_compact_jws (pp_signed p)) = header # payload # rest"
      "decode_payload P payload = Some canonical"
    using assms(1) by (auto simp: resumable_def Let_def)
  show ?thesis
    using c by (simp add: prepare_entry_resume_def e op journaled_payload_matches_def
        flip: c(2))
qed

lemma build_signed_Inr:
  assumes "build_signed_control_operation_for_record K P E op_id D i input = Inr so"
  obtains active :: LoadedControllerKey and jws h where
    "sign_control_operation P (build_control_operation_with_id_and_kid P (inst_deployment_id i)
       input op_id (lk_kid active)) (lk_signing_key active) = Some (jws, h)"
    "so = \<lparr>sg_operation = build_control_operation_with_id_and_kid P (inst_deployment_id i)
       input op_id (lk_kid active), sg_compact_jws = jws, sg_request_hash = h\<rparr>"
proof -
  obtain active where active: "load_active K E (inst_deployment_id i) D = Inr (Some active)"
    using assms by (auto simp: build_signed_control_operation_for_record_def rbind_def map_err_def
        split: option.split_asm sum.split_asm)
  show thesis
    using assms active that [of active]
    by (auto simp: build_signed_control_operation_for_record_def rbind_Inr_iff Let_def
          split: option.split_asm prod.split_asm)
qed

lemma prepared_is_resumable:
  assumes laws: "protocol_laws P"
    and prep: "prepare_control_operation C K P RE KE SE op_id now G jd selector input dirs = (Inr p, dirs')"
  shows "\<exists>i. resolve_instance C RE G selector = Inr i \<and> resumable P (inst_deployment_id i) input p"
proof -
  obtain i journaled where i: "resolve_instance C RE G selector = Inr i"
    and j: "load_slot (rc_externals C) P (id_journal (dirs jd)) = Inr journaled"
    using prep by (auto simp: prepare_control_operation_def attempt_def split: sum.splits)
  have "resumable P (inst_deployment_id i) input p"
  proof (cases journaled)
    case (Some e)
    then have "prepare_entry_resume P e i input = Inr (Some p)"
      using prep i j by (auto simp: prepare_control_operation_def attempt_def split: sum.splits option.splits)
    then show ?thesis
      by (auto simp: prepare_entry_resume_def Let_def rbind_Inr_iff resumable_def
          journaled_payload_matches_def build_control_operation_with_id_and_kid_def
          split: option.splits if_splits list.splits)
  next
    case None
    then have "build_signed_control_operation_for_record K P KE op_id (dirs (inst_deployment_id i)) i input
        = Inr (pp_signed p)"
      using prep i j
      by (auto simp: prepare_control_operation_def attempt_def Let_def rbind_Inr_iff
          split: sum.splits prod.splits)
    then obtain active :: LoadedControllerKey and jws h where
        sign: "sign_control_operation P (build_control_operation_with_id_and_kid P (inst_deployment_id i)
          input op_id (lk_kid active)) (lk_signing_key active) = Some (jws, h)"
      and p: "pp_signed p = \<lparr>sg_operation = build_control_operation_with_id_and_kid P (inst_deployment_id i)
          input op_id (lk_kid active), sg_compact_jws = jws, sg_request_hash = h\<rparr>"
      by (rule build_signed_Inr)
    show ?thesis
      using laws [unfolded protocol_laws_def, rule_format, OF sign]
      by (simp add: resumable_def p build_control_operation_with_id_and_kid_def)
  qed
  with i show ?thesis by blast
qed

lemma prepare_from_slot:
  assumes "resolve_instance C RE G selector = Inr i"
    and "load_slot (rc_externals C) P (id_journal (dirs jd)) = Inr (Some e)"
    and "prepare_entry_resume P e i input = Inr (Some p)"
  shows "prepare_control_operation C K P RE KE SE op_id now G jd selector input dirs = (Inr p, dirs)"
  using assms by (simp add: prepare_control_operation_def)

end
