(* ===== verification/ControlProperties.thy ===== *)
theory ControlProperties
  imports ControlSystem RegistryProperties
begin

text \<open>
  The properties of the controller's key store and of its single-slot operation journal, each
  with a witness on the sample registry, a sample key directory and a sample protocol.
\<close>

section \<open>Samples\<close>

text \<open>Base64 is byte for byte, and every seed has the same public key and key id.\<close>

definition ctl_kid :: string where "ctl_kid = replicate 43 CHR ''A''"

definition ctl_K :: key_crypto where
  "ctl_K =
     \<lparr>decode32 = (\<lambda>s. Some (map (\<lambda>c. word_of_nat (of_char c)) s)),
      encode_b64 = map (\<lambda>b. char_of (unat b)),
      public_of = (\<lambda>_. replicate 32 7),
      kid_of = (\<lambda>_. ctl_kid)\<rparr>"

definition ctl_KE :: key_env where
  "ctl_KE = \<lparr>ke_held = False, ke_dirs_ok = True, ke_listable = True, ke_seed = replicate 32 9,
     ke_now = 3, ke_commit = Committed, ke_commit_2 = Committed\<rparr>"

lemma ctl_laws: "crypto_laws ctl_K"
proof -
  have "word_of_nat (of_char (char_of (unat b) :: char)) = b" for b :: "8 word"
    using unsigned_less [where 'a = nat, of b] by simp
  moreover have "validate_kid_shape ctl_kid = Inr ()"
    by (simp add: validate_kid_shape_def ctl_kid_def KID_LENGTH_def char_class_defs list_all_iff)
  ultimately show ?thesis by (simp add: crypto_laws_def ctl_K_def map_idI)
qed

lemma ctl_kid_ok [simp]: "validate_kid_shape ctl_kid = Inr ()"
  using ctl_laws by (simp add: crypto_laws_def ctl_K_def)

lemma ctl_enter: "validate_instance_identifier ''prod'' = Inr ()" "enter_instance ctl_KE ''prod'' = Inr ()"
  by (simp_all add: enter_instance_def acquire_lock_def validate_instance_identifier_def
      ident_char_def char_class_defs ctl_KE_def)

definition ctl_dir :: "OperationJournalEntry instance_dir" where
  "ctl_dir = key_call_dir ctl_K ctl_KE ''prod'' GetOrCreateActive empty_dir"

definition ctl_key :: LoadedControllerKey where
  "ctl_key = \<lparr>lk_kid = ctl_kid, lk_signing_key = replicate 32 9\<rparr>"

lemma ctl_created: "get_or_create_active ctl_K ctl_KE ''prod'' empty_dir = (Inr ctl_key, ctl_dir)"
proof -
  have "fst (get_or_create_active ctl_K ctl_KE ''prod'' (empty_dir :: OperationJournalEntry instance_dir)) = Inr ctl_key"
    using ctl_enter
    by (simp add: get_or_create_active_def read_active_pointer_def empty_dir_def
        generate_candidate_locked_def put_file_def write_active_pointer_def put_one_def Let_def
        ctl_KE_def ctl_K_def ctl_key_def)
  then show ?thesis by (simp add: ctl_dir_def prod_eq_iff)
qed

lemma ctl_dir_reachable: "key_reachable ctl_K ''prod'' ctl_dir"
  unfolding ctl_dir_def by (intro key_called key_empty) (simp add: ctl_KE_def)

section \<open>The key store\<close>

lemma summarize_members:
  assumes "summarize_keys K D active es = Inr ss" and "s \<in> set ss"
  shows "\<exists>v. read_key_record K D (sum_kid s) = Inr v \<and> s = into_summary v (active = Some (sum_kid s))"
  using assms
proof (induction es arbitrary: ss)
  case (Cons e es)
  obtain name c where e: "e = (name, c)" by force
  show ?case
  proof (cases "record_stem name")
    case None
    then show ?thesis using Cons e by simp
  next
    case (Some stem)
    then obtain v rest where v: "read_key_record K D stem = Inr v"
      and rest: "summarize_keys K D active es = Inr rest"
      and ss: "ss = into_summary v (active = Some stem) # rest"
      using Cons.prems(1) e by (auto simp: rbind_Inr_iff)
    show ?thesis
    proof (cases "s \<in> set rest")
      case False
      then have "s = into_summary v (active = Some stem)" using Cons.prems(2) ss by simp
      then show ?thesis using v read_key_Inr [OF v] by (simp add: into_summary_def)
    qed (rule Cons.IH [OF rest])
  qed
qed simp

text \<open>In every key directory that calls of the store can leave behind, whatever became of
  their writes, the active key loads and the listing succeeds: a loaded key is named by the digest
  of its public key, and the listing flags exactly that key, with that public key, as active.\<close>

theorem key_directories_always_load:
  assumes "key_reachable K d D" and "crypto_laws K"
    and "validate_instance_identifier d = Inr ()" and "\<not> ke_held E" and "ke_listable E"
  shows "\<exists>active ks. load_active K E d D = Inr active \<and> list_keys K E d D = Inr ks \<and>
     (\<forall>s \<in> set ks. sum_active s \<longleftrightarrow> map_option lk_kid active = Some (sum_kid s)) \<and>
     (\<forall>k. active = Some k \<longrightarrow> lk_kid k = kid_of K (public_of K (lk_signing_key k)) \<and>
        (\<exists>s \<in> set ks. sum_kid s = lk_kid k \<and>
           decode32 K (sum_public_key s) = Some (public_of K (lk_signing_key k))))"
proof -
  have inv: "key_inv K D" by (rule key_reachable_inv [OF assms(1,2)])
  have enter: "enter_instance E d = Inr ()"
    using assms(3,4) by (simp add: enter_instance_def acquire_lock_def)
  obtain ks where ks: "list_keys K E d D = Inr ks"
    using list_keys_inv [OF inv key_reachable_names [OF assms(1)] enter assms(5)] by (elim exE)
  obtain pointer where p: "read_active_pointer D = Inr pointer"
    and loaded: "\<forall>q. pointer = Some q \<longrightarrow> loads K D (ap_active_kid q)"
    by (rule inv_pointer [OF inv])
  obtain ss where ss: "summarize_keys K D (map_option ap_active_kid pointer) (id_keys D) = Inr ss"
    and set: "set ks = set ss" and ex: "pointer \<noteq> None \<longrightarrow> list_ex sum_active ss"
    using ks p enter assms(5) by (auto simp: list_keys_def Let_def rbind_Inr_iff split: if_splits)
  note member = summarize_members [OF ss]
  show ?thesis
  proof (cases pointer)
    case None
    then have "load_active K E d D = Inr None" using enter p by (simp add: load_active_def)
    moreover have "\<not> sum_active s" if there: "s \<in> set ks" for s
    proof -
      obtain v where "s = into_summary v (map_option ap_active_kid pointer = Some (sum_kid s))"
        using member [of s] there set by auto
      then have "sum_active s = sum_active (into_summary v False)" using None by simp
      then show ?thesis by (simp add: into_summary_def)
    qed
    ultimately show ?thesis using ks by auto
  next
    case (Some q)
    then obtain v where v: "read_key_record K D (ap_active_kid q) = Inr v" using loaded by blast
    note facts = read_key_Inr [OF v]
    have load: "load_active K E d D = Inr (Some (vk_loaded v))"
      using enter p Some v by (simp add: load_active_def)
    have flags: "sum_active s \<longleftrightarrow> lk_kid (vk_loaded v) = sum_kid s" if there: "s \<in> set ks" for s
    proof -
      obtain w where "s = into_summary w (map_option ap_active_kid pointer = Some (sum_kid s))"
        using member [of s] there set by auto
      then have "sum_active s = sum_active (into_summary w (ap_active_kid q = sum_kid s))" using Some by simp
      then show ?thesis using facts by (simp add: into_summary_def)
    qed
    obtain s where s: "s \<in> set ks" "sum_active s" using ex Some set by (auto simp: list_ex_iff)
    then have kid: "sum_kid s = lk_kid (vk_loaded v)" using flags by simp
    moreover obtain w where "read_key_record K D (sum_kid s) = Inr w"
        "s = into_summary w (map_option ap_active_kid pointer = Some (sum_kid s))"
      using member [of s] s set by blast
    ultimately have "sum_public_key s = vk_public_key v" using v facts by (simp add: into_summary_def)
    then show ?thesis using ks load flags s(1) kid facts by auto
  qed
qed

theorem key_directories_always_load_witness:
  "\<exists>active ks. load_active ctl_K ctl_KE ''prod'' ctl_dir = Inr active \<and>
     list_keys ctl_K ctl_KE ''prod'' ctl_dir = Inr ks \<and>
     (\<forall>s \<in> set ks. sum_active s \<longleftrightarrow> map_option lk_kid active = Some (sum_kid s)) \<and>
     (\<forall>k. active = Some k \<longrightarrow> lk_kid k = kid_of ctl_K (public_of ctl_K (lk_signing_key k)) \<and>
        (\<exists>s \<in> set ks. sum_kid s = lk_kid k \<and>
           decode32 ctl_K (sum_public_key s) = Some (public_of ctl_K (lk_signing_key k))))"
  by (rule key_directories_always_load [OF ctl_dir_reachable ctl_laws])
     (simp_all add: ctl_enter ctl_KE_def)

text \<open>Whatever get-or-create answers is from then on the active key: it loads, and a
  second call answers the same key and writes nothing. A call that finds an active key writes
  nothing; one that finds none answers the key of its fresh seed and keeps every stored record.\<close>

theorem get_or_create_active_is_idempotent:
  assumes "key_reachable K d D" and "crypto_laws K" and "length (ke_seed E) = 32"
    and "get_or_create_active K E d D = (Inr k, D')" and "\<not> ke_held E2"
  shows "load_active K E2 d D' = Inr (Some k) \<and> get_or_create_active K E2 d D' = (Inr k, D') \<and>
     (id_active D \<noteq> None \<longrightarrow> D' = D) \<and>
     (id_active D = None \<longrightarrow> lk_signing_key k = ke_seed E \<and> map_of (id_keys D) \<subseteq>\<^sub>m map_of (id_keys D'))"
proof -
  have inv: "key_inv K D" by (rule key_reachable_inv [OF assms(1,2)])
  have enter: "enter_instance E d = Inr ()" and ident: "enter_instance E2 d = Inr ()"
    using assms(4,5) by (auto simp: get_or_create_active_def enter_instance_def acquire_lock_def
        attempt_def rbind_Inr_iff require_def split: sum.splits if_splits)
  show ?thesis
  proof (cases "id_active D")
    case (Some f)
    then obtain p v where p: "read_active_pointer D = Inr (Some p)"
      and v: "read_key_record K D (ap_active_kid p) = Inr v"
      using key_inv_active [OF inv Some] by metis
    then have "k = vk_loaded v" "D' = D" using assms(4) enter by (auto simp: get_or_create_active_def)
    then show ?thesis
      using Some p v ident by (simp add: load_active_def get_or_create_active_def)
  next
    case None
    then have none: "read_active_pointer D = Inr None" by (simp add: read_active_pointer_def)
    let ?r = "\<lparr>kr_schema = CONTROLLER_KEY_STORE_SCHEMA, kr_kid = kid_of K (public_of K (ke_seed E)),
        kr_public_key = encode_b64 K (public_of K (ke_seed E)),
        kr_private_key = encode_b64 K (ke_seed E), kr_created_at = ke_now E\<rparr>"
    let ?path = "record_path (kr_kid ?r)"
    have new: "map_of (id_keys D) ?path = None" "ke_commit E = Committed"
        "k = \<lparr>lk_kid = kr_kid ?r, lk_signing_key = ke_seed E\<rparr>"
        "D' = D\<lparr>id_keys := AList.update ?path (Record ?r) (id_keys D),
            id_active := Some (Record \<lparr>ap_schema = CONTROLLER_KEY_STORE_SCHEMA, ap_active_kid = kr_kid ?r\<rparr>)\<rparr>"
      using assms(4) enter none
      by (auto simp: get_or_create_active_def generate_candidate_locked_def put_file_def
          write_active_pointer_def put_one_def Let_def split: if_splits commit.splits)
    have read: "read_key_record K D' (kr_kid ?r) =
        Inr \<lparr>vk_loaded = k, vk_public_key = kr_public_key ?r, vk_created_at = ke_now E\<rparr>"
      unfolding new(3) by (rule generated_loads [OF assms(2,3) refl]) (simp add: new(4))
    then have "validate_kid_shape (kr_kid ?r) = Inr ()" using read_key_Inr by blast
    then have pointer: "read_active_pointer D' =
        Inr (Some \<lparr>ap_schema = CONTROLLER_KEY_STORE_SCHEMA, ap_active_kid = kr_kid ?r\<rparr>)"
      by (simp add: read_active_pointer_def new(4))
    have "map_of (id_keys D) \<subseteq>\<^sub>m map_of (id_keys D')"
      using new(1) by (auto simp: new(4) map_le_def update_conv)
    then show ?thesis
      using None read pointer ident new(3) by (simp add: load_active_def get_or_create_active_def)
  qed
qed

theorem get_or_create_active_is_idempotent_witness:
  "load_active ctl_K ctl_KE ''prod'' ctl_dir = Inr (Some ctl_key) \<and>
     get_or_create_active ctl_K ctl_KE ''prod'' ctl_dir = (Inr ctl_key, ctl_dir)"
proof -
  have "key_reachable ctl_K ''prod'' (empty_dir :: OperationJournalEntry instance_dir)" by (rule key_empty)
  from get_or_create_active_is_idempotent [OF this ctl_laws _ ctl_created, of ctl_KE]
  show ?thesis by (simp add: ctl_KE_def)
qed

section \<open>Operations\<close>

text \<open>A sample protocol: the canonical bytes name the operation and its deployment.\<close>

definition ctl_P :: "(unit, unit) protocol" where
  "ctl_P =
     (let canonical = (\<lambda>operation. co_operation_id operation @ '':'' @ co_deployment_id operation);
          hash = (\<lambda>_. replicate 64 CHR ''0'')
      in \<lparr>protected_header = (\<lambda>jws. Some (hd (split_on (CHR ''.'') jws), ''JWS'')),
          CONTROL_OPERATION_JWS_TYPE = ''JWS'', CONTROL_OPERATION_SCHEMA = 1,
          canonical_control_operation_bytes = (\<lambda>operation. Some (canonical operation)),
          control_operation_request_hash = hash,
          sign_control_operation = (\<lambda>operation seed.
            let jws = co_kid operation @ ''.'' @ canonical operation @ ''.s''
            in case split_on (CHR ''.'') jws of
                _ # payload # _ \<Rightarrow>
                  if payload = canonical operation then Some (jws, hash (canonical operation)) else None
              | _ \<Rightarrow> None),
          decode_payload = Some,
          control_result_ok = (\<lambda>_. True)\<rparr>)"

lemma ctl_protocol_laws: "protocol_laws ctl_P"
  by (auto simp: protocol_laws_def ctl_P_def Let_def split: list.splits if_splits)

definition ctl_prod :: InstanceRecord where
  "ctl_prod = reg_prod\<lparr>inst_controller_key_ref := Some ''controller-keys/prod''\<rparr>"

definition ctl_G :: registry where
  "ctl_G = reg_full\<lparr>rg_instances := [(''prod.json'', Record ctl_prod)]\<rparr>"

definition ctl_SE :: slot_env where "ctl_SE = \<lparr>se_held = False, se_commit = Committed\<rparr>"

definition ctl_input_for :: "unit ControlOperationPayload \<Rightarrow> unit ControlOperationInput" where
  "ctl_input_for operation = \<lparr>ci_operation = operation, ci_config_revision = ''1''\<rparr>"

abbreviation ctl_input :: "unit ControlOperationInput" where
  "ctl_input \<equiv> ctl_input_for KeysList"

definition ctl_prepared_for :: "unit ControlOperationPayload \<Rightarrow> unit PreparedOperation" where
  "ctl_prepared_for operation = \<lparr>pp_signed = \<lparr>sg_operation = \<lparr>co_schema = 1, co_operation_id = ''op'', co_kid = ctl_kid,
       co_deployment_id = ''prod'', co_config_revision = ''1'', co_operation = operation\<rparr>,
       sg_compact_jws = ctl_kid @ ''.op:prod.s'', sg_request_hash = replicate 64 CHR ''0''\<rparr>,
     pp_kind = Fresh\<rparr>"

abbreviation ctl_prepared :: "unit PreparedOperation" where
  "ctl_prepared \<equiv> ctl_prepared_for KeysList"

definition ctl_dirs :: instance_dirs where "ctl_dirs = (\<lambda>d. if d = ''prod'' then ctl_dir else empty_dir)"

definition ctl_dirs' :: instance_dirs where
  "ctl_dirs' = ctl_dirs(''prod'' := ctl_dir\<lparr>id_journal := Some (Record (journal_entry 4 ctl_prepared))\<rparr>)"

lemma ctl_prod_fields [simp]: "inst_deployment_id ctl_prod = ''prod''" "inst_alias ctl_prod = ''prod''"
    "inst_controller_key_ref ctl_prod = Some ''controller-keys/prod''"
  by (simp_all add: ctl_prod_def)

lemma ctl_prod_ok: "InstanceRecord_validate reg_X ctl_prod = Inr ()"
proof -
  have "validate_reference ''controller-keys/prod'' ''controller key ref'' = Inr ()" by (simp add: validate_reference_def white_len_def is_c0_def in_range_def)
  then show ?thesis
    using reg_records_ok(3) by (simp add: InstanceRecord_validate_def ctl_prod_def reg_prod_def)
qed

lemma ctl_resolve: "resolve_instance reg_C reg_E ctl_G ''prod'' = Inr ctl_prod"
  using ctl_prod_ok reg_texts
  by (simp add: resolve_instance_def reg_run ctl_G_def Let_def)

lemma split_on_append: "c \<notin> set a \<Longrightarrow> split_on c (a @ c # b) = a # split_on c b"
  by (induction a) (auto split: list.split)

lemma ctl_split: "split_on (CHR ''.'') (ctl_kid @ ''.op:prod.s'') = [ctl_kid, ''op:prod'', ''s'']"
  using split_on_append [of "CHR ''.''" ctl_kid "''op:prod.s''"] by (simp add: ctl_kid_def)

lemma ctl_entry_ok: "validate_journal_entry (rc_externals reg_C) ctl_P (journal_entry now (ctl_prepared_for operation)) = Inr ()"
  using ctl_split
  by (simp add: validate_journal_entry_def journal_entry_def OperationJournalEntry_new_def ctl_prepared_for_def
      OPERATION_JOURNAL_SCHEMA_def reg_C_def reg_X_def ctl_P_def Let_def list_all_iff is_lower_hex_def
      char_class_defs)

lemma ctl_dir_journal [simp]: "id_journal ctl_dir = None"
  unfolding ctl_dir_def key_call_journal by (simp add: empty_dir_def)

lemma ctl_load: "load_active ctl_K ctl_KE ''prod'' ctl_dir = Inr (Some ctl_key)"
  using get_or_create_active_is_idempotent_witness by simp

lemma ctl_entry_same: "journal_entry now (ctl_prepared_for operation) = journal_entry now ctl_prepared"
  by (simp add: journal_entry_def ctl_prepared_for_def)

lemma ctl_prepare_for:
  "prepare_control_operation reg_C ctl_K ctl_P reg_E ctl_KE ctl_SE ''op'' 4 ctl_G ''prod'' ''prod'' (ctl_input_for operation)
     ctl_dirs = (Inr (ctl_prepared_for operation), ctl_dirs')"
proof -
  have "deployment_from_key_ref ''controller-keys/prod'' = Inr ''prod''"
    using ctl_enter by (simp add: deployment_from_key_ref_def CONTROLLER_KEY_REF_PREFIX_def Let_def)
  then have "build_signed_control_operation_for_record ctl_K ctl_P ctl_KE ''op'' ctl_dir ctl_prod (ctl_input_for operation) =
      Inr (pp_signed (ctl_prepared_for operation))"
    using ctl_load ctl_split
    by (simp add: build_signed_control_operation_for_record_def validate_record_key_ref_def
        build_control_operation_with_id_and_kid_def ctl_prepared_for_def ctl_P_def ctl_input_for_def ctl_key_def
        Let_def)
  moreover have "\<lparr>pp_signed = pp_signed (ctl_prepared_for operation), pp_kind = Fresh\<rparr> = ctl_prepared_for operation"
    by (simp add: ctl_prepared_for_def)
  moreover have "oj_state (journal_entry 4 (ctl_prepared_for operation)) = Dispatched"
    by (simp add: journal_entry_def OperationJournalEntry_new_def)
  ultimately show ?thesis
    using ctl_resolve ctl_entry_ok [of 4 operation] ctl_entry_same [of 4 operation]
    by (simp add: prepare_control_operation_def ctl_dirs_def ctl_dirs'_def load_slot_def record_dispatched_def
        lock_slot_def acquire_lock_def write_slot_def put_one_def ctl_SE_def Let_def)
qed

lemmas ctl_prepare = ctl_prepare_for [where operation = KeysList]

text \<open>C25: However key-store calls, preparations, settlements, renewed records of a pending operation,
  explicit clearings of the slot and removals of instances interleave, whatever becomes of their
  writes and wherever the controller stops, at most one operation is released and neither concluded
  nor given up, and the journal slot holds that operation's valid entry: its anchor is never
  replaced by another operation, and only a conclusion, an explicit clear of the slot or the removal
  of the instance itself, which may stop half way, ever takes it away.\<close>

theorem released_operations_are_anchored:
  fixes P :: "('a, 'r) protocol"
  assumes "client_reachable C K P jd dirs Q"
  shows "Q = {} \<or> (\<exists>e. id_journal (dirs jd) = Some (Record e) \<and>
     validate_journal_entry (rc_externals C) P e = Inr () \<and> Q = {ident e})"
proof (cases "Q = {}")
  case False
  then obtain q where q: "q \<in> Q" by blast
  have anchored: "anchored (rc_externals C) P (id_journal (dirs jd)) Q"
    by (rule client_reachable_anchored [OF assms])
  then obtain e where e: "load_slot (rc_externals C) P (id_journal (dirs jd)) = Inr (Some e)"
    using q by (auto simp: anchored_def)
  then have "Q = {ident e}" using anchored_all [OF anchored _ e] q by blast
  with e show ?thesis by (auto simp: load_slot_Inr)
qed simp

lemma ctl_reachable: "client_reachable reg_C ctl_K ctl_P ''prod'' ctl_dirs' {ident (journal_entry 4 ctl_prepared)}"
proof (rule prepared [OF _ ctl_prepare])
  show "client_reachable reg_C ctl_K ctl_P ''prod'' ctl_dirs {}"
    by (rule started) (simp add: ctl_dirs_def)
qed simp

theorem released_operations_are_anchored_witness:
  "\<exists>e. id_journal (ctl_dirs' ''prod'') = Some (Record e) \<and>
     validate_journal_entry (rc_externals reg_C) ctl_P e = Inr () \<and>
     {ident (journal_entry 4 ctl_prepared)} = {ident e}"
  using released_operations_are_anchored [OF ctl_reachable] by simp

text \<open>C27: Before an operation can be sent, the slot durably holds its identity: what a preparation
  hands out addresses the resolved instance with the caller's operation and revision, and is what
  the slot loads afterwards. A resumption writes nothing, and no preparation touches a key file.\<close>

theorem preparation_is_journaled_first:
  fixes P :: "('a, 'r) protocol"
  assumes "prepare_control_operation C K P RE KE SE op_id now G jd selector input dirs = (Inr p, dirs')"
    and "protocol_laws P"
  shows "\<exists>i e. resolve_instance C RE G selector = Inr i \<and>
     sg_operation (pp_signed p) = build_control_operation_with_id_and_kid P (inst_deployment_id i) input
       (oj_operation_id e) (oj_kid e) \<and>
     load_slot (rc_externals C) P (id_journal (dirs' jd)) = Inr (Some e) \<and> ident e = ident (journal_entry now p) \<and>
     (pp_kind p = Resumed \<longrightarrow> dirs' = dirs) \<and>
     (pp_kind p = Fresh \<longrightarrow> id_journal (dirs jd) = None \<and> oj_state e = Dispatched) \<and>
     (\<forall>d. id_keys (dirs' d) = id_keys (dirs d) \<and> id_active (dirs' d) = id_active (dirs d))"
proof -
  obtain i where i: "resolve_instance C RE G selector = Inr i" and r: "resumable P (inst_deployment_id i) input p"
    using prepared_is_resumable [OF assms(2,1)] by (elim exE conjE)
  have op: "sg_operation (pp_signed p) = build_control_operation_with_id_and_kid P (inst_deployment_id i) input
      (oj_operation_id e) (oj_kid e)" if "ident e = ident (journal_entry now p)" for e
    using r that by (simp add: resumable_def Let_def ident_def journal_entry_def OperationJournalEntry_new_def)
  from assms(1) show ?thesis
  proof (cases rule: prepare_Inr [where now = now])
    case (resumed e)
    then show ?thesis
      by (intro exI [of _ i] exI [of _ e] conjI i op) simp_all
  next
    case signed
    have "oj_state (journal_entry now p) = Dispatched"
      by (simp add: journal_entry_def OperationJournalEntry_new_def)
    with signed show ?thesis
      by (intro exI [of _ i] exI [of _ "journal_entry now p"] conjI i op) (simp_all add: load_slot_Inr)
  qed
qed

theorem preparation_is_journaled_first_witness:
  "\<exists>i e. resolve_instance reg_C reg_E ctl_G ''prod'' = Inr i \<and>
     sg_operation (pp_signed ctl_prepared) = build_control_operation_with_id_and_kid ctl_P (inst_deployment_id i)
       ctl_input (oj_operation_id e) (oj_kid e) \<and>
     load_slot (rc_externals reg_C) ctl_P (id_journal (ctl_dirs' ''prod'')) = Inr (Some e) \<and>
     ident e = ident (journal_entry 4 ctl_prepared) \<and>
     (pp_kind ctl_prepared = Resumed \<longrightarrow> ctl_dirs' = ctl_dirs) \<and>
     (pp_kind ctl_prepared = Fresh \<longrightarrow> id_journal (ctl_dirs ''prod'') = None \<and> oj_state e = Dispatched) \<and>
     (\<forall>d. id_keys (ctl_dirs' d) = id_keys (ctl_dirs d) \<and> id_active (ctl_dirs' d) = id_active (ctl_dirs d))"
  by (rule preparation_is_journaled_first [OF ctl_prepare ctl_protocol_laws])



end
