(* ===== verification/CliTypes.thy ===== *)
theory CliTypes
  imports Registry StateMutations
begin

text \<open>
  The command-line model (\<open>src/src/cli/types.rs\<close>): what a parsed invocation is, and how the
  selector channels of one invocation are merged. A \<open>PathBuf\<close> is the text it was made from; the
  texts of failures are constructors of \<open>cli_error\<close>.
\<close>

section \<open>Failures\<close>

text \<open>One constructor per kind of refusal, with the flags and commands the text would name.\<close>

datatype cli_error =
    CommandRequired
  | UnknownCommand string
  | ExpectedSubcommand string
  | UnknownSubcommand string string
  | RequiresValue string
  | OnlyOnce string
  | EmptySelector
  | UnknownOption string string
  | NotAccepted string string
  | TooManySelectors string
  | ExactlyOne string
  | Missing string string
  | BadName string
  | BadToken
  | NeedsPath string
  | AlternativeApprovals
  | NotInteger string
  | OutOfRange string
  | NotAVersion
  | OnlyTo
  | NotARuntime
  | RolesNotDistinct
  | NotATargetPath string
  | Together string string
  | Excludes string string
  | SameSecretFile
  | PolicyRefused record_violation
  | SourceRequired
  | SelectorConflict string
  | SelectorTwice string

section \<open>Selectors\<close>

record InstanceSelector =
  sel_positional :: "string option"
  sel_named :: "string option"

definition explicit :: "InstanceSelector \<Rightarrow> cli_error + string option" where
  "explicit s =
     (case (sel_positional s, sel_named s) of
        (Some _, Some _) \<Rightarrow> Inl (Excludes ''--instance'' ''selector'')
      | (Some v, None) \<Rightarrow> Inr (Some v)
      | (None, Some v) \<Rightarrow> Inr (Some v)
      | (None, None) \<Rightarrow> Inr None)"

definition merge_global ::
  "InstanceSelector \<Rightarrow> string option \<Rightarrow> string \<Rightarrow> cli_error + string option" where
  "merge_global s global action =
     rbind (case explicit s of Inl _ \<Rightarrow> Inl (SelectorConflict action) | Inr local \<Rightarrow> Inr local)
       (\<lambda>local.
         case (global, local) of
           (Some _, Some _) \<Rightarrow> Inl (SelectorTwice action)
         | (Some v, None) \<Rightarrow> Inr (Some v)
         | (None, _) \<Rightarrow> Inr local)"

section \<open>Commands\<close>

datatype HostCommand =
    HostAdd string string HostPrivilege
  | HostList bool
  | HostShow string
  | HostCheck string
  | HostForget string bool

datatype InstanceCommand =
    InstanceList bool
  | InstanceShow InstanceSelector
  | InstanceRegister string string "string option"
  | InstanceRename InstanceSelector string
  | InstanceForget InstanceSelector
  | InstanceRelocate InstanceSelector string

text \<open>The arguments of \<open>ControllerRecover\<close>: selector, label, secret file, rotation, credentials
  file, output file.\<close>

datatype ControllerCommand =
    ControllerList InstanceSelector
  | ControllerAdd InstanceSelector string "string option" "string option"
  | ControllerRotate InstanceSelector "string option" "string option" "string option"
  | ControllerRevoke InstanceSelector string "string option" "string option"
  | ControllerRecover InstanceSelector string "string option" bool "string option" "string option"

record BindOptions =
  bo_selector :: InstanceSelector
  bo_label :: string
  bo_approval_token :: "string option"
  bo_credentials_file :: "string option"
  bo_output_secret_file :: "string option"

record InstallArgs =
  ia_host :: "string option"
  ia_name :: "string option"
  ia_public_url :: string
  ia_version :: "string option"
  ia_runtime :: "RuntimeBackendKind option"
  ia_install_root :: "string option"
  ia_direct_tls_config :: "string option"
  ia_tls_material_root :: "string option"
  ia_database_host :: string
  ia_database_port :: u16
  ia_database_name :: string
  ia_database_runtime_user :: string
  ia_database_runtime_password_file :: string
  ia_database_lifecycle_user :: string
  ia_database_lifecycle_password_file :: string
  ia_valkey_host :: string
  ia_valkey_port :: u16
  ia_valkey_password_file :: string

record UpdateArgs =
  ua_selector :: InstanceSelector
  ua_version :: "string option"
  ua_config_file :: "string option"
  ua_config_schema :: "string option"

datatype BackupCommand = BackupShow | BackupSnapshot | BackupRestoreTest | BackupCopy string

record BackupArgs =
  ba_selector :: InstanceSelector
  ba_command :: BackupCommand

record PolicyArgs =
  pa_selector :: InstanceSelector
  pa_mode :: BackupBeforeUpdatePolicy

record RecoverArgs =
  ra_selector :: InstanceSelector
  ra_version :: "string option"
  ra_recovery_secret_file :: "string option"

record AdminCreateArgs =
  aa_selector :: InstanceSelector
  aa_credentials_stdin :: bool

datatype TlsCertificateSource = ExternalFiles string string | CurrentAcmeReceipt

record TlsCertificateInput =
  tc_provider_config :: string
  tc_proxy_config :: "string option"
  tc_tenant :: string
  tc_hostname :: string
  tc_source :: TlsCertificateSource

record TlsCertificateCheckInput =
  tk_provider_config :: string
  tk_tenant :: string
  tk_hostname :: string
  tk_warning_window_seconds :: "u64 option"

record AcmeCertificateInput =
  ac_acme_config :: string
  ac_provider_config :: string
  ac_tenant :: string
  ac_hostname :: string

datatype AcmeCommand =
    AcmePlan AcmeCertificateInput
  | AcmeIssue AcmeCertificateInput bool
  | AcmeRecover string string
  | AcmeShow string string

datatype TlsCommand =
    TlsCheck TlsCertificateCheckInput
  | TlsPlan TlsCertificateInput
  | TlsApply TlsCertificateInput
  | TlsRecover string string
  | TlsShow string string
  | TlsAcme AcmeCommand

datatype cli_command =
    CmdHost HostCommand
  | CmdInstance InstanceCommand
  | CmdController ControllerCommand
  | CmdBind BindOptions
  | CmdInstall InstallArgs
  | CmdDiscover "string option"
  | CmdVersion InstanceSelector bool
  | CmdStatus InstanceSelector bool
  | CmdLogs InstanceSelector nat
  | CmdDoctor InstanceSelector bool
  | CmdVerify InstanceSelector
  | CmdUpdate UpdateArgs
  | CmdRollback InstanceSelector
  | CmdOperation InstanceSelector nat
  | CmdBackup BackupArgs
  | CmdPolicy PolicyArgs
  | CmdRecover RecoverArgs
  | CmdUninstall InstanceSelector bool
  | CmdAdmin AdminCreateArgs
  | CmdTls TlsCommand
  | CmdRemoteExec
  | CmdRemoteTransferStream
  | CmdSelfCheck "string option"
  | CmdSelfUpdate "string option"
  | CmdSelfRollback
  | CmdSelfVerifyState

record Cli =
  cli_instance :: "string option"
  cli_json :: bool
  cli_command :: cli_command

record GlobalOptions =
  go_instance :: "string option"
  go_json :: bool
  go_consumed :: nat

end
