(* ===== verification/Numbers.thy ===== *)
theory Numbers
  imports Names
begin

text \<open>
  Reading and printing unsigned integers, as \<open>str::parse\<close> and \<open>Display\<close> do.
\<close>

text \<open>\<open>str::parse\<close> for an unsigned integer: an optional plus sign and decimal digits, within the range.\<close>

definition parse_unsigned :: "nat \<Rightarrow> string \<Rightarrow> nat option" where
  "parse_unsigned bits s =
     (let digits = (case s of c # t \<Rightarrow> if c = CHR ''+'' then t else s | [] \<Rightarrow> s);
          n = foldl (\<lambda>n c. 10 * n + (of_char c - 48)) 0 digits
      in if digits = [] \<or> \<not> list_all is_digit digits \<or> 2 ^ bits \<le> n then None else Some n)"

fun decimal :: "nat \<Rightarrow> string" where
  "decimal n = (if n < 10 then [char_of (48 + n)] else decimal (n div 10) @ [char_of (48 + n mod 10)])"

declare decimal.simps [simp del]

lemma digit_char: "n < 10 \<Longrightarrow> is_digit (char_of (48 + n)) \<and> of_char (char_of (48 + n) :: char) = 48 + n" for n :: nat
  by (simp add: is_digit_def in_range_def)

lemma decimal_digits: "list_all is_digit (decimal n) \<and> decimal n \<noteq> []"
proof (induction n rule: decimal.induct)
  case (1 n)
  then show ?case using digit_char [of n] digit_char [of "n mod 10"]
    by (subst (1 2) decimal.simps) auto
qed

lemma decimal_value: "foldl (\<lambda>n c. 10 * n + (of_char c - 48)) 0 (decimal n) = n"
proof (induction n rule: decimal.induct)
  case (1 n)
  then show ?case using digit_char [of n] digit_char [of "n mod 10"]
    by (subst decimal.simps) auto
qed

lemma parse_decimal: "n < 2 ^ bits \<Longrightarrow> parse_unsigned bits (decimal n) = Some n"
proof -
  assume n: "n < 2 ^ bits"
  obtain c t where ct: "decimal n = c # t" using decimal_digits [of n] by (cases "decimal n") auto
  then have "c \<noteq> CHR ''+''" using decimal_digits [of n] by (auto simp: is_digit_def in_range_def)
  then show ?thesis
    using n ct decimal_digits [of n] decimal_value [of n] by (simp add: parse_unsigned_def Let_def)
qed

end
