(* ===== verification/CliOptions.thy ===== *)
theory CliOptions
  imports CliTypes Numbers
begin

text \<open>
  The closed option sets every command family shares: \<open>parse_global_options\<close>
  (\<open>src/src/cli.rs\<close>), \<open>parse_options\<close>, \<open>selector_parts\<close> and the checks on values
  (\<open>src/src/cli/parser/fleet.rs\<close>, \<open>common.rs\<close>).
\<close>

section \<open>Global options\<close>

fun global_loop :: "string list \<Rightarrow> GlobalOptions \<Rightarrow> cli_error + GlobalOptions" where
  "global_loop [] g = Inr g"
| "global_loop (flag # rest) g =
     (if flag = ''--instance''
      then if go_instance g \<noteq> None then Inl (OnlyOnce flag)
        else (case rest of
            [] \<Rightarrow> Inl (RequiresValue flag)
          | value # rest' \<Rightarrow>
              if value = [] then Inl EmptySelector
              else global_loop rest' (g\<lparr>go_instance := Some value, go_consumed := go_consumed g + 2\<rparr>))
      else if flag = ''--json''
      then if go_json g then Inl (OnlyOnce flag)
        else global_loop rest (g\<lparr>go_json := True, go_consumed := go_consumed g + 1\<rparr>)
      else Inr g)"

definition parse_global_options :: "string list \<Rightarrow> cli_error + GlobalOptions" where
  "parse_global_options values =
     global_loop values \<lparr>go_instance = None, go_json = False, go_consumed = 0\<rparr>"

section \<open>Options and positional arguments\<close>

text \<open>The \<open>BTreeMap\<close> of values is a map, the \<open>BTreeSet\<close> of flags a set.\<close>

record ParsedOptions =
  po_positionals :: "string list"
  po_values :: "string \<rightharpoonup> string"
  po_flags :: "string set"

definition no_options :: ParsedOptions where
  "no_options = \<lparr>po_positionals = [], po_values = Map.empty, po_flags = {}\<rparr>"

definition looks_like_option :: "string \<Rightarrow> bool" where
  "looks_like_option token \<longleftrightarrow> 1 < length token \<and> hd token = CHR ''-''"

fun options_loop ::
  "string list \<Rightarrow> string list \<Rightarrow> string \<Rightarrow> string list \<Rightarrow> ParsedOptions \<Rightarrow> cli_error + ParsedOptions" where
  "options_loop value_flags bool_flags command [] parsed = Inr parsed"
| "options_loop value_flags bool_flags command (token # rest) parsed =
     (if token \<in> set value_flags
      then (case rest of
          [] \<Rightarrow> Inl (RequiresValue token)
        | value # rest' \<Rightarrow>
            if po_values parsed token \<noteq> None then Inl (OnlyOnce token)
            else options_loop value_flags bool_flags command rest'
              (parsed\<lparr>po_values := (po_values parsed)(token \<mapsto> value)\<rparr>))
      else if token \<in> set bool_flags
      then if token \<in> po_flags parsed then Inl (OnlyOnce token)
        else options_loop value_flags bool_flags command rest
          (parsed\<lparr>po_flags := insert token (po_flags parsed)\<rparr>)
      else if looks_like_option token then Inl (UnknownOption command token)
      else options_loop value_flags bool_flags command rest
        (parsed\<lparr>po_positionals := po_positionals parsed @ [token]\<rparr>))"

definition parse_options ::
  "string list \<Rightarrow> string list \<Rightarrow> string list \<Rightarrow> string \<Rightarrow> cli_error + ParsedOptions" where
  "parse_options values value_flags bool_flags command =
     options_loop value_flags bool_flags command values no_options"

section \<open>Checks\<close>

definition need :: "'a option \<Rightarrow> cli_error \<Rightarrow> cli_error + 'a" where
  "need v e = (case v of None \<Rightarrow> Inl e | Some x \<Rightarrow> Inr x)"

lemma need_simps [simp]: "need None e = Inl e" "need (Some x) e = Inr x"
  by (simp_all add: need_def)

lemma need_Inr_iff [simp]: "need v e = Inr x \<longleftrightarrow> v = Some x"
  by (cases v) simp_all

definition exactly_one :: "string list \<Rightarrow> string \<Rightarrow> cli_error + string" where
  "exactly_one values usage =
     (case values of
        [] \<Rightarrow> Inl (Missing usage usage)
      | [v] \<Rightarrow> Inr v
      | _ \<Rightarrow> Inl (ExactlyOne usage))"

definition no_arguments :: "string list \<Rightarrow> string \<Rightarrow> cli_error + unit" where
  "no_arguments values command =
     (case values of [] \<Rightarrow> Inr () | argument # _ \<Rightarrow> Inl (NotAccepted command argument))"

definition name_ok :: "string \<Rightarrow> bool" where
  "name_ok v \<longleftrightarrow> v \<noteq> [] \<and> length v \<le> 128 \<and> \<not> has_control v"

definition checked_name :: "string \<Rightarrow> string \<Rightarrow> cli_error + unit" where
  "checked_name flag v =
     (if v = [] \<or> 128 < length v \<or> has_control v then Inl (BadName flag) else Inr ())"

lemma checked_name_Inr_iff [simp]: "checked_name flag v = Inr u \<longleftrightarrow> name_ok v"
  by (auto simp: checked_name_def name_ok_def)

definition checked_option ::
  "(string \<rightharpoonup> string) \<Rightarrow> string \<Rightarrow> cli_error + string option" where
  "checked_option vals flag =
     (case vals flag of
        None \<Rightarrow> Inr None
      | Some v \<Rightarrow> rbind (checked_name flag v) (\<lambda>_. Inr (Some v)))"

definition file_option ::
  "(string \<rightharpoonup> string) \<Rightarrow> string \<Rightarrow> cli_error + string option" where
  "file_option vals flag =
     (case vals flag of
        None \<Rightarrow> Inr None
      | Some path \<Rightarrow> if path = [] then Inl (NeedsPath flag) else Inr (Some path))"

definition token_ok :: "string \<Rightarrow> bool" where
  "token_ok token \<longleftrightarrow> \<not> all_whitespace token \<and> \<not> has_control token \<and> length token \<le> 512"

definition approval_option :: "(string \<rightharpoonup> string) \<Rightarrow> cli_error + string option" where
  "approval_option vals =
     (case vals ''--approval-token'' of
        None \<Rightarrow> Inr None
      | Some token \<Rightarrow>
          if all_whitespace token \<or> has_control token \<or> 512 < length token
          then Inl BadToken else Inr (Some token))"

lemma checked_option_Inr_iff:
  "checked_option vals flag = Inr r \<longleftrightarrow> vals flag = r \<and> (\<forall>v. r = Some v \<longrightarrow> name_ok v)"
  by (auto simp: checked_option_def rbind_Inr_iff split: option.split)

lemma file_option_Inr_iff:
  "file_option vals flag = Inr r \<longleftrightarrow> vals flag = r \<and> r \<noteq> Some []"
  by (auto simp: file_option_def split: option.split)

lemma approval_option_Inr_iff:
  "approval_option vals = Inr r \<longleftrightarrow> vals ''--approval-token'' = r \<and> (\<forall>v. r = Some v \<longrightarrow> token_ok v)"
  by (auto simp: approval_option_def token_ok_def split: option.split)

section \<open>Versions\<close>

text \<open>\<open>semver_text v\<close> is \<open>semver::Version::parse(v)\<close> printed again, where the parse succeeds.\<close>

definition semantic_tag :: "(string \<Rightarrow> string option) \<Rightarrow> string \<Rightarrow> bool" where
  "semantic_tag semver_text v =
     (case v of
        c # rest \<Rightarrow> c = CHR ''v'' \<and> semver_text rest = Some rest
      | [] \<Rightarrow> False)"

definition validate_version :: "(string \<Rightarrow> string option) \<Rightarrow> string \<Rightarrow> cli_error + unit" where
  "validate_version V version = require (semantic_tag V version) NotAVersion"

definition version_option ::
  "(string \<Rightarrow> string option) \<Rightarrow> (string \<rightharpoonup> string) \<Rightarrow> cli_error + string option" where
  "version_option V vals =
     (case vals ''--to'' of
        None \<Rightarrow> Inr None
      | Some version \<Rightarrow> rbind (validate_version V version) (\<lambda>_. Inr (Some version)))"

lemma version_option_Inr_iff:
  "version_option V vals = Inr r \<longleftrightarrow> vals ''--to'' = r \<and> (\<forall>v. r = Some v \<longrightarrow> semantic_tag V v)"
  by (auto simp: version_option_def validate_version_def rbind_Inr_iff split: option.split)

definition parse_version_option ::
  "(string \<Rightarrow> string option) \<Rightarrow> string list \<Rightarrow> cli_error + string option" where
  "parse_version_option V values =
     (case values of
        [] \<Rightarrow> Inr None
      | [flag, version] \<Rightarrow>
          if flag = ''--to'' then rbind (validate_version V version) (\<lambda>_. Inr (Some version))
          else Inl OnlyTo
      | _ \<Rightarrow> Inl OnlyTo)"

section \<open>Selectors\<close>

record SelectorParts =
  sp_positional :: "string option"
  sp_named :: "string option"
  sp_values :: "string \<rightharpoonup> string"
  sp_flags :: "string set"

definition first_positional :: "string list \<Rightarrow> string option" where
  "first_positional ps = (case ps of [] \<Rightarrow> None | p # _ \<Rightarrow> Some p)"

definition selector_parts ::
  "string list \<Rightarrow> string list \<Rightarrow> string list \<Rightarrow> string \<Rightarrow> cli_error + SelectorParts" where
  "selector_parts values extra_value_flags bool_flags command =
     rbind (parse_options values (extra_value_flags @ [''--instance'']) bool_flags command) (\<lambda>parsed.
       if 1 < length (po_positionals parsed) then Inl (TooManySelectors command)
       else rbind (checked_option (po_values parsed) ''--instance'') (\<lambda>named.
         Inr \<lparr>sp_positional = first_positional (po_positionals parsed), sp_named = named,
              sp_values = (po_values parsed)(''--instance'' := None), sp_flags = po_flags parsed\<rparr>))"

definition selector_of :: "SelectorParts \<Rightarrow> InstanceSelector" where
  "selector_of parts = \<lparr>sel_positional = sp_positional parts, sel_named = sp_named parts\<rparr>"

end
