(* ===== verification/CliTls.thy ===== *)
theory CliTls
  imports CliOptions
begin

text \<open>
  The \<open>tls\<close> command family (\<open>src/src/cli/parser/tls.rs\<close>): four loops over options that may be
  given once each. Their local variables are the record \<open>tls_slots\<close>.
\<close>

record tls_slots =
  ts_provider_config :: "string option"
  ts_proxy_config :: "string option"
  ts_acme_config :: "string option"
  ts_tenant :: "string option"
  ts_hostname :: "string option"
  ts_certificate :: "string option"
  ts_private_key :: "string option"
  ts_warning_window :: "u64 option"
  ts_flag :: bool

definition no_slots :: tls_slots where
  "no_slots = \<lparr>ts_provider_config = None, ts_proxy_config = None, ts_acme_config = None,
     ts_tenant = None, ts_hostname = None, ts_certificate = None, ts_private_key = None,
     ts_warning_window = None, ts_flag = False\<rparr>"

definition set_once :: "'a option \<Rightarrow> 'a \<Rightarrow> string \<Rightarrow> cli_error + 'a option" where
  "set_once slot v option = (if slot \<noteq> None then Inl (OnlyOnce option) else Inr (Some v))"

lemma set_once_Inr_iff [simp]: "set_once slot v option = Inr r \<longleftrightarrow> slot = None \<and> r = Some v"
  by (auto simp: set_once_def)

section \<open>The options of each loop\<close>

definition binding_option :: "tls_slots \<Rightarrow> string \<Rightarrow> string \<Rightarrow> cli_error + tls_slots" where
  "binding_option s option v =
     (if option = ''--tenant'' then rbind (set_once (ts_tenant s) v option) (\<lambda>x. Inr (s\<lparr>ts_tenant := x\<rparr>))
      else rbind (set_once (ts_hostname s) v option) (\<lambda>x. Inr (s\<lparr>ts_hostname := x\<rparr>)))"

definition provider_option :: "tls_slots \<Rightarrow> string \<Rightarrow> string \<Rightarrow> cli_error + tls_slots" where
  "provider_option s option v =
     (if option = ''--provider-config''
      then rbind (set_once (ts_provider_config s) v option) (\<lambda>x. Inr (s\<lparr>ts_provider_config := x\<rparr>))
      else binding_option s option v)"

definition provider_options :: "string list" where
  "provider_options = [''--provider-config'', ''--tenant'', ''--hostname'']"

definition check_option :: "tls_slots \<Rightarrow> string \<Rightarrow> string \<Rightarrow> cli_error + tls_slots" where
  "check_option s option v =
     (if option \<in> set provider_options then provider_option s option v
      else if option = ''--warning-window-seconds''
      then rbind (need (parse_unsigned 64 v) (NotInteger option)) (\<lambda>n.
        rbind (set_once (ts_warning_window s) (of_nat n) option) (\<lambda>x. Inr (s\<lparr>ts_warning_window := x\<rparr>)))
      else Inl (UnknownOption ''tls certificate check'' option))"

definition acme_option :: "tls_slots \<Rightarrow> string \<Rightarrow> string \<Rightarrow> cli_error + tls_slots" where
  "acme_option s option v =
     (if option = ''--acme-config''
      then rbind (set_once (ts_acme_config s) v option) (\<lambda>x. Inr (s\<lparr>ts_acme_config := x\<rparr>))
      else if option \<in> set provider_options then provider_option s option v
      else Inl (UnknownOption ''tls acme'' option))"

definition material_option :: "tls_slots \<Rightarrow> string \<Rightarrow> string \<Rightarrow> cli_error + tls_slots" where
  "material_option s option v =
     (if option \<in> set provider_options then provider_option s option v
      else if option = ''--certificate''
      then rbind (set_once (ts_certificate s) v option) (\<lambda>x. Inr (s\<lparr>ts_certificate := x\<rparr>))
      else if option = ''--private-key''
      then rbind (set_once (ts_private_key s) v option) (\<lambda>x. Inr (s\<lparr>ts_private_key := x\<rparr>))
      else if option = ''--proxy-config''
      then rbind (set_once (ts_proxy_config s) v option) (\<lambda>x. Inr (s\<lparr>ts_proxy_config := x\<rparr>))
      else Inl (UnknownOption ''tls certificate'' option))"

section \<open>The loops\<close>

fun check_loop :: "string list \<Rightarrow> tls_slots \<Rightarrow> cli_error + tls_slots" where
  "check_loop [] s = Inr s"
| "check_loop [option] s = Inl (RequiresValue option)"
| "check_loop (option # v # rest) s = rbind (check_option s option v) (\<lambda>s. check_loop rest s)"

definition parse_check_input :: "string list \<Rightarrow> cli_error + TlsCertificateCheckInput" where
  "parse_check_input values =
     rbind (check_loop values no_slots) (\<lambda>s.
       rbind (need (ts_provider_config s) (Missing ''tls'' ''--provider-config'')) (\<lambda>provider_config.
         rbind (need (ts_tenant s) (Missing ''tls'' ''--tenant'')) (\<lambda>tenant.
           rbind (need (ts_hostname s) (Missing ''tls'' ''--hostname'')) (\<lambda>hostname.
             Inr \<lparr>tk_provider_config = provider_config, tk_tenant = tenant, tk_hostname = hostname,
                  tk_warning_window_seconds = ts_warning_window s\<rparr>))))"

fun acme_loop :: "bool \<Rightarrow> string list \<Rightarrow> tls_slots \<Rightarrow> cli_error + tls_slots" where
  "acme_loop allow [] s = Inr s"
| "acme_loop allow (option # rest) s =
     (if option = ''--agree-terms''
      then if \<not> allow then Inl (NotAccepted ''tls acme plan'' option)
        else if ts_flag s then Inl (OnlyOnce option)
        else acme_loop allow rest (s\<lparr>ts_flag := True\<rparr>)
      else (case rest of
          [] \<Rightarrow> Inl (RequiresValue option)
        | v # rest' \<Rightarrow> rbind (acme_option s option v) (\<lambda>s. acme_loop allow rest' s)))"

definition parse_acme_input :: "string list \<Rightarrow> bool \<Rightarrow> cli_error + AcmeCertificateInput \<times> bool" where
  "parse_acme_input values allow_mutation_flags =
     rbind (acme_loop allow_mutation_flags values no_slots) (\<lambda>s.
       rbind (need (ts_acme_config s) (Missing ''tls'' ''--acme-config'')) (\<lambda>acme_config.
         rbind (need (ts_provider_config s) (Missing ''tls'' ''--provider-config'')) (\<lambda>provider_config.
           rbind (need (ts_tenant s) (Missing ''tls'' ''--tenant'')) (\<lambda>tenant.
             rbind (need (ts_hostname s) (Missing ''tls'' ''--hostname'')) (\<lambda>hostname.
               Inr (\<lparr>ac_acme_config = acme_config, ac_provider_config = provider_config,
                     ac_tenant = tenant, ac_hostname = hostname\<rparr>, ts_flag s))))))"

fun material_loop :: "string list \<Rightarrow> tls_slots \<Rightarrow> cli_error + tls_slots" where
  "material_loop [] s = Inr s"
| "material_loop (option # rest) s =
     (if option = ''--from-acme-current''
      then if ts_flag s then Inl (OnlyOnce option) else material_loop rest (s\<lparr>ts_flag := True\<rparr>)
      else (case rest of
          [] \<Rightarrow> Inl (RequiresValue option)
        | v # rest' \<Rightarrow> rbind (material_option s option v) (\<lambda>s. material_loop rest' s)))"

definition material_source :: "tls_slots \<Rightarrow> cli_error + TlsCertificateSource" where
  "material_source s =
     (case (ts_certificate s, ts_private_key s, ts_flag s) of
        (Some certificate, Some private_key, False) \<Rightarrow> Inr (ExternalFiles certificate private_key)
      | (None, None, True) \<Rightarrow> Inr CurrentAcmeReceipt
      | (Some _, Some _, True) \<Rightarrow> Inl (Excludes ''--from-acme-current'' ''--certificate'')
      | (None, None, False) \<Rightarrow> Inl SourceRequired
      | _ \<Rightarrow> Inl (Together ''--certificate'' ''--private-key''))"

definition parse_material_input :: "string list \<Rightarrow> cli_error + TlsCertificateInput" where
  "parse_material_input values =
     rbind (material_loop values no_slots) (\<lambda>s.
       rbind (material_source s) (\<lambda>source.
         rbind (need (ts_provider_config s) (Missing ''tls'' ''--provider-config'')) (\<lambda>provider_config.
           rbind (need (ts_tenant s) (Missing ''tls'' ''--tenant'')) (\<lambda>tenant.
             rbind (need (ts_hostname s) (Missing ''tls'' ''--hostname'')) (\<lambda>hostname.
               Inr \<lparr>tc_provider_config = provider_config, tc_proxy_config = ts_proxy_config s,
                    tc_tenant = tenant, tc_hostname = hostname, tc_source = source\<rparr>)))))"

text \<open>Here the option is recognised before its value is read.\<close>

fun binding_loop :: "string \<Rightarrow> string list \<Rightarrow> tls_slots \<Rightarrow> cli_error + tls_slots" where
  "binding_loop command [] s = Inr s"
| "binding_loop command (option # rest) s =
     (if \<not> (option = ''--tenant'' \<or> option = ''--hostname'') then Inl (UnknownOption command option)
      else (case rest of
          [] \<Rightarrow> Inl (RequiresValue option)
        | v # rest' \<Rightarrow> rbind (binding_option s option v) (\<lambda>s. binding_loop command rest' s)))"

definition parse_binding :: "string list \<Rightarrow> string \<Rightarrow> cli_error + string \<times> string" where
  "parse_binding values command =
     rbind (binding_loop command values no_slots) (\<lambda>s.
       rbind (need (ts_tenant s) (Missing ''tls'' ''--tenant'')) (\<lambda>tenant.
         rbind (need (ts_hostname s) (Missing ''tls'' ''--hostname'')) (\<lambda>hostname.
           Inr (tenant, hostname))))"

section \<open>The family\<close>

definition parse_acme :: "string list \<Rightarrow> cli_error + AcmeCommand" where
  "parse_acme values =
     (case values of
        [] \<Rightarrow> Inl (ExpectedSubcommand ''tls acme'')
      | operation # rest \<Rightarrow>
          if operation = ''plan''
          then rbind (parse_acme_input rest False) (\<lambda>(input, _). Inr (AcmePlan input))
          else if operation = ''issue''
          then rbind (parse_acme_input rest True) (\<lambda>(input, agree_terms). Inr (AcmeIssue input agree_terms))
          else if operation = ''recover''
          then rbind (parse_binding rest ''tls acme'') (\<lambda>(tenant, hostname). Inr (AcmeRecover tenant hostname))
          else if operation = ''show''
          then rbind (parse_binding rest ''tls acme'') (\<lambda>(tenant, hostname). Inr (AcmeShow tenant hostname))
          else Inl (UnknownSubcommand ''tls acme'' operation))"

definition parse_certificate :: "string list \<Rightarrow> cli_error + TlsCommand" where
  "parse_certificate values =
     (case values of
        [] \<Rightarrow> Inl (ExpectedSubcommand ''tls certificate'')
      | operation # rest \<Rightarrow>
          if operation = ''check'' then rbind (parse_check_input rest) (\<lambda>i. Inr (TlsCheck i))
          else if operation = ''plan'' then rbind (parse_material_input rest) (\<lambda>i. Inr (TlsPlan i))
          else if operation = ''apply'' then rbind (parse_material_input rest) (\<lambda>i. Inr (TlsApply i))
          else if operation = ''recover''
          then rbind (parse_binding rest ''tls certificate'') (\<lambda>(tenant, hostname). Inr (TlsRecover tenant hostname))
          else if operation = ''show''
          then rbind (parse_binding rest ''tls certificate'') (\<lambda>(tenant, hostname). Inr (TlsShow tenant hostname))
          else Inl (UnknownSubcommand ''tls certificate'' operation))"

definition parse_tls :: "string list \<Rightarrow> cli_error + TlsCommand" where
  "parse_tls values =
     (case values of
        [] \<Rightarrow> Inl (ExpectedSubcommand ''tls'')
      | family # rest \<Rightarrow>
          if family = ''certificate'' then parse_certificate rest
          else if family = ''acme'' then rbind (parse_acme rest) (\<lambda>c. Inr (TlsAcme c))
          else Inl (UnknownSubcommand ''tls'' family))"

end
