(* ===== verification/CliParser.thy ===== *)
theory CliParser
  imports CliTls Orders
begin

text \<open>
  The command families (\<open>src/src/cli/parser/fleet.rs\<close>, \<open>controller.rs\<close>, \<open>surface.rs\<close>) and
  \<open>Cli::parse\<close> (\<open>parser/mod.rs\<close>). \<open>V\<close> is the canonical text of a semantic version.
\<close>

section \<open>Hosts and instances\<close>

definition parse_host_add :: "string list \<Rightarrow> cli_error + HostCommand" where
  "parse_host_add values =
     rbind (parse_options values [''--ssh'', ''--privilege''] [] ''host add'') (\<lambda>parsed.
       rbind (exactly_one (po_positionals parsed) ''host add <alias> --ssh PROFILE'') (\<lambda>key.
         rbind (checked_name ''alias'' key) (\<lambda>_.
           rbind (need (po_values parsed ''--ssh'') (Missing ''host add'' ''--ssh'')) (\<lambda>ssh_profile.
             rbind (checked_name ''--ssh'' ssh_profile) (\<lambda>_.
               case po_values parsed ''--privilege'' of
                 None \<Rightarrow> Inr (HostAdd key ssh_profile Direct)
               | Some p \<Rightarrow>
                   if p = ''direct'' then Inr (HostAdd key ssh_profile Direct)
                   else if p = ''sudo'' then Inr (HostAdd key ssh_profile Sudo)
                   else Inl (OutOfRange ''--privilege''))))))"

definition parse_host_family :: "string list \<Rightarrow> cli_error + HostCommand" where
  "parse_host_family values =
     (case values of
        [] \<Rightarrow> Inl (ExpectedSubcommand ''host'')
      | subcommand # rest \<Rightarrow>
          if subcommand = ''add'' then parse_host_add rest
          else if subcommand = ''list''
          then rbind (parse_options rest [] [''--refresh''] ''host list'') (\<lambda>parsed.
            rbind (no_arguments (po_positionals parsed) ''host list'') (\<lambda>_.
              Inr (HostList (''--refresh'' \<in> po_flags parsed))))
          else if subcommand = ''show''
          then rbind (exactly_one rest ''host show <alias>'') (\<lambda>key. Inr (HostShow key))
          else if subcommand = ''check''
          then rbind (exactly_one rest ''host check <alias>'') (\<lambda>key. Inr (HostCheck key))
          else if subcommand = ''forget''
          then rbind (parse_options rest [] [''--cascade''] ''host forget'') (\<lambda>parsed.
            rbind (exactly_one (po_positionals parsed) ''host forget <alias>'') (\<lambda>key.
              Inr (HostForget key (''--cascade'' \<in> po_flags parsed))))
          else Inl (UnknownSubcommand ''host'' subcommand))"

definition required_name :: "(string \<rightharpoonup> string) \<Rightarrow> string \<Rightarrow> cli_error + string" where
  "required_name vals flag =
     rbind (need (vals flag) (Missing ''instance register'' flag)) (\<lambda>v.
       rbind (checked_name flag v) (\<lambda>_. Inr v))"

definition parse_register :: "string list \<Rightarrow> cli_error + InstanceCommand" where
  "parse_register values =
     rbind (parse_options values [''--host'', ''--deployment-id'', ''--alias''] [] ''instance register'') (\<lambda>parsed.
       rbind (no_arguments (po_positionals parsed) ''instance register'') (\<lambda>_.
         rbind (required_name (po_values parsed) ''--host'') (\<lambda>host.
           rbind (required_name (po_values parsed) ''--deployment-id'') (\<lambda>deployment_id.
             rbind (checked_option (po_values parsed) ''--alias'') (\<lambda>key.
               Inr (InstanceRegister host deployment_id key))))))"

definition parse_rename :: "string list \<Rightarrow> cli_error + InstanceCommand" where
  "parse_rename values =
     rbind (parse_options values [''--instance''] [] ''instance rename'') (\<lambda>parsed.
       rbind (checked_option (po_values parsed) ''--instance'') (\<lambda>named.
         rbind (case po_positionals parsed of
             [] \<Rightarrow> Inl (Missing ''instance rename'' ''alias'')
           | [new_alias] \<Rightarrow> Inr (\<lparr>sel_positional = None, sel_named = named\<rparr>, new_alias)
           | [old, new_alias] \<Rightarrow>
               if named \<noteq> None then Inl (Excludes ''--instance'' ''old selector'')
               else rbind (checked_name ''old selector'' old) (\<lambda>_.
                 Inr (\<lparr>sel_positional = Some old, sel_named = None\<rparr>, new_alias))
           | _ \<Rightarrow> Inl (TooManySelectors ''instance rename''))
         (\<lambda>(source, new_alias).
           rbind (checked_name ''new alias'' new_alias) (\<lambda>_. Inr (InstanceRename source new_alias)))))"

definition parse_instance :: "string list \<Rightarrow> cli_error + InstanceCommand" where
  "parse_instance values =
     (case values of
        [] \<Rightarrow> Inl (ExpectedSubcommand ''instance'')
      | subcommand # rest \<Rightarrow>
          if subcommand = ''list''
          then rbind (parse_options rest [] [''--refresh''] ''instance list'') (\<lambda>parsed.
            rbind (no_arguments (po_positionals parsed) ''instance list'') (\<lambda>_.
              Inr (InstanceList (''--refresh'' \<in> po_flags parsed))))
          else if subcommand = ''show''
          then rbind (selector_parts rest [] [] ''instance show'') (\<lambda>parts. Inr (InstanceShow (selector_of parts)))
          else if subcommand = ''register'' then parse_register rest
          else if subcommand = ''rename'' then parse_rename rest
          else if subcommand = ''forget''
          then rbind (selector_parts rest [] [] ''instance forget'') (\<lambda>parts.
            Inr (InstanceForget (selector_of parts)))
          else if subcommand = ''relocate''
          then rbind (selector_parts rest [''--to-host''] [] ''instance relocate'') (\<lambda>parts.
            rbind (need (sp_values parts ''--to-host'') (Missing ''instance relocate'' ''--to-host'')) (\<lambda>to_host.
              rbind (checked_name ''--to-host'' to_host) (\<lambda>_.
                Inr (InstanceRelocate (selector_of parts) to_host))))
          else Inl (UnknownSubcommand ''instance'' subcommand))"

section \<open>Controllers\<close>

record controller_common =
  cm_selector :: InstanceSelector
  cm_approval_token :: "string option"
  cm_credentials_file :: "string option"
  cm_values :: "string \<rightharpoonup> string"
  cm_flags :: "string set"

definition parse_common ::
  "string list \<Rightarrow> string list \<Rightarrow> string list \<Rightarrow> string \<Rightarrow> cli_error + controller_common" where
  "parse_common values extra_value_flags extra_bool_flags command =
     rbind (parse_options values
         (extra_value_flags @ [''--instance'', ''--approval-token'', ''--credentials-file''])
         extra_bool_flags command) (\<lambda>parsed.
       if 1 < length (po_positionals parsed) then Inl (TooManySelectors command)
       else rbind (checked_option (po_values parsed) ''--instance'') (\<lambda>named.
         rbind (approval_option (po_values parsed)) (\<lambda>approval_token.
           rbind (file_option (po_values parsed) ''--credentials-file'') (\<lambda>credentials_file.
             if approval_token \<noteq> None \<and> credentials_file \<noteq> None then Inl AlternativeApprovals
             else Inr \<lparr>cm_selector = \<lparr>sel_positional = first_positional (po_positionals parsed), sel_named = named\<rparr>,
                    cm_approval_token = approval_token, cm_credentials_file = credentials_file,
                    cm_values = (po_values parsed)(''--instance'' := None, ''--approval-token'' := None,
                      ''--credentials-file'' := None), cm_flags = po_flags parsed\<rparr>))))"

definition require_label :: "(string \<rightharpoonup> string) \<Rightarrow> bool \<Rightarrow> cli_error + string option" where
  "require_label vals optional =
     (case vals ''--label'' of
        Some label \<Rightarrow> rbind (checked_name ''--label'' label) (\<lambda>_. Inr (Some label))
      | None \<Rightarrow> if optional then Inr None else Inl (Missing ''controller'' ''--label''))"

definition parse_add :: "string list \<Rightarrow> cli_error + ControllerCommand" where
  "parse_add values =
     rbind (parse_common values [''--label''] [] ''controller add'') (\<lambda>common.
       rbind (require_label (cm_values common) False) (\<lambda>label.
         Inr (ControllerAdd (cm_selector common) (the label) (cm_approval_token common)
           (cm_credentials_file common))))"

definition parse_rotate :: "string list \<Rightarrow> cli_error + ControllerCommand" where
  "parse_rotate values =
     rbind (parse_common values [''--label''] [] ''controller rotate'') (\<lambda>common.
       rbind (require_label (cm_values common) True) (\<lambda>label.
         Inr (ControllerRotate (cm_selector common) label (cm_approval_token common)
           (cm_credentials_file common))))"

definition parse_revoke :: "string list \<Rightarrow> cli_error + ControllerCommand" where
  "parse_revoke values =
     rbind (selector_parts values [''--approval-token'', ''--credentials-file''] [] ''controller revoke'') (\<lambda>parts.
       rbind (need (sp_positional parts) (Missing ''controller revoke'' ''<controller-id>'')) (\<lambda>controller_id.
         rbind (checked_name ''--controller-id'' controller_id) (\<lambda>_.
           Inr (ControllerRevoke \<lparr>sel_positional = None, sel_named = sp_named parts\<rparr> controller_id
             (sp_values parts ''--approval-token'') (sp_values parts ''--credentials-file'')))))"

text \<open>Equality of two \<open>PathBuf\<close>s is equality of their components.\<close>

definition path_equal :: "string \<Rightarrow> string \<Rightarrow> bool" where
  "path_equal a b \<longleftrightarrow>
     (take 1 a = ''/'') = (take 1 b = ''/'') \<and>
     (take 1 (split_on (CHR ''/'') a) = [''.'']) = (take 1 (split_on (CHR ''/'') b) = [''.'']) \<and>
     path_components a = path_components b"

definition parse_controller_recover :: "string list \<Rightarrow> cli_error + ControllerCommand" where
  "parse_controller_recover values =
     rbind (parse_common values [''--label'', ''--secret-file'', ''--output-secret-file'']
         [''--rotate-secret''] ''controller recover'') (\<lambda>common.
       let rotate_secret = ''--rotate-secret'' \<in> cm_flags common
       in rbind (file_option (cm_values common) ''--secret-file'') (\<lambda>secret_file.
         rbind (file_option (cm_values common) ''--output-secret-file'') (\<lambda>output_secret_file.
           if rotate_secret \<and> secret_file \<noteq> None then Inl (Excludes ''--secret-file'' ''--rotate-secret'')
           else if (case (secret_file, output_secret_file) of
               (Some input, Some output) \<Rightarrow> path_equal input output | _ \<Rightarrow> False)
           then Inl SameSecretFile
           else if cm_approval_token common \<noteq> None
           then Inl (NotAccepted ''controller recover'' ''--approval-token'')
           else if \<not> rotate_secret \<and> cm_credentials_file common \<noteq> None
           then Inl (NotAccepted ''controller recover'' ''--credentials-file'')
           else rbind (require_label (cm_values common) rotate_secret) (\<lambda>label.
             Inr (ControllerRecover (cm_selector common)
               (case label of Some l \<Rightarrow> l | None \<Rightarrow> ''recovered-controller'')
               secret_file rotate_secret (cm_credentials_file common) output_secret_file)))))"

definition parse_controller :: "string list \<Rightarrow> cli_error + ControllerCommand" where
  "parse_controller values =
     (case values of
        [] \<Rightarrow> Inl (ExpectedSubcommand ''controller'')
      | subcommand # rest \<Rightarrow>
          if subcommand = ''list''
          then rbind (selector_parts rest [] [] ''controller list'') (\<lambda>parts.
            Inr (ControllerList (selector_of parts)))
          else if subcommand = ''add'' then parse_add rest
          else if subcommand = ''rotate'' then parse_rotate rest
          else if subcommand = ''revoke'' then parse_revoke rest
          else if subcommand = ''recover'' then parse_controller_recover rest
          else Inl (UnknownSubcommand ''controller'' subcommand))"

section \<open>The instance-scoped commands\<close>

definition parse_read_view_selector :: "string list \<Rightarrow> string \<Rightarrow> cli_error + InstanceSelector \<times> bool" where
  "parse_read_view_selector values command =
     rbind (selector_parts values [] [''--all''] command) (\<lambda>parts.
       Inr (selector_of parts, ''--all'' \<in> sp_flags parts))"

definition parse_confirm_scoped ::
  "string list \<Rightarrow> string list \<Rightarrow> string \<Rightarrow> cli_error + InstanceSelector \<times> bool" where
  "parse_confirm_scoped values bool_flags command =
     rbind (selector_parts values [] bool_flags command) (\<lambda>parts.
       Inr (selector_of parts, ''--yes'' \<in> sp_flags parts))"

definition parse_bind :: "string list \<Rightarrow> cli_error + BindOptions" where
  "parse_bind values =
     rbind (parse_options values [''--instance'', ''--label'', ''--approval-token'', ''--credentials-file'',
         ''--output-secret-file''] [] ''bind'') (\<lambda>parsed.
       if 1 < length (po_positionals parsed) then Inl (TooManySelectors ''bind'')
       else rbind (checked_option (po_values parsed) ''--instance'') (\<lambda>named.
         rbind (need (po_values parsed ''--label'') (Missing ''bind'' ''--label'')) (\<lambda>label.
           rbind (checked_name ''--label'' label) (\<lambda>_.
             rbind (approval_option (po_values parsed)) (\<lambda>approval_token.
               rbind (file_option (po_values parsed) ''--credentials-file'') (\<lambda>credentials_file.
                 if approval_token \<noteq> None \<and> credentials_file \<noteq> None then Inl AlternativeApprovals
                 else rbind (file_option (po_values parsed) ''--output-secret-file'') (\<lambda>output_secret_file.
                   Inr \<lparr>bo_selector = \<lparr>sel_positional = first_positional (po_positionals parsed), sel_named = named\<rparr>,
                        bo_label = label, bo_approval_token = approval_token,
                        bo_credentials_file = credentials_file,
                        bo_output_secret_file = output_secret_file\<rparr>)))))))"

definition runtime_kind_from_str :: "string \<Rightarrow> RuntimeBackendKind option" where
  "runtime_kind_from_str v =
     (if v = ''podman'' then Some Podman else if v = ''docker'' then Some Docker
      else if v = ''host'' then Some Host else None)"

definition runtime_option :: "(string \<rightharpoonup> string) \<Rightarrow> cli_error + RuntimeBackendKind option" where
  "runtime_option vals =
     (case vals ''--runtime'' of
        None \<Rightarrow> Inr None
      | Some v \<Rightarrow> rbind (need (runtime_kind_from_str v) NotARuntime) (\<lambda>k. Inr (Some k)))"

definition port_option :: "(string \<rightharpoonup> string) \<Rightarrow> string \<Rightarrow> cli_error + u16" where
  "port_option vals flag =
     rbind (need (vals flag) (Missing ''install'' flag)) (\<lambda>port.
       rbind (need (parse_unsigned 16 port) (OutOfRange flag)) (\<lambda>n. Inr (of_nat n)))"

definition required_file :: "(string \<rightharpoonup> string) \<Rightarrow> string \<Rightarrow> cli_error + string" where
  "required_file vals flag =
     rbind (need (vals flag) (Missing ''install'' flag)) (\<lambda>path.
       if path = [] then Inl (NeedsPath flag) else Inr path)"

text \<open>A bounded absolute path of the target, POSIX or with a Windows drive, without traversal.\<close>

definition target_path_ok :: "string \<Rightarrow> bool" where
  "target_path_ok v \<longleftrightarrow>
     (let windows_absolute = 3 \<le> length v \<and> (is_upper (v ! 0) \<or> is_lower (v ! 0)) \<and> v ! 1 = CHR '':''
        \<and> (v ! 2 = CHR ''/'' \<or> v ! 2 = CHR 0x5C)
      in \<not> (v = [] \<or> 512 < length v \<or> (take 1 v \<noteq> ''/'' \<and> \<not> windows_absolute)
        \<or> list_ex (\<lambda>part. part = ''.'' \<or> part = ''..'')
            (concat (map (split_on (CHR 0x5C)) (split_on (CHR ''/'') v)))
        \<or> has_control v))"

definition target_path :: "(string \<rightharpoonup> string) \<Rightarrow> string \<Rightarrow> cli_error + string option" where
  "target_path vals flag =
     (case vals flag of
        None \<Rightarrow> Inr None
      | Some v \<Rightarrow> if target_path_ok v then Inr (Some v) else Inl (NotATargetPath flag))"

definition install_value_flags :: "string list" where
  "install_value_flags = [''--host'', ''--name'', ''--public-url'', ''--to'', ''--runtime'', ''--install-root'',
     ''--direct-tls-config'', ''--tls-material-root'', ''--database-host'', ''--database-port'',
     ''--database-name'', ''--database-runtime-user'', ''--database-runtime-password-file'',
     ''--database-lifecycle-user'', ''--database-lifecycle-password-file'', ''--valkey-host'',
     ''--valkey-port'', ''--valkey-password-file'']"

definition required_text :: "(string \<rightharpoonup> string) \<Rightarrow> string \<Rightarrow> cli_error + string" where
  "required_text vals flag = need (vals flag) (Missing ''install'' flag)"

definition parse_install_args ::
  "(string \<Rightarrow> string option) \<Rightarrow> string list \<Rightarrow> cli_error + InstallArgs" where
  "parse_install_args V values =
     rbind (parse_options values install_value_flags [] ''install'') (\<lambda>parsed.
     rbind (no_arguments (po_positionals parsed) ''install'') (\<lambda>_.
     let vals = po_values parsed in
     rbind (required_text vals ''--public-url'') (\<lambda>public_url.
     rbind (checked_option vals ''--host'') (\<lambda>host.
     rbind (checked_option vals ''--name'') (\<lambda>name.
     rbind (version_option V vals) (\<lambda>version.
     rbind (runtime_option vals) (\<lambda>runtime.
     rbind (required_text vals ''--database-host'') (\<lambda>database_host.
     rbind (port_option vals ''--database-port'') (\<lambda>database_port.
     rbind (required_text vals ''--database-name'') (\<lambda>database_name.
     rbind (required_text vals ''--database-runtime-user'') (\<lambda>database_runtime_user.
     rbind (required_text vals ''--database-lifecycle-user'') (\<lambda>database_lifecycle_user.
     if database_runtime_user = database_lifecycle_user then Inl RolesNotDistinct else
     rbind (required_text vals ''--valkey-host'') (\<lambda>valkey_host.
     rbind (port_option vals ''--valkey-port'') (\<lambda>valkey_port.
     rbind (required_file vals ''--database-runtime-password-file'') (\<lambda>database_runtime_password_file.
     rbind (required_file vals ''--database-lifecycle-password-file'') (\<lambda>database_lifecycle_password_file.
     rbind (required_file vals ''--valkey-password-file'') (\<lambda>valkey_password_file.
     rbind (target_path vals ''--tls-material-root'') (\<lambda>tls_material_root.
     let direct_tls_config = vals ''--direct-tls-config'' in
     if (direct_tls_config \<noteq> None) \<noteq> (tls_material_root \<noteq> None)
     then Inl (Together ''--direct-tls-config'' ''--tls-material-root'')
     else Inr \<lparr>ia_host = host, ia_name = name, ia_public_url = public_url, ia_version = version,
       ia_runtime = runtime, ia_install_root = vals ''--install-root'',
       ia_direct_tls_config = direct_tls_config, ia_tls_material_root = tls_material_root,
       ia_database_host = database_host, ia_database_port = database_port,
       ia_database_name = database_name, ia_database_runtime_user = database_runtime_user,
       ia_database_runtime_password_file = database_runtime_password_file,
       ia_database_lifecycle_user = database_lifecycle_user,
       ia_database_lifecycle_password_file = database_lifecycle_password_file,
       ia_valkey_host = valkey_host, ia_valkey_port = valkey_port,
       ia_valkey_password_file = valkey_password_file\<rparr>))))))))))))))))))"

definition parse_update_args ::
  "(string \<Rightarrow> string option) \<Rightarrow> string list \<Rightarrow> cli_error + UpdateArgs" where
  "parse_update_args V values =
     rbind (parse_options values [''--instance'', ''--to'', ''--config-file'', ''--config-schema''] [] ''update'') (\<lambda>parsed.
       if 1 < length (po_positionals parsed) then Inl (TooManySelectors ''update'')
       else rbind (checked_option (po_values parsed) ''--instance'') (\<lambda>named.
         rbind (version_option V (po_values parsed)) (\<lambda>version.
           let config_file = po_values parsed ''--config-file''; config_schema = po_values parsed ''--config-schema''
           in if (config_file = None) \<noteq> (config_schema = None)
              then Inl (Together ''--config-file'' ''--config-schema'')
              else Inr \<lparr>ua_selector = \<lparr>sel_positional = first_positional (po_positionals parsed), sel_named = named\<rparr>,
                     ua_version = version, ua_config_file = config_file, ua_config_schema = config_schema\<rparr>)))"

definition unpositioned :: "SelectorParts \<Rightarrow> string \<Rightarrow> cli_error + InstanceSelector" where
  "unpositioned parts command =
     (if sp_positional parts \<noteq> None then Inl (NotAccepted command ''positional selector'')
      else Inr \<lparr>sel_positional = None, sel_named = sp_named parts\<rparr>)"

definition parse_backup :: "string list \<Rightarrow> cli_error + BackupArgs" where
  "parse_backup values =
     (let plain = (\<lambda>rest command. rbind (selector_parts rest [] [] ''backup'') (\<lambda>parts.
            rbind (unpositioned parts ''backup'') (\<lambda>selector.
              Inr \<lparr>ba_selector = selector, ba_command = command\<rparr>)))
      in case values of
           [] \<Rightarrow> plain [] BackupShow
         | first # rest \<Rightarrow>
             if first = ''show'' then plain rest BackupShow
             else if first = ''snapshot'' then plain rest BackupSnapshot
             else if first = ''restore-test'' then plain rest BackupRestoreTest
             else if first = ''copy''
             then rbind (selector_parts rest [''--to-host''] [] ''backup copy'') (\<lambda>parts.
               rbind (unpositioned parts ''backup copy'') (\<lambda>selector.
                 rbind (need (sp_values parts ''--to-host'') (Missing ''backup copy'' ''--to-host'')) (\<lambda>to_host.
                   Inr \<lparr>ba_selector = selector, ba_command = BackupCopy to_host\<rparr>)))
             else Inl (UnknownSubcommand ''backup'' first))"

definition policy_mode :: "string \<Rightarrow> string option \<Rightarrow> cli_error + BackupBeforeUpdatePolicy" where
  "policy_mode mode age =
     (if mode = ''off''
      then if age \<noteq> None then Inl (NotAccepted mode ''--max-age-seconds'') else Inr PolicyOff
      else if mode = ''warn''
      then if age \<noteq> None then Inl (NotAccepted mode ''--max-age-seconds'') else Inr PolicyWarn
      else if mode = ''require''
      then rbind (need age (Missing mode ''--max-age-seconds'')) (\<lambda>v.
        rbind (need (parse_unsigned 64 v) (NotInteger ''--max-age-seconds'')) (\<lambda>n.
          Inr (PolicyRequire (of_nat n))))
      else Inl (UnknownSubcommand ''policy backup-before-update'' mode))"

definition parse_policy :: "string list \<Rightarrow> cli_error + PolicyArgs" where
  "parse_policy values =
     (case values of
        [] \<Rightarrow> Inl (ExpectedSubcommand ''policy'')
      | subject # rest \<Rightarrow>
          if subject \<noteq> ''backup-before-update'' then Inl (UnknownSubcommand ''policy'' subject)
          else (case rest of
              [] \<Rightarrow> Inl (ExpectedSubcommand ''policy backup-before-update'')
            | mode # rest' \<Rightarrow>
                rbind (selector_parts rest' [''--max-age-seconds''] [] ''policy backup-before-update'') (\<lambda>parts.
                  rbind (policy_mode mode (sp_values parts ''--max-age-seconds'')) (\<lambda>policy.
                    rbind (map_err PolicyRefused (BackupBeforeUpdatePolicy_validate policy)) (\<lambda>_.
                      Inr \<lparr>pa_selector = selector_of parts, pa_mode = policy\<rparr>)))))"

definition parse_recover ::
  "(string \<Rightarrow> string option) \<Rightarrow> string list \<Rightarrow> cli_error + RecoverArgs" where
  "parse_recover V values =
     rbind (selector_parts values [''--to'', ''--recovery-secret-file''] [] ''recover'') (\<lambda>parts.
       rbind (version_option V (sp_values parts)) (\<lambda>version.
         Inr \<lparr>ra_selector = selector_of parts, ra_version = version,
              ra_recovery_secret_file =
                (case sp_values parts ''--recovery-secret-file'' of
                   Some path \<Rightarrow> if path = [] then None else Some path
                 | None \<Rightarrow> None)\<rparr>))"

definition parse_admin :: "string list \<Rightarrow> cli_error + AdminCreateArgs" where
  "parse_admin values =
     (case values of
        [] \<Rightarrow> Inl (ExpectedSubcommand ''admin'')
      | subcommand # rest \<Rightarrow>
          if subcommand \<noteq> ''create'' then Inl (UnknownSubcommand ''admin'' subcommand)
          else rbind (selector_parts rest [] [''--credentials-stdin''] ''admin create'') (\<lambda>parts.
            Inr \<lparr>aa_selector = selector_of parts,
                 aa_credentials_stdin = (''--credentials-stdin'' \<in> sp_flags parts)\<rparr>))"

section \<open>Routing\<close>

definition parse_limited_selector ::
  "string list \<Rightarrow> string \<Rightarrow> nat \<Rightarrow> nat \<Rightarrow> cli_error + InstanceSelector \<times> nat" where
  "parse_limited_selector values command default_limit maximum =
     rbind (selector_parts values [''--limit''] [] command) (\<lambda>parts.
       rbind (case sp_values parts ''--limit'' of
           Some raw \<Rightarrow> need (parse_unsigned 64 raw) (NotInteger ''--limit'')
         | None \<Rightarrow> Inr default_limit)
       (\<lambda>limit. if \<not> (1 \<le> limit \<and> limit \<le> maximum) then Inl (OutOfRange ''--limit'')
          else Inr (selector_of parts, limit)))"

definition without_all :: "string list \<Rightarrow> string \<Rightarrow> cli_error + InstanceSelector" where
  "without_all values command =
     rbind (parse_read_view_selector values command) (\<lambda>(selector, all).
       if all then Inl (NotAccepted command ''--all'') else Inr selector)"

definition parse_discover :: "string list \<Rightarrow> cli_error + string option" where
  "parse_discover values =
     rbind (parse_options values [''--host''] [] ''discover'') (\<lambda>parsed.
       rbind (no_arguments (po_positionals parsed) ''discover'') (\<lambda>_. Inr (po_values parsed ''--host'')))"

definition parse_self ::
  "(string \<Rightarrow> string option) \<Rightarrow> string list \<Rightarrow> cli_error + cli_command" where
  "parse_self V values =
     (case values of
        [] \<Rightarrow> Inl (UnknownCommand ''self'')
      | operation # rest \<Rightarrow>
          if operation = ''check'' then rbind (parse_version_option V rest) (\<lambda>v. Inr (CmdSelfCheck v))
          else if operation = ''verify-state''
          then rbind (no_arguments rest ''self verify-state'') (\<lambda>_. Inr CmdSelfVerifyState)
          else if operation = ''update'' then rbind (parse_version_option V rest) (\<lambda>v. Inr (CmdSelfUpdate v))
          else if operation = ''rollback''
          then rbind (no_arguments rest ''self rollback'') (\<lambda>_. Inr CmdSelfRollback)
          else Inl (UnknownCommand ''self''))"

definition parse_remote :: "string list \<Rightarrow> cli_error + cli_command" where
  "parse_remote values =
     (if values = [''transfer-stream''] then Inr CmdRemoteTransferStream
      else case values of
          operation # rest \<Rightarrow>
            if operation = ''exec'' then rbind (no_arguments rest ''remote exec'') (\<lambda>_. Inr CmdRemoteExec)
            else Inl (UnknownCommand ''remote'')
        | [] \<Rightarrow> Inl (UnknownCommand ''remote''))"

definition parse_command ::
  "(string \<Rightarrow> string option) \<Rightarrow> string \<Rightarrow> string list \<Rightarrow> cli_error + cli_command" where
  "parse_command V command values =
     (if command = ''host'' then rbind (parse_host_family values) (\<lambda>c. Inr (CmdHost c))
      else if command = ''instance'' then rbind (parse_instance values) (\<lambda>c. Inr (CmdInstance c))
      else if command = ''controller'' then rbind (parse_controller values) (\<lambda>c. Inr (CmdController c))
      else if command = ''install'' then rbind (parse_install_args V values) (\<lambda>a. Inr (CmdInstall a))
      else if command = ''discover'' then rbind (parse_discover values) (\<lambda>h. Inr (CmdDiscover h))
      else if command = ''bind'' then rbind (parse_bind values) (\<lambda>b. Inr (CmdBind b))
      else if command \<in> {''version'', ''V'', ''--version'', ''-V''}
      then rbind (parse_read_view_selector values ''version'') (\<lambda>(s, all). Inr (CmdVersion s all))
      else if command = ''status''
      then rbind (parse_read_view_selector values ''status'') (\<lambda>(s, all). Inr (CmdStatus s all))
      else if command = ''logs''
      then rbind (parse_limited_selector values ''logs'' 200 500) (\<lambda>(s, limit). Inr (CmdLogs s limit))
      else if command = ''doctor''
      then rbind (parse_read_view_selector values ''doctor'') (\<lambda>(s, all). Inr (CmdDoctor s all))
      else if command = ''verify'' then rbind (without_all values ''verify'') (\<lambda>s. Inr (CmdVerify s))
      else if command = ''update'' then rbind (parse_update_args V values) (\<lambda>a. Inr (CmdUpdate a))
      else if command = ''rollback'' then rbind (without_all values ''rollback'') (\<lambda>s. Inr (CmdRollback s))
      else if command = ''operation''
      then rbind (parse_limited_selector values ''operation'' 20 1000) (\<lambda>(s, limit). Inr (CmdOperation s limit))
      else if command = ''backup'' then rbind (parse_backup values) (\<lambda>a. Inr (CmdBackup a))
      else if command = ''policy'' then rbind (parse_policy values) (\<lambda>a. Inr (CmdPolicy a))
      else if command = ''recover'' then rbind (parse_recover V values) (\<lambda>a. Inr (CmdRecover a))
      else if command = ''uninstall''
      then rbind (parse_confirm_scoped values [''--yes''] ''uninstall'') (\<lambda>(s, yes). Inr (CmdUninstall s yes))
      else if command = ''admin'' then rbind (parse_admin values) (\<lambda>a. Inr (CmdAdmin a))
      else if command = ''tls'' then rbind (parse_tls values) (\<lambda>c. Inr (CmdTls c))
      else if command = ''remote'' then parse_remote values
      else if command = ''self'' then parse_self V values
      else Inl (UnknownCommand command))"

definition Cli_parse ::
  "(string \<Rightarrow> string option) \<Rightarrow> string list \<Rightarrow> GlobalOptions \<Rightarrow> cli_error + Cli option" where
  "Cli_parse V args globals =
     (case args of
        [] \<Rightarrow> Inr None
      | _ # values \<Rightarrow>
          if values = [] then Inr None
          else (case drop (go_consumed globals) values of
              [] \<Rightarrow> Inl CommandRequired
            | command # rest \<Rightarrow>
                rbind (parse_command V command rest) (\<lambda>c.
                  Inr (Some \<lparr>cli_instance = go_instance globals, cli_json = go_json globals,
                         cli_command = c\<rparr>))))"

end
