(* ===== verification/CliProofs.thy ===== *)
theory CliProofs
  imports CliParser
begin

text \<open>
  The option grammar that \<open>parse_options\<close> implements, and the rules the command proofs use.
\<close>

section \<open>The grammar of a closed option set\<close>

datatype item = ValueItem string string | FlagItem string | PositionalItem string

primrec item_tokens :: "item \<Rightarrow> string list" where
  "item_tokens (ValueItem k v) = [k, v]"
| "item_tokens (FlagItem f) = [f]"
| "item_tokens (PositionalItem p) = [p]"

definition tokens :: "item list \<Rightarrow> string list" where
  "tokens items = concat (map item_tokens items)"

primrec item_ok :: "string list \<Rightarrow> string list \<Rightarrow> item \<Rightarrow> bool" where
  "item_ok vf bf (ValueItem k v) \<longleftrightarrow> k \<in> set vf"
| "item_ok vf bf (FlagItem f) \<longleftrightarrow> f \<notin> set vf \<and> f \<in> set bf"
| "item_ok vf bf (PositionalItem p) \<longleftrightarrow> p \<notin> set vf \<and> p \<notin> set bf \<and> \<not> looks_like_option p"

fun given :: "item list \<Rightarrow> (string \<times> string) list" where
  "given [] = []"
| "given (ValueItem k v # items) = (k, v) # given items"
| "given (_ # items) = given items"

fun raised :: "item list \<Rightarrow> string list" where
  "raised [] = []"
| "raised (FlagItem f # items) = f # raised items"
| "raised (_ # items) = raised items"

fun placed :: "item list \<Rightarrow> string list" where
  "placed [] = []"
| "placed (PositionalItem p # items) = p # placed items"
| "placed (_ # items) = placed items"

definition items_ok :: "string list \<Rightarrow> string list \<Rightarrow> item list \<Rightarrow> bool" where
  "items_ok vf bf items \<longleftrightarrow>
     list_all (item_ok vf bf) items \<and> distinct (map fst (given items)) \<and> distinct (raised items)"

definition collected :: "item list \<Rightarrow> ParsedOptions" where
  "collected items =
     \<lparr>po_positionals = placed items, po_values = map_of (given items), po_flags = set (raised items)\<rparr>"

lemma tokens_simps [simp]:
  "tokens [] = []"
  "tokens (i # items) = item_tokens i @ tokens items"
  "tokens (xs @ ys) = tokens xs @ tokens ys"
  by (simp_all add: tokens_def)

lemma given_append [simp]: "given (xs @ ys) = given xs @ given ys"
  by (induction xs rule: given.induct) simp_all

lemma raised_append [simp]: "raised (xs @ ys) = raised xs @ raised ys"
  by (induction xs rule: raised.induct) simp_all

lemma placed_append [simp]: "placed (xs @ ys) = placed xs @ placed ys"
  by (induction xs rule: placed.induct) simp_all

text \<open>The loop from any point: what is left must fit what has been collected.\<close>

definition fits :: "ParsedOptions \<Rightarrow> item list \<Rightarrow> bool" where
  "fits P items \<longleftrightarrow> dom (po_values P) \<inter> fst ` set (given items) = {} \<and> po_flags P \<inter> set (raised items) = {}"

definition extended :: "ParsedOptions \<Rightarrow> item list \<Rightarrow> ParsedOptions" where
  "extended P items =
     \<lparr>po_positionals = po_positionals P @ placed items, po_values = po_values P ++ map_of (given items),
      po_flags = po_flags P \<union> set (raised items)\<rparr>"

lemma options_loop_complete:
  assumes "items_ok vf bf items" and "fits P items"
  shows "options_loop vf bf c (tokens items) P = Inr (extended P items)"
  using assms
proof (induction items arbitrary: P)
  case Nil
  then show ?case by (simp add: extended_def)
next
  case (Cons i items)
  show ?case
  proof (cases i)
    case (ValueItem k v)
    let ?P = "P\<lparr>po_values := (po_values P)(k \<mapsto> v)\<rparr>"
    have "options_loop vf bf c (tokens items) ?P = Inr (extended ?P items)"
      using Cons.prems ValueItem by (intro Cons.IH) (auto simp: items_ok_def fits_def)
    moreover have "extended ?P items = extended P (i # items)"
      using Cons.prems ValueItem
      by (auto simp: extended_def items_ok_def map_add_def fun_eq_iff split: option.split dest: map_of_SomeD)
         (metis fst_conv image_eqI map_of_SomeD)
    ultimately show ?thesis
      using Cons.prems ValueItem by (auto simp: items_ok_def fits_def dom_def)
  next
    case (FlagItem f)
    let ?P = "P\<lparr>po_flags := insert f (po_flags P)\<rparr>"
    have "options_loop vf bf c (tokens items) ?P = Inr (extended ?P items)"
      using Cons.prems FlagItem by (intro Cons.IH) (auto simp: items_ok_def fits_def)
    then show ?thesis
      using Cons.prems FlagItem by (auto simp: items_ok_def fits_def extended_def)
  next
    case (PositionalItem p)
    let ?P = "P\<lparr>po_positionals := po_positionals P @ [p]\<rparr>"
    have "options_loop vf bf c (tokens items) ?P = Inr (extended ?P items)"
      using Cons.prems PositionalItem by (intro Cons.IH) (auto simp: items_ok_def fits_def)
    then show ?thesis
      using Cons.prems PositionalItem by (auto simp: items_ok_def fits_def extended_def)
  qed
qed

lemma options_loop_sound:
  assumes "options_loop vf bf c ts P = Inr P'"
  shows "\<exists>items. ts = tokens items \<and> items_ok vf bf items \<and> fits P items"
  using assms
proof (induction vf bf c ts P rule: options_loop.induct)
  case (1 vf bf c P)
  then show ?case by (intro exI [of _ "[]"]) (simp add: items_ok_def fits_def)
next
  case (2 vf bf c token rest P)
  consider (valued) v rest' where "token \<in> set vf" "rest = v # rest'" "po_values P token = None"
      "options_loop vf bf c rest' (P\<lparr>po_values := (po_values P)(token \<mapsto> v)\<rparr>) = Inr P'"
    | (flag) "token \<notin> set vf" "token \<in> set bf" "token \<notin> po_flags P"
      "options_loop vf bf c rest (P\<lparr>po_flags := insert token (po_flags P)\<rparr>) = Inr P'"
    | (positional) "token \<notin> set vf" "token \<notin> set bf" "\<not> looks_like_option token"
      "options_loop vf bf c rest (P\<lparr>po_positionals := po_positionals P @ [token]\<rparr>) = Inr P'"
    using 2(4) by (auto split: if_splits list.splits)
  then show ?case
  proof cases
    case valued
    from 2(1) [OF valued(1,2) _ valued(4)] valued(3) obtain items where
      "rest' = tokens items" "items_ok vf bf items" "fits (P\<lparr>po_values := (po_values P)(token \<mapsto> v)\<rparr>) items"
      by auto
    with valued show ?thesis
      by (intro exI [of _ "ValueItem token v # items"]) (auto simp: items_ok_def fits_def)
  next
    case flag
    from 2(2) [OF flag(1-4)] obtain items where
      "rest = tokens items" "items_ok vf bf items" "fits (P\<lparr>po_flags := insert token (po_flags P)\<rparr>) items"
      by auto
    with flag show ?thesis
      by (intro exI [of _ "FlagItem token # items"]) (auto simp: items_ok_def fits_def)
  next
    case positional
    from 2(3) [OF positional] obtain items where
      "rest = tokens items" "items_ok vf bf items" "fits (P\<lparr>po_positionals := po_positionals P @ [token]\<rparr>) items"
      by auto
    with positional show ?thesis
      by (intro exI [of _ "PositionalItem token # items"]) (auto simp: items_ok_def fits_def)
  qed
qed

lemma parse_options_tokens:
  "items_ok vf bf items \<Longrightarrow> parse_options (tokens items) vf bf c = Inr (collected items)"
  using options_loop_complete [of vf bf items no_options c]
  by (simp add: parse_options_def fits_def no_options_def extended_def collected_def)

lemma parse_options_Inr:
  assumes "parse_options ts vf bf c = Inr P"
  obtains items where "ts = tokens items" "items_ok vf bf items" "P = collected items"
proof -
  obtain items where "ts = tokens items" "items_ok vf bf items"
    using options_loop_sound assms by (force simp: parse_options_def)
  with assms parse_options_tokens [of vf bf items c] that show thesis by simp
qed

lemma placed_plain: "items_ok vf bf items \<Longrightarrow> p \<in> set (placed items) \<Longrightarrow> \<not> looks_like_option p"
  unfolding items_ok_def by (induction items rule: placed.induct) auto

lemma parse_options_plain:
  "parse_options ts vf bf c = Inr P \<Longrightarrow> p \<in> set (po_positionals P) \<Longrightarrow> \<not> looks_like_option p"
  by (erule parse_options_Inr) (auto simp: collected_def dest: placed_plain)

end
