(* ===== verification/CliGrammar.thy ===== *)
theory CliGrammar
  imports CliProofs
begin

text \<open>
  The commands the parser can produce (\<open>command_ok\<close>), and that it produces no others. Where the
  parser checks nothing, the predicate does not either: the approval token and the credentials file
  of \<open>controller revoke\<close>, and the host names of \<open>host show\<close>, \<open>check\<close> and \<open>forget\<close>, of
  \<open>discover --host\<close> and of \<open>backup copy --to-host\<close>.
\<close>

section \<open>Well-formed commands\<close>

definition selector_ok :: "InstanceSelector \<Rightarrow> bool" where
  "selector_ok s \<longleftrightarrow> pred_option name_ok (sel_named s) \<and> pred_option (\<lambda>p. \<not> looks_like_option p) (sel_positional s)"

abbreviation file_ok :: "string option \<Rightarrow> bool" where
  "file_ok \<equiv> pred_option (\<lambda>p. p \<noteq> [])"

abbreviation version_ok :: "(string \<Rightarrow> string option) \<Rightarrow> string option \<Rightarrow> bool" where
  "version_ok V \<equiv> pred_option (semantic_tag V)"

fun host_ok :: "HostCommand \<Rightarrow> bool" where
  "host_ok (HostAdd key profile _) \<longleftrightarrow> name_ok key \<and> \<not> looks_like_option key \<and> name_ok profile"
| "host_ok (HostForget key _) \<longleftrightarrow> \<not> looks_like_option key"
| "host_ok _ \<longleftrightarrow> True"

fun instance_ok :: "InstanceCommand \<Rightarrow> bool" where
  "instance_ok (InstanceList _) \<longleftrightarrow> True"
| "instance_ok (InstanceShow s) \<longleftrightarrow> selector_ok s"
| "instance_ok (InstanceRegister host d key) \<longleftrightarrow> name_ok host \<and> name_ok d \<and> pred_option name_ok key"
| "instance_ok (InstanceRename s key) \<longleftrightarrow>
     selector_ok s \<and> pred_option name_ok (sel_positional s) \<and> (sel_positional s = None \<or> sel_named s = None)
     \<and> name_ok key \<and> \<not> looks_like_option key"
| "instance_ok (InstanceForget s) \<longleftrightarrow> selector_ok s"
| "instance_ok (InstanceRelocate s host) \<longleftrightarrow> selector_ok s \<and> name_ok host"

definition approval_ok :: "string option \<Rightarrow> string option \<Rightarrow> bool" where
  "approval_ok token file \<longleftrightarrow> pred_option token_ok token \<and> file_ok file \<and> (token = None \<or> file = None)"

fun controller_ok :: "ControllerCommand \<Rightarrow> bool" where
  "controller_ok (ControllerList s) \<longleftrightarrow> selector_ok s"
| "controller_ok (ControllerAdd s label token file) \<longleftrightarrow> selector_ok s \<and> name_ok label \<and> approval_ok token file"
| "controller_ok (ControllerRotate s label token file) \<longleftrightarrow>
     selector_ok s \<and> pred_option name_ok label \<and> approval_ok token file"
| "controller_ok (ControllerRevoke s key _ _) \<longleftrightarrow>
     selector_ok s \<and> sel_positional s = None \<and> name_ok key \<and> \<not> looks_like_option key"
| "controller_ok (ControllerRecover s label secret turn file out) \<longleftrightarrow>
     selector_ok s \<and> name_ok label \<and> file_ok secret \<and> file_ok file \<and> file_ok out
     \<and> (if turn then secret = None else file = None)
     \<and> (case (secret, out) of (Some a, Some b) \<Rightarrow> \<not> path_equal a b | _ \<Rightarrow> True)"

definition install_ok :: "(string \<Rightarrow> string option) \<Rightarrow> InstallArgs \<Rightarrow> bool" where
  "install_ok V a \<longleftrightarrow>
     pred_option name_ok (ia_host a) \<and> pred_option name_ok (ia_name a) \<and> version_ok V (ia_version a)
     \<and> ia_database_runtime_user a \<noteq> ia_database_lifecycle_user a
     \<and> ia_database_runtime_password_file a \<noteq> [] \<and> ia_database_lifecycle_password_file a \<noteq> []
     \<and> ia_valkey_password_file a \<noteq> []
     \<and> pred_option target_path_ok (ia_tls_material_root a)
     \<and> (ia_direct_tls_config a \<noteq> None) = (ia_tls_material_root a \<noteq> None)"

fun command_ok :: "(string \<Rightarrow> string option) \<Rightarrow> cli_command \<Rightarrow> bool" where
  "command_ok V (CmdHost c) \<longleftrightarrow> host_ok c"
| "command_ok V (CmdInstance c) \<longleftrightarrow> instance_ok c"
| "command_ok V (CmdController c) \<longleftrightarrow> controller_ok c"
| "command_ok V (CmdBind b) \<longleftrightarrow>
     selector_ok (bo_selector b) \<and> name_ok (bo_label b)
     \<and> approval_ok (bo_approval_token b) (bo_credentials_file b) \<and> file_ok (bo_output_secret_file b)"
| "command_ok V (CmdInstall a) \<longleftrightarrow> install_ok V a"
| "command_ok V (CmdVersion s _) \<longleftrightarrow> selector_ok s"
| "command_ok V (CmdStatus s _) \<longleftrightarrow> selector_ok s"
| "command_ok V (CmdDoctor s _) \<longleftrightarrow> selector_ok s"
| "command_ok V (CmdVerify s) \<longleftrightarrow> selector_ok s"
| "command_ok V (CmdRollback s) \<longleftrightarrow> selector_ok s"
| "command_ok V (CmdUninstall s _) \<longleftrightarrow> selector_ok s"
| "command_ok V (CmdLogs s limit) \<longleftrightarrow> selector_ok s \<and> 1 \<le> limit \<and> limit \<le> 500"
| "command_ok V (CmdOperation s limit) \<longleftrightarrow> selector_ok s \<and> 1 \<le> limit \<and> limit \<le> 1000"
| "command_ok V (CmdUpdate a) \<longleftrightarrow>
     selector_ok (ua_selector a) \<and> version_ok V (ua_version a)
     \<and> (ua_config_file a = None) = (ua_config_schema a = None)"
| "command_ok V (CmdBackup a) \<longleftrightarrow> selector_ok (ba_selector a) \<and> sel_positional (ba_selector a) = None"
| "command_ok V (CmdPolicy a) \<longleftrightarrow> selector_ok (pa_selector a) \<and> BackupBeforeUpdatePolicy_validate (pa_mode a) = Inr ()"
| "command_ok V (CmdRecover a) \<longleftrightarrow>
     selector_ok (ra_selector a) \<and> version_ok V (ra_version a) \<and> file_ok (ra_recovery_secret_file a)"
| "command_ok V (CmdAdmin a) \<longleftrightarrow> selector_ok (aa_selector a)"
| "command_ok V (CmdSelfCheck v) \<longleftrightarrow> version_ok V v"
| "command_ok V (CmdSelfUpdate v) \<longleftrightarrow> version_ok V v"
| "command_ok V _ \<longleftrightarrow> True"

section \<open>Only well-formed commands are parsed\<close>

lemma pred_option_iff: "pred_option p x \<longleftrightarrow> (\<forall>v. x = Some v \<longrightarrow> p v)"
  by (cases x) simp_all

lemmas option_rules = checked_option_Inr_iff file_option_Inr_iff approval_option_Inr_iff
  version_option_Inr_iff

lemma first_positional_plain:
  "parse_options ts vf bf c = Inr P \<Longrightarrow> first_positional (po_positionals P) = Some p \<Longrightarrow> \<not> looks_like_option p"
  by (rule parse_options_plain) (auto simp: first_positional_def split: list.splits)

lemma selector_parts_Inr:
  assumes "selector_parts ts vf bf c = Inr parts"
  obtains P where "parse_options ts (vf @ [''--instance'']) bf c = Inr P" "length (po_positionals P) \<le> 1"
    "pred_option name_ok (po_values P ''--instance'')"
    "parts = \<lparr>sp_positional = first_positional (po_positionals P), sp_named = po_values P ''--instance'',
       sp_values = (po_values P)(''--instance'' := None), sp_flags = po_flags P\<rparr>"
proof -
  obtain P where P: "parse_options ts (vf @ [''--instance'']) bf c = Inr P"
    using assms by (auto simp: selector_parts_def rbind_Inr_iff)
  then show thesis
    using assms that [of P]
    by (auto simp: selector_parts_def rbind_Inr_iff checked_option_Inr_iff pred_option_iff split: if_splits)
qed

lemma selector_parts_ok:
  assumes "selector_parts ts vf bf c = Inr parts"
  shows "selector_ok (selector_of parts)" "pred_option name_ok (sp_named parts)"
    "pred_option (\<lambda>p. \<not> looks_like_option p) (sp_positional parts)"
proof -
  obtain P where P: "parse_options ts (vf @ [''--instance'']) bf c = Inr P"
    "pred_option name_ok (po_values P ''--instance'')"
    "parts = \<lparr>sp_positional = first_positional (po_positionals P), sp_named = po_values P ''--instance'',
       sp_values = (po_values P)(''--instance'' := None), sp_flags = po_flags P\<rparr>"
    using assms by (rule selector_parts_Inr)
  show "pred_option name_ok (sp_named parts)" using P by simp
  show "pred_option (\<lambda>p. \<not> looks_like_option p) (sp_positional parts)"
    unfolding pred_option_iff using P(3) first_positional_plain [OF P(1)] by simp
  with \<open>pred_option name_ok (sp_named parts)\<close> show "selector_ok (selector_of parts)"
    by (simp add: selector_ok_def selector_of_def)
qed

lemma exactly_one_Inr [simp]: "exactly_one vs u = Inr v \<longleftrightarrow> vs = [v]"
  by (auto simp: exactly_one_def split: list.split)

lemma no_arguments_Inr [simp]: "no_arguments vs u = Inr x \<longleftrightarrow> vs = []"
  by (auto simp: no_arguments_def split: list.split)

lemma plain_singleton: "parse_options ts vf bf c = Inr P \<Longrightarrow> po_positionals P = [v] \<Longrightarrow> \<not> looks_like_option v"
  by (rule parse_options_plain) auto

lemmas bind_rules = rbind_Inr_iff need_Inr_iff checked_name_Inr_iff exactly_one_Inr no_arguments_Inr option_rules

lemma parse_host_add_ok: "parse_host_add vs = Inr c \<Longrightarrow> host_ok c"
  unfolding parse_host_add_def
  by (simp only: bind_rules, elim exE conjE)
     (auto dest: plain_singleton split: option.split_asm if_split_asm)

lemma parse_host_ok:
  assumes "parse_host_family vs = Inr c"
  shows "host_ok c"
proof (cases vs)
  case (Cons subcommand rest)
  note run = assms [unfolded parse_host_family_def Cons list.case]
  consider "subcommand = ''add''" | "subcommand = ''list''" | "subcommand = ''show''"
    | "subcommand = ''check''" | "subcommand = ''forget''"
    using run by (auto split: if_splits)
  then show ?thesis
    by cases (use run in \<open>auto simp: rbind_Inr_iff dest: parse_host_add_ok plain_singleton\<close>)
qed (use assms in \<open>simp add: parse_host_family_def\<close>)

lemma parse_rename_ok:
  assumes "parse_rename vs = Inr c"
  shows "instance_ok c"
proof -
  obtain P where P: "parse_options vs [''--instance''] [] ''instance rename'' = Inr P"
    using assms by (auto simp: parse_rename_def rbind_Inr_iff)
  show ?thesis
    using assms P parse_options_plain [OF P]
    by (auto simp: parse_rename_def rbind_Inr_iff option_rules selector_ok_def pred_option_iff
        split: list.splits if_splits)
qed

lemma parse_register_ok: "parse_register vs = Inr c \<Longrightarrow> instance_ok c"
  by (auto simp: parse_register_def required_name_def rbind_Inr_iff checked_option_Inr_iff pred_option_iff)

lemma parse_instance_ok:
  assumes "parse_instance vs = Inr c"
  shows "instance_ok c"
proof (cases vs)
  case (Cons subcommand rest)
  note run = assms [unfolded parse_instance_def Cons list.case]
  consider "subcommand = ''list''" | "subcommand = ''show''" | "subcommand = ''register''"
    | "subcommand = ''rename''" | "subcommand = ''forget''" | "subcommand = ''relocate''"
    using run by (auto split: if_splits)
  then show ?thesis
    by cases (use run in \<open>auto simp: rbind_Inr_iff dest: selector_parts_ok(1) parse_register_ok parse_rename_ok\<close>)
qed (use assms in \<open>simp add: parse_instance_def\<close>)

lemma parse_common_ok:
  assumes "parse_common vs vf bf c = Inr m"
  shows "selector_ok (cm_selector m) \<and> approval_ok (cm_approval_token m) (cm_credentials_file m)"
  using assms first_positional_plain
  by (auto simp: parse_common_def rbind_Inr_iff option_rules selector_ok_def approval_ok_def
      pred_option_iff split: if_splits)

lemma require_label_Inr: "require_label vals optional = Inr r \<longleftrightarrow>
    vals ''--label'' = r \<and> pred_option name_ok r \<and> (r = None \<longrightarrow> optional)"
  by (auto simp: require_label_def rbind_Inr_iff split: option.split)

lemma parse_controller_recover_ok:
  assumes "parse_controller_recover vs = Inr c"
  shows "controller_ok c"
proof -
  obtain m where m: "parse_common vs [''--label'', ''--secret-file'', ''--output-secret-file'']
      [''--rotate-secret''] ''controller recover'' = Inr m"
    using assms by (auto simp: parse_controller_recover_def rbind_Inr_iff)
  have default: "name_ok ''recovered-controller''" by code_simp
  show ?thesis
    using assms m parse_common_ok [OF m] default
    by (auto simp: parse_controller_recover_def rbind_Inr_iff option_rules require_label_Inr Let_def
        approval_ok_def pred_option_iff split: option.splits if_splits)
qed

lemma parse_revoke_ok:
  assumes "parse_revoke vs = Inr c"
  shows "controller_ok c"
proof -
  obtain parts where p: "selector_parts vs [''--approval-token'', ''--credentials-file''] [] ''controller revoke'' = Inr parts"
    using assms by (auto simp: parse_revoke_def rbind_Inr_iff)
  show ?thesis
    using assms p selector_parts_ok [OF p]
    by (auto simp: parse_revoke_def rbind_Inr_iff selector_ok_def)
qed

lemma parse_controller_ok: "parse_controller vs = Inr c \<Longrightarrow> controller_ok c"
  by (auto simp: parse_controller_def parse_add_def parse_rotate_def rbind_Inr_iff require_label_Inr
      pred_option_iff dest: parse_controller_recover_ok parse_revoke_ok parse_common_ok selector_parts_ok(1)
      split: list.splits if_splits)

lemma parse_bind_ok:
  assumes "parse_bind vs = Inr b"
  shows "command_ok V (CmdBind b)"
proof -
  obtain P where P: "parse_options vs [''--instance'', ''--label'', ''--approval-token'', ''--credentials-file'',
      ''--output-secret-file''] [] ''bind'' = Inr P"
    using assms by (auto simp: parse_bind_def rbind_Inr_iff)
  show ?thesis
    using assms P first_positional_plain [OF P]
    by (auto simp: parse_bind_def rbind_Inr_iff option_rules selector_ok_def approval_ok_def pred_option_iff
        split: if_splits)
qed

lemma target_path_Inr: "target_path vals flag = Inr r \<longleftrightarrow> vals flag = r \<and> pred_option target_path_ok r"
  by (auto simp: target_path_def split: option.split)

lemma required_file_Inr: "required_file vals flag = Inr r \<longleftrightarrow> vals flag = Some r \<and> r \<noteq> []"
  by (auto simp: required_file_def rbind_Inr_iff)

lemma parse_install_ok: "parse_install_args V vs = Inr a \<Longrightarrow> install_ok V a"
  by (auto simp: parse_install_args_def Let_def rbind_Inr_iff option_rules target_path_Inr required_file_Inr
      install_ok_def pred_option_iff split: if_splits)

lemma parse_update_ok:
  assumes "parse_update_args V vs = Inr a"
  shows "command_ok V (CmdUpdate a)"
proof -
  obtain P where P: "parse_options vs [''--instance'', ''--to'', ''--config-file'', ''--config-schema''] []
      ''update'' = Inr P"
    using assms by (auto simp: parse_update_args_def rbind_Inr_iff)
  show ?thesis
    using assms P first_positional_plain [OF P]
    by (auto simp: parse_update_args_def rbind_Inr_iff option_rules selector_ok_def pred_option_iff Let_def
        split: if_splits)
qed

lemma unpositioned_Inr: "unpositioned parts c = Inr s \<longleftrightarrow>
    sp_positional parts = None \<and> s = \<lparr>sel_positional = None, sel_named = sp_named parts\<rparr>"
  by (auto simp: unpositioned_def)

lemma parse_backup_ok: "parse_backup vs = Inr a \<Longrightarrow> command_ok V (CmdBackup a)"
  by (auto simp: parse_backup_def Let_def rbind_Inr_iff unpositioned_Inr selector_ok_def
      dest: selector_parts_ok(2) split: list.splits if_splits)

lemma parse_policy_ok: "parse_policy vs = Inr a \<Longrightarrow> command_ok V (CmdPolicy a)"
  by (auto simp: parse_policy_def rbind_Inr_iff dest: selector_parts_ok(1) split: list.splits if_splits)

lemma parse_recover_ok:
  assumes "parse_recover V vs = Inr a"
  shows "command_ok V (CmdRecover a)"
proof -
  obtain parts where p: "selector_parts vs [''--to'', ''--recovery-secret-file''] [] ''recover'' = Inr parts"
    using assms by (auto simp: parse_recover_def rbind_Inr_iff)
  show ?thesis
    using assms p selector_parts_ok(1) [OF p]
    by (cases "sp_values parts ''--recovery-secret-file''")
       (auto simp: parse_recover_def rbind_Inr_iff version_option_Inr_iff pred_option_iff split: if_split_asm)
qed

lemma parse_admin_ok: "parse_admin vs = Inr a \<Longrightarrow> command_ok V (CmdAdmin a)"
  by (auto simp: parse_admin_def rbind_Inr_iff dest: selector_parts_ok(1) split: list.splits if_splits)

lemma parse_version_ok: "parse_version_option V vs = Inr v \<Longrightarrow> version_ok V v"
  by (auto simp: parse_version_option_def rbind_Inr_iff validate_version_def split: list.splits if_splits)

lemma parse_view_ok:
  "parse_read_view_selector vs c = Inr (s, b) \<Longrightarrow> selector_ok s"
  "parse_confirm_scoped vs bf c = Inr (s, b) \<Longrightarrow> selector_ok s"
  "without_all vs c = Inr s \<Longrightarrow> selector_ok s"
  by (auto simp: parse_read_view_selector_def parse_confirm_scoped_def without_all_def rbind_Inr_iff
      dest: selector_parts_ok(1) split: if_splits)

lemma parse_limited_ok:
  "parse_limited_selector vs c n m = Inr (s, limit) \<Longrightarrow> selector_ok s \<and> 1 \<le> limit \<and> limit \<le> m"
  by (auto simp: parse_limited_selector_def rbind_Inr_iff dest: selector_parts_ok(1) split: if_splits)

lemma parse_self_ok: "parse_self V vs = Inr c \<Longrightarrow> command_ok V c"
  by (auto simp: parse_self_def rbind_Inr_iff dest: parse_version_ok split: list.splits if_splits)

lemma parse_remote_ok: "parse_remote vs = Inr c \<Longrightarrow> command_ok V c"
  by (auto simp: parse_remote_def rbind_Inr_iff split: list.splits if_splits)

lemma family_ok:
  "parse_host_family vs = Inr h \<Longrightarrow> command_ok V (CmdHost h)"
  "parse_instance vs = Inr i \<Longrightarrow> command_ok V (CmdInstance i)"
  "parse_controller vs = Inr k \<Longrightarrow> command_ok V (CmdController k)"
  "parse_install_args V vs = Inr a \<Longrightarrow> command_ok V (CmdInstall a)"
  "parse_read_view_selector vs x = Inr (s, b) \<Longrightarrow> command_ok V (CmdVersion s b)"
  "parse_read_view_selector vs x = Inr (s, b) \<Longrightarrow> command_ok V (CmdStatus s b)"
  "parse_read_view_selector vs x = Inr (s, b) \<Longrightarrow> command_ok V (CmdDoctor s b)"
  "without_all vs x = Inr s \<Longrightarrow> command_ok V (CmdVerify s)"
  "without_all vs x = Inr s \<Longrightarrow> command_ok V (CmdRollback s)"
  "parse_confirm_scoped vs bf x = Inr (s, b) \<Longrightarrow> command_ok V (CmdUninstall s b)"
  "parse_limited_selector vs x n 500 = Inr (s, l) \<Longrightarrow> command_ok V (CmdLogs s l)"
  "parse_limited_selector vs x n 1000 = Inr (s, l) \<Longrightarrow> command_ok V (CmdOperation s l)"
  using parse_limited_ok [of vs x n 500 s l] parse_limited_ok [of vs x n 1000 s l]
  by (simp_all add: parse_host_ok parse_instance_ok parse_controller_ok parse_install_ok parse_view_ok
      parse_view_ok(1) [where b = b and c = x] parse_view_ok(2) [where b = b])

lemma if_Inr_iff: "(if b then x else y) = Inr c \<longleftrightarrow> b \<and> x = Inr c \<or> \<not> b \<and> y = Inr c"
  by simp

lemma parse_command_ok:
  assumes "parse_command V command values = Inr c"
  shows "command_ok V c"
  using assms [unfolded parse_command_def if_Inr_iff rbind_Inr_iff]
  by (elim disjE exE conjE; clarsimp simp del: command_ok.simps(1-20) split: prod.split_asm)
     (erule family_ok parse_bind_ok parse_update_ok parse_backup_ok parse_policy_ok parse_recover_ok
        parse_admin_ok parse_self_ok parse_remote_ok)+

end
