(* ===== verification/CliPrint.thy ===== *)
theory CliPrint
  imports CliGrammar
begin

text \<open>
  How every command is written: \<open>words c\<close> is one spelling of the command \<open>c\<close>, and the parser reads
  it back. Together with \<open>parse_command_ok\<close> this says which commands the grammar expresses.
\<close>

section \<open>Canonical spellings of options\<close>

definition field_items :: "(string \<times> string option) list \<Rightarrow> item list" where
  "field_items fs =
     concat (map (\<lambda>(k, v). case v of None \<Rightarrow> [] | Some x \<Rightarrow> [ValueItem k x]) fs)"

definition canonical ::
  "string list \<Rightarrow> (string \<times> string option) list \<Rightarrow> (string \<times> bool) list \<Rightarrow> item list" where
  "canonical ps fs flags =
     map PositionalItem ps @ field_items fs @ map (\<lambda>(f, _). FlagItem f) (filter snd flags)"

definition closed_set :: "string list \<Rightarrow> string list \<Rightarrow> bool" where
  "closed_set vf bf \<longleftrightarrow> list_all looks_like_option (vf @ bf) \<and> list_all (\<lambda>f. f \<notin> set vf) bf"

definition field_values :: "(string \<times> string option) list \<Rightarrow> string \<rightharpoonup> string" where
  "field_values fs k = (case map_of fs k of None \<Rightarrow> None | Some v \<Rightarrow> v)"

lemma field_items_simps [simp]:
  "field_items [] = []"
  "field_items ((k, v) # fs) = (case v of None \<Rightarrow> [] | Some x \<Rightarrow> [ValueItem k x]) @ field_items fs"
  by (simp_all add: field_items_def)

lemma field_items_facts [simp]:
  "raised (field_items fs) = []" "placed (field_items fs) = []"
  by (induction fs) (auto split: option.split)

lemma given_fields:
  "set (map fst (given (field_items fs))) \<subseteq> fst ` set fs"
  "distinct (map fst fs) \<Longrightarrow> distinct (map fst (given (field_items fs)))"
  "distinct (map fst fs) \<Longrightarrow> map_of (given (field_items fs)) = field_values fs"
proof -
  have keys: "k \<in> fst ` set (given (field_items fs)) \<Longrightarrow> k \<in> fst ` set fs" for k fs
  proof (induction fs)
    case (Cons f fs)
    obtain a v where f: "f = (a, v)" by force
    have "k = a \<or> k \<in> fst ` set (given (field_items fs))"
      using Cons.prems unfolding f by (cases v) simp_all
    then show ?case using Cons.IH f by (elim disjE) simp_all
  qed simp
  then show "set (map fst (given (field_items fs))) \<subseteq> fst ` set fs" by auto
  show "distinct (map fst fs) \<Longrightarrow> distinct (map fst (given (field_items fs)))"
  proof (induction fs)
    case (Cons f fs)
    obtain k v where f: "f = (k, v)" by force
    have "k \<notin> fst ` set (given (field_items fs))" using keys [of k fs] Cons.prems f by auto
    then show ?case using Cons f by (simp split: option.split)
  qed simp
  show "distinct (map fst fs) \<Longrightarrow> map_of (given (field_items fs)) = field_values fs"
  proof (induction fs)
    case (Cons f fs)
    obtain k v where f: "f = (k, v)" by force
    have "k \<notin> fst ` set (given (field_items fs))" using keys [of k fs] Cons.prems f by auto
    then have none: "map_of (given (field_items fs)) k = None" by (simp add: map_of_eq_None_iff)
    show ?case
      using Cons none f by (auto simp: field_values_def fun_eq_iff split: option.split)
  qed (simp add: field_values_def fun_eq_iff)
qed

lemma given_other [simp]:
  "given (map PositionalItem ps) = []" "raised (map PositionalItem ps) = []" "placed (map PositionalItem ps) = ps"
  by (induction ps) simp_all

lemma raised_flags [simp]:
  "given (map (\<lambda>(f, b). FlagItem f) fs) = []" "placed (map (\<lambda>(f, b). FlagItem f) fs) = []"
  "raised (map (\<lambda>(f, b). FlagItem f) fs) = map fst fs"
  by (induction fs) auto

lemma field_items_ok: "fst ` set fs \<subseteq> set vf \<Longrightarrow> list_all (item_ok vf bf) (field_items fs)"
  by (induction fs) (auto split: option.split)

lemma parse_canonical:
  assumes "closed_set vf bf" and "fst ` set fs \<subseteq> set vf" and "distinct (map fst fs)"
    and "fst ` set flags \<subseteq> set bf" and "distinct (map fst flags)" and "list_all (\<lambda>p. \<not> looks_like_option p) ps"
  shows "parse_options (tokens (canonical ps fs flags)) vf bf c =
    Inr \<lparr>po_positionals = ps, po_values = field_values fs, po_flags = {f. (f, True) \<in> set flags}\<rparr>"
proof -
  have "list_all (item_ok vf bf) (map PositionalItem ps)"
    using assms(1,6) by (auto simp: closed_set_def list_all_iff)
  moreover have "list_all (item_ok vf bf) (map (\<lambda>(f, b). FlagItem f) (filter snd flags))"
    using assms(1,4) by (auto simp: closed_set_def list_all_iff)
  ultimately have "items_ok vf bf (canonical ps fs flags)"
    using assms given_fields field_items_ok
    by (simp add: items_ok_def canonical_def distinct_map_filter)
  then have "parse_options (tokens (canonical ps fs flags)) vf bf c = Inr (collected (canonical ps fs flags))"
    by (rule parse_options_tokens)
  also have "collected (canonical ps fs flags) =
      \<lparr>po_positionals = ps, po_values = field_values fs, po_flags = {f. (f, True) \<in> set flags}\<rparr>"
    using given_fields(3) [OF assms(3)] by (force simp: collected_def canonical_def)
  finally show ?thesis .
qed

definition selector_words ::
  "InstanceSelector \<Rightarrow> (string \<times> string option) list \<Rightarrow> (string \<times> bool) list \<Rightarrow> string list" where
  "selector_words s fs flags =
     tokens (canonical (case sel_positional s of None \<Rightarrow> [] | Some p \<Rightarrow> [p])
       ((''--instance'', sel_named s) # fs) flags)"

lemma parse_selector_words:
  assumes "selector_ok s" and "closed_set (vf @ [''--instance'']) bf" and "fst ` set fs \<subseteq> set vf"
    and "distinct (''--instance'' # map fst fs)" and "fst ` set flags \<subseteq> set bf" and "distinct (map fst flags)"
  shows "selector_parts (selector_words s fs flags) vf bf c =
    Inr \<lparr>sp_positional = sel_positional s, sp_named = sel_named s, sp_values = field_values fs,
         sp_flags = {f. (f, True) \<in> set flags}\<rparr>"
proof -
  let ?fs = "(''--instance'', sel_named s) # fs"
  let ?ps = "case sel_positional s of None \<Rightarrow> [] | Some p \<Rightarrow> [p]"
  have "parse_options (selector_words s fs flags) (vf @ [''--instance'']) bf c =
      Inr \<lparr>po_positionals = ?ps, po_values = field_values ?fs, po_flags = {f. (f, True) \<in> set flags}\<rparr>"
    unfolding selector_words_def
    by (rule parse_canonical) (use assms in \<open>auto simp: selector_ok_def pred_option_iff split: option.split\<close>)
  moreover have "(field_values ?fs)(''--instance'' := None) = field_values fs"
  proof -
    have "map_of fs ''--instance'' = None" using assms(4) by (simp add: map_of_eq_None_iff)
    then show ?thesis by (auto simp: field_values_def fun_eq_iff)
  qed
  moreover have "checked_option (field_values ?fs) ''--instance'' = Inr (sel_named s)"
    using assms(1) by (simp add: checked_option_Inr_iff field_values_def selector_ok_def pred_option_iff)
  moreover have "first_positional ?ps = sel_positional s" "length ?ps \<le> 1"
    by (simp_all add: first_positional_def split: option.split)
  ultimately show ?thesis by (simp add: selector_parts_def)
qed

section \<open>A spelling of every command\<close>

definition named_path :: "string option \<Rightarrow> string list" where
  "named_path p = (case p of None \<Rightarrow> [] | Some x \<Rightarrow> [x])"

definition privilege_text :: "HostPrivilege \<Rightarrow> string" where
  "privilege_text p = (case p of Direct \<Rightarrow> ''direct'' | Sudo \<Rightarrow> ''sudo'')"

fun host_words :: "HostCommand \<Rightarrow> string list" where
  "host_words (HostAdd key profile p) =
     ''add'' # tokens (canonical [key] [(''--ssh'', Some profile), (''--privilege'', Some (privilege_text p))] [])"
| "host_words (HostList r) = ''list'' # tokens (canonical [] [] [(''--refresh'', r)])"
| "host_words (HostShow key) = [''show'', key]"
| "host_words (HostCheck key) = [''check'', key]"
| "host_words (HostForget key c) = ''forget'' # tokens (canonical [key] [] [(''--cascade'', c)])"

fun instance_words :: "InstanceCommand \<Rightarrow> string list" where
  "instance_words (InstanceList r) = ''list'' # tokens (canonical [] [] [(''--refresh'', r)])"
| "instance_words (InstanceShow s) = ''show'' # selector_words s [] []"
| "instance_words (InstanceRegister host d key) =
     ''register'' # tokens (canonical [] [(''--host'', Some host), (''--deployment-id'', Some d), (''--alias'', key)] [])"
| "instance_words (InstanceRename s key) =
     ''rename'' # tokens (canonical (named_path (sel_positional s) @ [key]) [(''--instance'', sel_named s)] [])"
| "instance_words (InstanceForget s) = ''forget'' # selector_words s [] []"
| "instance_words (InstanceRelocate s host) = ''relocate'' # selector_words s [(''--to-host'', Some host)] []"

fun controller_words :: "ControllerCommand \<Rightarrow> string list" where
  "controller_words (ControllerList s) = ''list'' # selector_words s [] []"
| "controller_words (ControllerAdd s label token file) =
     ''add'' # selector_words s [(''--label'', Some label), (''--approval-token'', token), (''--credentials-file'', file)] []"
| "controller_words (ControllerRotate s label token file) =
     ''rotate'' # selector_words s [(''--label'', label), (''--approval-token'', token), (''--credentials-file'', file)] []"
| "controller_words (ControllerRevoke s key token file) =
     ''revoke'' # selector_words \<lparr>sel_positional = Some key, sel_named = sel_named s\<rparr>
       [(''--approval-token'', token), (''--credentials-file'', file)] []"
| "controller_words (ControllerRecover s label secret turn file out) =
     ''recover'' # selector_words s [(''--label'', Some label), (''--secret-file'', secret),
       (''--output-secret-file'', out), (''--credentials-file'', file)] [(''--rotate-secret'', turn)]"

lemmas spelling = field_values_def first_positional_def closed_set_def looks_like_option_def named_path_def
  checked_option_def file_option_def approval_option_def version_option_def required_name_def

lemma closed_sets:
  "closed_set [''--ssh'', ''--privilege''] []" "closed_set [] [''--refresh'']" "closed_set [] [''--cascade'']"
  "closed_set [''--host'', ''--deployment-id'', ''--alias''] []" "closed_set [''--instance''] []"
  by (simp_all add: closed_set_def looks_like_option_def)

lemma name_plain: "name_ok p \<Longrightarrow> checked_name f p = Inr ()"
  by simp

lemma host_words_parse: "host_ok c \<Longrightarrow> parse_host_family (host_words c) = Inr c"
proof (cases c)
  case (HostAdd key profile p)
  assume "host_ok c"
  moreover have "parse_options (tokens (canonical [key] [(''--ssh'', Some profile), (''--privilege'', Some (privilege_text p))] []))
      [''--ssh'', ''--privilege''] [] ''host add'' = Inr \<lparr>po_positionals = [key],
        po_values = field_values [(''--ssh'', Some profile), (''--privilege'', Some (privilege_text p))], po_flags = {}\<rparr>"
    using \<open>host_ok c\<close> HostAdd by (subst parse_canonical) (simp_all add: closed_sets)
  ultimately show ?thesis
    using HostAdd
    by (cases p) (simp_all add: parse_host_family_def parse_host_add_def field_values_def privilege_text_def
        exactly_one_def name_plain)
qed (simp_all add: parse_host_family_def parse_canonical closed_sets exactly_one_def no_arguments_def)

end
