(* ===== verification/CliRoundTrip.thy ===== *)
theory CliRoundTrip
  imports CliPrint
begin

text \<open>
  The spelling of the remaining families, and the proof that each is read back.
\<close>

section \<open>Instances and controllers\<close>

lemma instance_words_parse:
  assumes "instance_ok c"
  shows "parse_instance (instance_words c) = Inr c"
proof (cases c)
  case (InstanceRegister host d key)
  then show ?thesis
    using assms
    by (simp add: parse_instance_def parse_register_def parse_canonical closed_sets no_arguments_def
        required_name_def field_values_def name_plain checked_option_Inr_iff rbind_Inr_iff pred_option_iff)
next
  case (InstanceRename s key)
  then have ok: "selector_ok s" "name_ok key" "\<not> looks_like_option key"
    using assms by simp_all
  have opts: "parse_options (tokens (canonical (named_path (sel_positional s) @ [key]) [(''--instance'', sel_named s)] []))
      [''--instance''] [] ''instance rename'' = Inr \<lparr>po_positionals = named_path (sel_positional s) @ [key],
        po_values = field_values [(''--instance'', sel_named s)], po_flags = {}\<rparr>"
    using ok by (subst parse_canonical)
      (auto simp: closed_sets named_path_def selector_ok_def pred_option_iff split: option.split)
  have named: "checked_option (field_values [(''--instance'', sel_named s)]) ''--instance'' = Inr (sel_named s)"
    using ok(1) by (simp add: checked_option_Inr_iff field_values_def selector_ok_def pred_option_iff)
  show ?thesis
    using assms InstanceRename ok opts named
    by (cases "sel_positional s")
       (simp_all add: parse_instance_def parse_rename_def named_path_def name_plain)
qed (use assms in \<open>simp_all add: parse_instance_def parse_canonical parse_selector_words closed_sets
      closed_set_def looks_like_option_def no_arguments_def selector_of_def field_values_def name_plain\<close>)

lemma parse_options_selector_words:
  assumes "selector_ok s" and "closed_set vf bf" and "''--instance'' \<in> set vf" and "fst ` set fs \<subseteq> set vf"
    and "distinct (''--instance'' # map fst fs)" and "fst ` set gs \<subseteq> set bf" and "distinct (map fst gs)"
  shows "\<exists>P. parse_options (selector_words s fs gs) vf bf c = Inr P \<and> length (po_positionals P) \<le> 1 \<and>
     first_positional (po_positionals P) = sel_positional s \<and>
     po_values P = field_values ((''--instance'', sel_named s) # fs) \<and> po_flags P = {f. (f, True) \<in> set gs} \<and>
     checked_option (po_values P) ''--instance'' = Inr (sel_named s)"
proof -
  let ?ps = "case sel_positional s of None \<Rightarrow> [] | Some p \<Rightarrow> [p]"
  have "parse_options (selector_words s fs gs) vf bf c =
      Inr \<lparr>po_positionals = ?ps, po_values = field_values ((''--instance'', sel_named s) # fs),
           po_flags = {f. (f, True) \<in> set gs}\<rparr>"
    unfolding selector_words_def
    by (rule parse_canonical) (use assms in \<open>auto simp: selector_ok_def pred_option_iff split: option.split\<close>)
  moreover have "checked_option (field_values ((''--instance'', sel_named s) # fs)) ''--instance'' = Inr (sel_named s)"
    using assms(1) by (simp add: checked_option_Inr_iff field_values_def selector_ok_def pred_option_iff)
  ultimately show ?thesis by (simp add: first_positional_def split: option.split)
qed

lemma parse_common_words:
  assumes "selector_ok s" and "approval_ok (field_values fs ''--approval-token'') (field_values fs ''--credentials-file'')"
    and "closed_set (vf @ [''--instance'', ''--approval-token'', ''--credentials-file'']) bf"
    and "fst ` set fs \<subseteq> set (vf @ [''--instance'', ''--approval-token'', ''--credentials-file''])"
    and "distinct (''--instance'' # map fst fs)" and "fst ` set gs \<subseteq> set bf" and "distinct (map fst gs)"
  shows "parse_common (selector_words s fs gs) vf bf c =
     Inr \<lparr>cm_selector = s, cm_approval_token = field_values fs ''--approval-token'',
          cm_credentials_file = field_values fs ''--credentials-file'',
          cm_values = (field_values ((''--instance'', sel_named s) # fs))(''--instance'' := None,
            ''--approval-token'' := None, ''--credentials-file'' := None),
          cm_flags = {f. (f, True) \<in> set gs}\<rparr>"
proof -
  obtain P where P: "parse_options (selector_words s fs gs)
      (vf @ [''--instance'', ''--approval-token'', ''--credentials-file'']) bf c = Inr P"
    "length (po_positionals P) \<le> 1" "first_positional (po_positionals P) = sel_positional s"
    "po_values P = field_values ((''--instance'', sel_named s) # fs)" "po_flags P = {f. (f, True) \<in> set gs}"
    "checked_option (po_values P) ''--instance'' = Inr (sel_named s)"
    using parse_options_selector_words [OF assms(1,3) _ assms(4-7), of c] by auto
  have other: "field_values ((''--instance'', sel_named s) # fs) k = field_values fs k" if "k \<noteq> ''--instance''" for k
    using that by (simp add: field_values_def)
  have "approval_option (po_values P) = Inr (field_values fs ''--approval-token'')"
    and "file_option (po_values P) ''--credentials-file'' = Inr (field_values fs ''--credentials-file'')"
    using assms(2) P(4) other by (auto simp: approval_option_Inr_iff file_option_Inr_iff approval_ok_def pred_option_iff)
  then show ?thesis
    using P assms(2) by (simp add: parse_common_def approval_ok_def)
qed

lemma require_label_given:
  "pred_option name_ok (vals ''--label'') \<Longrightarrow> b \<or> vals ''--label'' \<noteq> None \<Longrightarrow>
   require_label vals b = Inr (vals ''--label'')"
  by (auto simp: require_label_Inr)

lemma controller_words_parse:
  assumes "controller_ok c"
  shows "parse_controller (controller_words c) = Inr c"
proof (cases c)
  case (ControllerRevoke s key token cfile)
  then show ?thesis
    using assms
    by (cases s) (simp add: parse_controller_def parse_revoke_def parse_selector_words selector_ok_def
        closed_set_def looks_like_option_def field_values_def name_plain)
next
  case (ControllerAdd s label token cfile)
  then show ?thesis
    using assms
    by (simp add: parse_controller_def parse_add_def parse_common_words closed_set_def looks_like_option_def
        field_values_def require_label_given)
next
  case (ControllerRotate s label token cfile)
  then show ?thesis
    using assms
    by (simp add: parse_controller_def parse_rotate_def parse_common_words closed_set_def looks_like_option_def
        field_values_def require_label_given)
next
  case (ControllerRecover s label secret turn cfile out)
  have "approval_ok None cfile" using assms ControllerRecover by (simp add: approval_ok_def)
  then have common: "parse_common (tl (controller_words c)) [''--label'', ''--secret-file'', ''--output-secret-file'']
      [''--rotate-secret''] ''controller recover'' =
     Inr \<lparr>cm_selector = s, cm_approval_token = None, cm_credentials_file = cfile,
          cm_values = (field_values [(''--instance'', sel_named s), (''--label'', Some label), (''--secret-file'', secret),
            (''--output-secret-file'', out), (''--credentials-file'', cfile)])(''--instance'' := None,
            ''--approval-token'' := None, ''--credentials-file'' := None),
          cm_flags = (if turn then {''--rotate-secret''} else {})\<rparr>"
    using assms ControllerRecover
    by (simp add: parse_common_words closed_set_def looks_like_option_def field_values_def)
  have files: "file_option vals k = Inr (vals k)" if "file_ok (vals k)" for vals k
    using that by (auto simp: file_option_Inr_iff)
  show ?thesis
    using assms ControllerRecover common
    by (simp add: parse_controller_def parse_controller_recover_def Let_def field_values_def files
        require_label_given split: if_splits option.splits)
qed (use assms in \<open>simp_all add: parse_controller_def parse_selector_words closed_set_def looks_like_option_def
      selector_of_def\<close>)

end
