(* ===== verification/CliWords.thy ===== *)
theory CliWords
  imports CliPrint
begin

text \<open>
  The spelling of the instance-scoped, certificate and self commands, and \<open>command_words\<close>: one spelling of every command.
\<close>

section \<open>Spellings\<close>

definition bind_words :: "BindOptions \<Rightarrow> string list" where
  "bind_words b = selector_words (bo_selector b)
     [(''--label'', Some (bo_label b)), (''--approval-token'', bo_approval_token b),
      (''--credentials-file'', bo_credentials_file b), (''--output-secret-file'', bo_output_secret_file b)] []"

definition runtime_text :: "RuntimeBackendKind \<Rightarrow> string" where
  "runtime_text k = (case k of Podman \<Rightarrow> ''podman'' | Docker \<Rightarrow> ''docker'' | Host \<Rightarrow> ''host'')"

definition install_fields :: "InstallArgs \<Rightarrow> (string \<times> string option) list" where
  "install_fields a =
     [(''--host'', ia_host a), (''--name'', ia_name a), (''--public-url'', Some (ia_public_url a)),
      (''--to'', ia_version a), (''--runtime'', map_option runtime_text (ia_runtime a)),
      (''--install-root'', ia_install_root a), (''--direct-tls-config'', ia_direct_tls_config a),
      (''--tls-material-root'', ia_tls_material_root a), (''--database-host'', Some (ia_database_host a)),
      (''--database-port'', Some (decimal (unat (ia_database_port a)))),
      (''--database-name'', Some (ia_database_name a)),
      (''--database-runtime-user'', Some (ia_database_runtime_user a)),
      (''--database-runtime-password-file'', Some (ia_database_runtime_password_file a)),
      (''--database-lifecycle-user'', Some (ia_database_lifecycle_user a)),
      (''--database-lifecycle-password-file'', Some (ia_database_lifecycle_password_file a)),
      (''--valkey-host'', Some (ia_valkey_host a)),
      (''--valkey-port'', Some (decimal (unat (ia_valkey_port a)))),
      (''--valkey-password-file'', Some (ia_valkey_password_file a))]"

definition update_words :: "UpdateArgs \<Rightarrow> string list" where
  "update_words a = selector_words (ua_selector a)
     [(''--to'', ua_version a), (''--config-file'', ua_config_file a), (''--config-schema'', ua_config_schema a)] []"

definition backup_words :: "BackupArgs \<Rightarrow> string list" where
  "backup_words a =
     (case ba_command a of
        BackupShow \<Rightarrow> ''show'' # selector_words (ba_selector a) [] []
      | BackupSnapshot \<Rightarrow> ''snapshot'' # selector_words (ba_selector a) [] []
      | BackupRestoreTest \<Rightarrow> ''restore-test'' # selector_words (ba_selector a) [] []
      | BackupCopy host \<Rightarrow> ''copy'' # selector_words (ba_selector a) [(''--to-host'', Some host)] [])"

definition policy_words :: "PolicyArgs \<Rightarrow> string list" where
  "policy_words a = ''backup-before-update'' #
     (case pa_mode a of
        PolicyOff \<Rightarrow> ''off'' # selector_words (pa_selector a) [(''--max-age-seconds'', None)] []
      | PolicyWarn \<Rightarrow> ''warn'' # selector_words (pa_selector a) [(''--max-age-seconds'', None)] []
      | PolicyRequire n \<Rightarrow>
          ''require'' # selector_words (pa_selector a) [(''--max-age-seconds'', Some (decimal (unat n)))] [])"

definition recover_words :: "RecoverArgs \<Rightarrow> string list" where
  "recover_words a = selector_words (ra_selector a)
     [(''--to'', ra_version a), (''--recovery-secret-file'', ra_recovery_secret_file a)] []"

definition option_words :: "(string \<times> string option) list \<Rightarrow> string list" where
  "option_words fs = tokens (field_items fs)"

definition acme_words :: "AcmeCertificateInput \<Rightarrow> string list" where
  "acme_words a = [''--acme-config'', ac_acme_config a, ''--provider-config'', ac_provider_config a,
     ''--tenant'', ac_tenant a, ''--hostname'', ac_hostname a]"

definition material_words :: "TlsCertificateInput \<Rightarrow> string list" where
  "material_words a =
     (case tc_source a of
        CurrentAcmeReceipt \<Rightarrow> [''--from-acme-current'']
      | ExternalFiles certificate key \<Rightarrow> [''--certificate'', certificate, ''--private-key'', key]) @
     option_words [(''--proxy-config'', tc_proxy_config a)] @
     [''--provider-config'', tc_provider_config a, ''--tenant'', tc_tenant a, ''--hostname'', tc_hostname a]"

definition check_words :: "TlsCertificateCheckInput \<Rightarrow> string list" where
  "check_words a =
     option_words [(''--warning-window-seconds'', map_option (\<lambda>n. decimal (unat n)) (tk_warning_window_seconds a))] @
     [''--provider-config'', tk_provider_config a, ''--tenant'', tk_tenant a, ''--hostname'', tk_hostname a]"

definition binding_words :: "string \<Rightarrow> string \<Rightarrow> string list" where
  "binding_words tenant hostname = [''--tenant'', tenant, ''--hostname'', hostname]"

fun tls_words :: "TlsCommand \<Rightarrow> string list" where
  "tls_words (TlsCheck i) = ''certificate'' # ''check'' # check_words i"
| "tls_words (TlsPlan i) = ''certificate'' # ''plan'' # material_words i"
| "tls_words (TlsApply i) = ''certificate'' # ''apply'' # material_words i"
| "tls_words (TlsRecover t h) = ''certificate'' # ''recover'' # binding_words t h"
| "tls_words (TlsShow t h) = ''certificate'' # ''show'' # binding_words t h"
| "tls_words (TlsAcme (AcmePlan i)) = ''acme'' # ''plan'' # acme_words i"
| "tls_words (TlsAcme (AcmeIssue i agree)) =
     ''acme'' # ''issue'' # (if agree then [''--agree-terms''] else []) @ acme_words i"
| "tls_words (TlsAcme (AcmeRecover t h)) = ''acme'' # ''recover'' # binding_words t h"
| "tls_words (TlsAcme (AcmeShow t h)) = ''acme'' # ''show'' # binding_words t h"

definition view_words :: "InstanceSelector \<Rightarrow> bool \<Rightarrow> string list" where
  "view_words s all = selector_words s [] [(''--all'', all)]"

definition limited_words :: "InstanceSelector \<Rightarrow> nat \<Rightarrow> string list" where
  "limited_words s limit = selector_words s [(''--limit'', Some (decimal limit))] []"

fun command_words :: "cli_command \<Rightarrow> string list" where
  "command_words (CmdHost c) = ''host'' # host_words c"
| "command_words (CmdInstance c) = ''instance'' # instance_words c"
| "command_words (CmdController c) = ''controller'' # controller_words c"
| "command_words (CmdBind b) = ''bind'' # bind_words b"
| "command_words (CmdInstall a) = ''install'' # tokens (canonical [] (install_fields a) [])"
| "command_words (CmdDiscover host) = ''discover'' # tokens (canonical [] [(''--host'', host)] [])"
| "command_words (CmdVersion s all) = ''version'' # view_words s all"
| "command_words (CmdStatus s all) = ''status'' # view_words s all"
| "command_words (CmdLogs s limit) = ''logs'' # limited_words s limit"
| "command_words (CmdDoctor s all) = ''doctor'' # view_words s all"
| "command_words (CmdVerify s) = ''verify'' # view_words s False"
| "command_words (CmdUpdate a) = ''update'' # update_words a"
| "command_words (CmdRollback s) = ''rollback'' # view_words s False"
| "command_words (CmdOperation s limit) = ''operation'' # limited_words s limit"
| "command_words (CmdBackup a) = ''backup'' # backup_words a"
| "command_words (CmdPolicy a) = ''policy'' # policy_words a"
| "command_words (CmdRecover a) = ''recover'' # recover_words a"
| "command_words (CmdUninstall s yes) = ''uninstall'' # selector_words s [] [(''--yes'', yes)]"
| "command_words (CmdAdmin a) =
     ''admin'' # ''create'' # selector_words (aa_selector a) [] [(''--credentials-stdin'', aa_credentials_stdin a)]"
| "command_words (CmdTls c) = ''tls'' # tls_words c"
| "command_words CmdRemoteExec = [''remote'', ''exec'']"
| "command_words CmdRemoteTransferStream = [''remote'', ''transfer-stream'']"
| "command_words (CmdSelfCheck v) = ''self'' # ''check'' # option_words [(''--to'', v)]"
| "command_words (CmdSelfUpdate v) = ''self'' # ''update'' # option_words [(''--to'', v)]"
| "command_words CmdSelfRollback = [''self'', ''rollback'']"
| "command_words CmdSelfVerifyState = [''self'', ''verify-state'']"

end
