(* ===== verification/CliReadBack.thy ===== *)
theory CliReadBack
  imports CliRoundTrip CliWords
begin

text \<open>
  \<open>parse_command\<close> reads every well-formed command back from its words.
\<close>

section \<open>Reading them back\<close>

lemma selector_eta: "\<lparr>sel_positional = sel_positional s, sel_named = sel_named s\<rparr> = (s :: InstanceSelector)"
  by simp

lemma unat_bound: "unat (p :: 'a :: len word) < 2 ^ LENGTH('a)"
  by (rule unsigned_less)

lemma bind_words_parse:
  assumes "command_ok V (CmdBind b)"
  shows "parse_bind (bind_words b) = Inr b"
proof -
  let ?fs = "[(''--label'', Some (bo_label b)), (''--approval-token'', bo_approval_token b),
      (''--credentials-file'', bo_credentials_file b), (''--output-secret-file'', bo_output_secret_file b)]"
  obtain P where P: "parse_options (bind_words b) [''--instance'', ''--label'', ''--approval-token'',
      ''--credentials-file'', ''--output-secret-file''] [] ''bind'' = Inr P" "length (po_positionals P) \<le> 1"
    "first_positional (po_positionals P) = sel_positional (bo_selector b)"
    "po_values P = field_values ((''--instance'', sel_named (bo_selector b)) # ?fs)"
    "checked_option (po_values P) ''--instance'' = Inr (sel_named (bo_selector b))"
    using parse_options_selector_words [of "bo_selector b" "[''--instance'', ''--label'', ''--approval-token'',
      ''--credentials-file'', ''--output-secret-file'']" "[]" ?fs "[]" "''bind''"] assms
    by (auto simp: bind_words_def closed_set_def looks_like_option_def)
  have got: "po_values P ''--label'' = Some (bo_label b)" "po_values P ''--approval-token'' = bo_approval_token b"
    "po_values P ''--credentials-file'' = bo_credentials_file b"
    "po_values P ''--output-secret-file'' = bo_output_secret_file b"
    by (simp_all add: P(4) field_values_def)
  have "approval_option (po_values P) = Inr (bo_approval_token b)"
    "file_option (po_values P) ''--credentials-file'' = Inr (bo_credentials_file b)"
    "file_option (po_values P) ''--output-secret-file'' = Inr (bo_output_secret_file b)"
    using assms got
    by (auto simp: approval_option_Inr_iff file_option_Inr_iff approval_ok_def pred_option_iff)
  then show ?thesis
    using assms got P(1-3,5)
    by (auto simp add: parse_bind_def approval_ok_def selector_eta name_plain)
qed

lemma file_option_given: "file_ok (vals k) \<Longrightarrow> file_option vals k = Inr (vals k)"
  by (auto simp: file_option_Inr_iff)

lemma checked_option_given: "pred_option name_ok (vals k) \<Longrightarrow> checked_option vals k = Inr (vals k)"
  by (auto simp: checked_option_Inr_iff pred_option_iff)

lemma version_option_given: "version_ok V (vals ''--to'') \<Longrightarrow> version_option V vals = Inr (vals ''--to'')"
  by (auto simp: version_option_Inr_iff pred_option_iff)

lemma target_path_given: "pred_option target_path_ok (vals k) \<Longrightarrow> target_path vals k = Inr (vals k)"
  by (auto simp: target_path_Inr)

lemma required_file_given: "vals k = Some p \<Longrightarrow> p \<noteq> [] \<Longrightarrow> required_file vals k = Inr p"
  by (simp add: required_file_Inr)

lemma port_option_given: "vals k = Some (decimal (unat (p :: u16))) \<Longrightarrow> port_option vals k = Inr p"
  using unat_bound [of p] by (simp add: port_option_def parse_decimal)

lemma runtime_option_given: "vals ''--runtime'' = map_option runtime_text r \<Longrightarrow> runtime_option vals = Inr r"
  by (cases r) (auto simp: runtime_option_def runtime_text_def runtime_kind_from_str_def split: RuntimeBackendKind.split)

lemma install_words_parse:
  assumes "install_ok V a"
  shows "parse_install_args V (tokens (canonical [] (install_fields a) [])) = Inr a"
proof -
  have parsed: "parse_options (tokens (canonical [] (install_fields a) [])) install_value_flags [] ''install'' =
      Inr \<lparr>po_positionals = [], po_values = field_values (install_fields a), po_flags = {}\<rparr>"
    by (subst parse_canonical)
       (simp_all add: install_value_flags_def install_fields_def closed_set_def looks_like_option_def)
  let ?v = "field_values (install_fields a)"
  have got: "?v ''--host'' = ia_host a" "?v ''--name'' = ia_name a" "?v ''--public-url'' = Some (ia_public_url a)"
    "?v ''--to'' = ia_version a" "?v ''--runtime'' = map_option runtime_text (ia_runtime a)"
    "?v ''--install-root'' = ia_install_root a" "?v ''--direct-tls-config'' = ia_direct_tls_config a"
    "?v ''--tls-material-root'' = ia_tls_material_root a" "?v ''--database-host'' = Some (ia_database_host a)"
    "?v ''--database-port'' = Some (decimal (unat (ia_database_port a)))"
    "?v ''--database-name'' = Some (ia_database_name a)"
    "?v ''--database-runtime-user'' = Some (ia_database_runtime_user a)"
    "?v ''--database-runtime-password-file'' = Some (ia_database_runtime_password_file a)"
    "?v ''--database-lifecycle-user'' = Some (ia_database_lifecycle_user a)"
    "?v ''--database-lifecycle-password-file'' = Some (ia_database_lifecycle_password_file a)"
    "?v ''--valkey-host'' = Some (ia_valkey_host a)"
    "?v ''--valkey-port'' = Some (decimal (unat (ia_valkey_port a)))"
    "?v ''--valkey-password-file'' = Some (ia_valkey_password_file a)"
    by (simp_all add: field_values_def install_fields_def)
  show ?thesis
    using assms
    by (simp add: parse_install_args_def parsed no_arguments_def Let_def required_text_def got checked_option_given
        version_option_given runtime_option_given port_option_given required_file_given target_path_given install_ok_def)
qed

lemma update_words_parse:
  assumes "command_ok V (CmdUpdate a)"
  shows "parse_update_args V (update_words a) = Inr a"
proof -
  let ?fs = "[(''--to'', ua_version a), (''--config-file'', ua_config_file a), (''--config-schema'', ua_config_schema a)]"
  obtain P where P: "parse_options (update_words a) [''--instance'', ''--to'', ''--config-file'', ''--config-schema''] []
      ''update'' = Inr P" "length (po_positionals P) \<le> 1"
    "first_positional (po_positionals P) = sel_positional (ua_selector a)"
    "po_values P = field_values ((''--instance'', sel_named (ua_selector a)) # ?fs)"
    "checked_option (po_values P) ''--instance'' = Inr (sel_named (ua_selector a))"
    using parse_options_selector_words [of "ua_selector a" "[''--instance'', ''--to'', ''--config-file'', ''--config-schema'']"
      "[]" ?fs "[]" "''update''"] assms
    by (auto simp: update_words_def closed_set_def looks_like_option_def)
  have got: "po_values P ''--to'' = ua_version a" "po_values P ''--config-file'' = ua_config_file a"
    "po_values P ''--config-schema'' = ua_config_schema a"
    by (simp_all add: P(4) field_values_def)
  show ?thesis
    using assms got P(1-3,5)
    by (auto simp add: parse_update_args_def version_option_given selector_eta Let_def)
qed

lemmas family_spelling = closed_set_def looks_like_option_def selector_of_def field_values_def

lemma backup_words_parse:
  assumes "command_ok V (CmdBackup a)"
  shows "parse_backup (backup_words a) = Inr a"
  using assms
  by (cases a; cases "ba_command a"; cases "ba_selector a")
     (simp_all add: backup_words_def parse_backup_def parse_selector_words family_spelling unpositioned_def)

lemma policy_words_parse:
  assumes "command_ok V (CmdPolicy a)"
  shows "parse_policy (policy_words a) = Inr a"
  using assms
  by (cases a; cases "pa_mode a"; cases "pa_selector a")
     (simp_all add: policy_words_def parse_policy_def parse_selector_words family_spelling policy_mode_def
        parse_decimal unat_bound [of n for n :: u64, simplified])

lemma recover_words_parse:
  assumes "command_ok V (CmdRecover a)"
  shows "parse_recover V (recover_words a) = Inr a"
  using assms
  by (cases a; cases "ra_selector a")
     (auto simp: recover_words_def parse_recover_def parse_selector_words family_spelling version_option_given
        split: option.split)

lemma view_words_parse:
  assumes "selector_ok s"
  shows "parse_read_view_selector (view_words s all) c = Inr (s, all)"
    and "without_all (view_words s False) c = Inr s"
  using assms
  by (cases s; simp add: parse_read_view_selector_def without_all_def view_words_def parse_selector_words family_spelling)+

lemma limited_words_parse:
  assumes "selector_ok s" and "1 \<le> limit" and "limit \<le> m" and "m \<le> 1000"
  shows "parse_limited_selector (limited_words s limit) c n m = Inr (s, limit)"
proof -
  have "parse_unsigned 64 (decimal limit) = Some limit" using assms by (intro parse_decimal) simp
  then show ?thesis
    using assms
    by (cases s) (simp add: parse_limited_selector_def limited_words_def parse_selector_words family_spelling)
qed

lemma uninstall_words_parse:
  "selector_ok s \<Longrightarrow> parse_confirm_scoped (selector_words s [] [(''--yes'', yes)]) [''--yes''] c = Inr (s, yes)"
  by (cases s) (simp add: parse_confirm_scoped_def parse_selector_words family_spelling)

lemma admin_words_parse:
  assumes "selector_ok (aa_selector a)"
  shows "parse_admin (''create'' # selector_words (aa_selector a) [] [(''--credentials-stdin'', aa_credentials_stdin a)]) = Inr a"
  using assms
  by (cases a; cases "aa_selector a") (simp add: parse_admin_def parse_selector_words family_spelling)

lemma discover_words_parse: "parse_discover (tokens (canonical [] [(''--host'', host)] [])) = Inr host"
  by (simp add: parse_discover_def parse_canonical family_spelling no_arguments_def)

lemma version_words_parse: "version_ok V v \<Longrightarrow> parse_version_option V (option_words [(''--to'', v)]) = Inr v"
  by (cases v) (simp_all add: option_words_def parse_version_option_def validate_version_def)

section \<open>Certificates\<close>

lemmas tls_loops = binding_option_def provider_option_def provider_options_def check_option_def
  acme_option_def material_option_def set_once_def no_slots_def

lemma binding_words_parse: "parse_binding (binding_words t h) c = Inr (t, h)"
  by (simp add: parse_binding_def binding_words_def tls_loops)

lemma acme_words_parse:
  "parse_acme_input ((if agree then [''--agree-terms''] else []) @ acme_words i) True = Inr (i, agree)"
  "parse_acme_input (acme_words i) False = Inr (i, False)"
  by (cases i; simp add: parse_acme_input_def acme_words_def tls_loops)+

lemma material_words_parse: "parse_material_input (material_words i) = Inr i"
  by (cases i; cases "tc_source i"; cases "tc_proxy_config i")
     (simp_all add: parse_material_input_def material_words_def option_words_def material_source_def tls_loops)

lemma check_words_parse: "parse_check_input (check_words i) = Inr i"
  by (cases i; cases "tk_warning_window_seconds i")
     (simp_all add: parse_check_input_def check_words_def option_words_def tls_loops
        parse_decimal unat_bound [of n for n :: u64, simplified])

lemma tls_words_parse: "parse_tls (tls_words c) = Inr c"
  by (cases c rule: tls_words.cases)
     (simp_all add: parse_tls_def parse_certificate_def parse_acme_def binding_words_parse acme_words_parse
        material_words_parse check_words_parse)

section \<open>Every command\<close>

lemmas family_words_parse = host_words_parse instance_words_parse controller_words_parse bind_words_parse
  install_words_parse discover_words_parse view_words_parse limited_words_parse update_words_parse
  backup_words_parse policy_words_parse recover_words_parse uninstall_words_parse admin_words_parse
  tls_words_parse version_words_parse

lemma parse_command_words:
  assumes "command_ok V c"
  shows "parse_command V (hd (command_words c)) (tl (command_words c)) = Inr c"
  using assms
  by (cases c)
     (simp_all add: parse_command_def family_words_parse parse_self_def parse_remote_def no_arguments_def
        del: host_words.simps instance_words.simps controller_words.simps tls_words.simps)

section \<open>Global options\<close>

definition global_words :: "string option \<Rightarrow> bool \<Rightarrow> string list" where
  "global_words inst json =
     (case inst of None \<Rightarrow> [] | Some v \<Rightarrow> [''--instance'', v]) @ (if json then [''--json''] else [])"

lemma command_words_head:
  "command_words c \<noteq> []" "hd (command_words c) \<notin> {''--instance'', ''--json''}"
  by (cases c; simp)+

lemma global_words_read:
  assumes "inst \<noteq> Some []"
  shows "parse_global_options (global_words inst json @ command_words c) =
    Inr \<lparr>go_instance = inst, go_json = json, go_consumed = length (global_words inst json)\<rparr>"
proof -
  obtain w ws where "command_words c = w # ws" "w \<noteq> ''--instance''" "w \<noteq> ''--json''"
    using command_words_head [of c] by (cases "command_words c") auto
  then show ?thesis
    using assms by (auto simp: parse_global_options_def global_words_def split: option.split)
qed

lemma Cli_parse_words:
  assumes "command_ok V c" and "inst \<noteq> Some []"
    and g: "parse_global_options (global_words inst json @ command_words c) = Inr g"
  shows "Cli_parse V (program # global_words inst json @ command_words c) g =
    Inr (Some \<lparr>cli_instance = inst, cli_json = json, cli_command = c\<rparr>)"
proof -
  have g': "g = \<lparr>go_instance = inst, go_json = json, go_consumed = length (global_words inst json)\<rparr>"
    using g global_words_read [OF assms(2)] by simp
  obtain w ws where w: "command_words c = w # ws" using command_words_head(1) by (cases "command_words c") auto
  then have "parse_command V w ws = Inr c" using parse_command_words [OF assms(1)] by simp
  then show ?thesis by (simp add: Cli_parse_def g' w)
qed

end
