(* ===== verification/CliProperties.thy ===== *)
theory CliProperties
  imports CliReadBack
begin

text \<open>
  What the command line guarantees: the options it accepts, the commands it can produce, that every
  one of them can be written, and that an invocation names its instance once.
\<close>

section \<open>Options\<close>

lemma parsed_command_ok: "Cli_parse V args g = Inr (Some cli) \<Longrightarrow> cli_command cli = c \<Longrightarrow> command_ok V c"
  by (auto simp: Cli_parse_def rbind_Inr_iff dest: parse_command_ok split: list.splits if_splits)

text \<open>C30: parse_options accepts exactly the token lists that are a sequence of items of the closed
  option set (a declared value flag with its value, a declared boolean flag, or an argument that is
  not spelled like an option), no flag occurring twice, and returns the arguments in order, the value
  of each value flag and the set of the boolean flags.\<close>

theorem options_follow_the_grammar:
  "parse_options ts vf bf c = Inr P \<longleftrightarrow> (\<exists>items. ts = tokens items \<and> items_ok vf bf items \<and> P = collected items)"
  by (blast elim: parse_options_Inr intro: parse_options_tokens)

text \<open>C29: The commands Cli::parse returns are exactly the well-formed ones of command_ok, and the
  global options are passed through. In a well-formed command the name of --instance, of --label, of
  host add and instance register, rename and relocate, of the install options --host and --name and
  the controller id of revoke is bounded and free of control characters; version tags are semantic;
  an approval token is bounded and never given beside a credentials file for controller add, rotate
  and bind; paired options come in pairs, database roles are distinct and limits are in range. The
  parser checks nothing more, so the set also holds what it lets through: controller revoke takes any
  token, beside a credentials file too, and the names of host show, check and forget, of discover
  --host and of backup copy --to-host are of any length.\<close>

theorem parsed_commands_are_well_formed:
  "((\<exists>args g cli. Cli_parse V args g = Inr (Some cli) \<and> cli_command cli = c) \<longleftrightarrow> command_ok V c)
   \<and> (Cli_parse V args g = Inr (Some cli) \<longrightarrow>
        cli_instance cli = go_instance g \<and> cli_json cli = go_json g)"
proof (intro conjI iffI impI)
  assume "\<exists>args g cli. Cli_parse V args g = Inr (Some cli) \<and> cli_command cli = c"
  then obtain args g cli where "Cli_parse V args g = Inr (Some cli)" "cli_command cli = c"
    by (elim exE conjE)
  then show "command_ok V c" by (rule parsed_command_ok)
next
  assume ok: "command_ok V c"
  have "parse_global_options (global_words None False @ command_words c)
      = Inr \<lparr>go_instance = None, go_json = False, go_consumed = length (global_words None False)\<rparr>"
    by (rule global_words_read) simp
  note parsed = Cli_parse_words [OF ok _ this, of "''nazoauthctl''", simplified]
  show "\<exists>args g cli. Cli_parse V args g = Inr (Some cli) \<and> cli_command cli = c"
    by (intro exI conjI, rule parsed) simp
qed (auto simp: Cli_parse_def rbind_Inr_iff split: list.splits if_splits)

theorem parsed_commands_are_well_formed_witness:
  "(\<exists>args g cli. Cli_parse Some args g = Inr (Some cli) \<and> cli_command cli =
      CmdController (ControllerRevoke \<lparr>sel_positional = None, sel_named = None\<rparr> ''c1'' (Some []) (Some ''f'')))
   \<and> \<not> (\<exists>args g cli. Cli_parse Some args g = Inr (Some cli) \<and> cli_command cli =
      CmdController (ControllerAdd \<lparr>sel_positional = None, sel_named = None\<rparr> ''ops'' (Some ''t'') (Some ''f'')))
   \<and> (\<exists>cli. Cli_parse Some [''ctl'', ''--json'', ''uninstall'', ''site'', ''--yes'']
          \<lparr>go_instance = None, go_json = True, go_consumed = 1\<rparr> = Inr (Some cli) \<and> cli_json cli)"
proof -
  have parsed: "Cli_parse Some [''ctl'', ''--json'', ''uninstall'', ''site'', ''--yes'']
      \<lparr>go_instance = None, go_json = True, go_consumed = 1\<rparr> =
    Inr (Some \<lparr>cli_instance = None, cli_json = True,
      cli_command = CmdUninstall \<lparr>sel_positional = Some ''site'', sel_named = None\<rparr> True\<rparr>)"
    by (simp add: Cli_parse_def parse_command_def parse_confirm_scoped_def selector_parts_def parse_options_def
        no_options_def looks_like_option_def checked_option_def first_positional_def selector_of_def)
  have revoke: "command_ok Some (CmdController (ControllerRevoke \<lparr>sel_positional = None, sel_named = None\<rparr>
      ''c1'' (Some []) (Some ''f'')))"
    by (simp add: selector_ok_def name_ok_def looks_like_option_def is_c0_def in_range_def)
  have add: "\<not> command_ok Some (CmdController (ControllerAdd \<lparr>sel_positional = None, sel_named = None\<rparr>
      ''ops'' (Some ''t'') (Some ''f'')))" by (simp add: approval_ok_def)
  show ?thesis
    using parsed_commands_are_well_formed [THEN conjunct1, of Some] revoke add parsed
      parsed_commands_are_well_formed [THEN conjunct2, THEN mp, OF parsed] by simp
qed

text \<open>C28: Every well-formed command can be written, and is read back: the global options followed by
  the command's spelling parse to exactly that command with those global options, for every command
  of every family.\<close>

theorem commands_read_back:
  assumes "command_ok V c" and "inst \<noteq> Some []"
    and "parse_global_options (global_words inst json @ command_words c) = Inr g"
  shows "Cli_parse V (program # global_words inst json @ command_words c) g =
    Inr (Some \<lparr>cli_instance = inst, cli_json = json, cli_command = c\<rparr>)"
  using assms by (rule Cli_parse_words)

theorem commands_read_back_witness:
  "Cli_parse Some [''ctl'', ''--instance'', ''site'', ''--json'', ''policy'', ''backup-before-update'', ''require'',
      ''--max-age-seconds'', ''3600''] \<lparr>go_instance = Some ''site'', go_json = True, go_consumed = 3\<rparr> =
    Inr (Some \<lparr>cli_instance = Some ''site'', cli_json = True,
      cli_command = CmdPolicy \<lparr>pa_selector = \<lparr>sel_positional = None, sel_named = None\<rparr>, pa_mode = PolicyRequire 3600\<rparr>\<rparr>)"
proof -
  let ?c = "CmdPolicy \<lparr>pa_selector = \<lparr>sel_positional = None, sel_named = None\<rparr>, pa_mode = PolicyRequire 3600\<rparr>"
  have digits: "decimal 3600 = ''3600''" by (simp add: decimal.simps char_of_def bit_0)
  have words: "global_words (Some ''site'') True @ command_words ?c = [''--instance'', ''site'', ''--json'', ''policy'',
      ''backup-before-update'', ''require'', ''--max-age-seconds'', ''3600'']"
    by (simp add: global_words_def policy_words_def selector_words_def canonical_def digits)
  have "command_ok Some ?c"
    by (simp add: selector_ok_def BackupBeforeUpdatePolicy_validate_def)
  moreover have "Some ''site'' \<noteq> Some []" by simp
  moreover have "parse_global_options (global_words (Some ''site'') True @ command_words ?c) =
      Inr \<lparr>go_instance = Some ''site'', go_json = True, go_consumed = 3\<rparr>"
    unfolding words by (simp add: parse_global_options_def)
  ultimately have "Cli_parse Some (''ctl'' # global_words (Some ''site'') True @ command_words ?c)
      \<lparr>go_instance = Some ''site'', go_json = True, go_consumed = 3\<rparr> =
    Inr (Some \<lparr>cli_instance = Some ''site'', cli_json = True, cli_command = ?c\<rparr>)"
    by (rule commands_read_back)
  then show ?thesis unfolding words .
qed

section \<open>Selectors\<close>

text \<open>An invocation names its instance at most once: merge_global succeeds exactly when at most
  one of the global --instance, the positional selector and the command's own --instance is
  given, and then returns that one.\<close>

theorem instance_is_named_once:
  "merge_global s global action = Inr r \<longleftrightarrow>
     (\<exists>given. filter (\<lambda>x. x \<noteq> None) [global, sel_positional s, sel_named s] = given \<and> length given \<le> 1 \<and>
        r = (case given of [] \<Rightarrow> None | x # _ \<Rightarrow> x))"
  by (auto simp: merge_global_def explicit_def rbind_Inr_iff split: option.split)

end
