(* ===== verification/TransferJournal.thy ===== *)
theory TransferJournal
  imports KeyStore Wire
begin

text \<open>
  The controller's pointer for one off-host backup transfer
  (\<open>src/src/controller/transfer_journal.rs\<close>): the record, its validation, and the file that holds
  it. Fresh operation ids are arguments. The lock is held from \<open>open\<close> on, so the operations here
  run alone. \<open>sz\<close> is the length of a record's JSON text.
\<close>

section \<open>Records\<close>

datatype TransferPhase =
    SourcePrepare
  | DestinationPrepare
  | Copying
  | Finalize
  | RecordSourceReceipt
  | CleanupSource
  | CleanupDestination

record BackupTransferPlan =
  tp_operation_id :: string
  tp_deployment_id :: string
  tp_manifest_sha256 :: string
  tp_files :: "SnapshotFile list"

record CopyCursor =
  cc_file_index :: nat
  cc_offset :: u64
  cc_read_operation_id :: string
  cc_write_operation_id :: string

record TransferRecord =
  tr_schema :: nat
  tr_deployment_id :: string
  tr_source_host_id :: string
  tr_destination_host_id :: string
  tr_destination_alias :: string
  tr_transfer_operation_id :: string
  tr_phase :: TransferPhase
  tr_source_plan :: "BackupTransferPlan option"
  tr_cursor :: "CopyCursor option"
  tr_finalize_operation_id :: string
  tr_source_receipt_operation_id :: string
  tr_source_cleanup_operation_id :: string
  tr_destination_cleanup_operation_id :: string
  tr_receipt :: "OffHostCopyReceipt option"

definition TRANSFER_SCHEMA :: nat where "TRANSFER_SCHEMA = 1"
definition MAX_TRANSFER_BYTES :: nat where "MAX_TRANSFER_BYTES = 64 * 1024"

text \<open>The five ids \<open>TransferRecord::new\<close> draws.\<close>

record transfer_ids =
  ti_transfer :: string
  ti_finalize :: string
  ti_source_receipt :: string
  ti_source_cleanup :: string
  ti_destination_cleanup :: string

definition TransferRecord_new ::
  "transfer_ids \<Rightarrow> string \<Rightarrow> string \<Rightarrow> string \<Rightarrow> string \<Rightarrow> TransferRecord" where
  "TransferRecord_new ids deployment_id source_host_id destination_host_id destination_alias =
     \<lparr>tr_schema = TRANSFER_SCHEMA, tr_deployment_id = deployment_id,
      tr_source_host_id = source_host_id, tr_destination_host_id = destination_host_id,
      tr_destination_alias = destination_alias, tr_transfer_operation_id = ti_transfer ids,
      tr_phase = SourcePrepare, tr_source_plan = None, tr_cursor = None,
      tr_finalize_operation_id = ti_finalize ids,
      tr_source_receipt_operation_id = ti_source_receipt ids,
      tr_source_cleanup_operation_id = ti_source_cleanup ids,
      tr_destination_cleanup_operation_id = ti_destination_cleanup ids, tr_receipt = None\<rparr>"

definition reset_cursor :: "string \<Rightarrow> string \<Rightarrow> nat \<Rightarrow> u64 \<Rightarrow> TransferRecord \<Rightarrow> TransferRecord" where
  "reset_cursor read_id write_id file_index offset r =
     r\<lparr>tr_cursor := Some \<lparr>cc_file_index = file_index, cc_offset = offset,
        cc_read_operation_id = read_id, cc_write_operation_id = write_id\<rparr>\<rparr>"

section \<open>Validation\<close>

datatype transfer_fault =
    TransferSchema
  | TransferIdentifier violation
  | TransferSameHost
  | TransferOperationId
  | TransferPlanRule
  | TransferCursorIds
  | TransferCursorWithoutPlan
  | TransferCursorRange
  | TransferPhaseState

definition valid_sha256 :: "string \<Rightarrow> bool" where
  "valid_sha256 v \<longleftrightarrow> length v = 64 \<and> list_all (\<lambda>b. is_hexdigit b \<and> \<not> is_upper b) v"

definition plan_bound :: "TransferRecord \<Rightarrow> BackupTransferPlan \<Rightarrow> bool" where
  "plan_bound r plan \<longleftrightarrow>
     \<not> (tp_operation_id plan \<noteq> tr_transfer_operation_id r \<or> tp_deployment_id plan \<noteq> tr_deployment_id r
        \<or> \<not> valid_sha256 (tp_manifest_sha256 plan) \<or> tp_files plan = [])"

definition check_cursor :: "externals \<Rightarrow> TransferRecord \<Rightarrow> CopyCursor \<Rightarrow> transfer_fault + unit" where
  "check_cursor X r c =
     (if \<not> is_uuid_v7 X (cc_read_operation_id c) \<or> \<not> is_uuid_v7 X (cc_write_operation_id c)
      then Inl TransferCursorIds
      else case tr_source_plan r of
          None \<Rightarrow> Inl TransferCursorWithoutPlan
        | Some plan \<Rightarrow>
            if length (tp_files plan) \<le> cc_file_index c
               \<or> sf_size (tp_files plan ! cc_file_index c) \<le> cc_offset c
            then Inl TransferCursorRange else Inr ())"

definition phase_consistent :: "TransferRecord \<Rightarrow> bool" where
  "phase_consistent r =
     (case tr_phase r of
        SourcePrepare \<Rightarrow> \<not> (tr_source_plan r \<noteq> None \<or> tr_cursor r \<noteq> None \<or> tr_receipt r \<noteq> None)
      | DestinationPrepare \<Rightarrow> \<not> (tr_source_plan r = None \<or> tr_cursor r \<noteq> None \<or> tr_receipt r \<noteq> None)
      | Copying \<Rightarrow> \<not> (tr_source_plan r = None \<or> tr_cursor r = None \<or> tr_receipt r \<noteq> None)
      | Finalize \<Rightarrow> \<not> (tr_source_plan r = None \<or> tr_cursor r \<noteq> None \<or> tr_receipt r \<noteq> None)
      | _ \<Rightarrow> \<not> (tr_source_plan r = None \<or> tr_cursor r \<noteq> None \<or> tr_receipt r = None))"

definition validate_transfer :: "externals \<Rightarrow> TransferRecord \<Rightarrow> transfer_fault + unit" where
  "validate_transfer X r = first_error
     [require (tr_schema r = TRANSFER_SCHEMA) TransferSchema,
      map_err TransferIdentifier (validate_identifier (tr_deployment_id r) 128 ''backup transfer deployment id''),
      map_err TransferIdentifier (validate_identifier (tr_source_host_id r) 128 ''backup transfer source host id''),
      map_err TransferIdentifier (validate_identifier (tr_destination_host_id r) 128 ''backup transfer destination host id''),
      map_err TransferIdentifier (validate_identifier (tr_destination_alias r) 128 ''backup destination host alias''),
      require (tr_source_host_id r \<noteq> tr_destination_host_id r) TransferSameHost,
      require (list_all (is_uuid_v7 X)
        [tr_transfer_operation_id r, tr_finalize_operation_id r, tr_source_receipt_operation_id r,
         tr_source_cleanup_operation_id r, tr_destination_cleanup_operation_id r]) TransferOperationId,
      on_some (tr_source_plan r) (\<lambda>plan. require (plan_bound r plan) TransferPlanRule),
      on_some (tr_cursor r) (check_cursor X r),
      require (phase_consistent r) TransferPhaseState]"

section \<open>The journal file\<close>

datatype transfer_error =
    TransferUnsafe
  | TransferUnparsable
  | TransferInvalid transfer_fault
  | TransferTooLarge
  | TransferNotPersisted
  | TransferNotCleared
  | TransferUnreachable
  | TransferRefused string
  | TransferUnexpected
  | TransferMismatch
  | TransferStateMissing
  | TransferOffsetOverflow
  | TransferReceiptUnbound
  | TransferSnapshotId violation
  | TransferInterrupted
  | TransferHostUnknown
  | TransferHostSame
  | TransferOtherBinding
  | TransferRegistry
  | TransferInstanceGone
  | TransferHostChanged
  | TransferUninstallPending

type_synonym transfer_slot = "TransferRecord record_file option"

definition load_transfer :: "externals \<Rightarrow> transfer_slot \<Rightarrow> transfer_error + TransferRecord option" where
  "load_transfer X path =
     (case path of
        None \<Rightarrow> Inr None
      | Some Unsafe \<Rightarrow> Inl TransferUnsafe
      | Some Unparsable \<Rightarrow> Inl TransferUnparsable
      | Some (Record r) \<Rightarrow> rbind (map_err TransferInvalid (validate_transfer X r)) (\<lambda>_. Inr (Some r)))"

definition store_transfer ::
  "externals \<Rightarrow> (TransferRecord \<Rightarrow> nat) \<Rightarrow> commit \<Rightarrow> TransferRecord \<Rightarrow> transfer_slot
   \<Rightarrow> (transfer_error + unit) \<times> transfer_slot" where
  "store_transfer X sz outcome r path =
     (case validate_transfer X r of
        Inl e \<Rightarrow> (Inl (TransferInvalid e), path)
      | Inr _ \<Rightarrow>
          if MAX_TRANSFER_BYTES < sz r then (Inl TransferTooLarge, path)
          else case put_one outcome (Record r) path of
            (ok, path') \<Rightarrow> (require ok TransferNotPersisted, path'))"

definition clear_transfer :: "commit \<Rightarrow> transfer_slot \<Rightarrow> (transfer_error + unit) \<times> transfer_slot" where
  "clear_transfer outcome path =
     (case drop_one outcome path of (ok, path') \<Rightarrow> (require ok TransferNotCleared, path'))"

section \<open>Facts\<close>

lemma check_cursor_Inr: "check_cursor X r c = Inr () \<longleftrightarrow>
    is_uuid_v7 X (cc_read_operation_id c) \<and> is_uuid_v7 X (cc_write_operation_id c) \<and>
    (\<exists>plan. tr_source_plan r = Some plan \<and> cc_file_index c < length (tp_files plan) \<and>
       cc_offset c < sf_size (tp_files plan ! cc_file_index c))"
  by (auto simp: check_cursor_def not_le split: option.split)

lemma store_transfer_cases:
  obtains (stored) path' where "store_transfer X sz outcome r path = (Inr (), path')"
      "validate_transfer X r = Inr ()" "path' = Some (Record r)"
  | (failed) e path' where "store_transfer X sz outcome r path = (Inl e, path')" "path' = path"
  | (unsynced) e path' where "store_transfer X sz outcome r path = (Inl e, path')"
      "validate_transfer X r = Inr ()" "path' = Some (Record r)"
  by (cases outcome; cases "validate_transfer X r"; cases "MAX_TRANSFER_BYTES < sz r")
     (auto simp: store_transfer_def put_one_def)

lemma load_stored: "validate_transfer X r = Inr () \<Longrightarrow> load_transfer X (Some (Record r)) = Inr (Some r)"
  by (simp add: load_transfer_def)

end
