(* ===== verification/TransferTarget.thy ===== *)
theory TransferTarget
  imports Journal TransferJournal
begin

text \<open>
  The target's half of an off-host transfer (\<open>src/src/target/backup_exec.rs\<close>, its dispatch and
  journal in \<open>src/src/target/mod.rs\<close> and \<open>journal.rs\<close>): the export and import directories of one
  deployment scope, the published snapshots, and the handlers that move bytes between them.

  A directory is a map from file names to entries, a regular file its bytes. A hard link shares
  the bytes of a snapshot file, which nothing writes again. The JSON codec of a manifest and the
  SHA-256 of a file are parameters; what the environment decides for one call is \<open>handler_env\<close>.
\<close>

section \<open>One deployment scope\<close>

datatype file_entry = Regular string | Irregular

type_synonym tree = "string \<rightharpoonup> file_entry"

datatype transfer_body =
    TransferPrepared BackupTransferPlan
  | TransferChunk transfer_write
  | TransferWritten
  | ImportFinalized OffHostCopyReceipt
  | OffHostRecorded
  | TransferCleaned
  | OtherCompletion

text \<open>
  \<open>bs_target_id\<close> is what \<open>target_identity\<close> answers, \<open>bs_state\<close> what \<open>load_existing\<close> answers (the code
  of its failure otherwise). \<open>bs_answered\<close> holds the terminal lines of the scope's journal.
\<close>

record backup_side =
  bs_target_id :: "string option"
  bs_state :: "string + DeploymentState"
  bs_evidence :: scope_dir
  bs_snapshots :: "string \<rightharpoonup> tree"
  bs_exports :: "string \<rightharpoonup> tree"
  bs_imports :: "string \<rightharpoonup> tree"
  bs_bindings :: "string \<rightharpoonup> file_entry"
  bs_answered :: "string \<rightharpoonup> HostOperation \<times> transfer_body HostResult"

record backup_codec =
  bk_externals :: externals
  bk_hash :: "SnapshotManifest \<Rightarrow> string"
  bk_json :: "SnapshotManifest \<Rightarrow> string"
  bk_parse :: "string \<Rightarrow> SnapshotManifest option"
  bk_parse_files :: "string \<Rightarrow> SnapshotFile list option"
  bk_sha256 :: "string \<Rightarrow> string"
  bk_receipt_json :: "OffHostCopyReceipt \<Rightarrow> string"
  bk_size :: "evidence \<Rightarrow> nat"
  bk_b64url :: "string \<Rightarrow> string option"

text \<open>
  What one handler meets: reads and hashing, \<open>remove_dir_all\<close> (\<open>Some kept\<close> where it fails with
  those entries left), directory creation, how many hard links succeed, the outcome of each
  durable write, how much of a chunk is appended (\<open>None\<close> for all of it, synced), and the clock.
\<close>

record handler_env =
  he_reads :: bool
  he_remove :: "string set option"
  he_directory :: bool
  he_links :: nat
  he_manifest :: commit
  he_verifies :: bool
  he_append :: "nat option"
  he_rename :: commit
  he_file :: commit
  he_receipt :: commit
  he_unlink :: commit
  he_remove_2 :: "string set option"
  he_now :: time

definition BACKUP_EXECUTION_FAILED :: string where "BACKUP_EXECUTION_FAILED = ''BACKUP_EXECUTION_FAILED''"
definition HOST_ERR_OPERATION_INVALID :: string where "HOST_ERR_OPERATION_INVALID = ''OPERATION_INVALID''"
definition IMMUTABLE_MANIFEST_FILE :: string where "IMMUTABLE_MANIFEST_FILE = ''snapshot-manifest.json''"
definition MAX_SNAPSHOT_FILE_BYTES :: nat where "MAX_SNAPSHOT_FILE_BYTES = 64 * 1024 * 1024 * 1024"
definition SNAPSHOT_NAMES :: "string list" where "SNAPSHOT_NAMES = [''postgresql.dump'', ''deployment.tar'']"

abbreviation refused :: "string + 'a" where "refused \<equiv> Inl BACKUP_EXECUTION_FAILED"

section \<open>Files\<close>

definition entries :: "tree option \<Rightarrow> tree" where
  "entries d = (case d of None \<Rightarrow> Map.empty | Some t \<Rightarrow> t)"

definition remove_tree :: "string set option \<Rightarrow> string \<Rightarrow> (string \<rightharpoonup> tree) \<Rightarrow> bool \<times> (string \<rightharpoonup> tree)" where
  "remove_tree outcome name dirs =
     (case dirs name of
        None \<Rightarrow> (True, dirs)
      | Some t \<Rightarrow>
          (case outcome of
             None \<Rightarrow> (True, dirs(name := None))
           | Some kept \<Rightarrow> (False, dirs(name \<mapsto> t |` kept))))"

text \<open>\<open>load_evidence\<close> on one entry, with the manifest's parser and validation.\<close>

definition load_manifest_at :: "backup_codec \<Rightarrow> bool \<Rightarrow> file_entry option \<Rightarrow> string + SnapshotManifest option" where
  "load_manifest_at K reads entry =
     (case entry of
        None \<Rightarrow> Inr None
      | Some Irregular \<Rightarrow> refused
      | Some (Regular bytes) \<Rightarrow>
          if \<not> reads \<or> MAX_BACKUP_EVIDENCE_BYTES < length bytes then refused
          else case bk_parse K bytes of
              None \<Rightarrow> refused
            | Some m \<Rightarrow>
                (case SnapshotManifest_validate (bk_externals K) (bk_hash K) m of
                   Inl _ \<Rightarrow> refused | Inr _ \<Rightarrow> Inr (Some m)))"

definition write_manifest_at ::
  "backup_codec \<Rightarrow> commit \<Rightarrow> string \<Rightarrow> SnapshotManifest \<Rightarrow> (string \<rightharpoonup> file_entry) \<Rightarrow> bool \<times> (string \<rightharpoonup> file_entry)" where
  "write_manifest_at K outcome name m files =
     (if MAX_BACKUP_EVIDENCE_BYTES < length (bk_json K m) \<or> files name = Some Irregular then (False, files)
      else atomic_write outcome name (Regular (bk_json K m)) files)"

definition verify_file :: "backup_codec \<Rightarrow> tree \<Rightarrow> SnapshotFile \<Rightarrow> bool" where
  "verify_file K root expected \<longleftrightarrow>
     (case root (sf_path expected) of
        Some (Regular bytes) \<Rightarrow>
          \<not> (length bytes \<noteq> unat (sf_size expected) \<or> bk_sha256 K bytes \<noteq> sf_sha256 expected)
      | _ \<Rightarrow> False)"

definition verify_snapshot_files :: "backup_codec \<Rightarrow> tree \<Rightarrow> SnapshotManifest \<Rightarrow> bool" where
  "verify_snapshot_files K root m \<longleftrightarrow>
     list_all (\<lambda>f. sf_path f \<in> set SNAPSHOT_NAMES) (sm_files m) \<and> list_all (verify_file K root) (sm_files m)"

definition snapshot_file :: "backup_codec \<Rightarrow> string \<Rightarrow> tree \<Rightarrow> SnapshotFile option" where
  "snapshot_file K name root =
     (case root name of
        Some (Regular bytes) \<Rightarrow>
          if MAX_SNAPSHOT_FILE_BYTES < length bytes then None
          else Some \<lparr>sf_path = name, sf_size = of_nat (length bytes), sf_sha256 = bk_sha256 K bytes\<rparr>
      | _ \<Rightarrow> None)"

fun link_files :: "nat \<Rightarrow> string list \<Rightarrow> tree \<Rightarrow> tree \<Rightarrow> bool \<times> tree" where
  "link_files n [] src t = (True, t)"
| "link_files 0 (name # names) src t = (False, t)"
| "link_files (Suc n) (name # names) src t =
     (case src name of None \<Rightarrow> (False, t) | Some e \<Rightarrow> link_files n names src (t(name \<mapsto> e)))"

section \<open>The handlers\<close>

text \<open>\<open>Uuid::parse_str\<close>, printed again: the name every directory of the transfer is built from.\<close>

definition transfer_name :: "backup_codec \<Rightarrow> string \<Rightarrow> string + string" where
  "transfer_name K operation_id =
     (if uuid_version (bk_externals K) operation_id = None then Inl HOST_ERR_OPERATION_INVALID
      else Inr (uuid_text (bk_externals K) operation_id))"

definition load_latest :: "backup_codec \<Rightarrow> bool \<Rightarrow> backup_side \<Rightarrow> string + SnapshotManifest option" where
  "load_latest K reads side =
     (if \<not> reads \<and> bs_evidence side manifest_path \<noteq> None then refused
      else map_err (\<lambda>_. BACKUP_EXECUTION_FAILED)
        (load_manifest (bk_externals K) (bk_hash K) (bs_evidence side)))"

definition fill_export ::
  "backup_codec \<Rightarrow> handler_env \<Rightarrow> SnapshotManifest \<Rightarrow> string \<Rightarrow> backup_side
   \<Rightarrow> (string + SnapshotFile list) \<times> backup_side" where
  "fill_export K E m operation side =
     (case link_files (he_links E) SNAPSHOT_NAMES (entries (bs_snapshots side (sm_snapshot_id m))) Map.empty of
        (linked, t) \<Rightarrow>
          if \<not> linked then (refused, side\<lparr>bs_exports := (bs_exports side)(operation \<mapsto> t)\<rparr>)
          else case write_manifest_at K (he_manifest E) IMMUTABLE_MANIFEST_FILE m t of
              (written, t') \<Rightarrow>
                let side' = side\<lparr>bs_exports := (bs_exports side)(operation \<mapsto> t')\<rparr>
                in if \<not> written \<or> \<not> he_verifies E \<or> \<not> verify_snapshot_files K t' m then (refused, side')
                   else case snapshot_file K IMMUTABLE_MANIFEST_FILE t' of
                       None \<Rightarrow> (refused, side')
                     | Some f \<Rightarrow> (Inr (sort_key sf_path (sm_files m @ [f])), side'))"

definition prepare_export ::
  "backup_codec \<Rightarrow> handler_env \<Rightarrow> DeploymentState \<Rightarrow> string \<Rightarrow> backup_side
   \<Rightarrow> (string + BackupTransferPlan) \<times> backup_side" where
  "prepare_export K E state operation_id side =
     attempt (transfer_name K operation_id) side (\<lambda>operation.
       attempt (load_latest K (he_reads E) side) side (\<lambda>latest.
         case latest of
           None \<Rightarrow> (refused, side)
         | Some m \<Rightarrow>
             if sm_deployment_id m \<noteq> ds_deployment_id state then (refused, side)
             else case remove_tree (he_remove E) operation (bs_exports side) of
                 (removed, exports) \<Rightarrow>
                   let side' = side\<lparr>bs_exports := exports\<rparr>
                   in if \<not> removed \<or> \<not> he_directory E then (refused, side')
                      else case fill_export K E m operation side' of
                          (r, side'') \<Rightarrow>
                            (rbind r (\<lambda>files. Inr \<lparr>tp_operation_id = operation,
                               tp_deployment_id = ds_deployment_id state,
                               tp_manifest_sha256 = sm_manifest_sha256 m, tp_files = files\<rparr>), side'')))"

definition prepare_import ::
  "backup_codec \<Rightarrow> handler_env \<Rightarrow> string \<Rightarrow> string \<Rightarrow> backup_side
   \<Rightarrow> (string + BackupTransferPlan) \<times> backup_side" where
  "prepare_import K E deployment_id operation_id side =
     attempt (transfer_name K operation_id) side (\<lambda>operation.
       case remove_tree (he_remove E) operation (bs_imports side) of
         (removed, imports) \<Rightarrow>
           if \<not> removed \<or> \<not> he_directory E then (refused, side\<lparr>bs_imports := imports\<rparr>)
           else (Inr \<lparr>tp_operation_id = operation, tp_deployment_id = deployment_id,
                      tp_manifest_sha256 = [], tp_files = []\<rparr>,
                 side\<lparr>bs_imports := imports(operation \<mapsto> Map.empty)\<rparr>))"

definition chunk_at :: "string \<Rightarrow> u64 \<Rightarrow> nat \<Rightarrow> string" where
  "chunk_at bytes offset maximum = take maximum (drop (unat offset) bytes)"

definition read_transfer_chunk ::
  "backup_codec \<Rightarrow> handler_env \<Rightarrow> string \<Rightarrow> string \<Rightarrow> u64 \<Rightarrow> nat \<Rightarrow> backup_side \<Rightarrow> string + transfer_write" where
  "read_transfer_chunk K E transfer_operation_id file_name offset maximum_bytes side =
     rbind (transfer_name K transfer_operation_id) (\<lambda>operation.
       let directory = entries (bs_exports side operation)
       in case directory IMMUTABLE_MANIFEST_FILE of
            Some (Regular manifest_bytes) \<Rightarrow>
              if \<not> he_reads E \<or> MAX_BACKUP_EVIDENCE_BYTES < length manifest_bytes then refused
              else rbind
                (if file_name = IMMUTABLE_MANIFEST_FILE
                 then if length manifest_bytes \<le> unat offset then refused
                   else Inr (of_nat (length manifest_bytes), bk_sha256 K manifest_bytes,
                             chunk_at manifest_bytes offset maximum_bytes)
                 else case bk_parse_files K manifest_bytes of
                     None \<Rightarrow> refused
                   | Some files \<Rightarrow>
                       (case find (\<lambda>f. sf_path f = file_name) files of
                          None \<Rightarrow> refused
                        | Some expected \<Rightarrow>
                            (case directory file_name of
                               Some (Regular bytes) \<Rightarrow>
                                 if length bytes \<noteq> unat (sf_size expected) \<or> length bytes \<le> unat offset
                                 then refused
                                 else Inr (sf_size expected, sf_sha256 expected,
                                           chunk_at bytes offset maximum_bytes)
                             | _ \<Rightarrow> refused)))
                (\<lambda>(size, file_sha256, bytes).
                   rbind (map_err (\<lambda>_. HOST_ERR_OPERATION_INVALID) (BackupTransferBytes_try_new bytes))
                     (\<lambda>bytes. Inr \<lparr>tw_transfer_operation_id = operation, tw_file_name = file_name,
                        tw_offset = offset, tw_total_bytes = size, tw_file_sha256 = file_sha256,
                        tw_bytes = bytes\<rparr>))
          | _ \<Rightarrow> refused)"

text \<open>The comparison of the bytes already there, and the append of the missing ones.\<close>

definition append_chunk ::
  "handler_env \<Rightarrow> string \<Rightarrow> nat \<Rightarrow> string \<Rightarrow> (string + unit) \<times> string" where
  "append_chunk E persisted offset bytes =
     (let existing = drop offset persisted;
          missing = drop (length existing) bytes
      in if existing \<noteq> take (length existing) bytes then (refused, persisted)
         else case he_append E of
             None \<Rightarrow> (Inr (), persisted @ missing)
           | Some n \<Rightarrow> (refused, persisted @ take n missing))"

definition write_transfer_chunk ::
  "backup_codec \<Rightarrow> handler_env \<Rightarrow> string \<Rightarrow> string \<Rightarrow> u64 \<Rightarrow> BackupTransferBytes \<Rightarrow> backup_side
   \<Rightarrow> (string + unit) \<times> backup_side" where
  "write_transfer_chunk K E transfer_operation_id file_name offset bytes side =
     attempt (transfer_name K transfer_operation_id) side (\<lambda>operation.
       let directory = entries (bs_imports side operation);
           end = unat (offset + of_nat (length (transfer_bytes bytes)));
           keep = (\<lambda>persisted. side\<lparr>bs_imports := (bs_imports side)(operation \<mapsto>
             directory(file_name \<mapsto> Regular persisted))\<rparr>)
       in if \<not> he_reads E then (refused, side)
          else case directory file_name of
            Some Irregular \<Rightarrow> (refused, side)
          | Some (Regular persisted) \<Rightarrow>
              if length persisted < unat offset \<or> end < length persisted then (refused, side)
              else (case append_chunk E persisted (unat offset) (transfer_bytes bytes) of
                  (r, persisted') \<Rightarrow> (r, keep persisted'))
          | None \<Rightarrow>
              if offset \<noteq> 0 then (refused, side)
              else (case he_file E of
                  Rejected \<Rightarrow> (refused, side)
                | Unsynced \<Rightarrow> (refused, keep [])
                | Committed \<Rightarrow>
                    (case append_chunk E [] 0 (transfer_bytes bytes) of
                       (r, persisted') \<Rightarrow> (r, keep persisted'))))"

text \<open>
  \<open>finalize_import\<close>: verify every byte, keep the manifest beside the import directory, publish by a
  rename. A snapshot id already published must hold the same manifest and verify again.
\<close>

definition publish ::
  "backup_codec \<Rightarrow> handler_env \<Rightarrow> SnapshotManifest \<Rightarrow> string \<Rightarrow> backup_side \<Rightarrow> (string + unit) \<times> backup_side" where
  "publish K E m operation side =
     (let incoming = bs_imports side operation;
          bound = (\<lambda>side. case write_manifest_at K (he_file E) operation m (bs_bindings side) of
            (ok, bindings) \<Rightarrow> (ok, side\<lparr>bs_bindings := bindings\<rparr>))
      in case bs_snapshots side (sm_snapshot_id m) of
           Some final \<Rightarrow>
             attempt (load_manifest_at K (he_reads E) (final IMMUTABLE_MANIFEST_FILE)) side (\<lambda>existing.
               if (case existing of None \<Rightarrow> True | Some x \<Rightarrow> sm_manifest_sha256 x \<noteq> sm_manifest_sha256 m)
                  \<or> \<not> he_verifies E \<or> \<not> verify_snapshot_files K final m
               then (refused, side)
               else case incoming of
                   None \<Rightarrow> (require (he_rename E = Committed) BACKUP_EXECUTION_FAILED, side)
                 | Some t \<Rightarrow>
                     if \<not> verify_snapshot_files K t m then (refused, side)
                     else case bound side of
                         (ok, side') \<Rightarrow>
                           if \<not> ok then (refused, side')
                           else case remove_tree (he_remove E) operation (bs_imports side') of
                               (removed, imports) \<Rightarrow>
                                 (require (removed \<and> he_rename E = Committed) BACKUP_EXECUTION_FAILED,
                                  side'\<lparr>bs_imports := imports\<rparr>))
         | None \<Rightarrow>
             (case incoming of
                None \<Rightarrow> (refused, side)
              | Some t \<Rightarrow>
                  if \<not> he_verifies E \<or> \<not> verify_snapshot_files K t m then (refused, side)
                  else case bound side of
                      (ok, side') \<Rightarrow>
                        if \<not> ok \<or> \<not> he_directory E \<or> he_rename E = Rejected then (refused, side')
                        else (require (he_rename E = Committed) BACKUP_EXECUTION_FAILED,
                              side'\<lparr>bs_snapshots := (bs_snapshots side')(sm_snapshot_id m \<mapsto> t),
                                    bs_imports := (bs_imports side')(operation := None)\<rparr>)))"

definition finalize_import ::
  "backup_codec \<Rightarrow> handler_env \<Rightarrow> string \<Rightarrow> string \<Rightarrow> string \<Rightarrow> string \<Rightarrow> string \<Rightarrow> backup_side
   \<Rightarrow> (string + OffHostCopyReceipt) \<times> backup_side" where
  "finalize_import K E deployment_id transfer_operation_id expected_manifest_sha256 source_host_id
       destination_host_id side =
     attempt (transfer_name K transfer_operation_id) side (\<lambda>operation.
       attempt (load_manifest_at K (he_reads E)
           (case bs_imports side operation of
              Some t \<Rightarrow> t IMMUTABLE_MANIFEST_FILE | None \<Rightarrow> bs_bindings side operation)) side (\<lambda>loaded.
         case loaded of
           None \<Rightarrow> (refused, side)
         | Some m \<Rightarrow>
             if sm_deployment_id m \<noteq> deployment_id \<or> sm_manifest_sha256 m \<noteq> expected_manifest_sha256
             then (refused, side)
             else case publish K E m operation side of
                 (r, side') \<Rightarrow>
                   (rbind r (\<lambda>_. Inr \<lparr>oh_schema = OFF_HOST_COPY_RECEIPT_SCHEMA,
                      oh_deployment_id = deployment_id, oh_snapshot_id = sm_snapshot_id m,
                      oh_manifest_sha256 = sm_manifest_sha256 m, oh_source_host_id = source_host_id,
                      oh_destination_host_id = destination_host_id, oh_verified_at = he_now E\<rparr>), side')))"

definition OFF_HOST_RECEIPT_FILE :: string where "OFF_HOST_RECEIPT_FILE = ''off-host-copy-receipt.json''"

definition record_off_host_copy ::
  "backup_codec \<Rightarrow> handler_env \<Rightarrow> OffHostCopyReceipt \<Rightarrow> backup_side \<Rightarrow> (string + unit) \<times> backup_side" where
  "record_off_host_copy K E receipt side =
     (if uuid_version (bk_externals K) (oh_snapshot_id receipt) = None then (refused, side)
      else let snapshot_id = uuid_text (bk_externals K) (oh_snapshot_id receipt);
               directory = entries (bs_snapshots side snapshot_id)
      in attempt (load_manifest_at K (he_reads E) (directory IMMUTABLE_MANIFEST_FILE)) side (\<lambda>loaded.
        case loaded of
          None \<Rightarrow> (refused, side)
        | Some m \<Rightarrow>
            if OffHostCopyReceipt_validate_against receipt m \<noteq> Inr ()
               \<or> directory OFF_HOST_RECEIPT_FILE = Some Irregular then (refused, side)
            else case atomic_write (he_receipt E) OFF_HOST_RECEIPT_FILE (Regular (bk_receipt_json K receipt)) directory of
                (written, directory') \<Rightarrow>
                  let side' = side\<lparr>bs_snapshots := (bs_snapshots side)(snapshot_id \<mapsto> directory')\<rparr>
                  in if \<not> written then (refused, side')
                     else attempt (load_latest K (he_verifies E) side') side' (\<lambda>latest.
                       if (case latest of None \<Rightarrow> False | Some x \<Rightarrow>
                             sm_snapshot_id x = sm_snapshot_id m \<and> sm_manifest_sha256 x = sm_manifest_sha256 m)
                       then (case write_off_host_receipt (bk_size K) (he_file E) receipt (bs_evidence side') of
                           (r, evidence) \<Rightarrow>
                             (map_err (\<lambda>_. BACKUP_EXECUTION_FAILED) r, side'\<lparr>bs_evidence := evidence\<rparr>))
                       else (Inr (), side'))))"

definition cleanup_transfer ::
  "backup_codec \<Rightarrow> handler_env \<Rightarrow> string \<Rightarrow> backup_side \<Rightarrow> (string + unit) \<times> backup_side" where
  "cleanup_transfer K E operation_id side =
     attempt (transfer_name K operation_id) side (\<lambda>operation.
       if bs_bindings side operation \<noteq> None \<and> he_unlink E = Rejected then (refused, side)
       else let side1 = side\<lparr>bs_bindings := (bs_bindings side)(operation := None)\<rparr>
       in case remove_tree (he_remove E) operation (bs_exports side1) of
            (removed, exports) \<Rightarrow>
              let side2 = side1\<lparr>bs_exports := exports\<rparr>
              in if \<not> removed then (refused, side2)
                 else case remove_tree (he_remove_2 E) operation (bs_imports side2) of
                     (removed, imports) \<Rightarrow>
                       (require removed BACKUP_EXECUTION_FAILED, side2\<lparr>bs_imports := imports\<rparr>))"

section \<open>Dispatch\<close>

text \<open>The transfer arms of \<open>dispatch_validated_host_operation\<close>; the other kinds are not the transfer's.\<close>

definition completed ::
  "('a \<Rightarrow> transfer_body) \<Rightarrow> (string + 'a) \<times> backup_side \<Rightarrow> (string + transfer_body) \<times> backup_side" where
  "completed body r = (case r of (Inl e, side) \<Rightarrow> (Inl e, side) | (Inr v, side) \<Rightarrow> (Inr (body v), side))"

definition dispatch_transfer ::
  "backup_codec \<Rightarrow> handler_env \<Rightarrow> HostOperation \<Rightarrow> backup_side \<Rightarrow> (string + transfer_body) \<times> backup_side" where
  "dispatch_transfer K E op side =
     (let deployment_id = the (ho_deployment_id op)
      in case ho_operation op of
        BackupExportPrepare \<Rightarrow>
          attempt (bs_state side) side (\<lambda>state.
            completed TransferPrepared (prepare_export K E state (ho_operation_id op) side))
      | BackupImportPrepare \<Rightarrow>
          completed TransferPrepared (prepare_import K E deployment_id (ho_operation_id op) side)
      | BackupTransferRead transfer_operation_id file_name offset maximum_bytes \<Rightarrow>
          completed TransferChunk
            (read_transfer_chunk K E transfer_operation_id file_name offset maximum_bytes side, side)
      | BackupTransferWrite w \<Rightarrow>
          completed (\<lambda>_. TransferWritten)
            (write_transfer_chunk K E (tw_transfer_operation_id w) (tw_file_name w) (tw_offset w) (tw_bytes w) side)
      | BackupImportFinalize transfer_operation_id manifest source_host_id destination_host_id \<Rightarrow>
          if bs_target_id side \<noteq> Some destination_host_id then (Inl HOST_ERR_OPERATION_INVALID, side)
          else completed ImportFinalized (finalize_import K E deployment_id transfer_operation_id manifest
            source_host_id destination_host_id side)
      | BackupOffHostRecord receipt \<Rightarrow>
          if bs_target_id side \<noteq> Some (oh_source_host_id receipt)
             \<or> bs_target_id side = Some (oh_destination_host_id receipt)
          then (Inl HOST_ERR_OPERATION_INVALID, side)
          else completed (\<lambda>_. OffHostRecorded) (record_off_host_copy K E receipt side)
      | BackupTransferCleanup transfer_operation_id \<Rightarrow>
          completed (\<lambda>_. TransferCleaned) (cleanup_transfer K E transfer_operation_id side)
      | _ \<Rightarrow> (Inr OtherCompletion, side))"

definition answer_of :: "HostOperation \<Rightarrow> string + transfer_body \<Rightarrow> transfer_body HostResult" where
  "answer_of op r =
     (case r of
        Inl failure_code \<Rightarrow> HostResult_failed (ho_operation_id op) failure_code []
      | Inr body \<Rightarrow> HostResult_completed (ho_operation_id op) body)"

text \<open>
  One call of \<open>execute_host_operation\<close>, as the controller sees it. \<open>Unreached\<close>: the request never
  arrives. \<open>Saturated\<close>: the journal admits no new operation. \<open>Unrecorded\<close>: the handler ran, the
  terminal line was not written. \<open>ReplyLost\<close>: everything ran, the answer did not come back.

  The target journal is here the map from operation ids to the stored terminal answers: a recorded
  answer is replayed for as long as the record is there, and an operation cut off before its terminal
  line runs again. Pending lines, compaction and the retention of terminal records are modelled in
  the theory \<open>Journal\<close>, whose properties say which records a compaction keeps; nothing here is
  claimed of an operation whose record was compacted away.
\<close>

datatype call_fate = Unreached | Saturated | Unrecorded | ReplyLost | Answered

record target_env =
  te_fate :: call_fate
  te_handler :: handler_env

definition run_handler ::
  "backup_codec \<Rightarrow> target_env \<Rightarrow> HostOperation \<Rightarrow> backup_side
   \<Rightarrow> transfer_body HostResult option \<times> backup_side" where
  "run_handler K E op side =
     (case dispatch_transfer K (te_handler E) op side of
        (r, side') \<Rightarrow>
          let result = answer_of op r;
              settled = side'\<lparr>bs_answered := (bs_answered side')(ho_operation_id op \<mapsto> (op, result))\<rparr>
          in if te_fate E = Unrecorded then (None, side') else (Some result, settled))"

definition execute_journaled ::
  "backup_codec \<Rightarrow> target_env \<Rightarrow> HostOperation \<Rightarrow> backup_side
   \<Rightarrow> transfer_body HostResult option \<times> backup_side" where
  "execute_journaled K E op side =
     (case bs_answered side (ho_operation_id op) of
        Some (accepted, result) \<Rightarrow>
          if accepted \<noteq> op then (Some (conflict_result op), side)
          else if retry_failed_kind (ho_operation op) \<and> (case hr_outcome result of Failed _ _ \<Rightarrow> True | _ \<Rightarrow> False)
          then run_handler K E op side
          else (Some result, side)
      | None \<Rightarrow>
          if te_fate E = Saturated then (Some (capacity_result op), side) else run_handler K E op side)"

definition execute_host_operation ::
  "backup_codec \<Rightarrow> target_env \<Rightarrow> HostOperation \<Rightarrow> backup_side
   \<Rightarrow> transfer_body HostResult option \<times> backup_side" where
  "execute_host_operation K E op side =
     (if te_fate E = Unreached then (None, side)
      else case
        (if HostOperation_validate (bk_externals K) (bk_b64url K) op \<noteq> Inr ()
         then (Some (answer_of op (Inl HOST_ERR_OPERATION_INVALID)), side)
         else if requires_journal (ho_operation op) then execute_journaled K E op side
         else case dispatch_transfer K (te_handler E) op side of
             (r, side') \<Rightarrow> (Some (answer_of op r), side'))
      of (answer, side') \<Rightarrow> (if te_fate E = ReplyLost then None else answer, side'))"

end
