(* ===== verification/TransferControl.thy ===== *)
theory TransferControl
  imports TransferTarget
begin

text \<open>
  The controller's half of an off-host transfer (\<open>src/src/controller/surface_run.rs\<close>): opening or
  resuming the durable record, and the loop that drives both targets through its phases.

  The world is the journal slot and the two deployment scopes. One iteration of the loop meets an
  \<open>iteration_env\<close>: what each target call meets, the outcome of the store, and the fresh ids. The
  loop takes one environment per iteration; where they run out the process was interrupted.
\<close>

record transfer_world =
  xw_slot :: transfer_slot
  xw_source :: backup_side
  xw_destination :: backup_side

record iteration_env =
  it_source :: target_env
  it_destination :: target_env
  it_store :: commit
  it_read_id :: string
  it_write_id :: string

record transfer_codec =
  tc_target :: backup_codec
  tc_size :: "TransferRecord \<Rightarrow> nat"
  tc_registry :: registry_codec

abbreviation tc_externals :: "transfer_codec \<Rightarrow> externals" where
  "tc_externals C \<equiv> bk_externals (tc_target C)"

section \<open>What an answer must be\<close>

text \<open>The \<open>expect_*\<close> functions: the one completion the phase admits, or an error.\<close>

definition expect_body ::
  "(transfer_body \<Rightarrow> 'a option) \<Rightarrow> transfer_body HostResult option \<Rightarrow> transfer_error + 'a" where
  "expect_body pick result =
     (case result of
        None \<Rightarrow> Inl TransferUnreachable
      | Some r \<Rightarrow>
          (case hr_outcome r of
             Failed failure_code _ \<Rightarrow> Inl (TransferRefused failure_code)
           | Completed body \<Rightarrow> (case pick body of None \<Rightarrow> Inl TransferUnexpected | Some v \<Rightarrow> Inr v)))"

definition expect_transfer_plan :: "transfer_body HostResult option \<Rightarrow> transfer_error + BackupTransferPlan" where
  "expect_transfer_plan = expect_body (\<lambda>b. case b of TransferPrepared plan \<Rightarrow> Some plan | _ \<Rightarrow> None)"

definition expect_transfer_chunk :: "transfer_body HostResult option \<Rightarrow> transfer_error + transfer_write" where
  "expect_transfer_chunk = expect_body (\<lambda>b. case b of TransferChunk c \<Rightarrow> Some c | _ \<Rightarrow> None)"

definition expect_transfer_written :: "transfer_body HostResult option \<Rightarrow> transfer_error + unit" where
  "expect_transfer_written = expect_body (\<lambda>b. if b = TransferWritten then Some () else None)"

definition expect_import_receipt :: "transfer_body HostResult option \<Rightarrow> transfer_error + OffHostCopyReceipt" where
  "expect_import_receipt = expect_body (\<lambda>b. case b of ImportFinalized r \<Rightarrow> Some r | _ \<Rightarrow> None)"

definition expect_offhost_recorded :: "transfer_body HostResult option \<Rightarrow> transfer_error + unit" where
  "expect_offhost_recorded = expect_body (\<lambda>b. if b = OffHostRecorded then Some () else None)"

definition expect_cleaned :: "transfer_body HostResult option \<Rightarrow> transfer_error + unit" where
  "expect_cleaned = expect_body (\<lambda>b. if b = TransferCleaned then Some () else None)"

definition validate_receipt ::
  "TransferRecord \<Rightarrow> OffHostCopyReceipt \<Rightarrow> transfer_error + unit" where
  "validate_receipt tr receipt =
     rbind (case tr_source_plan tr of None \<Rightarrow> Inl TransferStateMissing | Some plan \<Rightarrow> Inr plan) (\<lambda>plan.
       if oh_schema receipt \<noteq> OFF_HOST_COPY_RECEIPT_SCHEMA
          \<or> oh_deployment_id receipt \<noteq> tr_deployment_id tr
          \<or> oh_source_host_id receipt \<noteq> tr_source_host_id tr
          \<or> oh_destination_host_id receipt \<noteq> tr_destination_host_id tr
          \<or> oh_manifest_sha256 receipt \<noteq> tp_manifest_sha256 plan
       then Inl TransferReceiptUnbound
       else map_err TransferSnapshotId (validate_identifier (oh_snapshot_id receipt) 128 ''backup snapshot id''))"

section \<open>One iteration\<close>

definition at_source ::
  "transfer_codec \<Rightarrow> iteration_env \<Rightarrow> HostOperation \<Rightarrow> transfer_world
   \<Rightarrow> transfer_body HostResult option \<times> transfer_world" where
  "at_source C E op w =
     (case execute_host_operation (tc_target C) (it_source E) op (xw_source w) of
        (answer, side) \<Rightarrow> (answer, w\<lparr>xw_source := side\<rparr>))"

definition at_destination ::
  "transfer_codec \<Rightarrow> iteration_env \<Rightarrow> HostOperation \<Rightarrow> transfer_world
   \<Rightarrow> transfer_body HostResult option \<times> transfer_world" where
  "at_destination C E op w =
     (case execute_host_operation (tc_target C) (it_destination E) op (xw_destination w) of
        (answer, side) \<Rightarrow> (answer, w\<lparr>xw_destination := side\<rparr>))"

text \<open>The record goes on in memory as it was stored.\<close>

definition store_and_go ::
  "transfer_codec \<Rightarrow> iteration_env \<Rightarrow> TransferRecord \<Rightarrow> transfer_world
   \<Rightarrow> (transfer_error + TransferRecord) \<times> transfer_world" where
  "store_and_go C E tr w =
     (case store_transfer (tc_externals C) (tc_size C) (it_store E) tr (xw_slot w) of
        (r, slot) \<Rightarrow> (rbind r (\<lambda>_. Inr tr), w\<lparr>xw_slot := slot\<rparr>))"

definition missing_state :: "'a option \<Rightarrow> transfer_error + 'a" where
  "missing_state v = (case v of None \<Rightarrow> Inl TransferStateMissing | Some x \<Rightarrow> Inr x)"

definition chunk_matches :: "TransferRecord \<Rightarrow> CopyCursor \<Rightarrow> SnapshotFile \<Rightarrow> transfer_write \<Rightarrow> bool" where
  "chunk_matches tr cursor f chunk \<longleftrightarrow>
     \<not> (tw_transfer_operation_id chunk \<noteq> tr_transfer_operation_id tr
        \<or> tw_file_name chunk \<noteq> sf_path f
        \<or> tw_offset chunk \<noteq> cc_offset cursor
        \<or> tw_total_bytes chunk \<noteq> sf_size f
        \<or> tw_file_sha256 chunk \<noteq> sf_sha256 f
        \<or> transfer_bytes (tw_bytes chunk) = [])"

definition advance_cursor ::
  "iteration_env \<Rightarrow> TransferRecord \<Rightarrow> BackupTransferPlan \<Rightarrow> CopyCursor \<Rightarrow> SnapshotFile \<Rightarrow> u64 \<Rightarrow> TransferRecord" where
  "advance_cursor E tr plan cursor f next_offset =
     (if next_offset < sf_size f
      then reset_cursor (it_read_id E) (it_write_id E) (cc_file_index cursor) next_offset tr
      else if cc_file_index cursor + 1 < length (tp_files plan)
      then reset_cursor (it_read_id E) (it_write_id E) (cc_file_index cursor + 1) 0 tr
      else tr\<lparr>tr_cursor := None, tr_phase := Finalize\<rparr>)"

definition copy_one_backup_chunk ::
  "transfer_codec \<Rightarrow> iteration_env \<Rightarrow> TransferRecord \<Rightarrow> transfer_world
   \<Rightarrow> (transfer_error + TransferRecord) \<times> transfer_world" where
  "copy_one_backup_chunk C E tr w =
     attempt (missing_state (tr_source_plan tr)) w (\<lambda>plan.
     attempt (missing_state (tr_cursor tr)) w (\<lambda>cursor.
     attempt (missing_state (if cc_file_index cursor < length (tp_files plan)
         then Some (tp_files plan ! cc_file_index cursor) else None)) w (\<lambda>f.
     case at_source C E (backup_transfer_read (cc_read_operation_id cursor) (tr_deployment_id tr)
         (tr_transfer_operation_id tr) (sf_path f) (cc_offset cursor)) w of
       (answer, w1) \<Rightarrow>
     attempt (expect_transfer_chunk answer) w1 (\<lambda>chunk.
     if \<not> chunk_matches tr cursor f chunk then (Inl TransferMismatch, w1)
     else case at_destination C E (backup_transfer_write (cc_write_operation_id cursor) (tr_deployment_id tr)
         (tr_transfer_operation_id tr) chunk) w1 of
       (answer, w2) \<Rightarrow>
     attempt (expect_transfer_written answer) w2 (\<lambda>_.
     case checked_end (cc_offset cursor) (tw_bytes chunk) of
       None \<Rightarrow> (Inl TransferOffsetOverflow, w2)
     | Some next_offset \<Rightarrow> store_and_go C E (advance_cursor E tr plan cursor f next_offset) w2)))))"

datatype transfer_progress = Continue TransferRecord | Done OffHostCopyReceipt

definition continue ::
  "(transfer_error + TransferRecord) \<times> transfer_world \<Rightarrow> (transfer_error + transfer_progress) \<times> transfer_world" where
  "continue r = (case r of (v, w) \<Rightarrow> (rbind v (\<lambda>tr. Inr (Continue tr)), w))"

text \<open>The \<open>match transfer.phase\<close> of the loop.\<close>

definition source_prepare ::
  "transfer_codec \<Rightarrow> iteration_env \<Rightarrow> TransferRecord \<Rightarrow> transfer_world
   \<Rightarrow> (transfer_error + TransferRecord) \<times> transfer_world" where
  "source_prepare C E tr w =
     (case at_source C E (backup_export_prepare (tr_transfer_operation_id tr) (tr_deployment_id tr)) w of
        (answer, w1) \<Rightarrow>
          attempt (expect_transfer_plan answer) w1 (\<lambda>plan.
            store_and_go C E (tr\<lparr>tr_source_plan := Some plan, tr_phase := DestinationPrepare\<rparr>) w1))"

definition destination_prepare ::
  "transfer_codec \<Rightarrow> iteration_env \<Rightarrow> TransferRecord \<Rightarrow> transfer_world
   \<Rightarrow> (transfer_error + TransferRecord) \<times> transfer_world" where
  "destination_prepare C E tr w =
     (case at_destination C E (backup_import_prepare (tr_transfer_operation_id tr) (tr_deployment_id tr)) w of
        (answer, w1) \<Rightarrow>
          attempt (expect_transfer_plan answer) w1 (\<lambda>plan.
            if tp_operation_id plan \<noteq> tr_transfer_operation_id tr \<or> tp_deployment_id plan \<noteq> tr_deployment_id tr
               \<or> tp_manifest_sha256 plan \<noteq> [] \<or> tp_files plan \<noteq> []
            then (Inl TransferMismatch, w1)
            else store_and_go C E
              ((reset_cursor (it_read_id E) (it_write_id E) 0 0 tr)\<lparr>tr_phase := Copying\<rparr>) w1))"

definition finalize ::
  "transfer_codec \<Rightarrow> iteration_env \<Rightarrow> TransferRecord \<Rightarrow> transfer_world
   \<Rightarrow> (transfer_error + TransferRecord) \<times> transfer_world" where
  "finalize C E tr w =
     attempt (missing_state (tr_source_plan tr)) w (\<lambda>plan.
       case at_destination C E (backup_import_finalize (tr_finalize_operation_id tr) (tr_deployment_id tr)
           (tr_transfer_operation_id tr) (tp_manifest_sha256 plan) (tr_source_host_id tr)
           (tr_destination_host_id tr)) w of
         (answer, w1) \<Rightarrow>
           attempt (expect_import_receipt answer) w1 (\<lambda>receipt.
             attempt (validate_receipt tr receipt) w1 (\<lambda>_.
               store_and_go C E (tr\<lparr>tr_receipt := Some receipt, tr_phase := RecordSourceReceipt\<rparr>) w1)))"

definition record_source_receipt ::
  "transfer_codec \<Rightarrow> iteration_env \<Rightarrow> TransferRecord \<Rightarrow> transfer_world
   \<Rightarrow> (transfer_error + TransferRecord) \<times> transfer_world" where
  "record_source_receipt C E tr w =
     attempt (missing_state (tr_receipt tr)) w (\<lambda>receipt.
       case at_source C E (backup_offhost_record (tr_source_receipt_operation_id tr) (tr_deployment_id tr) receipt) w of
         (answer, w1) \<Rightarrow>
           attempt (expect_offhost_recorded answer) w1 (\<lambda>_.
             store_and_go C E (tr\<lparr>tr_phase := CleanupSource\<rparr>) w1))"

definition cleanup_source ::
  "transfer_codec \<Rightarrow> iteration_env \<Rightarrow> TransferRecord \<Rightarrow> transfer_world
   \<Rightarrow> (transfer_error + TransferRecord) \<times> transfer_world" where
  "cleanup_source C E tr w =
     (case at_source C E (backup_transfer_cleanup (tr_source_cleanup_operation_id tr) (tr_deployment_id tr)
         (tr_transfer_operation_id tr)) w of
        (answer, w1) \<Rightarrow>
          attempt (expect_cleaned answer) w1 (\<lambda>_.
            store_and_go C E (tr\<lparr>tr_phase := CleanupDestination\<rparr>) w1))"

definition cleanup_destination ::
  "transfer_codec \<Rightarrow> iteration_env \<Rightarrow> TransferRecord \<Rightarrow> transfer_world
   \<Rightarrow> (transfer_error + transfer_progress) \<times> transfer_world" where
  "cleanup_destination C E tr w =
     (case at_destination C E (backup_transfer_cleanup (tr_destination_cleanup_operation_id tr) (tr_deployment_id tr)
         (tr_transfer_operation_id tr)) w of
        (answer, w1) \<Rightarrow>
          attempt (expect_cleaned answer) w1 (\<lambda>_.
            attempt (missing_state (tr_receipt tr)) w1 (\<lambda>receipt.
              case clear_transfer (it_store E) (xw_slot w1) of
                (r, slot) \<Rightarrow> (rbind r (\<lambda>_. Inr (Done receipt)), w1\<lparr>xw_slot := slot\<rparr>))))"

definition transfer_step ::
  "transfer_codec \<Rightarrow> iteration_env \<Rightarrow> TransferRecord \<Rightarrow> transfer_world
   \<Rightarrow> (transfer_error + transfer_progress) \<times> transfer_world" where
  "transfer_step C E tr w =
     (case tr_phase tr of
        SourcePrepare \<Rightarrow> continue (source_prepare C E tr w)
      | DestinationPrepare \<Rightarrow> continue (destination_prepare C E tr w)
      | Copying \<Rightarrow> continue (copy_one_backup_chunk C E tr w)
      | Finalize \<Rightarrow> continue (finalize C E tr w)
      | RecordSourceReceipt \<Rightarrow> continue (record_source_receipt C E tr w)
      | CleanupSource \<Rightarrow> continue (cleanup_source C E tr w)
      | CleanupDestination \<Rightarrow> cleanup_destination C E tr w)"

section \<open>The loop\<close>

fun resume_backup_transfer ::
  "transfer_codec \<Rightarrow> iteration_env list \<Rightarrow> TransferRecord \<Rightarrow> transfer_world
   \<Rightarrow> (transfer_error + OffHostCopyReceipt) \<times> transfer_world" where
  "resume_backup_transfer C [] tr w = (Inl TransferInterrupted, w)"
| "resume_backup_transfer C (E # Es) tr w =
     (case transfer_step C E tr w of
        (Inl e, w') \<Rightarrow> (Inl e, w')
      | (Inr (Continue tr'), w') \<Rightarrow> resume_backup_transfer C Es tr' w'
      | (Inr (Done receipt), w') \<Rightarrow> (Inr receipt, w'))"

text \<open>
  \<open>run_backup_copy\<close> under the journal's lock: the instance and its host as the command resolved
  them, the registry it reads again, whether an uninstall journal lies beside the instance (\<open>None\<close>
  where that cannot be told), the ids a new record draws. The identity probes of the two targets
  either pass or stop the command.
\<close>

record copy_request =
  cq_record :: InstanceRecord
  cq_source_host :: HostRecord
  cq_destination_alias :: string
  cq_registry :: registry
  cq_registry_env :: registry_env
  cq_uninstall_pending :: "bool option"
  cq_ids :: transfer_ids
  cq_store :: commit
  cq_probes :: bool

abbreviation cq_deployment_id :: "copy_request \<Rightarrow> string" where
  "cq_deployment_id q \<equiv> inst_deployment_id (cq_record q)"

abbreviation cq_source_host_id :: "copy_request \<Rightarrow> string" where
  "cq_source_host_id q \<equiv> host_host_id (cq_source_host q)"

text \<open>
  What every long-running command checks before it starts; \<open>uninstall_pending\<close> tells whether an
  uninstall journal lies beside the instance, \<open>None\<close> where that cannot be told.
\<close>

definition validate_lifecycle_binding ::
  "registry_codec \<Rightarrow> registry_env \<Rightarrow> registry \<Rightarrow> string \<Rightarrow> string \<Rightarrow> bool option \<Rightarrow> transfer_error + unit" where
  "validate_lifecycle_binding R RE G deployment_id host_id uninstall_pending =
     rbind (map_err (\<lambda>_. TransferRegistry) (instance_by_deployment R RE G deployment_id)) (\<lambda>found.
       case found of
         None \<Rightarrow> Inl TransferInstanceGone
       | Some current \<Rightarrow>
           if inst_host_id current \<noteq> host_id then Inl TransferHostChanged
           else rbind (map_err (\<lambda>_. TransferRegistry) (host_by_id R RE G host_id)) (\<lambda>host.
             if host = None then Inl TransferHostChanged
             else case uninstall_pending of
                 None \<Rightarrow> Inl TransferRegistry
               | Some pending \<Rightarrow> require (\<not> pending) TransferUninstallPending))"

abbreviation copy_binding :: "registry_codec \<Rightarrow> copy_request \<Rightarrow> transfer_error + unit" where
  "copy_binding R q \<equiv> validate_lifecycle_binding R (cq_registry_env q) (cq_registry q) (cq_deployment_id q)
     (cq_source_host_id q) (cq_uninstall_pending q)"

definition validate_transfer_binding ::
  "TransferRecord \<Rightarrow> string \<Rightarrow> string \<Rightarrow> string \<Rightarrow> string \<Rightarrow> transfer_error + unit" where
  "validate_transfer_binding tr deployment_id source_host_id destination_host_id destination_alias =
     require (\<not> (tr_deployment_id tr \<noteq> deployment_id \<or> tr_source_host_id tr \<noteq> source_host_id
       \<or> tr_destination_host_id tr \<noteq> destination_host_id \<or> tr_destination_alias tr \<noteq> destination_alias))
       TransferOtherBinding"

definition open_transfer ::
  "transfer_codec \<Rightarrow> copy_request \<Rightarrow> transfer_slot \<Rightarrow> (transfer_error + TransferRecord) \<times> transfer_slot" where
  "open_transfer C q slot =
     attempt (copy_binding (tc_registry C) q) slot (\<lambda>_.
     attempt (load_transfer (tc_externals C) slot) slot (\<lambda>existing.
     attempt (map_err (\<lambda>_. TransferRegistry)
         (host_by_alias (tc_registry C) (cq_registry_env q) (cq_registry q) (cq_destination_alias q))) slot (\<lambda>found.
       case found of
         None \<Rightarrow> (Inl TransferHostUnknown, slot)
       | Some destination \<Rightarrow>
           if host_host_id destination = cq_source_host_id q then (Inl TransferHostSame, slot)
           else (case existing of
               Some tr \<Rightarrow>
                 (rbind (validate_transfer_binding tr (cq_deployment_id q) (cq_source_host_id q)
                     (host_host_id destination) (host_alias destination)) (\<lambda>_. Inr tr), slot)
             | None \<Rightarrow>
                 (let created = TransferRecord_new (cq_ids q) (cq_deployment_id q) (cq_source_host_id q)
                        (host_host_id destination) (host_alias destination)
                  in case store_transfer (tc_externals C) (tc_size C) (cq_store q) created slot of
                       (r, slot') \<Rightarrow> (rbind r (\<lambda>_. Inr created), slot'))))))"

definition run_backup_copy ::
  "transfer_codec \<Rightarrow> copy_request \<Rightarrow> iteration_env list \<Rightarrow> transfer_world
   \<Rightarrow> (transfer_error + OffHostCopyReceipt) \<times> transfer_world" where
  "run_backup_copy C q Es w =
     (case open_transfer C q (xw_slot w) of
        (Inl e, slot) \<Rightarrow> (Inl e, w\<lparr>xw_slot := slot\<rparr>)
      | (Inr tr, slot) \<Rightarrow>
          if \<not> cq_probes q then (Inl TransferUnreachable, w\<lparr>xw_slot := slot\<rparr>)
          else resume_backup_transfer C Es tr (w\<lparr>xw_slot := slot\<rparr>))"

end
