(* ===== verification/TransferProofs.thy ===== *)
theory TransferProofs
  imports TransferControl
begin

text \<open>
  What one call of a target and one iteration of the loop can do, whatever the environment decides.
\<close>

section \<open>Target calls\<close>

lemma attempt_Inr: "attempt r s k = (Inr v, s') \<longleftrightarrow> (\<exists>a. r = Inr a \<and> k a = (Inr v, s'))"
  by (cases r) auto

lemma expect_body_Inr: "expect_body pick a = Inr v \<longleftrightarrow>
    (\<exists>r b. a = Some r \<and> hr_outcome r = Completed b \<and> pick b = Some v)"
  by (auto simp: expect_body_def split: option.splits HostOutcome.splits)

lemma answer_of_outcome [simp]:
  "hr_outcome (answer_of op (Inr b)) = Completed b"
  "hr_outcome (answer_of op (Inl c)) = Failed c []"
  by (simp_all add: answer_of_def HostResult_completed_def HostResult_failed_def sanitize_def)

lemma answer_of_Completed: "hr_outcome (answer_of op r) = Completed b \<longleftrightarrow> r = Inr b"
  by (cases r) simp_all

lemma refusals_fail [simp]:
  "hr_outcome (conflict_result op) \<noteq> Completed b" "hr_outcome (capacity_result op) \<noteq> Completed b"
  by (simp_all add: conflict_result_def capacity_result_def HostResult_failed_def)

text \<open>
  A call leaves the scope alone, or runs the handler once; a completed answer is the stored one or
  the handler's.
\<close>

definition settled_with :: "backup_side \<Rightarrow> HostOperation \<Rightarrow> transfer_body HostResult \<Rightarrow> backup_side" where
  "settled_with side op result =
     side\<lparr>bs_answered := (bs_answered side)(ho_operation_id op \<mapsto> (op, result))\<rparr>"

lemma settled_with_simps [simp]:
  "bs_exports (settled_with s op r) = bs_exports s" "bs_imports (settled_with s op r) = bs_imports s"
  "bs_snapshots (settled_with s op r) = bs_snapshots s" "bs_bindings (settled_with s op r) = bs_bindings s"
  "bs_evidence (settled_with s op r) = bs_evidence s" "bs_state (settled_with s op r) = bs_state s"
  "bs_target_id (settled_with s op r) = bs_target_id s"
  "bs_answered (settled_with s op r) = (bs_answered s)(ho_operation_id op \<mapsto> (op, r))"
  by (simp_all add: settled_with_def)

lemma run_handler_cases:
  assumes "run_handler K E op side = (a, side')" and "dispatch_transfer K (te_handler E) op side = (r, s)"
  shows "side' = s \<and> a = None \<or> side' = settled_with s op (answer_of op r) \<and> a = Some (answer_of op r)"
  using assms by (auto simp: run_handler_def settled_with_def Let_def split: if_splits)

lemma execute_cases:
  assumes "execute_host_operation K E op side = (a, side')"
  obtains (idle) "side' = side"
      "\<And>r b. a = Some r \<Longrightarrow> hr_outcome r = Completed b \<Longrightarrow>
         requires_journal (ho_operation op) \<and> bs_answered side (ho_operation_id op) = Some (op, r)"
  | (read) r s where "\<not> requires_journal (ho_operation op)" "dispatch_transfer K (te_handler E) op side = (r, s)"
      "side' = s" "a = None \<or> a = Some (answer_of op r)"
  | (ran) r s where "requires_journal (ho_operation op)" "dispatch_transfer K (te_handler E) op side = (r, s)"
      "HostOperation_validate (bk_externals K) (bk_b64url K) op = Inr ()"
      "side' = s \<and> a = None \<or> side' = settled_with s op (answer_of op r) \<and> (a = None \<or> a = Some (answer_of op r))"
proof -
  obtain r s where d: "dispatch_transfer K (te_handler E) op side = (r, s)" by force
  obtain a0 s0 where h: "run_handler K E op side = (a0, s0)" by force
  note hc = run_handler_cases [OF h d]
  show thesis
  proof (cases "te_fate E = Unreached \<or> HostOperation_validate (bk_externals K) (bk_b64url K) op \<noteq> Inr ()")
    case True
    show ?thesis
      by (rule idle) (use assms True in \<open>auto simp: execute_host_operation_def split: if_splits\<close>)
  next
    case False
    then have ok: "te_fate E \<noteq> Unreached" "HostOperation_validate (bk_externals K) (bk_b64url K) op = Inr ()"
      by auto
    show ?thesis
    proof (cases "requires_journal (ho_operation op)")
      case False
      show ?thesis
        by (rule read [OF False d]) (use assms ok False d in \<open>auto simp: execute_host_operation_def split: if_splits\<close>)
    next
      case True
      obtain a1 s1 where j: "execute_journaled K E op side = (a1, s1)" by force
      have a: "side' = s1" "a = (if te_fate E = ReplyLost then None else a1)"
        using assms ok True j by (simp_all add: execute_host_operation_def split: if_splits)
      consider (run) "(a1, s1) = (a0, s0)"
        | (stored) r' where "bs_answered side (ho_operation_id op) = Some (op, r')" "a1 = Some r'" "s1 = side"
        | (refused) "s1 = side" "a1 = Some (conflict_result op) \<or> a1 = Some (capacity_result op)"
        using j h by (auto simp: execute_journaled_def split: option.splits prod.splits if_splits)
      then show ?thesis
      proof cases
        case run
        then have "a1 = a0" "s1 = s0" by simp_all
        then show ?thesis
          by (intro ran [OF True d ok(2)]) (use a hc in \<open>auto split: if_splits\<close>)
      next
        case stored
        show ?thesis by (rule idle) (use a stored True in \<open>auto split: if_splits\<close>)
      next
        case refused
        show ?thesis by (rule idle) (use a refused in \<open>auto split: if_splits\<close>)
      qed
    qed
  qed
qed

lemma completed_Inr: "completed body r = (Inr b, s) \<longleftrightarrow> (\<exists>v. r = (Inr v, s) \<and> b = body v)"
  by (auto simp: completed_def split: prod.splits sum.splits)

lemma completed_snd [simp]: "snd (completed body r) = snd r"
  by (auto simp: completed_def split: prod.splits sum.splits)

section \<open>One iteration\<close>

lemma at_source_slot [simp]: "xw_slot (snd (at_source C E op w)) = xw_slot w"
  by (simp add: at_source_def split: prod.split)

lemma at_destination_slot [simp]: "xw_slot (snd (at_destination C E op w)) = xw_slot w"
  by (simp add: at_destination_def split: prod.split)

lemma at_source_eq: "at_source C E op w = (a, w') \<Longrightarrow> xw_slot w' = xw_slot w"
  using at_source_slot [of C E op w] by simp

lemma at_destination_eq: "at_destination C E op w = (a, w') \<Longrightarrow> xw_slot w' = xw_slot w"
  using at_destination_slot [of C E op w] by simp

text \<open>The record a phase leaves behind: the bindings are those of the record before it.\<close>

definition same_binding :: "TransferRecord \<Rightarrow> TransferRecord \<Rightarrow> bool" where
  "same_binding a b \<longleftrightarrow>
     b = a\<lparr>tr_phase := tr_phase b, tr_source_plan := tr_source_plan b, tr_cursor := tr_cursor b,
           tr_receipt := tr_receipt b\<rparr>
     \<and> (tr_source_plan a \<noteq> None \<longrightarrow> tr_source_plan b = tr_source_plan a)
     \<and> (tr_receipt a \<noteq> None \<longrightarrow> tr_receipt b = tr_receipt a)"

lemma same_binding_refl [simp]: "same_binding a a"
  by (simp add: same_binding_def)

lemma same_binding_trans: "same_binding a b \<Longrightarrow> same_binding b c \<Longrightarrow> same_binding a c"
  by (cases a; cases b; cases c) (auto simp: same_binding_def)

lemma validate_phase: "validate_transfer X tr = Inr () \<Longrightarrow> phase_consistent tr"
  by (simp add: validate_transfer_def)

definition step_to ::
  "transfer_codec \<Rightarrow> iteration_env \<Rightarrow> TransferRecord \<Rightarrow> transfer_world
   \<Rightarrow> (transfer_error + TransferRecord) \<times> transfer_world \<Rightarrow> bool" where
  "step_to C E tr w out \<longleftrightarrow>
     (\<exists>w1. xw_slot w1 = xw_slot w \<and>
        ((\<exists>e. out = (Inl e, w1)) \<or> (\<exists>tr'. same_binding tr tr' \<and> out = store_and_go C E tr' w1)))"

lemma step_to_failed: "xw_slot w1 = xw_slot w \<Longrightarrow> step_to C E tr w (Inl e, w1)"
  by (auto simp: step_to_def)

lemma step_to_stored:
  "xw_slot w1 = xw_slot w \<Longrightarrow> same_binding tr tr' \<Longrightarrow> step_to C E tr w (store_and_go C E tr' w1)"
  by (auto simp: step_to_def)

lemma step_to_attempt:
  "xw_slot w1 = xw_slot w \<Longrightarrow> (\<And>a. r = Inr a \<Longrightarrow> step_to C E tr w (k a)) \<Longrightarrow> step_to C E tr w (attempt r w1 k)"
  by (cases r) (auto intro: step_to_failed)

lemma missing_state_Inr [simp]: "missing_state v = Inr x \<longleftrightarrow> v = Some x"
  by (cases v) (simp_all add: missing_state_def)

lemma advance_binding: "tr_cursor tr = Some cursor \<Longrightarrow> same_binding tr (advance_cursor E tr plan cursor f n)"
  by (auto simp: advance_cursor_def same_binding_def reset_cursor_def)

lemma consistent_phases:
  assumes "phase_consistent tr"
  shows "tr_phase tr = SourcePrepare \<Longrightarrow> tr_source_plan tr = None \<and> tr_cursor tr = None \<and> tr_receipt tr = None"
    and "tr_phase tr = DestinationPrepare \<Longrightarrow> tr_source_plan tr \<noteq> None \<and> tr_cursor tr = None \<and> tr_receipt tr = None"
    and "tr_phase tr = Copying \<Longrightarrow> tr_source_plan tr \<noteq> None \<and> tr_cursor tr \<noteq> None \<and> tr_receipt tr = None"
    and "tr_phase tr = Finalize \<Longrightarrow> tr_source_plan tr \<noteq> None \<and> tr_cursor tr = None \<and> tr_receipt tr = None"
    and "tr_phase tr \<in> {RecordSourceReceipt, CleanupSource, CleanupDestination} \<Longrightarrow>
      tr_source_plan tr \<noteq> None \<and> tr_cursor tr = None \<and> tr_receipt tr \<noteq> None"
  using assms by (auto simp: phase_consistent_def)

lemmas step_to_rules = step_to_attempt step_to_failed step_to_stored advance_binding

lemma source_prepare_step:
  "tr_source_plan tr = None \<Longrightarrow> step_to C E tr w (source_prepare C E tr w)"
  by (auto simp: source_prepare_def same_binding_def intro!: step_to_rules dest: at_source_eq split: prod.split)

lemma destination_prepare_step: "step_to C E tr w (destination_prepare C E tr w)"
  by (auto simp: destination_prepare_def same_binding_def reset_cursor_def intro!: step_to_rules
      dest: at_destination_eq split: prod.split)

lemma finalize_step: "tr_receipt tr = None \<Longrightarrow> step_to C E tr w (finalize C E tr w)"
  by (auto simp: finalize_def same_binding_def intro!: step_to_rules dest: at_destination_eq split: prod.split)

lemma record_source_receipt_step: "step_to C E tr w (record_source_receipt C E tr w)"
  by (auto simp: record_source_receipt_def same_binding_def intro!: step_to_rules dest: at_source_eq split: prod.split)

lemma cleanup_source_step: "step_to C E tr w (cleanup_source C E tr w)"
  by (auto simp: cleanup_source_def same_binding_def intro!: step_to_rules dest: at_source_eq split: prod.split)

lemma copy_one_backup_chunk_step: "step_to C E tr w (copy_one_backup_chunk C E tr w)"
  by (auto simp: copy_one_backup_chunk_def intro!: step_to_rules split: prod.split option.split;
      metis at_source_eq at_destination_eq)

lemma phases_step:
  assumes "phase_consistent tr" and "tr_phase tr \<noteq> CleanupDestination" and "transfer_step C E tr w = out"
  shows "\<exists>v. step_to C E tr w v \<and> out = continue v"
  using assms consistent_phases [OF assms(1)] source_prepare_step [of tr C E w] finalize_step [of tr C E w]
    destination_prepare_step [of C E tr w] record_source_receipt_step [of C E tr w] cleanup_source_step [of C E tr w]
    copy_one_backup_chunk_step [of C E tr w]
  by (cases "tr_phase tr") (auto simp: transfer_step_def simp del: split_paired_Ex)

lemma store_and_go_cases:
  assumes "store_and_go C E tr w = (r, w')"
  obtains (stored) "validate_transfer (tc_externals C) tr = Inr ()" "w' = w\<lparr>xw_slot := Some (Record tr)\<rparr>"
      "r = Inr tr \<or> (\<exists>e. r = Inl e)"
  | (kept) e where "w' = w" "r = Inl e"
proof (cases rule: store_transfer_cases [of "tc_externals C" "tc_size C" "it_store E" tr "xw_slot w"])
  case (stored path')
  then show thesis using that(1) assms by (simp add: store_and_go_def)
next
  case (failed e path')
  then show thesis using that(2) [of e] assms by (simp add: store_and_go_def)
next
  case (unsynced e path')
  then show thesis using that(1) assms by (auto simp: store_and_go_def)
qed

text \<open>What an iteration does to the journal.\<close>

lemma transfer_step_cases:
  assumes "transfer_step C E tr w = (r, w')" and "phase_consistent tr"
  obtains (failed) e where "r = Inl e" "xw_slot w' = xw_slot w"
  | (stored) tr' where "same_binding tr tr'" "validate_transfer (tc_externals C) tr' = Inr ()"
      "xw_slot w' = Some (Record tr')" "r = Inr (Continue tr') \<or> (\<exists>e. r = Inl e)"
  | (cleared) receipt where "tr_phase tr = CleanupDestination" "tr_receipt tr = Some receipt" "xw_slot w' = None"
      "r = Inr (Done receipt) \<or> (\<exists>e. r = Inl e)"
proof -
  have go: thesis if "step_to C E tr w out" and "(r, w') = continue out" for out
    using that(1) unfolding step_to_def
  proof (elim exE conjE disjE)
    fix w1 e
    assume "xw_slot w1 = xw_slot w" "out = (Inl e, w1)"
    then show thesis using that(2) failed by (simp add: continue_def)
  next
    fix w1 tr'
    assume w1: "xw_slot w1 = xw_slot w" and b: "same_binding tr tr'" and o: "out = store_and_go C E tr' w1"
    obtain v w2 where v: "store_and_go C E tr' w1 = (v, w2)" by force
    then have rw: "r = rbind v (\<lambda>tr. Inr (Continue tr))" "w' = w2"
      using that(2) o by (simp_all add: continue_def)
    show thesis
      by (cases rule: store_and_go_cases [OF v])
         (use rw w1 b stored failed in \<open>auto\<close>)
  qed
  show thesis
  proof (cases "tr_phase tr = CleanupDestination")
    case True
    obtain a w1 where d: "at_destination C E (backup_transfer_cleanup (tr_destination_cleanup_operation_id tr)
        (tr_deployment_id tr) (tr_transfer_operation_id tr)) w = (a, w1)" by force
    obtain v slot where c: "clear_transfer (it_store E) (xw_slot w1) = (v, slot)" by force
    have slot: "slot = xw_slot w1 \<and> (\<exists>e. v = Inl e) \<or> slot = None"
      using c by (auto simp: clear_transfer_def drop_one_def require_def split: commit.splits if_splits)
    show thesis
    proof (cases "\<exists>receipt. expect_cleaned a = Inr () \<and> tr_receipt tr = Some receipt")
      case ok: True
      then obtain receipt where rc: "expect_cleaned a = Inr ()" "tr_receipt tr = Some receipt" by blast
      have out: "r = rbind v (\<lambda>_. Inr (Done receipt))" "w' = w1\<lparr>xw_slot := slot\<rparr>"
        using assms(1) True d c rc by (simp_all add: transfer_step_def cleanup_destination_def missing_state_def)
      show thesis
        using slot
      proof (elim disjE conjE exE)
        fix e
        assume "slot = xw_slot w1" "v = Inl e"
        then show thesis using failed out at_destination_eq [OF d] by simp
      next
        assume "slot = None"
        then show thesis using cleared [OF True rc(2)] out by (cases v) auto
      qed
    next
      case False
      then have "w' = w1 \<and> (\<exists>e. r = Inl e)"
        using assms(1) True d
        by (cases "expect_cleaned a"; cases "tr_receipt tr")
           (auto simp: transfer_step_def cleanup_destination_def missing_state_def)
      then show thesis using failed at_destination_eq [OF d] by auto
    qed
  next
    case False
    then show thesis using go phases_step [OF assms(2) _ assms(1)] by blast
  qed
qed

end
