(* ===== verification/TransferSystem.thy ===== *)
theory TransferSystem
  imports TransferProofs
begin

text \<open>
  The transfer as a system: a controller that may stop at any point and be run again, two targets
  whose calls may fail or lose their answers at any point, and other operations of the targets in
  between. Fresh ids are ids nothing has used.
\<close>

section \<open>Reachable worlds\<close>

definition fixed_ids :: "TransferRecord \<Rightarrow> string list" where
  "fixed_ids tr =
     [tr_transfer_operation_id tr, tr_finalize_operation_id tr, tr_source_receipt_operation_id tr,
      tr_source_cleanup_operation_id tr, tr_destination_cleanup_operation_id tr]"

definition cursor_ids :: "TransferRecord \<Rightarrow> string list" where
  "cursor_ids tr = (case tr_cursor tr of None \<Rightarrow> [] | Some c \<Rightarrow> [cc_write_operation_id c])"

definition unanswered :: "backup_side \<Rightarrow> string list \<Rightarrow> bool" where
  "unanswered side ids \<longleftrightarrow> list_all (\<lambda>i. bs_answered side i = None) ids"

definition new_ids :: "transfer_ids \<Rightarrow> string list" where
  "new_ids ids = [ti_transfer ids, ti_finalize ids, ti_source_receipt ids, ti_source_cleanup ids,
     ti_destination_cleanup ids]"

definition fresh_ids :: "transfer_world \<Rightarrow> transfer_ids \<Rightarrow> bool" where
  "fresh_ids w ids \<longleftrightarrow>
     distinct (new_ids ids) \<and> unanswered (xw_source w) (new_ids ids) \<and> unanswered (xw_destination w) (new_ids ids)"

definition fresh_iteration :: "TransferRecord \<Rightarrow> transfer_world \<Rightarrow> iteration_env \<Rightarrow> bool" where
  "fresh_iteration tr w E \<longleftrightarrow>
     it_write_id E \<notin> set (fixed_ids tr @ cursor_ids tr) \<and> bs_answered (xw_destination w) (it_write_id E) = None"

text \<open>
  What another operation of a target leaves alone: the directories and ids of this transfer, and
  the manifest and the files of every published snapshot.
\<close>

definition snapshot_members :: "string list" where
  "snapshot_members = IMMUTABLE_MANIFEST_FILE # SNAPSHOT_NAMES"

definition keeps_snapshots :: "backup_side \<Rightarrow> backup_side \<Rightarrow> bool" where
  "keeps_snapshots a b \<longleftrightarrow>
     (\<forall>sid t. bs_snapshots a sid = Some t \<longrightarrow>
        (\<exists>t'. bs_snapshots b sid = Some t' \<and> list_all (\<lambda>n. t' n = t n) snapshot_members))"

definition undisturbed :: "externals \<Rightarrow> TransferRecord \<Rightarrow> backup_side \<Rightarrow> backup_side \<Rightarrow> bool" where
  "undisturbed X tr a b \<longleftrightarrow>
     (let operation = uuid_text X (tr_transfer_operation_id tr)
      in bs_exports b operation = bs_exports a operation \<and> bs_imports b operation = bs_imports a operation
       \<and> bs_bindings b operation = bs_bindings a operation \<and> bs_target_id b = bs_target_id a
       \<and> keeps_snapshots a b
       \<and> list_all (\<lambda>i. bs_answered b i = bs_answered a i) (fixed_ids tr @ cursor_ids tr))"

inductive transfer_reachable :: "transfer_codec \<Rightarrow> transfer_world \<Rightarrow> bool" for C where
  idle: "xw_slot w = None \<Longrightarrow> transfer_reachable C w"
| opened: "transfer_reachable C w \<Longrightarrow> fresh_ids w (cq_ids q) \<Longrightarrow> open_transfer C q (xw_slot w) = (r, slot)
    \<Longrightarrow> transfer_reachable C (w\<lparr>xw_slot := slot\<rparr>)"
| iterated: "transfer_reachable C w \<Longrightarrow> xw_slot w = Some (Record tr) \<Longrightarrow> fresh_iteration tr w E
    \<Longrightarrow> transfer_step C E tr w = (r, w') \<Longrightarrow> transfer_reachable C w'"
| elsewhere: "transfer_reachable C w \<Longrightarrow> xw_slot w = Some (Record tr)
    \<Longrightarrow> undisturbed (tc_externals C) tr (xw_source w) s \<Longrightarrow> undisturbed (tc_externals C) tr (xw_destination w) d
    \<Longrightarrow> transfer_reachable C (w\<lparr>xw_source := s, xw_destination := d\<rparr>)"

section \<open>The journal always loads\<close>

definition slot_valid :: "externals \<Rightarrow> transfer_slot \<Rightarrow> bool" where
  "slot_valid X slot \<longleftrightarrow> slot = None \<or> (\<exists>tr. slot = Some (Record tr) \<and> validate_transfer X tr = Inr ())"

lemma open_transfer_cases:
  assumes "open_transfer C q slot = (r, slot')"
  obtains (same) "slot' = slot" and "\<And>tr. r = Inr tr \<Longrightarrow> load_transfer (tc_externals C) slot = Inr (Some tr)"
  | (created) host destination where "slot = None"
      "slot' = Some (Record (TransferRecord_new (cq_ids q) (cq_deployment_id q) (cq_source_host_id q) host destination))"
      "validate_transfer (tc_externals C)
         (TransferRecord_new (cq_ids q) (cq_deployment_id q) (cq_source_host_id q) host destination) = Inr ()"
      "\<And>tr. r = Inr tr \<Longrightarrow>
         tr = TransferRecord_new (cq_ids q) (cq_deployment_id q) (cq_source_host_id q) host destination"
proof (cases "copy_binding (tc_registry C) q")
  case (Inl e)
  show thesis by (rule same) (use assms Inl in \<open>simp_all add: open_transfer_def\<close>)
next
  case ok: (Inr u)
  show thesis
  proof (cases "load_transfer (tc_externals C) slot")
    case (Inl e)
    show thesis by (rule same) (use assms Inl ok in \<open>simp_all add: open_transfer_def\<close>)
  next
    case e: (Inr existing)
    show thesis
    proof (cases "\<exists>d. host_by_alias (tc_registry C) (cq_registry_env q) (cq_registry q) (cq_destination_alias q)
        = Inr (Some d) \<and> host_host_id d \<noteq> cq_source_host_id q \<and> existing = None")
      case True
      then obtain d where d: "host_by_alias (tc_registry C) (cq_registry_env q) (cq_registry q)
          (cq_destination_alias q) = Inr (Some d)" "host_host_id d \<noteq> cq_source_host_id q" "existing = None"
        by (elim exE conjE) rule
      have slot: "slot = None"
        using e d(3) by (cases slot) (auto simp: load_transfer_def rbind_Inr_iff split: record_file.splits)
      let ?new = "TransferRecord_new (cq_ids q) (cq_deployment_id q) (cq_source_host_id q) (host_host_id d) (host_alias d)"
      obtain v s where st: "store_transfer (tc_externals C) (tc_size C) (cq_store q) ?new slot = (v, s)" by force
      have out: "slot' = s" "r = rbind v (\<lambda>_. Inr ?new)"
        using assms ok e d st by (simp_all add: open_transfer_def Let_def)
      show thesis
        by (cases rule: store_transfer_cases [of "tc_externals C" "tc_size C" "cq_store q" ?new slot])
           (rule created [OF slot] same; use st out in auto)+
    next
      case False
      show thesis
        by (rule same)
           (use assms ok e False in \<open>auto simp: open_transfer_def rbind_Inr_iff map_err_def
              split: option.splits if_splits sum.splits\<close>)
    qed
  qed
qed

lemma reachable_slot_valid: "transfer_reachable C w \<Longrightarrow> slot_valid (tc_externals C) (xw_slot w)"
proof (induction rule: transfer_reachable.induct)
  case (idle w)
  then show ?case by (simp add: slot_valid_def)
next
  case (opened w q r slot)
  show ?case
    by (cases rule: open_transfer_cases [OF opened.hyps(3)]) (use opened.IH in \<open>auto simp: slot_valid_def\<close>)
next
  case (iterated w tr E r w')
  then have "validate_transfer (tc_externals C) tr = Inr ()" by (simp add: slot_valid_def)
  then have "phase_consistent tr" by (rule validate_phase)
  with iterated.hyps(4) show ?case
    by (cases rule: transfer_step_cases) (use iterated.IH in \<open>auto simp: slot_valid_def\<close>)
next
  case (elsewhere w tr s d)
  then show ?case by simp
qed

end
