(* ===== verification/TransferSafety.thy ===== *)
theory TransferSafety
  imports TransferSystem
begin

text \<open>
  What the destination holds once the controller has a receipt: a published snapshot with the
  manifest the plan names, every file of it verified.
\<close>

section \<open>A published copy\<close>

definition holds_copy :: "backup_codec \<Rightarrow> backup_side \<Rightarrow> string \<Rightarrow> string \<Rightarrow> string \<Rightarrow> bool" where
  "holds_copy K side deployment_id snapshot_id manifest_sha256 \<longleftrightarrow>
     (\<exists>t x m. bs_snapshots side snapshot_id = Some t
        \<and> load_manifest_at K True (t IMMUTABLE_MANIFEST_FILE) = Inr (Some x)
        \<and> sm_manifest_sha256 x = manifest_sha256
        \<and> SnapshotManifest_validate (bk_externals K) (bk_hash K) m = Inr ()
        \<and> sm_manifest_sha256 m = manifest_sha256 \<and> sm_snapshot_id m = snapshot_id
        \<and> sm_deployment_id m = deployment_id \<and> verify_snapshot_files K t m)"

lemma holds_copyI:
  "bs_snapshots side (sm_snapshot_id m) = Some t \<Longrightarrow> load_manifest_at K reads (t IMMUTABLE_MANIFEST_FILE) = Inr (Some x)
   \<Longrightarrow> sm_manifest_sha256 x = sm_manifest_sha256 m
   \<Longrightarrow> load_manifest_at K reads' e = Inr (Some m) \<Longrightarrow> verify_snapshot_files K t m
   \<Longrightarrow> holds_copy K side (sm_deployment_id m) (sm_snapshot_id m) (sm_manifest_sha256 m)"
  unfolding holds_copy_def
  by (intro exI [of _ t] exI [of _ x] exI [of _ m])
     (auto simp: load_manifest_at_def split: option.splits file_entry.splits if_splits sum.splits)

lemma verify_snapshot_files_cong:
  "list_all (\<lambda>n. t' n = t n) snapshot_members \<Longrightarrow> verify_snapshot_files K t m \<Longrightarrow> verify_snapshot_files K t' m"
  by (auto simp: verify_snapshot_files_def verify_file_def list_all_iff snapshot_members_def)

lemma holds_copy_kept:
  assumes "holds_copy K a d sid h" and "keeps_snapshots a b"
  shows "holds_copy K b d sid h"
proof -
  from assms(1) obtain t x m where t: "bs_snapshots a sid = Some t"
      "load_manifest_at K True (t IMMUTABLE_MANIFEST_FILE) = Inr (Some x)" "sm_manifest_sha256 x = h"
      "SnapshotManifest_validate (bk_externals K) (bk_hash K) m = Inr ()" "sm_manifest_sha256 m = h"
      "sm_snapshot_id m = sid" "sm_deployment_id m = d" "verify_snapshot_files K t m"
    unfolding holds_copy_def by (elim exE conjE) rule
  from assms(2) t(1) obtain t' where t': "bs_snapshots b sid = Some t'" "list_all (\<lambda>n. t' n = t n) snapshot_members"
    unfolding keeps_snapshots_def by metis
  have "t' IMMUTABLE_MANIFEST_FILE = t IMMUTABLE_MANIFEST_FILE"
    using t'(2) by (simp add: snapshot_members_def)
  then show ?thesis
    unfolding holds_copy_def
    by (intro exI [of _ t'] exI [of _ x] exI [of _ m]) (use t t' in \<open>simp add: verify_snapshot_files_cong\<close>)
qed

section \<open>What a handler keeps\<close>

lemma keeps_same: "bs_snapshots b = bs_snapshots a \<Longrightarrow> keeps_snapshots a b"
  by (simp add: keeps_snapshots_def list_all_iff)

lemma keeps_refl [simp]: "keeps_snapshots a a"
  by (rule keeps_same) (rule refl)

lemma keeps_trans: "keeps_snapshots a b \<Longrightarrow> keeps_snapshots b c \<Longrightarrow> keeps_snapshots a c"
  unfolding keeps_snapshots_def list_all_iff by metis

text \<open>The part of a scope no handler writes.\<close>

definition same_frame :: "backup_side \<Rightarrow> backup_side \<Rightarrow> bool" where
  "same_frame a b \<longleftrightarrow>
     bs_answered b = bs_answered a \<and> bs_target_id b = bs_target_id a \<and> bs_state b = bs_state a \<and> keeps_snapshots a b"

lemma same_frame_refl [simp]: "same_frame a a"
  by (simp add: same_frame_def)

lemma fill_export_frame:
  "fill_export K E m op side = (r, s) \<Longrightarrow> s = side\<lparr>bs_exports := bs_exports s\<rparr>"
  by (auto simp: fill_export_def Let_def split: prod.splits option.splits if_splits)

lemma prepare_export_frame:
  assumes "prepare_export K E state i side = (r, s)"
  shows "s = side\<lparr>bs_exports := bs_exports s\<rparr>"
proof (cases "transfer_name K i")
  case (Inr operation)
  show ?thesis
  proof (cases "load_latest K (he_reads E) side")
    case latest: (Inr latest)
    obtain removed exports where rm: "remove_tree (he_remove E) operation (bs_exports side) = (removed, exports)"
      by force
    obtain m where "latest = Some m \<and> sm_deployment_id m = ds_deployment_id state \<or> s = side"
      using assms Inr latest by (cases latest) (auto simp: prepare_export_def split: if_splits)
    then show ?thesis
    proof (elim disjE conjE)
      assume m: "latest = Some m" "sm_deployment_id m = ds_deployment_id state"
      obtain r' s' where f: "fill_export K E m operation (side\<lparr>bs_exports := exports\<rparr>) = (r', s')" by force
      have "s = side\<lparr>bs_exports := exports\<rparr> \<or> s = s'"
        using assms Inr latest m rm f by (auto simp: prepare_export_def Let_def split: if_splits)
      then show ?thesis using fill_export_frame [OF f] by (elim disjE; cases s') auto
    qed simp
  qed (use assms Inr in \<open>simp add: prepare_export_def\<close>)
qed (use assms in \<open>simp add: prepare_export_def\<close>)

lemma prepare_import_frame:
  "prepare_import K E d i side = (r, s) \<Longrightarrow> s = side\<lparr>bs_imports := bs_imports s\<rparr>"
  by (cases "transfer_name K i") (auto simp: prepare_import_def split: prod.splits if_splits)

lemma write_transfer_chunk_frame:
  "write_transfer_chunk K E i name offset bytes side = (r, s) \<Longrightarrow> s = side\<lparr>bs_imports := bs_imports s\<rparr>"
  by (cases "transfer_name K i")
     (auto simp: write_transfer_chunk_def Let_def
       split: prod.splits option.splits file_entry.splits commit.splits if_splits)

lemma cleanup_transfer_frame:
  "cleanup_transfer K E i side = (r, s) \<Longrightarrow>
   s = side\<lparr>bs_exports := bs_exports s, bs_imports := bs_imports s, bs_bindings := bs_bindings s\<rparr>"
  by (cases "transfer_name K i") (auto simp: cleanup_transfer_def Let_def split: prod.splits if_splits)

lemma publish_cases:
  assumes "publish K E m operation side = (r, s)"
  obtains (kept) "bs_snapshots s = bs_snapshots side" "same_frame side s"
      "r = Inr () \<Longrightarrow> \<exists>t x. bs_snapshots s (sm_snapshot_id m) = Some t
         \<and> load_manifest_at K (he_reads E) (t IMMUTABLE_MANIFEST_FILE) = Inr (Some x)
         \<and> sm_manifest_sha256 x = sm_manifest_sha256 m \<and> verify_snapshot_files K t m"
  | (added) t where "bs_imports side operation = Some t" "same_frame side s"
      "bs_snapshots s = (bs_snapshots side)(sm_snapshot_id m \<mapsto> t)" "verify_snapshot_files K t m"
proof (cases "bs_snapshots side (sm_snapshot_id m)")
  case (Some final)
  have "bs_snapshots s = bs_snapshots side \<and> bs_answered s = bs_answered side \<and> bs_target_id s = bs_target_id side
      \<and> bs_state s = bs_state side \<and> (r = Inr () \<longrightarrow> (\<exists>x.
        load_manifest_at K (he_reads E) (final IMMUTABLE_MANIFEST_FILE) = Inr (Some x)
        \<and> sm_manifest_sha256 x = sm_manifest_sha256 m \<and> verify_snapshot_files K final m))"
    using assms Some
    by (cases "load_manifest_at K (he_reads E) (final IMMUTABLE_MANIFEST_FILE)")
       (auto simp: publish_def Let_def require_def split: option.splits prod.splits if_splits)
  then show thesis
    by (intro kept) (use Some in \<open>auto simp: same_frame_def keeps_same\<close>)
next
  case None
  show thesis
  proof (cases "\<exists>t. bs_imports side operation = Some t \<and> verify_snapshot_files K t m
      \<and> bs_snapshots s = (bs_snapshots side)(sm_snapshot_id m \<mapsto> t)")
    case True
    then obtain t where t: "bs_imports side operation = Some t" "verify_snapshot_files K t m"
      "bs_snapshots s = (bs_snapshots side)(sm_snapshot_id m \<mapsto> t)" by (elim exE conjE) rule
    have "bs_answered s = bs_answered side \<and> bs_target_id s = bs_target_id side \<and> bs_state s = bs_state side"
      using assms None t(1) by (auto simp: publish_def Let_def split: prod.splits if_splits)
    then have "same_frame side s"
      using None t(3) by (auto simp: same_frame_def keeps_snapshots_def list_all_iff)
    then show thesis using added t by blast
  next
    case False
    then have "bs_snapshots s = bs_snapshots side \<and> bs_answered s = bs_answered side \<and> bs_target_id s = bs_target_id side
        \<and> bs_state s = bs_state side \<and> r \<noteq> Inr ()"
      using assms None
      by (cases "bs_imports side operation") (auto simp: publish_def Let_def split: prod.splits if_splits)
    then show thesis
      by (intro kept) (auto simp: same_frame_def keeps_same)
  qed
qed

text \<open>A successful finalisation: the destination holds the copy its receipt names.\<close>

lemma finalize_import_holds:
  assumes "finalize_import K E dep tid h src dst side = (Inr rc, s)"
  shows "holds_copy K s dep (oh_snapshot_id rc) h \<and> same_frame side s"
proof -
  obtain operation where op: "transfer_name K tid = Inr operation"
    using assms by (cases "transfer_name K tid") (auto simp: finalize_import_def)
  define entry where "entry = (case bs_imports side operation of
      Some t \<Rightarrow> t IMMUTABLE_MANIFEST_FILE | None \<Rightarrow> bs_bindings side operation)"
  obtain m where m: "load_manifest_at K (he_reads E) entry = Inr (Some m)"
      "sm_deployment_id m = dep" "sm_manifest_sha256 m = h"
    using assms by (auto simp: finalize_import_def op attempt_Inr simp flip: entry_def split: option.splits if_splits)
  obtain r s' where p: "publish K E m operation side = (r, s')" by force
  have r: "r = Inr ()" "s' = s" "oh_snapshot_id rc = sm_snapshot_id m"
    using assms m p by (auto simp: finalize_import_def op rbind_Inr_iff simp flip: entry_def)
  from p show ?thesis
  proof (cases rule: publish_cases)
    case kept
    then obtain t x where t: "bs_snapshots s (sm_snapshot_id m) = Some t"
        "load_manifest_at K (he_reads E) (t IMMUTABLE_MANIFEST_FILE) = Inr (Some x)"
        "sm_manifest_sha256 x = sm_manifest_sha256 m" "verify_snapshot_files K t m"
      using r by metis
    show ?thesis
      using holds_copyI [OF t(1-3) m(1) t(4)] kept r m by simp
  next
    case (added t)
    then have e: "entry = t IMMUTABLE_MANIFEST_FILE" by (simp add: entry_def)
    have "holds_copy K s (sm_deployment_id m) (sm_snapshot_id m) (sm_manifest_sha256 m)"
      by (rule holds_copyI [where t = t and x = m]) (use added r m(1) e in simp_all)
    then show ?thesis using added r m by simp
  qed
qed

lemma finalize_import_frame:
  assumes "finalize_import K E dep tid h src dst side = (r, s)"
  shows "same_frame side s"
proof (cases "transfer_name K tid")
  case (Inr operation)
  define entry where "entry = (case bs_imports side operation of
      Some t \<Rightarrow> t IMMUTABLE_MANIFEST_FILE | None \<Rightarrow> bs_bindings side operation)"
  show ?thesis
  proof (cases "\<exists>m. load_manifest_at K (he_reads E) entry = Inr (Some m) \<and> sm_deployment_id m = dep
      \<and> sm_manifest_sha256 m = h")
    case True
    then obtain m where m: "load_manifest_at K (he_reads E) entry = Inr (Some m)" "sm_deployment_id m = dep"
      "sm_manifest_sha256 m = h" by (elim exE conjE) rule
    obtain r' s' where p: "publish K E m operation side = (r', s')" by force
    have "s' = s"
      using assms m p by (simp add: finalize_import_def Inr flip: entry_def)
    then show ?thesis by (cases rule: publish_cases [OF p]) simp_all
  next
    case False
    then have "s = side"
      using assms by (cases "load_manifest_at K (he_reads E) entry")
        (auto simp: finalize_import_def Inr simp flip: entry_def split: option.splits if_splits)
    then show ?thesis by simp
  qed
qed (use assms in \<open>simp add: finalize_import_def\<close>)

lemma record_off_host_copy_frame:
  assumes "record_off_host_copy K E receipt side = (r, s)"
  shows "same_frame side s"
proof (cases "uuid_version (bk_externals K) (oh_snapshot_id receipt) = None")
  case False
  define sid where "sid = uuid_text (bk_externals K) (oh_snapshot_id receipt)"
  define directory where "directory = entries (bs_snapshots side sid)"
  have ev: "same_frame side (t\<lparr>bs_evidence := e\<rparr>)" if "same_frame side t" for t e
    using that by (simp add: same_frame_def keeps_snapshots_def)
  obtain ok d where d: "atomic_write (he_receipt E) OFF_HOST_RECEIPT_FILE (Regular (bk_receipt_json K receipt)) directory
      = (ok, d)" by force
  have dd: "d = directory \<or> d = directory(OFF_HOST_RECEIPT_FILE \<mapsto> Regular (bk_receipt_json K receipt))"
    using d by (auto simp: atomic_write_def split: commit.splits)
  define s1 where "s1 = side\<lparr>bs_snapshots := (bs_snapshots side)(sid \<mapsto> d)\<rparr>"
  have "same_frame side s1"
    using dd unfolding same_frame_def keeps_snapshots_def s1_def directory_def
    by (auto simp: entries_def snapshot_members_def OFF_HOST_RECEIPT_FILE_def IMMUTABLE_MANIFEST_FILE_def
        SNAPSHOT_NAMES_def)
  moreover have "s = side \<or> s = s1 \<or> (\<exists>e. s = s1\<lparr>bs_evidence := e\<rparr>)"
    using assms False d
    by (auto simp: record_off_host_copy_def Let_def attempt_def simp flip: sid_def directory_def s1_def
        split: sum.splits option.splits if_splits prod.splits)
  ultimately show ?thesis using ev by auto
qed (use assms in \<open>simp add: record_off_host_copy_def\<close>)

section \<open>What a call keeps\<close>

lemma same_frame_upd [simp]:
  "same_frame a (a\<lparr>bs_exports := x\<rparr>)" "same_frame a (a\<lparr>bs_imports := x\<rparr>)"
  "same_frame a (a\<lparr>bs_exports := x, bs_imports := y, bs_bindings := z\<rparr>)"
  by (simp_all add: same_frame_def keeps_same)

lemma framed: "(\<And>r s. f = (r, s) \<Longrightarrow> same_frame a s) \<Longrightarrow> same_frame a (snd f)"
  by (cases f) simp

lemma handler_frames [simp]:
  "same_frame side (snd (prepare_export K E state i side))"
  "same_frame side (snd (prepare_import K E d i side))"
  "same_frame side (snd (write_transfer_chunk K E i name offset bytes side))"
  "same_frame side (snd (cleanup_transfer K E i side))"
  "same_frame side (snd (finalize_import K E d i h src dst side))"
  "same_frame side (snd (record_off_host_copy K E receipt side))"
  by (rule framed, drule prepare_export_frame prepare_import_frame write_transfer_chunk_frame cleanup_transfer_frame,
      erule ssubst, simp)+
     (rule framed, erule finalize_import_frame record_off_host_copy_frame)+

lemma dispatch_frame: "dispatch_transfer K E op side = (r, s) \<Longrightarrow> same_frame side s"
proof -
  have "same_frame side (snd (dispatch_transfer K E op side))"
    by (cases "ho_operation op"; cases "bs_state side")
       (simp_all add: dispatch_transfer_def Let_def attempt_def split: if_splits)
  then show "dispatch_transfer K E op side = (r, s) \<Longrightarrow> same_frame side s" by simp
qed

lemma execute_keeps:
  assumes "execute_host_operation K E op side = (a, s)"
  shows "keeps_snapshots side s \<and> bs_target_id s = bs_target_id side
    \<and> (\<forall>i. i \<noteq> ho_operation_id op \<longrightarrow> bs_answered s i = bs_answered side i)"
  using assms
proof (cases rule: execute_cases)
  case idle
  then show ?thesis by simp
next
  case (read r s')
  then show ?thesis using dispatch_frame [OF read(2)] by (simp add: same_frame_def)
next
  case (ran r s')
  have "same_frame side s'" by (rule dispatch_frame [OF ran(2)])
  moreover have "keeps_snapshots side (settled_with s' op (answer_of op r)) \<longleftrightarrow> keeps_snapshots side s'"
    by (simp add: keeps_snapshots_def)
  ultimately show ?thesis using ran(4) by (auto simp: same_frame_def)
qed

section \<open>The destination's answer to the finalisation\<close>

definition finalize_operation :: "TransferRecord \<Rightarrow> string \<Rightarrow> HostOperation" where
  "finalize_operation tr manifest_sha256 =
     backup_import_finalize (tr_finalize_operation_id tr) (tr_deployment_id tr) (tr_transfer_operation_id tr)
       manifest_sha256 (tr_source_host_id tr) (tr_destination_host_id tr)"

lemma finalize_operation_simps [simp]:
  "ho_operation_id (finalize_operation tr h) = tr_finalize_operation_id tr"
  "ho_deployment_id (finalize_operation tr h) = Some (tr_deployment_id tr)"
  "ho_operation (finalize_operation tr h) =
     BackupImportFinalize (tr_transfer_operation_id tr) h (tr_source_host_id tr) (tr_destination_host_id tr)"
  by (simp_all add: finalize_operation_def backup_import_finalize_def host_operation_def)

lemma finalize_operation_inj: "finalize_operation tr h = finalize_operation tr h' \<Longrightarrow> h = h'"
  by (drule arg_cong [where f = ho_operation]) simp

text \<open>A receipt the destination has answered under the finalisation's id names a copy it holds.\<close>

definition answers_hold :: "backup_codec \<Rightarrow> backup_side \<Rightarrow> TransferRecord \<Rightarrow> bool" where
  "answers_hold K side tr \<longleftrightarrow>
     (\<forall>op result receipt. bs_answered side (tr_finalize_operation_id tr) = Some (op, result)
        \<and> hr_outcome result = Completed (ImportFinalized receipt) \<longrightarrow>
        (\<exists>h. op = finalize_operation tr h \<and> holds_copy K side (tr_deployment_id tr) (oh_snapshot_id receipt) h))"

lemma answers_holdD:
  "answers_hold K side tr \<Longrightarrow> bs_answered side (tr_finalize_operation_id tr) = Some (finalize_operation tr h, result)
   \<Longrightarrow> hr_outcome result = Completed (ImportFinalized receipt)
   \<Longrightarrow> holds_copy K side (tr_deployment_id tr) (oh_snapshot_id receipt) h"
  unfolding answers_hold_def by (metis finalize_operation_inj)

lemma answers_hold_kept:
  assumes "answers_hold K a tr" and "keeps_snapshots a b"
    and "bs_answered b (tr_finalize_operation_id tr) = bs_answered a (tr_finalize_operation_id tr)"
  shows "answers_hold K b tr"
  using assms unfolding answers_hold_def by (metis holds_copy_kept)

lemma answers_hold_binding: "same_binding tr tr' \<Longrightarrow> answers_hold K side tr' \<longleftrightarrow> answers_hold K side tr"
  by (cases tr; cases tr') (simp add: answers_hold_def same_binding_def finalize_operation_def)

lemma finalize_dispatch:
  assumes "dispatch_transfer K E (finalize_operation tr h) side = (Inr body, s)" and "body = ImportFinalized receipt"
  shows "holds_copy K s (tr_deployment_id tr) (oh_snapshot_id receipt) h"
  using assms finalize_import_holds
  by (fastforce simp: dispatch_transfer_def Let_def completed_Inr split: if_splits)

lemma expect_import_receipt_Inr: "expect_import_receipt a = Inr receipt \<longleftrightarrow>
    (\<exists>r. a = Some r \<and> hr_outcome r = Completed (ImportFinalized receipt))"
proof -
  have "(case b of ImportFinalized r \<Rightarrow> Some r | _ \<Rightarrow> None) = Some receipt \<longleftrightarrow> b = ImportFinalized receipt" for b
    by (cases b) auto
  then show ?thesis by (simp add: expect_import_receipt_def expect_body_Inr)
qed

lemma finalize_call:
  assumes "execute_host_operation K E (finalize_operation tr h) side = (a, s)" and "answers_hold K side tr"
  shows "answers_hold K s tr"
    and "expect_import_receipt a = Inr receipt \<Longrightarrow> holds_copy K s (tr_deployment_id tr) (oh_snapshot_id receipt) h"
proof -
  have settled: "holds_copy K (settled_with s' op res) d sid h \<longleftrightarrow> holds_copy K s' d sid h" for s' op res d sid h
    by (simp add: holds_copy_def)
  have "answers_hold K s tr \<and> (\<forall>r receipt. a = Some r \<and> hr_outcome r = Completed (ImportFinalized receipt) \<longrightarrow>
      holds_copy K s (tr_deployment_id tr) (oh_snapshot_id receipt) h)"
    using assms(1)
  proof (cases rule: execute_cases)
    case idle
    then show ?thesis using assms(2) answers_holdD [OF assms(2)] by fastforce
  next
    case (read r s')
    then show ?thesis by simp
  next
    case (ran r s')
    have f: "same_frame side s'" by (rule dispatch_frame [OF ran(2)])
    have kept: "answers_hold K s' tr"
      by (rule answers_hold_kept [OF assms(2)]) (use f in \<open>simp_all add: same_frame_def\<close>)
    have new: "holds_copy K s' (tr_deployment_id tr) (oh_snapshot_id receipt) h"
      if "hr_outcome (answer_of (finalize_operation tr h) r) = Completed (ImportFinalized receipt)" for receipt
      using that finalize_dispatch [of K "te_handler E" tr h side _ s' receipt] ran(2) by (simp add: answer_of_Completed)
    have "answers_hold K (settled_with s' (finalize_operation tr h) (answer_of (finalize_operation tr h) r)) tr"
      unfolding answers_hold_def using new by (auto simp: settled)
    then show ?thesis using ran(4) kept new by (auto simp: settled)
  qed
  then show "answers_hold K s tr"
    and "expect_import_receipt a = Inr receipt \<Longrightarrow> holds_copy K s (tr_deployment_id tr) (oh_snapshot_id receipt) h"
    by (auto simp: expect_import_receipt_Inr)
qed

lemma other_call:
  assumes "execute_host_operation K E op side = (a, s)" and "answers_hold K side tr"
    and "ho_operation_id op \<noteq> tr_finalize_operation_id tr"
  shows "answers_hold K s tr"
  using answers_hold_kept [OF assms(2)] execute_keeps [OF assms(1)] assms(3) by auto

section \<open>One iteration\<close>

definition safe_record :: "transfer_codec \<Rightarrow> transfer_world \<Rightarrow> TransferRecord \<Rightarrow> bool" where
  "safe_record C w tr \<longleftrightarrow>
     distinct (fixed_ids tr) \<and> set (cursor_ids tr) \<inter> set (fixed_ids tr) = {}
     \<and> answers_hold (tc_target C) (xw_destination w) tr
     \<and> (\<forall>receipt. tr_receipt tr = Some receipt \<longrightarrow> (\<exists>plan. tr_source_plan tr = Some plan
          \<and> holds_copy (tc_target C) (xw_destination w) (tr_deployment_id tr) (oh_snapshot_id receipt)
              (tp_manifest_sha256 plan)))"

text \<open>What a phase hands to the store, and in which world.\<close>

definition reaches :: "transfer_codec \<Rightarrow> TransferRecord \<Rightarrow> transfer_world \<Rightarrow> transfer_world \<Rightarrow> bool" where
  "reaches C tr w w1 \<longleftrightarrow> xw_slot w1 = xw_slot w \<and> keeps_snapshots (xw_destination w) (xw_destination w1)
     \<and> answers_hold (tc_target C) (xw_destination w1) tr"

definition hands_on :: "transfer_codec \<Rightarrow> iteration_env \<Rightarrow> TransferRecord \<Rightarrow> transfer_world \<Rightarrow> TransferRecord \<Rightarrow> bool" where
  "hands_on C E tr w tr' \<longleftrightarrow>
     same_binding tr tr' \<and> (tr_cursor tr' = tr_cursor tr \<or> cursor_ids tr' = [] \<or> cursor_ids tr' = [it_write_id E])
     \<and> (tr_receipt tr' = tr_receipt tr \<or> (\<exists>plan receipt. tr_receipt tr' = Some receipt \<and> tr_source_plan tr = Some plan
          \<and> holds_copy (tc_target C) (xw_destination w) (tr_deployment_id tr) (oh_snapshot_id receipt)
              (tp_manifest_sha256 plan)))"

definition safe_step ::
  "transfer_codec \<Rightarrow> iteration_env \<Rightarrow> TransferRecord \<Rightarrow> transfer_world
   \<Rightarrow> (transfer_error + TransferRecord) \<times> transfer_world \<Rightarrow> bool" where
  "safe_step C E tr w out \<longleftrightarrow>
     (\<exists>w1. reaches C tr w w1 \<and>
        ((\<exists>e. out = (Inl e, w1)) \<or> (\<exists>tr'. out = store_and_go C E tr' w1 \<and> hands_on C E tr w1 tr')))"

lemma safe_step_failed: "reaches C tr w w1 \<Longrightarrow> safe_step C E tr w (Inl e, w1)"
  unfolding safe_step_def by (intro exI [of _ w1]) simp

lemma safe_step_stored:
  "reaches C tr w w1 \<Longrightarrow> hands_on C E tr w1 tr' \<Longrightarrow> safe_step C E tr w (store_and_go C E tr' w1)"
  unfolding safe_step_def by (intro exI [of _ w1] conjI disjI2 exI [of _ tr']) simp_all

lemma safe_step_attempt:
  "reaches C tr w w1 \<Longrightarrow> (\<And>a. r = Inr a \<Longrightarrow> safe_step C E tr w (k a)) \<Longrightarrow> safe_step C E tr w (attempt r w1 k)"
  by (cases r) (auto intro: safe_step_failed)

lemma reaches_source: "reaches C tr w w0 \<Longrightarrow> at_source C E op w0 = (a, w1) \<Longrightarrow> reaches C tr w w1"
  by (auto simp: reaches_def at_source_def split: prod.splits)

lemma reaches_destination:
  assumes "at_destination C E op w0 = (a, w1)" and "reaches C tr w w0" and "ho_operation_id op \<noteq> tr_finalize_operation_id tr"
  shows "reaches C tr w w1"
proof -
  obtain d where d: "execute_host_operation (tc_target C) (it_destination E) op (xw_destination w0) = (a, d)"
      "w1 = w0\<lparr>xw_destination := d\<rparr>"
    using assms(1) by (auto simp: at_destination_def split: prod.splits)
  have "keeps_snapshots (xw_destination w) d"
    by (rule keeps_trans [of _ "xw_destination w0"])
       (use assms(2) execute_keeps [OF d(1)] in \<open>simp_all add: reaches_def\<close>)
  then show ?thesis
    using other_call [OF d(1) _ assms(3)] assms(2) d(2) by (simp add: reaches_def)
qed

lemma reaches_finalize:
  assumes "at_destination C E (finalize_operation tr h) w0 = (a, w1)" and "reaches C tr w w0"
  shows "reaches C tr w w1"
    and "expect_import_receipt a = Inr receipt \<Longrightarrow>
      holds_copy (tc_target C) (xw_destination w1) (tr_deployment_id tr) (oh_snapshot_id receipt) h"
proof -
  obtain d where d: "execute_host_operation (tc_target C) (it_destination E) (finalize_operation tr h)
      (xw_destination w0) = (a, d)" "w1 = w0\<lparr>xw_destination := d\<rparr>"
    using assms(1) by (auto simp: at_destination_def split: prod.splits)
  have a0: "answers_hold (tc_target C) (xw_destination w0) tr"
    using assms(2) by (simp add: reaches_def)
  have "keeps_snapshots (xw_destination w) d"
    by (rule keeps_trans [of _ "xw_destination w0"])
       (use assms(2) execute_keeps [OF d(1)] in \<open>simp_all add: reaches_def\<close>)
  then show "reaches C tr w w1"
    using finalize_call(1) [OF d(1) a0] assms(2) d(2) by (simp add: reaches_def)
  show "expect_import_receipt a = Inr receipt \<Longrightarrow>
      holds_copy (tc_target C) (xw_destination w1) (tr_deployment_id tr) (oh_snapshot_id receipt) h"
    using finalize_call(2) [OF d(1) a0] d(2) by simp
qed

lemma reaches_start: "answers_hold (tc_target C) (xw_destination w) tr \<Longrightarrow> reaches C tr w w"
  by (simp add: reaches_def)

lemmas operation_id_simps =
  backup_export_prepare_def backup_import_prepare_def backup_transfer_read_def backup_transfer_write_def
  backup_offhost_record_def backup_transfer_cleanup_def host_operation_def

lemma ids_apart:
  assumes "safe_record C w tr"
  shows "tr_transfer_operation_id tr \<noteq> tr_finalize_operation_id tr"
    and "tr_destination_cleanup_operation_id tr \<noteq> tr_finalize_operation_id tr"
    and "tr_cursor tr = Some c \<Longrightarrow> cc_write_operation_id c \<noteq> tr_finalize_operation_id tr"
    and "reaches C tr w w"
  using assms by (auto simp: safe_record_def fixed_ids_def cursor_ids_def intro: reaches_start)

lemmas safe_step_rules = safe_step_attempt safe_step_failed safe_step_stored

lemma source_prepare_safe:
  assumes "safe_record C w tr" and "tr_source_plan tr = None"
  shows "safe_step C E tr w (source_prepare C E tr w)"
proof -
  obtain a w1 where d: "at_source C E (backup_export_prepare (tr_transfer_operation_id tr) (tr_deployment_id tr)) w
      = (a, w1)" by force
  show ?thesis
    using reaches_source [OF ids_apart(4) [OF assms(1)] d] assms(2)
    by (auto simp: source_prepare_def d hands_on_def same_binding_def intro!: safe_step_rules)
qed

lemma destination_prepare_safe:
  assumes "safe_record C w tr"
  shows "safe_step C E tr w (destination_prepare C E tr w)"
proof -
  obtain a w1 where d: "at_destination C E (backup_import_prepare (tr_transfer_operation_id tr) (tr_deployment_id tr)) w
      = (a, w1)" by force
  have "reaches C tr w w1"
    by (rule reaches_destination [OF d ids_apart(4) [OF assms]]) (use ids_apart(1) [OF assms] in \<open>simp add: operation_id_simps\<close>)
  then show ?thesis
    by (auto simp: destination_prepare_def d hands_on_def same_binding_def cursor_ids_def reset_cursor_def intro!: safe_step_rules)
qed

lemma advance_hands_on: "tr_cursor tr = Some cursor \<Longrightarrow> hands_on C E tr w (advance_cursor E tr plan cursor f n)"
  by (auto simp: hands_on_def advance_binding advance_cursor_def cursor_ids_def reset_cursor_def)
     (auto simp: same_binding_def)

lemma copy_one_backup_chunk_safe:
  assumes "safe_record C w tr"
  shows "safe_step C E tr w (copy_one_backup_chunk C E tr w)"
proof (cases "\<exists>plan cursor. tr_source_plan tr = Some plan \<and> tr_cursor tr = Some cursor
    \<and> cc_file_index cursor < length (tp_files plan)")
  case True
  then obtain plan cursor where p: "tr_source_plan tr = Some plan" "tr_cursor tr = Some cursor"
    "cc_file_index cursor < length (tp_files plan)" by (elim exE conjE) rule
  define f where "f = tp_files plan ! cc_file_index cursor"
  obtain a w1 where r: "at_source C E (backup_transfer_read (cc_read_operation_id cursor) (tr_deployment_id tr)
      (tr_transfer_operation_id tr) (sf_path f) (cc_offset cursor)) w = (a, w1)" by force
  have w1: "reaches C tr w w1" by (rule reaches_source [OF ids_apart(4) [OF assms] r])
  have wr: "reaches C tr w x" if "at_destination C E (backup_transfer_write (cc_write_operation_id cursor)
      (tr_deployment_id tr) (tr_transfer_operation_id tr) chunk) w1 = (y, x)" for chunk x y
    by (rule reaches_destination [OF that w1]) (use ids_apart(3) [OF assms p(2)] in \<open>simp add: operation_id_simps\<close>)
  show ?thesis
    using w1 p(2) by (auto simp: copy_one_backup_chunk_def p missing_state_def r advance_hands_on simp flip: f_def
        intro!: safe_step_rules split: prod.split option.split dest: wr)
next
  case False
  then show ?thesis
    by (cases "tr_source_plan tr"; cases "tr_cursor tr")
       (auto simp: copy_one_backup_chunk_def missing_state_def intro!: safe_step_failed ids_apart(4) [OF assms])
qed

lemma finalize_safe:
  assumes "safe_record C w tr" and "tr_receipt tr = None"
  shows "safe_step C E tr w (finalize C E tr w)"
proof (cases "tr_source_plan tr")
  case None
  then show ?thesis by (simp add: finalize_def missing_state_def safe_step_failed ids_apart(4) [OF assms(1)])
next
  case (Some plan)
  obtain a w1 where d: "at_destination C E (finalize_operation tr (tp_manifest_sha256 plan)) w = (a, w1)" by force
  note w1 = reaches_finalize [OF d ids_apart(4) [OF assms(1)]]
  show ?thesis
    using w1 assms(2) by (auto simp: finalize_def Some missing_state_def d hands_on_def same_binding_def cursor_ids_def
        simp flip: finalize_operation_def intro!: safe_step_rules)
qed

lemma record_source_receipt_safe:
  assumes "safe_record C w tr"
  shows "safe_step C E tr w (record_source_receipt C E tr w)"
proof (cases "tr_receipt tr")
  case None
  then show ?thesis by (simp add: record_source_receipt_def missing_state_def safe_step_failed ids_apart(4) [OF assms])
next
  case (Some receipt)
  obtain a w1 where d: "at_source C E (backup_offhost_record (tr_source_receipt_operation_id tr) (tr_deployment_id tr)
      receipt) w = (a, w1)" by force
  show ?thesis
    using reaches_source [OF ids_apart(4) [OF assms] d] Some
    by (auto simp: record_source_receipt_def missing_state_def d hands_on_def same_binding_def intro!: safe_step_rules)
qed

lemma cleanup_source_safe:
  assumes "safe_record C w tr"
  shows "safe_step C E tr w (cleanup_source C E tr w)"
proof -
  obtain a w1 where d: "at_source C E (backup_transfer_cleanup (tr_source_cleanup_operation_id tr)
      (tr_deployment_id tr) (tr_transfer_operation_id tr)) w = (a, w1)" by force
  show ?thesis
    using reaches_source [OF ids_apart(4) [OF assms] d]
    by (auto simp: cleanup_source_def d hands_on_def same_binding_def intro!: safe_step_rules)
qed

lemma cleanup_destination_safe:
  assumes "safe_record C w tr" and "cleanup_destination C E tr w = (r, w')"
  shows "keeps_snapshots (xw_destination w) (xw_destination w')
    \<and> answers_hold (tc_target C) (xw_destination w') tr \<and> (xw_slot w' = xw_slot w \<or> xw_slot w' = None)"
proof -
  obtain a w1 where d: "at_destination C E (backup_transfer_cleanup (tr_destination_cleanup_operation_id tr)
      (tr_deployment_id tr) (tr_transfer_operation_id tr)) w = (a, w1)" by force
  have "reaches C tr w w1"
    by (rule reaches_destination [OF d ids_apart(4) [OF assms(1)]])
       (use ids_apart(2) [OF assms(1)] in \<open>simp add: operation_id_simps\<close>)
  then show ?thesis
    using assms(2) by (cases "expect_cleaned a"; cases "tr_receipt tr")
      (auto simp: cleanup_destination_def d missing_state_def reaches_def clear_transfer_def drop_one_def
        split: prod.splits commit.splits if_splits)
qed

text \<open>An iteration keeps the record safe, in the journal and in the destination.\<close>

lemma same_binding_ids: "same_binding tr tr' \<Longrightarrow> fixed_ids tr' = fixed_ids tr \<and> tr_deployment_id tr' = tr_deployment_id tr"
  by (cases tr; cases tr') (simp add: same_binding_def fixed_ids_def)

lemma safe_record_kept:
  assumes "safe_record C w tr" and "keeps_snapshots (xw_destination w) (xw_destination w')"
    and "answers_hold (tc_target C) (xw_destination w') tr"
  shows "safe_record C w' tr"
  using assms holds_copy_kept unfolding safe_record_def by (metis (no_types))

lemma hands_on_safe:
  assumes "safe_record C w tr" and "reaches C tr w w1" and "hands_on C E tr w1 tr'"
    and "it_write_id E \<notin> set (fixed_ids tr)" and "xw_destination w' = xw_destination w1"
  shows "safe_record C w' tr'"
proof -
  have bound: "same_binding tr tr'" using assms(3) by (simp add: hands_on_def)
  have k: "safe_record C w1 tr"
    by (rule safe_record_kept [OF assms(1)]) (use assms(2) in \<open>simp_all add: reaches_def\<close>)
  have "cursor_ids tr' = cursor_ids tr \<or> cursor_ids tr' = [] \<or> cursor_ids tr' = [it_write_id E]"
    using assms(3) by (auto simp: hands_on_def cursor_ids_def)
  then have "set (cursor_ids tr') \<inter> set (fixed_ids tr) = {}"
    using assms(4) k by (elim disjE) (simp_all add: safe_record_def)
  moreover have "\<exists>plan. tr_source_plan tr' = Some plan \<and>
      holds_copy (tc_target C) (xw_destination w1) (tr_deployment_id tr) (oh_snapshot_id receipt) (tp_manifest_sha256 plan)"
    if new: "tr_receipt tr' = Some receipt" for receipt
  proof -
    have "tr_receipt tr' = tr_receipt tr \<or> (\<exists>plan. tr_source_plan tr = Some plan \<and>
        holds_copy (tc_target C) (xw_destination w1) (tr_deployment_id tr) (oh_snapshot_id receipt) (tp_manifest_sha256 plan))"
      using new assms(3) unfolding hands_on_def by auto
    then obtain plan where "tr_source_plan tr = Some plan"
        "holds_copy (tc_target C) (xw_destination w1) (tr_deployment_id tr) (oh_snapshot_id receipt) (tp_manifest_sha256 plan)"
      using new k unfolding safe_record_def by metis
    then show ?thesis using bound by (simp add: same_binding_def)
  qed
  ultimately show ?thesis
    using k same_binding_ids [OF bound] answers_hold_binding [OF bound] assms(5)
    by (simp add: safe_record_def)
qed

definition slot_safe :: "transfer_codec \<Rightarrow> transfer_world \<Rightarrow> bool" where
  "slot_safe C w \<longleftrightarrow> (\<forall>tr. xw_slot w = Some (Record tr) \<longrightarrow> safe_record C w tr)"

lemma phase_safe:
  assumes "safe_record C w tr" and "phase_consistent tr" and "tr_phase tr \<noteq> CleanupDestination"
    and "transfer_step C E tr w = out"
  shows "\<exists>v. safe_step C E tr w v \<and> out = continue v"
  using assms(3,4) consistent_phases [OF assms(2)] source_prepare_safe [OF assms(1), of E] finalize_safe [OF assms(1), of E]
    destination_prepare_safe [OF assms(1), of E] record_source_receipt_safe [OF assms(1), of E]
    cleanup_source_safe [OF assms(1), of E] copy_one_backup_chunk_safe [OF assms(1), of E]
  by (cases "tr_phase tr") (auto simp: transfer_step_def simp del: split_paired_Ex)

lemma transfer_step_safe:
  assumes safe: "safe_record C w tr" and slot: "xw_slot w = Some (Record tr)" and con: "phase_consistent tr"
    and fresh: "it_write_id E \<notin> set (fixed_ids tr)" and step: "transfer_step C E tr w = (r, w')"
  shows "slot_safe C w'"
proof (cases "tr_phase tr = CleanupDestination")
  case True
  then have c: "cleanup_destination C E tr w = (r, w')"
    using step by (simp add: transfer_step_def)
  show ?thesis
    using cleanup_destination_safe [OF safe c] safe_record_kept [OF safe, of w'] slot by (auto simp: slot_safe_def)
next
  case False
  obtain v where v: "safe_step C E tr w v" "(r, w') = continue v"
    using phase_safe [OF safe con False step] by (elim exE conjE) rule
  then obtain w1 where w1: "reaches C tr w w1"
      "(\<exists>e. v = (Inl e, w1)) \<or> (\<exists>tr'. v = store_and_go C E tr' w1 \<and> hands_on C E tr w1 tr')"
    unfolding safe_step_def by (elim exE conjE) rule
  have k: "safe_record C w1 tr"
    by (rule safe_record_kept [OF safe]) (use w1(1) in \<open>simp_all add: reaches_def\<close>)
  show ?thesis
    using w1(2)
  proof (elim disjE exE conjE)
    fix e
    assume "v = (Inl e, w1)"
    then show ?thesis using v(2) k slot w1(1) by (auto simp: continue_def slot_safe_def reaches_def)
  next
    fix tr'
    assume o: "v = store_and_go C E tr' w1" and h: "hands_on C E tr w1 tr'"
    obtain x w2 where x: "store_and_go C E tr' w1 = (x, w2)" by force
    then have w': "w' = w2" using v(2) o by (simp add: continue_def)
    from x show ?thesis
    proof (cases rule: store_and_go_cases)
      case stored
      then show ?thesis
        using hands_on_safe [OF safe w1(1) h fresh, of w'] w' by (simp add: slot_safe_def)
    next
      case (kept e)
      then show ?thesis using w' k slot w1(1) by (auto simp: slot_safe_def reaches_def)
    qed
  qed
qed

section \<open>Reachable worlds\<close>

lemma new_record_safe:
  assumes "fresh_ids w ids"
  shows "safe_record C (w\<lparr>xw_slot := slot\<rparr>) (TransferRecord_new ids deployment source host destination)"
  using assms
  by (simp add: safe_record_def fresh_ids_def new_ids_def fixed_ids_def cursor_ids_def TransferRecord_new_def
      answers_hold_def unanswered_def)

lemma elsewhere_safe:
  assumes "safe_record C w tr" and "undisturbed (tc_externals C) tr (xw_destination w) d"
  shows "safe_record C (w\<lparr>xw_source := s, xw_destination := d\<rparr>) tr"
proof (rule safe_record_kept [OF assms(1)])
  show k: "keeps_snapshots (xw_destination w) (xw_destination (w\<lparr>xw_source := s, xw_destination := d\<rparr>))"
    using assms(2) by (simp add: undisturbed_def Let_def)
  show "answers_hold (tc_target C) (xw_destination (w\<lparr>xw_source := s, xw_destination := d\<rparr>)) tr"
    by (rule answers_hold_kept [of _ "xw_destination w"])
       (use assms in \<open>simp_all add: safe_record_def undisturbed_def Let_def fixed_ids_def\<close>)
qed

lemma reachable_safe: "transfer_reachable C w \<Longrightarrow> slot_safe C w"
proof (induction rule: transfer_reachable.induct)
  case (idle w)
  then show ?case by (simp add: slot_safe_def)
next
  case (opened w q r slot)
  from opened.hyps(3) show ?case
  proof (cases rule: open_transfer_cases)
    case same
    then show ?thesis using opened.IH by simp
  next
    case (created host destination)
    then show ?thesis using new_record_safe [OF opened.hyps(2)] by (simp add: slot_safe_def)
  qed
next
  case (iterated w tr E r w')
  have "validate_transfer (tc_externals C) tr = Inr ()"
    using reachable_slot_valid [OF iterated.hyps(1)] iterated.hyps(2) by (simp add: slot_valid_def)
  then have con: "phase_consistent tr" by (rule validate_phase)
  have safe: "safe_record C w tr" using iterated.IH iterated.hyps(2) by (simp add: slot_safe_def)
  show ?case
    by (rule transfer_step_safe [OF safe iterated.hyps(2) con _ iterated.hyps(4)])
       (use iterated.hyps(3) in \<open>simp add: fresh_iteration_def\<close>)
next
  case (elsewhere w tr s d)
  then show ?case using elsewhere_safe [of C w tr d s] by (auto simp: slot_safe_def)
qed

lemma done_receipt_held:
  assumes "transfer_reachable C w" and "xw_slot w = Some (Record tr)" and "transfer_step C E tr w = (Inr (Done receipt), w')"
  shows "\<exists>plan. tr_source_plan tr = Some plan \<and> holds_copy (tc_target C) (xw_destination w') (tr_deployment_id tr)
      (oh_snapshot_id receipt) (tp_manifest_sha256 plan)"
proof -
  have "validate_transfer (tc_externals C) tr = Inr ()"
    using reachable_slot_valid [OF assms(1)] assms(2) by (simp add: slot_valid_def)
  then have con: "phase_consistent tr" by (rule validate_phase)
  have safe: "safe_record C w tr" using reachable_safe [OF assms(1)] assms(2) by (simp add: slot_safe_def)
  from assms(3) con show ?thesis
  proof (cases rule: transfer_step_cases)
    case (cleared receipt')
    then have c: "cleanup_destination C E tr w = (Inr (Done receipt), w')" "receipt' = receipt"
      using assms(3) by (auto simp: transfer_step_def)
    have "safe_record C w' tr"
      using cleanup_destination_safe [OF safe c(1)] safe_record_kept [OF safe, of w'] by simp
    then show ?thesis using cleared(2) c(2) by (simp add: safe_record_def)
  qed simp_all
qed

end
