(* ===== verification/TransferRun.thy ===== *)
theory TransferRun
  imports TransferSafety
begin

text \<open>
  The loop as a whole: what a run leaves in the journal, that it always ends, and what a recorded
  refusal does to every later run.
\<close>

section \<open>The journal after a run\<close>

definition bound_slot :: "externals \<Rightarrow> TransferRecord \<Rightarrow> transfer_slot \<Rightarrow> bool" where
  "bound_slot X tr slot \<longleftrightarrow>
     slot = None \<or> (\<exists>tr'. slot = Some (Record tr') \<and> same_binding tr tr' \<and> validate_transfer X tr' = Inr ())"

lemma bound_slotI: "slot = Some (Record tr') \<Longrightarrow> same_binding tr tr' \<Longrightarrow> validate_transfer X tr' = Inr () \<Longrightarrow> bound_slot X tr slot"
  by (auto simp: bound_slot_def)

lemma bound_slot_trans: "same_binding tr tr' \<Longrightarrow> bound_slot X tr' slot \<Longrightarrow> bound_slot X tr slot"
  unfolding bound_slot_def by (metis same_binding_trans)

lemma step_slot:
  assumes "transfer_step C E tr w = (r, w')" and "xw_slot w = Some (Record tr)" and "validate_transfer (tc_externals C) tr = Inr ()"
  shows "bound_slot (tc_externals C) tr (xw_slot w')"
    and "r = Inr (Done receipt) \<Longrightarrow> xw_slot w' = None"
    and "r = Inr (Continue tr') \<Longrightarrow> xw_slot w' = Some (Record tr') \<and> same_binding tr tr'
      \<and> validate_transfer (tc_externals C) tr' = Inr ()"
proof -
  note con = validate_phase [OF assms(3)]
  from assms(1) con have "bound_slot (tc_externals C) tr (xw_slot w') \<and> (r = Inr (Done receipt) \<longrightarrow> xw_slot w' = None)
      \<and> (r = Inr (Continue tr') \<longrightarrow> xw_slot w' = Some (Record tr') \<and> same_binding tr tr'
           \<and> validate_transfer (tc_externals C) tr' = Inr ())"
  proof (cases rule: transfer_step_cases)
    case (failed e)
    then show ?thesis using assms(2,3) by (auto intro: bound_slotI)
  next
    case (stored tr'')
    then show ?thesis by (auto intro: bound_slotI)
  next
    case (cleared receipt')
    then show ?thesis by (auto simp: bound_slot_def)
  qed
  then show "bound_slot (tc_externals C) tr (xw_slot w')"
    and "r = Inr (Done receipt) \<Longrightarrow> xw_slot w' = None"
    and "r = Inr (Continue tr') \<Longrightarrow> xw_slot w' = Some (Record tr') \<and> same_binding tr tr'
      \<and> validate_transfer (tc_externals C) tr' = Inr ()"
    by simp_all
qed

lemma resume_slot:
  "resume_backup_transfer C Es tr w = (r, w') \<Longrightarrow> xw_slot w = Some (Record tr)
   \<Longrightarrow> validate_transfer (tc_externals C) tr = Inr ()
   \<Longrightarrow> bound_slot (tc_externals C) tr (xw_slot w') \<and> (\<forall>receipt. r = Inr receipt \<longrightarrow> xw_slot w' = None)"
proof (induction Es arbitrary: tr w)
  case Nil
  then show ?case by (auto intro: bound_slotI)
next
  case (Cons E Es)
  obtain v w1 where s: "transfer_step C E tr w = (v, w1)" by force
  note slot = step_slot [OF s Cons.prems(2,3)]
  show ?case
  proof (cases v)
    case (Inl e)
    then show ?thesis using Cons.prems(1) s slot(1) by auto
  next
    case (Inr progress)
    show ?thesis
    proof (cases progress)
      case (Continue tr')
      then have n: "xw_slot w1 = Some (Record tr')" "same_binding tr tr'" "validate_transfer (tc_externals C) tr' = Inr ()"
        using slot(3) Inr by simp_all
      have "resume_backup_transfer C Es tr' w1 = (r, w')"
        using Cons.prems(1) s Inr Continue by simp
      from Cons.IH [OF this n(1,3)] show ?thesis using bound_slot_trans [OF n(2)] by blast
    next
      case (Done receipt)
      then show ?thesis using Cons.prems(1) s Inr slot by auto
    qed
  qed
qed

section \<open>The loop ends\<close>

fun phase_rank :: "TransferPhase \<Rightarrow> nat" where
  "phase_rank SourcePrepare = 6"
| "phase_rank DestinationPrepare = 5"
| "phase_rank Copying = 4"
| "phase_rank Finalize = 3"
| "phase_rank RecordSourceReceipt = 2"
| "phase_rank CleanupSource = 1"
| "phase_rank CleanupDestination = 0"

text \<open>The phases left, then the files left, then the bytes left of the file being copied.\<close>

definition files_left :: "TransferRecord \<Rightarrow> nat" where
  "files_left tr =
     (case (tr_source_plan tr, tr_cursor tr) of
        (Some plan, Some c) \<Rightarrow> length (tp_files plan) - cc_file_index c | _ \<Rightarrow> 0)"

definition bytes_left :: "TransferRecord \<Rightarrow> nat" where
  "bytes_left tr =
     (case (tr_source_plan tr, tr_cursor tr) of
        (Some plan, Some c) \<Rightarrow> unat (sf_size (tp_files plan ! cc_file_index c)) - unat (cc_offset c) | _ \<Rightarrow> 0)"

definition ahead :: "(TransferRecord \<times> TransferRecord) set" where
  "ahead = inv_image (less_than <*lex*> less_than <*lex*> less_than)
     (\<lambda>tr. (phase_rank (tr_phase tr), files_left tr, bytes_left tr))"

lemma ahead_wf: "wf ahead"
  by (simp add: ahead_def wf_lex_prod)

lemma ahead_phase: "phase_rank (tr_phase tr') < phase_rank (tr_phase tr) \<Longrightarrow> (tr', tr) \<in> ahead"
  by (simp add: ahead_def)

lemma branch_Inr:
  "(case v of None \<Rightarrow> (Inl e, s) | Some x \<Rightarrow> k x) = (Inr r, s') \<longleftrightarrow> (\<exists>x. v = Some x \<and> k x = (Inr r, s'))"
  "(if b then (Inl e, s) else q) = (Inr r, s') \<longleftrightarrow> \<not> b \<and> q = (Inr r, s')"
  by (cases v) auto

lemma store_and_go_Inr: "store_and_go C E t w = (Inr tr', w') \<Longrightarrow> tr' = t"
  by (auto simp: store_and_go_def rbind_Inr_iff split: prod.splits)

lemma continue_Inr: "continue x = (Inr (Continue tr'), w') \<longleftrightarrow> x = (Inr tr', w')"
  by (cases x) (auto simp: continue_def rbind_Inr_iff)

lemma checked_end_grows:
  assumes "checked_end offset bytes = Some n" and "transfer_bytes bytes \<noteq> []"
  shows "unat offset < unat n"
proof -
  define m where "m = unat offset + length (transfer_bytes bytes)"
  have "m < 2 ^ 64" "n = of_nat m"
    using assms(1) by (auto simp: checked_end_def Let_def m_def split: if_splits)
  then have "unat n = m" by (simp add: unat_of_nat take_bit_nat_eq_self)
  then show ?thesis using assms(2) by (simp add: m_def)
qed

lemma copy_ahead:
  assumes "copy_one_backup_chunk C E tr w = (Inr tr', w')" and "tr_phase tr = Copying"
  shows "(tr', tr) \<in> ahead"
proof -
  from assms(1) obtain plan cursor chunk n where p: "tr_source_plan tr = Some plan" "tr_cursor tr = Some cursor"
      "cc_file_index cursor < length (tp_files plan)" and
      m: "chunk_matches tr cursor (tp_files plan ! cc_file_index cursor) chunk"
      "checked_end (cc_offset cursor) (tw_bytes chunk) = Some n" and
      t: "tr' = advance_cursor E tr plan cursor (tp_files plan ! cc_file_index cursor) n"
    by (auto simp: copy_one_backup_chunk_def attempt_Inr branch_Inr case_prod_unfold dest!: store_and_go_Inr
        split: if_splits)
  have grows: "unat (cc_offset cursor) < unat n"
    by (rule checked_end_grows [OF m(2)]) (use m(1) in \<open>simp add: chunk_matches_def\<close>)
  show ?thesis
    using grows p assms(2)
    by (auto simp: t advance_cursor_def ahead_def files_left_def bytes_left_def reset_cursor_def word_less_nat_alt)
qed

lemma continue_ahead:
  assumes "transfer_step C E tr w = (Inr (Continue tr'), w')"
  shows "(tr', tr) \<in> ahead"
proof (cases "tr_phase tr")
  case Copying
  then show ?thesis using assms copy_ahead by (simp add: transfer_step_def continue_Inr)
next
  case CleanupDestination
  then show ?thesis using assms
    by (auto simp: transfer_step_def cleanup_destination_def attempt_Inr rbind_Inr_iff case_prod_unfold)
qed (use assms in \<open>auto simp: transfer_step_def continue_Inr source_prepare_def destination_prepare_def finalize_def
      record_source_receipt_def cleanup_source_def attempt_Inr branch_Inr case_prod_unfold reset_cursor_def
      intro!: ahead_phase dest!: store_and_go_Inr\<close>)

text \<open>An error of an iteration is never the interruption.\<close>

definition genuine :: "(transfer_error + 'a) \<times> 's \<Rightarrow> bool" where
  "genuine r \<longleftrightarrow> fst r \<noteq> Inl TransferInterrupted"

lemma genuine_rules:
  "r \<noteq> Inl TransferInterrupted \<Longrightarrow> (\<And>a. genuine (k a)) \<Longrightarrow> genuine (attempt r s k)"
  "e \<noteq> TransferInterrupted \<Longrightarrow> genuine (Inl e, s)" "genuine (continue v) \<longleftrightarrow> genuine v"
  by (cases r; simp add: genuine_def) (auto simp: genuine_def continue_def rbind_def split: prod.splits sum.splits)

lemma genuine_parts [simp]:
  "missing_state v \<noteq> Inl TransferInterrupted" "expect_body pick a \<noteq> Inl TransferInterrupted"
  "validate_receipt tr rc \<noteq> Inl TransferInterrupted"
  "genuine (store_and_go C E t w)"
  "clear_transfer outcome slot = (u, slot') \<Longrightarrow> genuine (rbind u (\<lambda>_. Inr p), w')"
  by (auto simp: missing_state_def expect_body_def validate_receipt_def genuine_def store_and_go_def
      store_transfer_def clear_transfer_def require_def map_err_def rbind_def
      split: option.splits HostOutcome.splits sum.splits prod.splits if_splits)

lemma step_genuine: "genuine (transfer_step C E tr w)"
  by (auto simp: transfer_step_def source_prepare_def destination_prepare_def copy_one_backup_chunk_def finalize_def
      record_source_receipt_def cleanup_source_def cleanup_destination_def genuine_rules(3) expect_transfer_plan_def
      expect_transfer_chunk_def expect_transfer_written_def expect_import_receipt_def expect_offhost_recorded_def
      expect_cleaned_def intro!: genuine_rules(1,2) split: TransferPhase.split prod.split option.split)

lemma loop_ends:
  "\<exists>n. \<forall>k. resume_backup_transfer C (map E [0..<n + k]) tr w = resume_backup_transfer C (map E [0..<n]) tr w
     \<and> genuine (resume_backup_transfer C (map E [0..<n]) tr w)"
proof (induction tr arbitrary: E w rule: wf_induct_rule [OF ahead_wf])
  case (1 tr)
  let ?E = "\<lambda>i. E (Suc i)"
  have unfold: "map E [0..<Suc n] = E 0 # map ?E [0..<n]" for n
    by (rule map_upt_Suc)
  obtain v w1 where s: "transfer_step C (E 0) tr w = (v, w1)" by force
  consider (stop) e where "v = Inl e" | (finished) rc where "v = Inr (Done rc)" | (go) tr' where "v = Inr (Continue tr')"
    by (cases v) (auto elim: transfer_progress.exhaust)
  then show ?case
  proof cases
    case stop
    have "e \<noteq> TransferInterrupted" using step_genuine [of C "E 0" tr w] s stop by (simp add: genuine_def)
    then show ?thesis
      by (intro exI [of _ "Suc 0"] allI) (use s stop in \<open>simp add: unfold genuine_def del: upt_Suc\<close>)
  next
    case finished
    then show ?thesis
      by (intro exI [of _ "Suc 0"] allI) (use s finished in \<open>simp add: unfold genuine_def del: upt_Suc\<close>)
  next
    case go
    have "(tr', tr) \<in> ahead" using continue_ahead s go by simp
    from 1 [OF this, of ?E w1] obtain n where n: "\<And>k. resume_backup_transfer C (map ?E [0..<n + k]) tr' w1
        = resume_backup_transfer C (map ?E [0..<n]) tr' w1" "genuine (resume_backup_transfer C (map ?E [0..<n]) tr' w1)"
      by auto
    have "resume_backup_transfer C (map E [0..<Suc n + k]) tr w = resume_backup_transfer C (map ?E [0..<n]) tr' w1" for k
      using n(1) [of k] by (simp add: unfold s go del: upt_Suc)
    from this this [of 0] show ?thesis
      by (intro exI [of _ "Suc n"]) (simp add: n(2) del: upt_Suc)
  qed
qed

section \<open>A recorded refusal\<close>

text \<open>What the target that acts next has recorded under the id the phase will use.\<close>

definition pending_answer ::
  "TransferRecord \<Rightarrow> transfer_world \<Rightarrow> (HostOperation \<times> transfer_body HostResult) option" where
  "pending_answer tr w =
     (case tr_phase tr of
        SourcePrepare \<Rightarrow> bs_answered (xw_source w) (tr_transfer_operation_id tr)
      | DestinationPrepare \<Rightarrow> bs_answered (xw_destination w) (tr_transfer_operation_id tr)
      | Copying \<Rightarrow> (case tr_cursor tr of None \<Rightarrow> None
          | Some c \<Rightarrow> bs_answered (xw_destination w) (cc_write_operation_id c))
      | Finalize \<Rightarrow> bs_answered (xw_destination w) (tr_finalize_operation_id tr)
      | RecordSourceReceipt \<Rightarrow> bs_answered (xw_source w) (tr_source_receipt_operation_id tr)
      | CleanupSource \<Rightarrow> bs_answered (xw_source w) (tr_source_cleanup_operation_id tr)
      | CleanupDestination \<Rightarrow> bs_answered (xw_destination w) (tr_destination_cleanup_operation_id tr))"

definition failed_result :: "transfer_body HostResult \<Rightarrow> bool" where
  "failed_result r \<longleftrightarrow> (case hr_outcome r of Failed _ _ \<Rightarrow> True | Completed _ \<Rightarrow> False)"

definition recorded_failure :: "(HostOperation \<times> transfer_body HostResult) option \<Rightarrow> bool" where
  "recorded_failure a \<longleftrightarrow> (case a of None \<Rightarrow> False | Some (_, r) \<Rightarrow> failed_result r)"

definition refuses :: "transfer_body HostResult option \<Rightarrow> bool" where
  "refuses a \<longleftrightarrow> (case a of None \<Rightarrow> True | Some r \<Rightarrow> failed_result r)"

lemma failed_simps [simp]:
  "failed_result (answer_of op (Inl c))" "failed_result (conflict_result op)" "failed_result (capacity_result op)"
  by (simp_all add: failed_result_def conflict_result_def capacity_result_def answer_of_def HostResult_failed_def)

lemma refused_call:
  assumes "recorded_failure (bs_answered side (ho_operation_id op))"
    and "requires_journal (ho_operation op)" and "\<not> retry_failed_kind (ho_operation op)"
    and "execute_host_operation K E op side = (a, s)"
  shows "s = side \<and> refuses a"
proof -
  obtain accepted r where r: "bs_answered side (ho_operation_id op) = Some (accepted, r)" "failed_result r"
    using assms(1) by (auto simp: recorded_failure_def split: option.splits)
  have "execute_journaled K E op side = (Some (if accepted \<noteq> op then conflict_result op else r), side)"
    using r(1) assms(3) by (simp add: execute_journaled_def)
  then have "\<exists>r'. failed_result r' \<and> execute_host_operation K E op side
      = (if te_fate E = Unreached \<or> te_fate E = ReplyLost then None else Some r', side)"
    using assms(2) r(2) by (cases "accepted = op") (auto simp: execute_host_operation_def simp del: split_paired_Ex)
  then show ?thesis
    using assms(4) by (auto simp: refuses_def split: if_splits)
qed

lemma refused_body: "refuses a \<Longrightarrow> \<exists>e. expect_body pick a = Inl e"
  by (auto simp: refuses_def failed_result_def expect_body_def split: option.splits HostOutcome.splits)

lemma refused_never_Inr: "refuses a \<Longrightarrow> expect_body pick a \<noteq> Inr v"
  using refused_body [of a pick] by auto

lemma refused_source:
  assumes "recorded_failure (bs_answered (xw_source w) (ho_operation_id op))"
    and "requires_journal (ho_operation op)" and "\<not> retry_failed_kind (ho_operation op)"
    and "at_source C E op w = (a, w')"
  shows "w' = w \<and> refuses a"
  using assms(4) refused_call [OF assms(1-3), of "tc_target C" "it_source E"]
  by (auto simp: at_source_def split: prod.splits)

lemma refused_destination:
  assumes "recorded_failure (bs_answered (xw_destination w) (ho_operation_id op))"
    and "requires_journal (ho_operation op)" and "\<not> retry_failed_kind (ho_operation op)"
    and "at_destination C E op w = (a, w')"
  shows "w' = w \<and> refuses a"
  using assms(4) refused_call [OF assms(1-3), of "tc_target C" "it_destination E"]
  by (auto simp: at_destination_def split: prod.splits)

text \<open>A phase that meets the recorded refusal changes nothing at all.\<close>

definition stuck :: "transfer_world \<Rightarrow> (transfer_error + 'a) \<times> transfer_world \<Rightarrow> bool" where
  "stuck w out \<longleftrightarrow> snd out = w \<and> (\<exists>e. fst out = Inl e)"

lemma stuck_simps [simp]:
  "stuck w (Inl e, w)" "stuck w (continue v) \<longleftrightarrow> stuck w v"
  by (cases "fst v"; auto simp: stuck_def continue_def split: prod.split)+

lemma stuck_attempt: "(\<And>v. r = Inr v \<Longrightarrow> stuck w (k v)) \<Longrightarrow> stuck w (attempt r w k)"
  by (cases r) simp_all

lemma stuck_refused: "refuses a \<Longrightarrow> stuck w (attempt (expect_body pick a) w k)"
  using refused_body [of a pick] by auto

lemma read_changes_nothing:
  assumes "at_source C E (backup_transfer_read i d t name offset) w = (a, w')"
  shows "w' = w"
proof -
  obtain s where s: "execute_host_operation (tc_target C) (it_source E) (backup_transfer_read i d t name offset) (xw_source w)
      = (a, s)" "w' = w\<lparr>xw_source := s\<rparr>"
    using assms by (auto simp: at_source_def split: prod.splits)
  from s(1) have "s = xw_source w"
  proof (cases rule: execute_cases)
    case (read r s')
    then show ?thesis
      by (auto simp: dispatch_transfer_def Let_def operation_id_simps completed_def split: prod.splits sum.splits)
  qed (simp_all add: operation_id_simps)
  then show ?thesis using s(2) by simp
qed

lemma refused_source_phase:
  assumes "recorded_failure (bs_answered (xw_source w) (ho_operation_id op))"
    and "requires_journal (ho_operation op)" and "\<not> retry_failed_kind (ho_operation op)"
  shows "stuck w (case at_source C E op w of (a, w1) \<Rightarrow> attempt (expect_body pick a) w1 (k w1))"
  using refused_source [OF assms, of C E] by (auto simp: stuck_refused split: prod.split)

lemma refused_destination_phase:
  assumes "recorded_failure (bs_answered (xw_destination w) (ho_operation_id op))"
    and "requires_journal (ho_operation op)" and "\<not> retry_failed_kind (ho_operation op)"
  shows "stuck w (case at_destination C E op w of (a, w1) \<Rightarrow> attempt (expect_body pick a) w1 (k w1))"
  using refused_destination [OF assms, of C E] by (auto simp: stuck_refused split: prod.split)

lemmas expect_defs = expect_transfer_plan_def expect_transfer_chunk_def expect_transfer_written_def
  expect_import_receipt_def expect_offhost_recorded_def expect_cleaned_def

lemma refused_copy:
  assumes "tr_cursor tr = Some c" and "recorded_failure (bs_answered (xw_destination w) (cc_write_operation_id c))"
  shows "stuck w (copy_one_backup_chunk C E tr w)"
proof -
  have wr: "x = w \<and> refuses a" if "at_destination C E (backup_transfer_write (cc_write_operation_id c) (tr_deployment_id tr)
      (tr_transfer_operation_id tr) chunk) w = (a, x)" for chunk a x
    by (rule refused_destination [OF _ _ _ that]) (use assms(2) in \<open>simp_all add: operation_id_simps\<close>)
  show ?thesis
    unfolding copy_one_backup_chunk_def expect_defs
    by (auto simp: assms(1) refused_never_Inr intro!: stuck_attempt [where w = w]
        split: prod.split dest!: read_changes_nothing wr)
qed

lemma refused_step:
  assumes "recorded_failure (pending_answer tr w)"
  shows "stuck w (transfer_step C E tr w)"
proof (cases "tr_phase tr")
  case Copying
  then obtain c where "tr_cursor tr = Some c" "recorded_failure (bs_answered (xw_destination w) (cc_write_operation_id c))"
    using assms by (auto simp: pending_answer_def recorded_failure_def split: option.splits)
  then show ?thesis using Copying by (simp add: transfer_step_def refused_copy)
qed (use assms in \<open>auto simp: transfer_step_def pending_answer_def source_prepare_def destination_prepare_def finalize_def
      record_source_receipt_def cleanup_source_def cleanup_destination_def expect_defs operation_id_simps
      backup_import_finalize_def intro!: stuck_attempt refused_source_phase refused_destination_phase\<close>)

lemma refused_resume:
  assumes "recorded_failure (pending_answer tr w)"
  shows "stuck w (resume_backup_transfer C Es tr w)"
proof (cases Es)
  case (Cons E Es')
  have "stuck w (transfer_step C E tr w)" by (rule refused_step [OF assms])
  then show ?thesis using Cons by (auto simp: stuck_def split: prod.split)
qed simp

lemma open_existing:
  assumes "load_transfer (tc_externals C) slot = Inr (Some tr)" and "open_transfer C q slot = (r, slot')"
  shows "slot' = slot \<and> (\<forall>tr'. r = Inr tr' \<longrightarrow> tr' = tr)"
  using assms(2)
proof (cases rule: open_transfer_cases)
  case same
  then show ?thesis using assms(1) by auto
next
  case (created host destination)
  then show ?thesis using assms(1) by (simp add: load_transfer_def)
qed

lemma open_never_interrupted: "open_transfer C q slot = (r, slot') \<Longrightarrow> r \<noteq> Inl TransferInterrupted"
  by (auto simp: open_transfer_def validate_lifecycle_binding_def load_transfer_def validate_transfer_binding_def store_transfer_def Let_def attempt_def rbind_def map_err_def require_def split: sum.splits option.splits record_file.splits prod.splits if_splits)

lemma run_existing:
  assumes "load_transfer (tc_externals C) (xw_slot w) = Inr (Some tr)"
  shows "(\<exists>e. run_backup_copy C q Es w = (Inl e, w)) \<or> run_backup_copy C q Es w = resume_backup_transfer C Es tr w"
proof -
  obtain r slot where o: "open_transfer C q (xw_slot w) = (r, slot)" by force
  have "slot = xw_slot w" "\<And>tr'. r = Inr tr' \<Longrightarrow> tr' = tr"
    using open_existing [OF assms o] by simp_all
  then show ?thesis by (cases r) (auto simp: run_backup_copy_def o)
qed

end
