(* ===== verification/TransferSample.thy ===== *)
theory TransferSample
  imports TransferRun BackupProperties RegistryProperties
begin

text \<open>
  A transfer of the deployment \<open>prod\<close> from the host \<open>edge\<close> to the local host, call by call, for
  the witnesses: two one-byte files and a one-byte manifest.
\<close>

definition cp_manifest :: SnapshotManifest where
  "cp_manifest = sample_manifest\<lparr>sm_deployment_id := ''prod''\<rparr>"

lemma cp_manifest_ok: "SnapshotManifest_validate reg_X sample_H cp_manifest = Inr ()"
proof -
  have "validate_identifier (sm_deployment_id cp_manifest) 128 ''backup deployment id'' = Inr ()"
    by (simp add: cp_manifest_def reg_texts)
  moreover have "validate_contents sample_X sample_manifest = Inr ()"
    using sample_manifest_ok by (simp add: manifest_ok)
  ultimately have "validate_contents reg_X cp_manifest = Inr ()"
    by (simp add: validate_contents_def) (simp add: cp_manifest_def sample_manifest_def reg_X_def)
  then show ?thesis
    by (simp add: manifest_ok computed_sha256_def sample_H_def) (simp add: cp_manifest_def sample_manifest_def)
qed

definition cp_K :: backup_codec where
  "cp_K = \<lparr>bk_externals = reg_X, bk_hash = sample_H, bk_json = (\<lambda>_. ''m''),
     bk_parse = (\<lambda>s. if s = ''m'' then Some cp_manifest else None),
     bk_parse_files = (\<lambda>s. if s = ''m'' then Some (sm_files cp_manifest) else None),
     bk_sha256 = (\<lambda>_. sample_hex), bk_receipt_json = (\<lambda>_. ''r''), bk_size = (\<lambda>_. 400),
     bk_b64url = (\<lambda>_. None)\<rparr>"

definition cp_C :: transfer_codec where
  "cp_C = \<lparr>tc_target = cp_K, tc_size = (\<lambda>_. 900), tc_registry = reg_C\<rparr>"

definition cp_he :: handler_env where
  "cp_he = \<lparr>he_reads = True, he_remove = None, he_directory = True, he_links = 2, he_manifest = Committed,
     he_verifies = True, he_append = None, he_rename = Committed, he_file = Committed, he_receipt = Committed,
     he_unlink = Committed, he_remove_2 = None, he_now = 9\<rparr>"

definition cp_te :: target_env where "cp_te = \<lparr>te_fate = Answered, te_handler = cp_he\<rparr>"

definition cp_E :: "string \<Rightarrow> string \<Rightarrow> iteration_env" where
  "cp_E r w = \<lparr>it_source = cp_te, it_destination = cp_te, it_store = Committed, it_read_id = r, it_write_id = w\<rparr>"

definition cp_tree :: tree where
  "cp_tree = [''postgresql.dump'' \<mapsto> Regular ''p'', ''deployment.tar'' \<mapsto> Regular ''d'',
     ''snapshot-manifest.json'' \<mapsto> Regular ''m'']"

definition cp_source :: backup_side where
  "cp_source = \<lparr>bs_target_id = Some ''u2'', bs_state = Inr (sample_state\<lparr>ds_deployment_id := ''prod''\<rparr>),
     bs_evidence = [manifest_path \<mapsto> ManifestDoc cp_manifest], bs_snapshots = [''s'' \<mapsto> cp_tree],
     bs_exports = Map.empty, bs_imports = Map.empty, bs_bindings = Map.empty, bs_answered = Map.empty\<rparr>"

definition cp_destination :: backup_side where
  "cp_destination = \<lparr>bs_target_id = Some ''u1'', bs_state = Inl ''STATE_MISSING'',
     bs_evidence = Map.empty, bs_snapshots = Map.empty,
     bs_exports = Map.empty, bs_imports = Map.empty, bs_bindings = Map.empty, bs_answered = Map.empty\<rparr>"

definition cp_idle :: transfer_world where
  "cp_idle = \<lparr>xw_slot = None, xw_source = cp_source, xw_destination = cp_destination\<rparr>"

definition cp_ids :: transfer_ids where
  "cp_ids = \<lparr>ti_transfer = ''t'', ti_finalize = ''f'', ti_source_receipt = ''r'', ti_source_cleanup = ''c'',
     ti_destination_cleanup = ''d''\<rparr>"

definition cp_request :: copy_request where
  "cp_request = \<lparr>cq_record = reg_prod, cq_source_host = reg_ssh, cq_destination_alias = ''local'',
     cq_registry = reg_full, cq_registry_env = reg_E, cq_uninstall_pending = Some False, cq_ids = cp_ids,
     cq_store = Committed, cq_probes = True\<rparr>"

definition cp_0 :: TransferRecord where
  "cp_0 = TransferRecord_new cp_ids ''prod'' ''u2'' ''u1'' ''local''"

lemma cp_texts: "validate_identifier ''u1'' 128 l = Inr ()" "validate_identifier ''u2'' 128 l = Inr ()"
  "validate_identifier ''local'' 128 l = Inr ()" "validate_identifier ''s'' 128 l = Inr ()"
  by (simp_all add: validate_identifier_def ident_char_def char_class_defs)

lemma cp_lookups:
  "instance_by_deployment reg_C reg_E reg_full ''prod'' = Inr (Some reg_prod)"
  "host_by_id reg_C reg_E reg_full ''u2'' = Inr (Some reg_ssh)"
  "host_by_alias reg_C reg_E reg_full ''local'' = Inr (Some (HostRecord_new_local ''u1''))"
  using reg_records_ok reg_texts
  by (simp_all add: instance_by_deployment_def host_by_id_def host_by_alias_def reg_run reg_register reg_hosts_eq)

lemma cp_0_valid: "validate_transfer reg_X cp_0 = Inr ()"
  by (simp add: validate_transfer_def cp_0_def TransferRecord_new_def cp_ids_def reg_texts cp_texts is_uuid_v7_def
      reg_X_def phase_consistent_def)

lemma cp_open: "open_transfer cp_C cp_request None = (Inr cp_0, Some (Record cp_0))"
  using cp_0_valid
  by (simp add: open_transfer_def validate_lifecycle_binding_def cp_request_def cp_C_def cp_lookups load_transfer_def
      cp_0_def store_transfer_def put_one_def MAX_TRANSFER_BYTES_def cp_K_def Let_def)

section \<open>Call by call\<close>

definition cp_plan :: BackupTransferPlan where
  "cp_plan = \<lparr>tp_operation_id = ''t'', tp_deployment_id = ''prod'', tp_manifest_sha256 = sample_hex,
     tp_files = [\<lparr>sf_path = ''deployment.tar'', sf_size = 1, sf_sha256 = sample_hex\<rparr>,
                 \<lparr>sf_path = ''postgresql.dump'', sf_size = 1, sf_sha256 = sample_hex\<rparr>,
                 \<lparr>sf_path = ''snapshot-manifest.json'', sf_size = 1, sf_sha256 = sample_hex\<rparr>]\<rparr>"

lemma cp_fields [simp]:
  "bk_externals cp_K = reg_X" "bk_hash cp_K = sample_H" "bk_json cp_K m = ''m''"
  "bk_sha256 cp_K b = sample_hex" "bk_parse_files cp_K ''m'' = Some (sm_files cp_manifest)"
  "bk_parse cp_K ''m'' = Some cp_manifest" "bk_b64url cp_K v = None"
  "tc_target cp_C = cp_K" "tc_size cp_C tr = 900"
  "it_source (cp_E r w) = cp_te" "it_destination (cp_E r w) = cp_te" "it_store (cp_E r w) = Committed"
  "it_read_id (cp_E r w) = r" "it_write_id (cp_E r w) = w"
  "te_fate cp_te = Answered" "te_handler cp_te = cp_he"
  "uuid_text reg_X i = i" "uuid_version reg_X i = (if i = [] then None else Some 7)"
  "sm_snapshot_id cp_manifest = ''s''" "sm_deployment_id cp_manifest = ''prod''"
  "sm_manifest_sha256 cp_manifest = sample_hex"
  "sm_files cp_manifest = [\<lparr>sf_path = ''postgresql.dump'', sf_size = 1, sf_sha256 = sample_hex\<rparr>,
     \<lparr>sf_path = ''deployment.tar'', sf_size = 1, sf_sha256 = sample_hex\<rparr>]"
  by (simp_all add: cp_K_def cp_C_def cp_E_def cp_te_def reg_X_def cp_manifest_def sample_manifest_def)

lemma cp_he_fields [simp]:
  "he_reads cp_he" "he_remove cp_he = None" "he_directory cp_he" "he_links cp_he = 2"
  "he_manifest cp_he = Committed" "he_verifies cp_he" "he_append cp_he = None" "he_rename cp_he = Committed"
  "he_file cp_he = Committed" "he_receipt cp_he = Committed" "he_unlink cp_he = Committed"
  "he_remove_2 cp_he = None" "he_now cp_he = 9"
  by (simp_all add: cp_he_def)

lemma cp_side_fields [simp]:
  "bs_target_id cp_source = Some ''u2''" "bs_state cp_source = Inr (sample_state\<lparr>ds_deployment_id := ''prod''\<rparr>)"
  "bs_snapshots cp_source = [''s'' \<mapsto> cp_tree]" "bs_exports cp_source = Map.empty"
  "bs_evidence cp_source = [manifest_path \<mapsto> ManifestDoc cp_manifest]"
  "bs_imports cp_source = Map.empty" "bs_bindings cp_source = Map.empty" "bs_answered cp_source = Map.empty"
  "bs_target_id cp_destination = Some ''u1''" "bs_snapshots cp_destination = Map.empty"
  "bs_exports cp_destination = Map.empty" "bs_imports cp_destination = Map.empty"
  "bs_bindings cp_destination = Map.empty" "bs_answered cp_destination = Map.empty"
  by (simp_all add: cp_source_def cp_destination_def)

lemma cp_manifest_file: "load_manifest_at cp_K r (Some (Regular ''m'')) = (if r then Inr (Some cp_manifest) else refused)"
  using cp_manifest_ok by (simp add: load_manifest_at_def MAX_BACKUP_EVIDENCE_BYTES_def)

lemma cp_tree_verified: "verify_snapshot_files cp_K cp_tree cp_manifest"
  by (simp add: verify_snapshot_files_def verify_file_def SNAPSHOT_NAMES_def cp_tree_def)

lemma cp_export:
  "prepare_export cp_K cp_he (sample_state\<lparr>ds_deployment_id := ''prod''\<rparr>) ''t'' cp_source =
     (Inr cp_plan, cp_source\<lparr>bs_exports := [''t'' \<mapsto> cp_tree]\<rparr>)"
proof -
  have latest: "load_latest cp_K True cp_source = Inr (Some cp_manifest)"
    by (simp add: load_latest_def load_manifest_ok cp_manifest_ok)
  have tree: "[''postgresql.dump'' \<mapsto> Regular ''p'', ''deployment.tar'' \<mapsto> Regular ''d'',
     ''snapshot-manifest.json'' \<mapsto> Regular ''m''] = cp_tree" by (simp add: cp_tree_def)
  have f: "snapshot_file cp_K IMMUTABLE_MANIFEST_FILE cp_tree =
      Some \<lparr>sf_path = ''snapshot-manifest.json'', sf_size = 1, sf_sha256 = sample_hex\<rparr>"
    by (simp add: snapshot_file_def IMMUTABLE_MANIFEST_FILE_def cp_tree_def MAX_SNAPSHOT_FILE_BYTES_def)
  have "link_files 2 SNAPSHOT_NAMES cp_tree Map.empty =
      (True, [''postgresql.dump'' \<mapsto> Regular ''p'', ''deployment.tar'' \<mapsto> Regular ''d''])"
    by (simp add: SNAPSHOT_NAMES_def numeral_2_eq_2 cp_tree_def)
  then show ?thesis
    using cp_tree_verified f
    by (simp add: prepare_export_def transfer_name_def latest remove_tree_def fill_export_def entries_def
        write_manifest_at_def atomic_write_def tree cp_plan_def Let_def sort_key_def
        MAX_BACKUP_EVIDENCE_BYTES_def IMMUTABLE_MANIFEST_FILE_def)
qed

lemma cp_call:
  assumes "HostOperation_validate reg_X (\<lambda>_. None) op = Inr ()" and "requires_journal (ho_operation op)"
    and "bs_answered side (ho_operation_id op) = None" and "dispatch_transfer cp_K cp_he op side = (Inr body, s)"
  shows "execute_host_operation cp_K cp_te op side =
     (Some (answer_of op (Inr body)), settled_with s op (answer_of op (Inr body)))"
proof -
  have "bk_b64url cp_K = (\<lambda>_. None)" by (rule ext) simp
  then show ?thesis
    using assms by (simp add: execute_host_operation_def execute_journaled_def run_handler_def settled_with_def Let_def)
qed

lemma cp_token: "valid_token ''prod'' 128"
  by (simp add: valid_token_def char_class_defs)

lemmas cp_validate = HostOperation_validate_def operation_id_simps backup_import_finalize_def body_admissible_def
  transfer_admissible_def delivery_admissible_def is_uuid_v7_def parses_as_uuid_def cp_token

definition cp_1 :: TransferRecord where
  "cp_1 = cp_0\<lparr>tr_source_plan := Some cp_plan, tr_phase := DestinationPrepare\<rparr>"

definition cp_source_1 :: backup_side where
  "cp_source_1 = settled_with (cp_source\<lparr>bs_exports := [''t'' \<mapsto> cp_tree]\<rparr>) (backup_export_prepare ''t'' ''prod'')
     (answer_of (backup_export_prepare ''t'' ''prod'') (Inr (TransferPrepared cp_plan)))"

lemma cp_0_fields [simp]:
  "tr_transfer_operation_id cp_0 = ''t''" "tr_deployment_id cp_0 = ''prod''" "tr_phase cp_0 = SourcePrepare"
  "tr_source_host_id cp_0 = ''u2''" "tr_destination_host_id cp_0 = ''u1''" "tr_source_plan cp_0 = None"
  "tr_cursor cp_0 = None" "tr_receipt cp_0 = None" "tr_finalize_operation_id cp_0 = ''f''"
  "tr_source_receipt_operation_id cp_0 = ''r''" "tr_source_cleanup_operation_id cp_0 = ''c''"
  "tr_destination_cleanup_operation_id cp_0 = ''d''" "tr_schema cp_0 = TRANSFER_SCHEMA"
  "tr_destination_alias cp_0 = ''local''"
  by (simp_all add: cp_0_def TransferRecord_new_def cp_ids_def)

lemma cp_expect [simp]:
  "expect_transfer_plan (Some (answer_of op (Inr (TransferPrepared p)))) = Inr p"
  "expect_transfer_chunk (Some (answer_of op (Inr (TransferChunk c)))) = Inr c"
  "expect_transfer_written (Some (answer_of op (Inr TransferWritten))) = Inr ()"
  "expect_import_receipt (Some (answer_of op (Inr (ImportFinalized rc)))) = Inr rc"
  by (simp_all add: expect_defs expect_body_def)

lemma cp_store: "validate_transfer reg_X tr = Inr () \<Longrightarrow> store_and_go cp_C (cp_E r w) tr x = (Inr tr, x\<lparr>xw_slot := Some (Record tr)\<rparr>)"
  by (simp add: store_and_go_def store_transfer_def MAX_TRANSFER_BYTES_def put_one_def)

lemma cp_sample_hex: "valid_sha256 sample_hex"
  using sample_hex_ok by (simp add: valid_sha256_def valid_lower_hex_sha256_def)

lemmas cp_valid = validate_transfer_def reg_texts cp_texts is_uuid_v7_def phase_consistent_def plan_bound_def
  cp_sample_hex cp_plan_def check_cursor_def

lemma cp_step_0:
  "transfer_step cp_C (cp_E r w) cp_0 (cp_idle\<lparr>xw_slot := slot\<rparr>) =
     (Inr (Continue cp_1), cp_idle\<lparr>xw_slot := Some (Record cp_1), xw_source := cp_source_1\<rparr>)"
proof -
  have "execute_host_operation cp_K cp_te (backup_export_prepare ''t'' ''prod'') cp_source =
      (Some (answer_of (backup_export_prepare ''t'' ''prod'') (Inr (TransferPrepared cp_plan))), cp_source_1)"
    unfolding cp_source_1_def
    by (rule cp_call) (simp_all add: cp_validate dispatch_transfer_def completed_def cp_export)
  moreover have "validate_transfer reg_X cp_1 = Inr ()"
    by (simp add: cp_1_def cp_valid)
  ultimately show ?thesis
    by (simp add: transfer_step_def source_prepare_def at_source_def cp_idle_def cp_store continue_def flip: cp_1_def)
qed

definition cp_empty_plan :: BackupTransferPlan where
  "cp_empty_plan = \<lparr>tp_operation_id = ''t'', tp_deployment_id = ''prod'', tp_manifest_sha256 = [], tp_files = []\<rparr>"

definition cp_import :: HostOperation where
  "cp_import = backup_import_prepare ''t'' ''prod''"

definition cp_destination_1 :: backup_side where
  "cp_destination_1 = settled_with (cp_destination\<lparr>bs_imports := [''t'' \<mapsto> Map.empty]\<rparr>) cp_import
     (answer_of cp_import (Inr (TransferPrepared cp_empty_plan)))"

text \<open>The record while the file of an index is next to copy.\<close>

definition cp_copying :: "string \<Rightarrow> string \<Rightarrow> nat \<Rightarrow> TransferRecord" where
  "cp_copying r w i = (reset_cursor r w i 0 cp_1)\<lparr>tr_phase := Copying\<rparr>"

lemma cp_1_fields [simp]:
  "tr_transfer_operation_id cp_1 = ''t''" "tr_deployment_id cp_1 = ''prod''" "tr_phase cp_1 = DestinationPrepare"
  "tr_source_host_id cp_1 = ''u2''" "tr_destination_host_id cp_1 = ''u1''" "tr_source_plan cp_1 = Some cp_plan"
  "tr_cursor cp_1 = None" "tr_receipt cp_1 = None" "tr_finalize_operation_id cp_1 = ''f''"
  "tr_source_receipt_operation_id cp_1 = ''r''" "tr_source_cleanup_operation_id cp_1 = ''c''"
  "tr_destination_cleanup_operation_id cp_1 = ''d''" "tr_schema cp_1 = TRANSFER_SCHEMA"
  "tr_destination_alias cp_1 = ''local''"
  by (simp_all add: cp_1_def)

lemma cp_plan_fields [simp]:
  "tp_operation_id cp_plan = ''t''" "tp_deployment_id cp_plan = ''prod''" "tp_manifest_sha256 cp_plan = sample_hex"
  "length (tp_files cp_plan) = 3" "tp_files cp_plan \<noteq> []"
  by (simp_all add: cp_plan_def)

lemma cp_file_size: "i < 3 \<Longrightarrow> sf_size (tp_files cp_plan ! i) = 1 \<and> sf_sha256 (tp_files cp_plan ! i) = sample_hex"
  by (auto simp: cp_plan_def less_Suc_eq numeral_3_eq_3)

lemma cp_copying_valid: "r \<noteq> [] \<Longrightarrow> w \<noteq> [] \<Longrightarrow> i < 3 \<Longrightarrow> validate_transfer reg_X (cp_copying r w i) = Inr ()"
  by (simp add: cp_copying_def reset_cursor_def validate_transfer_def reg_texts cp_texts is_uuid_v7_def phase_consistent_def
      plan_bound_def cp_sample_hex check_cursor_def cp_file_size)

lemma cp_step_1:
  "r \<noteq> [] \<Longrightarrow> w \<noteq> [] \<Longrightarrow>
   transfer_step cp_C (cp_E r w) cp_1 \<lparr>xw_slot = slot, xw_source = s, xw_destination = cp_destination\<rparr> =
     (Inr (Continue (cp_copying r w 0)),
      \<lparr>xw_slot = Some (Record (cp_copying r w 0)), xw_source = s, xw_destination = cp_destination_1\<rparr>)"
proof -
  assume ids: "r \<noteq> []" "w \<noteq> []"
  have "execute_host_operation cp_K cp_te cp_import cp_destination =
      (Some (answer_of cp_import (Inr (TransferPrepared cp_empty_plan))), cp_destination_1)"
    unfolding cp_destination_1_def
    by (rule cp_call) (simp_all add: cp_import_def cp_validate dispatch_transfer_def completed_def prepare_import_def
        transfer_name_def remove_tree_def cp_empty_plan_def)
  then show ?thesis
    using cp_copying_valid [OF ids, of 0]
    by (simp add: transfer_step_def destination_prepare_def at_destination_def cp_store continue_def cp_empty_plan_def
        flip: cp_import_def cp_copying_def)
qed

section \<open>The copy\<close>

definition cp_bytes :: "nat \<Rightarrow> string" where
  "cp_bytes i = (if i = 0 then ''d'' else if i = 1 then ''p'' else ''m'')"

definition cp_name :: "nat \<Rightarrow> string" where
  "cp_name i = sf_path (tp_files cp_plan ! i)"

definition cp_chunk :: "nat \<Rightarrow> transfer_write" where
  "cp_chunk i = \<lparr>tw_transfer_operation_id = ''t'', tw_file_name = cp_name i, tw_offset = 0, tw_total_bytes = 1,
     tw_file_sha256 = sample_hex, tw_bytes = BackupTransferBytes (cp_bytes i)\<rparr>"

text \<open>The destination when the files below an index have arrived, under the write ids given.\<close>

fun cp_arrived :: "nat \<Rightarrow> tree" where
  "cp_arrived 0 = Map.empty"
| "cp_arrived (Suc i) = (cp_arrived i)(cp_name i \<mapsto> Regular (cp_bytes i))"

fun cp_written :: "string list \<Rightarrow> backup_side" where
  "cp_written [] = cp_destination_1"
| "cp_written (w # ws) = settled_with
     ((cp_written ws)\<lparr>bs_imports := [''t'' \<mapsto> cp_arrived (Suc (length ws))]\<rparr>)
     (backup_transfer_write w ''prod'' ''t'' (cp_chunk (length ws)))
     (answer_of (backup_transfer_write w ''prod'' ''t'' (cp_chunk (length ws))) (Inr TransferWritten))"

lemma cp_read:
  assumes "i < 3" and "r \<noteq> []"
  shows "execute_host_operation cp_K cp_te (backup_transfer_read r ''prod'' ''t'' (cp_name i) 0) cp_source_1 =
    (Some (answer_of (backup_transfer_read r ''prod'' ''t'' (cp_name i) 0) (Inr (TransferChunk (cp_chunk i)))), cp_source_1)"
proof -
  have exports: "bs_exports cp_source_1 = [''t'' \<mapsto> cp_tree]" by (simp add: cp_source_1_def)
  have "bk_b64url cp_K = (\<lambda>_. None)" by (rule ext) simp
  moreover have "read_transfer_chunk cp_K cp_he ''t'' (cp_name i) 0 MAX_BACKUP_TRANSFER_CHUNK_BYTES cp_source_1 = Inr (cp_chunk i)"
    using assms by (auto simp: read_transfer_chunk_def transfer_name_def exports entries_def cp_tree_def cp_name_def
        cp_plan_def cp_chunk_def cp_bytes_def IMMUTABLE_MANIFEST_FILE_def less_Suc_eq numeral_3_eq_3 chunk_at_def
        MAX_BACKUP_EVIDENCE_BYTES_def MAX_BACKUP_TRANSFER_CHUNK_BYTES_def BackupTransferBytes_try_new_def)
  moreover have "valid_backup_transfer_file (cp_name i)"
    using assms by (auto simp: cp_name_def cp_plan_def valid_backup_transfer_file_def less_Suc_eq numeral_3_eq_3)
  ultimately show ?thesis
    using assms by (simp add: execute_host_operation_def cp_validate dispatch_transfer_def completed_def
        MAX_BACKUP_TRANSFER_CHUNK_BYTES_def)
qed

lemma cp_written_imports [simp]: "bs_imports (cp_written ws) = [''t'' \<mapsto> cp_arrived (length ws)]"
  by (cases ws) (simp_all add: cp_destination_1_def)

lemma cp_written_frame [simp]:
  "bs_bindings (cp_written ws) = Map.empty \<and> bs_snapshots (cp_written ws) = Map.empty
   \<and> bs_target_id (cp_written ws) = Some ''u1''"
  by (induction ws) (simp_all add: cp_destination_1_def)

lemma cp_written_answers: "i \<noteq> ''t'' \<Longrightarrow> i \<notin> set ws \<Longrightarrow> bs_answered (cp_written ws) i = None"
  by (induction ws) (simp_all add: cp_destination_1_def cp_import_def operation_id_simps)

lemma cp_arrived_fresh: "i < 3 \<Longrightarrow> cp_arrived i (cp_name i) = None"
  by (auto simp: less_Suc_eq numeral_3_eq_3 cp_name_def cp_plan_def)

lemma cp_arrived_all: "cp_arrived 3 = cp_tree"
  by (rule ext) (simp add: numeral_3_eq_3 cp_name_def cp_plan_def cp_bytes_def cp_tree_def)

lemma cp_bytes_one: "length (cp_bytes i) = 1" "cp_bytes i \<noteq> []"
  by (simp_all add: cp_bytes_def)

lemma cp_write:
  assumes "length ws < 3" and "w \<noteq> []" and "w \<notin> set (''t'' # ws)"
  shows "execute_host_operation cp_K cp_te (backup_transfer_write w ''prod'' ''t'' (cp_chunk (length ws))) (cp_written ws) =
    (Some (answer_of (backup_transfer_write w ''prod'' ''t'' (cp_chunk (length ws))) (Inr TransferWritten)),
     cp_written (w # ws))"
  unfolding cp_written.simps
proof (rule cp_call)
  have "valid_backup_transfer_file (cp_name (length ws))"
    using assms(1) by (auto simp: cp_name_def cp_plan_def valid_backup_transfer_file_def less_Suc_eq numeral_3_eq_3)
  then show "HostOperation_validate reg_X (\<lambda>_. None) (backup_transfer_write w ''prod'' ''t'' (cp_chunk (length ws))) = Inr ()"
    using assms by (simp add: cp_validate cp_chunk_def sample_hex_ok checked_end_def cp_bytes_one
        MAX_BACKUP_TRANSFER_FILE_BYTES_def)
  show "bs_answered (cp_written ws) (ho_operation_id (backup_transfer_write w ''prod'' ''t'' (cp_chunk (length ws)))) = None"
    using assms by (simp add: operation_id_simps cp_written_answers)
  show "dispatch_transfer cp_K cp_he (backup_transfer_write w ''prod'' ''t'' (cp_chunk (length ws))) (cp_written ws) =
      (Inr TransferWritten, (cp_written ws)\<lparr>bs_imports := [''t'' \<mapsto> cp_arrived (Suc (length ws))]\<rparr>)"
    by (simp add: dispatch_transfer_def operation_id_simps cp_chunk_def write_transfer_chunk_def transfer_name_def
        entries_def cp_arrived_fresh [OF assms(1)] append_chunk_def Let_def completed_def)
qed (simp add: operation_id_simps)

definition cp_at :: "TransferRecord \<Rightarrow> backup_side \<Rightarrow> transfer_world" where
  "cp_at tr d = \<lparr>xw_slot = Some (Record tr), xw_source = cp_source_1, xw_destination = d\<rparr>"

lemma cp_step_copy:
  assumes "i < 3" and "length ws = i" and "w \<noteq> []" and "w \<notin> set (''t'' # ws)" and "r \<noteq> []" "r' \<noteq> []" "w' \<noteq> []"
  shows "transfer_step cp_C (cp_E r' w') (cp_copying r w i) (cp_at (cp_copying r w i) (cp_written ws)) =
    (let tr' = if Suc i < 3 then cp_copying r' w' (Suc i) else cp_1\<lparr>tr_phase := Finalize\<rparr>
     in (Inr (Continue tr'), cp_at tr' (cp_written (w # ws))))"
proof -
  have c: "tr_transfer_operation_id (cp_copying r w i) = ''t''" "tr_deployment_id (cp_copying r w i) = ''prod''"
    "tr_phase (cp_copying r w i) = Copying" "tr_source_plan (cp_copying r w i) = Some cp_plan"
    "tr_cursor (cp_copying r w i) = Some \<lparr>cc_file_index = i, cc_offset = 0, cc_read_operation_id = r, cc_write_operation_id = w\<rparr>"
    by (simp_all add: cp_copying_def reset_cursor_def)
  have m: "chunk_matches (cp_copying r w i)
      \<lparr>cc_file_index = i, cc_offset = 0, cc_read_operation_id = r, cc_write_operation_id = w\<rparr>
      (tp_files cp_plan ! i) (cp_chunk i)"
    using cp_file_size [OF assms(1)] by (simp add: chunk_matches_def c cp_chunk_def cp_name_def cp_bytes_one)
  have n: "checked_end 0 (tw_bytes (cp_chunk i)) = Some 1"
    by (simp add: checked_end_def cp_chunk_def cp_bytes_one)
  have a: "advance_cursor (cp_E r' w') (cp_copying r w i) cp_plan
      \<lparr>cc_file_index = i, cc_offset = 0, cc_read_operation_id = r, cc_write_operation_id = w\<rparr> (tp_files cp_plan ! i) 1 =
      (if Suc i < 3 then cp_copying r' w' (Suc i) else cp_1\<lparr>tr_phase := Finalize\<rparr>)"
    using cp_file_size [OF assms(1)] by (simp add: advance_cursor_def cp_copying_def reset_cursor_def)
  have v: "validate_transfer reg_X (if Suc i < 3 then cp_copying r' w' (Suc i) else cp_1\<lparr>tr_phase := Finalize\<rparr>) = Inr ()"
    using cp_copying_valid [of r' w' "Suc i"] assms by (simp add: cp_valid cp_1_def)
  show ?thesis
    using cp_read [OF assms(1,5)] cp_write [of ws w] assms m n a v
    by (simp add: transfer_step_def c copy_one_backup_chunk_def missing_state_def at_source_def at_destination_def cp_at_def
        cp_store continue_def Let_def flip: cp_name_def del: cp_written.simps)
qed

section \<open>The receipt\<close>

definition cp_receipt :: OffHostCopyReceipt where
  "cp_receipt = \<lparr>oh_schema = OFF_HOST_COPY_RECEIPT_SCHEMA, oh_deployment_id = ''prod'', oh_snapshot_id = ''s'',
     oh_manifest_sha256 = sample_hex, oh_source_host_id = ''u2'', oh_destination_host_id = ''u1'', oh_verified_at = 9\<rparr>"

definition cp_finalize :: TransferRecord where
  "cp_finalize = cp_1\<lparr>tr_phase := Finalize\<rparr>"

definition cp_final :: HostOperation where
  "cp_final = backup_import_finalize ''f'' ''prod'' ''t'' sample_hex ''u2'' ''u1''"

definition cp_all :: backup_side where
  "cp_all = cp_written [''w2'', ''w1'', ''w0'']"

definition cp_published :: backup_side where
  "cp_published = settled_with (cp_all\<lparr>bs_bindings := [''t'' \<mapsto> Regular ''m''], bs_snapshots := [''s'' \<mapsto> cp_tree],
     bs_imports := Map.empty\<rparr>) cp_final (answer_of cp_final (Inr (ImportFinalized cp_receipt)))"

definition cp_receipted :: TransferRecord where
  "cp_receipted = cp_1\<lparr>tr_receipt := Some cp_receipt, tr_phase := RecordSourceReceipt\<rparr>"

lemma cp_finalize_fields [simp]:
  "tr_transfer_operation_id cp_finalize = ''t''" "tr_deployment_id cp_finalize = ''prod''" "tr_phase cp_finalize = Finalize"
  "tr_source_host_id cp_finalize = ''u2''" "tr_destination_host_id cp_finalize = ''u1''"
  "tr_source_plan cp_finalize = Some cp_plan" "tr_finalize_operation_id cp_finalize = ''f''"
  "cp_finalize\<lparr>tr_receipt := Some cp_receipt, tr_phase := RecordSourceReceipt\<rparr> = cp_receipted"
  by (simp_all add: cp_finalize_def cp_receipted_def)

lemma cp_publish:
  "finalize_import cp_K cp_he ''prod'' ''t'' sample_hex ''u2'' ''u1'' cp_all =
     (Inr cp_receipt, cp_all\<lparr>bs_bindings := [''t'' \<mapsto> Regular ''m''], bs_snapshots := [''s'' \<mapsto> cp_tree],
        bs_imports := Map.empty\<rparr>)"
proof -
  have f: "bs_imports cp_all = [''t'' \<mapsto> cp_tree]" "bs_bindings cp_all = Map.empty" "bs_snapshots cp_all = Map.empty"
    using cp_arrived_all by (simp_all add: cp_all_def numeral_3_eq_3 del: cp_written.simps cp_arrived.simps)
  have t: "cp_tree IMMUTABLE_MANIFEST_FILE = Some (Regular ''m'')"
    by (simp add: cp_tree_def IMMUTABLE_MANIFEST_FILE_def)
  show ?thesis
    by (simp add: finalize_import_def transfer_name_def f t cp_manifest_file publish_def Let_def cp_tree_verified
        write_manifest_at_def atomic_write_def MAX_BACKUP_EVIDENCE_BYTES_def require_def cp_receipt_def)
qed

lemma cp_step_finalize:
  "transfer_step cp_C (cp_E r w) cp_finalize (cp_at cp_finalize cp_all) =
     (Inr (Continue cp_receipted), cp_at cp_receipted cp_published)"
proof -
  have "bs_answered cp_all ''f'' = None"
    unfolding cp_all_def by (rule cp_written_answers) simp_all
  moreover have "bs_target_id cp_all = Some ''u1''" by (simp add: cp_all_def del: cp_written.simps)
  ultimately have "execute_host_operation cp_K cp_te cp_final cp_all =
      (Some (answer_of cp_final (Inr (ImportFinalized cp_receipt))), cp_published)"
    unfolding cp_published_def
    by (intro cp_call) (simp_all add: cp_final_def cp_validate sample_hex_ok dispatch_transfer_def completed_def cp_publish)
  moreover have "validate_receipt cp_finalize cp_receipt = Inr ()"
    by (simp add: validate_receipt_def cp_receipt_def cp_texts)
  moreover have "validate_transfer reg_X cp_receipted = Inr ()"
    by (simp add: cp_receipted_def cp_valid)
  ultimately show ?thesis
    by (simp add: transfer_step_def finalize_def missing_state_def at_destination_def cp_at_def cp_store continue_def
        flip: cp_final_def)
qed

section \<open>Reachable\<close>

lemma cp_fresh: "fresh_ids cp_idle cp_ids"
  by (simp add: fresh_ids_def new_ids_def cp_ids_def unanswered_def cp_idle_def)

lemma cp_opened: "transfer_reachable cp_C (cp_idle\<lparr>xw_slot := Some (Record cp_0)\<rparr>)"
proof (rule opened [OF idle])
  show "xw_slot cp_idle = None" by (simp add: cp_idle_def)
  then show "open_transfer cp_C cp_request (xw_slot cp_idle) = (Inr cp_0, Some (Record cp_0))" by (simp add: cp_open)
  show "fresh_ids cp_idle (cq_ids cp_request)" using cp_fresh by (simp add: cp_request_def)
qed

lemma cp_go:
  assumes "transfer_reachable cp_C (cp_at tr d)" and "transfer_step cp_C (cp_E r w) tr (cp_at tr d) = (v, x)"
    and "w \<notin> set (fixed_ids tr @ cursor_ids tr)" and "bs_answered d w = None"
  shows "transfer_reachable cp_C x"
  by (rule iterated [OF assms(1) _ _ assms(2)]) (use assms(3,4) in \<open>simp_all add: cp_at_def fresh_iteration_def\<close>)

lemma cp_copying_ids:
  "fixed_ids (cp_copying r w i) = [''t'', ''f'', ''r'', ''c'', ''d'']" "cursor_ids (cp_copying r w i) = [w]"
  "fixed_ids cp_1 = [''t'', ''f'', ''r'', ''c'', ''d'']" "cursor_ids cp_1 = []"
  "fixed_ids cp_finalize = [''t'', ''f'', ''r'', ''c'', ''d'']" "cursor_ids cp_finalize = []"
  by (simp_all add: cp_copying_def cp_finalize_def reset_cursor_def fixed_ids_def cursor_ids_def)

lemma cp_reached: "transfer_reachable cp_C (cp_at cp_receipted cp_published)"
proof -
  have "transfer_reachable cp_C (cp_idle\<lparr>xw_slot := Some (Record cp_1), xw_source := cp_source_1\<rparr>)"
    by (rule iterated [OF cp_opened _ _ cp_step_0 [of "''x''" "''y''"]])
       (simp_all add: fresh_iteration_def fixed_ids_def cursor_ids_def cp_idle_def)
  then have 1: "transfer_reachable cp_C (cp_at cp_1 cp_destination)"
    by (simp add: cp_idle_def cp_at_def)
  have s: "transfer_step cp_C (cp_E ''r0'' ''w0'') cp_1 (cp_at cp_1 cp_destination) =
      (Inr (Continue (cp_copying ''r0'' ''w0'' 0)), cp_at (cp_copying ''r0'' ''w0'' 0) (cp_written []))"
    using cp_step_1 [of "''r0''" "''w0''"] by (simp add: cp_at_def)
  have 2: "transfer_reachable cp_C (cp_at (cp_copying ''r0'' ''w0'' 0) (cp_written []))"
    by (rule cp_go [OF 1 s]) (simp_all add: cp_copying_ids)
  have c: "transfer_reachable cp_C (cp_at (if Suc i < 3 then cp_copying r' w' (Suc i) else cp_finalize) (cp_written (w # ws)))"
    if "transfer_reachable cp_C (cp_at (cp_copying r w i) (cp_written ws))" and "i < 3" "length ws = i" "w \<noteq> []" "r \<noteq> []"
      "r' \<noteq> []" "w' \<noteq> []" "w \<notin> set (''t'' # ws)" "w' \<notin> {''t'', ''f'', ''r'', ''c'', ''d'', w}" "w' \<notin> set ws"
    for i r w r' w' ws
  proof (rule cp_go [OF that(1)])
    show "transfer_step cp_C (cp_E r' w') (cp_copying r w i) (cp_at (cp_copying r w i) (cp_written ws)) =
        (Inr (Continue (if Suc i < 3 then cp_copying r' w' (Suc i) else cp_finalize)),
         cp_at (if Suc i < 3 then cp_copying r' w' (Suc i) else cp_finalize) (cp_written (w # ws)))"
      using cp_step_copy [OF that(2,3,4,8,5,6,7)] by (simp add: Let_def cp_finalize_def del: cp_written.simps)
  qed (use that in \<open>simp_all add: cp_copying_ids cp_written_answers\<close>)
  have 3: "transfer_reachable cp_C (cp_at (cp_copying ''r1'' ''w1'' 1) (cp_written [''w0'']))"
    using c [OF 2, of "''r1''" "''w1''"] by (simp del: cp_written.simps)
  have 4: "transfer_reachable cp_C (cp_at (cp_copying ''r2'' ''w2'' 2) (cp_written [''w1'', ''w0'']))"
    using c [OF 3, of "''r2''" "''w2''"] by (simp add: numeral_2_eq_2 del: cp_written.simps)
  have 5: "transfer_reachable cp_C (cp_at cp_finalize cp_all)"
    using c [OF 4, of "''r3''" "''w3''"] by (simp add: cp_all_def del: cp_written.simps)
  show ?thesis
    by (rule cp_go [OF 5 cp_step_finalize [of "''r4''" "''w4''"]])
       (simp_all add: cp_copying_ids cp_all_def cp_written_answers del: cp_written.simps)
qed

end
