(* ===== verification/TransferProperties.thy ===== *)
theory TransferProperties
  imports TransferSample
begin

text \<open>
  The properties of an off-host copy, each with a witness on the sample transfer.
\<close>

section \<open>The journal and its bindings\<close>

text \<open>Whatever stops, fails or is lost on the way, and whatever the command is run for, the transfer journal of a
  reachable world loads: it is empty, or holds a record that passes its own validation.\<close>

theorem transfer_journal_always_loads:
  assumes "transfer_reachable C w"
  shows "\<exists>existing. load_transfer (tc_externals C) (xw_slot w) = Inr existing"
proof -
  have "slot_valid (tc_externals C) (xw_slot w)" by (rule reachable_slot_valid [OF assms])
  then consider "xw_slot w = None" | tr where "xw_slot w = Some (Record tr)" "validate_transfer (tc_externals C) tr = Inr ()"
    unfolding slot_valid_def by (elim disjE exE conjE)
  then show ?thesis by cases (simp_all add: load_transfer_def)
qed

theorem transfer_journal_always_loads_witness:
  "\<exists>existing. load_transfer reg_X (Some (Record cp_receipted)) = Inr existing"
  using transfer_journal_always_loads [OF cp_reached] by (simp add: cp_at_def)

text \<open>C22: An unfinished transfer is never replaced: whatever deployment, destination and fresh ids the next
  run names, it leaves the journal empty, with the receipt or an error, or with a record of the same
  deployment, hosts and operation ids, whose source plan and receipt, once there, are the ones there before.\<close>

theorem one_transfer_until_it_finishes:
  assumes "load_transfer (tc_externals C) (xw_slot w) = Inr (Some tr)"
    and "run_backup_copy C q Es w = (r, w')"
  shows "xw_slot w' = None
    \<or> (\<exists>tr'. load_transfer (tc_externals C) (xw_slot w') = Inr (Some tr') \<and> same_binding tr tr' \<and> r \<notin> range Inr)"
proof -
  have slot: "xw_slot w = Some (Record tr)" "validate_transfer (tc_externals C) tr = Inr ()"
    using assms(1) by (auto simp: load_transfer_def rbind_Inr_iff split: option.splits record_file.splits)
  from run_existing [OF assms(1)] have "(\<exists>e. (r, w') = (Inl e, w)) \<or> resume_backup_transfer C Es tr w = (r, w')"
    using assms(2) by metis
  then show ?thesis
  proof (elim disjE exE)
    fix e
    assume "(r, w') = (Inl e, w)"
    then show ?thesis using assms(1) by auto
  next
    assume "resume_backup_transfer C Es tr w = (r, w')"
    from resume_slot [OF this slot] show ?thesis
      by (auto simp: bound_slot_def load_stored)
  qed
qed

text \<open>The record of the copy to the local host survives a command that names the source as destination.\<close>

theorem one_transfer_until_it_finishes_witness:
  "\<exists>r w'. run_backup_copy cp_C (cp_request\<lparr>cq_destination_alias := ''edge''\<rparr>) [] (cp_at cp_receipted cp_published) = (r, w')
     \<and> (xw_slot w' = None \<or> (\<exists>tr'. load_transfer reg_X (xw_slot w') = Inr (Some tr') \<and> same_binding cp_receipted tr'
          \<and> r \<notin> range Inr))"
proof -
  obtain r w' where o: "run_backup_copy cp_C (cp_request\<lparr>cq_destination_alias := ''edge''\<rparr>) []
      (cp_at cp_receipted cp_published) = (r, w')" by force
  have "load_transfer (tc_externals cp_C) (xw_slot (cp_at cp_receipted cp_published)) = Inr (Some cp_receipted)"
    using reachable_slot_valid [OF cp_reached] by (simp add: cp_at_def slot_valid_def load_transfer_def)
  from one_transfer_until_it_finishes [OF this o] o show ?thesis by (intro exI [of _ r] exI [of _ w']) simp
qed

section \<open>What a receipt means\<close>

text \<open>C21: When the controller holds a receipt, the destination holds the copy: under the snapshot id of the
  receipt it has published a snapshot with a valid manifest of the digest the source announced, for this
  deployment, and every file the manifest lists is there with its size and digest. No failure, lost answer,
  interruption or repetition of a call on the way, in any order, makes a receipt without its copy.\<close>

theorem receipt_means_verified_copy:
  assumes "transfer_reachable C w" and "load_transfer (tc_externals C) (xw_slot w) = Inr (Some tr)"
    and "tr_receipt tr = Some receipt"
  shows "\<exists>plan. tr_source_plan tr = Some plan
    \<and> holds_copy (tc_target C) (xw_destination w) (tr_deployment_id tr) (oh_snapshot_id receipt) (tp_manifest_sha256 plan)"
proof -
  have "xw_slot w = Some (Record tr)"
    using assms(2) by (auto simp: load_transfer_def rbind_Inr_iff split: option.splits record_file.splits)
  then have "safe_record C w tr"
    using reachable_safe [OF assms(1)] by (simp add: slot_safe_def)
  then show ?thesis using assms(3) by (simp add: safe_record_def)
qed

theorem receipt_means_verified_copy_witness:
  "\<exists>plan. tr_source_plan cp_receipted = Some plan
    \<and> holds_copy cp_K cp_published ''prod'' ''s'' (tp_manifest_sha256 plan)"
proof -
  have "load_transfer (tc_externals cp_C) (xw_slot (cp_at cp_receipted cp_published)) = Inr (Some cp_receipted)"
    using reachable_slot_valid [OF cp_reached] by (simp add: cp_at_def slot_valid_def load_transfer_def)
  from receipt_means_verified_copy [OF cp_reached this, of cp_receipt] show ?thesis
    by (simp add: cp_receipted_def cp_at_def cp_receipt_def)
qed

section \<open>The loop\<close>

text \<open>C23: A run of the copy ends: whatever the targets answer and however the stores go, there is a number of
  iterations after which the run has returned a receipt or an error of its own, and further iterations do
  not change it.\<close>

theorem backup_copy_ends:
  "\<exists>n. \<forall>k. run_backup_copy C q (map E [0..<n + k]) w = run_backup_copy C q (map E [0..<n]) w
     \<and> fst (run_backup_copy C q (map E [0..<n]) w) \<noteq> Inl TransferInterrupted"
proof (cases "\<exists>tr slot. open_transfer C q (xw_slot w) = (Inr tr, slot) \<and> cq_probes q")
  case True
  then obtain tr slot where o: "open_transfer C q (xw_slot w) = (Inr tr, slot)" "cq_probes q"
    by (elim exE conjE) rule
  obtain n where n: "\<And>k. resume_backup_transfer C (map E [0..<n + k]) tr (w\<lparr>xw_slot := slot\<rparr>) =
      resume_backup_transfer C (map E [0..<n]) tr (w\<lparr>xw_slot := slot\<rparr>)"
      "genuine (resume_backup_transfer C (map E [0..<n]) tr (w\<lparr>xw_slot := slot\<rparr>))"
    using loop_ends [of C E tr "w\<lparr>xw_slot := slot\<rparr>"] by auto
  show ?thesis
    by (rule exI [of _ n]) (use n o in \<open>simp add: run_backup_copy_def genuine_def\<close>)
next
  case False
  obtain r slot where o: "open_transfer C q (xw_slot w) = (r, slot)" by force
  have "r \<noteq> Inl TransferInterrupted" by (rule open_never_interrupted [OF o])
  then show ?thesis
    by (intro exI [of _ 0]) (use False o in \<open>auto simp: run_backup_copy_def split: sum.split\<close>)
qed

section \<open>A refusal on record\<close>

text \<open>C24: Once the target that acts next has a failed result on record under the id the journal holds for the
  pending operation, no run of the copy changes anything any more: every run, with any request and whatever
  the targets meet by then, returns an error and leaves the journal and both targets as they were, although
  the messages of these failures ask to rerun the command to retry the operation.\<close>

theorem recorded_refusal_is_final:
  assumes "load_transfer (tc_externals C) (xw_slot w) = Inr (Some tr)"
    and "recorded_failure (pending_answer tr w)"
  shows "\<exists>e. run_backup_copy C q Es w = (Inl e, w)"
  using run_existing [OF assms(1), of q Es] refused_resume [OF assms(2), of C Es]
  by (cases "resume_backup_transfer C Es tr w") (auto simp: stuck_def)

text \<open>One unreadable manifest at the source, once, is enough: the environment of the later run reads everything.\<close>

theorem recorded_refusal_is_final_witness:
  "\<exists>w. transfer_reachable cp_C w \<and> load_transfer reg_X (xw_slot w) = Inr (Some cp_0)
     \<and> recorded_failure (pending_answer cp_0 w)
     \<and> (\<exists>e. run_backup_copy cp_C cp_request [cp_E ''a'' ''b'', cp_E ''c'' ''d''] w = (Inl e, w))"
proof -
  let ?bad = "(cp_E ''x'' ''y'')\<lparr>it_source := cp_te\<lparr>te_handler := cp_he\<lparr>he_reads := False\<rparr>\<rparr>\<rparr>"
  let ?op = "backup_export_prepare ''t'' ''prod''"
  let ?s = "settled_with cp_source ?op (answer_of ?op refused)"
  let ?w = "cp_idle\<lparr>xw_slot := Some (Record cp_0), xw_source := ?s\<rparr>"
  have b: "bk_b64url cp_K = (\<lambda>_. None)" by (rule ext) simp
  have "execute_host_operation cp_K (cp_te\<lparr>te_handler := cp_he\<lparr>he_reads := False\<rparr>\<rparr>) ?op cp_source =
      (Some (answer_of ?op refused), ?s)"
    by (simp add: execute_host_operation_def execute_journaled_def run_handler_def settled_with_def Let_def b cp_validate
        dispatch_transfer_def completed_def prepare_export_def transfer_name_def load_latest_def)
  then have "transfer_step cp_C ?bad cp_0 (cp_idle\<lparr>xw_slot := Some (Record cp_0)\<rparr>) =
      (Inl (TransferRefused BACKUP_EXECUTION_FAILED), ?w)"
    by (simp add: transfer_step_def source_prepare_def at_source_def cp_idle_def continue_def expect_transfer_plan_def
        expect_body_def)
  from iterated [OF cp_opened _ _ this] have r: "transfer_reachable cp_C ?w"
    by (simp add: fresh_iteration_def fixed_ids_def cursor_ids_def cp_idle_def)
  have l: "load_transfer (tc_externals cp_C) (xw_slot ?w) = Inr (Some cp_0)"
    using cp_0_valid by (simp add: load_transfer_def)
  have f: "recorded_failure (pending_answer cp_0 ?w)"
    by (simp add: pending_answer_def recorded_failure_def operation_id_simps)
  show ?thesis
    using r l f recorded_refusal_is_final [OF l f] by (intro exI [of _ ?w]) simp
qed

end
