(* ===== verification/RuntimeTypes.thy ===== *)
theory RuntimeTypes
  imports Orders Numbers
begin

text \<open>
  The runtime vocabulary of \<open>crates/nazoauthctl-runtime/src/runtime_backend/mod.rs\<close>: what a
  backend observes of a runtime object, what it is asked to replace it with, and the one-shot
  task it runs; with the text operations of the standard library its parsers use.

  A \<open>BTreeMap<String, String>\<close> is its list of entries in ascending key order (\<open>insert_entry\<close>).
\<close>

section \<open>Text\<close>

text \<open>\<open>str::split_once\<close> on a text, \<open>str::rsplit_once\<close> on one character.\<close>

fun split_once :: "string \<Rightarrow> string \<Rightarrow> (string \<times> string) option" where
  "split_once p [] = (if p = [] then Some ([], []) else None)"
| "split_once p (c # s) =
     (case strip_prefix p (c # s) of
        Some rest \<Rightarrow> Some ([], rest)
      | None \<Rightarrow> map_option (\<lambda>(a, b). (c # a, b)) (split_once p s))"

definition rsplit_once :: "char \<Rightarrow> string \<Rightarrow> (string \<times> string) option" where
  "rsplit_once c s =
     (case dropWhile (\<lambda>d. d \<noteq> c) (rev s) of
        [] \<Rightarrow> None
      | _ # before \<Rightarrow> Some (rev before, rev (takeWhile (\<lambda>d. d \<noteq> c) (rev s))))"

text \<open>\<open>str::contains\<close>, \<open>str::ends_with\<close>, \<open>str::to_ascii_lowercase\<close>, \<open>eq_ignore_ascii_case\<close>.\<close>

definition contains_text :: "string \<Rightarrow> string \<Rightarrow> bool" where
  "contains_text s p \<longleftrightarrow> split_once p s \<noteq> None"

definition ends_with :: "string \<Rightarrow> string \<Rightarrow> bool" where
  "ends_with s p \<longleftrightarrow> strip_prefix (rev p) (rev s) \<noteq> None"

definition lower_char :: "char \<Rightarrow> char" where
  "lower_char c = (if is_upper c then char_of ((of_char c :: nat) + 32) else c)"

definition to_ascii_lowercase :: "string \<Rightarrow> string" where "to_ascii_lowercase = map lower_char"

definition eq_ignore_case :: "string \<Rightarrow> string \<Rightarrow> bool" where
  "eq_ignore_case a b \<longleftrightarrow> to_ascii_lowercase a = to_ascii_lowercase b"

text \<open>\<open>str::trim_start_matches\<close> of a nonempty text: every leading copy is dropped.\<close>

function trim_start_matches :: "string \<Rightarrow> string \<Rightarrow> string" where
  "trim_start_matches p s =
     (if p = [] then s
      else case strip_prefix p s of None \<Rightarrow> s | Some rest \<Rightarrow> trim_start_matches p rest)"
  by pat_completeness auto
termination
  by (relation "measure (\<lambda>(p, s). length s)") (auto simp: strip_prefix_Some)

declare trim_start_matches.simps [simp del]

lemma trim_start_matches_idle: "strip_prefix p s = None \<Longrightarrow> trim_start_matches p s = s"
  by (subst trim_start_matches.simps) simp

lemma trim_start_matches_once:
  "p \<noteq> [] \<Longrightarrow> strip_prefix p s = None \<Longrightarrow> trim_start_matches p (p @ s) = s"
  using strip_prefix_Some [of p "p @ s" s]
  by (subst trim_start_matches.simps) (simp add: trim_start_matches_idle)

text \<open>\<open>str::lines\<close>: a final line end adds no line, and one carriage return before it is dropped.\<close>

definition text_lines :: "string \<Rightarrow> string list" where
  "text_lines s =
     (let parts = split_on (CHR 0x0A) s;
          kept = (if last parts = [] then butlast parts else parts);
          ended = length parts - 1
      in map (\<lambda>(i, l). if i < ended \<and> l \<noteq> [] \<and> last l = CHR 0x0D then butlast l else l)
           (zip [0..<length kept] kept))"

section \<open>Ordered maps\<close>

type_synonym entries = "(string \<times> string) list"

fun insert_entry :: "string \<Rightarrow> string \<Rightarrow> entries \<Rightarrow> entries" where
  "insert_entry k v [] = [(k, v)]"
| "insert_entry k v ((k', v') # es) =
     (if k = k' then (k, v) # es
      else if k < k' then (k, v) # (k', v') # es
      else (k', v') # insert_entry k v es)"

definition entries_of :: "(string \<times> string) list \<Rightarrow> entries" where
  "entries_of kvs = fold (\<lambda>(k, v). insert_entry k v) kvs []"

lemma map_of_insert_entry: "map_of (insert_entry k v es) = (map_of es)(k \<mapsto> v)"
  by (induction es) auto

section \<open>Observations and replacements\<close>

definition is_container :: "RuntimeBackendKind \<Rightarrow> bool" where
  "is_container k \<longleftrightarrow> k = Podman \<or> k = Docker"

lemma is_container_iff: "is_container k \<longleftrightarrow> k \<noteq> Host"
  by (cases k) (simp_all add: is_container_def)

text \<open>A mount parsed from an inspection is always an external, deployment-scoped one.\<close>

record NeutralMount =
  nm_source :: string
  nm_destination :: string
  nm_read_only :: bool
  nm_selinux_relabel :: bool
  nm_ownership :: ResourceOwnership
  nm_scope :: ResourceScope

record RuntimeObservation =
  ob_backend :: RuntimeBackendKind
  ob_object_reference :: string
  ob_display_name :: string
  ob_running :: bool
  ob_server_command_verified :: bool
  ob_artifact :: ArtifactReference
  ob_local_artifact_id :: "string option"
  ob_ports :: "string list"
  ob_networks :: "string list"
  ob_mounts :: "NeutralMount list"
  ob_safe_environment :: entries
  ob_labels :: entries

datatype ContainerRestartPolicy = RestartNo | RestartOnFailure | RestartAlways | RestartUnlessStopped

record NeutralTmpfs =
  tf_destination :: string
  tf_read_only :: bool
  tf_no_exec :: bool
  tf_no_suid :: bool
  tf_no_device :: bool
  tf_size_bytes :: nat

record ContainerRuntimePolicy =
  crp_restart :: ContainerRestartPolicy
  crp_service_user :: "string option"
  crp_read_only_root :: bool
  crp_no_new_privileges :: bool
  crp_drop_all_capabilities :: bool
  crp_pids_limit :: "nat option"
  crp_memory_limit_bytes :: "nat option"
  crp_cpu_limit_millis :: "nat option"
  crp_tmpfs :: "NeutralTmpfs list"

definition managed_default :: ContainerRuntimePolicy where
  "managed_default =
     \<lparr>crp_restart = RestartUnlessStopped,
      crp_service_user = None,
      crp_read_only_root = True,
      crp_no_new_privileges = True,
      crp_drop_all_capabilities = True,
      crp_pids_limit = Some 512,
      crp_memory_limit_bytes = Some (1024 * 1024 * 1024),
      crp_cpu_limit_millis = Some 2000,
      crp_tmpfs =
        map (\<lambda>(destination, size_bytes).
               \<lparr>tf_destination = destination, tf_read_only = False, tf_no_exec = True,
                tf_no_suid = True, tf_no_device = True, tf_size_bytes = size_bytes\<rparr>)
          [(''/tmp'', 64 * 1024 * 1024), (''/run/postgresql'', 16 * 1024 * 1024)]\<rparr>"

definition managed_app :: ContainerRuntimePolicy where
  "managed_app = managed_default\<lparr>crp_service_user := Some ''10001:10001''\<rparr>"

record RuntimeReplacement =
  re_object_reference :: string
  re_artifact :: ArtifactReference
  re_local_artifact_id :: "string option"
  re_command :: "string list"
  re_mounts :: "NeutralMount list"
  re_environment :: entries
  re_networks :: "string list"
  re_ip_address :: "string option"
  re_ports :: "string list"
  re_labels :: entries
  re_container_policy :: "ContainerRuntimePolicy option"

record OneShotTask =
  os_artifact :: ArtifactReference
  os_command :: "string list"
  os_network :: "string option"
  os_mounts :: "NeutralMount list"
  os_environment :: entries
  os_working_directory :: "string option"
  os_service_user :: "string option"
  os_transient_credentials :: entries
  os_read_only_paths :: "string list"
  os_read_write_paths :: "string list"
  os_inaccessible_paths :: "string list"
  os_private_mounts :: bool
  os_stdin :: string

section \<open>What an inspection may disclose\<close>

definition safe_environment_names :: "string list" where
  "safe_environment_names =
     [''ISSUER'', ''PUBLIC_BASE_URL'', ''DATA_DIR'', ''DEPLOYMENT_ID'', ''RUNTIME_INSTANCE_ID'',
      ''CONTROL_AUTHORITY'', ''INSTANCE_IDENTITY_DIR'', ''VALKEY_STATE_EPOCH'',
      ''NAZOAUTH_SERVER_CONFIG_FILE'', ''NAZOAUTH_OPERATOR_CONFIG_REVISION_FILE'',
      ''MFA_TOTP_ENCRYPTION_KEY_FILE'', ''SIGNING_KEY_ENCRYPTION_KEY_FILE'',
      ''SIGNING_KEY_PREVIOUS_ENCRYPTION_KEY_FILE'', ''CLIENT_SECRET_PEPPER_FILE'',
      ''DYNAMIC_CLIENT_REGISTRATION_INITIAL_ACCESS_TOKEN_FILE'',
      ''OPENID4VC_DATA_ENCRYPTION_KEY_FILE'', ''OPENID4VCI_ISSUER_MANAGEMENT_TOKEN_FILE'',
      ''OPENID4VP_VERIFIER_MANAGEMENT_TOKEN_FILE'']"

definition safe_environment :: "string list \<Rightarrow> entries" where
  "safe_environment environment =
     entries_of (filter (\<lambda>(name, _). name \<in> set safe_environment_names)
       (List.map_filter (split_once ''='') environment))"

text \<open>The loop of \<open>server_command_verified\<close>, with the index and the previous value.\<close>

fun command_scan :: "nat \<Rightarrow> string option \<Rightarrow> string list \<Rightarrow> bool" where
  "command_scan index previous [] = False"
| "command_scan index previous (v # vs) =
     (if v = ''server''
         \<and> (case previous of
              None \<Rightarrow> False
            | Some p \<Rightarrow> p = ''nazoauth'' \<or> (index = 1 \<and> ends_with p ''nazoauth''))
      then True
      else command_scan (index + 1) (Some v) vs)"

definition server_command_verified :: "string list \<Rightarrow> bool" where
  "server_command_verified vs = command_scan 0 None vs"

end
