(* ===== verification/Container.thy ===== *)
theory Container
  imports RuntimeTypes
begin

text \<open>
  The container backends of \<open>crates/nazoauthctl-runtime/src/runtime_backend\<close> (\<open>container_shared\<close>,
  \<open>podman\<close>, \<open>docker\<close>): inspection, the guarded replacement of a container, and one-shot tasks.

  The engines are programs the code runs, so a host \<open>H\<close> is a parameter: \<open>h_run H argv w\<close> says
  whether the command \<open>argv\<close> succeeds in the world \<open>w\<close> and which world it leaves, \<open>h_inspect\<close> and
  \<open>h_text\<close> are the answers of commands that only read. An inspection document is given as the
  JSON members the code looks at, each with the shapes its accessors distinguish.

  The systemd backend also looks at files: \<open>h_executable\<close> is the canonical path and SHA-256 of a
  binary, \<open>h_source\<close> the length and SHA-256 of a securely opened source, \<open>h_secure_dir\<close> the check
  on a directory, \<open>h_copy\<close> the atomic copy onto an executable, \<open>h_task_unit\<close> the unit name minted
  for a task.
\<close>

section \<open>Inspection documents\<close>

datatype json_text = NoMember | NotText | Text string

definition as_text :: "json_text \<Rightarrow> string option" where
  "as_text j = (case j of Text s \<Rightarrow> Some s | _ \<Rightarrow> None)"

datatype json_texts = NoTexts | NotTexts | Texts "json_text list"
datatype json_flag = NoFlag | NotFlag | Flag bool

record port_binding =
  pb_host_ip :: json_text
  pb_host_port :: json_text

datatype port_bindings = NullBindings | NotBindings | Bindings "port_binding option list"
datatype port_map = NoPortMap | NotPortMap | PortMap "(string \<times> port_bindings) list"

record mount_document =
  md_source :: json_text
  md_destination :: json_text
  md_options :: json_texts
  md_mode :: json_text
  md_rw :: json_flag

datatype mount_list = NoMounts | NotMounts | MountList "mount_document list"

record config_document =
  cc_entrypoint :: json_text
  cc_command :: "string list option"
  cc_cmd :: "string list option"
  cc_image :: json_text
  cc_env :: "string list"
  cc_labels :: entries

record container_document =
  cd_config :: "config_document option"
  cd_image_name :: json_text
  cd_image :: json_text
  cd_id :: json_text
  cd_id_upper :: json_text
  cd_name :: json_text
  cd_path :: json_text
  cd_args :: "string list"
  cd_running :: "bool option"
  cd_port_map :: port_map
  cd_networks :: "string list"
  cd_mounts :: mount_list

text \<open>What an accessor finds in a JSON value that is not an object with the member.\<close>

definition empty_document :: container_document where
  "empty_document =
     \<lparr>cd_config = None, cd_image_name = NoMember, cd_image = NoMember, cd_id = NoMember,
      cd_id_upper = NoMember, cd_name = NoMember, cd_path = NoMember, cd_args = [],
      cd_running = None, cd_port_map = NoPortMap,
      cd_networks = [], cd_mounts = NoMounts\<rparr>"

datatype json_output = NotJson | JsonValue container_document | JsonArray "container_document list"

section \<open>The host\<close>

datatype inspect_output = NotExecuted | Exited bool string json_output
datatype text_output = TextNotExecuted | TextExited bool string "string option"
datatype task_output = TaskNotExecuted | TaskExited bool "string option" "string option"

record 'w host =
  h_run :: "string list \<Rightarrow> 'w \<Rightarrow> bool \<times> 'w"
  h_inspect :: "'w \<Rightarrow> string list \<Rightarrow> inspect_output"
  h_text :: "'w \<Rightarrow> string list \<Rightarrow> text_output"
  h_task :: "string list \<Rightarrow> entries \<Rightarrow> string \<Rightarrow> 'w \<Rightarrow> task_output \<times> 'w"
  h_rootless :: bool
  h_json_texts :: "string \<Rightarrow> string list option"
  h_executable :: "'w \<Rightarrow> string \<Rightarrow> (string \<times> string) option"
  h_source :: "'w \<Rightarrow> string \<Rightarrow> (nat \<times> string) option"
  h_secure_dir :: "'w \<Rightarrow> string list \<Rightarrow> bool"
  h_copy :: "string \<Rightarrow> string \<Rightarrow> string \<Rightarrow> 'w \<Rightarrow> bool \<times> 'w"
  h_task_unit :: string

datatype backend_error =
    EngineUnavailable
  | InspectionFailed
  | InspectNotJson
  | ObjectAbsent
  | InspectIncomplete
  | InvalidPorts
  | InvalidMounts
  | CommandFailed
  | CommandNotUtf8
  | DigestFieldsMissing
  | DigestNotRetained
  | DigestsNotJson
  | ArtifactNotOci
  | ArtifactNotHostBinary
  | NoReplacementOwner
  | ForeignReplacementSource
  | ReplacementSourceRunning
  | NoImmutableId
  | NoContainerPolicy
  | NoTaskUser
  | NotANonRootUser
  | TaskFailed
  | TaskRejected string
  | TaskNotUtf8
  | HostPolicyRefused
  | UnmanagedProcess
  | InvalidUnitName
  | ExecStartRejected
  | NotAServerCommand
  | ExecStartMismatch
  | InsecureTargetDirectory
  | SourceDigestChanged
  | CopyFailed

definition run_quiet :: "'w host \<Rightarrow> string list \<Rightarrow> 'w \<Rightarrow> (backend_error + unit) \<times> 'w" where
  "run_quiet H argv w =
     (case h_run H argv w of (ok, w') \<Rightarrow> (require ok CommandFailed, w'))"

definition engine_name :: "RuntimeBackendKind \<Rightarrow> string" where
  "engine_name kind = (if kind = Podman then ''podman'' else ''docker'')"

section \<open>Reading an object\<close>

definition is_not_found_error :: "string \<Rightarrow> bool" where
  "is_not_found_error stderr \<longleftrightarrow>
     list_ex (contains_text stderr)
       [''no such object'', ''no such container'', ''no such volume'', ''no such network'',
        ''no volume with name'', ''no container with name or id'', ''network not found'',
        ''volume not found'']"

definition stderr_engine_unavailable :: "string \<Rightarrow> bool" where
  "stderr_engine_unavailable stderr \<longleftrightarrow>
     list_ex (contains_text stderr)
       [''cannot connect'', ''connection refused'', ''unable to connect'', ''connection to'',
        ''is the docker daemon running'', ''podman machine'', ''failed to connect'',
        ''cannot communicate'']"

definition inspect_document_optional ::
  "'w host \<Rightarrow> 'w \<Rightarrow> string list \<Rightarrow> backend_error + container_document option" where
  "inspect_document_optional H w argv =
     (case h_inspect H w (argv @ [''--format'', ''{{json .}}'']) of
        NotExecuted \<Rightarrow> Inl EngineUnavailable
      | Exited success stderr out \<Rightarrow>
          if \<not> success then
            (let text = to_ascii_lowercase stderr
             in if stderr_engine_unavailable text then Inl EngineUnavailable
                else if is_not_found_error text then Inr None
                else Inl InspectionFailed)
          else (case out of
              NotJson \<Rightarrow> Inl InspectNotJson
            | JsonArray (d # _) \<Rightarrow> Inr (Some d)
            | JsonArray [] \<Rightarrow> Inr (Some empty_document)
            | JsonValue d \<Rightarrow> Inr (Some d)))"

definition inspect_document ::
  "'w host \<Rightarrow> 'w \<Rightarrow> string list \<Rightarrow> backend_error + container_document" where
  "inspect_document H w argv =
     rbind (inspect_document_optional H w argv) (\<lambda>d.
       case d of None \<Rightarrow> Inl ObjectAbsent | Some d \<Rightarrow> Inr d)"

definition command_stdout :: "'w host \<Rightarrow> 'w \<Rightarrow> string list \<Rightarrow> backend_error + string" where
  "command_stdout H w argv =
     (case h_text H w argv of
        TextNotExecuted \<Rightarrow> Inl EngineUnavailable
      | TextExited success stderr out \<Rightarrow>
          if \<not> success then
            (if stderr_engine_unavailable (to_ascii_lowercase stderr) then Inl EngineUnavailable
             else Inl CommandFailed)
          else (case out of None \<Rightarrow> Inl CommandNotUtf8 | Some s \<Rightarrow> Inr s))"

section \<open>Image identities\<close>

definition valid_digest :: "string \<Rightarrow> bool" where
  "valid_digest s \<longleftrightarrow>
     (case strip_prefix ''sha256:'' s of
        None \<Rightarrow> False
      | Some digest \<Rightarrow> length digest = 64 \<and> list_all is_hexdigit digest)"

definition requested_digest_matches :: "string \<Rightarrow> string \<Rightarrow> bool" where
  "requested_digest_matches image_reference digest \<longleftrightarrow>
     (case rsplit_once (CHR ''@'') image_reference of
        None \<Rightarrow> True
      | Some (_, requested) \<Rightarrow> eq_ignore_case requested digest)"

definition normalize_local_image_id :: "string \<Rightarrow> bool \<Rightarrow> string option" where
  "normalize_local_image_id s allow_bare_digest =
     (if allow_bare_digest then
        (let digest = (case strip_prefix ''sha256:'' s of None \<Rightarrow> s | Some d \<Rightarrow> d)
         in if length digest = 64 \<and> list_all is_hexdigit digest
            then Some (''sha256:'' @ to_ascii_lowercase digest) else None)
      else (let normalized = to_ascii_lowercase s
            in if valid_digest normalized then Some normalized else None))"

definition pinned_image :: "string \<Rightarrow> string \<Rightarrow> string" where
  "pinned_image image_reference digest =
     hd (split_on (CHR ''@'') image_reference) @ ''@'' @ digest"

definition runnable_oci_image :: "string \<Rightarrow> string \<Rightarrow> string option \<Rightarrow> string" where
  "runnable_oci_image image_reference digest local_artifact_id =
     (case local_artifact_id of
        Some i \<Rightarrow> i
      | None \<Rightarrow>
          (case normalize_local_image_id image_reference True of
             Some i \<Rightarrow> i
           | None \<Rightarrow> pinned_image image_reference digest))"

definition retained_digest :: "string \<Rightarrow> string list \<Rightarrow> string option" where
  "retained_digest image_reference digests =
     find (\<lambda>d. valid_digest d \<and> requested_digest_matches image_reference d)
       (List.map_filter (\<lambda>v. map_option snd (rsplit_once (CHR ''@'') v)) digests)"

definition image_inspect ::
  "'w host \<Rightarrow> 'w \<Rightarrow> RuntimeBackendKind \<Rightarrow> string \<Rightarrow> string option \<Rightarrow> string
   \<Rightarrow> backend_error + string" where
  "image_inspect H w kind image_reference local_image_id format =
     command_stdout H w
       [engine_name kind, ''image'', ''inspect'',
        (case local_image_id of None \<Rightarrow> image_reference | Some i \<Rightarrow> i), ''--format'', format]"

definition podman_image_digest ::
  "'w host \<Rightarrow> 'w \<Rightarrow> string \<Rightarrow> string option \<Rightarrow> backend_error + string" where
  "podman_image_digest H w image_reference local_image_id =
     rbind (image_inspect H w Podman image_reference local_image_id
              (''{{json .RepoDigests}}'' @ [CHR 0x0A] @ ''{{.Digest}}'')) (\<lambda>observed.
       case split_once [CHR 0x0A] observed of
         None \<Rightarrow> Inl DigestFieldsMissing
       | Some (repo_digests, field) \<Rightarrow>
           (case (case h_json_texts H (trim repo_digests) of
                    None \<Rightarrow> None
                  | Some digests \<Rightarrow> retained_digest image_reference digests) of
              Some digest \<Rightarrow> Inr (to_ascii_lowercase digest)
            | None \<Rightarrow>
                (let digest = trim field
                 in if \<not> valid_digest digest \<or> \<not> requested_digest_matches image_reference digest
                    then Inl DigestNotRetained else Inr (to_ascii_lowercase digest))))"

definition docker_image_digest ::
  "'w host \<Rightarrow> 'w \<Rightarrow> string \<Rightarrow> string option \<Rightarrow> backend_error + string" where
  "docker_image_digest H w image_reference local_image_id =
     rbind (image_inspect H w Docker image_reference local_image_id ''{{json .RepoDigests}}'') (\<lambda>out.
       case h_json_texts H (trim out) of
         None \<Rightarrow> Inl DigestsNotJson
       | Some digests \<Rightarrow>
           (case retained_digest image_reference digests of
              None \<Rightarrow> Inl DigestNotRetained
            | Some digest \<Rightarrow> Inr (to_ascii_lowercase digest)))"

section \<open>The observation of a container\<close>

definition podman_server_document :: "container_document \<Rightarrow> bool" where
  "podman_server_document d \<longleftrightarrow>
     (case cd_config d of
        None \<Rightarrow> False
      | Some config \<Rightarrow>
          server_command_verified
            ((case as_text (cc_entrypoint config) of None \<Rightarrow> [] | Some e \<Rightarrow> [e])
             @ (case cc_command config of
                  Some c \<Rightarrow> c
                | None \<Rightarrow> (case cc_cmd config of Some c \<Rightarrow> c | None \<Rightarrow> []))))"

definition docker_server_document :: "container_document \<Rightarrow> bool" where
  "docker_server_document d \<longleftrightarrow>
     server_command_verified
       ((case as_text (cd_path d) of None \<Rightarrow> [] | Some p \<Rightarrow> [p]) @ cd_args d)"

definition is_server_document :: "RuntimeBackendKind \<Rightarrow> container_document \<Rightarrow> bool" where
  "is_server_document kind =
     (if kind = Podman then podman_server_document else docker_server_document)"

text \<open>A member that must be a nonempty text.\<close>

definition nonempty_text :: "json_text \<Rightarrow> string option" where
  "nonempty_text j =
     (case as_text j of None \<Rightarrow> None | Some s \<Rightarrow> if s = [] then None else Some s)"

fun parse_bindings :: "string \<Rightarrow> port_binding option list \<Rightarrow> backend_error + string list" where
  "parse_bindings container_port [] = Inr []"
| "parse_bindings container_port (None # bs) = Inl InvalidPorts"
| "parse_bindings container_port (Some b # bs) =
     (case nonempty_text (pb_host_ip b) of
        None \<Rightarrow> Inl InvalidPorts
      | Some host_ip \<Rightarrow>
     (case nonempty_text (pb_host_port b) of
        None \<Rightarrow> Inl InvalidPorts
      | Some host_port \<Rightarrow>
          if parse_unsigned 16 host_port = None then Inl InvalidPorts
          else rbind (parse_bindings container_port bs) (\<lambda>rest.
            Inr ((host_ip @ '':'' @ host_port @ ''->'' @ container_port) # rest))))"

fun parse_port_entries :: "(string \<times> port_bindings) list \<Rightarrow> backend_error + string list" where
  "parse_port_entries [] = Inr []"
| "parse_port_entries ((container_port, bindings) # ps) =
     (case rsplit_once (CHR ''/'') container_port of
        None \<Rightarrow> Inl InvalidPorts
      | Some (port, transport) \<Rightarrow>
          if parse_unsigned 16 port = None
             \<or> to_ascii_lowercase transport \<notin> {''tcp'', ''udp'', ''sctp''}
          then Inl InvalidPorts
          else (case bindings of
              NullBindings \<Rightarrow> parse_port_entries ps
            | NotBindings \<Rightarrow> Inl InvalidPorts
            | Bindings bs \<Rightarrow>
                rbind (parse_bindings container_port bs) (\<lambda>here.
                rbind (parse_port_entries ps) (\<lambda>rest. Inr (here @ rest)))))"

definition parse_ports :: "container_document \<Rightarrow> backend_error + string list" where
  "parse_ports d =
     (case cd_port_map d of
        NoPortMap \<Rightarrow> Inr []
      | NotPortMap \<Rightarrow> Inl InvalidPorts
      | PortMap ports \<Rightarrow> parse_port_entries ports)"

definition neutral_mount :: "string \<Rightarrow> string \<Rightarrow> bool \<Rightarrow> bool \<Rightarrow> NeutralMount" where
  "neutral_mount source destination read_only relabel =
     \<lparr>nm_source = source, nm_destination = destination, nm_read_only = read_only,
      nm_selinux_relabel = relabel, nm_ownership = External, nm_scope = DeploymentScoped\<rparr>"

definition mount_read_only :: "json_flag \<Rightarrow> bool \<Rightarrow> bool \<Rightarrow> backend_error + bool" where
  "mount_read_only rw options_empty says_ro =
     (case rw of
        NoFlag \<Rightarrow> if options_empty then Inl InvalidMounts else Inr says_ro
      | NotFlag \<Rightarrow> Inl InvalidMounts
      | Flag writable \<Rightarrow> Inr (\<not> writable))"

definition podman_mount :: "mount_document \<Rightarrow> backend_error + NeutralMount" where
  "podman_mount m =
     (case (nonempty_text (md_source m), nonempty_text (md_destination m)) of
        (Some source, Some destination) \<Rightarrow>
          (case md_options m of
             NotTexts \<Rightarrow> Inl InvalidMounts
           | jo \<Rightarrow>
               let texts = (case jo of Texts js \<Rightarrow> js | _ \<Rightarrow> []);
                   options = List.map_filter nonempty_text texts
               in if list_ex (\<lambda>j. nonempty_text j = None) texts then Inl InvalidMounts
                  else rbind (mount_read_only (md_rw m) (options = []) (''ro'' \<in> set options))
                    (\<lambda>ro. Inr (neutral_mount source destination ro
                             (''z'' \<in> set options \<or> ''Z'' \<in> set options))))
      | _ \<Rightarrow> Inl InvalidMounts)"

definition docker_mount :: "mount_document \<Rightarrow> backend_error + NeutralMount" where
  "docker_mount m =
     (case (nonempty_text (md_source m), nonempty_text (md_destination m)) of
        (Some source, Some destination) \<Rightarrow>
          (case md_mode m of
             NotText \<Rightarrow> Inl InvalidMounts
           | jm \<Rightarrow>
               let mode = (case jm of Text s \<Rightarrow> s | _ \<Rightarrow> []);
                   parts = split_on (CHR '','') mode
               in rbind (mount_read_only (md_rw m) (mode = []) (''ro'' \<in> set parts))
                    (\<lambda>ro. Inr (neutral_mount source destination ro
                             (''z'' \<in> set parts \<or> ''Z'' \<in> set parts))))
      | _ \<Rightarrow> Inl InvalidMounts)"

text \<open>\<open>iter().map(f).collect::<Result<Vec<_>, _>>()\<close>.\<close>

fun collect_results :: "('a \<Rightarrow> 'e + 'b) \<Rightarrow> 'a list \<Rightarrow> 'e + 'b list" where
  "collect_results f [] = Inr []"
| "collect_results f (x # xs) =
     rbind (f x) (\<lambda>y. rbind (collect_results f xs) (\<lambda>ys. Inr (y # ys)))"

definition parse_mounts ::
  "RuntimeBackendKind \<Rightarrow> container_document \<Rightarrow> backend_error + NeutralMount list" where
  "parse_mounts kind d =
     (case cd_mounts d of
        NoMounts \<Rightarrow> Inr []
      | NotMounts \<Rightarrow> Inl InvalidMounts
      | MountList ms \<Rightarrow> collect_results (if kind = Podman then podman_mount else docker_mount) ms)"

definition observed_image_reference ::
  "RuntimeBackendKind \<Rightarrow> container_document \<Rightarrow> config_document \<Rightarrow> string" where
  "observed_image_reference kind d config =
     (let member = (if kind = Podman \<and> cd_image_name d \<noteq> NoMember then cd_image_name d
                    else cc_image config)
      in case as_text member of None \<Rightarrow> [] | Some s \<Rightarrow> s)"

text \<open>
  The \<open>evidence\<close> and \<open>missing\<close> notes of an observation are report text and are left out.
\<close>

definition observation_from_document ::
  "'w host \<Rightarrow> 'w \<Rightarrow> RuntimeBackendKind \<Rightarrow> container_document
   \<Rightarrow> backend_error + RuntimeObservation" where
  "observation_from_document H w kind d =
     (case cd_config d of
        None \<Rightarrow> Inl InspectIncomplete
      | Some config \<Rightarrow>
          let image_reference = observed_image_reference kind d config;
              local_id = (case as_text (cd_image d) of
                            None \<Rightarrow> None
                          | Some v \<Rightarrow> normalize_local_image_id v (kind = Podman))
          in rbind (case (if kind = Podman then podman_image_digest H w image_reference local_id
                          else docker_image_digest H w image_reference local_id) of
                      Inr digest \<Rightarrow> Inr (Oci image_reference digest)
                    | Inl e \<Rightarrow> if e = EngineUnavailable then Inl e else Inr UnknownArtifact) (\<lambda>artifact.
             rbind (parse_ports d) (\<lambda>ports.
             rbind (parse_mounts kind d) (\<lambda>mounts.
             case as_text (cd_id d) of
               None \<Rightarrow> Inl InspectIncomplete
             | Some i \<Rightarrow>
                 let display = trim_start_matches ''/''
                       (case as_text (cd_name d) of None \<Rightarrow> i | Some n \<Rightarrow> n)
                 in Inr \<lparr>ob_backend = kind, ob_object_reference = display,
                         ob_display_name = display,
                         ob_running = (cd_running d = Some True),
                         ob_server_command_verified = is_server_document kind d,
                         ob_artifact = artifact, ob_local_artifact_id = local_id,
                         ob_ports = ports, ob_networks = cd_networks d, ob_mounts = mounts,
                         ob_safe_environment = safe_environment (cc_env config),
                         ob_labels = cc_labels config\<rparr>))))"

definition container_inspect ::
  "'w host \<Rightarrow> RuntimeBackendKind \<Rightarrow> 'w \<Rightarrow> string \<Rightarrow> backend_error + RuntimeObservation" where
  "container_inspect H kind w object =
     rbind (inspect_document H w [engine_name kind, ''container'', ''inspect'', object])
       (observation_from_document H w kind)"

section \<open>Replacing a container\<close>

definition DEPLOYMENT_LABEL :: string where "DEPLOYMENT_LABEL = ''io.nazoauth.deployment-id''"

definition immutable_id :: "container_document \<Rightarrow> string option" where
  "immutable_id d =
     (case as_text (if cd_id d \<noteq> NoMember then cd_id d else cd_id_upper d) of
        None \<Rightarrow> None
      | Some i \<Rightarrow> if length i = 64 \<and> list_all is_hexdigit i then Some i else None)"

definition remove_replacement_source ::
  "'w host \<Rightarrow> RuntimeBackendKind \<Rightarrow> RuntimeReplacement \<Rightarrow> 'w \<Rightarrow> (backend_error + unit) \<times> 'w" where
  "remove_replacement_source H kind r w =
     (case inspect_document_optional H w
             [engine_name kind, ''container'', ''inspect'', re_object_reference r] of
        Inl e \<Rightarrow> (Inl e, w)
      | Inr None \<Rightarrow> (Inr (), w)
      | Inr (Some d) \<Rightarrow>
     (case map_of (re_labels r) DEPLOYMENT_LABEL of
        None \<Rightarrow> (Inl NoReplacementOwner, w)
      | Some expected \<Rightarrow>
     (if (case cd_config d of None \<Rightarrow> None | Some c \<Rightarrow> map_of (cc_labels c) DEPLOYMENT_LABEL)
         \<noteq> Some expected
      then (Inl ForeignReplacementSource, w)
      else if cd_running d \<noteq> Some False then (Inl ReplacementSourceRunning, w)
      else case immutable_id d of
        None \<Rightarrow> (Inl NoImmutableId, w)
      | Some i \<Rightarrow> run_quiet H [engine_name kind, ''rm'', i] w)))"

definition restart_arguments :: "ContainerRestartPolicy \<Rightarrow> string list" where
  "restart_arguments p =
     (case p of
        RestartNo \<Rightarrow> []
      | RestartOnFailure \<Rightarrow> [''--restart'', ''on-failure'']
      | RestartAlways \<Rightarrow> [''--restart'', ''always'']
      | RestartUnlessStopped \<Rightarrow> [''--restart'', ''unless-stopped''])"

definition pad3 :: "nat \<Rightarrow> string" where
  "pad3 n = (let s = decimal n in replicate (3 - length s) (CHR ''0'') @ s)"

definition tmpfs_argument :: "NeutralTmpfs \<Rightarrow> string" where
  "tmpfs_argument t =
     tf_destination t @ '':''
     @ join_with (CHR '','')
         ([if tf_read_only t then ''ro'' else ''rw'']
          @ (if tf_no_exec t then [''noexec''] else [])
          @ (if tf_no_suid t then [''nosuid''] else [])
          @ (if tf_no_device t then [''nodev''] else []))
     @ '',size='' @ decimal (tf_size_bytes t)"

definition policy_arguments :: "ContainerRuntimePolicy \<Rightarrow> string list" where
  "policy_arguments p =
     restart_arguments (crp_restart p)
     @ (case crp_service_user p of None \<Rightarrow> [] | Some user \<Rightarrow> [''--user'', user])
     @ (if crp_drop_all_capabilities p then [''--cap-drop=ALL''] else [])
     @ (if crp_no_new_privileges p then [''--security-opt=no-new-privileges''] else [])
     @ (if crp_read_only_root p then [''--read-only''] else [])
     @ (case crp_pids_limit p of None \<Rightarrow> [] | Some n \<Rightarrow> [''--pids-limit'', decimal n])
     @ (case crp_memory_limit_bytes p of None \<Rightarrow> [] | Some n \<Rightarrow> [''--memory'', decimal n])
     @ (case crp_cpu_limit_millis p of
          None \<Rightarrow> []
        | Some n \<Rightarrow> [''--cpus'', decimal (n div 1000) @ ''.'' @ pad3 (n mod 1000)])
     @ concat (map (\<lambda>t. [''--tmpfs'', tmpfs_argument t]) (crp_tmpfs p))"

definition mount_arguments :: "NeutralMount list \<Rightarrow> string list" where
  "mount_arguments mounts =
     concat (map (\<lambda>m. [''--volume'',
         nm_source m @ '':'' @ nm_destination m @ '':''
         @ (if nm_read_only m then ''ro'' else ''rw'')
         @ (if nm_selinux_relabel m then '',Z'' else '''')]) mounts)"

definition entry_arguments :: "string \<Rightarrow> entries \<Rightarrow> string list" where
  "entry_arguments flag es = concat (map (\<lambda>(name, v). [flag, name @ ''='' @ v]) es)"

definition flag_arguments :: "string \<Rightarrow> string list \<Rightarrow> string list" where
  "flag_arguments flag vs = concat (map (\<lambda>v. [flag, v]) vs)"

definition address_arguments :: "string option \<Rightarrow> string list" where
  "address_arguments ip = (case ip of None \<Rightarrow> [] | Some address \<Rightarrow> [''--ip'', address])"

definition podman_create ::
  "'w host \<Rightarrow> RuntimeReplacement \<Rightarrow> string \<Rightarrow> ContainerRuntimePolicy \<Rightarrow> string list" where
  "podman_create H r img policy =
     [''podman'', ''create'', ''--name'', re_object_reference r]
     @ (if h_rootless H then [''--userns=keep-id:uid=10001,gid=10001''] else [])
     @ policy_arguments policy
     @ entry_arguments ''--label'' (re_labels r)
     @ entry_arguments ''--env'' (re_environment r)
     @ (if h_rootless H \<and> (re_networks r = [] \<or> re_networks r = [''pasta''])
        then [''--network'', ''pasta:--map-gw'']
        else flag_arguments ''--network'' (re_networks r))
     @ address_arguments (re_ip_address r)
     @ flag_arguments ''--publish'' (re_ports r)
     @ mount_arguments (re_mounts r) @ [img] @ re_command r"

definition docker_create ::
  "RuntimeReplacement \<Rightarrow> string \<Rightarrow> ContainerRuntimePolicy \<Rightarrow> string list" where
  "docker_create r img policy =
     [''docker'', ''create'', ''--name'', re_object_reference r]
     @ policy_arguments policy
     @ [''--add-host'', ''host.docker.internal:host-gateway'']
     @ entry_arguments ''--label'' (re_labels r)
     @ entry_arguments ''--env'' (re_environment r)
     @ flag_arguments ''--network'' (re_networks r)
     @ address_arguments (re_ip_address r)
     @ flag_arguments ''--publish'' (re_ports r)
     @ mount_arguments (re_mounts r) @ [img] @ re_command r"

definition podman_replace ::
  "'w host \<Rightarrow> RuntimeReplacement \<Rightarrow> 'w \<Rightarrow> (backend_error + unit) \<times> 'w" where
  "podman_replace H r w =
     (case re_artifact r of
        Oci image_reference digest \<Rightarrow>
          (case remove_replacement_source H Podman r w of
             (Inl e, w1) \<Rightarrow> (Inl e, w1)
           | (Inr _, w1) \<Rightarrow>
               (let img = (case re_local_artifact_id r of
                               Some i \<Rightarrow> i | None \<Rightarrow> pinned_image image_reference digest)
                in case re_container_policy r of
                     None \<Rightarrow> (Inl NoContainerPolicy, w1)
                   | Some policy \<Rightarrow> run_quiet H (podman_create H r img policy) w1))
      | _ \<Rightarrow> (Inl ArtifactNotOci, w))"

definition docker_replace ::
  "'w host \<Rightarrow> RuntimeReplacement \<Rightarrow> 'w \<Rightarrow> (backend_error + unit) \<times> 'w" where
  "docker_replace H r w =
     (case re_artifact r of
        Oci image_reference digest \<Rightarrow>
          (case remove_replacement_source H Docker r w of
             (Inl e, w1) \<Rightarrow> (Inl e, w1)
           | (Inr _, w1) \<Rightarrow>
               (let img = runnable_oci_image image_reference digest (re_local_artifact_id r)
                in case re_container_policy r of
                     None \<Rightarrow> (Inl NoContainerPolicy, w1)
                   | Some policy \<Rightarrow> run_quiet H (docker_create r img policy) w1))
      | _ \<Rightarrow> (Inl ArtifactNotOci, w))"

definition container_command ::
  "'w host \<Rightarrow> RuntimeBackendKind \<Rightarrow> string \<Rightarrow> string \<Rightarrow> 'w \<Rightarrow> (backend_error + unit) \<times> 'w" where
  "container_command H kind verb object w = run_quiet H [engine_name kind, verb, object] w"

section \<open>One-shot tasks\<close>

definition NON_ROOT_ONE_SHOT_USER :: string where "NON_ROOT_ONE_SHOT_USER = ''10001:10001''"

definition non_root_number :: "string \<Rightarrow> bool" where
  "non_root_number n \<longleftrightarrow>
     n \<noteq> [] \<and> list_all is_digit n
     \<and> (case parse_unsigned 32 n of None \<Rightarrow> False | Some v \<Rightarrow> v \<noteq> 0)"

definition validate_non_root_user :: "string \<Rightarrow> backend_error + unit" where
  "validate_non_root_user user =
     (case split_once '':'' user of
        None \<Rightarrow> Inl NotANonRootUser
      | Some (uid, gid) \<Rightarrow> require (non_root_number uid \<and> non_root_number gid) NotANonRootUser)"

definition one_shot_process ::
  "'w host \<Rightarrow> RuntimeBackendKind \<Rightarrow> OneShotTask \<Rightarrow> backend_error + string list" where
  "one_shot_process H kind task =
     (case os_artifact task of
        Oci image_reference digest \<Rightarrow>
          (case os_service_user task of
             None \<Rightarrow> Inl NoTaskUser
           | Some user \<Rightarrow>
               rbind (validate_non_root_user user) (\<lambda>_.
               let rootless = (kind = Podman \<and> h_rootless H);
                   network = (case os_network task of
                       None \<Rightarrow> ''none''
                     | Some n \<Rightarrow> if rootless \<and> (n = ''bridge'' \<or> n = ''pasta'')
                                 then ''pasta:--map-gw'' else n)
               in Inr ([engine_name kind, ''run'', ''--rm'', ''--interactive'']
                   @ (if rootless then [''--userns=keep-id:uid=10001,gid=10001''] else [])
                   @ policy_arguments (managed_default\<lparr>crp_restart := RestartNo\<rparr>)
                   @ [''--user'', user, ''--network'', network]
                   @ (if kind = Docker
                      then [''--add-host'', ''host.docker.internal:host-gateway''] else [])
                   @ (case os_working_directory task of
                        None \<Rightarrow> [] | Some directory \<Rightarrow> [''--workdir'', directory])
                   @ concat (map (\<lambda>(name, _). [''--env'', name]) (os_environment task))
                   @ mount_arguments (os_mounts task)
                   @ [runnable_oci_image image_reference digest None] @ os_command task)))
      | _ \<Rightarrow> Inl ArtifactNotOci)"

definition rejection_markers :: "string list" where
  "rejection_markers =
     map (\<lambda>c. ''nazoauth-operator-rejection='' @ c)
       [''request'', ''authorization'', ''deployment'', ''revision'', ''conflict'', ''unavailable'']"

text \<open>
  \<open>OneShotTask::capture_result\<close> for an operator task. \<open>TaskExited\<close> holds the standard output and the
  standard error, each \<open>None\<close> where it is not UTF-8; an empty output is \<open>Some []\<close>.
\<close>

definition capture_result :: "task_output \<Rightarrow> backend_error + string" where
  "capture_result out =
     (case out of
        TaskNotExecuted \<Rightarrow> Inl TaskFailed
      | TaskExited success stdout stderr \<Rightarrow>
          if \<not> success \<and> stdout = Some [] then
            (case (case stderr of
                     None \<Rightarrow> None
                   | Some text \<Rightarrow> find (\<lambda>l. l \<in> set rejection_markers) (text_lines text)) of
               Some marker \<Rightarrow> Inl (TaskRejected marker)
             | None \<Rightarrow> Inl TaskFailed)
          else (case stdout of None \<Rightarrow> Inl TaskNotUtf8 | Some s \<Rightarrow> Inr s))"

definition container_run_one_shot ::
  "'w host \<Rightarrow> RuntimeBackendKind \<Rightarrow> OneShotTask \<Rightarrow> 'w \<Rightarrow> (backend_error + string) \<times> 'w" where
  "container_run_one_shot H kind task w =
     (case one_shot_process H kind task of
        Inl e \<Rightarrow> (Inl e, w)
      | Inr argv \<Rightarrow>
          (case h_task H argv (os_environment task) (os_stdin task) w of
             (out, w') \<Rightarrow> (capture_result out, w')))"

end
