(* ===== verification/Systemd.thy ===== *)
theory Systemd
  imports Container
begin

text \<open>
  The systemd backend of \<open>crates/nazoauthctl-runtime/src/runtime_backend/systemd.rs\<close>: the
  \<open>ExecStart\<close> reader, inspection, the guarded replacement of a host binary and one-shot tasks.
\<close>

section \<open>Reading an ExecStart property\<close>

definition is_ascii_space :: "char \<Rightarrow> bool" where
  "is_ascii_space c \<longleftrightarrow> c \<in> {CHR 0x20, CHR 0x09, CHR 0x0A, CHR 0x0C, CHR 0x0D}"

function ascii_words :: "string \<Rightarrow> string list" where
  "ascii_words s =
     (let t = dropWhile is_ascii_space s
      in if t = [] then []
         else takeWhile (\<lambda>c. \<not> is_ascii_space c) t
              # ascii_words (dropWhile (\<lambda>c. \<not> is_ascii_space c) t))"
  by pat_completeness auto
termination
proof (relation "measure length", simp, clarify)
  fix s :: string assume "dropWhile is_ascii_space s \<noteq> []"
  then obtain c t where t: "dropWhile is_ascii_space s = c # t" by (cases "dropWhile is_ascii_space s") auto
  then have "\<not> is_ascii_space c" by (simp add: dropWhile_eq_Cons_conv)
  moreover have "length t < length s"
    using length_dropWhile_le [of is_ascii_space s] t by simp
  ultimately show "(dropWhile (\<lambda>c. \<not> is_ascii_space c) (dropWhile is_ascii_space s), s)
      \<in> measure length"
    using length_dropWhile_le [of "\<lambda>c. \<not> is_ascii_space c" t] t by simp
qed

declare ascii_words.simps [simp del]

text \<open>\<open>str::split_whitespace\<close>.\<close>

fun leading_word :: "string \<Rightarrow> string \<times> string" where
  "leading_word [] = ([], [])"
| "leading_word (c # s) =
     (if white_len (c # s) \<noteq> 0 then ([], c # s)
      else case leading_word s of (w, rest) \<Rightarrow> (c # w, rest))"

text \<open>\<open>trim_matches('"')\<close>.\<close>

definition trim_quotes :: "string \<Rightarrow> string" where
  "trim_quotes s = rev (dropWhile (\<lambda>c. c = CHR 0x22) (rev (dropWhile (\<lambda>c. c = CHR 0x22) s)))"

lemma leading_word_length:
  "length (fst (leading_word s)) + length (snd (leading_word s)) = length s"
  by (induction s) (auto split: prod.split)

lemma trim_start_length: "length (trim_start s) \<le> length s"
proof (induction s rule: trim_start.induct)
  case (1 s)
  then show ?case by (subst trim_start.simps) (auto intro: le_trans)
qed

lemma after_word_shorter:
  assumes "leading_word (trim_start s) = (w, rest)" "w \<noteq> []"
  shows "length rest < length s"
  using assms leading_word_length [of "trim_start s"] trim_start_length [of s]
  by (cases w) auto

function white_words :: "string \<Rightarrow> string list" where
  "white_words s =
     (case leading_word (trim_start s) of
        (w, rest) \<Rightarrow> if w = [] then [] else w # white_words rest)"
  by pat_completeness auto
termination
  by (relation "measure length", simp, unfold in_measure, rule after_word_shorter, rule sym)

declare white_words.simps [simp del]

definition validate_systemd_exec_input :: "string \<Rightarrow> bool" where
  "validate_systemd_exec_input s \<longleftrightarrow>
     \<not> has_control s \<and> list_all (\<lambda>c. c \<notin> {CHR ''%'', CHR 0x27, CHR 0x22, CHR 0x5C}) s"

lemma shorter_rest:
  fixes s s1 s2 s3 rest :: string
  assumes "rest = drop 1 (dropWhile Q s3)" "s3 = drop 1 s2" "s2 = drop n s1"
    and "s1 = dropWhile P s" "s2 \<noteq> []"
  shows "length rest < length s"
proof -
  have "length s2 \<le> length s" using assms length_dropWhile_le [of P s] by simp
  moreover have "length (dropWhile Q s3) \<le> length s3" by (rule length_dropWhile_le)
  ultimately show ?thesis using assms by (cases s2) auto
qed

text \<open>
  The loop over the fields of a structured command; it carries the \<open>path\<close> and the \<open>argv[]\<close>
  fields read so far.
\<close>

function exec_fields ::
  "string option \<Rightarrow> string list \<Rightarrow> string \<Rightarrow> (string option \<times> string list) option" where
  "exec_fields path argv_fields s =
     (let s1 = dropWhile (\<lambda>c. is_ascii_space c \<or> c = CHR '';'') s;
          key = takeWhile (\<lambda>c. c \<noteq> CHR ''='' \<and> \<not> is_ascii_space c \<and> c \<noteq> CHR '';'') s1;
          s2 = drop (length key) s1;
          s3 = drop 1 s2;
          raw = trim (takeWhile (\<lambda>c. c \<noteq> CHR '';'') s3);
          rest = drop 1 (dropWhile (\<lambda>c. c \<noteq> CHR '';'') s3)
      in if s1 = [] then Some (path, argv_fields)
         else if key = [] \<or> s2 = [] \<or> hd s2 \<noteq> CHR ''='' then None
         else if raw = [] then None
         else if key = ''path'' then
           (if path \<noteq> None then None
            else case ascii_words raw of
                   [] \<Rightarrow> exec_fields None argv_fields rest
                 | [w] \<Rightarrow> exec_fields (Some w) argv_fields rest
                 | _ \<Rightarrow> None)
         else if key = ''argv[]'' then exec_fields path (argv_fields @ [raw]) rest
         else exec_fields path argv_fields rest)"
  by pat_completeness auto
termination
  by (relation "measure (\<lambda>(p, a, s). length s)")
     (simp, unfold in_measure prod.case, (rule shorter_rest, assumption, assumption, assumption,
        assumption, blast)+)

declare exec_fields.simps [simp del]

definition strip_line_end :: "string \<Rightarrow> string" where
  "strip_line_end s = (if s \<noteq> [] \<and> last s = CHR 0x0A then butlast s else s)"

definition parse_systemd_exec_start :: "string \<Rightarrow> backend_error + string list" where
  "parse_systemd_exec_start raw =
     (let line = strip_line_end raw; s = trim line
      in if \<not> validate_systemd_exec_input line then Inl ExecStartRejected
         else if s = [] \<or> length s < 2 \<or> hd s \<noteq> CHR 0x7B \<or> last s \<noteq> CHR 0x7D
         then Inl ExecStartRejected
         else let body = butlast (tl s)
         in if CHR 0x7B \<in> set body \<or> CHR 0x7D \<in> set body then Inl ExecStartRejected
            else case exec_fields None [] body of
              None \<Rightarrow> Inl ExecStartRejected
            | Some (None, _) \<Rightarrow> Inl ExecStartRejected
            | Some (Some path, argv_fields) \<Rightarrow>
                (case concat (map ascii_words argv_fields) of
                   [] \<Rightarrow> Inl ExecStartRejected
                 | program # arguments \<Rightarrow>
                     if program \<noteq> path then Inl ExecStartRejected
                     else Inr (program # arguments)))"

definition path_file_name :: "string \<Rightarrow> string option" where
  "path_file_name path =
     (let parts = path_components path
      in if parts = [] \<or> last parts = ''..'' then None else Some (last parts))"

definition nazoauth_program :: "string \<Rightarrow> bool" where
  "nazoauth_program path \<longleftrightarrow>
     (case path_file_name path of
        None \<Rightarrow> False
      | Some name \<Rightarrow> name = ''nazoauth'' \<or> name = ''nazoauth.exe'')"

definition is_nazoauth_server_argv :: "string list \<Rightarrow> bool" where
  "is_nazoauth_server_argv argv \<longleftrightarrow>
     (case argv of
        program # argument # _ \<Rightarrow> nazoauth_program program \<and> argument = ''server''
      | _ \<Rightarrow> False)"

section \<open>Units\<close>

definition validate_unit_name :: "string \<Rightarrow> backend_error + unit" where
  "validate_unit_name unit_name =
     require (ends_with unit_name ''.service'' \<and> length unit_name \<le> 256
       \<and> list_all (\<lambda>c. is_alphanumeric c \<or> c \<in> set ''@_.:-'') unit_name) InvalidUnitName"

definition process_reference :: "string \<Rightarrow> string option" where
  "process_reference object = strip_prefix ''process:'' object"

definition validate_mutable_unit :: "string \<Rightarrow> backend_error + unit" where
  "validate_mutable_unit object =
     (if process_reference object \<noteq> None then Inl UnmanagedProcess else validate_unit_name object)"

definition process_stdout :: "'w host \<Rightarrow> 'w \<Rightarrow> string list \<Rightarrow> backend_error + string" where
  "process_stdout H w argv =
     (case h_text H w argv of
        TextNotExecuted \<Rightarrow> Inl CommandFailed
      | TextExited success _ out \<Rightarrow>
          if \<not> success then Inl CommandFailed
          else (case out of None \<Rightarrow> Inl CommandNotUtf8 | Some s \<Rightarrow> Inr s))"

definition parse_properties :: "string \<Rightarrow> entries" where
  "parse_properties output =
     entries_of (List.map_filter (split_once ''='') (text_lines output))"

definition host_artifact :: "'w host \<Rightarrow> 'w \<Rightarrow> string \<Rightarrow> ArtifactReference" where
  "host_artifact H w path =
     (case h_executable H w path of
        None \<Rightarrow> UnknownArtifact
      | Some (canonical, sha256) \<Rightarrow> HostBinary canonical sha256)"

definition binary_id :: "ArtifactReference \<Rightarrow> string option" where
  "binary_id a = (case a of HostBinary _ sha256 \<Rightarrow> Some (''sha256:'' @ sha256) | _ \<Rightarrow> None)"

definition host_observation ::
  "string \<Rightarrow> string \<Rightarrow> bool \<Rightarrow> bool \<Rightarrow> ArtifactReference \<Rightarrow> entries \<Rightarrow> RuntimeObservation" where
  "host_observation object display running verified artifact environment =
     \<lparr>ob_backend = Host, ob_object_reference = object, ob_display_name = display,
      ob_running = running, ob_server_command_verified = verified, ob_artifact = artifact,
      ob_local_artifact_id = binary_id artifact, ob_ports = [], ob_networks = [], ob_mounts = [],
      ob_safe_environment = environment, ob_labels = []\<rparr>"

definition pair_scan :: "string list \<Rightarrow> bool" where
  "pair_scan ws = list_ex (\<lambda>(p, a). is_nazoauth_server_argv [p, a]) (zip ws (drop 1 ws))"

definition command_is_nazoauth_server :: "string \<Rightarrow> bool" where
  "command_is_nazoauth_server raw =
     (let command = strip_line_end raw
      in if take 1 (trim_start command) = [CHR 0x7B]
         then (case parse_systemd_exec_start command of
                 Inl _ \<Rightarrow> False | Inr argv \<Rightarrow> is_nazoauth_server_argv argv)
         else if \<not> validate_systemd_exec_input command then False
         else pair_scan (white_words command))"

definition process_observation ::
  "'w host \<Rightarrow> 'w \<Rightarrow> string \<Rightarrow> string \<Rightarrow> RuntimeObservation option" where
  "process_observation H w pid command =
     (if \<not> command_is_nazoauth_server command then None
      else case white_words command of
        [] \<Rightarrow> None
      | executable # _ \<Rightarrow>
          Some (host_observation (''process:'' @ pid) (''unmanaged process '' @ pid) True True
                  (host_artifact H w executable) []))"

definition inspect_process ::
  "'w host \<Rightarrow> 'w \<Rightarrow> string \<Rightarrow> backend_error + RuntimeObservation" where
  "inspect_process H w pid =
     (case parse_unsigned 32 pid of
        None \<Rightarrow> Inl UnmanagedProcess
      | Some n \<Rightarrow>
          if n = 0 then Inl UnmanagedProcess
          else rbind (process_stdout H w [''ps'', ''-p'', pid, ''-o'', ''args='']) (\<lambda>out.
            case process_observation H w pid (trim out) of
              None \<Rightarrow> Inl NotAServerCommand | Some ob \<Rightarrow> Inr ob))"

definition inspect_properties :: string where
  "inspect_properties =
     ''--property=Id,LoadState,ActiveState,FragmentPath,ExecStart,Environment,EnvironmentFiles,''
     @ ''User,Group,TasksMax,MemoryMax,CPUQuota,StartLimitIntervalUSec,StartLimitBurst,''
     @ ''NoNewPrivileges,ProtectSystem,PrivateTmp''"

definition unit_observation ::
  "'w host \<Rightarrow> 'w \<Rightarrow> string \<Rightarrow> entries \<Rightarrow> RuntimeObservation" where
  "unit_observation H w object properties =
     (let argv = (case map_of properties ''ExecStart'' of
            None \<Rightarrow> None
          | Some v \<Rightarrow> (case parse_systemd_exec_start v of Inl _ \<Rightarrow> None | Inr a \<Rightarrow> Some a));
          verified = (case argv of None \<Rightarrow> False | Some a \<Rightarrow> is_nazoauth_server_argv a);
          artifact = (case argv of
            None \<Rightarrow> UnknownArtifact
          | Some a \<Rightarrow> if verified then host_artifact H w (hd a) else UnknownArtifact);
          environment = (case map_of properties ''Environment'' of
            None \<Rightarrow> [] | Some v \<Rightarrow> map trim_quotes (white_words v))
      in host_observation object
           (case map_of properties ''Id'' of None \<Rightarrow> object | Some i \<Rightarrow> i)
           (map_of properties ''ActiveState'' = Some ''active'') verified artifact
           (safe_environment environment))"

definition systemd_inspect ::
  "'w host \<Rightarrow> 'w \<Rightarrow> string \<Rightarrow> backend_error + RuntimeObservation" where
  "systemd_inspect H w object =
     (case process_reference object of
        Some pid \<Rightarrow> inspect_process H w pid
      | None \<Rightarrow>
          rbind (validate_unit_name object) (\<lambda>_.
          rbind (process_stdout H w
                   [''systemctl'', ''show'', object, ''--no-pager'', inspect_properties]) (\<lambda>out.
          let properties = parse_properties out
          in if map_of properties ''LoadState'' = Some ''not-found'' then Inl ObjectAbsent
             else Inr (unit_observation H w object properties))))"

definition systemd_unit_executable ::
  "'w host \<Rightarrow> 'w \<Rightarrow> string \<Rightarrow> backend_error + string" where
  "systemd_unit_executable H w object =
     rbind (process_stdout H w
              [''systemctl'', ''show'', object, ''--no-pager'', ''--property=ExecStart'', ''--value''])
       (\<lambda>out. rbind (parse_systemd_exec_start out) (\<lambda>argv.
         if \<not> is_nazoauth_server_argv argv then Inl NotAServerCommand else Inr (hd argv)))"

definition systemd_command ::
  "'w host \<Rightarrow> string \<Rightarrow> string \<Rightarrow> 'w \<Rightarrow> (backend_error + unit) \<times> 'w" where
  "systemd_command H verb object w =
     (case validate_mutable_unit object of
        Inl e \<Rightarrow> (Inl e, w)
      | Inr _ \<Rightarrow> run_quiet H [''systemctl'', verb, object] w)"

section \<open>Replacing the executable of a unit\<close>

definition same_path :: "string \<Rightarrow> string \<Rightarrow> bool" where
  "same_path a b \<longleftrightarrow>
     (take 1 a = ''/'') = (take 1 b = ''/'') \<and> path_components a = path_components b"

definition replacement_target :: "RuntimeReplacement \<Rightarrow> backend_error + string" where
  "replacement_target r =
     (case re_command r of
        [] \<Rightarrow> Inl NotAServerCommand
      | target # arguments \<Rightarrow>
          if take 1 target \<noteq> ''/'' \<or> ''..'' \<in> set (path_components target)
             \<or> \<not> nazoauth_program target \<or> take 1 arguments \<noteq> [''server'']
          then Inl NotAServerCommand else Inr target)"

definition check_source ::
  "'w host \<Rightarrow> 'w \<Rightarrow> string \<Rightarrow> string \<Rightarrow> backend_error + unit" where
  "check_source H w source expected =
     (case h_source H w source of
        None \<Rightarrow> Inl SourceDigestChanged
      | Some (bytes, sha256) \<Rightarrow> require (bytes \<noteq> 0 \<and> sha256 = expected) SourceDigestChanged)"

definition admit_systemd_replacement ::
  "'w host \<Rightarrow> 'w \<Rightarrow> RuntimeReplacement \<Rightarrow> backend_error + (string \<times> string \<times> string)" where
  "admit_systemd_replacement H w r =
     (if re_container_policy r \<noteq> None then Inl HostPolicyRefused
      else rbind (validate_mutable_unit (re_object_reference r)) (\<lambda>_.
      case re_artifact r of
        HostBinary source expected \<Rightarrow>
          rbind (replacement_target r) (\<lambda>target.
          rbind (systemd_unit_executable H w (re_object_reference r)) (\<lambda>current.
          if \<not> same_path current target then Inl ExecStartMismatch
          else case path_parent target of
            None \<Rightarrow> Inl NotAServerCommand
          | Some parent \<Rightarrow>
              rbind (require (h_secure_dir H w parent) InsecureTargetDirectory) (\<lambda>_.
              rbind (check_source H w source expected) (\<lambda>_. Inr (source, target, expected)))))
      | _ \<Rightarrow> Inl ArtifactNotHostBinary))"

definition systemd_replace ::
  "'w host \<Rightarrow> RuntimeReplacement \<Rightarrow> 'w \<Rightarrow> (backend_error + unit) \<times> 'w" where
  "systemd_replace H r w =
     (case admit_systemd_replacement H w r of
        Inl e \<Rightarrow> (Inl e, w)
      | Inr (source, target, expected) \<Rightarrow>
          (case systemd_command H ''stop'' (re_object_reference r) w of
             (Inl e, w1) \<Rightarrow> (Inl e, w1)
           | (Inr _, w1) \<Rightarrow>
               (case systemd_unit_executable H w1 (re_object_reference r) of
                  Inl e \<Rightarrow> (Inl e, w1)
                | Inr current \<Rightarrow>
                    if \<not> same_path current target then (Inl ExecStartMismatch, w1)
                    else case h_copy H source target expected w1 of
                      (ok, w2) \<Rightarrow> (require ok CopyFailed, w2))))"

section \<open>One-shot tasks\<close>

definition safe_systemd_path :: "string \<Rightarrow> bool" where
  "safe_systemd_path path \<longleftrightarrow>
     take 1 path = ''/'' \<and> path \<noteq> ''/''
     \<and> \<not> list_ex (\<lambda>p. p = [] \<or> p = ''.'' \<or> p = ''..'') (drop 1 (split_on (CHR ''/'') path))
     \<and> \<not> has_control path \<and> \<not> has_whitespace path
     \<and> list_all (\<lambda>c. c \<notin> {CHR ''%'', CHR 0x27, CHR 0x22, CHR 0x5C}) path"

definition systemd_credential_path :: "string \<Rightarrow> string \<Rightarrow> backend_error + string" where
  "systemd_credential_path unit_name credential =
     (if credential = [] \<or> 128 < length credential
         \<or> \<not> list_all (\<lambda>c. is_alphanumeric c \<or> c \<in> set ''._-'') credential
      then Inl HostPolicyRefused
      else Inr (''/run/credentials/'' @ unit_name @ ''/'' @ credential))"

definition operator_credential_environment :: "(string \<times> string) list" where
  "operator_credential_environment =
     [(''NAZOAUTH_OPERATOR_CONTEXT_FILE'', ''operator-context''),
      (''NAZOAUTH_OPERATOR_CONTROLLER_PUBLIC_KEY_FILE'', ''operator-controller-public-key''),
      (''NAZOAUTH_OPERATOR_CONFIG_MANIFEST_FILE'', ''operator-config-manifest''),
      (''NAZOAUTH_OPERATOR_CONFIG_REVISION_FILE'', ''operator-config-revision'')]"

text \<open>The loop of \<open>add_operator_credentials\<close>: the arguments, and the variables they replace.\<close>

fun add_operator_credentials ::
  "OneShotTask \<Rightarrow> string \<Rightarrow> (string \<times> string) list \<Rightarrow> backend_error + (string list \<times> string list)" where
  "add_operator_credentials task unit_name [] = Inr ([], [])"
| "add_operator_credentials task unit_name ((environment, credential) # rest) =
     (case map_of (os_environment task) environment of
        None \<Rightarrow> add_operator_credentials task unit_name rest
      | Some source \<Rightarrow>
          let occupied = (map_of (os_transient_credentials task) credential \<noteq> None);
              bound = (strip_prefix ''%d/'' source \<noteq> None)
          in if bound \<and> (source \<noteq> ''%d/'' @ credential \<or> \<not> occupied) then Inl HostPolicyRefused
             else if \<not> bound \<and> (\<not> safe_systemd_path source \<or> occupied) then Inl HostPolicyRefused
             else rbind (systemd_credential_path unit_name credential) (\<lambda>path.
               rbind (add_operator_credentials task unit_name rest) (\<lambda>(arguments, names).
                 Inr ((if bound then []
                       else [''--property=LoadCredential='' @ credential @ '':'' @ source])
                      @ [''--setenv='' @ environment @ ''='' @ path] @ arguments,
                      environment # names))))"

definition require_non_root_service_user :: "'w host \<Rightarrow> 'w \<Rightarrow> string \<Rightarrow> backend_error + unit" where
  "require_non_root_service_user H w user =
     rbind (process_stdout H w [''id'', ''-u'', user]) (\<lambda>out.
       case parse_unsigned 32 (trim out) of
         None \<Rightarrow> Inl NotANonRootUser
       | Some uid \<Rightarrow> require (uid \<noteq> 0) NotANonRootUser)"

definition task_environment ::
  "OneShotTask \<Rightarrow> string \<Rightarrow> string list \<Rightarrow> backend_error + entries" where
  "task_environment task unit_name replaced =
     collect_results (\<lambda>(name, v).
         case strip_prefix ''%d/'' v of
           None \<Rightarrow> Inr (name, v)
         | Some credential \<Rightarrow>
             if map_of (os_transient_credentials task) credential = None then Inl HostPolicyRefused
             else rbind (systemd_credential_path unit_name credential) (\<lambda>path. Inr (name, path)))
       (filter (\<lambda>(name, _). name \<notin> set replaced) (os_environment task))"

definition systemd_task_limits :: "string list" where
  "systemd_task_limits =
     [''--quiet'', ''--wait'', ''--pipe'', ''--collect'', ''--service-type=exec'',
      ''--property=TasksMax=512'', ''--property=MemoryMax=1G'', ''--property=CPUQuota=200%'',
      ''--property=StartLimitIntervalSec=60s'', ''--property=StartLimitBurst=5'',
      ''--property=NoNewPrivileges=yes'', ''--property=PrivateTmp=yes'',
      ''--property=PrivateDevices=yes'', ''--property=ProtectSystem=strict'',
      ''--property=ProtectHome=yes'', ''--property=ProtectKernelTunables=yes'',
      ''--property=ProtectKernelModules=yes'', ''--property=ProtectControlGroups=yes'',
      ''--property=RestrictSUIDSGID=yes'', ''--property=LockPersonality=yes'',
      ''--property=CapabilityBoundingSet='', ''--property=AmbientCapabilities='']"

definition path_arguments :: "OneShotTask \<Rightarrow> string list" where
  "path_arguments task =
     map (\<lambda>(name, source). ''--property=LoadCredential='' @ name @ '':'' @ source)
       (os_transient_credentials task)
     @ map (\<lambda>p. ''--property=ReadOnlyPaths='' @ p) (os_read_only_paths task)
     @ map (\<lambda>p. ''--property=ReadWritePaths='' @ p) (os_read_write_paths task)
     @ (if os_inaccessible_paths task = [] then []
        else [''--property=InaccessiblePaths=''
                @ join_with (CHR '' '') (os_inaccessible_paths task)])
     @ map (\<lambda>m. ''--property='' @ (if nm_read_only m then ''BindReadOnlyPaths'' else ''BindPaths'')
              @ ''='' @ nm_source m @ '':'' @ nm_destination m) (os_mounts task)"

text \<open>The command line and the environment of the child.\<close>

definition systemd_one_shot_process ::
  "'w host \<Rightarrow> 'w \<Rightarrow> OneShotTask \<Rightarrow> backend_error + (string list \<times> entries)" where
  "systemd_one_shot_process H w task =
     (case os_artifact task of
        HostBinary path expected \<Rightarrow>
          if map_option snd (h_executable H w path) \<noteq> Some expected then Inl SourceDigestChanged
          else let unit_name = h_task_unit H in
          rbind (add_operator_credentials task unit_name operator_credential_environment)
            (\<lambda>(credentials, replaced).
          rbind (on_some (os_service_user task) (require_non_root_service_user H w)) (\<lambda>_.
          rbind (task_environment task unit_name replaced) (\<lambda>environment.
          Inr ([''systemd-run''] @ systemd_task_limits @ [''--unit='' @ unit_name]
               @ credentials
               @ (if os_private_mounts task then [''--property=PrivateMounts=yes''] else [])
               @ (if os_network task = None
                  then [''--property=RestrictAddressFamilies=AF_UNIX''] else [])
               @ (case os_working_directory task of
                    None \<Rightarrow> [] | Some directory \<Rightarrow> [''--working-directory='' @ directory])
               @ (case os_service_user task of
                    None \<Rightarrow> [] | Some user \<Rightarrow> [''--uid='' @ user, ''--gid='' @ user])
               @ map (\<lambda>(name, _). ''--setenv='' @ name) environment
               @ path_arguments task
               @ [path]
               @ (case os_command task of
                    program # arguments \<Rightarrow>
                      if program = ''nazoauth'' then arguments else program # arguments
                  | [] \<Rightarrow> []),
               environment))))
      | _ \<Rightarrow> Inl ArtifactNotHostBinary)"

definition systemd_run_one_shot ::
  "'w host \<Rightarrow> OneShotTask \<Rightarrow> 'w \<Rightarrow> (backend_error + string) \<times> 'w" where
  "systemd_run_one_shot H task w =
     (case systemd_one_shot_process H w task of
        Inl e \<Rightarrow> (Inl e, w)
      | Inr (argv, environment) \<Rightarrow>
          (case h_task H argv environment (os_stdin task) w of
             (out, w') \<Rightarrow> (capture_result out, w')))"

section \<open>The backend of a runtime kind\<close>

definition backend_inspect ::
  "'w host \<Rightarrow> RuntimeBackendKind \<Rightarrow> 'w \<Rightarrow> string \<Rightarrow> backend_error + RuntimeObservation" where
  "backend_inspect H kind w object =
     (if kind = Host then systemd_inspect H w object else container_inspect H kind w object)"

definition backend_start ::
  "'w host \<Rightarrow> RuntimeBackendKind \<Rightarrow> string \<Rightarrow> 'w \<Rightarrow> (backend_error + unit) \<times> 'w" where
  "backend_start H kind object w =
     (if kind = Host then systemd_command H ''start'' object w
      else container_command H kind ''start'' object w)"

definition backend_stop ::
  "'w host \<Rightarrow> RuntimeBackendKind \<Rightarrow> string \<Rightarrow> 'w \<Rightarrow> (backend_error + unit) \<times> 'w" where
  "backend_stop H kind object w =
     (if kind = Host then systemd_command H ''stop'' object w
      else container_command H kind ''stop'' object w)"

definition backend_replace ::
  "'w host \<Rightarrow> RuntimeBackendKind \<Rightarrow> RuntimeReplacement \<Rightarrow> 'w \<Rightarrow> (backend_error + unit) \<times> 'w" where
  "backend_replace H kind r w =
     (case kind of
        Podman \<Rightarrow> podman_replace H r w
      | Docker \<Rightarrow> docker_replace H r w
      | Host \<Rightarrow> systemd_replace H r w)"

definition backend_run_one_shot ::
  "'w host \<Rightarrow> RuntimeBackendKind \<Rightarrow> OneShotTask \<Rightarrow> 'w \<Rightarrow> (backend_error + string) \<times> 'w" where
  "backend_run_one_shot H kind task w =
     (if kind = Host then systemd_run_one_shot H task w
      else container_run_one_shot H kind task w)"

end
