(* ===== verification/UpdateTypes.thy ===== *)
theory UpdateTypes
  imports Systemd ControlDispatch
begin

text \<open>
  What the update and rollback executor of \<open>src/src/target/update_exec.rs\<close> works on: the order,
  the steps performed so far, the failures, and the world it changes (the runtime host, the
  files of the deployment, its configuration snapshots and the state store).

  The outcomes of file operations, the verified release, the configuration's YAML, the readiness
  probe and the text codecs are the environment \<open>E\<close> of one execution.
\<close>

section \<open>Failures\<close>

datatype update_code =
    StateCode fail_code
  | ACTIVATION_FAILED
  | TARGET_IDENTITY_MISMATCH
  | ROLLBACK_ARTIFACT_MISSING
  | BACKUP_UPDATE_PRECONDITION_FAILED
  | SIGNING_KEY_MIGRATION_REQUIRED
  | OBJECT_IDENTITY_MISMATCH
  | CONFIG_INVALID
  | ARTIFACT_UNVERIFIED
  | HEALTH_PROBE_FAILED
  | PRIVILEGE_REQUIRED
  | CONTROL_OUTCOME_UNKNOWN
  | CONTROL_EXECUTION_UNAVAILABLE
  | CONTROLLER_KEY_UNAUTHORIZED

text \<open>What the \<open>detail\<close> text of a failure adds about the executor's own clean-up.\<close>

datatype cleanup_note = NoNote | CleanupIncomplete | WriterStopped | WriterNotStopped

datatype update_failure = UpdateFailure (uf_code: update_code) (uf_note: cleanup_note)

abbreviation ufail :: "update_code \<Rightarrow> update_failure" where
  "ufail c \<equiv> UpdateFailure c NoNote"

definition state_failure :: "failure \<Rightarrow> update_failure" where
  "state_failure f = ufail (StateCode (code f))"

abbreviation operation_invalid :: update_failure where
  "operation_invalid \<equiv> ufail (StateCode HOST_ERR_OPERATION_INVALID)"

section \<open>Files and snapshots\<close>

datatype secure_file = Regular string | Insecure

definition read_secure_regular_file :: "secure_file option \<Rightarrow> nat \<Rightarrow> string option" where
  "read_secure_regular_file f max_bytes =
     (case f of
        Some (Regular bytes) \<Rightarrow> if max_bytes < length bytes then None else Some bytes
      | _ \<Rightarrow> None)"

record ConfigSnapshotMeta =
  csm_schema :: nat
  csm_operation_id :: string
  csm_content_sha256 :: string
  csm_config_schema :: string
  csm_replaced_by_schema :: "string option"

datatype snapshot_meta_file = MetaDoc ConfigSnapshotMeta | MetaUnparsable | MetaInsecure

definition SNAPSHOT_META_SCHEMA :: nat where "SNAPSHOT_META_SCHEMA = 2"

text \<open>
  The snapshots of one deployment scope, by operation id: \<open>rollback-config.json\<close> and
  \<open>rollback-config.bin\<close>.
\<close>

record 'w update_world =
  uw_host :: 'w
  uw_files :: "string \<rightharpoonup> secure_file"
  uw_metas :: "string \<rightharpoonup> snapshot_meta_file"
  uw_bytes :: "string \<rightharpoonup> secure_file"
  uw_store :: store

section \<open>The environment of one execution\<close>

record verified_release =
  vr_version :: string
  vr_binary_source :: string
  vr_binary_sha256 :: string
  vr_oci_digest :: "string option"
  vr_oci_repository :: string

record SigningKeyEncryptionConfig =
  ske_file :: string
  ske_previous_file :: "string option"

datatype grant_outcome = Granted | OwnershipUnknown | GrantRefused

record ('w, 'r) update_env =
  ue_privileged :: bool
  ue_release :: "OfficialArtifactRef \<Rightarrow> string option \<Rightarrow> verified_release option"
  ue_artifact_dirs :: bool
  ue_sha256 :: "string \<Rightarrow> string"
  ue_utf8 :: "string \<Rightarrow> bool"
  ue_b64url :: "string \<Rightarrow> string option"
  ue_signing :: "string \<Rightarrow> SigningKeyEncryptionConfig option option"
  ue_secret_mode :: "string \<Rightarrow> bool"
  ue_url :: "string \<Rightarrow> (string \<times> string) option"
  ue_probe :: "u16 \<Rightarrow> string \<Rightarrow> string \<Rightarrow> 'w \<Rightarrow> bool"
  ue_decode :: "string \<Rightarrow> 'r ControlResult option"
  ue_unchanged :: "'r \<Rightarrow> bool"
  ue_snapshot_dir :: bool
  ue_write_snapshot :: commit
  ue_write_meta :: commit
  ue_write_config :: commit
  ue_grant :: grant_outcome
  ue_restore_config :: commit
  ue_restore_grant :: grant_outcome
  ue_remove_config :: commit
  ue_migration_env :: env
  ue_commit_env :: env

section \<open>Jobs and performed steps\<close>

record UpdateJob =
  uj_operation_id :: string
  uj_deployment_id :: string
  uj_issuer :: string
  uj_runtime_kind :: RuntimeBackendKind
  uj_runtime_object :: string
  uj_config_reference :: string
  uj_port :: u16
  uj_data_root :: string
  uj_secrets_root :: string
  uj_runtime_root :: "string option"
  uj_config_schema :: string
  uj_current_artifact :: string
  uj_current_version :: "string option"
  uj_expected_revision :: u64
  uj_applied_migration_operation_id :: "string option"
  uj_artifact :: OfficialArtifactRef
  uj_config :: "StagedConfig option"
  uj_migration_jws :: "string option"
  uj_migration_request_hash :: "string option"
  uj_scope_dir :: string

record RollbackJob =
  rj_operation_id :: string
  rj_deployment_id :: string
  rj_issuer :: string
  rj_runtime_kind :: RuntimeBackendKind
  rj_runtime_object :: string
  rj_config_reference :: string
  rj_port :: u16
  rj_runtime_root :: "string option"
  rj_config_schema :: string
  rj_current_artifact :: string
  rj_previous_artifact :: "string option"
  rj_previous_config_snapshot :: "string option"
  rj_expected_revision :: u64

record 'r LifecycleFacts =
  lf_revision :: u64
  lf_release :: "ReleaseVersion option"
  lf_migration_result :: "'r ControlResult option"

datatype 'r UpdateExecution =
    Noop u64
  | Activated "'r LifecycleFacts"
  | MigrationFailed "'r ControlResult"
  | RecoveryRequired "'r ControlResult" cleanup_note

record 'r PerformedSteps =
  ps_snapshotted_config :: bool
  ps_wrote_config :: bool
  ps_replaced_runtime :: bool
  ps_config_before_rollback :: "string option"
  ps_migration_applied :: bool
  ps_migration_outcome_unknown :: bool
  ps_migration_result :: "'r ControlResult option"
  ps_runtime_before_change :: "RuntimeReplacement option"
  ps_runtime_before_change_was_running :: bool

definition no_steps :: "'r PerformedSteps" where
  "no_steps =
     \<lparr>ps_snapshotted_config = False, ps_wrote_config = False, ps_replaced_runtime = False,
      ps_config_before_rollback = None, ps_migration_applied = False,
      ps_migration_outcome_unknown = False, ps_migration_result = None,
      ps_runtime_before_change = None, ps_runtime_before_change_was_running = False\<rparr>"

type_synonym ('w, 'r) run = "'w update_world \<times> 'r PerformedSteps"

text \<open>A backend call maps its error and changes the host only.\<close>

definition on_host ::
  "('w \<Rightarrow> (backend_error + 'a) \<times> 'w) \<Rightarrow> update_failure \<Rightarrow> ('w, 'r) run
   \<Rightarrow> (update_failure + 'a) \<times> ('w, 'r) run" where
  "on_host call f s =
     (case call (uw_host (fst s)) of
        (r, h) \<Rightarrow> (map_err (\<lambda>_. f) r, ((fst s)\<lparr>uw_host := h\<rparr>, snd s)))"

section \<open>Paths\<close>

definition path_join :: "string \<Rightarrow> string \<Rightarrow> string" where
  "path_join root name =
     (if take 1 name = ''/'' \<or> root = [] then name
      else if last root = CHR ''/'' then root @ name
      else root @ ''/'' @ name)"

definition CONTAINER_CONFIG_FILE :: string where "CONTAINER_CONFIG_FILE = ''/app/.env.yaml''"
definition CONTAINER_OPERATOR_CONFIG_REVISION_FILE :: string where
  "CONTAINER_OPERATOR_CONFIG_REVISION_FILE = ''/run/nazoauth-operator/config-revision''"
definition CONTAINER_SECRETS_DIR :: string where "CONTAINER_SECRETS_DIR = ''/run/secrets''"
definition CONTAINER_DATA_DIR :: string where "CONTAINER_DATA_DIR = ''/var/lib/nazo_oauth''"

section \<open>Configuration snapshots\<close>

definition config_snapshot_directory :: "string \<Rightarrow> bool" where
  "config_snapshot_directory operation_id \<longleftrightarrow>
     operation_id \<noteq> [] \<and> length operation_id \<le> 128
     \<and> list_all (\<lambda>b. is_alphanumeric b \<or> b = CHR ''-'') operation_id"

definition read_config ::
  "string \<Rightarrow> 'w update_world \<Rightarrow> string option" where
  "read_config config_reference w =
     read_secure_regular_file (uw_files w config_reference) MAX_CONFIG_CONTENT_BYTES"

text \<open>The branch for a snapshot that exists already.\<close>

definition resume_snapshot ::
  "('w, 'r) update_env \<Rightarrow> string \<Rightarrow> string \<Rightarrow> string option \<Rightarrow> snapshot_meta_file
   \<Rightarrow> secure_file option \<Rightarrow> bool" where
  "resume_snapshot E operation_id current_schema replacing_schema meta_file saved_file \<longleftrightarrow>
     (case meta_file of
        MetaDoc meta \<Rightarrow>
          csm_schema meta = SNAPSHOT_META_SCHEMA
          \<and> csm_operation_id meta = operation_id
          \<and> (case read_secure_regular_file saved_file MAX_CONFIG_CONTENT_BYTES of
               None \<Rightarrow> False
             | Some saved \<Rightarrow>
                 ue_sha256 E saved = csm_content_sha256 meta
                 \<and> csm_config_schema meta = current_schema
                 \<and> csm_replaced_by_schema meta = replacing_schema)
      | _ \<Rightarrow> False)"

definition take_snapshot ::
  "('w, 'r) update_env \<Rightarrow> string \<Rightarrow> string \<Rightarrow> string option \<Rightarrow> string \<Rightarrow> 'w update_world
   \<Rightarrow> bool \<times> 'w update_world" where
  "take_snapshot E operation_id current_schema replacing_schema bytes w =
     (case atomic_write (ue_write_snapshot E) operation_id (Regular bytes) (uw_bytes w) of
        (False, saved) \<Rightarrow> (False, w\<lparr>uw_bytes := saved\<rparr>)
      | (True, saved) \<Rightarrow>
          (case atomic_write (ue_write_meta E) operation_id
                  (MetaDoc \<lparr>csm_schema = SNAPSHOT_META_SCHEMA, csm_operation_id = operation_id,
                     csm_content_sha256 = ue_sha256 E bytes, csm_config_schema = current_schema,
                     csm_replaced_by_schema = replacing_schema\<rparr>) (uw_metas w) of
             (ok, metas) \<Rightarrow> (ok, w\<lparr>uw_bytes := saved, uw_metas := metas\<rparr>)))"

text \<open>The errors of the snapshot functions are prose; a caller replaces them by one failure.\<close>

definition snapshot_config ::
  "('w, 'r) update_env \<Rightarrow> string \<Rightarrow> string \<Rightarrow> string \<Rightarrow> string option \<Rightarrow> string option
   \<Rightarrow> 'w update_world \<Rightarrow> bool \<times> 'w update_world" where
  "snapshot_config E operation_id config_reference current_schema replacing_schema current_config w =
     (if \<not> config_snapshot_directory operation_id \<or> \<not> ue_snapshot_dir E then (False, w)
      else case uw_metas w operation_id of
        Some meta \<Rightarrow>
          (resume_snapshot E operation_id current_schema replacing_schema meta
             (uw_bytes w operation_id), w)
      | None \<Rightarrow>
          (case (case current_config of
                   Some bytes \<Rightarrow> Some bytes | None \<Rightarrow> read_config config_reference w) of
             None \<Rightarrow> (False, w)
           | Some bytes \<Rightarrow> take_snapshot E operation_id current_schema replacing_schema bytes w))"

definition read_restorable_snapshot ::
  "('w, 'r) update_env \<Rightarrow> string \<Rightarrow> 'w update_world \<Rightarrow> unit + (string \<times> string) option" where
  "read_restorable_snapshot E operation_id w =
     (if \<not> config_snapshot_directory operation_id then Inl ()
      else case uw_metas w operation_id of
        None \<Rightarrow> Inr None
      | Some meta_file \<Rightarrow>
          if uw_bytes w operation_id = None then Inr None
          else case meta_file of
            MetaDoc meta \<Rightarrow>
              if csm_schema meta \<noteq> SNAPSHOT_META_SCHEMA then Inl ()
              else if csm_operation_id meta \<noteq> operation_id then Inl ()
              else (case read_secure_regular_file (uw_bytes w operation_id) MAX_CONFIG_CONTENT_BYTES of
                  None \<Rightarrow> Inl ()
                | Some bytes \<Rightarrow>
                    if ue_sha256 E bytes \<noteq> csm_content_sha256 meta then Inl ()
                    else Inr (Some (bytes, csm_config_schema meta)))
          | _ \<Rightarrow> Inl ())"

definition write_config_file ::
  "commit \<Rightarrow> string \<Rightarrow> string \<Rightarrow> 'w update_world \<Rightarrow> bool \<times> 'w update_world" where
  "write_config_file outcome config_reference bytes w =
     (case atomic_write outcome config_reference (Regular bytes) (uw_files w) of
        (ok, files) \<Rightarrow> (ok, w\<lparr>uw_files := files\<rparr>))"

text \<open>\<open>grant_runtime_config_read\<close> changes the owner and mode of the file only.\<close>

definition grant_runtime_config_read ::
  "grant_outcome \<Rightarrow> RuntimeBackendKind \<Rightarrow> update_failure + unit" where
  "grant_runtime_config_read g k =
     (case g of
        Granted \<Rightarrow> Inr ()
      | OwnershipUnknown \<Rightarrow> Inl (ufail CONFIG_INVALID)
      | GrantRefused \<Rightarrow> Inl (if k = Host then ufail CONFIG_INVALID else operation_invalid))"

definition restore_snapshot_bytes ::
  "('w, 'r) update_env \<Rightarrow> string \<Rightarrow> string \<Rightarrow> RuntimeBackendKind \<Rightarrow> 'w update_world
   \<Rightarrow> (update_failure + unit) \<times> 'w update_world" where
  "restore_snapshot_bytes E operation_id config_reference k w =
     (case read_restorable_snapshot E operation_id w of
        Inr (Some (bytes, _)) \<Rightarrow>
          (case write_config_file (ue_restore_config E) config_reference bytes w of
             (False, w1) \<Rightarrow> (Inl (ufail CONFIG_INVALID), w1)
           | (True, w1) \<Rightarrow> (grant_runtime_config_read (ue_restore_grant E) k, w1))
      | _ \<Rightarrow> (Inl (ufail CONFIG_INVALID), w))"

definition staged_config_change :: "string \<Rightarrow> StagedConfig option \<Rightarrow> (string \<times> string) option" where
  "staged_config_change config_reference staged =
     map_option (\<lambda>c. (config_reference, sc_schema c)) staged"

end
