(* ===== verification/UpdateExec.thy ===== *)
theory UpdateExec
  imports UpdateTypes
begin

text \<open>
  The checks, plans and restorations of the update and rollback executor
  (\<open>src/src/target/update_exec.rs\<close>) that both orders share.
\<close>

section \<open>The backup precondition\<close>

definition backup_refusal :: update_failure where
  "backup_refusal = ufail BACKUP_UPDATE_PRECONDITION_FAILED"

text \<open>Instants count nanoseconds; \<open>num_seconds\<close> truncates towards zero.\<close>

definition seconds_between :: "time \<Rightarrow> time \<Rightarrow> int" where
  "seconds_between now past =
     (let d = now - past in if d < 0 then - ((- d) div 1000000000) else d div 1000000000)"

definition validate_loaded_backup_projection ::
  "string \<Rightarrow> time \<Rightarrow> u64 \<Rightarrow> backup_violation list + BackupProjection \<Rightarrow> time
   \<Rightarrow> update_failure + unit" where
  "validate_loaded_backup_projection expected_manifest expected_tested_at max_age projection now =
     (case projection of
        Inl _ \<Rightarrow> Inl backup_refusal
      | Inr p \<Rightarrow>
     (case bpr_snapshot p of
        None \<Rightarrow> Inl backup_refusal
      | Some current \<Rightarrow>
          if sp_manifest_sha256 current \<noteq> expected_manifest then Inl backup_refusal
          else case sp_restore_tested_at current of
            None \<Rightarrow> Inl backup_refusal
          | Some restored_at \<Rightarrow>
              if restored_at \<noteq> expected_tested_at then Inl backup_refusal
              else let age = seconds_between now restored_at
                in if age < 0 then Inl backup_refusal
                   else if uint max_age < age then Inl backup_refusal
                   else Inr ()))"

definition validate_backup_precondition ::
  "externals \<Rightarrow> (SnapshotManifest \<Rightarrow> string) \<Rightarrow> scope_dir \<Rightarrow> DeploymentState
   \<Rightarrow> UpdateBackupPrecondition \<Rightarrow> time \<Rightarrow> update_failure + unit" where
  "validate_backup_precondition X MH evidence state precondition now =
     (case precondition of
        Require manifest_sha256 restore_tested_at max_age_seconds \<Rightarrow>
          validate_loaded_backup_projection manifest_sha256 restore_tested_at max_age_seconds
            (backup_projection X MH evidence state) now
      | NotRequired \<Rightarrow> Inr ())"

section \<open>The identity of the live object\<close>

definition live_observation ::
  "'w host \<Rightarrow> RuntimeBackendKind \<Rightarrow> string \<Rightarrow> 'w update_world \<Rightarrow> update_failure + RuntimeObservation" where
  "live_observation H k object w =
     map_err (\<lambda>_. ufail OBJECT_IDENTITY_MISMATCH) (backend_inspect H k (uw_host w) object)"

definition strip_sha256 :: "string \<Rightarrow> string" where
  "strip_sha256 = trim_start_matches ''sha256:''"

definition observation_digest :: "RuntimeObservation \<Rightarrow> string option" where
  "observation_digest ob =
     (case ob_artifact ob of
        Oci _ digest \<Rightarrow> Some (strip_sha256 digest)
      | HostBinary _ sha256 \<Rightarrow> Some sha256
      | UnknownArtifact \<Rightarrow> None)"

definition observation_image_reference :: "RuntimeObservation \<Rightarrow> string option" where
  "observation_image_reference ob =
     (case ob_artifact ob of Oci image_reference _ \<Rightarrow> Some image_reference | _ \<Rightarrow> None)"

definition require_observation_serves :: "RuntimeObservation \<Rightarrow> string \<Rightarrow> update_failure + unit" where
  "require_observation_serves ob expected =
     (case observation_digest ob of
        None \<Rightarrow> Inl (ufail OBJECT_IDENTITY_MISMATCH)
      | Some digest \<Rightarrow> require (digest = strip_sha256 expected) (ufail OBJECT_IDENTITY_MISMATCH))"

definition require_observation_owned ::
  "RuntimeObservation \<Rightarrow> RuntimeBackendKind \<Rightarrow> string \<Rightarrow> update_failure + unit" where
  "require_observation_owned ob k deployment_id =
     first_error
       [require (ob_server_command_verified ob) (ufail OBJECT_IDENTITY_MISMATCH),
        require (map_of (ob_safe_environment ob) ''DEPLOYMENT_ID'' = Some deployment_id)
          (ufail OBJECT_IDENTITY_MISMATCH),
        require (\<not> (is_container k
                  \<and> map_of (ob_labels ob) DEPLOYMENT_LABEL \<noteq> Some deployment_id))
          (ufail OBJECT_IDENTITY_MISMATCH)]"

definition require_host_artifact_continuity ::
  "RuntimeBackendKind \<Rightarrow> string \<Rightarrow> string \<Rightarrow> update_failure + bool" where
  "require_host_artifact_continuity k live_digest recorded_current =
     (let matches = (live_digest = strip_sha256 recorded_current)
      in if k = Host \<and> \<not> matches then Inl (ufail OBJECT_IDENTITY_MISMATCH) else Inr matches)"

definition runtime_replacement_required :: "string option \<Rightarrow> string \<Rightarrow> bool \<Rightarrow> bool" where
  "runtime_replacement_required current_digest selected_digest has_staged_config \<longleftrightarrow>
     has_staged_config \<or> current_digest \<noteq> Some selected_digest"

definition update_is_noop :: "string \<Rightarrow> string \<Rightarrow> string \<Rightarrow> bool \<Rightarrow> bool" where
  "update_is_noop live_digest recorded_current selected_digest has_staged_config \<longleftrightarrow>
     \<not> has_staged_config \<and> live_digest = selected_digest
     \<and> live_digest = strip_sha256 recorded_current"

definition version_floor_for_update :: "OfficialArtifactRef \<Rightarrow> string option \<Rightarrow> string option" where
  "version_floor_for_update artifact current_version =
     (if oa_version artifact = None then current_version else None)"

section \<open>The verified artifact\<close>

record VerifiedArtifactFacts =
  vf_digest :: string
  vf_runtime_artifact :: ArtifactReference
  vf_release :: ReleaseVersion

definition trim_end_slashes :: "string \<Rightarrow> string" where
  "trim_end_slashes s = rev (dropWhile (\<lambda>c. c = CHR ''/'') (rev s))"

definition cached_binary :: "string \<Rightarrow> string \<Rightarrow> string" where
  "cached_binary runtime_root digest =
     path_join (path_join (path_join runtime_root ''artifacts'') digest) ''nazoauth''"

definition cache_systemd_artifact ::
  "'w host \<Rightarrow> bool \<Rightarrow> string \<Rightarrow> string \<Rightarrow> string \<Rightarrow> 'w \<Rightarrow> (backend_error + string) \<times> 'w" where
  "cache_systemd_artifact H dirs_ok source runtime_root digest w =
     (if \<not> dirs_ok then (Inl CopyFailed, w)
      else let cached = cached_binary runtime_root digest
        in case h_copy H source cached digest w of
             (ok, w') \<Rightarrow> (if ok then Inr cached else Inl CopyFailed, w'))"

definition obtain_artifact ::
  "'w host \<Rightarrow> ('w, 'r) update_env \<Rightarrow> verified_release \<Rightarrow> RuntimeBackendKind \<Rightarrow> string option
   \<Rightarrow> ('w, 'r) run \<Rightarrow> (update_failure + (string \<times> ArtifactReference)) \<times> ('w, 'r) run" where
  "obtain_artifact H E release k runtime_root s =
     (if k = Host then
        (case runtime_root of
           None \<Rightarrow> (Inl operation_invalid, s)
         | Some root \<Rightarrow>
             then_run (on_host (cache_systemd_artifact H (ue_artifact_dirs E)
                         (vr_binary_source release) root (vr_binary_sha256 release))
                         operation_invalid s) (\<lambda>cached s.
               (Inr (vr_binary_sha256 release, HostBinary cached (vr_binary_sha256 release)), s)))
      else
        (case vr_oci_digest release of
           None \<Rightarrow> (Inl (ufail ARTIFACT_UNVERIFIED), s)
         | Some pulled \<Rightarrow>
             then_run (on_host (run_quiet H [engine_name k, ''pull'',
                         trim_end_slashes (vr_oci_repository release) @ ''@'' @ pulled])
                         (ufail ARTIFACT_UNVERIFIED) s) (\<lambda>_ s.
               let digest = strip_sha256 pulled
               in (Inr (digest, Oci (vr_oci_repository release) (''sha256:'' @ digest)), s))))"

definition verify_pinned_artifact_facts ::
  "'w host \<Rightarrow> ('w, 'r) update_env \<Rightarrow> OfficialArtifactRef \<Rightarrow> RuntimeBackendKind \<Rightarrow> string option
   \<Rightarrow> string option \<Rightarrow> ('w, 'r) run \<Rightarrow> (update_failure + VerifiedArtifactFacts) \<times> ('w, 'r) run" where
  "verify_pinned_artifact_facts H E artifact k version_floor runtime_root s =
     (case ue_release E artifact version_floor of
        None \<Rightarrow> (Inl (ufail ARTIFACT_UNVERIFIED), s)
      | Some release \<Rightarrow>
          then_run (obtain_artifact H E release k runtime_root s) (\<lambda>(digest, runtime_artifact) s.
            attempt (map_err (\<lambda>_. operation_invalid) (ReleaseVersion_new (vr_version release))) s
              (\<lambda>version. (Inr \<lparr>vf_digest = digest, vf_runtime_artifact = runtime_artifact,
                               vf_release = version\<rparr>, s))))"

definition image_exists_locally :: "'w host \<Rightarrow> 'w \<Rightarrow> RuntimeBackendKind \<Rightarrow> string \<Rightarrow> update_failure + bool" where
  "image_exists_locally H w k reference =
     (if k = Host then Inl operation_invalid
      else Inr (case h_text H w ([engine_name k, ''image'']
                     @ (if k = Podman then [''exists''] else [''inspect'']) @ [reference]) of
                  TextExited success _ _ \<Rightarrow> success
                | TextNotExecuted \<Rightarrow> False))"

section \<open>Replacement plans\<close>

definition replacement_port :: "string \<Rightarrow> update_failure + string" where
  "replacement_port binding =
     (case split_once ''->'' binding of
        None \<Rightarrow> Inl (ufail OBJECT_IDENTITY_MISMATCH)
      | Some (outside, inside) \<Rightarrow>
          if outside = [] \<or> inside = [] \<or> contains_text inside ''->''
          then Inl (ufail OBJECT_IDENTITY_MISMATCH)
          else Inr (outside @ '':'' @ inside))"

definition replacement_command ::
  "RuntimeObservation \<Rightarrow> ArtifactReference
   \<Rightarrow> update_failure + (string list \<times> ContainerRuntimePolicy option)" where
  "replacement_command ob artifact =
     (case artifact of
        Oci _ _ \<Rightarrow> Inr ([''nazoauth'', ''server''], Some managed_default)
      | HostBinary _ _ \<Rightarrow>
          (case ob_artifact ob of
             HostBinary executable _ \<Rightarrow> Inr ([executable, ''server''], None)
           | _ \<Rightarrow> Inl (ufail OBJECT_IDENTITY_MISMATCH))
      | UnknownArtifact \<Rightarrow> Inl (ufail ARTIFACT_UNVERIFIED))"

definition replacement_from_observation ::
  "RuntimeObservation \<Rightarrow> string \<Rightarrow> ArtifactReference \<Rightarrow> update_failure + RuntimeReplacement" where
  "replacement_from_observation ob object artifact =
     rbind (replacement_command ob artifact) (\<lambda>(command, policy).
     rbind (collect_results replacement_port (ob_ports ob)) (\<lambda>ports.
       Inr \<lparr>re_object_reference = object,
            re_artifact = artifact,
            re_local_artifact_id =
              (if ob_artifact ob = artifact then ob_local_artifact_id ob else None),
            re_command = command,
            re_mounts = ob_mounts ob,
            re_environment = ob_safe_environment ob,
            re_networks = ob_networks ob,
            re_ip_address = None,
            re_ports = ports,
            re_labels = ob_labels ob,
            re_container_policy = policy\<rparr>))"

definition exact_replacement_from_observation ::
  "RuntimeObservation \<Rightarrow> string \<Rightarrow> update_failure + RuntimeReplacement" where
  "exact_replacement_from_observation ob object =
     (if ob_backend ob = Host then Inl (ufail OBJECT_IDENTITY_MISMATCH)
      else replacement_from_observation ob object (ob_artifact ob))"

section \<open>The signing-key root\<close>

definition signing_refusal :: update_failure where
  "signing_refusal = ufail SIGNING_KEY_MIGRATION_REQUIRED"

definition check_signing_file ::
  "('w, 'r) update_env \<Rightarrow> 'w update_world \<Rightarrow> string \<Rightarrow> RuntimeBackendKind \<Rightarrow> NeutralMount list
   \<Rightarrow> string \<Rightarrow> string \<Rightarrow> update_failure + unit" where
  "check_signing_file E w secrets_root k mounts name configured =
     (let root = path_join secrets_root name;
          runtime_path = (if is_container k then path_join CONTAINER_SECRETS_DIR name else root)
      in if \<not> same_path configured runtime_path then Inl signing_refusal
         else case read_secure_regular_file (uw_files w root) 4096 of
           None \<Rightarrow> Inl signing_refusal
         | Some bytes \<Rightarrow>
             if \<not> ue_secret_mode E root then Inl signing_refusal
             else if \<not> validate_signing_key_encryption_key (ue_b64url E) bytes then Inl signing_refusal
             else if is_container k
                \<and> \<not> list_ex (\<lambda>m. same_path (nm_source m) root
                               \<and> same_path (nm_destination m) runtime_path) mounts
             then Inl signing_refusal else Inr ())"

definition require_shared_signing_key_root ::
  "('w, 'r) update_env \<Rightarrow> 'w update_world \<Rightarrow> string \<Rightarrow> string \<Rightarrow> RuntimeBackendKind
   \<Rightarrow> NeutralMount list \<Rightarrow> update_failure + unit" where
  "require_shared_signing_key_root E w secrets_root config k mounts =
     (case ue_signing E config of
        None \<Rightarrow> Inl signing_refusal
      | Some None \<Rightarrow> Inl signing_refusal
      | Some (Some configured) \<Rightarrow> first_error
          [check_signing_file E w secrets_root k mounts ''signing-key-encryption-key''
             (ske_file configured),
           on_some (ske_previous_file configured)
             (check_signing_file E w secrets_root k mounts
                ''signing-key-previous-encryption-key'')])"

section \<open>The readiness probe\<close>

definition probe_local_health ::
  "('w, 'r) update_env \<Rightarrow> u16 \<Rightarrow> string \<Rightarrow> string \<Rightarrow> 'w update_world \<Rightarrow> update_failure + unit" where
  "probe_local_health E port issuer config_reference w =
     (case read_config config_reference w of
        None \<Rightarrow> Inl (ufail HEALTH_PROBE_FAILED)
      | Some config \<Rightarrow> require (ue_probe E port issuer config (uw_host w)) (ufail HEALTH_PROBE_FAILED))"

section \<open>Restoring\<close>

definition redeploy_artifact ::
  "RuntimeBackendKind \<Rightarrow> RuntimeObservation \<Rightarrow> string \<Rightarrow> string option \<Rightarrow> update_failure + ArtifactReference" where
  "redeploy_artifact k ob digest_ref runtime_root =
     (let digest = strip_sha256 digest_ref
      in if k = Host then
           (case runtime_root of
              None \<Rightarrow> Inl operation_invalid
            | Some root \<Rightarrow> Inr (HostBinary (cached_binary root digest) digest))
         else
           (case observation_image_reference ob of
              None \<Rightarrow> Inl (ufail OBJECT_IDENTITY_MISMATCH)
            | Some image_reference \<Rightarrow> Inr (Oci image_reference (''sha256:'' @ digest))))"

definition redeploy_digest ::
  "'w host \<Rightarrow> RuntimeBackendKind \<Rightarrow> string \<Rightarrow> string \<Rightarrow> string option \<Rightarrow> ('w, 'r) run
   \<Rightarrow> (update_failure + unit) \<times> ('w, 'r) run" where
  "redeploy_digest H k object digest_ref runtime_root s =
     attempt (live_observation H k object (fst s)) s (\<lambda>ob.
     attempt (redeploy_artifact k ob digest_ref runtime_root) s (\<lambda>artifact.
     attempt (replacement_from_observation ob object artifact) s (\<lambda>replacement.
     then_run (on_host (backend_replace H k replacement) (ufail ACTIVATION_FAILED) s) (\<lambda>_ s.
       on_host (backend_start H k object) (ufail ACTIVATION_FAILED) s))))"

definition restore_runtime_before_change ::
  "'w host \<Rightarrow> RuntimeBackendKind \<Rightarrow> string \<Rightarrow> string \<Rightarrow> string option \<Rightarrow> ('w, 'r) run
   \<Rightarrow> (update_failure + unit) \<times> ('w, 'r) run" where
  "restore_runtime_before_change H k object artifact runtime_root s =
     (if k = Host then redeploy_digest H k object artifact runtime_root s
      else case ps_runtime_before_change (snd s) of
        None \<Rightarrow> (Inl (ufail ACTIVATION_FAILED), s)
      | Some replacement \<Rightarrow>
          then_run (on_host (backend_replace H k replacement) (ufail ACTIVATION_FAILED) s) (\<lambda>_ s.
            on_host (if ps_runtime_before_change_was_running (snd s) then backend_start H k object
                     else backend_stop H k object) (ufail ACTIVATION_FAILED) s))"

text \<open>
  Both clean-ups run every part and report success only when no part failed; \<open>errors\<close> of the
  source becomes the list of failures.
\<close>

definition rollback_result :: "update_failure list \<Rightarrow> update_failure + unit" where
  "rollback_result errors = (if errors = [] then Inr () else Inl (ufail ACTIVATION_FAILED))"

definition errors_of :: "update_failure + unit \<Rightarrow> update_failure list" where
  "errors_of r = (case r of Inl e \<Rightarrow> [e] | Inr _ \<Rightarrow> [])"

definition restore_config_part ::
  "('w, 'r) update_env \<Rightarrow> UpdateJob \<Rightarrow> ('w, 'r) run \<Rightarrow> update_failure list \<times> ('w, 'r) run" where
  "restore_config_part E job s =
     (if \<not> ps_wrote_config (snd s) then ([], s)
      else if ps_snapshotted_config (snd s) then
        (case restore_snapshot_bytes E (uj_operation_id job) (uj_config_reference job)
                (uj_runtime_kind job) (fst s) of
           (r, w) \<Rightarrow> (errors_of r, (w, snd s)))
      else
        (case remove_file_durable (ue_remove_config E) (uj_config_reference job) (uw_files (fst s)) of
           (ok, files) \<Rightarrow>
             (errors_of (require ok (ufail CONFIG_INVALID)), ((fst s)\<lparr>uw_files := files\<rparr>, snd s))))"

definition rollback_update ::
  "'w host \<Rightarrow> ('w, 'r) update_env \<Rightarrow> UpdateJob \<Rightarrow> ('w, 'r) run
   \<Rightarrow> (update_failure + unit) \<times> ('w, 'r) run" where
  "rollback_update H E job s =
     (case restore_config_part E job s of
        (config_errors, s1) \<Rightarrow>
          if ps_replaced_runtime (snd s1) then
            (case restore_runtime_before_change H (uj_runtime_kind job) (uj_runtime_object job)
                    (uj_current_artifact job) (uj_runtime_root job) s1 of
               (r, s2) \<Rightarrow> (rollback_result (config_errors @ errors_of r), s2))
          else (rollback_result config_errors, s1))"

definition restore_current_config ::
  "('w, 'r) update_env \<Rightarrow> RollbackJob \<Rightarrow> ('w, 'r) run \<Rightarrow> update_failure list \<times> ('w, 'r) run" where
  "restore_current_config E job s =
     (if \<not> ps_wrote_config (snd s) then ([], s)
      else case ps_config_before_rollback (snd s) of
        None \<Rightarrow> ([ufail CONFIG_INVALID], s)
      | Some bytes \<Rightarrow>
          (case write_config_file (ue_restore_config E) (rj_config_reference job) bytes (fst s) of
             (False, w) \<Rightarrow> ([ufail CONFIG_INVALID], (w, snd s))
           | (True, w) \<Rightarrow>
               (errors_of (grant_runtime_config_read (ue_restore_grant E) (rj_runtime_kind job)),
                (w, snd s))))"

definition restore_current_after_failed_rollback ::
  "'w host \<Rightarrow> ('w, 'r) update_env \<Rightarrow> RollbackJob \<Rightarrow> ('w, 'r) run
   \<Rightarrow> (update_failure + unit) \<times> ('w, 'r) run" where
  "restore_current_after_failed_rollback H E job s =
     (case restore_current_config E job s of
        (config_errors, s1) \<Rightarrow>
          if ps_replaced_runtime (snd s1) then
            (case restore_runtime_before_change H (rj_runtime_kind job) (rj_runtime_object job)
                    (rj_current_artifact job) (rj_runtime_root job) s1 of
               (r, s2) \<Rightarrow> (rollback_result (config_errors @ errors_of r), s2))
          else (rollback_result config_errors, s1))"

end
