(* ===== verification/UpdateRun.thy ===== *)
theory UpdateRun
  imports UpdateExec
begin

text \<open>
  The update order and the explicit rollback of \<open>src/src/target/update_exec.rs\<close>, and their
  dispatch in \<open>src/src/target/mod.rs\<close>. \<open>run_update\<close> is split where the source numbers its steps;
  every part returns at its first failure and keeps what it changed, in the world and in the
  performed steps.
\<close>

section \<open>Database credentials\<close>

definition runtime_database_role ::
  "('w, 'r) update_env \<Rightarrow> string \<Rightarrow> 'w update_world \<Rightarrow> update_failure + string" where
  "runtime_database_role E secrets_root w =
     (case read_secure_regular_file (uw_files w (path_join secrets_root ''database-runtime-url''))
             (16 * 1024) of
        None \<Rightarrow> Inl operation_invalid
      | Some bytes \<Rightarrow>
          if \<not> ue_utf8 E bytes then Inl operation_invalid
          else case ue_url E (trim bytes) of
            None \<Rightarrow> Inl operation_invalid
          | Some (_, role) \<Rightarrow>
              if role = [] \<or> 63 < length role
                 \<or> \<not> list_all (\<lambda>b. is_alphanumeric b \<or> b = CHR ''_'' \<or> b = CHR ''-'') role
              then Inl operation_invalid else Inr role)"

definition lifecycle_database_url ::
  "('w, 'r) update_env \<Rightarrow> string \<Rightarrow> 'w update_world \<Rightarrow> update_failure + string" where
  "lifecycle_database_url E secrets_root w =
     (case read_secure_regular_file (uw_files w (path_join secrets_root ''database-lifecycle-url''))
             (16 * 1024) of
        None \<Rightarrow> Inl operation_invalid
      | Some bytes \<Rightarrow>
          if \<not> ue_utf8 E bytes then Inl operation_invalid
          else case ue_url E (trim bytes) of
            None \<Rightarrow> Inl operation_invalid
          | Some (scheme, user) \<Rightarrow>
              if scheme \<notin> {''postgres'', ''postgresql''} \<or> user = [] then Inl operation_invalid
              else Inr (trim bytes))"

section \<open>Steps 0 and 1: the live object and the verified artifact\<close>

record update_admission =
  ad_observation :: RuntimeObservation
  ad_live_digest :: string
  ad_recorded_current_was_live :: bool
  ad_verified :: VerifiedArtifactFacts

definition staged_digest_matches :: "('w, 'r) update_env \<Rightarrow> StagedConfig option \<Rightarrow> bool" where
  "staged_digest_matches E staged \<longleftrightarrow>
     (case staged of None \<Rightarrow> True | Some c \<Rightarrow> ue_sha256 E (sc_content c) = sc_sha256 c)"

definition admit_update ::
  "'w host \<Rightarrow> ('w, 'r) update_env \<Rightarrow> UpdateJob \<Rightarrow> ('w, 'r) run
   \<Rightarrow> (update_failure + update_admission) \<times> ('w, 'r) run" where
  "admit_update H E job s =
     (let k = uj_runtime_kind job in
      attempt (require (ue_privileged E) (ufail PRIVILEGE_REQUIRED)) s (\<lambda>_.
      attempt (require (staged_digest_matches E (uj_config job)) (ufail CONFIG_INVALID)) s (\<lambda>_.
      attempt (live_observation H k (uj_runtime_object job) (fst s)) s (\<lambda>ob.
      attempt (require_observation_owned ob k (uj_deployment_id job)) s (\<lambda>_.
      attempt (case observation_digest ob of
                 None \<Rightarrow> Inl (ufail OBJECT_IDENTITY_MISMATCH) | Some d \<Rightarrow> Inr d) s (\<lambda>live_digest.
      attempt (require_host_artifact_continuity k live_digest (uj_current_artifact job)) s (\<lambda>was_live.
      then_run (verify_pinned_artifact_facts H E (uj_artifact job) k
                  (version_floor_for_update (uj_artifact job) (uj_current_version job))
                  (uj_runtime_root job) s) (\<lambda>verified s.
        (Inr \<lparr>ad_observation = ob, ad_live_digest = live_digest,
              ad_recorded_current_was_live = was_live, ad_verified = verified\<rparr>, s)))))))))"

section \<open>The plan\<close>

record update_plan =
  pl_current_config :: "string option"
  pl_replacement :: "RuntimeReplacement option"

definition config_under_update ::
  "('w, 'r) update_env \<Rightarrow> UpdateJob \<Rightarrow> 'w update_world \<Rightarrow> update_failure + (string \<times> string option)" where
  "config_under_update E job w =
     (case uj_config job of
        Some config \<Rightarrow> Inr (sc_content config, None)
      | None \<Rightarrow>
          (case read_config (uj_config_reference job) w of
             None \<Rightarrow> Inl (ufail CONFIG_INVALID)
           | Some bytes \<Rightarrow>
               if ue_utf8 E bytes then Inr (bytes, Some bytes) else Inl (ufail CONFIG_INVALID)))"

definition planned_replacement ::
  "UpdateJob \<Rightarrow> update_admission \<Rightarrow> update_failure + RuntimeReplacement option" where
  "planned_replacement job ad =
     (if runtime_replacement_required (Some (ad_live_digest ad)) (vf_digest (ad_verified ad))
           (uj_config job \<noteq> None)
      then rbind (replacement_from_observation (ad_observation ad) (uj_runtime_object job)
                    (vf_runtime_artifact (ad_verified ad)))
             (\<lambda>r. Inr (Some (r\<lparr>re_local_artifact_id := None\<rparr>)))
      else Inr None)"

definition retain_runtime ::
  "UpdateJob \<Rightarrow> RuntimeObservation \<Rightarrow> bool \<Rightarrow> 'r PerformedSteps \<Rightarrow> update_failure + 'r PerformedSteps" where
  "retain_runtime job ob replacing ps =
     (if replacing \<and> is_container (uj_runtime_kind job) then
        rbind (exact_replacement_from_observation ob (uj_runtime_object job))
          (\<lambda>exact. Inr (ps\<lparr>ps_runtime_before_change := Some exact,
                          ps_runtime_before_change_was_running := ob_running ob\<rparr>))
      else Inr ps)"

text \<open>\<open>None\<close> where the order is complete without a change.\<close>

definition plan_update ::
  "('w, 'r) update_env \<Rightarrow> UpdateJob \<Rightarrow> update_admission \<Rightarrow> ('w, 'r) run
   \<Rightarrow> (update_failure + update_plan option) \<times> ('w, 'r) run" where
  "plan_update E job ad s =
     (let k = uj_runtime_kind job; ob = ad_observation ad in
      if \<not> ps_migration_applied (snd s)
         \<and> update_is_noop (ad_live_digest ad) (uj_current_artifact job) (vf_digest (ad_verified ad))
             (uj_config job \<noteq> None)
      then (Inr None, s)
      else attempt (config_under_update E job (fst s)) s (\<lambda>(text, current_config).
      attempt (require_shared_signing_key_root E (fst s) (uj_secrets_root job) text k
                 (ob_mounts ob)) s (\<lambda>_.
      attempt (planned_replacement job ad) s (\<lambda>replacement.
      attempt (retain_runtime job ob (replacement \<noteq> None) (snd s)) s (\<lambda>ps.
        (Inr (Some \<lparr>pl_current_config = current_config, pl_replacement = replacement\<rparr>),
         (fst s, ps)))))))"

section \<open>Steps 2 and 3: the configuration\<close>

definition snapshot_current ::
  "('w, 'r) update_env \<Rightarrow> UpdateJob \<Rightarrow> string option \<Rightarrow> ('w, 'r) run
   \<Rightarrow> (update_failure + unit) \<times> ('w, 'r) run" where
  "snapshot_current E job current_config s =
     (if uw_files (fst s) (uj_config_reference job) = None then (Inr (), s)
      else case snapshot_config E (uj_operation_id job) (uj_config_reference job)
                  (uj_config_schema job) (map_option sc_schema (uj_config job)) current_config (fst s) of
        (False, w) \<Rightarrow> (Inl operation_invalid, (w, snd s))
      | (True, w) \<Rightarrow> (Inr (), (w, (snd s)\<lparr>ps_snapshotted_config := True\<rparr>)))"

definition stage_config ::
  "('w, 'r) update_env \<Rightarrow> UpdateJob \<Rightarrow> ('w, 'r) run \<Rightarrow> (update_failure + unit) \<times> ('w, 'r) run" where
  "stage_config E job s =
     (case uj_config job of
        None \<Rightarrow> (Inr (), s)
      | Some staged \<Rightarrow>
          (case write_config_file (ue_write_config E) (uj_config_reference job) (sc_content staged)
                  (fst s) of
             (False, w) \<Rightarrow> (Inl (ufail CONFIG_INVALID), (w, snd s))
           | (True, w) \<Rightarrow>
               (grant_runtime_config_read (ue_grant E) (uj_runtime_kind job),
                (w, (snd s)\<lparr>ps_wrote_config := True\<rparr>))))"

section \<open>Step 3.5: the migration\<close>

definition migration_mount :: "NeutralMount \<Rightarrow> bool" where
  "migration_mount m \<longleftrightarrow>
     nm_destination m \<in> {CONTAINER_CONFIG_FILE, CONTAINER_DATA_DIR,
                         CONTAINER_OPERATOR_CONFIG_REVISION_FILE}
     \<or> (take 1 (nm_destination m) = ''/''
        \<and> path_parent (nm_destination m) = Some (path_components CONTAINER_SECRETS_DIR)
        \<and> (case path_file_name (nm_destination m) of
             None \<Rightarrow> False
           | Some name \<Rightarrow>
               name = ''signing-key-previous-encryption-key'' \<or> name \<in> set SECRET_PURPOSES))"

definition migration_environment :: "UpdateJob \<Rightarrow> string \<Rightarrow> string \<Rightarrow> entries" where
  "migration_environment job runtime_role lifecycle_url =
     entries_of
       ([(''NAZOAUTH_MIGRATION_RUNTIME_ROLE'', runtime_role), (''DATABASE_URL'', lifecycle_url)]
        @ (if uj_runtime_kind job = Host then
             [(''NAZOAUTH_SERVER_CONFIG_FILE'', uj_config_reference job),
              (''NAZOAUTH_OPERATOR_CONFIG_REVISION_FILE'',
               path_join (uj_scope_dir job) ''config-revision''),
              (''NAZOAUTH_OPERATOR_STATE_DIRECTORY'', path_join (uj_data_root job) ''operator-state'')]
           else
             [(''NAZOAUTH_SERVER_CONFIG_FILE'', CONTAINER_CONFIG_FILE),
              (''NAZOAUTH_OPERATOR_CONFIG_REVISION_FILE'', CONTAINER_OPERATOR_CONFIG_REVISION_FILE),
              (''NAZOAUTH_OPERATOR_STATE_DIRECTORY'', CONTAINER_DATA_DIR @ ''/operator-state'')]))"

definition systemd_service_user :: "string \<Rightarrow> string" where
  "systemd_service_user deployment_id =
     ''nazoauth-'' @ take 12 (trim_start_matches ''deploy-'' deployment_id)"

definition migration_task ::
  "UpdateJob \<Rightarrow> RuntimeObservation \<Rightarrow> ArtifactReference \<Rightarrow> string \<Rightarrow> string \<Rightarrow> string \<Rightarrow> OneShotTask" where
  "migration_task job ob artifact runtime_role lifecycle_url migration_jws =
     (let on_systemd = (uj_runtime_kind job = Host) in
      \<lparr>os_artifact = artifact,
       os_command = [''nazoauth'', ''operator-task''],
       os_network =
         (if on_systemd then Some ''host''
          else case ob_networks ob of [] \<Rightarrow> None | network # _ \<Rightarrow> Some network),
       os_mounts = filter migration_mount (ob_mounts ob),
       os_environment = migration_environment job runtime_role lifecycle_url,
       os_working_directory = (if on_systemd then None else Some ''/app''),
       os_service_user =
         Some (if on_systemd then systemd_service_user (uj_deployment_id job)
               else NON_ROOT_ONE_SHOT_USER),
       os_transient_credentials = [],
       os_read_only_paths = (if on_systemd then [uj_config_reference job] else []),
       os_read_write_paths = (if on_systemd then [uj_data_root job] else []),
       os_inaccessible_paths = [],
       os_private_mounts = False,
       os_stdin = migration_jws @ [CHR 0x0A]\<rparr>)"

definition operator_rejection_code :: "string \<Rightarrow> update_code option" where
  "operator_rejection_code text =
     (case List.map_filter (\<lambda>line.
             let l = trim line
             in strip_prefix ''nazoauth-operator-rejection=''
                  (case split_once (rev '': '') (rev l) of
                     None \<Rightarrow> l | Some (marker, _) \<Rightarrow> rev marker)) (text_lines text) of
        [] \<Rightarrow> None
      | class # _ \<Rightarrow>
          if class = ''authorization'' then Some CONTROLLER_KEY_UNAUTHORIZED
          else if class = ''deployment'' then Some TARGET_IDENTITY_MISMATCH
          else if class = ''revision'' then Some (StateCode CONFIG_REVISION_MISMATCH)
          else if class = ''unavailable'' then Some CONTROL_EXECUTION_UNAVAILABLE
          else None)"

text \<open>
  The rejection code \<open>OPERATION_ID_CONFLICT\<close> is the one class whose code is not among those that
  prove nothing was accepted; both readers of the marker treat it as none. Only the error text of
  a rejected task carries a marker.
\<close>

definition migration_dispatch_failure ::
  "backend_error \<Rightarrow> 'r PerformedSteps \<Rightarrow> update_failure \<times> 'r PerformedSteps" where
  "migration_dispatch_failure error ps =
     (case (case error of TaskRejected marker \<Rightarrow> operator_rejection_code marker | _ \<Rightarrow> None) of
        Some c \<Rightarrow> (ufail c, ps\<lparr>ps_migration_outcome_unknown := False\<rparr>)
      | None \<Rightarrow> (ufail CONTROL_OUTCOME_UNKNOWN, ps))"

definition decode_operator_answer ::
  "('w, 'r) update_env \<Rightarrow> string \<Rightarrow> string \<Rightarrow> update_failure + 'r ControlResult" where
  "decode_operator_answer E stdout operation_id =
     (case filter (\<lambda>l. l \<noteq> []) (map trim (text_lines stdout)) of
        [line] \<Rightarrow>
          (case ue_decode E line of
             None \<Rightarrow> Inl (ufail CONTROL_OUTCOME_UNKNOWN)
           | Some result \<Rightarrow>
               if cr_operation_id result \<noteq> operation_id then Inl operation_invalid else Inr result)
      | _ \<Rightarrow> Inl (ufail CONTROL_OUTCOME_UNKNOWN))"

definition migration_requires_recovery :: "('w, 'r) update_env \<Rightarrow> 'r ControlResult \<Rightarrow> bool" where
  "migration_requires_recovery E result \<longleftrightarrow>
     \<not> (case cr_result result of
          Some (OperationJournal.ControlResultData.MigrationApplied data) \<Rightarrow> ue_unchanged E data
        | _ \<Rightarrow> False)"

definition validate_migration_result ::
  "('a, 'r) protocol \<Rightarrow> string \<Rightarrow> string \<Rightarrow> 'r ControlResult \<Rightarrow> update_failure + unit" where
  "validate_migration_result P operation_id request_hash result =
     map_err (\<lambda>_. ufail CONTROL_OUTCOME_UNKNOWN)
       (validate_control_result_binding P operation_id request_hash MigrateApply result)"

definition fence_migration ::
  "externals \<Rightarrow> ('w, 'r) update_env \<Rightarrow> UpdateJob \<Rightarrow> string \<Rightarrow> ('w, 'r) run
   \<Rightarrow> (update_failure + unit) \<times> ('w, 'r) run" where
  "fence_migration X E job new_digest s =
     (case record_migration_applied X (ue_migration_env E) (uj_deployment_id job)
             (uj_expected_revision job) (uj_operation_id job) (''sha256:'' @ new_digest)
             (uw_store (fst s)) of
        (r, D) \<Rightarrow> (map_err state_failure r, ((fst s)\<lparr>uw_store := D\<rparr>, snd s)))"

text \<open>What the answer of the operator means; \<open>Some\<close> is a migration that failed durably.\<close>

definition settle_migration ::
  "externals \<Rightarrow> ('w, 'r) update_env \<Rightarrow> UpdateJob \<Rightarrow> string \<Rightarrow> 'r ControlResult \<Rightarrow> ('w, 'r) run
   \<Rightarrow> (update_failure + 'r ControlResult option) \<times> ('w, 'r) run" where
  "settle_migration X E job new_digest result s =
     (case cr_outcome result of
        OutcomeSucceeded \<Rightarrow>
          (let applied = migration_requires_recovery E result;
               s1 = (fst s, (snd s)\<lparr>ps_migration_applied := applied,
                                  ps_migration_result := Some result,
                                  ps_migration_outcome_unknown := False\<rparr>)
           in if applied then then_run (fence_migration X E job new_digest s1) (\<lambda>_ s2. (Inr None, s2))
              else (Inr None, s1))
      | OutcomeFailed \<Rightarrow>
          (Inr (Some result), (fst s, (snd s)\<lparr>ps_migration_outcome_unknown := False\<rparr>))
      | InProgress \<Rightarrow> (Inl (ufail CONTROL_OUTCOME_UNKNOWN), s))"

definition dispatch_migration ::
  "'w host \<Rightarrow> UpdateJob \<Rightarrow> OneShotTask \<Rightarrow> ('w, 'r) run \<Rightarrow> (update_failure + string) \<times> ('w, 'r) run" where
  "dispatch_migration H job task s =
     (case backend_run_one_shot H (uj_runtime_kind job) task (uw_host (fst s)) of
        (r, h) \<Rightarrow>
          (let w = (fst s)\<lparr>uw_host := h\<rparr>; ps = (snd s)\<lparr>ps_migration_outcome_unknown := True\<rparr>
           in case r of
                Inr stdout \<Rightarrow> (Inr stdout, (w, ps))
              | Inl e \<Rightarrow>
                  (case migration_dispatch_failure e ps of (f, ps') \<Rightarrow> (Inl f, (w, ps')))))"

definition migrate ::
  "'w host \<Rightarrow> externals \<Rightarrow> ('a, 'r) protocol \<Rightarrow> ('w, 'r) update_env \<Rightarrow> UpdateJob
   \<Rightarrow> update_admission \<Rightarrow> ('w, 'r) run \<Rightarrow> (update_failure + 'r ControlResult option) \<times> ('w, 'r) run" where
  "migrate H X P E job ad s =
     (case uj_migration_jws job of
        None \<Rightarrow> (Inr None, s)
      | Some migration_jws \<Rightarrow>
     (case uj_migration_request_hash job of
        None \<Rightarrow> (Inl operation_invalid, s)
      | Some request_hash \<Rightarrow>
          attempt (runtime_database_role E (uj_secrets_root job) (fst s)) s (\<lambda>runtime_role.
          attempt (lifecycle_database_url E (uj_secrets_root job) (fst s)) s (\<lambda>lifecycle_url.
          then_run (dispatch_migration H job
                      (migration_task job (ad_observation ad) (vf_runtime_artifact (ad_verified ad))
                         runtime_role lifecycle_url migration_jws) s) (\<lambda>stdout s.
          attempt (decode_operator_answer E stdout (uj_operation_id job)) s (\<lambda>result.
          attempt (validate_migration_result P (uj_operation_id job) request_hash result) s (\<lambda>_.
            settle_migration X E job (vf_digest (ad_verified ad)) result s)))))))"

section \<open>Steps 4 to 7: activation and commit\<close>

definition switch_runtime ::
  "'w host \<Rightarrow> RuntimeBackendKind \<Rightarrow> string \<Rightarrow> RuntimeReplacement \<Rightarrow> ('w, 'r) run
   \<Rightarrow> (update_failure + unit) \<times> ('w, 'r) run" where
  "switch_runtime H k object replacement s =
     then_run (on_host (backend_replace H k replacement) (ufail ACTIVATION_FAILED)
                 (fst s, (snd s)\<lparr>ps_replaced_runtime := True\<rparr>)) (\<lambda>_ s.
       on_host (backend_start H k object) (ufail ACTIVATION_FAILED) s)"

definition activate ::
  "'w host \<Rightarrow> UpdateJob \<Rightarrow> RuntimeObservation \<Rightarrow> RuntimeReplacement option \<Rightarrow> ('w, 'r) run
   \<Rightarrow> (update_failure + unit) \<times> ('w, 'r) run" where
  "activate H job ob planned s =
     (let k = uj_runtime_kind job; object = uj_runtime_object job in
      case planned of
        None \<Rightarrow> (Inr (), s)
      | Some replacement \<Rightarrow>
          then_run (if ob_running ob then on_host (backend_stop H k object) (ufail ACTIVATION_FAILED) s
                    else (Inr (), s)) (\<lambda>_ s.
            switch_runtime H k object replacement s))"

text \<open>Steps 5 and 6 of an update, step 4 of a rollback.\<close>

definition require_serving ::
  "'w host \<Rightarrow> ('w, 'r) update_env \<Rightarrow> RuntimeBackendKind \<Rightarrow> string \<Rightarrow> string \<Rightarrow> u16 \<Rightarrow> string \<Rightarrow> string
   \<Rightarrow> 'w update_world \<Rightarrow> update_failure + unit" where
  "require_serving H E k object digest port issuer config_reference w =
     rbind (live_observation H k object w) (\<lambda>activated.
     rbind (require (ob_running activated \<and> observation_digest activated = Some digest)
              (ufail TARGET_IDENTITY_MISMATCH)) (\<lambda>_.
       probe_local_health E port issuer config_reference w))"

definition commit_update ::
  "externals \<Rightarrow> ('w, 'r) update_env \<Rightarrow> UpdateJob \<Rightarrow> update_admission \<Rightarrow> ('w, 'r) run
   \<Rightarrow> (update_failure + 'r UpdateExecution) \<times> ('w, 'r) run" where
  "commit_update X E job ad s =
     (case apply_update_healthy_from_live X (ue_commit_env E) (uj_deployment_id job)
             (uj_expected_revision job)
             \<lparr>up_config_snapshot =
                (if ps_snapshotted_config (snd s) then Some (uj_operation_id job) else None),
              up_artifact = ''sha256:'' @ vf_digest (ad_verified ad),
              up_release = Some (vf_release (ad_verified ad)),
              up_config = staged_config_change (uj_config_reference job) (uj_config job),
              up_operation_id = uj_operation_id job\<rparr>
             (ad_recorded_current_was_live ad) (uw_store (fst s)) of
        (Inl f, D) \<Rightarrow> (Inl (state_failure f), ((fst s)\<lparr>uw_store := D\<rparr>, snd s))
      | (Inr state, D) \<Rightarrow>
          (Inr (Activated \<lparr>lf_revision = cfg_revision (ds_config state),
                           lf_release = ds_current_release state,
                           lf_migration_result = ps_migration_result (snd s)\<rparr>),
           ((fst s)\<lparr>uw_store := D\<rparr>, (snd s)\<lparr>ps_migration_result := None\<rparr>)))"

definition finish_update ::
  "'w host \<Rightarrow> externals \<Rightarrow> ('w, 'r) update_env \<Rightarrow> UpdateJob \<Rightarrow> update_admission \<Rightarrow> update_plan
   \<Rightarrow> ('w, 'r) run \<Rightarrow> (update_failure + 'r UpdateExecution) \<times> ('w, 'r) run" where
  "finish_update H X E job ad plan s =
     then_run (activate H job (ad_observation ad) (pl_replacement plan) s) (\<lambda>_ s.
     attempt (require_serving H E (uj_runtime_kind job) (uj_runtime_object job)
                (vf_digest (ad_verified ad)) (uj_port job) (uj_issuer job)
                (uj_config_reference job) (fst s)) s (\<lambda>_.
       commit_update X E job ad s))"

definition run_update ::
  "'w host \<Rightarrow> externals \<Rightarrow> ('a, 'r) protocol \<Rightarrow> ('w, 'r) update_env \<Rightarrow> UpdateJob \<Rightarrow> ('w, 'r) run
   \<Rightarrow> (update_failure + 'r UpdateExecution) \<times> ('w, 'r) run" where
  "run_update H X P E job s =
     then_run (admit_update H E job s) (\<lambda>ad s.
     then_run (plan_update E job ad s) (\<lambda>planned s.
       case planned of
         None \<Rightarrow> (Inr (Noop (uj_expected_revision job)), s)
       | Some plan \<Rightarrow>
           then_run (snapshot_current E job (pl_current_config plan) s) (\<lambda>_ s.
           then_run (stage_config E job s) (\<lambda>_ s.
           then_run (migrate H X P E job ad s) (\<lambda>failed s.
             case failed of
               Some result \<Rightarrow> (Inr (MigrationFailed result), s)
             | None \<Rightarrow> finish_update H X E job ad plan s)))))"

section \<open>Executing an update\<close>

text \<open>Both functions replace the code of the failure; only the writer's fate differs.\<close>

definition stop_writer ::
  "'w host \<Rightarrow> UpdateJob \<Rightarrow> update_code \<Rightarrow> 'w update_world \<Rightarrow> update_failure \<times> 'w update_world" where
  "stop_writer H job c w =
     (case backend_stop H (uj_runtime_kind job) (uj_runtime_object job) (uw_host w) of
        (r, h) \<Rightarrow>
          (UpdateFailure c (case r of Inr _ \<Rightarrow> WriterStopped | Inl _ \<Rightarrow> WriterNotStopped),
           w\<lparr>uw_host := h\<rparr>))"

definition stop_writer_for_recovery ::
  "'w host \<Rightarrow> UpdateJob \<Rightarrow> 'w update_world \<Rightarrow> update_failure \<times> 'w update_world" where
  "stop_writer_for_recovery H job w = stop_writer H job (StateCode ROLLBACK_RECOVERY_REQUIRED) w"

definition stop_writer_for_unknown_migration ::
  "'w host \<Rightarrow> UpdateJob \<Rightarrow> 'w update_world \<Rightarrow> update_failure \<times> 'w update_world" where
  "stop_writer_for_unknown_migration H job w = stop_writer H job CONTROL_OUTCOME_UNKNOWN w"

definition settle_update ::
  "'w host \<Rightarrow> ('w, 'r) update_env \<Rightarrow> UpdateJob \<Rightarrow> update_failure + 'r UpdateExecution
   \<Rightarrow> ('w, 'r) run \<Rightarrow> (update_failure + 'r UpdateExecution) \<times> 'w update_world" where
  "settle_update H E job outcome s =
     (let ps = snd s in
      case outcome of
        Inr (MigrationFailed result) \<Rightarrow>
          if ps_migration_applied ps then
            (case stop_writer_for_recovery H job (fst s) of (f, w) \<Rightarrow> (Inl f, w))
          else (case rollback_update H E job s of
              (Inr _, s') \<Rightarrow> (Inr (MigrationFailed result), fst s')
            | (Inl _, s') \<Rightarrow> (Inl (UpdateFailure ACTIVATION_FAILED CleanupIncomplete), fst s'))
      | Inr execution \<Rightarrow> (Inr execution, fst s)
      | Inl failure \<Rightarrow>
          if ps_migration_applied ps then
            (case stop_writer_for_recovery H job (fst s) of
               (f, w) \<Rightarrow>
                 (case ps_migration_result ps of
                    Some result \<Rightarrow> (Inr (RecoveryRequired result (uf_note f)), w)
                  | None \<Rightarrow> (Inl f, w)))
          else if ps_migration_outcome_unknown ps then
            (case stop_writer_for_unknown_migration H job (fst s) of (f, w) \<Rightarrow> (Inl f, w))
          else (case rollback_update H E job s of
              (Inr _, s') \<Rightarrow> (Inl failure, fst s')
            | (Inl _, s') \<Rightarrow> (Inl (UpdateFailure (uf_code failure) CleanupIncomplete), fst s')))"

definition execute_update ::
  "'w host \<Rightarrow> externals \<Rightarrow> ('a, 'r) protocol \<Rightarrow> ('w, 'r) update_env \<Rightarrow> UpdateJob \<Rightarrow> 'w update_world
   \<Rightarrow> (update_failure + 'r UpdateExecution) \<times> 'w update_world" where
  "execute_update H X P E job w =
     (case uj_applied_migration_operation_id job of
        Some operation_id \<Rightarrow>
          if operation_id \<noteq> uj_operation_id job
          then (Inl (ufail (StateCode ROLLBACK_RECOVERY_REQUIRED)), w)
          else (case run_update H X P E job (w, no_steps\<lparr>ps_migration_applied := True\<rparr>) of
                  (outcome, s) \<Rightarrow> settle_update H E job outcome s)
      | None \<Rightarrow>
          (case run_update H X P E job (w, no_steps) of
             (outcome, s) \<Rightarrow> settle_update H E job outcome s))"

section \<open>The explicit rollback\<close>

definition previous_runtime_artifact ::
  "'w host \<Rightarrow> RollbackJob \<Rightarrow> RuntimeObservation \<Rightarrow> string \<Rightarrow> 'w \<Rightarrow> update_failure + ArtifactReference" where
  "previous_runtime_artifact H job ob previous w =
     (let digest = strip_sha256 previous; k = rj_runtime_kind job in
      if k = Host then
        (case rj_runtime_root job of
           None \<Rightarrow> Inl operation_invalid
         | Some root \<Rightarrow>
             (let path = cached_binary root digest
              in if map_option snd (h_executable H w path) \<noteq> Some digest
                 then Inl (ufail ROLLBACK_ARTIFACT_MISSING)
                 else Inr (HostBinary path digest)))
      else
        (case observation_image_reference ob of
           None \<Rightarrow> Inl (ufail OBJECT_IDENTITY_MISMATCH)
         | Some image_repo \<Rightarrow>
             rbind (image_exists_locally H w k (image_repo @ ''@'' @ previous)) (\<lambda>present.
               if \<not> present then Inl (ufail ROLLBACK_ARTIFACT_MISSING)
               else Inr (Oci image_repo previous))))"

definition retain_current ::
  "RollbackJob \<Rightarrow> RuntimeObservation \<Rightarrow> 'r PerformedSteps \<Rightarrow> update_failure + 'r PerformedSteps" where
  "retain_current job ob ps =
     (if is_container (rj_runtime_kind job) then
        rbind (exact_replacement_from_observation ob (rj_runtime_object job))
          (\<lambda>exact. Inr (ps\<lparr>ps_runtime_before_change := Some exact,
                          ps_runtime_before_change_was_running := ob_running ob\<rparr>))
      else Inr ps)"

record rollback_plan =
  rp_observation :: RuntimeObservation
  rp_previous :: string
  rp_artifact :: ArtifactReference
  rp_config :: "string \<times> string"

text \<open>Everything up to the first change of a file: the live object, the two handles.\<close>

definition admit_rollback ::
  "'w host \<Rightarrow> ('w, 'r) update_env \<Rightarrow> RollbackJob \<Rightarrow> ('w, 'r) run
   \<Rightarrow> (update_failure + rollback_plan) \<times> ('w, 'r) run" where
  "admit_rollback H E job s =
     (let k = rj_runtime_kind job in
      attempt (require (ue_privileged E) (ufail PRIVILEGE_REQUIRED)) s (\<lambda>_.
      attempt (case rj_previous_artifact job of
                 None \<Rightarrow> Inl (ufail (StateCode ROLLBACK_UNAVAILABLE)) | Some p \<Rightarrow> Inr p) s (\<lambda>previous.
      attempt (live_observation H k (rj_runtime_object job) (fst s)) s (\<lambda>ob.
      attempt (require_observation_serves ob (rj_current_artifact job)) s (\<lambda>_.
      attempt (retain_current job ob (snd s)) s (\<lambda>ps.
      let s1 = (fst s, ps) in
      attempt (previous_runtime_artifact H job ob previous (uw_host (fst s1))) s1 (\<lambda>artifact.
      attempt (case rj_previous_config_snapshot job of
                 None \<Rightarrow> Inl (ufail ROLLBACK_ARTIFACT_MISSING) | Some i \<Rightarrow> Inr i) s1 (\<lambda>saved_operation.
      attempt (case read_restorable_snapshot E saved_operation (fst s1) of
                 Inl _ \<Rightarrow> Inl operation_invalid
               | Inr None \<Rightarrow> Inl (ufail ROLLBACK_ARTIFACT_MISSING)
               | Inr (Some config) \<Rightarrow> Inr config) s1 (\<lambda>config.
        (Inr \<lparr>rp_observation = ob, rp_previous = previous, rp_artifact = artifact,
              rp_config = config\<rparr>, s1))))))))))"

definition restore_saved_config ::
  "('w, 'r) update_env \<Rightarrow> RollbackJob \<Rightarrow> string \<times> string \<Rightarrow> ('w, 'r) run
   \<Rightarrow> (update_failure + unit) \<times> ('w, 'r) run" where
  "restore_saved_config E job config s =
     (case snapshot_config E (rj_operation_id job) (rj_config_reference job) (rj_config_schema job)
             (Some (snd config)) None (fst s) of
        (False, w) \<Rightarrow> (Inl operation_invalid, (w, snd s))
      | (True, w) \<Rightarrow>
          (case read_restorable_snapshot E (rj_operation_id job) w of
             Inr (Some (current, _)) \<Rightarrow>
               (let ps = (snd s)\<lparr>ps_config_before_rollback := Some current\<rparr>
                in case write_config_file (ue_write_config E) (rj_config_reference job) (fst config) w of
                     (False, w1) \<Rightarrow> (Inl (ufail CONFIG_INVALID), (w1, ps))
                   | (True, w1) \<Rightarrow>
                       (grant_runtime_config_read (ue_grant E) (rj_runtime_kind job),
                        (w1, ps\<lparr>ps_wrote_config := True\<rparr>)))
           | _ \<Rightarrow> (Inl (ufail CONFIG_INVALID), (w, snd s))))"

definition commit_rollback ::
  "externals \<Rightarrow> ('w, 'r) update_env \<Rightarrow> RollbackJob \<Rightarrow> string \<Rightarrow> ('w, 'r) run
   \<Rightarrow> (update_failure + 'r LifecycleFacts) \<times> ('w, 'r) run" where
  "commit_rollback X E job schema s =
     (case apply_rollback_healthy X (ue_commit_env E) (rj_deployment_id job)
             (rj_expected_revision job) (Some (rj_config_reference job, schema))
             (rj_operation_id job) (uw_store (fst s)) of
        (Inl f, D) \<Rightarrow> (Inl (state_failure f), ((fst s)\<lparr>uw_store := D\<rparr>, snd s))
      | (Inr state, D) \<Rightarrow>
          (Inr \<lparr>lf_revision = cfg_revision (ds_config state), lf_release = None,
                lf_migration_result = None\<rparr>, ((fst s)\<lparr>uw_store := D\<rparr>, snd s)))"

definition run_rollback ::
  "'w host \<Rightarrow> externals \<Rightarrow> ('w, 'r) update_env \<Rightarrow> RollbackJob \<Rightarrow> ('w, 'r) run
   \<Rightarrow> (update_failure + 'r LifecycleFacts) \<times> ('w, 'r) run" where
  "run_rollback H X E job s =
     then_run (admit_rollback H E job s) (\<lambda>plan s.
     then_run (restore_saved_config E job (rp_config plan) s) (\<lambda>_ s.
     attempt (replacement_from_observation (rp_observation plan) (rj_runtime_object job)
                (rp_artifact plan)) s (\<lambda>replacement.
     then_run (switch_runtime H (rj_runtime_kind job) (rj_runtime_object job) replacement s) (\<lambda>_ s.
     attempt (require_serving H E (rj_runtime_kind job) (rj_runtime_object job)
                (strip_sha256 (rp_previous plan)) (rj_port job) (rj_issuer job)
                (rj_config_reference job) (fst s)) s (\<lambda>_.
       commit_rollback X E job (snd (rp_config plan)) s)))))"

definition execute_rollback ::
  "'w host \<Rightarrow> externals \<Rightarrow> ('w, 'r) update_env \<Rightarrow> RollbackJob \<Rightarrow> 'w update_world
   \<Rightarrow> (update_failure + 'r LifecycleFacts) \<times> 'w update_world" where
  "execute_rollback H X E job w =
     (case run_rollback H X E job (w, no_steps) of
        (Inr facts, s) \<Rightarrow> (Inr facts, fst s)
      | (Inl failure, s) \<Rightarrow>
          (case restore_current_after_failed_rollback H E job s of
             (Inr _, s') \<Rightarrow> (Inl failure, fst s')
           | (Inl _, s') \<Rightarrow> (Inl (UpdateFailure (uf_code failure) CleanupIncomplete), fst s')))"

end
