(* ===== verification/UpdateDispatch.thy ===== *)
theory UpdateDispatch
  imports UpdateRun
begin

text \<open>
  How a target answers an update or a rollback order (\<open>answer_update\<close> and \<open>answer_rollback\<close> of
  \<open>src/src/target/mod.rs\<close>): the live document is loaded, the order's preconditions are checked and
  the job is built from the document.

  \<open>dirs_ok\<close> is the outcome of preparing the scope directory, \<open>scope_path\<close> its path.
\<close>

datatype 'r mutate_completion =
    StateMutateNoop u64
  | StateMutateApplied u64 "'r ControlResult option"
  | StateMutateMigrationFailed "'r ControlResult"
  | StateMutateRecoveryRequired "'r ControlResult" cleanup_note

record lifecycle_order =
  lo_operation_id :: string
  lo_deployment_id :: string
  lo_expected_revision :: u64

definition directory_resource :: "string \<Rightarrow> DeploymentState \<Rightarrow> string option" where
  "directory_resource resource_id s =
     map_option res_locator
       (find (\<lambda>r. res_id r = resource_id \<and> res_kind r = ''directory'') (ds_resources s))"

definition update_job ::
  "lifecycle_order \<Rightarrow> update_payload \<Rightarrow> string \<Rightarrow> DeploymentState \<Rightarrow> string \<Rightarrow> string \<Rightarrow> string \<Rightarrow> UpdateJob" where
  "update_job ord m scope_path state current_artifact data_root secrets_root =
     \<lparr>uj_operation_id = lo_operation_id ord,
      uj_deployment_id = lo_deployment_id ord,
      uj_issuer = ds_issuer state,
      uj_runtime_kind = rt_kind (ds_runtime state),
      uj_runtime_object = rt_object (ds_runtime state),
      uj_config_reference = cfg_reference (ds_config state),
      uj_port = rt_port (ds_runtime state),
      uj_data_root = data_root,
      uj_secrets_root = secrets_root,
      uj_runtime_root = directory_resource ''app-binary'' state,
      uj_config_schema = cfg_schema (ds_config state),
      uj_current_artifact = current_artifact,
      uj_current_version = map_option rel_version (ds_current_release state),
      uj_expected_revision = lo_expected_revision ord,
      uj_applied_migration_operation_id = map_option mig_operation_id (ds_applied_migration state),
      uj_artifact = um_artifact m,
      uj_config = um_config m,
      uj_migration_jws = um_migration_jws m,
      uj_migration_request_hash = um_migration_request_hash m,
      uj_scope_dir = scope_path\<rparr>"

definition prepare_update ::
  "externals \<Rightarrow> (SnapshotManifest \<Rightarrow> string) \<Rightarrow> scope_dir \<Rightarrow> bool \<Rightarrow> string \<Rightarrow> time
   \<Rightarrow> lifecycle_order \<Rightarrow> update_payload \<Rightarrow> store \<Rightarrow> update_failure + UpdateJob" where
  "prepare_update X MH evidence dirs_ok scope_path now ord m D =
     rbind (map_err state_failure (load_existing X D (lo_deployment_id ord))) (\<lambda>state.
     rbind (validate_backup_precondition X MH evidence state (um_backup_precondition m) now) (\<lambda>_.
     rbind (require dirs_ok operation_invalid) (\<lambda>_.
     case art_current (ds_artifact state) of
       None \<Rightarrow> Inl operation_invalid
     | Some current_artifact \<Rightarrow>
         (case directory_resource ''app-data'' state of
            None \<Rightarrow> Inl operation_invalid
          | Some data_root \<Rightarrow>
              (case directory_resource ''app-secrets'' state of
                 None \<Rightarrow> Inl operation_invalid
               | Some secrets_root \<Rightarrow>
                   Inr (update_job ord m scope_path state current_artifact data_root secrets_root))))))"

definition completion_of :: "'r UpdateExecution \<Rightarrow> 'r mutate_completion" where
  "completion_of execution =
     (case execution of
        Noop revision \<Rightarrow> StateMutateNoop revision
      | Activated facts \<Rightarrow> StateMutateApplied (lf_revision facts) (lf_migration_result facts)
      | MigrationFailed result \<Rightarrow> StateMutateMigrationFailed result
      | RecoveryRequired result note \<Rightarrow> StateMutateRecoveryRequired result note)"

definition answer_update ::
  "'w host \<Rightarrow> externals \<Rightarrow> (SnapshotManifest \<Rightarrow> string) \<Rightarrow> ('a, 'r) protocol \<Rightarrow> ('w, 'r) update_env
   \<Rightarrow> scope_dir \<Rightarrow> bool \<Rightarrow> string \<Rightarrow> time \<Rightarrow> lifecycle_order \<Rightarrow> update_payload \<Rightarrow> 'w update_world
   \<Rightarrow> (update_failure + 'r mutate_completion) \<times> 'w update_world" where
  "answer_update H X MH P E evidence dirs_ok scope_path now ord m w =
     attempt (prepare_update X MH evidence dirs_ok scope_path now ord m (uw_store w)) w (\<lambda>job.
       case execute_update H X P E job w of
         (r, w') \<Rightarrow> (rbind r (\<lambda>execution. Inr (completion_of execution)), w'))"

definition rollback_job :: "lifecycle_order \<Rightarrow> DeploymentState \<Rightarrow> string \<Rightarrow> RollbackJob" where
  "rollback_job ord state current_artifact =
     \<lparr>rj_operation_id = lo_operation_id ord,
      rj_deployment_id = lo_deployment_id ord,
      rj_issuer = ds_issuer state,
      rj_runtime_kind = rt_kind (ds_runtime state),
      rj_runtime_object = rt_object (ds_runtime state),
      rj_config_reference = cfg_reference (ds_config state),
      rj_port = rt_port (ds_runtime state),
      rj_runtime_root = directory_resource ''app-binary'' state,
      rj_config_schema = cfg_schema (ds_config state),
      rj_current_artifact = current_artifact,
      rj_previous_artifact = art_previous (ds_artifact state),
      rj_previous_config_snapshot = ds_previous_config_snapshot state,
      rj_expected_revision = lo_expected_revision ord\<rparr>"

text \<open>\<open>Inl\<close> of the inner sum: the order is answered without a job.\<close>

definition prepare_rollback ::
  "externals \<Rightarrow> bool \<Rightarrow> lifecycle_order \<Rightarrow> store \<Rightarrow> update_failure + (u64 + RollbackJob)" where
  "prepare_rollback X dirs_ok ord D =
     rbind (map_err state_failure (load_existing X D (lo_deployment_id ord))) (\<lambda>state.
       if active_is state (lo_operation_id ord) then Inr (Inl (cfg_revision (ds_config state)))
       else if cfg_revision (ds_config state) \<noteq> lo_expected_revision ord
       then Inl (ufail (StateCode CONFIG_REVISION_MISMATCH))
       else if ds_applied_migration state \<noteq> None
       then Inl (ufail (StateCode ROLLBACK_RECOVERY_REQUIRED))
       else if \<not> dirs_ok then Inl operation_invalid
       else case art_current (ds_artifact state) of
         None \<Rightarrow> Inl (ufail (StateCode ROLLBACK_UNAVAILABLE))
       | Some current_artifact \<Rightarrow> Inr (Inr (rollback_job ord state current_artifact)))"

definition answer_rollback ::
  "'w host \<Rightarrow> externals \<Rightarrow> ('w, 'r) update_env \<Rightarrow> bool \<Rightarrow> lifecycle_order \<Rightarrow> 'w update_world
   \<Rightarrow> (update_failure + 'r mutate_completion) \<times> 'w update_world" where
  "answer_rollback H X E dirs_ok ord w =
     attempt (prepare_rollback X dirs_ok ord (uw_store w)) w (\<lambda>prepared.
       case prepared of
         Inl revision \<Rightarrow> (Inr (StateMutateApplied revision None), w)
       | Inr job \<Rightarrow>
           (case execute_rollback H X E job w of
              (r, w') \<Rightarrow> (rbind r (\<lambda>facts. Inr (StateMutateApplied (lf_revision facts) None)), w')))"

end
