(* ===== verification/UpdateProofs.thy ===== *)
theory UpdateProofs
  imports UpdateDispatch StateProofs
begin

text \<open>
  What the parts of the update executor change: each lemma says which components of the world and
  of the performed steps a part leaves alone, and what its success means.
\<close>

section \<open>Parts that change the host only\<close>

definition host_only :: "('w, 'r) run \<Rightarrow> ('w, 'r) run \<Rightarrow> bool" where
  "host_only s s' \<longleftrightarrow> (\<exists>h. s' = ((fst s)\<lparr>uw_host := h\<rparr>, snd s))"

lemma host_only_refl [simp]: "host_only s s"
  unfolding host_only_def by (rule exI [of _ "uw_host (fst s)"]) simp

lemma host_only_trans: "host_only a b \<Longrightarrow> host_only b c \<Longrightarrow> host_only a c"
  by (auto simp: host_only_def)

lemma host_only_on_host [simp]: "host_only s (snd (on_host call f s))"
  by (auto simp: host_only_def on_host_def split: prod.split)

lemma host_only_fields:
  assumes "host_only s s'"
  shows "uw_files (fst s') = uw_files (fst s)" "uw_metas (fst s') = uw_metas (fst s)"
    "uw_bytes (fst s') = uw_bytes (fst s)" "uw_store (fst s') = uw_store (fst s)" "snd s' = snd s"
  using assms by (auto simp: host_only_def)

lemma host_only_then:
  assumes "host_only s (snd m)" and "\<And>a s1. m = (Inr a, s1) \<Longrightarrow> host_only s1 (snd (k a s1))"
  shows "host_only s (snd (then_run m k))"
  using assms by (cases m; cases "fst m") (auto intro: host_only_trans)

lemma host_only_attempt:
  assumes "\<And>a. r = Inr a \<Longrightarrow> host_only s (snd (k a))"
  shows "host_only s (snd (attempt r s k))"
  using assms by (cases r) auto

lemma host_only_obtain: "host_only s (snd (obtain_artifact H E release k runtime_root s))"
  by (auto simp: obtain_artifact_def Let_def split: option.split intro!: host_only_then)

lemma host_only_verify: "host_only s (snd (verify_pinned_artifact_facts H E artifact k fl root s))"
  by (auto simp: verify_pinned_artifact_facts_def split: option.split prod.split
      intro!: host_only_then host_only_obtain host_only_attempt)

lemma host_only_admit: "host_only s (snd (admit_update H E job s))"
  unfolding admit_update_def Let_def
  by (intro host_only_attempt host_only_then host_only_verify) simp

lemma host_only_redeploy: "host_only s (snd (redeploy_digest H k object d root s))"
  unfolding redeploy_digest_def
  by (intro host_only_attempt host_only_then host_only_on_host)

lemma host_only_restore_runtime:
  "host_only s (snd (restore_runtime_before_change H k object artifact root s))"
  unfolding restore_runtime_before_change_def
  by (auto split: option.split intro!: host_only_redeploy host_only_then)

section \<open>What each part of an update changes\<close>

lemma admit_frame:
  assumes "admit_update H E job s = (r, s')"
  shows "uw_files (fst s') = uw_files (fst s)" "uw_metas (fst s') = uw_metas (fst s)"
    "uw_bytes (fst s') = uw_bytes (fst s)" "uw_store (fst s') = uw_store (fst s)" "snd s' = snd s"
  using host_only_fields [OF host_only_admit [of s H E job]] assms by simp_all

definition plan_steps_only :: "string \<Rightarrow> 'r PerformedSteps \<Rightarrow> 'r PerformedSteps \<Rightarrow> bool" where
  "plan_steps_only object ps ps' \<longleftrightarrow>
     ps_snapshotted_config ps' = ps_snapshotted_config ps
     \<and> ps_wrote_config ps' = ps_wrote_config ps
     \<and> ps_replaced_runtime ps' = ps_replaced_runtime ps
     \<and> ps_migration_applied ps' = ps_migration_applied ps
     \<and> ps_migration_outcome_unknown ps' = ps_migration_outcome_unknown ps
     \<and> ps_migration_result ps' = ps_migration_result ps
     \<and> (\<forall>r. ps_runtime_before_change ps' = Some r \<longrightarrow>
            re_object_reference r = object \<or> ps_runtime_before_change ps = Some r)"

lemma exact_replacement_object:
  "exact_replacement_from_observation ob object = Inr r \<Longrightarrow> re_object_reference r = object"
  by (auto simp: exact_replacement_from_observation_def replacement_from_observation_def
      rbind_Inr_iff split: if_splits)

lemma retain_runtime_frame:
  assumes "retain_runtime job ob replacing ps = Inr ps'"
  shows "plan_steps_only (uj_runtime_object job) ps ps'"
  using assms
  by (auto simp: retain_runtime_def plan_steps_only_def rbind_Inr_iff exact_replacement_object
      split: if_splits)

lemma plan_frame:
  assumes "plan_update E job ad s = (r, s')"
  shows "fst s' = fst s" "plan_steps_only (uj_runtime_object job) (snd s) (snd s')"
proof -
  have "plan_steps_only (uj_runtime_object job) (snd s) (snd s)" by (simp add: plan_steps_only_def)
  then have "fst s' = fst s \<and> plan_steps_only (uj_runtime_object job) (snd s) (snd s')"
    using assms
    by (auto simp: plan_update_def Let_def attempt_def retain_runtime_frame
        split: sum.splits if_splits prod.splits)
  then show "fst s' = fst s" "plan_steps_only (uj_runtime_object job) (snd s) (snd s')" by simp_all
qed

lemma snapshot_config_frame:
  assumes "snapshot_config E i c sch rep cur w = (ok, w')"
  shows "uw_host w' = uw_host w" "uw_files w' = uw_files w" "uw_store w' = uw_store w"
  using assms
  by (auto simp: snapshot_config_def take_snapshot_def split: option.splits prod.splits bool.splits if_splits)

lemma snapshot_frame:
  assumes "snapshot_current E job cur s = (r, s')"
  shows "uw_host (fst s') = uw_host (fst s)" "uw_files (fst s') = uw_files (fst s)"
    "uw_store (fst s') = uw_store (fst s)"
    "\<exists>b. snd s' = (snd s)\<lparr>ps_snapshotted_config := b\<rparr>"
proof -
  have same: "\<exists>b. snd s = (snd s)\<lparr>ps_snapshotted_config := b\<rparr>"
    by (rule exI [of _ "ps_snapshotted_config (snd s)"]) simp
  show "uw_host (fst s') = uw_host (fst s)" "uw_files (fst s') = uw_files (fst s)"
    "uw_store (fst s') = uw_store (fst s)" "\<exists>b. snd s' = (snd s)\<lparr>ps_snapshotted_config := b\<rparr>"
    using assms same
    by (auto simp: snapshot_current_def snapshot_config_frame split: if_splits prod.splits bool.splits)
qed

lemma stage_frame:
  assumes "stage_config E job s = (r, s')"
  shows "uw_host (fst s') = uw_host (fst s)" "uw_metas (fst s') = uw_metas (fst s)"
    "uw_bytes (fst s') = uw_bytes (fst s)" "uw_store (fst s') = uw_store (fst s)"
    "\<exists>b. snd s' = (snd s)\<lparr>ps_wrote_config := b\<rparr>"
proof -
  have same: "\<exists>b. snd s = (snd s)\<lparr>ps_wrote_config := b\<rparr>"
    by (rule exI [of _ "ps_wrote_config (snd s)"]) simp
  show "uw_host (fst s') = uw_host (fst s)" "uw_metas (fst s') = uw_metas (fst s)"
    "uw_bytes (fst s') = uw_bytes (fst s)" "uw_store (fst s') = uw_store (fst s)"
    "\<exists>b. snd s' = (snd s)\<lparr>ps_wrote_config := b\<rparr>"
    using assms same
    by (auto simp: stage_config_def write_config_file_def split: option.splits prod.splits bool.splits)
qed

text \<open>The steps a migration leaves alone.\<close>

definition migration_steps_only :: "'r PerformedSteps \<Rightarrow> 'r PerformedSteps \<Rightarrow> bool" where
  "migration_steps_only ps ps' \<longleftrightarrow>
     ps_snapshotted_config ps' = ps_snapshotted_config ps
     \<and> ps_wrote_config ps' = ps_wrote_config ps
     \<and> ps_replaced_runtime ps' = ps_replaced_runtime ps
     \<and> ps_runtime_before_change ps' = ps_runtime_before_change ps
     \<and> ps_runtime_before_change_was_running ps' = ps_runtime_before_change_was_running ps"

lemma migration_steps_only_refl [simp]: "migration_steps_only ps ps"
  by (simp add: migration_steps_only_def)

lemma migration_steps_only_trans:
  "migration_steps_only a b \<Longrightarrow> migration_steps_only b c \<Longrightarrow> migration_steps_only a c"
  by (simp add: migration_steps_only_def)

lemma migration_steps_fields:
  assumes "migration_steps_only ps ps'"
  shows "ps_snapshotted_config ps' = ps_snapshotted_config ps" "ps_wrote_config ps' = ps_wrote_config ps"
    "ps_replaced_runtime ps' = ps_replaced_runtime ps"
    "ps_runtime_before_change ps' = ps_runtime_before_change ps"
    "ps_runtime_before_change_was_running ps' = ps_runtime_before_change_was_running ps"
  using assms by (simp_all add: migration_steps_only_def)

definition migration_only :: "('w, 'r) run \<Rightarrow> ('w, 'r) run \<Rightarrow> bool" where
  "migration_only s s' \<longleftrightarrow> uw_files (fst s') = uw_files (fst s) \<and> uw_metas (fst s') = uw_metas (fst s)
     \<and> uw_bytes (fst s') = uw_bytes (fst s) \<and> migration_steps_only (snd s) (snd s')"

lemma migration_only_refl [simp]: "migration_only s s"
  by (simp add: migration_only_def)

lemma migration_only_trans: "migration_only a b \<Longrightarrow> migration_only b c \<Longrightarrow> migration_only a c"
  using migration_steps_only_trans by (auto simp: migration_only_def)

lemma migration_only_flags [simp]:
  "migration_steps_only ps (ps\<lparr>ps_migration_outcome_unknown := u\<rparr>)"
  "migration_steps_only ps (ps\<lparr>ps_migration_applied := a, ps_migration_result := r,
                              ps_migration_outcome_unknown := u\<rparr>)"
  "migration_steps_only ps (ps\<lparr>ps_migration_result := r\<rparr>)"
  by (simp_all add: migration_steps_only_def)

lemma dispatch_migration_only: "migration_only s (snd (dispatch_migration H job task s))"
  by (auto simp: dispatch_migration_def migration_only_def Let_def migration_dispatch_failure_def
      migration_only_flags split: prod.split sum.split option.split)

lemma settle_migration_only: "migration_only s (snd (settle_migration X E job d result s))"
  by (auto simp: settle_migration_def migration_only_def Let_def fence_migration_def then_run_def
      migration_only_flags split: ControlOutcome.split prod.split sum.split)

lemma migrate_only: "migration_only s (snd (migrate H X P E job ad s))"
proof (cases "uj_migration_jws job")
  case None
  then show ?thesis by (simp add: migrate_def)
next
  case (Some jws)
  have tail: "migration_only s (snd (attempt (decode_operator_answer E out (uj_operation_id job)) s1 (\<lambda>result.
        attempt (validate_migration_result P (uj_operation_id job) h result) s1 (\<lambda>_.
          settle_migration X E job d result s1))))" if "migration_only s s1" for out s1 h d
    using that settle_migration_only migration_only_trans
    by (intro attempt_state [where Q = "migration_only s"]) blast+
  show ?thesis
    using Some
    by (auto simp: migrate_def split: option.split
        intro!: attempt_state [where Q = "migration_only s"]
          then_run_state [where Q = "migration_only s"] dispatch_migration_only tail)
qed

text \<open>Switching the runtime touches the host and its own flag.\<close>

definition switch_only :: "('w, 'r) run \<Rightarrow> ('w, 'r) run \<Rightarrow> bool" where
  "switch_only s s' \<longleftrightarrow>
     uw_files (fst s') = uw_files (fst s) \<and> uw_metas (fst s') = uw_metas (fst s)
     \<and> uw_bytes (fst s') = uw_bytes (fst s) \<and> uw_store (fst s') = uw_store (fst s)
     \<and> ps_snapshotted_config (snd s') = ps_snapshotted_config (snd s)
     \<and> ps_wrote_config (snd s') = ps_wrote_config (snd s)
     \<and> ps_migration_applied (snd s') = ps_migration_applied (snd s)
     \<and> ps_migration_outcome_unknown (snd s') = ps_migration_outcome_unknown (snd s)
     \<and> ps_migration_result (snd s') = ps_migration_result (snd s)
     \<and> ps_runtime_before_change (snd s') = ps_runtime_before_change (snd s)"

lemma switch_only_refl [simp]: "switch_only s s"
  by (simp add: switch_only_def)

lemma switch_only_trans: "switch_only a b \<Longrightarrow> switch_only b c \<Longrightarrow> switch_only a c"
  by (simp add: switch_only_def)

lemma switch_only_on_host [simp]: "switch_only s (snd (on_host call f s))"
  using host_only_fields [OF host_only_on_host [of s call f]] by (simp add: switch_only_def)

lemma switch_only_then:
  assumes "switch_only s (snd m)" and "\<And>a s1. m = (Inr a, s1) \<Longrightarrow> switch_only s1 (snd (k a s1))"
  shows "switch_only s (snd (then_run m k))"
proof (cases rule: then_run_cases [of m k])
  case (err e s1)
  then show ?thesis using assms(1) by simp
next
  case (ok a s1)
  then show ?thesis using assms switch_only_trans [of s s1] by simp
qed

lemma switch_only_flag [simp]: "switch_only s (fst s, (snd s)\<lparr>ps_replaced_runtime := True\<rparr>)"
  by (simp add: switch_only_def)

lemma switch_runtime_only: "switch_only s (snd (switch_runtime H k object rep s))"
  unfolding switch_runtime_def
  by (intro switch_only_then switch_only_on_host switch_only_trans [OF switch_only_flag])

lemma activate_only: "switch_only s (snd (activate H job ob planned s))"
proof (cases planned)
  case None
  then show ?thesis by (simp add: activate_def)
next
  case (Some rep)
  have "switch_only s (snd (if c then on_host call f s else (Inr (), s)))" for c call f
    by simp
  then have "switch_only s (snd (then_run (if c then on_host call f s else (Inr (), s))
      (\<lambda>_. switch_runtime H (uj_runtime_kind job) (uj_runtime_object job) rep)))" for c call f
    by (rule switch_only_then) (rule switch_runtime_only)
  then show ?thesis using Some by (simp add: activate_def Let_def)
qed

lemma commit_frame:
  assumes "commit_update X E job ad s = (r, s')"
  shows "uw_host (fst s') = uw_host (fst s)" "uw_files (fst s') = uw_files (fst s)"
    "uw_metas (fst s') = uw_metas (fst s)" "uw_bytes (fst s') = uw_bytes (fst s)"
    "migration_steps_only (snd s) (snd s')"
  using assms by (auto simp: commit_update_def split: prod.splits sum.splits)

text \<open>The object a retained container belongs to.\<close>

definition retains_only :: "string \<Rightarrow> ('w, 'r) run \<Rightarrow> ('w, 'r) run \<Rightarrow> bool" where
  "retains_only object s s' \<longleftrightarrow>
     (\<forall>r. ps_runtime_before_change (snd s') = Some r \<longrightarrow>
          re_object_reference r = object \<or> ps_runtime_before_change (snd s) = Some r)"

lemma retains_only_same:
  "ps_runtime_before_change (snd s') = ps_runtime_before_change (snd s) \<Longrightarrow> retains_only object s s'"
  by (simp add: retains_only_def)

lemma retains_only_refl [simp]: "retains_only object s s"
  by (simp add: retains_only_def)

lemma retains_only_trans: "retains_only object a b \<Longrightarrow> retains_only object b c \<Longrightarrow> retains_only object a c"
  unfolding retains_only_def by blast

lemma retains_only_then:
  assumes "retains_only object s (snd m)"
    and "\<And>a s1. m = (Inr a, s1) \<Longrightarrow> retains_only object s1 (snd (k a s1))"
  shows "retains_only object s (snd (then_run m k))"
proof (cases rule: then_run_cases [of m k])
  case (err e s1)
  then show ?thesis using assms(1) by simp
next
  case (ok a s1)
  then show ?thesis using assms retains_only_trans [of object s s1] by simp
qed

lemma retains_only_attempt:
  assumes "\<And>a. r = Inr a \<Longrightarrow> retains_only object s (snd (k a))"
  shows "retains_only object s (snd (attempt r s k))"
  using assms by (cases r) auto

lemma finish_update_retains: "retains_only object s (snd (finish_update H X E job ad plan s))"
proof -
  have act: "retains_only object s (snd (activate H job ob planned s))" for ob planned
    using activate_only [of s H job ob planned] by (intro retains_only_same) (simp add: switch_only_def)
  have commit: "retains_only object s1 (snd (commit_update X E job ad s1))" for s1
    using commit_frame(5) [of X E job ad s1 "fst (commit_update X E job ad s1)" "snd (commit_update X E job ad s1)"]
    by (intro retains_only_same) (simp add: migration_steps_only_def)
  show ?thesis
    unfolding finish_update_def
    by (intro retains_only_then act retains_only_attempt commit)
qed

lemma run_update_retains: "retains_only (uj_runtime_object job) s (snd (run_update H X P E job s))"
proof -
  have admit: "retains_only object s1 (snd (admit_update H E job s1))" for object s1
    by (rule retains_only_same) (simp add: admit_frame [OF prod.collapse [symmetric]])
  have plan: "retains_only (uj_runtime_object job) s1 (snd (plan_update E job ad s1))" for ad s1
    using plan_frame(2) [of E job ad s1] by (cases "plan_update E job ad s1")
      (simp add: plan_steps_only_def retains_only_def)
  have snap: "retains_only object s1 (snd (snapshot_current E job c s1))" for object c s1
    using snapshot_frame(4) [of E job c s1] by (cases "snapshot_current E job c s1")
      (auto intro: retains_only_same)
  have stage: "retains_only object s1 (snd (stage_config E job s1))" for object s1
    using stage_frame(5) [of E job s1] by (cases "stage_config E job s1")
      (auto intro: retains_only_same)
  have mig: "retains_only object s1 (snd (migrate H X P E job ad s1))" for object ad s1
    using migrate_only [of s1 H X P E job ad]
    by (intro retains_only_same) (simp add: migration_only_def migration_steps_only_def)
  show ?thesis
    unfolding run_update_def
    by (intro retains_only_then admit plan)
       (auto split: option.split intro!: retains_only_then snap stage mig finish_update_retains)
qed

lemma run_update_object:
  assumes "run_update H X P E job (w, ps) = (r, s)" and "ps_runtime_before_change ps = None"
    and "ps_runtime_before_change (snd s) = Some rep"
  shows "re_object_reference rep = uj_runtime_object job"
  using run_update_retains [of job "(w, ps)" H X P E] assms by (simp add: retains_only_def)

text \<open>Writing the configuration back touches the files only.\<close>

lemma restore_config_part_frame:
  assumes "restore_config_part E job s = (errs, s1)"
  shows "uw_host (fst s1) = uw_host (fst s)" "uw_metas (fst s1) = uw_metas (fst s)"
    "uw_bytes (fst s1) = uw_bytes (fst s)" "uw_store (fst s1) = uw_store (fst s)" "snd s1 = snd s"
  using assms
  by (auto simp: restore_config_part_def restore_snapshot_bytes_def write_config_file_def
      split: if_splits prod.splits sum.splits option.splits bool.splits)

end
