(* ===== verification/UpdateRefusal.thy ===== *)
theory UpdateRefusal
  imports UpdateProofs
begin

text \<open>
  A container that runs is never removed: the replacement of a running container is refused and
  changes nothing, so neither the explicit rollback of a running container nor the restoration
  after a failed activation can take place.
\<close>

section \<open>What an observation says about the document\<close>

lemma observed_document:
  assumes "container_inspect H k w object = Inr ob"
  obtains d where
    "inspect_document_optional H w [engine_name k, ''container'', ''inspect'', object] = Inr (Some d)"
    "ob_running ob \<longleftrightarrow> cd_running d = Some True"
proof -
  obtain d where doc: "inspect_document H w [engine_name k, ''container'', ''inspect'', object] = Inr d"
    and ob: "observation_from_document H w k d = Inr ob"
    using assms by (auto simp: container_inspect_def rbind_Inr_iff)
  have "inspect_document_optional H w [engine_name k, ''container'', ''inspect'', object] = Inr (Some d)"
    using doc by (auto simp: inspect_document_def rbind_Inr_iff split: option.splits)
  moreover have "ob_running ob \<longleftrightarrow> cd_running d = Some True"
    using ob by (cases "cd_config d"; cases "as_text (cd_id d)")
      (auto simp: observation_from_document_def Let_def rbind_Inr_iff)
  ultimately show ?thesis by (rule that)
qed

lemma remove_running_source_refused:
  assumes "container_inspect H k w object = Inr ob" "ob_running ob"
    and "re_object_reference r = object"
  obtains e where "remove_replacement_source H k r w = (Inl e, w)"
proof -
  obtain d where d:
    "inspect_document_optional H w [engine_name k, ''container'', ''inspect'', object] = Inr (Some d)"
    "ob_running ob \<longleftrightarrow> cd_running d = Some True"
    by (rule observed_document [OF assms(1)])
  have "\<exists>e. remove_replacement_source H k r w = (Inl e, w)"
    using d assms by (auto simp: remove_replacement_source_def split: option.split)
  then show ?thesis using that by blast
qed

lemma replace_running_refused:
  assumes "is_container k" "backend_inspect H k w object = Inr ob" "ob_running ob"
    and "re_object_reference r = object"
  obtains e where "backend_replace H k r w = (Inl e, w)"
proof -
  have inspect: "container_inspect H k w object = Inr ob"
    using assms by (auto simp: backend_inspect_def is_container_def split: if_splits)
  obtain e where "remove_replacement_source H k r w = (Inl e, w)"
    by (rule remove_running_source_refused [OF inspect assms(3,4)])
  then have "\<exists>e. backend_replace H k r w = (Inl e, w)"
    using assms(1)
    by (auto simp: backend_replace_def is_container_def podman_replace_def docker_replace_def
        split: ArtifactReference.split)
  then show ?thesis using that by blast
qed

lemma live_observation_Inr:
  "live_observation H k object w = Inr ob \<longleftrightarrow> backend_inspect H k (uw_host w) object = Inr ob"
  by (simp add: live_observation_def)

lemma replacement_object:
  "replacement_from_observation ob object artifact = Inr r \<Longrightarrow> re_object_reference r = object"
  by (auto simp: replacement_from_observation_def rbind_Inr_iff)

lemma on_host_replace_running:
  assumes "is_container k" "live_observation H k object (fst s) = Inr ob" "ob_running ob"
    and "re_object_reference r = object"
  shows "on_host (backend_replace H k r) f s = (Inl f, s)"
proof -
  obtain e where "backend_replace H k r (uw_host (fst s)) = (Inl e, uw_host (fst s))"
    using assms replace_running_refused by (metis live_observation_Inr)
  then show ?thesis by (simp add: on_host_def)
qed

text \<open>The restoration of a container whose replacement is up.\<close>

lemma restore_running_refused:
  assumes "is_container k" "live_observation H k object (fst s) = Inr ob" "ob_running ob"
    and "\<And>r. ps_runtime_before_change (snd s) = Some r \<Longrightarrow> re_object_reference r = object"
  shows "restore_runtime_before_change H k object artifact root s = (Inl (ufail ACTIVATION_FAILED), s)"
proof (cases "ps_runtime_before_change (snd s)")
  case None
  then show ?thesis using assms(1) by (simp add: restore_runtime_before_change_def is_container_iff)
next
  case (Some r)
  then show ?thesis
    using assms on_host_replace_running [OF assms(1-3) assms(4) [OF Some], of "ufail ACTIVATION_FAILED"]
    by (simp add: restore_runtime_before_change_def is_container_iff)
qed

section \<open>The explicit rollback of a running container\<close>

text \<open>The host and the state store are as before, whatever became of the files.\<close>

definition same_target :: "'w update_world \<Rightarrow> 'w update_world \<Rightarrow> bool" where
  "same_target w w' \<longleftrightarrow> uw_host w' = uw_host w \<and> uw_store w' = uw_store w"

lemma same_target_refl [simp]: "same_target w w"
  by (simp add: same_target_def)

lemma same_target_files [simp]:
  "same_target w (w\<lparr>uw_files := a\<rparr>)" "same_target w (w\<lparr>uw_bytes := b\<rparr>)"
  "same_target w (w\<lparr>uw_bytes := b, uw_metas := c\<rparr>)"
  by (simp_all add: same_target_def)

lemma same_target_trans: "same_target a b \<Longrightarrow> same_target b c \<Longrightarrow> same_target a c"
  by (simp add: same_target_def)

lemma same_target_live:
  "same_target w w' \<Longrightarrow> live_observation H k object w' = live_observation H k object w"
  by (simp add: same_target_def live_observation_def)

lemma same_target_snapshot:
  "same_target w (snd (snapshot_config E i c sch rep cur w))"
  by (auto simp: snapshot_config_def take_snapshot_def split: option.split prod.split bool.split)

lemma same_target_write: "same_target w (snd (write_config_file out c bytes w))"
  by (auto simp: write_config_file_def split: prod.split)

definition keeps_target :: "string \<Rightarrow> ('w, 'r) run \<Rightarrow> ('w, 'r) run \<Rightarrow> bool" where
  "keeps_target object s s' \<longleftrightarrow> same_target (fst s) (fst s')
     \<and> (\<forall>r. ps_runtime_before_change (snd s') = Some r \<longrightarrow> re_object_reference r = object
           \<or> ps_runtime_before_change (snd s) = Some r)"

lemma keeps_target_refl [simp]: "keeps_target object s s"
  by (simp add: keeps_target_def)

lemma keeps_target_trans: "keeps_target object a b \<Longrightarrow> keeps_target object b c \<Longrightarrow> keeps_target object a c"
  unfolding keeps_target_def using same_target_trans by blast

lemma admit_rollback_target:
  "keeps_target (rj_runtime_object job) s (snd (admit_rollback H E job s))"
proof -
  have ps: "keeps_target (rj_runtime_object job) s (fst s, ps)"
    if "retain_current job ob (snd s) = Inr ps" for ob ps
    using that
    by (auto simp: keeps_target_def retain_current_def rbind_Inr_iff exact_replacement_object
        split: if_splits)
  show ?thesis
    unfolding admit_rollback_def Let_def
    by (intro attempt_state [where Q = "keeps_target (rj_runtime_object job) s"] keeps_target_refl)
       (auto intro: ps)
qed

lemma admit_rollback_plan:
  assumes "admit_rollback H E job s = (Inr plan, s')"
  shows "live_observation H (rj_runtime_kind job) (rj_runtime_object job) (fst s)
     = Inr (rp_observation plan)"
  using assms by (auto simp: admit_rollback_def Let_def attempt_Inr_iff)

lemma restore_saved_config_target:
  "keeps_target object s (snd (restore_saved_config E job config s))"
proof -
  obtain ok1 w1 where snap: "snapshot_config E (rj_operation_id job) (rj_config_reference job)
      (rj_config_schema job) (Some (snd config)) None (fst s) = (ok1, w1)" by (rule prod.exhaust)
  have w1: "same_target (fst s) w1" using same_target_snapshot snap by (metis snd_conv)
  obtain ok2 w2 where wr:
    "write_config_file (ue_write_config E) (rj_config_reference job) (fst config) w1 = (ok2, w2)"
    by (rule prod.exhaust)
  have w2: "same_target (fst s) w2" using w1 same_target_write wr same_target_trans by (metis snd_conv)
  show ?thesis
    using w1 w2
    by (auto simp: restore_saved_config_def snap wr Let_def keeps_target_def
        split: bool.split sum.split option.split)
qed

lemma restore_current_config_target:
  "same_target (fst s) (fst (snd (restore_current_config E job s)))
   \<and> snd (snd (restore_current_config E job s)) = snd s"
proof (cases "ps_config_before_rollback (snd s)")
  case None
  then show ?thesis by (simp add: restore_current_config_def)
next
  case (Some bytes)
  obtain ok w1 where wr:
    "write_config_file (ue_restore_config E) (rj_config_reference job) bytes (fst s) = (ok, w1)"
    by (rule prod.exhaust)
  have "same_target (fst s) w1" using same_target_write wr by (metis snd_conv)
  then show ?thesis using Some by (simp add: restore_current_config_def wr split: bool.split)
qed

text \<open>The clean-up of a failed rollback leaves a running container alone.\<close>

lemma failed_rollback_cleanup:
  assumes k: "is_container (rj_runtime_kind job)"
    and live: "live_observation H (rj_runtime_kind job) (rj_runtime_object job) (fst s) = Inr ob"
      "ob_running ob"
    and own: "\<And>r. ps_runtime_before_change (snd s) = Some r
        \<Longrightarrow> re_object_reference r = rj_runtime_object job"
  shows "same_target (fst s) (fst (snd (restore_current_after_failed_rollback H E job s)))"
proof -
  obtain errs s1 where part: "restore_current_config E job s = (errs, s1)" by (rule prod.exhaust)
  have s1: "same_target (fst s) (fst s1)" "snd s1 = snd s"
    using restore_current_config_target [of s E job] part by simp_all
  have "restore_runtime_before_change H (rj_runtime_kind job) (rj_runtime_object job)
      (rj_current_artifact job) (rj_runtime_root job) s1 = (Inl (ufail ACTIVATION_FAILED), s1)"
    using own by (intro restore_running_refused [OF k _ live(2)])
      (simp_all add: s1 live(1) same_target_live [OF s1(1)])
  then show ?thesis
    using s1 by (simp add: restore_current_after_failed_rollback_def part)
qed

lemma switch_running_refused:
  assumes "is_container k" "live_observation H k object (fst s) = Inr ob" "ob_running ob"
    and "re_object_reference r = object"
  shows "switch_runtime H k object r s
     = (Inl (ufail ACTIVATION_FAILED), (fst s, (snd s)\<lparr>ps_replaced_runtime := True\<rparr>))"
  using assms on_host_replace_running [of k H object
      "(fst s, (snd s)\<lparr>ps_replaced_runtime := True\<rparr>)" ob r "ufail ACTIVATION_FAILED"]
  by (simp add: switch_runtime_def)

lemma run_rollback_running:
  assumes k: "is_container (rj_runtime_kind job)"
    and live: "live_observation H (rj_runtime_kind job) (rj_runtime_object job) (fst s) = Inr ob"
      "ob_running ob"
  shows "\<exists>f s'. run_rollback H X E job s = (Inl f, s') \<and> keeps_target (rj_runtime_object job) s s'"
proof (cases rule: then_run_cases [of "admit_rollback H E job s"
    "\<lambda>plan s. then_run (restore_saved_config E job (rp_config plan) s) (\<lambda>_ s.
     attempt (replacement_from_observation (rp_observation plan) (rj_runtime_object job)
                (rp_artifact plan)) s (\<lambda>replacement.
     then_run (switch_runtime H (rj_runtime_kind job) (rj_runtime_object job) replacement s) (\<lambda>_ s.
     attempt (require_serving H E (rj_runtime_kind job) (rj_runtime_object job)
                (strip_sha256 (rp_previous plan)) (rj_port job) (rj_issuer job)
                (rj_config_reference job) (fst s)) s (\<lambda>_.
       commit_rollback X E job (snd (rp_config plan)) s))))"])
  case (err e s1)
  then show ?thesis
    using admit_rollback_target [of job s H E] by (simp add: run_rollback_def)
next
  case (ok plan s1)
  have s1: "keeps_target (rj_runtime_object job) s s1"
    using admit_rollback_target [of job s H E] ok(1) by simp
  obtain r s2 where saved: "restore_saved_config E job (rp_config plan) s1 = (r, s2)" by (rule prod.exhaust)
  have s2: "keeps_target (rj_runtime_object job) s s2"
    using restore_saved_config_target [of "rj_runtime_object job" s1 E job "rp_config plan"]
    by (intro keeps_target_trans [OF s1]) (simp add: saved)
  have live2: "live_observation H (rj_runtime_kind job) (rj_runtime_object job) (fst s2) = Inr ob"
    using live(1) s2 same_target_live [of "fst s" "fst s2"] by (simp add: keeps_target_def)
  have "keeps_target (rj_runtime_object job) s (fst s2, (snd s2)\<lparr>ps_replaced_runtime := True\<rparr>)"
    using s2 by (simp add: keeps_target_def)
  then show ?thesis
    using ok saved s2 switch_running_refused [OF k live2 live(2) replacement_object]
    by (cases r; cases "replacement_from_observation (rp_observation plan) (rj_runtime_object job)
        (rp_artifact plan)") (simp_all add: run_rollback_def)
qed

lemma execute_rollback_running:
  assumes k: "is_container (rj_runtime_kind job)"
    and live: "live_observation H (rj_runtime_kind job) (rj_runtime_object job) w = Inr ob"
      "ob_running ob"
  shows "\<exists>f w'. execute_rollback H X E job w = (Inl f, w') \<and> same_target w w'"
proof -
  obtain f s where run: "run_rollback H X E job (w, no_steps) = (Inl f, s)"
    and s: "keeps_target (rj_runtime_object job) (w, no_steps) s"
    using run_rollback_running [OF k, of H "(w, no_steps)" ob X E] live by auto
  have w: "same_target w (fst s)" using s by (simp add: keeps_target_def)
  have "same_target (fst s) (fst (snd (restore_current_after_failed_rollback H E job s)))"
    using s by (intro failed_rollback_cleanup [OF k _ live(2)])
      (simp_all add: live(1) same_target_live [OF w] keeps_target_def no_steps_def)
  then show ?thesis
    using w same_target_trans
    by (cases "restore_current_after_failed_rollback H E job s";
        cases "fst (restore_current_after_failed_rollback H E job s)")
       (auto simp: execute_rollback_def run)
qed

end
