(* ===== verification/UpdateSample.thy ===== *)
theory UpdateSample
  imports UpdateRefusal StateProperties
begin

text \<open>
  A sample target for the properties of the update executor: a rootless Podman host with one
  container \<open>nazo\<close> of the deployment \<open>alpha\<close>, which is absent or has a state and an image, old or new.
\<close>

section \<open>The host\<close>

type_synonym up_container = "(bool \<times> bool) option"

definition up_digest :: "bool \<Rightarrow> string" where
  "up_digest new = replicate 64 (if new then CHR ''b'' else CHR ''a'')"

definition up_sha :: "bool \<Rightarrow> string" where "up_sha new = ''sha256:'' @ up_digest new"

definition up_document :: "bool \<Rightarrow> bool \<Rightarrow> container_document" where
  "up_document running new =
     \<lparr>cd_config = Some
        \<lparr>cc_entrypoint = Text ''nazoauth'', cc_command = Some [''server''], cc_cmd = None,
         cc_image = Text ''r'', cc_env = [''DEPLOYMENT_ID=alpha''],
         cc_labels = [(DEPLOYMENT_LABEL, ''alpha'')]\<rparr>,
      cd_image_name = NoMember, cd_image = Text (up_sha new),
      cd_id = Text (replicate 64 (CHR ''1'')), cd_id_upper = NoMember, cd_name = Text ''nazo'',
      cd_path = NoMember, cd_args = [], cd_running = Some running, cd_port_map = NoPortMap,
      cd_networks = [''pasta''],
      cd_mounts = MountList
        [\<lparr>md_source = Text ''/s/signing-key-encryption-key'',
          md_destination = Text ''/run/secrets/signing-key-encryption-key'',
          md_options = Texts [Text ''ro''], md_mode = NoMember, md_rw = Flag False\<rparr>]\<rparr>"

definition up_mount :: NeutralMount where
  "up_mount = neutral_mount ''/s/signing-key-encryption-key''
     ''/run/secrets/signing-key-encryption-key'' True False"

definition up_run :: "string list \<Rightarrow> up_container \<Rightarrow> bool \<times> up_container" where
  "up_run argv c =
     (case argv of
        _ # verb # _ \<Rightarrow>
          if verb = ''start'' then (c \<noteq> None, map_option (\<lambda>(_, new). (True, new)) c)
          else if verb = ''stop'' then (c \<noteq> None, map_option (\<lambda>(_, new). (False, new)) c)
          else if verb = ''rm'' then (c \<noteq> None, None)
          else if verb = ''create''
          then (c = None, Some (False, pinned_image ''r'' (up_sha True) \<in> set argv))
          else (verb = ''pull'', c)
      | _ \<Rightarrow> (False, c))"

definition up_text :: "up_container \<Rightarrow> string list \<Rightarrow> text_output" where
  "up_text c argv =
     TextExited True [] (Some ((case c of Some (_, True) \<Rightarrow> ''n'' | _ \<Rightarrow> ''o'') @ [CHR 0x0A]))"

definition up_host :: "up_container host" where
  "up_host =
     \<lparr>h_run = up_run,
      h_inspect = (\<lambda>c argv. case c of
         None \<Rightarrow> Exited False ''no such container'' NotJson
       | Some (running, new) \<Rightarrow> Exited True [] (JsonValue (up_document running new))),
      h_text = up_text,
      h_task = (\<lambda>_ _ _ c. (TaskNotExecuted, c)),
      h_rootless = True,
      h_json_texts = (\<lambda>s. Some [''r@'' @ up_sha (s = ''n'')]),
      h_executable = (\<lambda>_ _. None),
      h_source = (\<lambda>_ _. None),
      h_secure_dir = (\<lambda>_ _. True),
      h_copy = (\<lambda>_ _ _ c. (False, c)),
      h_task_unit = ''t''\<rparr>"

definition up_observation :: "bool \<Rightarrow> bool \<Rightarrow> RuntimeObservation" where
  "up_observation running new =
     \<lparr>ob_backend = Podman, ob_object_reference = ''nazo'', ob_display_name = ''nazo'',
      ob_running = running, ob_server_command_verified = True,
      ob_artifact = Oci ''r'' (up_sha new),
      ob_local_artifact_id = Some (up_sha new), ob_ports = [],
      ob_networks = [''pasta''], ob_mounts = [up_mount],
      ob_safe_environment = [(''DEPLOYMENT_ID'', ''alpha'')],
      ob_labels = [(DEPLOYMENT_LABEL, ''alpha'')]\<rparr>"

lemma up_digest_facts [simp]:
  "length (up_digest new) = 64" "list_all is_hexdigit (up_digest new)"
  "to_ascii_lowercase (up_digest new) = up_digest new"
  "strip_prefix ''sha256:'' (up_digest new) = None"
proof -
  have chars: "is_hexdigit (CHR ''a'')" "is_hexdigit (CHR ''b'')"
      "lower_char (CHR ''a'') = CHR ''a''" "lower_char (CHR ''b'') = CHR ''b''"
    by code_simp+
  then show "list_all is_hexdigit (up_digest new)" by (simp add: up_digest_def list_all_iff)
  have "lower_char (if new then CHR ''b'' else CHR ''a'') = (if new then CHR ''b'' else CHR ''a'')"
    using chars by simp
  then show "to_ascii_lowercase (up_digest new) = up_digest new"
    by (simp add: up_digest_def to_ascii_lowercase_def)
  show "length (up_digest new) = 64" by (simp add: up_digest_def)
  show "strip_prefix ''sha256:'' (up_digest new) = None"
    by (simp add: up_digest_def numeral_eq_Suc)
qed

lemma up_sha_facts [simp]:
  "valid_digest (up_sha new)"
  "to_ascii_lowercase (up_sha new) = up_sha new"
  "normalize_local_image_id (up_sha new) True = Some (up_sha new)"
  "rsplit_once (CHR ''@'') (CHR ''r'' # CHR ''@'' # up_sha new) = Some (''r'', up_sha new)"
proof -
  have sha: "to_ascii_lowercase ''sha256:'' = ''sha256:''" by code_simp
  show lower: "to_ascii_lowercase (up_sha new) = up_sha new"
    using sha up_digest_facts(3) [of new] by (simp add: up_sha_def to_ascii_lowercase_def)
  show "valid_digest (up_sha new)" by (simp add: valid_digest_def up_sha_def)
  show "normalize_local_image_id (up_sha new) True = Some (up_sha new)"
    by (simp add: normalize_local_image_id_def up_sha_def Let_def)
  have "rsplit_once (CHR ''@'') (''r'' @ CHR ''@'' # s) = Some (''r'', s)" if "CHR ''@'' \<notin> set s" for s
  proof -
    have all: "\<And>x. x \<in> set (rev s) \<Longrightarrow> x \<noteq> CHR ''@''" using that by auto
    have "dropWhile (\<lambda>d. d \<noteq> CHR ''@'') (rev s @ ''@r'') = dropWhile (\<lambda>d. d \<noteq> CHR ''@'') ''@r''"
      by (rule dropWhile_append2) (rule all)
    moreover have "takeWhile (\<lambda>d. d \<noteq> CHR ''@'') (rev s @ ''@r'')
        = rev s @ takeWhile (\<lambda>d. d \<noteq> CHR ''@'') ''@r''"
      by (rule takeWhile_append2) (rule all)
    ultimately show ?thesis by (simp add: rsplit_once_def)
  qed
  from this [of "up_sha new"]
  show "rsplit_once (CHR ''@'') (CHR ''r'' # CHR ''@'' # up_sha new) = Some (''r'', up_sha new)"
    by (simp add: up_sha_def up_digest_def)
qed

lemma up_retained [simp]:
  "retained_digest ''r'' [CHR ''r'' # CHR ''@'' # up_sha new] = Some (up_sha new)"
proof -
  have "rsplit_once (CHR ''@'') ''r'' = None" by code_simp
  then show ?thesis by (simp add: retained_digest_def requested_digest_matches_def List.map_filter_def)
qed

lemma up_image [simp]:
  "podman_image_digest up_host (Some (running, new)) ''r'' i = Inr (up_sha new)"
proof -
  have trims: "trim ''n'' = ''n''" "trim ''o'' = ''o''" by code_simp+
  show ?thesis
    by (cases new) (simp_all add: podman_image_digest_def image_inspect_def command_stdout_def
      up_host_def up_text_def trims)
qed

lemma up_words [simp]:
  "server_command_verified [''nazoauth'', ''server'']"
  "safe_environment [''DEPLOYMENT_ID=alpha''] = [(''DEPLOYMENT_ID'', ''alpha'')]"
  "trim_start_matches ''/'' ''nazo'' = ''nazo''"
  by code_simp+

lemma up_mounts: "parse_mounts Podman (up_document running new) = Inr [up_mount]"
  by (simp add: parse_mounts_def up_document_def podman_mount_def nonempty_text_def as_text_def
    mount_read_only_def up_mount_def List.map_filter_def)

lemma up_inspect [simp]:
  "backend_inspect up_host Podman (Some (running, new)) ''nazo'' = Inr (up_observation running new)"
proof -
  have doc: "inspect_document up_host (Some (running, new))
      [engine_name Podman, ''container'', ''inspect'', ''nazo''] = Inr (up_document running new)"
    by (simp add: inspect_document_def inspect_document_optional_def up_host_def)
  have "observation_from_document up_host (Some (running, new)) Podman (up_document running new)
      = Inr (up_observation running new)"
    using up_mounts [of running new]
    by (simp add: observation_from_document_def up_document_def observed_image_reference_def
      as_text_def parse_ports_def is_server_document_def podman_server_document_def
      up_observation_def Let_def)
  then show ?thesis by (simp add: backend_inspect_def container_inspect_def doc)
qed

section \<open>The environment and the orders\<close>

definition up_env :: "bool \<Rightarrow> grant_outcome \<Rightarrow> (up_container, unit) update_env" where
  "up_env healthy grant =
     \<lparr>ue_privileged = True,
      ue_release = (\<lambda>_ _. Some
        \<lparr>vr_version = ''2'', vr_binary_source = [], vr_binary_sha256 = [],
         vr_oci_digest = Some (up_sha True), vr_oci_repository = ''r''\<rparr>),
      ue_artifact_dirs = True,
      ue_sha256 = (\<lambda>s. s),
      ue_utf8 = (\<lambda>_. True),
      ue_b64url = (\<lambda>_. Some (replicate 32 (CHR ''k''))),
      ue_signing = (\<lambda>_. Some (Some
        \<lparr>ske_file = ''/run/secrets/signing-key-encryption-key'', ske_previous_file = None\<rparr>)),
      ue_secret_mode = (\<lambda>_. True),
      ue_url = (\<lambda>_. None),
      ue_probe = (\<lambda>_ _ _ _. healthy),
      ue_decode = (\<lambda>_. None),
      ue_unchanged = (\<lambda>_. False),
      ue_snapshot_dir = True,
      ue_write_snapshot = Committed, ue_write_meta = Committed, ue_write_config = Committed,
      ue_grant = grant, ue_restore_config = Committed, ue_restore_grant = Granted,
      ue_remove_config = Committed, ue_migration_env = sample_E, ue_commit_env = sample_E\<rparr>"

abbreviation up_E :: "bool \<Rightarrow> (up_container, unit) update_env" where
  "up_E healthy \<equiv> up_env healthy Granted"

definition up_P :: "(unit, unit) protocol" where
  "up_P =
     \<lparr>protected_header = (\<lambda>_. None), CONTROL_OPERATION_JWS_TYPE = ''JWS'',
      CONTROL_OPERATION_SCHEMA = 1, canonical_control_operation_bytes = (\<lambda>_. None),
      control_operation_request_hash = (\<lambda>_. []), sign_control_operation = (\<lambda>_ _. None),
      decode_payload = (\<lambda>_. None), control_result_ok = (\<lambda>_. True)\<rparr>"

definition up_job :: UpdateJob where
  "up_job =
     \<lparr>uj_operation_id = ''o2'', uj_deployment_id = ''alpha'', uj_issuer = ''https://a.example'',
      uj_runtime_kind = Podman, uj_runtime_object = ''nazo'', uj_config_reference = ''/c'',
      uj_port = 2000, uj_data_root = ''/d'', uj_secrets_root = ''/s'', uj_runtime_root = None,
      uj_config_schema = ''1'', uj_current_artifact = up_sha False, uj_current_version = Some ''1'',
      uj_expected_revision = 1, uj_applied_migration_operation_id = None,
      uj_artifact = \<lparr>oa_repository = ''r'', oa_version = None\<rparr>,
      uj_config = Some \<lparr>sc_content = ''new'', sc_sha256 = ''new'', sc_schema = ''2''\<rparr>,
      uj_migration_jws = None, uj_migration_request_hash = None, uj_scope_dir = ''/x''\<rparr>"

definition up_rollback :: RollbackJob where
  "up_rollback =
     \<lparr>rj_operation_id = ''o3'', rj_deployment_id = ''alpha'', rj_issuer = ''https://a.example'',
      rj_runtime_kind = Podman, rj_runtime_object = ''nazo'', rj_config_reference = ''/c'',
      rj_port = 2000, rj_runtime_root = None, rj_config_schema = ''2'',
      rj_current_artifact = up_sha True, rj_previous_artifact = Some (up_sha False),
      rj_previous_config_snapshot = Some ''o2'', rj_expected_revision = 2\<rparr>"

definition up_world :: "up_container \<Rightarrow> up_container update_world" where
  "up_world c =
     \<lparr>uw_host = c,
      uw_files = [''/c'' \<mapsto> Regular ''old'', ''/s/signing-key-encryption-key'' \<mapsto> Regular ''key''],
      uw_metas = Map.empty, uw_bytes = Map.empty, uw_store = sample_store\<rparr>"

lemma up_world_simps [simp]:
  "uw_host (up_world c) = c" "uw_store (up_world c) = sample_store"
  "uw_metas (up_world c) = Map.empty" "uw_bytes (up_world c) = Map.empty"
  "uw_files (up_world c) = [''/c'' \<mapsto> Regular ''old'', ''/s/signing-key-encryption-key'' \<mapsto> Regular ''key'']"
  by (simp_all add: up_world_def)

lemma up_observation_running [simp]: "ob_running (up_observation running new) = running"
  by (simp add: up_observation_def)

lemma up_live [simp]:
  "live_observation up_host Podman ''nazo'' (up_world (Some (running, new)))
     = Inr (up_observation running new)"
  by (simp add: live_observation_Inr)

lemma up_kinds [simp]: "is_container Podman" "\<not> is_container Host"
  by (simp_all add: is_container_def)

lemma up_rollback_simps [simp]:
  "rj_runtime_kind up_rollback = Podman" "rj_runtime_object up_rollback = ''nazo''"
  by (simp_all add: up_rollback_def)

end
