(* ===== verification/UpdateSampleRun.thy ===== *)
theory UpdateSampleRun
  imports UpdateSample
begin

text \<open>
  The sample update, part by part: it stages a new configuration and replaces the old image.
\<close>

lemma up_strip [simp]: "strip_sha256 (up_sha new) = up_digest new"
  unfolding strip_sha256_def up_sha_def
  by (rule trim_start_matches_once) simp_all

lemma up_digest_distinct [simp]: "up_digest True \<noteq> up_digest False" "up_digest False \<noteq> up_digest True"
  by (simp_all add: up_digest_def numeral_eq_Suc)

lemma up_observation_simps [simp]:
  "observation_digest (up_observation running new) = Some (up_digest new)"
  "ob_mounts (up_observation running new) = [up_mount]"
  "ob_artifact (up_observation running new) = Oci ''r'' (up_sha new)"
  "ob_backend (up_observation running new) = Podman"
  by (simp_all add: observation_digest_def up_observation_def)

definition up_facts :: VerifiedArtifactFacts where
  "up_facts = \<lparr>vf_digest = up_digest True, vf_runtime_artifact = Oci ''r'' (up_sha True),
                vf_release = \<lparr>rel_version = ''2''\<rparr>\<rparr>"

definition up_ad :: update_admission where
  "up_ad = \<lparr>ad_observation = up_observation True False, ad_live_digest = up_digest False,
            ad_recorded_current_was_live = True, ad_verified = up_facts\<rparr>"

lemma up_pull: "run_quiet up_host [engine_name Podman, ''pull'', i] c = (Inr (), c)"
  by (simp add: run_quiet_def up_host_def up_run_def)

lemma up_release: "ReleaseVersion_new ''2'' = Inr \<lparr>rel_version = ''2''\<rparr>"
  by code_simp

lemma up_verify:
  "verify_pinned_artifact_facts up_host (up_env healthy g) artifact Podman floor root s = (Inr up_facts, s)"
  by (simp add: verify_pinned_artifact_facts_def up_env_def obtain_artifact_def on_host_def up_pull
    up_release up_facts_def Let_def) (simp add: up_sha_def)

lemma up_job_simps [simp]:
  "uj_runtime_kind up_job = Podman" "uj_runtime_object up_job = ''nazo''"
  "uj_applied_migration_operation_id up_job = None" "uj_operation_id up_job = ''o2''"
  "uj_config_reference up_job = ''/c''" "uj_migration_jws up_job = None"
  "uj_current_artifact up_job = up_sha False" "uj_secrets_root up_job = ''/s''"
  "uj_config up_job = Some \<lparr>sc_content = ''new'', sc_sha256 = ''new'', sc_schema = ''2''\<rparr>"
  "uj_deployment_id up_job = ''alpha''" "uj_expected_revision up_job = 1"
  "uj_config_schema up_job = ''1''" "uj_port up_job = 2000"
  by (simp_all add: up_job_def)

lemma up_owned: "require_observation_owned (up_observation running new) Podman ''alpha'' = Inr ()"
  by (simp add: require_observation_owned_def up_observation_def is_container_def DEPLOYMENT_LABEL_def)

lemma up_admit:
  "admit_update up_host (up_env healthy g) up_job (up_world (Some (True, False)), ps)
     = (Inr up_ad, (up_world (Some (True, False)), ps))"
  by (simp add: admit_update_def Let_def staged_digest_matches_def up_owned
    require_host_artifact_continuity_def up_verify up_ad_def)
    (simp add: up_env_def)

definition up_exact :: RuntimeReplacement where
  "up_exact =
     \<lparr>re_object_reference = ''nazo'', re_artifact = Oci ''r'' (up_sha False),
      re_local_artifact_id = Some (up_sha False), re_command = [''nazoauth'', ''server''],
      re_mounts = [up_mount], re_environment = [(''DEPLOYMENT_ID'', ''alpha'')],
      re_networks = [''pasta''], re_ip_address = None, re_ports = [],
      re_labels = [(DEPLOYMENT_LABEL, ''alpha'')], re_container_policy = Some managed_default\<rparr>"

definition up_replacement :: RuntimeReplacement where
  "up_replacement = up_exact\<lparr>re_artifact := Oci ''r'' (up_sha True), re_local_artifact_id := None\<rparr>"

definition up_plan :: update_plan where
  "up_plan = \<lparr>pl_current_config = None, pl_replacement = Some up_replacement\<rparr>"

definition up_retained :: "'r PerformedSteps \<Rightarrow> 'r PerformedSteps" where
  "up_retained ps = ps\<lparr>ps_runtime_before_change := Some up_exact,
                      ps_runtime_before_change_was_running := True\<rparr>"

lemma up_signing:
  "require_shared_signing_key_root (up_env healthy g) (up_world c) ''/s'' text Podman [up_mount] = Inr ()"
proof -
  have paths: "path_join ''/s'' ''signing-key-encryption-key'' = ''/s/signing-key-encryption-key''"
    "path_join CONTAINER_SECRETS_DIR ''signing-key-encryption-key''
       = ''/run/secrets/signing-key-encryption-key''"
    by code_simp+
  show ?thesis
    by (simp add: require_shared_signing_key_root_def check_signing_file_def paths same_path_def
      up_env_def read_secure_regular_file_def validate_signing_key_encryption_key_def up_mount_def
      neutral_mount_def Let_def)
qed

lemma up_plan_eq:
  "plan_update (up_env healthy g) up_job up_ad (up_world (Some (True, False)), no_steps)
     = (Inr (Some up_plan), (up_world (Some (True, False)), up_retained no_steps))"
proof -
  have rep: "replacement_from_observation (up_observation True False) ''nazo'' (Oci ''r'' (up_sha True))
      = Inr (up_exact\<lparr>re_artifact := Oci ''r'' (up_sha True), re_local_artifact_id := None\<rparr>)"
    by (simp add: replacement_from_observation_def replacement_command_def up_observation_def
      up_exact_def up_sha_def)
  have exact: "replacement_from_observation (up_observation True False) ''nazo'' (Oci ''r'' (up_sha False))
      = Inr up_exact"
    by (simp add: replacement_from_observation_def replacement_command_def up_observation_def up_exact_def)
  show ?thesis
    by (simp add: plan_update_def up_ad_def up_facts_def update_is_noop_def config_under_update_def
      planned_replacement_def runtime_replacement_required_def retain_runtime_def
      exact_replacement_from_observation_def rep exact up_signing up_plan_def up_replacement_def
      up_retained_def Let_def no_steps_def)
qed

definition up_snapshotted :: "up_container update_world \<Rightarrow> up_container update_world" where
  "up_snapshotted w = w
     \<lparr>uw_bytes := [''o2'' \<mapsto> Regular ''old''],
      uw_metas := [''o2'' \<mapsto> MetaDoc \<lparr>csm_schema = SNAPSHOT_META_SCHEMA, csm_operation_id = ''o2'',
         csm_content_sha256 = ''old'', csm_config_schema = ''1'', csm_replaced_by_schema = Some ''2''\<rparr>]\<rparr>"

definition up_staged :: "up_container \<Rightarrow> up_container update_world" where
  "up_staged c = (up_snapshotted (up_world c))\<lparr>uw_files := (uw_files (up_world c))(''/c'' \<mapsto> Regular ''new'')\<rparr>"

definition up_steps :: "bool \<Rightarrow> unit PerformedSteps" where
  "up_steps replaced = (up_retained no_steps)
     \<lparr>ps_snapshotted_config := True, ps_wrote_config := True, ps_replaced_runtime := replaced\<rparr>"

lemma up_atomic [simp]: "atomic_write Committed k v m = (True, m(k \<mapsto> v))"
  by (simp add: atomic_write_def)

lemma up_snapshot_eq:
  "snapshot_current (up_env healthy g) up_job None (up_world c, ps)
     = (Inr (), (up_snapshotted (up_world c), ps\<lparr>ps_snapshotted_config := True\<rparr>))"
proof -
  have "config_snapshot_directory ''o2''" by code_simp
  then show ?thesis
    by (simp add: snapshot_current_def snapshot_config_def up_env_def read_config_def
      read_secure_regular_file_def MAX_CONFIG_CONTENT_BYTES_def take_snapshot_def up_snapshotted_def)
qed

lemma up_stage_eq:
  "stage_config (up_E healthy) up_job (up_snapshotted (up_world c), (up_retained no_steps)\<lparr>ps_snapshotted_config := True\<rparr>)
     = (Inr (), (up_staged c, up_steps False))"
  by (simp add: stage_config_def write_config_file_def up_env_def grant_runtime_config_read_def
    up_staged_def up_steps_def up_retained_def no_steps_def up_snapshotted_def)

lemma up_stage_refused:
  "stage_config (up_env healthy OwnershipUnknown) up_job
       (up_snapshotted (up_world c), (up_retained no_steps)\<lparr>ps_snapshotted_config := True\<rparr>)
     = (Inl (ufail CONFIG_INVALID), (up_staged c, up_steps False))"
  by (simp add: stage_config_def write_config_file_def up_env_def grant_runtime_config_read_def
    up_staged_def up_steps_def up_retained_def no_steps_def up_snapshotted_def)

lemma up_staged_simps [simp]:
  "uw_host (up_staged c) = c" "(up_staged c)\<lparr>uw_host := c'\<rparr> = up_staged c'"
  "uw_files (up_staged c) ''/c'' = Some (Regular ''new'')" "uw_store (up_staged c) = sample_store"
  by (simp_all add: up_staged_def up_snapshotted_def up_world_def)

lemma up_staged_live [simp]:
  "live_observation up_host Podman ''nazo'' (up_staged (Some (running, new)))
     = Inr (up_observation running new)"
  by (simp add: live_observation_Inr)

lemma up_steps_simps [simp]:
  "ps_migration_applied (up_steps b) = False" "ps_migration_outcome_unknown (up_steps b) = False"
  "ps_replaced_runtime (up_steps b) = b" "ps_migration_result (up_steps b) = None"
  "(up_steps b)\<lparr>ps_replaced_runtime := b'\<rparr> = up_steps b'"
  "ps_runtime_before_change (up_steps b) = Some up_exact" "ps_snapshotted_config (up_steps b)"
  "ps_wrote_config (up_steps b)" "ps_runtime_before_change_was_running (up_steps b)"
  by (simp_all add: up_steps_def up_retained_def no_steps_def)

lemma up_commands:
  "backend_stop up_host Podman ''nazo'' (Some (running, new)) = (Inr (), Some (False, new))"
  "backend_start up_host Podman ''nazo'' (Some (running, new)) = (Inr (), Some (True, new))"
  by (simp_all add: backend_stop_def backend_start_def container_command_def run_quiet_def up_host_def up_run_def)

lemma up_replace:
  "backend_replace up_host Podman up_replacement (Some (False, new)) = (Inr (), Some (False, True))"
proof -
  have doc: "inspect_document_optional up_host (Some (False, new))
      [engine_name Podman, ''container'', ''inspect'', ''nazo''] = Inr (Some (up_document False new))"
    by (simp add: inspect_document_optional_def up_host_def)
  have "is_hexdigit (CHR ''1'')" by code_simp
  then have hex: "list_all is_hexdigit (replicate 64 (CHR ''1''))" by (simp add: list_all_iff)
  have remove: "remove_replacement_source up_host Podman up_replacement (Some (False, new)) = (Inr (), None)"
    using doc hex
    by (simp add: remove_replacement_source_def up_replacement_def up_exact_def up_document_def
      immutable_id_def as_text_def run_quiet_def up_host_def up_run_def)
  have "pinned_image ''r'' (up_sha True) \<in> set (podman_create up_host up_replacement
      (pinned_image ''r'' (up_sha True)) managed_default)"
    by (simp add: podman_create_def)
  moreover have "take 2 (podman_create up_host up_replacement (pinned_image ''r'' (up_sha True)) managed_default)
      = [''podman'', ''create'']"
    by (simp add: podman_create_def)
  ultimately have "h_run up_host (podman_create up_host up_replacement
      (pinned_image ''r'' (up_sha True)) managed_default) None = (True, Some (False, True))"
    by (auto simp: up_host_def up_run_def numeral_2_eq_2 take_Suc split: list.split)
  moreover have "re_artifact up_replacement = Oci ''r'' (up_sha True)"
    "re_local_artifact_id up_replacement = None"
    "re_container_policy up_replacement = Some managed_default"
    by (simp_all add: up_replacement_def up_exact_def)
  ultimately show ?thesis
    by (simp add: backend_replace_def podman_replace_def remove run_quiet_def)
qed

lemma up_activate:
  "activate up_host up_job (up_observation True False) (Some up_replacement)
       (up_staged (Some (True, False)), up_steps False)
     = (Inr (), (up_staged (Some (True, True)), up_steps True))"
  by (simp add: activate_def Let_def on_host_def up_commands switch_runtime_def up_replace)

lemma up_serving:
  "require_serving up_host (up_E healthy) Podman ''nazo'' (up_digest True) port issuer ''/c''
       (up_staged (Some (True, True)))
     = (if healthy then Inr () else Inl (ufail HEALTH_PROBE_FAILED))"
  by (simp add: require_serving_def probe_local_health_def read_config_def
    read_secure_regular_file_def MAX_CONFIG_CONTENT_BYTES_def) (simp add: up_env_def)

lemma up_failed_update:
  "run_update up_host X P (up_E False) up_job (up_world (Some (True, False)), no_steps)
     = (Inl (ufail HEALTH_PROBE_FAILED), (up_staged (Some (True, True)), up_steps True))"
proof -
  have ad: "ad_observation up_ad = up_observation True False" "ad_verified up_ad = up_facts"
    by (simp_all add: up_ad_def)
  show ?thesis
    by (simp add: run_update_def up_admit up_plan_eq up_plan_def up_snapshot_eq up_stage_eq migrate_def
      finish_update_def ad up_activate up_facts_def up_serving)
qed

lemma up_refused_update:
  "run_update up_host X P (up_env healthy OwnershipUnknown) up_job (up_world (Some (True, False)), no_steps)
     = (Inl (ufail CONFIG_INVALID), (up_staged (Some (True, False)), up_steps False))"
  by (simp add: run_update_def up_admit up_plan_eq up_plan_def up_snapshot_eq up_stage_refused)

lemma up_cleaned:
  "restore_config_part (up_env healthy g) up_job (up_staged c, up_steps False)
     = ([], ((up_staged c)\<lparr>uw_files := (uw_files (up_staged c))(''/c'' \<mapsto> Regular ''old'')\<rparr>, up_steps False))"
proof -
  have "config_snapshot_directory ''o2''" by code_simp
  then have "read_restorable_snapshot (up_env healthy g) ''o2'' (up_staged c) = Inr (Some (''old'', ''1''))"
    by (simp add: read_restorable_snapshot_def up_staged_def up_snapshotted_def SNAPSHOT_META_SCHEMA_def
      read_secure_regular_file_def MAX_CONFIG_CONTENT_BYTES_def up_env_def)
  then show ?thesis
    by (simp add: restore_config_part_def restore_snapshot_bytes_def write_config_file_def)
      (simp add: up_env_def grant_runtime_config_read_def errors_of_def)
qed

text \<open>The refusal that is cleaned up, and the update that goes through.\<close>

lemma up_refused:
  "\<exists>w'. execute_update up_host X P (up_env healthy OwnershipUnknown) up_job (up_world (Some (True, False)))
     = (Inl (ufail CONFIG_INVALID), w')"
  by (simp add: execute_update_def up_refused_update settle_update_def rollback_update_def up_cleaned
    rollback_result_def)

definition up_commit :: UpdateCommit where
  "up_commit = \<lparr>up_config_snapshot = Some ''o2'', up_artifact = ''sha256:'' @ up_digest True,
     up_release = Some \<lparr>rel_version = ''2''\<rparr>, up_config = Some (''/c'', ''2''),
     up_operation_id = ''o2''\<rparr>"

lemma up_recorded:
  "\<exists>st D. apply_update_healthy_from_live sample_X sample_E ''alpha'' 1 up_commit True sample_store = (Inr st, D)"
proof -
  have load: "load_existing sample_X sample_store ''alpha'' = Inr sample_state"
    using sample_facts by (simp add: load_existing_ok)
  have lock: "rbind (lock_path ''alpha'') (acquire_state_lock (env_held sample_E)) = Inr ()"
    by code_simp
  have "case apply_update_step up_commit True 1 ''o2'' 1 sample_state of Inr (Commit _) \<Rightarrow> True | _ \<Rightarrow> False"
    by code_simp
  then obtain s' where "apply_update_step up_commit True 1 ''o2'' 1 sample_state = Inr (Commit s')"
    by (auto split: sum.splits mutation.splits)
  moreover have "env_now sample_E = 1" "env_commit sample_E = Committed" "up_operation_id up_commit = ''o2''"
    by (simp_all add: sample_E_def up_commit_def)
  ultimately show ?thesis
    by (simp add: apply_update_healthy_from_live_def run_step_locked [OF load lock] persist_exact_def persist_def)
qed

lemma up_activates:
  "\<exists>facts w'. execute_update up_host sample_X P (up_E True) up_job (up_world (Some (True, False)))
     = (Inr (Activated facts), w')"
proof -
  have ad: "ad_observation up_ad = up_observation True False" "ad_verified up_ad = up_facts"
      "ad_recorded_current_was_live up_ad = True"
    by (simp_all add: up_ad_def)
  have env: "ue_commit_env (up_E True) = sample_E" by (simp add: up_env_def)
  obtain st D where rec: "apply_update_healthy_from_live sample_X sample_E ''alpha'' 1 up_commit True sample_store
      = (Inr st, D)" using up_recorded by (elim exE)
  have "commit_update sample_X (up_E True) up_job up_ad (up_staged (Some (True, True)), up_steps True)
     = (Inr (Activated \<lparr>lf_revision = cfg_revision (ds_config st), lf_release = ds_current_release st,
          lf_migration_result = None\<rparr>), ((up_staged (Some (True, True)))\<lparr>uw_store := D\<rparr>,
          (up_steps True)\<lparr>ps_migration_result := None\<rparr>))"
    using rec by (simp add: commit_update_def env ad up_facts_def staged_config_change_def up_commit_def)
  then show ?thesis
    by (simp add: execute_update_def run_update_def up_admit up_plan_eq up_plan_def up_snapshot_eq
      up_stage_eq migrate_def finish_update_def ad up_activate up_facts_def up_serving settle_update_def)
qed

end
