(* ===== verification/UpdateTrace.thy ===== *)
theory UpdateTrace
  imports UpdateProofs
begin

text \<open>
  What an update leaves behind: the saved configuration reads back, an activated update is served
  and recorded, a clean failure undoes its files.
\<close>

section \<open>The saved configuration\<close>

lemma read_secure_Some:
  "read_secure_regular_file f n = Some bytes \<longleftrightarrow> f = Some (Regular bytes) \<and> length bytes \<le> n"
  by (auto simp: read_secure_regular_file_def split: option.split secure_file.split)

lemma atomic_write_True: "atomic_write out k v m = (True, m') \<longleftrightarrow> out = Committed \<and> m' = m(k \<mapsto> v)"
  by (auto simp: atomic_write_def split: commit.split)

lemma atomic_write_False:
  "atomic_write out k v m = (False, m') \<Longrightarrow> out \<noteq> Unsynced \<Longrightarrow> m' = m"
  by (auto simp: atomic_write_def split: commit.splits)

lemma resume_snapshot_restorable:
  assumes "resume_snapshot E i sch rep meta (uw_bytes w i)" and "uw_metas w i = Some meta"
    and "config_snapshot_directory i"
  shows "\<exists>bytes. read_restorable_snapshot E i w = Inr (Some (bytes, sch))"
  using assms
  by (auto simp: resume_snapshot_def read_restorable_snapshot_def read_secure_regular_file_def
      split: snapshot_meta_file.splits option.splits secure_file.splits if_splits)

lemma taken_snapshot_restorable:
  assumes "take_snapshot E i sch rep bytes w = (True, w')"
    and "length bytes \<le> MAX_CONFIG_CONTENT_BYTES" and "config_snapshot_directory i"
  shows "read_restorable_snapshot E i w' = Inr (Some (bytes, sch))"
  using assms
  by (auto simp: take_snapshot_def atomic_write_True read_restorable_snapshot_def
      read_secure_regular_file_def split: prod.splits bool.splits)

lemma snapshot_restorable:
  assumes snap: "snapshot_config E i ref sch rep cur w = (True, w')"
    and cur: "\<And>b. cur = Some b \<Longrightarrow> length b \<le> MAX_CONFIG_CONTENT_BYTES"
  shows "\<exists>bytes. read_restorable_snapshot E i w' = Inr (Some (bytes, sch))
    \<and> (uw_metas w i = None \<longrightarrow> cur = Some bytes \<or> cur = None \<and> read_config ref w = Some bytes)"
proof (cases "uw_metas w i")
  case (Some meta)
  then show ?thesis
    using snap resume_snapshot_restorable [of E i sch rep meta w]
    by (auto simp: snapshot_config_def split: if_splits)
next
  case None
  then obtain bytes where bytes: "(case cur of Some b \<Rightarrow> Some b | None \<Rightarrow> read_config ref w) = Some bytes"
      and taken: "take_snapshot E i sch rep bytes w = (True, w')" and dir: "config_snapshot_directory i"
    using snap by (auto simp: snapshot_config_def split: if_splits option.splits)
  have "length bytes \<le> MAX_CONFIG_CONTENT_BYTES"
    using bytes cur by (auto simp: read_config_def read_secure_Some split: option.splits)
  then have "read_restorable_snapshot E i w' = Inr (Some (bytes, sch))"
    using taken_snapshot_restorable [OF taken _ dir] by simp
  then show ?thesis using bytes by (auto split: option.splits)
qed

section \<open>Files that can be undone\<close>

definition undoable ::
  "('w, 'r) update_env \<Rightarrow> UpdateJob \<Rightarrow> (string \<rightharpoonup> secure_file) \<Rightarrow> ('w, 'r) run \<Rightarrow> bool" where
  "undoable E job files s \<longleftrightarrow>
     (if ps_wrote_config (snd s) then
        (\<exists>content. uw_files (fst s) = files(uj_config_reference job \<mapsto> content))
        \<and> (if ps_snapshotted_config (snd s) then
             (\<exists>bytes sch. files (uj_config_reference job) = Some (Regular bytes)
                \<and> read_restorable_snapshot E (uj_operation_id job) (fst s) = Inr (Some (bytes, sch)))
           else files (uj_config_reference job) = None)
      else uw_files (fst s) = files)"

lemma read_restorable_cong:
  assumes "uw_metas w' = uw_metas w" "uw_bytes w' = uw_bytes w"
  shows "read_restorable_snapshot E i w' = read_restorable_snapshot E i w"
  unfolding read_restorable_snapshot_def assms by (rule refl)

lemma undoable_cong:
  assumes "uw_files (fst s') = uw_files (fst s)" "uw_metas (fst s') = uw_metas (fst s)"
    "uw_bytes (fst s') = uw_bytes (fst s)" "ps_wrote_config (snd s') = ps_wrote_config (snd s)"
    "ps_snapshotted_config (snd s') = ps_snapshotted_config (snd s)"
  shows "undoable E job files s' = undoable E job files s"
  using assms read_restorable_cong [OF assms(2,3), of E "uj_operation_id job"]
  by (simp add: undoable_def)

lemma undoable_start:
  "\<not> ps_wrote_config (snd s) \<Longrightarrow> uw_files (fst s) = files \<Longrightarrow> undoable E job files s"
  by (simp add: undoable_def)

lemma restore_config_undoes:
  assumes "undoable E job files s" and "restore_config_part E job s = ([], s1)"
  shows "uw_files (fst s1) = files"
  using assms
  by (auto simp: undoable_def restore_config_part_def restore_snapshot_bytes_def write_config_file_def
      errors_of_def atomic_write_True remove_file_durable_def fun_upd_idem
      split: if_splits prod.splits sum.splits bool.splits commit.splits)

text \<open>Where the writes of the clean-up take effect, the files are restored even when it reports an error.\<close>

lemma restore_config_written:
  assumes "undoable E job files s" and "restore_config_part E job s = (errs, s1)"
    and "ue_restore_config E = Committed" and "ue_remove_config E = Committed"
  shows "uw_files (fst s1) = files"
  using assms
  by (auto simp: undoable_def restore_config_part_def restore_snapshot_bytes_def write_config_file_def
      atomic_write_def remove_file_durable_def fun_upd_idem split: if_splits prod.splits bool.splits)

text \<open>The configuration is staged behind a snapshot.\<close>

lemma snapshot_current_ok:
  assumes "snapshot_current E job cur s = (Inr (), s1)"
    and "uw_metas (fst s) (uj_operation_id job) = None" "\<not> ps_snapshotted_config (snd s)"
    and "\<And>b. cur = Some b \<Longrightarrow> length b \<le> MAX_CONFIG_CONTENT_BYTES"
  shows "if ps_snapshotted_config (snd s1) then
       (\<exists>bytes sch. (cur = Some bytes \<or> uw_files (fst s) (uj_config_reference job) = Some (Regular bytes))
          \<and> read_restorable_snapshot E (uj_operation_id job) (fst s1) = Inr (Some (bytes, sch)))
     else uw_files (fst s) (uj_config_reference job) = None"
proof (cases "uw_files (fst s) (uj_config_reference job)")
  case None
  then show ?thesis using assms by (auto simp: snapshot_current_def)
next
  case (Some f)
  then obtain w1 where snap: "snapshot_config E (uj_operation_id job) (uj_config_reference job)
      (uj_config_schema job) (map_option sc_schema (uj_config job)) cur (fst s) = (True, w1)"
    and s1: "s1 = (w1, (snd s)\<lparr>ps_snapshotted_config := True\<rparr>)"
    using assms(1) by (auto simp: snapshot_current_def split: prod.splits bool.splits)
  then show ?thesis
    using snapshot_restorable [OF snap assms(4)] assms(2)
    by (auto simp: read_config_def read_secure_Some)
qed

lemma stage_config_undoable:
  assumes stage: "stage_config E job s1 = (r, s2)"
    and sync: "uj_config job = None \<or> ue_write_config E \<noteq> Unsynced"
    and start: "\<not> ps_wrote_config (snd s1)"
    and snap: "if ps_snapshotted_config (snd s1) then
       (\<exists>bytes sch. uw_files (fst s1) (uj_config_reference job) = Some (Regular bytes)
          \<and> read_restorable_snapshot E (uj_operation_id job) (fst s1) = Inr (Some (bytes, sch)))
     else uw_files (fst s1) (uj_config_reference job) = None"
  shows "undoable E job (uw_files (fst s1)) s2"
proof (cases "uj_config job")
  case None
  then show ?thesis using stage start by (simp add: stage_config_def undoable_start)
next
  case (Some staged)
  then have written: "ue_write_config E \<noteq> Unsynced" using sync by simp
  obtain ok files where wr: "atomic_write (ue_write_config E) (uj_config_reference job)
      (Regular (sc_content staged)) (uw_files (fst s1)) = (ok, files)" by (rule prod.exhaust)
  show ?thesis
  proof (cases ok)
    case False
    have "files = uw_files (fst s1)" by (rule atomic_write_False [OF _ written]) (use wr False in simp)
    then have "stage_config E job s1 = (Inl (ufail CONFIG_INVALID), s1)"
      using False by (simp add: stage_config_def Some write_config_file_def wr)
    then show ?thesis using stage start by (simp add: undoable_start)
  next
    case True
    then have files: "files = (uw_files (fst s1))(uj_config_reference job \<mapsto> Regular (sc_content staged))"
      using wr by (simp add: atomic_write_True)
    have "stage_config E job s1 = (grant_runtime_config_read (ue_grant E) (uj_runtime_kind job),
        ((fst s1)\<lparr>uw_files := files\<rparr>, (snd s1)\<lparr>ps_wrote_config := True\<rparr>))"
      using True by (simp add: stage_config_def Some write_config_file_def wr)
    then have s2: "s2 = ((fst s1)\<lparr>uw_files := files\<rparr>, (snd s1)\<lparr>ps_wrote_config := True\<rparr>)"
      using stage by simp
    have "read_restorable_snapshot E (uj_operation_id job) (fst s2)
        = read_restorable_snapshot E (uj_operation_id job) (fst s1)"
      by (rule read_restorable_cong) (simp_all add: s2)
    then show ?thesis using snap files by (auto simp: undoable_def s2 split: if_splits)
  qed
qed

section \<open>Parts after the configuration is staged\<close>

definition keeps_files :: "('w, 'r) run \<Rightarrow> ('w, 'r) run \<Rightarrow> bool" where
  "keeps_files s s' \<longleftrightarrow>
     uw_files (fst s') = uw_files (fst s) \<and> uw_metas (fst s') = uw_metas (fst s)
     \<and> uw_bytes (fst s') = uw_bytes (fst s) \<and> ps_wrote_config (snd s') = ps_wrote_config (snd s)
     \<and> ps_snapshotted_config (snd s') = ps_snapshotted_config (snd s)"

lemma keeps_files_refl [simp]: "keeps_files s s"
  by (simp add: keeps_files_def)

lemma keeps_files_trans: "keeps_files a b \<Longrightarrow> keeps_files b c \<Longrightarrow> keeps_files a c"
  by (simp add: keeps_files_def)

lemma keeps_files_then:
  assumes "keeps_files s (snd m)" and "\<And>a s1. m = (Inr a, s1) \<Longrightarrow> keeps_files s1 (snd (k a s1))"
  shows "keeps_files s (snd (then_run m k))"
proof (cases rule: then_run_cases [of m k])
  case (err e s1)
  then show ?thesis using assms(1) by simp
next
  case (ok a s1)
  then show ?thesis using assms keeps_files_trans [of s s1] by simp
qed

lemma keeps_files_attempt:
  assumes "\<And>a. r = Inr a \<Longrightarrow> keeps_files s (snd (k a))"
  shows "keeps_files s (snd (attempt r s k))"
  using assms by (cases r) auto

lemma keeps_undoable: "keeps_files s s' \<Longrightarrow> undoable E job files s' = undoable E job files s"
  by (rule undoable_cong) (simp_all add: keeps_files_def)

lemma admit_keeps: "keeps_files s (snd (admit_update H E job s))"
  by (simp add: keeps_files_def admit_frame [OF prod.collapse [symmetric]])

lemma plan_keeps: "keeps_files s (snd (plan_update E job ad s))"
  using plan_frame [of E job ad s "fst (plan_update E job ad s)" "snd (plan_update E job ad s)"]
  by (simp add: keeps_files_def plan_steps_only_def)

lemma migrate_keeps: "keeps_files s (snd (migrate H X P E job ad s))"
  using migrate_only [of s H X P E job ad]
  by (simp add: keeps_files_def migration_only_def migration_steps_only_def)

lemma activate_keeps: "keeps_files s (snd (activate H job ob planned s))"
  using activate_only [of s H job ob planned] by (simp add: keeps_files_def switch_only_def)

lemma commit_keeps: "keeps_files s (snd (commit_update X E job ad s))"
  using commit_frame [of X E job ad s "fst (commit_update X E job ad s)" "snd (commit_update X E job ad s)"]
  by (simp add: keeps_files_def migration_steps_only_def)

lemma finish_keeps: "keeps_files s (snd (finish_update H X E job ad plan s))"
  unfolding finish_update_def
  by (intro keeps_files_then keeps_files_attempt activate_keeps commit_keeps)

lemma plan_current_config:
  assumes "plan_update E job ad s = (Inr (Some plan), s1)"
  shows "uj_config job \<noteq> None \<Longrightarrow> pl_current_config plan = None"
    and "pl_current_config plan = Some b \<Longrightarrow> read_config (uj_config_reference job) (fst s) = Some b"
  using assms
  by (auto simp: plan_update_def Let_def attempt_Inr_iff config_under_update_def
      split: if_splits option.splits)

definition change_update ::
  "'w host \<Rightarrow> externals \<Rightarrow> ('a, 'r) protocol \<Rightarrow> ('w, 'r) update_env \<Rightarrow> UpdateJob \<Rightarrow> update_admission
   \<Rightarrow> update_plan \<Rightarrow> ('w, 'r) run \<Rightarrow> (update_failure + 'r UpdateExecution) \<times> ('w, 'r) run" where
  "change_update H X P E job ad plan s =
     then_run (migrate H X P E job ad s) (\<lambda>failed s.
       case failed of
         Some result \<Rightarrow> (Inr (MigrationFailed result), s)
       | None \<Rightarrow> finish_update H X E job ad plan s)"

lemma change_keeps: "keeps_files s (snd (change_update H X P E job ad plan s))"
  unfolding change_update_def
  by (intro keeps_files_then migrate_keeps) (simp add: finish_keeps split: option.split)

lemma run_update_unfold:
  "run_update H X P E job s =
     then_run (admit_update H E job s) (\<lambda>ad s.
     then_run (plan_update E job ad s) (\<lambda>planned s.
       case planned of
         None \<Rightarrow> (Inr (Noop (uj_expected_revision job)), s)
       | Some plan \<Rightarrow>
           then_run (snapshot_current E job (pl_current_config plan) s) (\<lambda>_ s.
           then_run (stage_config E job s) (\<lambda>_ s. change_update H X P E job ad plan s))))"
  unfolding run_update_def change_update_def by (rule refl)

lemma staged_change_undoable:
  assumes plan: "plan_update E job ad s1 = (Inr (Some plan), s2)" and k1: "keeps_files s1 s2"
    and fresh: "uw_metas (fst s2) (uj_operation_id job) = None" "\<not> ps_wrote_config (snd s2)"
      "\<not> ps_snapshotted_config (snd s2)"
    and sync: "uj_config job = None \<or> ue_write_config E \<noteq> Unsynced"
  shows "undoable E job (uw_files (fst s2))
    (snd (then_run (snapshot_current E job (pl_current_config plan) s2) (\<lambda>_ s.
           then_run (stage_config E job s) (\<lambda>_ s. change_update H X P E job ad plan s))))"
proof -
  have cur: "uw_files (fst s2) (uj_config_reference job) = Some (Regular b)
      \<and> length b \<le> MAX_CONFIG_CONTENT_BYTES" if "pl_current_config plan = Some b" for b
    using plan_current_config(2) [OF plan that] k1
    by (simp add: read_config_def read_secure_Some keeps_files_def)
  obtain rs s3 where snap: "snapshot_current E job (pl_current_config plan) s2 = (rs, s3)"
    by (rule prod.exhaust)
  have files: "uw_files (fst s3) = uw_files (fst s2)" "ps_wrote_config (snd s3) = ps_wrote_config (snd s2)"
    using snapshot_frame [OF snap] by auto
  show ?thesis
  proof (cases rs)
    case (Inl f)
    then show ?thesis using snap files fresh by (simp add: undoable_start)
  next
    case (Inr u)
    have saved: "if ps_snapshotted_config (snd s3) then
         (\<exists>bytes sch. uw_files (fst s3) (uj_config_reference job) = Some (Regular bytes)
            \<and> read_restorable_snapshot E (uj_operation_id job) (fst s3) = Inr (Some (bytes, sch)))
       else uw_files (fst s3) (uj_config_reference job) = None"
      using snapshot_current_ok [OF _ fresh(1,3), of E "pl_current_config plan" s3] snap Inr cur files
      by (auto split: if_splits)
    obtain rg s4 where stage: "stage_config E job s3 = (rg, s4)" by (rule prod.exhaust)
    have "undoable E job (uw_files (fst s3)) s4"
      using files fresh by (intro stage_config_undoable [OF stage sync _ saved]) simp
    then show ?thesis
      using snap Inr stage files keeps_undoable [OF change_keeps [of s4 H X P E job ad plan]]
      by (cases rg) simp_all
  qed
qed

text \<open>Whatever an update ran into, its clean-up knows how to undo the configuration.\<close>

lemma run_update_undoable:
  assumes run: "run_update H X P E job s = (r, s')"
    and fresh: "uw_metas (fst s) (uj_operation_id job) = None" "\<not> ps_wrote_config (snd s)"
      "\<not> ps_snapshotted_config (snd s)"
    and sync: "uj_config job = None \<or> ue_write_config E \<noteq> Unsynced"
  shows "undoable E job (uw_files (fst s)) s'"
proof -
  obtain ra s1 where admit: "admit_update H E job s = (ra, s1)" by (rule prod.exhaust)
  have k1: "keeps_files s s1" using admit_keeps [of s H E job] admit by simp
  show ?thesis
  proof (cases ra)
    case (Inl f)
    then show ?thesis using run admit k1 fresh
      by (simp add: run_update_def keeps_files_def undoable_start)
  next
    case ad: (Inr ad)
    obtain rp s2 where plan: "plan_update E job ad s1 = (rp, s2)" by (rule prod.exhaust)
    have k2: "keeps_files s s2" using plan_keeps [of s1 E job ad] plan k1 keeps_files_trans by simp
    have start: "undoable E job (uw_files (fst s)) s2"
      using k2 fresh by (intro undoable_start) (simp_all add: keeps_files_def)
    show ?thesis
    proof (cases "\<exists>p. rp = Inr (Some p)")
      case False
      then show ?thesis using run admit ad plan start
        by (cases rp) (auto simp: run_update_def split: option.splits)
    next
      case True
      then obtain p where p: "rp = Inr (Some p)" by blast
      have "undoable E job (uw_files (fst s2)) (snd (run_update H X P E job s))"
        using staged_change_undoable [of E job ad s1 p s2 H X P] plan p k2 fresh sync
          plan_keeps [of s1 E job ad]
        by (simp add: run_update_unfold admit ad keeps_files_def)
      then show ?thesis using run k2 by (simp add: keeps_files_def)
    qed
  qed
qed

text \<open>A run that replaced the container had staged its configuration with a confirmed write.\<close>

lemma replaced_staged:
  fixes s :: "('w, 'r) run"
  assumes run: "run_update H X P E job s = (r, s')" and start: "\<not> ps_replaced_runtime (snd s)"
    and replaced: "ps_replaced_runtime (snd s')"
  shows "uj_config job = None \<or> ue_write_config E \<noteq> Unsynced"
proof (rule ccontr)
  assume "\<not> ?thesis"
  then obtain c where c: "uj_config job = Some c" and lost: "ue_write_config E = Unsynced" by auto
  have fails: "stage_config E job s1 \<noteq> (Inr u, s2)" for s1 u s2
    by (auto simp: stage_config_def c write_config_file_def atomic_write_def lost)
  define Q where "Q s1 \<longleftrightarrow> \<not> ps_replaced_runtime (snd s1)" for s1 :: "('w, 'r) run"
  have admit: "Q (snd (admit_update H E job s))"
    using start by (simp add: Q_def admit_frame [OF prod.collapse [symmetric]])
  have plan: "Q (snd (plan_update E job ad s1))" if "Q s1" for ad s1
    using that plan_frame(2) [where E = E and job = job and ad = ad and s = s1, OF prod.collapse [symmetric]]
    by (simp add: Q_def plan_steps_only_def)
  have snap: "Q (snd (snapshot_current E job cur s1))" if "Q s1" for cur s1
    using that snapshot_frame(4) [where E = E and job = job and cur = cur and s = s1, OF prod.collapse [symmetric]] by (auto simp: Q_def)
  have stage: "Q (snd (stage_config E job s1))" if "Q s1" for s1
    using that stage_frame(5) [where E = E and job = job and s = s1, OF prod.collapse [symmetric]] by (auto simp: Q_def)
  have staged: "Q (snd (then_run (stage_config E job s1) k))" if "Q s1" for s1
      and k :: "unit \<Rightarrow> ('w, 'r) run \<Rightarrow> (update_failure + 'r UpdateExecution) \<times> ('w, 'r) run"
    using stage [OF that] fails by (intro then_run_state [where Q = Q]) auto
  have "Q (snd (run_update H X P E job s))"
    unfolding run_update_unfold
    by (intro then_run_state [where Q = Q] admit plan; assumption?)
      (auto split: option.split intro!: then_run_state [where Q = Q] snap staged)
  then show False using replaced run by (simp add: Q_def)
qed

section \<open>What the store holds\<close>

text \<open>A refused mutation leaves the documents alone unless its write became visible unconfirmed.\<close>

lemma failed_step_keeps_states:
  assumes "run_step X E d step D = (Inl f, D')" and "env_commit E \<noteq> Unsynced"
  shows "st_states D' = st_states D"
proof (cases rule: run_step_cases [of X E d step D])
  case unchanged
  then show ?thesis using assms(1) by simp
next
  case (commit s s')
  then have "persist_exact E d s' D = (Inl f, D')" using assms(1) by simp
  then have D': "D' = snd (persist E d s' D)" and res: "fst (persist_exact E d s' D) = Inl f"
    using persist_exact_store [of E d s' D] by simp_all
  obtain ok states where wr: "atomic_write (env_commit E) d (StateDoc s') (st_states D) = (ok, states)"
    by (rule prod.exhaust)
  have "\<not> ok" using res by (cases ok) (simp_all add: persist_exact_def persist_def wr)
  then have "states = st_states D" by (intro atomic_write_False [OF _ assms(2)]) (use wr in simp)
  then show ?thesis by (simp add: D' persist_store wr)
qed

text \<open>A mutation that answers with a document has recorded exactly that one, or had before.\<close>

lemma answered_step:
  assumes "run_step X E d step D = (Inr s', D')"
  obtains (replay) "load_existing X D d = Inr s'" "step s' = Inr Replay" "D' = D"
  | (commit) s where "load_existing X D d = Inr s" "step s = Inr (Commit s')"
      "st_states D' d = Some (StateDoc s')"
proof -
  obtain s where load: "load_existing X D d = Inr s"
    using assms run_step_load_failure
    by (cases "load_existing X D d") (auto simp: run_step_def with_live_state_def split: sum.splits)
  have "rbind (lock_path d) (acquire_state_lock (env_held E)) = Inr ()"
    using assms by (cases "rbind (lock_path d) (acquire_state_lock (env_held E))")
      (auto simp: run_step_def with_live_state_def)
  then have run: "(case step s of
       Inl f \<Rightarrow> (Inl f, D)
     | Inr Replay \<Rightarrow> (Inr s, D)
     | Inr (Commit s') \<Rightarrow> persist_exact E d s' D) = (Inr s', D')"
    using run_step_locked [OF load] assms by simp
  show thesis
  proof (cases "step s")
    case (Inl f)
    then show thesis using run by simp
  next
    case (Inr m)
    show thesis
    proof (cases m)
      case Replay
      then show thesis using run Inr load by (intro replay) simp_all
    next
      case (Commit s2)
      then have "persist_exact E d s2 D = (Inr s', D')" using run Inr by simp
      then show thesis
        using persist_exact_ok [of E d s2 D s'] Inr Commit load by (intro commit) simp_all
    qed
  qed
qed

text \<open>Without an applied migration nothing but the final commit touches the store.\<close>

definition unfenced_store :: "store \<Rightarrow> ('w, 'r) run \<Rightarrow> bool" where
  "unfenced_store D s \<longleftrightarrow> ps_migration_applied (snd s) \<or> uw_store (fst s) = D"

lemma dispatch_store: "unfenced_store (uw_store (fst s)) (snd (dispatch_migration H job task s))"
  by (auto simp: unfenced_store_def dispatch_migration_def Let_def migration_dispatch_failure_def
      split: prod.split sum.split option.split)

lemma settle_store:
  "unfenced_store D s \<Longrightarrow> \<not> ps_migration_applied (snd s)
   \<Longrightarrow> unfenced_store D (snd (settle_migration X E job d result s))"
  by (auto simp: unfenced_store_def settle_migration_def Let_def fence_migration_def then_run_def
      split: ControlOutcome.split prod.split sum.split)

lemma dispatch_not_applied:
  "\<not> ps_migration_applied (snd s) \<Longrightarrow> \<not> ps_migration_applied (snd (snd (dispatch_migration H job task s)))"
  by (auto simp: dispatch_migration_def Let_def migration_dispatch_failure_def
      split: prod.split sum.split option.split)

lemma migrate_store:
  assumes "\<not> ps_migration_applied (snd s)"
  shows "unfenced_store (uw_store (fst s)) (snd (migrate H X P E job ad s))"
proof (cases "uj_migration_jws job")
  case None
  then show ?thesis by (simp add: migrate_def unfenced_store_def)
next
  case (Some jws)
  have self: "unfenced_store (uw_store (fst s)) s" by (simp add: unfenced_store_def)
  have tail: "unfenced_store (uw_store (fst s)) (snd (attempt (decode_operator_answer E out (uj_operation_id job)) s1 (\<lambda>result.
        attempt (validate_migration_result P (uj_operation_id job) h result) s1 (\<lambda>_.
          settle_migration X E job d result s1))))"
    if "dispatch_migration H job task s = (Inr out, s1)" for out s1 h d task
  proof -
    have s1: "unfenced_store (uw_store (fst s)) s1" "\<not> ps_migration_applied (snd s1)"
      using dispatch_store [of s H job task] dispatch_not_applied [OF assms, of H job task] that by simp_all
    show ?thesis
      by (intro attempt_state [where Q = "unfenced_store (uw_store (fst s))"] settle_store s1)
  qed
  show ?thesis
    using Some self
    by (auto simp: migrate_def split: option.split
        intro!: attempt_state [where Q = "unfenced_store (uw_store (fst s))"]
          then_run_state [where Q = "unfenced_store (uw_store (fst s))"] dispatch_store tail)
qed

lemma commit_update_failed:
  assumes "commit_update X E job ad s = (Inl f, s')" and "env_commit (ue_commit_env E) \<noteq> Unsynced"
  shows "st_states (uw_store (fst s')) = st_states (uw_store (fst s))"
  using assms failed_step_keeps_states [OF _ assms(2)]
  by (auto simp: commit_update_def apply_update_healthy_from_live_def split: prod.splits sum.splits)

text \<open>An order that neither activated nor fenced anything left the documents alone.\<close>

definition quiet :: "store \<Rightarrow> (update_failure + 'r UpdateExecution) \<times> ('w, 'r) run \<Rightarrow> bool" where
  "quiet D m \<longleftrightarrow> ps_migration_applied (snd (snd m)) \<or> (\<exists>facts. fst m = Inr (Activated facts))
     \<or> st_states (uw_store (fst (snd m))) = st_states D"

lemma quiet_then:
  assumes "uw_store (fst (snd m)) = D" and "\<And>a s1. m = (Inr a, s1) \<Longrightarrow> quiet D (k a s1)"
  shows "quiet D (then_run m k)"
proof (cases rule: then_run_cases [of m k])
  case (err e s1)
  then show ?thesis using assms(1) by (simp add: quiet_def)
next
  case (ok a s1)
  then show ?thesis using assms(2) by simp
qed

lemma quiet_attempt:
  assumes "uw_store (fst s) = D" and "\<And>a. r = Inr a \<Longrightarrow> quiet D (k a)"
  shows "quiet D (attempt r s k)"
  using assms by (cases r) (auto simp: quiet_def)

lemma commit_update_quiet:
  assumes "env_commit (ue_commit_env E) \<noteq> Unsynced"
  shows "quiet (uw_store (fst s)) (commit_update X E job ad s)"
proof (cases "fst (commit_update X E job ad s)")
  case (Inl f)
  then have "commit_update X E job ad s = (Inl f, snd (commit_update X E job ad s))"
    by (cases "commit_update X E job ad s") simp
  from commit_update_failed [OF this assms] show ?thesis by (simp add: quiet_def)
next
  case (Inr e)
  then have "\<exists>facts. e = Activated facts"
    by (auto simp: commit_update_def split: prod.splits sum.splits)
  then show ?thesis using Inr by (auto simp: quiet_def)
qed

lemma finish_update_quiet:
  assumes "env_commit (ue_commit_env E) \<noteq> Unsynced"
  shows "quiet (uw_store (fst s)) (finish_update H X E job ad plan s)"
proof -
  have act: "uw_store (fst s1) = uw_store (fst s)"
    if "activate H job (ad_observation ad) (pl_replacement plan) s = (Inr a, s1)" for a s1
    using activate_only [of s H job "ad_observation ad" "pl_replacement plan"] that
    by (simp add: switch_only_def)
  show ?thesis
    unfolding finish_update_def
  proof (rule quiet_then)
    show "uw_store (fst (snd (activate H job (ad_observation ad) (pl_replacement plan) s))) = uw_store (fst s)"
      using activate_only [of s H job "ad_observation ad" "pl_replacement plan"] by (simp add: switch_only_def)
  next
    fix a s1 assume "activate H job (ad_observation ad) (pl_replacement plan) s = (Inr a, s1)"
    then show "quiet (uw_store (fst s)) (attempt (require_serving H E (uj_runtime_kind job)
        (uj_runtime_object job) (vf_digest (ad_verified ad)) (uj_port job) (uj_issuer job)
        (uj_config_reference job) (fst s1)) s1 (\<lambda>_. commit_update X E job ad s1))"
      using act commit_update_quiet [OF assms, of s1] by (intro quiet_attempt) auto
  qed
qed

lemma finish_update_applied:
  "ps_migration_applied (snd s) \<Longrightarrow> ps_migration_applied (snd (snd (finish_update H X E job ad plan s)))"
proof -
  assume applied: "ps_migration_applied (snd s)"
  have commit: "ps_migration_applied (snd (snd (commit_update X E job ad s1))) = ps_migration_applied (snd s1)" for s1
    by (auto simp: commit_update_def split: prod.split sum.split)
  have act: "ps_migration_applied (snd (snd (activate H job ob planned s)))" for ob planned
    using activate_only [of s H job ob planned] applied by (simp add: switch_only_def)
  show ?thesis
    unfolding finish_update_def
    by (intro then_run_state [where Q = "\<lambda>s. ps_migration_applied (snd s)"] act
      attempt_state [where Q = "\<lambda>s. ps_migration_applied (snd s)"]) (simp_all add: commit)
qed

lemma change_update_quiet:
  assumes "\<not> ps_migration_applied (snd s)" and "env_commit (ue_commit_env E) \<noteq> Unsynced"
  shows "quiet (uw_store (fst s)) (change_update H X P E job ad plan s)"
proof -
  obtain r s1 where mig: "migrate H X P E job ad s = (r, s1)" by (rule prod.exhaust)
  have s1: "unfenced_store (uw_store (fst s)) s1"
    using migrate_store [OF assms(1), of H X P E job ad] mig by simp
  have fin: "quiet (uw_store (fst s)) (finish_update H X E job ad plan s1)"
  proof (cases "ps_migration_applied (snd s1)")
    case True
    then show ?thesis using finish_update_applied [of s1 H X E job ad plan] by (simp add: quiet_def)
  next
    case False
    then show ?thesis using s1 finish_update_quiet [OF assms(2), of s1 H X job ad plan]
      by (simp add: unfenced_store_def)
  qed
  have stop: "quiet (uw_store (fst s)) (r', s1)" for r'
    using s1 by (auto simp: quiet_def unfenced_store_def)
  show ?thesis
    using stop fin by (cases r) (simp_all add: change_update_def mig split: option.split)
qed

lemma staged_change_quiet:
  assumes "\<not> ps_migration_applied (snd s)" and "env_commit (ue_commit_env E) \<noteq> Unsynced"
  shows "quiet (uw_store (fst s)) (then_run (snapshot_current E job (pl_current_config plan) s) (\<lambda>_ s.
           then_run (stage_config E job s) (\<lambda>_ s. change_update H X P E job ad plan s)))"
proof (rule quiet_then, goal_cases)
  case 1
  show ?case by (rule snapshot_frame(3) [OF prod.collapse [symmetric]])
next
  case (2 a s1)
  then have s1: "uw_store (fst s1) = uw_store (fst s)" "\<not> ps_migration_applied (snd s1)"
    using snapshot_frame(3,4) [of E job "pl_current_config plan" s] assms(1) by auto
  show ?case
  proof (rule quiet_then, goal_cases)
    case 1
    show ?case using stage_frame(4) [OF prod.collapse [symmetric], of E job s1] s1 by simp
  next
    case (2 b s2)
    then have "uw_store (fst s2) = uw_store (fst s)" "\<not> ps_migration_applied (snd s2)"
      using stage_frame(4,5) [of E job s1] s1 by auto
    then show ?case using change_update_quiet [OF _ assms(2), of s2 H X P job ad plan] by simp
  qed
qed

lemma run_update_quiet:
  assumes "\<not> ps_migration_applied (snd s)" and "env_commit (ue_commit_env E) \<noteq> Unsynced"
  shows "quiet (uw_store (fst s)) (run_update H X P E job s)"
proof -
  have parts: "uw_store (fst (snd (admit_update H E job s))) = uw_store (fst s)"
    "ps_migration_applied (snd (snd (admit_update H E job s))) = ps_migration_applied (snd s)"
    by (simp_all add: admit_frame [OF prod.collapse [symmetric]])
  show ?thesis
    unfolding run_update_unfold
  proof (rule quiet_then [OF parts(1)], rule quiet_then)
    fix ad s1 assume admit: "admit_update H E job s = (Inr ad, s1)"
    have s1: "uw_store (fst s1) = uw_store (fst s)" "\<not> ps_migration_applied (snd s1)"
      using parts admit assms(1) by simp_all
    show "uw_store (fst (snd (plan_update E job ad s1))) = uw_store (fst s)"
      using plan_frame(1) [of E job ad s1] s1 by (metis prod.collapse)
    fix planned s2 assume plan: "plan_update E job ad s1 = (Inr planned, s2)"
    have s2: "uw_store (fst s2) = uw_store (fst s)" "\<not> ps_migration_applied (snd s2)"
      using plan_frame [OF plan] s1 by (simp_all add: plan_steps_only_def)
    show "quiet (uw_store (fst s)) (case planned of
         None \<Rightarrow> (Inr (Noop (uj_expected_revision job)), s2)
       | Some plan \<Rightarrow>
           then_run (snapshot_current E job (pl_current_config plan) s2) (\<lambda>_ s.
           then_run (stage_config E job s) (\<lambda>_ s. change_update H X P E job ad plan s)))"
      using s2 staged_change_quiet [OF s2(2) assms(2), of job _ H X P ad]
      by (simp add: quiet_def split: option.split)
  qed
qed

section \<open>Cleaning up\<close>

lemma rollback_update_ok:
  assumes "rollback_update H E job s = (Inr u, s')" and "undoable E job files s"
  shows "uw_files (fst s') = files" "uw_store (fst s') = uw_store (fst s)"
proof -
  obtain errs s1 where part: "restore_config_part E job s = (errs, s1)" by (rule prod.exhaust)
  obtain r s2 where restored: "restore_runtime_before_change H (uj_runtime_kind job) (uj_runtime_object job)
      (uj_current_artifact job) (uj_runtime_root job) s1 = (r, s2)" by (rule prod.exhaust)
  have s2: "uw_files (fst s2) = uw_files (fst s1)" "uw_store (fst s2) = uw_store (fst s1)"
    using host_only_fields [OF host_only_restore_runtime [of s1 H "uj_runtime_kind job"
        "uj_runtime_object job" "uj_current_artifact job" "uj_runtime_root job"]] restored by simp_all
  have "errs = []" "s' = s1 \<or> s' = s2"
    using assms(1) by (auto simp: rollback_update_def part restored rollback_result_def split: if_splits)
  then show "uw_files (fst s') = files" "uw_store (fst s') = uw_store (fst s)"
    using restore_config_undoes [OF assms(2), of s1] part s2 restore_config_part_frame(4) [OF part] by auto
qed

text \<open>An order that ends without a note on its clean-up went through a complete rollback.\<close>

lemma settle_without_note:
  assumes "settle_update H E job r s = (out, w')"
    and "out = Inl (UpdateFailure c NoNote) \<or> out = Inr (MigrationFailed result)"
  obtains u s' where "rollback_update H E job s = (Inr u, s')" and "w' = fst s'"
    and "\<not> ps_migration_applied (snd s)" and "\<not> (\<exists>facts. r = Inr (Activated facts))"
proof -
  obtain rb s' where rb: "rollback_update H E job s = (rb, s')" by (rule prod.exhaust)
  obtain f1 w1 where stop: "stop_writer_for_recovery H job (fst s) = (f1, w1)" "uf_note f1 \<noteq> NoNote"
    by (cases "stop_writer_for_recovery H job (fst s)")
      (auto simp: stop_writer_for_recovery_def stop_writer_def split: prod.splits sum.splits)
  obtain f2 w2 where unknown: "stop_writer_for_unknown_migration H job (fst s) = (f2, w2)"
      "uf_note f2 \<noteq> NoNote"
    by (cases "stop_writer_for_unknown_migration H job (fst s)")
      (auto simp: stop_writer_for_unknown_migration_def stop_writer_def split: prod.splits sum.splits)
  have "\<exists>u. rb = Inr u \<and> w' = fst s' \<and> \<not> ps_migration_applied (snd s)
      \<and> \<not> (\<exists>facts. r = Inr (Activated facts))"
    using assms stop unknown
    by (auto simp: settle_update_def Let_def rb
        split: sum.splits UpdateExecution.splits if_splits option.splits)
  then show thesis using rb that by (elim exE conjE) simp
qed

section \<open>An activated update\<close>

lemma run_update_activated:
  assumes "run_update H X P E job s = (Inr (Activated facts), s')"
  obtains ad s1 plan s2 s3 s4 s5 s6
  where "admit_update H E job s = (Inr ad, s1)" "plan_update E job ad s1 = (Inr (Some plan), s2)"
    "snapshot_current E job (pl_current_config plan) s2 = (Inr (), s3)"
    "stage_config E job s3 = (Inr (), s4)" "migrate H X P E job ad s4 = (Inr None, s5)"
    "activate H job (ad_observation ad) (pl_replacement plan) s5 = (Inr (), s6)"
    "require_serving H E (uj_runtime_kind job) (uj_runtime_object job) (vf_digest (ad_verified ad))
       (uj_port job) (uj_issuer job) (uj_config_reference job) (fst s6) = Inr ()"
    "commit_update X E job ad s6 = (Inr (Activated facts), s')"
  using assms
  by (auto simp: run_update_def finish_update_def then_run_Inr_iff attempt_Inr_iff split: option.splits)

text \<open>The fence of a migration leaves the active operation of the document alone.\<close>

lemma fence_keeps_active:
  assumes "load_existing X (snd (record_migration_applied X E d e op target D)) d = Inr st"
  obtains st0 where "load_existing X D d = Inr st0"
    and "ds_active_host_operation st = ds_active_host_operation st0"
proof -
  let ?step = "record_migration_step X target e op (env_now E)"
  have snd_run: "snd (record_migration_applied X E d e op target D) = snd (run_step X E d ?step D)"
    by (simp add: record_migration_applied_def split: prod.split)
  show thesis
  proof (cases rule: run_step_cases [of X E d ?step D])
    case unchanged
    then show thesis using assms snd_run by (intro that) simp_all
  next
    case (commit s s')
    have load: "load_existing X D d = Inr s" using commit by (simp add: load_existing_ok)
    have active: "ds_active_host_operation s' = ds_active_host_operation s"
      using commit(3) by (auto simp: record_migration_step_def Let_def split: if_splits option.splits sum.splits)
    have "st = s \<or> st = s'"
      using assms commit persist_exact_states [of E d s' D]
      by (auto simp: snd_run load_existing_ok)
    then show thesis
    proof
      assume "st = s"
      then show thesis by (intro that [OF load]) simp
    next
      assume "st = s'"
      then show thesis using active by (intro that [OF load]) simp
    qed
  qed
qed

lemma migrate_store_cases:
  fixes s :: "('w, 'r) run"
  assumes "migrate H X P E job ad s = (r, s')"
  shows "uw_store (fst s') = uw_store (fst s)
    \<or> (\<exists>target. uw_store (fst s') = snd (record_migration_applied X (ue_migration_env E)
          (uj_deployment_id job) (uj_expected_revision job) (uj_operation_id job) target (uw_store (fst s))))"
proof -
  define Q where "Q s1 \<longleftrightarrow> uw_store (fst s1) = uw_store (fst s)
    \<or> (\<exists>target. uw_store (fst s1) = snd (record_migration_applied X (ue_migration_env E)
          (uj_deployment_id job) (uj_expected_revision job) (uj_operation_id job) target (uw_store (fst s))))"
    for s1 :: "('w, 'r) run"
  have self: "Q s" by (simp add: Q_def)
  have same: "uw_store (fst (snd (dispatch_migration H job task s))) = uw_store (fst s)" for task
    by (auto simp: dispatch_migration_def Let_def migration_dispatch_failure_def
        split: prod.split sum.split option.split)
  have settle: "Q (snd (settle_migration X E job d result s1))" if "uw_store (fst s1) = uw_store (fst s)" for d result s1
  proof -
    have "uw_store (fst (snd (settle_migration X E job d result s1))) = uw_store (fst s)
      \<or> uw_store (fst (snd (settle_migration X E job d result s1)))
         = snd (record_migration_applied X (ue_migration_env E) (uj_deployment_id job)
             (uj_expected_revision job) (uj_operation_id job) (''sha256:'' @ d) (uw_store (fst s)))"
      using that
      by (auto simp: settle_migration_def Let_def fence_migration_def then_run_def
          split: ControlOutcome.split prod.splits sum.split)
    then show ?thesis unfolding Q_def by blast
  qed
  have tail: "Q (snd (attempt (decode_operator_answer E out (uj_operation_id job)) s1 (\<lambda>result.
        attempt (validate_migration_result P (uj_operation_id job) h result) s1 (\<lambda>_.
          settle_migration X E job d result s1))))"
    if "dispatch_migration H job task s = (Inr out, s1)" for out s1 h d task
  proof -
    have s1: "uw_store (fst s1) = uw_store (fst s)" using same [of task] that by simp
    then have "Q s1" by (simp add: Q_def)
    then show ?thesis by (intro attempt_state [where Q = Q] settle s1)
  qed
  have disp: "Q (snd (dispatch_migration H job task s))" for task by (simp add: Q_def same)
  have "Q (snd (migrate H X P E job ad s))"
    using self
    by (auto simp: migrate_def split: option.split
        intro!: attempt_state [where Q = Q] then_run_state [where Q = Q] disp tail)
  then show ?thesis using assms by (simp add: Q_def)
qed

text \<open>What the final commit records.\<close>

lemma commit_update_activated:
  assumes "commit_update X E job ad s = (Inr (Activated facts), s')"
    and "\<And>st0. load_existing X (uw_store (fst s)) (uj_deployment_id job) = Inr st0
           \<Longrightarrow> \<not> active_is st0 (uj_operation_id job)"
  obtains st where "st_states (uw_store (fst s')) (uj_deployment_id job) = Some (StateDoc st)"
    and "active_is st (uj_operation_id job)"
    and "art_current (ds_artifact st) = Some (''sha256:'' @ vf_digest (ad_verified ad))"
    and "ds_current_release st = Some (vf_release (ad_verified ad))"
    and "ds_applied_migration st = None"
    and "cfg_revision (ds_config st) = lf_revision facts"
proof -
  let ?u = "\<lparr>up_config_snapshot =
        (if ps_snapshotted_config (snd s) then Some (uj_operation_id job) else None),
      up_artifact = ''sha256:'' @ vf_digest (ad_verified ad),
      up_release = Some (vf_release (ad_verified ad)),
      up_config = staged_config_change (uj_config_reference job) (uj_config job),
      up_operation_id = uj_operation_id job\<rparr>"
  let ?step = "apply_update_step ?u (ad_recorded_current_was_live ad) (uj_expected_revision job)
      (uj_operation_id job) (env_now (ue_commit_env E))"
  obtain st D where run: "run_step X (ue_commit_env E) (uj_deployment_id job) ?step (uw_store (fst s)) = (Inr st, D)"
    and s': "uw_store (fst s') = D" and rev: "cfg_revision (ds_config st) = lf_revision facts"
    using assms(1) by (auto simp: commit_update_def apply_update_healthy_from_live_def split: prod.splits sum.splits)
  show thesis
  proof (cases rule: answered_step [OF run])
    case 1
    then have "active_is st (uj_operation_id job)"
      by (auto simp: apply_update_step_def rbind_Inr_iff split: if_splits sum.splits option.splits)
    then show thesis using assms(2) 1 by blast
  next
    case (2 st0)
    show thesis
    proof (rule apply_update_step_commit [OF 2(2)])
      fix s1 s2
      assume adv: "advance_config (up_config ?u)
           ((swap_generation ?u (ad_recorded_current_was_live ad) s1)
              \<lparr>ds_current_release := up_release ?u, ds_applied_migration := None\<rparr>) = Inr s2"
        and st: "st = mark_healthy ''local readiness probe passed after update''
             (env_now (ue_commit_env E)) (record_operation (uj_operation_id job) (env_now (ue_commit_env E)) s2)"
      have "art_current (ds_artifact s2) = Some (''sha256:'' @ vf_digest (ad_verified ad))
          \<and> ds_current_release s2 = Some (vf_release (ad_verified ad)) \<and> ds_applied_migration s2 = None"
        using advance_config_ok [OF adv] by (auto simp: swap_generation_def Let_def clear_previous_def)
      then show thesis
        using 2(3) rev by (intro that [of st]) (simp_all add: s' st mark_healthy_def record_operation_def active_is_def)
    qed
  qed
qed

lemma execute_update_activated:
  assumes "execute_update H X P E job w = (Inr (Activated facts), w')"
  obtains ps s where "run_update H X P E job (w, ps) = (Inr (Activated facts), s)" and "w' = fst s"
proof -
  have settled: "r = Inr (Activated facts) \<and> w' = fst s"
    if "settle_update H E job r s = (Inr (Activated facts), w')" for r s
    using that
    by (auto simp: settle_update_def Let_def
        split: sum.splits UpdateExecution.splits if_splits option.splits prod.splits)
  show thesis
  proof (cases "uj_applied_migration_operation_id job")
    case None
    obtain r s where run: "run_update H X P E job (w, no_steps) = (r, s)" by (rule prod.exhaust)
    have "settle_update H E job r s = (Inr (Activated facts), w')"
      using assms by (simp add: execute_update_def None run)
    from settled [OF this] show thesis using run by (intro that [of no_steps s]) simp_all
  next
    case (Some operation_id)
    obtain r s where run: "run_update H X P E job (w, no_steps\<lparr>ps_migration_applied := True\<rparr>) = (r, s)"
      by (rule prod.exhaust)
    have "settle_update H E job r s = (Inr (Activated facts), w')"
      using assms by (simp add: execute_update_def Some run split: if_splits)
    from settled [OF this] show thesis
      using run by (intro that [of "no_steps\<lparr>ps_migration_applied := True\<rparr>" s]) simp_all
  qed
qed

lemma stage_config_ok:
  assumes "stage_config E job s = (Inr (), s')"
  shows "uw_files (fst s') = (case uj_config job of
         None \<Rightarrow> uw_files (fst s)
       | Some c \<Rightarrow> (uw_files (fst s))(uj_config_reference job \<mapsto> Regular (sc_content c)))"
  using assms
  by (auto simp: stage_config_def write_config_file_def atomic_write_True split: option.splits prod.splits bool.splits)

lemma admit_update_ok:
  "admit_update H E job s = (Inr ad, s') \<Longrightarrow> staged_digest_matches E (uj_config job)"
  by (auto simp: admit_update_def Let_def attempt_Inr_iff then_run_Inr_iff)

text \<open>What admission verified is the release the environment found for the artifact of the order.\<close>

lemma admit_update_verified:
  assumes "admit_update H E job s = (Inr ad, s')"
  obtains release where "ue_release E (uj_artifact job)
      (version_floor_for_update (uj_artifact job) (uj_current_version job)) = Some release"
    and "if uj_runtime_kind job = Host then vf_digest (ad_verified ad) = vr_binary_sha256 release
         else \<exists>pulled. vr_oci_digest release = Some pulled
           \<and> vf_digest (ad_verified ad) = strip_sha256 pulled"
    and "vf_release (ad_verified ad) = \<lparr>rel_version = vr_version release\<rparr>"
  using assms
  by (auto simp: admit_update_def verify_pinned_artifact_facts_def obtain_artifact_def
      Let_def attempt_Inr_iff then_run_Inr_iff ReleaseVersion_new_def rbind_Inr_iff
      split: option.splits if_splits)

lemma parts_frame:
  assumes "admit_update H E job s = (Inr ad, s1)" "plan_update E job ad s1 = (Inr (Some plan), s2)"
    "snapshot_current E job cur s2 = (Inr (), s3)" "stage_config E job s3 = (Inr (), s4)"
  shows "uw_files (fst s4) = (case uj_config job of
         None \<Rightarrow> uw_files (fst s)
       | Some c \<Rightarrow> (uw_files (fst s))(uj_config_reference job \<mapsto> Regular (sc_content c)))"
    and "uw_store (fst s4) = uw_store (fst s)" and "staged_digest_matches E (uj_config job)"
  using admit_frame [OF assms(1)] plan_frame(1) [OF assms(2)] snapshot_frame [OF assms(3)]
    stage_frame [OF assms(4)] stage_config_ok [OF assms(4)] admit_update_ok [OF assms(1)]
  by (simp_all split: option.split)

lemma migrate_activate_frame:
  assumes "migrate H X P E job ad s = (r, s1)" "activate H job ob planned s1 = (r', s2)"
  shows "uw_files (fst s2) = uw_files (fst s)"
    and "load_existing X (uw_store (fst s2)) (uj_deployment_id job) = Inr st
      \<Longrightarrow> \<exists>st0. load_existing X (uw_store (fst s)) (uj_deployment_id job) = Inr st0
            \<and> ds_active_host_operation st = ds_active_host_operation st0"
proof -
  have s2: "uw_files (fst s2) = uw_files (fst s1)" "uw_store (fst s2) = uw_store (fst s1)"
    using activate_only [of s1 H job ob planned] assms(2) by (simp_all add: switch_only_def)
  show "uw_files (fst s2) = uw_files (fst s)"
    using migrate_only [of s H X P E job ad] assms(1) s2 by (simp add: migration_only_def)
  assume load: "load_existing X (uw_store (fst s2)) (uj_deployment_id job) = Inr st"
  from migrate_store_cases [OF assms(1)]
  show "\<exists>st0. load_existing X (uw_store (fst s)) (uj_deployment_id job) = Inr st0
            \<and> ds_active_host_operation st = ds_active_host_operation st0"
  proof
    assume "uw_store (fst s1) = uw_store (fst s)"
    then show ?thesis using load s2 by simp
  next
    assume "\<exists>target. uw_store (fst s1) = snd (record_migration_applied X (ue_migration_env E)
          (uj_deployment_id job) (uj_expected_revision job) (uj_operation_id job) target (uw_store (fst s)))"
    then obtain target where "uw_store (fst s1) = snd (record_migration_applied X (ue_migration_env E)
          (uj_deployment_id job) (uj_expected_revision job) (uj_operation_id job) target (uw_store (fst s)))"
      by (rule exE)
    then have "load_existing X (snd (record_migration_applied X (ue_migration_env E)
          (uj_deployment_id job) (uj_expected_revision job) (uj_operation_id job) target
          (uw_store (fst s)))) (uj_deployment_id job) = Inr st" using load s2 by simp
    then show ?thesis by (rule fence_keeps_active) (intro exI conjI)
  qed
qed

lemma probe_cong:
  assumes "uw_host w' = uw_host w" "uw_files w' = uw_files w"
  shows "probe_local_health E port issuer ref w' = probe_local_health E port issuer ref w"
  unfolding probe_local_health_def read_config_def assms by (rule refl)

end
