(* ===== verification/UpdateProperties.thy ===== *)
theory UpdateProperties
  imports UpdateSampleRun UpdateTrace
begin

text \<open>
  The properties of the update and rollback executor, each with a witness on the sample target.
\<close>

section \<open>What cannot be undone\<close>

text \<open>C34: An explicit rollback of a container that is running never happens. Whatever the order, the
  saved generation and the outcomes of every file write and engine call: the executor refuses, and
  the host and the deployment's records are as they were. The replacement it calls demands a stopped
  container and, unlike an update, the rollback stops nothing.\<close>

theorem running_container_is_never_rolled_back:
  assumes "is_container (rj_runtime_kind job)"
    and "live_observation H (rj_runtime_kind job) (rj_runtime_object job) w = Inr ob"
    and "ob_running ob"
  shows "\<exists>f w'. execute_rollback H X E job w = (Inl f, w')
    \<and> uw_host w' = uw_host w \<and> uw_store w' = uw_store w"
  using execute_rollback_running [OF assms, of X E] by (simp add: same_target_def)

lemma running_container_is_never_rolled_back_witness:
  "\<exists>f w'. execute_rollback up_host sample_X (up_E True) up_rollback (up_world (Some (True, True)))
       = (Inl f, w') \<and> uw_host w' = Some (True, True) \<and> uw_store w' = sample_store"
  using running_container_is_never_rolled_back
    [of up_rollback up_host "up_world (Some (True, True))" "up_observation True True" sample_X "up_E True"]
  by simp

text \<open>C31: A replacement that came up and then failed its readiness check stays in service. Whatever
  failed after a container update had started its replacement, as long as the object is running: the
  clean-up cannot put the observed container back, since the removal it needs demands a stopped one
  and it stops nothing. The order ends as a failure with an incomplete rollback and the host as the
  failed activation left it, while every configuration file is again the one of before, wherever the
  writes of the clean-up take effect and the order had saved no configuration in an earlier attempt.
  The order is one that neither resumes nor has recorded a migration and whose migration, if any, has
  a known outcome: after a migration the executor stops the writer and restores nothing.\<close>

theorem live_replacement_is_never_undone:
  assumes k: "is_container (uj_runtime_kind job)"
    and fresh: "uj_applied_migration_operation_id job = None"
    and run: "run_update H X P E job (w, no_steps) = (Inl f, s)"
    and replaced: "ps_replaced_runtime (snd s)"
    and settled: "\<not> ps_migration_applied (snd s)" "\<not> ps_migration_outcome_unknown (snd s)"
    and live: "live_observation H (uj_runtime_kind job) (uj_runtime_object job) (fst s) = Inr ob"
      "ob_running ob"
  shows "\<exists>w'. execute_update H X P E job w = (Inl (UpdateFailure (uf_code f) CleanupIncomplete), w')
    \<and> uw_host w' = uw_host (fst s)
    \<and> live_observation H (uj_runtime_kind job) (uj_runtime_object job) w' = Inr ob
    \<and> (uw_metas w (uj_operation_id job) = None \<and> ue_restore_config E = Committed
         \<and> ue_remove_config E = Committed \<longrightarrow> uw_files w' = uw_files w)"
proof -
  obtain errs s1 where part: "restore_config_part E job s = (errs, s1)" by (rule prod.exhaust)
  have s1: "uw_host (fst s1) = uw_host (fst s)" "snd s1 = snd s"
    using restore_config_part_frame [OF part] by simp_all
  have own: "re_object_reference r = uj_runtime_object job"
    if "ps_runtime_before_change (snd s1) = Some r" for r
    using run_update_object [of H X P E job w no_steps] run that s1 by (simp add: no_steps_def)
  have "live_observation H (uj_runtime_kind job) (uj_runtime_object job) (fst s1) = Inr ob"
    using live(1) s1 by (simp add: live_observation_def)
  then have "restore_runtime_before_change H (uj_runtime_kind job) (uj_runtime_object job)
      (uj_current_artifact job) (uj_runtime_root job) s1 = (Inl (ufail ACTIVATION_FAILED), s1)"
    using own by (intro restore_running_refused [OF k _ live(2)])
  then have "rollback_update H E job s = (rollback_result (errs @ [ufail ACTIVATION_FAILED]), s1)"
    using replaced s1 by (simp add: rollback_update_def part errors_of_def)
  then have ended: "execute_update H X P E job w
      = (Inl (UpdateFailure (uf_code f) CleanupIncomplete), fst s1)"
    using fresh settled by (simp add: execute_update_def run settle_update_def rollback_result_def)
  have "uw_files (fst s1) = uw_files w"
    if first: "uw_metas w (uj_operation_id job) = None" "ue_restore_config E = Committed"
      "ue_remove_config E = Committed"
  proof -
    have "uj_config job = None \<or> ue_write_config E \<noteq> Unsynced"
      by (rule replaced_staged [OF run _ replaced]) (simp add: no_steps_def)
    from run_update_undoable [OF run _ _ _ this] first(1)
    have "undoable E job (uw_files w) s" by (simp add: no_steps_def)
    from restore_config_written [OF this part first(2,3)] show ?thesis .
  qed
  then show ?thesis
    using ended s1 live(1) by (simp add: live_observation_def)
qed

lemma live_replacement_is_never_undone_witness:
  "\<exists>w'. execute_update up_host sample_X up_P (up_E False) up_job (up_world (Some (True, False)))
       = (Inl (UpdateFailure HEALTH_PROBE_FAILED CleanupIncomplete), w')
     \<and> uw_host w' = Some (True, True)
     \<and> live_observation up_host Podman ''nazo'' w' = Inr (up_observation True True)
     \<and> uw_files w' = uw_files (up_world (Some (True, False)))"
proof -
  have writes: "ue_restore_config (up_E False) = Committed" "ue_remove_config (up_E False) = Committed"
    by (simp_all add: up_env_def)
  show ?thesis
    using live_replacement_is_never_undone [of up_job up_host sample_X up_P "up_E False"
        "up_world (Some (True, False))" "ufail HEALTH_PROBE_FAILED"
        "(up_staged (Some (True, True)), up_steps True)" "up_observation True True"]
    by (simp add: up_failed_update writes)
qed

section \<open>What an activated update means\<close>

text \<open>C32: An update that answers as activated is in service and on record. The release verification
  accepted the artifact the order names, and the deployment's object runs the digest that verified
  release states, the binary's for a host service and the image's for a container, and passes the
  readiness probe on the configuration in place, which is the staged one, digest checked, or the one
  of before; and the document on disk names that digest, the version of that release, this operation
  and the revision of the answer, and no applied migration. This holds whatever the engine, the
  operator task and the file writes did, for an operation the document had not recorded before.\<close>

theorem activated_update_is_served_and_recorded:
  assumes exec: "execute_update H X P E job w = (Inr (Activated facts), w')"
    and new: "\<And>st0. load_existing X (uw_store w) (uj_deployment_id job) = Inr st0
           \<Longrightarrow> \<not> active_is st0 (uj_operation_id job)"
  shows "\<exists>ob d release st.
      ue_release E (uj_artifact job)
        (version_floor_for_update (uj_artifact job) (uj_current_version job)) = Some release
    \<and> (if uj_runtime_kind job = Host then d = vr_binary_sha256 release
       else \<exists>pulled. vr_oci_digest release = Some pulled \<and> d = strip_sha256 pulled)
    \<and> live_observation H (uj_runtime_kind job) (uj_runtime_object job) w' = Inr ob
    \<and> ob_running ob \<and> observation_digest ob = Some d
    \<and> probe_local_health E (uj_port job) (uj_issuer job) (uj_config_reference job) w' = Inr ()
    \<and> uw_files w' = (case uj_config job of
         None \<Rightarrow> uw_files w
       | Some c \<Rightarrow> (uw_files w)(uj_config_reference job \<mapsto> Regular (sc_content c)))
    \<and> staged_digest_matches E (uj_config job)
    \<and> st_states (uw_store w') (uj_deployment_id job) = Some (StateDoc st)
    \<and> active_is st (uj_operation_id job)
    \<and> art_current (ds_artifact st) = Some (''sha256:'' @ d)
    \<and> ds_current_release st = Some \<lparr>rel_version = vr_version release\<rparr>
    \<and> ds_applied_migration st = None
    \<and> cfg_revision (ds_config st) = lf_revision facts"
proof -
  obtain ps s where run: "run_update H X P E job (w, ps) = (Inr (Activated facts), s)" and w': "w' = fst s"
    by (rule execute_update_activated [OF exec])
  show ?thesis
  proof (rule run_update_activated [OF run])
    fix ad s1 plan s2 s3 s4 s5 s6
    assume parts: "admit_update H E job (w, ps) = (Inr ad, s1)" "plan_update E job ad s1 = (Inr (Some plan), s2)"
        "snapshot_current E job (pl_current_config plan) s2 = (Inr (), s3)"
        "stage_config E job s3 = (Inr (), s4)" "migrate H X P E job ad s4 = (Inr None, s5)"
        "activate H job (ad_observation ad) (pl_replacement plan) s5 = (Inr (), s6)"
      and serving: "require_serving H E (uj_runtime_kind job) (uj_runtime_object job)
          (vf_digest (ad_verified ad)) (uj_port job) (uj_issuer job) (uj_config_reference job) (fst s6) = Inr ()"
      and commit: "commit_update X E job ad s6 = (Inr (Activated facts), s)"
    note frames = commit_frame [OF commit] parts_frame [OF parts(1-4)]
      migrate_activate_frame [OF parts(5,6)]
    obtain ob where ob: "live_observation H (uj_runtime_kind job) (uj_runtime_object job) (fst s6) = Inr ob"
        "ob_running ob" "observation_digest ob = Some (vf_digest (ad_verified ad))"
      and probe: "probe_local_health E (uj_port job) (uj_issuer job) (uj_config_reference job) (fst s6) = Inr ()"
      using serving by (auto simp: require_serving_def rbind_Inr_iff)
    have "\<not> active_is st0 (uj_operation_id job)"
      if "load_existing X (uw_store (fst s6)) (uj_deployment_id job) = Inr st0" for st0
      using frames(10) [OF that] new by (auto simp: frames(7) active_is_def)
    then obtain st where "st_states (uw_store (fst s)) (uj_deployment_id job) = Some (StateDoc st)"
        "active_is st (uj_operation_id job)"
        "art_current (ds_artifact st) = Some (''sha256:'' @ vf_digest (ad_verified ad))"
        "ds_current_release st = Some (vf_release (ad_verified ad))" "ds_applied_migration st = None"
        "cfg_revision (ds_config st) = lf_revision facts"
      by (rule commit_update_activated [OF commit])
    moreover have "live_observation H (uj_runtime_kind job) (uj_runtime_object job) (fst s) = Inr ob"
      using ob(1) frames(1) by (simp add: live_observation_def)
    moreover have "probe_local_health E (uj_port job) (uj_issuer job) (uj_config_reference job) (fst s) = Inr ()"
      using probe probe_cong [OF frames(1,2), of E] by simp
    moreover have "uw_files (fst s) = (case uj_config job of
         None \<Rightarrow> uw_files w
       | Some c \<Rightarrow> (uw_files w)(uj_config_reference job \<mapsto> Regular (sc_content c)))"
      using frames(2,6,9) by (simp split: option.split)
    moreover obtain release where "ue_release E (uj_artifact job)
          (version_floor_for_update (uj_artifact job) (uj_current_version job)) = Some release"
        "if uj_runtime_kind job = Host then vf_digest (ad_verified ad) = vr_binary_sha256 release
         else \<exists>pulled. vr_oci_digest release = Some pulled
           \<and> vf_digest (ad_verified ad) = strip_sha256 pulled"
        "vf_release (ad_verified ad) = \<lparr>rel_version = vr_version release\<rparr>"
      by (rule admit_update_verified [OF parts(1)])
    ultimately show ?thesis using ob(2,3) frames(8) w' by metis
  qed
qed

lemma activated_update_is_served_and_recorded_witness:
  "\<exists>facts w' ob d release st.
      execute_update up_host sample_X up_P (up_E True) up_job (up_world (Some (True, False)))
        = (Inr (Activated facts), w')
    \<and> ue_release (up_E True) (uj_artifact up_job)
        (version_floor_for_update (uj_artifact up_job) (uj_current_version up_job)) = Some release
    \<and> (\<exists>pulled. vr_oci_digest release = Some pulled \<and> d = strip_sha256 pulled)
    \<and> live_observation up_host Podman ''nazo'' w' = Inr ob \<and> ob_running ob
    \<and> observation_digest ob = Some d
    \<and> uw_files w' ''/c'' = Some (Regular ''new'')
    \<and> st_states (uw_store w') ''alpha'' = Some (StateDoc st) \<and> active_is st ''o2''
    \<and> art_current (ds_artifact st) = Some (''sha256:'' @ d)
    \<and> ds_current_release st = Some \<lparr>rel_version = vr_version release\<rparr>"
proof -
  obtain facts w' where exec: "execute_update up_host sample_X up_P (up_E True) up_job (up_world (Some (True, False)))
      = (Inr (Activated facts), w')" using up_activates [of up_P] by (elim exE)
  have new: "\<not> active_is st0 (uj_operation_id up_job)"
    if "load_existing sample_X (uw_store (up_world (Some (True, False)))) (uj_deployment_id up_job) = Inr st0" for st0
  proof -
    have "st0 = sample_state" using that sample_facts(1,2) by (simp add: load_existing_ok)
    then show ?thesis by (simp add: active_is_def sample_state_def fresh_state_def)
  qed
  note recorded = activated_update_is_served_and_recorded [OF exec new]
  show ?thesis
    apply (insert exec)
    apply (rule exE [OF recorded], assumption)
    apply (elim exE conjE)
    subgoal for ob d release st
      by (intro exI [of _ facts] exI [of _ w'] exI [of _ ob] exI [of _ d] exI [of _ release] exI [of _ st]) simp
    done
qed

text \<open>C33: A refused or failed update leaves no trace. When the first run of an order ends as a
  failure without a note on its clean-up, or as a durably failed migration, the files of the
  deployment and its state documents are exactly those of before, wherever the run had got to,
  including a configuration it had staged where there was none. The two writes that can take effect
  without being confirmed, of the configuration and of the document, are excepted.\<close>

theorem clean_failure_leaves_no_trace:
  assumes exec: "execute_update H X P E job w = (out, w')"
    and clean: "out = Inl (UpdateFailure c NoNote) \<or> out = Inr (MigrationFailed result)"
    and first: "uj_applied_migration_operation_id job = None" "uw_metas w (uj_operation_id job) = None"
    and sync: "ue_write_config E \<noteq> Unsynced" "env_commit (ue_commit_env E) \<noteq> Unsynced"
  shows "uw_files w' = uw_files w \<and> st_states (uw_store w') = st_states (uw_store w)"
proof -
  obtain r s where run: "run_update H X P E job (w, no_steps) = (r, s)" by (rule prod.exhaust)
  have settle: "settle_update H E job r s = (out, w')"
    using exec first by (simp add: execute_update_def run)
  have undo: "undoable E job (uw_files w) s"
    using run_update_undoable [OF run] first sync by (simp add: no_steps_def)
  have quiet: "quiet (uw_store w) (r, s)"
    using run_update_quiet [of "(w, no_steps)" E H X P job] run sync by (simp add: no_steps_def)
  show ?thesis
  proof (rule settle_without_note [OF settle clean])
    fix u s'
    assume rb: "rollback_update H E job s = (Inr u, s')" and w': "w' = fst s'"
      and r: "\<not> ps_migration_applied (snd s)" "\<not> (\<exists>facts. r = Inr (Activated facts))"
    show ?thesis using rollback_update_ok [OF rb undo] quiet r by (simp add: w' quiet_def)
  qed
qed

lemma clean_failure_leaves_no_trace_witness:
  "\<exists>w'. execute_update up_host sample_X up_P (up_env True OwnershipUnknown) up_job (up_world (Some (True, False)))
       = (Inl (ufail CONFIG_INVALID), w')
     \<and> uw_files w' ''/c'' = Some (Regular ''old'') \<and> st_states (uw_store w') = st_states sample_store"
proof -
  obtain w' where exec: "execute_update up_host sample_X up_P (up_env True OwnershipUnknown) up_job
      (up_world (Some (True, False))) = (Inl (ufail CONFIG_INVALID), w')" using up_refused [of sample_X up_P True] by (elim exE)
  from clean_failure_leaves_no_trace [OF exec, of CONFIG_INVALID undefined] exec show ?thesis
    by (simp add: up_env_def sample_E_def)
qed

text \<open>C35: A configuration that was saved can be given back. After a snapshot call succeeds, first run
  or resumed, given the bytes to save or told to read the file, a read of that snapshot returns bytes
  that match the recorded digest, under the schema of the generation it belongs to; on a first run
  they are the bytes given, or else those of the configuration then in place. Bytes that are given
  stay within the bound of a configuration file, as those the update hands over do.\<close>

theorem saved_configuration_reads_back:
  assumes "snapshot_config E i ref sch rep current w = (True, w')"
    and "\<And>given. current = Some given \<Longrightarrow> length given \<le> MAX_CONFIG_CONTENT_BYTES"
  shows "\<exists>bytes. read_restorable_snapshot E i w' = Inr (Some (bytes, sch))
    \<and> (uw_metas w i \<noteq> None
       \<or> (case current of Some given \<Rightarrow> bytes = given | None \<Rightarrow> uw_files w ref = Some (Regular bytes)))"
  using snapshot_restorable [OF assms] by (auto simp: read_config_def read_secure_Some split: option.split)

lemma saved_configuration_reads_back_witness:
  "\<exists>bytes. read_restorable_snapshot (up_E True) ''o2'' (up_snapshotted (up_world None)) = Inr (Some (bytes, ''1''))
     \<and> uw_files (up_world None) ''/c'' = Some (Regular bytes)"
proof -
  have "snapshot_config (up_E True) ''o2'' ''/c'' ''1'' (Some ''2'') None (up_world None)
      = (True, up_snapshotted (up_world None))"
    using up_snapshot_eq [of True Granted None no_steps] by (auto simp: snapshot_current_def split: prod.splits bool.splits)
  from saved_configuration_reads_back [OF this] show ?thesis by simp
qed

end
