(* ===== verification/UninstallExec.thy ===== *)
theory UninstallExec
  imports UpdateDispatch
begin

text \<open>
  The uninstall executor of \<open>src/src/target/uninstall_exec.rs\<close> and the target's answer to an
  uninstall order (\<open>answer_uninstall\<close> of \<open>src/src/target/mod.rs\<close>).

  The deployment's files are a map from paths to entries. A path is the list of its components, as
  \<open>std::path\<close> splits it: links in its ancestors are not resolved. Modes are not modelled, so
  \<open>make_tree_removable\<close> is its outcome. The unit files of systemd belong to the runtime host.
\<close>

section \<open>Files\<close>

type_synonym path = "string list"

datatype entry = FileEntry string | DirEntry | LinkEntry | OtherEntry

definition below :: "path \<Rightarrow> path \<Rightarrow> bool" where
  "below root p \<longleftrightarrow> take (length root) p = root"

text \<open>
  \<open>remove_dir_all\<close> removes the tree, or stops with an error after some of its entries are gone.
\<close>

datatype tree_removal = TreeRemoved | TreeStopped "path \<Rightarrow> bool"

definition remove_dir_all :: "tree_removal \<Rightarrow> path \<Rightarrow> (path \<rightharpoonup> entry) \<Rightarrow> bool \<times> (path \<rightharpoonup> entry)" where
  "remove_dir_all outcome root files =
     (case outcome of
        TreeRemoved \<Rightarrow> (True, \<lambda>p. if below root p then None else files p)
      | TreeStopped gone \<Rightarrow> (False, \<lambda>p. if below root p \<and> gone p then None else files p))"

text \<open>\<open>remove_file_durable\<close> on a tree: a directory cannot be unlinked.\<close>

definition unlink :: "commit \<Rightarrow> path \<Rightarrow> (path \<rightharpoonup> entry) \<Rightarrow> bool \<times> (path \<rightharpoonup> entry)" where
  "unlink outcome p files =
     (if files p = Some DirEntry then (False, files) else remove_file_durable outcome p files)"

section \<open>The world, the environment and the job\<close>

record 'w uninstall_world =
  un_host :: 'w
  un_files :: "path \<rightharpoonup> entry"
  un_store :: store

record 'w deletion_env =
  de_privileged :: bool
  de_fragment :: "'w \<Rightarrow> string \<Rightarrow> string option"
  de_unlink_fragment :: "string \<Rightarrow> 'w \<Rightarrow> bool \<times> 'w"
  de_stat :: "path \<Rightarrow> bool"
  de_chmod :: "path \<Rightarrow> bool"
  de_remove_tree :: "path \<Rightarrow> tree_removal"
  de_unlink :: "path \<Rightarrow> commit"
  de_store :: env

record DeletionJob =
  dj_operation_id :: string
  dj_deployment_id :: string
  dj_runtime_kind :: RuntimeBackendKind
  dj_runtime_object :: string
  dj_config_reference :: string
  dj_declared :: "Resource list"
  dj_expected_revision :: u64

text \<open>The failures of the executor; \<open>uninstall_code\<close> is the code each one carries.\<close>

datatype uninstall_failure =
    NotPrivileged
  | RuntimeFailed backend_error
  | ForeignObject
  | UnsafeLocator
  | NotARealDirectory
  | NotARealFile
  | NotInspected
  | TreeNotPrepared
  | NotDeleted
  | UnknownResourceKind string
  | ConfigNotRemoved
  | StoreRefused failure

datatype uninstall_error_code =
    RUNTIME_START_FAILED | UninstallCode update_code

definition uninstall_code :: "uninstall_failure \<Rightarrow> uninstall_error_code" where
  "uninstall_code f =
     (case f of
        NotPrivileged \<Rightarrow> UninstallCode PRIVILEGE_REQUIRED
      | RuntimeFailed _ \<Rightarrow> RUNTIME_START_FAILED
      | ForeignObject \<Rightarrow> UninstallCode OBJECT_IDENTITY_MISMATCH
      | UnsafeLocator \<Rightarrow> UninstallCode OBJECT_IDENTITY_MISMATCH
      | NotARealDirectory \<Rightarrow> UninstallCode OBJECT_IDENTITY_MISMATCH
      | NotARealFile \<Rightarrow> UninstallCode OBJECT_IDENTITY_MISMATCH
      | UnknownResourceKind _ \<Rightarrow> UninstallCode OBJECT_IDENTITY_MISMATCH
      | NotInspected \<Rightarrow> UninstallCode (StateCode HOST_ERR_OPERATION_INVALID)
      | TreeNotPrepared \<Rightarrow> UninstallCode (StateCode HOST_ERR_OPERATION_INVALID)
      | NotDeleted \<Rightarrow> UninstallCode (StateCode HOST_ERR_OPERATION_INVALID)
      | ConfigNotRemoved \<Rightarrow> UninstallCode (StateCode HOST_ERR_OPERATION_INVALID)
      | StoreRefused failure \<Rightarrow> UninstallCode (StateCode (code failure)))"

section \<open>Removing the runtime object\<close>

definition systemd_inspect_optional ::
  "'w host \<Rightarrow> 'w \<Rightarrow> string \<Rightarrow> backend_error + RuntimeObservation option" where
  "systemd_inspect_optional H w object =
     (case process_reference object of
        Some pid \<Rightarrow> rbind (inspect_process H w pid) (\<lambda>ob. Inr (Some ob))
      | None \<Rightarrow>
          rbind (validate_unit_name object) (\<lambda>_.
          rbind (process_stdout H w
                   [''systemctl'', ''show'', object, ''--no-pager'', inspect_properties]) (\<lambda>out.
          let properties = parse_properties out
          in if map_of properties ''LoadState'' = Some ''not-found'' then Inr None
             else Inr (Some (unit_observation H w object properties)))))"

definition container_inspect_optional ::
  "'w host \<Rightarrow> RuntimeBackendKind \<Rightarrow> 'w \<Rightarrow> string \<Rightarrow> backend_error + RuntimeObservation option" where
  "container_inspect_optional H k w object =
     rbind (inspect_document_optional H w [engine_name k, ''container'', ''inspect'', object])
       (\<lambda>d. case d of
          None \<Rightarrow> Inr None
        | Some d \<Rightarrow> rbind (observation_from_document H w k d) (\<lambda>ob. Inr (Some ob)))"

definition backend_inspect_optional ::
  "'w host \<Rightarrow> RuntimeBackendKind \<Rightarrow> 'w \<Rightarrow> string \<Rightarrow> backend_error + RuntimeObservation option" where
  "backend_inspect_optional H k w object =
     (if k = Host then systemd_inspect_optional H w object
      else container_inspect_optional H k w object)"

definition managed_service_user_comment :: "string \<Rightarrow> string" where
  "managed_service_user_comment service_name = ''nazoauthctl '' @ service_name"

text \<open>The name of the service user, for a unit name \<open>nazoauth-\<close>suffix\<open>.service\<close>.\<close>

definition managed_service_user :: "string \<Rightarrow> string option" where
  "managed_service_user service_name =
     (if \<not> ends_with service_name ''.service'' then None
      else case strip_prefix ''nazoauth-'' (take (length service_name - 8) service_name) of
        None \<Rightarrow> None
      | Some suffix \<Rightarrow> Some (''nazoauth-'' @ take 12 suffix))"

definition passwd_comment :: "string \<Rightarrow> string option" where
  "passwd_comment passwd =
     (let parts = split_on (CHR '':'') (trim_end passwd)
      in if length parts \<le> 4 then None else Some (parts ! 4))"

definition remove_managed_service_user ::
  "'w host \<Rightarrow> string \<Rightarrow> 'w \<Rightarrow> (backend_error + unit) \<times> 'w" where
  "remove_managed_service_user H service_name w =
     (case managed_service_user service_name of
        None \<Rightarrow> (Inl InvalidUnitName, w)
      | Some user \<Rightarrow>
     (case h_text H w [''getent'', ''passwd'', user] of
        TextNotExecuted \<Rightarrow> (Inl CommandFailed, w)
      | TextExited success _ out \<Rightarrow>
          if \<not> success then (Inr (), w)
          else (case out of
              None \<Rightarrow> (Inl CommandNotUtf8, w)
            | Some passwd \<Rightarrow>
                if passwd_comment passwd \<noteq> Some (managed_service_user_comment service_name)
                then (Inl HostPolicyRefused, w)
                else run_quiet H [''userdel'', user] w)))"

text \<open>Two commands and the unlink of the unit file, each only after the one before succeeded.\<close>

definition then_host ::
  "(backend_error + unit) \<times> 'w \<Rightarrow> ('w \<Rightarrow> (backend_error + 'a) \<times> 'w) \<Rightarrow> (backend_error + 'a) \<times> 'w" where
  "then_host m k = (case m of (Inl e, w) \<Rightarrow> (Inl e, w) | (Inr _, w) \<Rightarrow> k w)"

definition remove_unit ::
  "'w host \<Rightarrow> 'w deletion_env \<Rightarrow> string \<Rightarrow> string \<Rightarrow> 'w \<Rightarrow> (backend_error + unit) \<times> 'w" where
  "remove_unit H E object fragment_path w =
     (case de_fragment E w fragment_path of
        None \<Rightarrow> (Inl HostPolicyRefused, w)
      | Some fragment \<Rightarrow>
          if strip_prefix (''# Managed by nazoauthctl'' @ [CHR 0x0A]) fragment = None
          then (Inl HostPolicyRefused, w)
          else then_host (run_quiet H [''systemctl'', ''stop'', object] w) (\<lambda>w.
               then_host (run_quiet H [''systemctl'', ''disable'', object] w) (\<lambda>w.
               case de_unlink_fragment E fragment_path w of
                 (ok, w) \<Rightarrow>
                   if \<not> ok then (Inl CommandFailed, w)
                   else run_quiet H [''systemctl'', ''daemon-reload''] w)))"

definition systemd_remove ::
  "'w host \<Rightarrow> 'w deletion_env \<Rightarrow> string \<Rightarrow> 'w \<Rightarrow> (backend_error + unit) \<times> 'w" where
  "systemd_remove H E object w =
     (case rbind (validate_mutable_unit object) (\<lambda>_.
           process_stdout H w
             [''systemctl'', ''show'', object, ''--no-pager'', ''--property=LoadState,FragmentPath'']) of
        Inl e \<Rightarrow> (Inl e, w)
      | Inr out \<Rightarrow>
          (let properties = parse_properties out
           in if map_of properties ''LoadState'' = Some ''not-found''
              then remove_managed_service_user H object w
              else case map_of properties ''FragmentPath'' of
                None \<Rightarrow> (Inl CommandFailed, w)
              | Some fragment_path \<Rightarrow>
                  then_host (remove_unit H E object fragment_path w)
                    (remove_managed_service_user H object)))"

definition backend_remove ::
  "'w host \<Rightarrow> 'w deletion_env \<Rightarrow> RuntimeBackendKind \<Rightarrow> string \<Rightarrow> 'w \<Rightarrow> (backend_error + unit) \<times> 'w" where
  "backend_remove H E k object w =
     (if k = Host then systemd_remove H E object w
      else run_quiet H [engine_name k, ''rm'', ''--force'', object] w)"

text \<open>Step 1 of the deletion, on the host alone.\<close>

definition remove_runtime_object ::
  "'w host \<Rightarrow> 'w deletion_env \<Rightarrow> DeletionJob \<Rightarrow> 'w \<Rightarrow> (uninstall_failure + unit) \<times> 'w" where
  "remove_runtime_object H E job w =
     (let k = dj_runtime_kind job; object = dj_runtime_object job
      in case backend_inspect_optional H k w object of
        Inl e \<Rightarrow> (Inl (RuntimeFailed e), w)
      | Inr None \<Rightarrow> (Inr (), w)
      | Inr (Some ob) \<Rightarrow>
          if is_container k \<and> map_of (ob_labels ob) DEPLOYMENT_LABEL \<noteq> Some (dj_deployment_id job)
          then (Inl ForeignObject, w)
          else (case then_host (if is_container k then backend_stop H k object w else (Inr (), w))
                       (backend_remove H E k object) of
                  (r, w') \<Rightarrow> (map_err RuntimeFailed r, w')))"

section \<open>Deleting a resource\<close>

definition safe_managed_path :: "string \<Rightarrow> bool" where
  "safe_managed_path locator \<longleftrightarrow>
     take 1 locator = ''/'' \<and> 2 \<le> length (path_components locator)
     \<and> ''..'' \<notin> set (path_components locator)"

definition owned_marker :: "string \<Rightarrow> path" where
  "owned_marker locator = path_components (locator @ ''.nazoauth-owned'')"

definition delete_directory ::
  "'w deletion_env \<Rightarrow> string \<Rightarrow> (path \<rightharpoonup> entry) \<Rightarrow> (uninstall_failure + unit) \<times> (path \<rightharpoonup> entry)" where
  "delete_directory E locator files =
     (let p = path_components locator
      in if \<not> safe_managed_path locator then (Inl UnsafeLocator, files)
         else if \<not> de_stat E p then (Inl NotInspected, files)
         else case files p of
           None \<Rightarrow> (Inr (), files)
         | Some e \<Rightarrow>
             if e \<noteq> DirEntry then (Inl NotARealDirectory, files)
             else if \<not> de_chmod E p then (Inl TreeNotPrepared, files)
             else (case remove_dir_all (de_remove_tree E p) p files of
                     (ok, files') \<Rightarrow> (require ok NotDeleted, files')))"

definition remove_real_file ::
  "'w deletion_env \<Rightarrow> path \<Rightarrow> (path \<rightharpoonup> entry) \<Rightarrow> (uninstall_failure + unit) \<times> (path \<rightharpoonup> entry)" where
  "remove_real_file E p files =
     (case files p of
        None \<Rightarrow> (Inr (), files)
      | Some (FileEntry bytes) \<Rightarrow>
          (case unlink (de_unlink E p) p files of (ok, files') \<Rightarrow> (require ok NotDeleted, files'))
      | Some _ \<Rightarrow> (Inl NotARealFile, files))"

definition delete_file ::
  "'w deletion_env \<Rightarrow> string \<Rightarrow> (path \<rightharpoonup> entry) \<Rightarrow> (uninstall_failure + unit) \<times> (path \<rightharpoonup> entry)" where
  "delete_file E locator files =
     (let p = path_components locator; marker = owned_marker locator
      in if \<not> safe_managed_path locator then (Inl UnsafeLocator, files)
         else if \<not> de_stat E p then (Inl NotInspected, files)
         else case remove_real_file E p files of
           (Inl f, files1) \<Rightarrow> (Inl f, files1)
         | (Inr _, files1) \<Rightarrow>
             (case unlink (de_unlink E marker) marker files1 of
                (ok, files2) \<Rightarrow> (require ok NotDeleted, files2)))"

definition delete_managed_resource ::
  "'w deletion_env \<Rightarrow> string \<Rightarrow> string \<Rightarrow> (path \<rightharpoonup> entry)
   \<Rightarrow> (uninstall_failure + unit) \<times> (path \<rightharpoonup> entry)" where
  "delete_managed_resource E k locator files =
     (if k = ''directory'' then delete_directory E locator files
      else if k = ''file'' then delete_file E locator files
      else (Inl (UnknownResourceKind k), files))"

definition deletable :: "Resource \<Rightarrow> bool" where
  "deletable r \<longleftrightarrow>
     res_ownership r = Managed \<and> res_scope r = DeploymentScoped \<and> res_kind r \<noteq> ''container''"

text \<open>The loop over the resources.\<close>

fun delete_resources ::
  "'w deletion_env \<Rightarrow> Resource list \<Rightarrow> (path \<rightharpoonup> entry) \<Rightarrow> (uninstall_failure + unit) \<times> (path \<rightharpoonup> entry)" where
  "delete_resources E [] files = (Inr (), files)"
| "delete_resources E (r # rs) files =
     (if \<not> deletable r then delete_resources E rs files
      else case delete_managed_resource E (res_kind r) (res_locator r) files of
        (Inl f, files') \<Rightarrow> (Inl f, files')
      | (Inr _, files') \<Rightarrow> delete_resources E rs files')"

text \<open>The loop over the configuration and its marker.\<close>

fun remove_config_files ::
  "'w deletion_env \<Rightarrow> path list \<Rightarrow> (path \<rightharpoonup> entry) \<Rightarrow> (uninstall_failure + unit) \<times> (path \<rightharpoonup> entry)" where
  "remove_config_files E [] files = (Inr (), files)"
| "remove_config_files E (p # ps) files =
     (case unlink (de_unlink E p) p files of
        (False, files') \<Rightarrow> (Inl ConfigNotRemoved, files')
      | (True, files') \<Rightarrow> remove_config_files E ps files')"

definition config_files :: "DeletionJob \<Rightarrow> path list" where
  "config_files job =
     [path_components (dj_config_reference job), owned_marker (dj_config_reference job)]"

section \<open>The whole deletion\<close>

definition execute_deletion ::
  "'w host \<Rightarrow> externals \<Rightarrow> (state_file \<Rightarrow> string) \<Rightarrow> 'w deletion_env \<Rightarrow> DeletionJob
   \<Rightarrow> 'w uninstall_world \<Rightarrow> (uninstall_failure + unit) \<times> 'w uninstall_world" where
  "execute_deletion H X sha E job w =
     (if \<not> de_privileged E then (Inl NotPrivileged, w)
      else case remove_runtime_object H E job (un_host w) of
        (Inl f, h) \<Rightarrow> (Inl f, w\<lparr>un_host := h\<rparr>)
      | (Inr _, h) \<Rightarrow>
     (case delete_resources E (dj_declared job) (un_files w) of
        (Inl f, files) \<Rightarrow> (Inl f, w\<lparr>un_host := h, un_files := files\<rparr>)
      | (Inr _, files) \<Rightarrow>
     (case remove_config_files E (config_files job) files of
        (Inl f, files') \<Rightarrow> (Inl f, w\<lparr>un_host := h, un_files := files'\<rparr>)
      | (Inr _, files') \<Rightarrow>
     (case remove_deployment X sha (de_store E) (dj_deployment_id job) (dj_expected_revision job)
             (dj_operation_id job) (un_store w) of
        (r, D) \<Rightarrow>
          (map_err StoreRefused r, \<lparr>un_host = h, un_files = files', un_store = D\<rparr>)))))"

definition deletion_job :: "lifecycle_order \<Rightarrow> DeploymentState \<Rightarrow> DeletionJob" where
  "deletion_job ord state =
     \<lparr>dj_operation_id = lo_operation_id ord,
      dj_deployment_id = lo_deployment_id ord,
      dj_runtime_kind = rt_kind (ds_runtime state),
      dj_runtime_object = rt_object (ds_runtime state),
      dj_config_reference = cfg_reference (ds_config state),
      dj_declared = ds_resources state,
      dj_expected_revision = lo_expected_revision ord\<rparr>"

text \<open>The answer is the revision of the completion.\<close>

definition answer_uninstall ::
  "'w host \<Rightarrow> externals \<Rightarrow> (state_file \<Rightarrow> string) \<Rightarrow> 'w deletion_env \<Rightarrow> lifecycle_order
   \<Rightarrow> 'w uninstall_world \<Rightarrow> (uninstall_failure + u64) \<times> 'w uninstall_world" where
  "answer_uninstall H X sha E ord w =
     attempt (map_err StoreRefused (load_existing X (un_store w) (lo_deployment_id ord))) w (\<lambda>state.
       if cfg_revision (ds_config state) \<noteq> lo_expected_revision ord
       then (Inl (StoreRefused (stale (lo_expected_revision ord) state)), w)
       else case execute_deletion H X sha E (deletion_job ord state) w of
         (r, w') \<Rightarrow> (rbind r (\<lambda>_. Inr (cfg_revision (ds_config state))), w'))"

text \<open>
  What the journal runs for an uninstall operation: an earlier removal that was recorded is
  completed first, and the order is executed only where there is none.
\<close>

definition run_uninstall ::
  "'w host \<Rightarrow> externals \<Rightarrow> (state_file \<Rightarrow> string) \<Rightarrow> 'w deletion_env \<Rightarrow> lifecycle_order
   \<Rightarrow> 'w uninstall_world \<Rightarrow> (uninstall_failure + u64) \<times> 'w uninstall_world" where
  "run_uninstall H X sha E ord w =
     (case converge_uninstall_completion sha (de_store E) (lo_deployment_id ord)
             (lo_expected_revision ord) (lo_operation_id ord) (un_store w) of
        (Inl f, D) \<Rightarrow> (Inl (StoreRefused f), w\<lparr>un_store := D\<rparr>)
      | (Inr True, D) \<Rightarrow> (Inr (lo_expected_revision ord), w\<lparr>un_store := D\<rparr>)
      | (Inr False, D) \<Rightarrow> answer_uninstall H X sha E ord (w\<lparr>un_store := D\<rparr>))"

end
