(* ===== verification/UninstallProofs.thy ===== *)
theory UninstallProofs
  imports UninstallExec StateProperties
begin

text \<open>
  What the uninstall executor may remove, what it must have removed when it reports success, and
  that a repetition finishes what an interrupted attempt began.
\<close>

section \<open>The paths of a job\<close>

definition resource_path :: "Resource \<Rightarrow> path \<Rightarrow> bool" where
  "resource_path r p \<longleftrightarrow>
     deletable r \<and> safe_managed_path (res_locator r)
     \<and> (res_kind r = ''directory'' \<and> below (path_components (res_locator r)) p
        \<or> res_kind r = ''file''
          \<and> (p = path_components (res_locator r) \<or> p = owned_marker (res_locator r)))"

definition job_path :: "DeletionJob \<Rightarrow> path \<Rightarrow> bool" where
  "job_path job p \<longleftrightarrow>
     p \<in> set (config_files job) \<or> list_ex (\<lambda>r. resource_path r p) (dj_declared job)"

definition nothing_left :: "DeletionJob \<Rightarrow> 'w uninstall_world \<Rightarrow> bool" where
  "nothing_left job w \<longleftrightarrow>
     st_states (un_store w) (dj_deployment_id job) = None
     \<and> (\<forall>p. job_path job p \<longrightarrow> un_files w p = None)"

lemma below_refl [simp]: "below p p"
  by (simp add: below_def)

lemma below_iff: "below p q \<longleftrightarrow> (\<exists>zs. q = p @ zs)"
proof
  assume "below p q"
  then have "q = p @ drop (length p) q" by (metis below_def append_take_drop_id)
  then show "\<exists>zs. q = p @ zs" by (rule exI)
qed (auto simp: below_def)

lemma below_trans: "below p q \<Longrightarrow> below q r \<Longrightarrow> below p r"
  by (auto simp: below_iff)

section \<open>Steps that only remove\<close>

definition only_removes :: "(path \<Rightarrow> bool) \<Rightarrow> (path \<rightharpoonup> entry) \<Rightarrow> (path \<rightharpoonup> entry) \<Rightarrow> bool" where
  "only_removes S files files' \<longleftrightarrow> (\<forall>p. files' p = files p \<or> S p \<and> files' p = None)"

lemma only_removes_refl [simp]: "only_removes S files files"
  by (simp add: only_removes_def)

lemma only_removes_trans:
  "only_removes S a b \<Longrightarrow> only_removes S b c \<Longrightarrow> only_removes S a c"
  by (simp add: only_removes_def) metis

lemma only_removes_mono: "only_removes S a b \<Longrightarrow> (\<And>p. S p \<Longrightarrow> T p) \<Longrightarrow> only_removes T a b"
  by (auto simp: only_removes_def)

lemma only_removes_None: "only_removes S a b \<Longrightarrow> a p = None \<Longrightarrow> b p = None"
  by (auto simp: only_removes_def dest: spec [where x = p])

lemma only_removes_cases: "only_removes S a b \<Longrightarrow> b p = a p \<or> b p = None"
  by (auto simp: only_removes_def)

lemma unlink_removes: "only_removes (\<lambda>q. q = p) files (snd (unlink out p files))"
  using files.del_cases [of out p files]
  by (auto simp: unlink_def only_removes_def split: if_splits)

lemma unlink_ok: "unlink out p files = (True, files') \<Longrightarrow> files' p = None"
  by (auto simp: unlink_def split: if_splits dest: files.del_ok)

lemma unlink_committed: "files p \<noteq> Some DirEntry \<Longrightarrow> fst (unlink Committed p files)"
  by (simp add: unlink_def remove_file_durable_def)

lemma remove_dir_all_removes: "only_removes (below root) files (snd (remove_dir_all out root files))"
  by (cases out) (auto simp: remove_dir_all_def only_removes_def)

lemma delete_directory_removes:
  "only_removes (below (path_components locator)) files (snd (delete_directory E locator files))"
proof -
  let ?p = "path_components locator"
  obtain ok files' where 1: "remove_dir_all (de_remove_tree E ?p) ?p files = (ok, files')"
    by (rule prod.exhaust)
  have "only_removes (below ?p) files files'"
    using remove_dir_all_removes [of ?p files "de_remove_tree E ?p"] by (simp add: 1)
  then show ?thesis by (simp add: delete_directory_def Let_def 1 split: option.split)
qed

lemma remove_real_file_removes: "only_removes (\<lambda>q. q = p) files (snd (remove_real_file E p files))"
  using unlink_removes [of p files "de_unlink E p"]
  by (auto simp: remove_real_file_def split: option.split entry.split prod.split)

lemma delete_file_removes:
  "only_removes (\<lambda>p. p = path_components locator \<or> p = owned_marker locator) files
     (snd (delete_file E locator files))"
proof -
  let ?S = "\<lambda>p. p = path_components locator \<or> p = owned_marker locator"
  obtain r files1 where 1: "remove_real_file E (path_components locator) files = (r, files1)"
    by (rule prod.exhaust)
  obtain ok files2 where 2: "unlink (de_unlink E (owned_marker locator)) (owned_marker locator) files1 = (ok, files2)"
    by (rule prod.exhaust)
  have a: "only_removes ?S files files1"
    using remove_real_file_removes [of "path_components locator" files E]
    by (auto simp: 1 elim: only_removes_mono)
  have b: "only_removes ?S files1 files2"
    using unlink_removes [of "owned_marker locator" files1 "de_unlink E (owned_marker locator)"]
    by (auto simp: 2 elim: only_removes_mono)
  show ?thesis
    using a only_removes_trans [OF a b] by (cases r) (simp_all add: delete_file_def Let_def 1 2)
qed

lemma delete_unsafe:
  "\<not> safe_managed_path locator \<Longrightarrow> snd (delete_managed_resource E k locator files) = files"
  by (simp add: delete_managed_resource_def delete_directory_def delete_file_def)

lemma delete_managed_resource_removes:
  assumes "deletable r"
  shows "only_removes (resource_path r) files
    (snd (delete_managed_resource E (res_kind r) (res_locator r) files))"
proof (cases "safe_managed_path (res_locator r)")
  case True
  then show ?thesis
    using delete_directory_removes [of "res_locator r" files E]
      delete_file_removes [of "res_locator r" files E] assms
    by (auto simp: delete_managed_resource_def resource_path_def elim: only_removes_mono)
qed (simp add: delete_unsafe)

lemma delete_resources_removes:
  "only_removes (\<lambda>p. list_ex (\<lambda>r. resource_path r p) rs) files (snd (delete_resources E rs files))"
proof (induction rs arbitrary: files)
  case (Cons r rs)
  let ?S = "\<lambda>p. list_ex (\<lambda>r. resource_path r p) (r # rs)"
  show ?case
  proof (cases "deletable r")
    case True
    obtain x files1 where 1: "delete_managed_resource E (res_kind r) (res_locator r) files = (x, files1)"
      by (rule prod.exhaust)
    have a: "only_removes ?S files files1"
      using delete_managed_resource_removes [OF True, of files E]
      by (auto simp: 1 elim: only_removes_mono)
    have b: "only_removes ?S files1 (snd (delete_resources E rs files1))"
      using Cons [of files1] by (auto elim: only_removes_mono)
    show ?thesis using True a only_removes_trans [OF a b] by (cases x) (simp_all add: 1)
  next
    case False
    then show ?thesis using Cons [of files] by (auto elim: only_removes_mono)
  qed
qed simp

lemma remove_config_files_removes:
  "only_removes (\<lambda>p. p \<in> set ps) files (snd (remove_config_files E ps files))"
proof (induction ps arbitrary: files)
  case (Cons p ps)
  let ?S = "\<lambda>q. q \<in> set (p # ps)"
  obtain ok files1 where 1: "unlink (de_unlink E p) p files = (ok, files1)" by (rule prod.exhaust)
  have a: "only_removes ?S files files1"
    using unlink_removes [of p files "de_unlink E p"] by (auto simp: 1 elim: only_removes_mono)
  have b: "only_removes ?S files1 (snd (remove_config_files E ps files1))"
    using Cons [of files1] by (auto elim: only_removes_mono)
  show ?case using a only_removes_trans [OF a b] by (cases ok) (simp_all add: 1)
qed simp

section \<open>The parts of an execution\<close>

text \<open>An execution ends at one of its four steps.\<close>

lemma execute_deletion_cases:
  assumes exec: "execute_deletion H X sha E job w = (r, w')"
  obtains (refused) "r = Inl NotPrivileged" "w' = w"
  | (object) f h where "remove_runtime_object H E job (un_host w) = (Inl f, h)" "r = Inl f"
      "w' = w\<lparr>un_host := h\<rparr>"
  | (resources) u f h fs where "remove_runtime_object H E job (un_host w) = (Inr u, h)"
      "delete_resources E (dj_declared job) (un_files w) = (Inl f, fs)" "r = Inl f"
      "w' = w\<lparr>un_host := h, un_files := fs\<rparr>"
  | (config) u v f h fs fs' where "remove_runtime_object H E job (un_host w) = (Inr u, h)"
      "delete_resources E (dj_declared job) (un_files w) = (Inr v, fs)"
      "remove_config_files E (config_files job) fs = (Inl f, fs')" "r = Inl f"
      "w' = w\<lparr>un_host := h, un_files := fs'\<rparr>"
  | (state) u v x s h fs fs' D where "remove_runtime_object H E job (un_host w) = (Inr u, h)"
      "delete_resources E (dj_declared job) (un_files w) = (Inr v, fs)"
      "remove_config_files E (config_files job) fs = (Inr x, fs')"
      "remove_deployment X sha (de_store E) (dj_deployment_id job) (dj_expected_revision job)
         (dj_operation_id job) (un_store w) = (s, D)"
      "r = map_err StoreRefused s" "w' = \<lparr>un_host = h, un_files = fs', un_store = D\<rparr>"
proof (cases "de_privileged E")
  case False
  then show thesis using exec refused by (simp add: execute_deletion_def)
next
  case True
  obtain a h where 1: "remove_runtime_object H E job (un_host w) = (a, h)" by (rule prod.exhaust)
  obtain b fs where 2: "delete_resources E (dj_declared job) (un_files w) = (b, fs)" by (rule prod.exhaust)
  obtain c fs' where 3: "remove_config_files E (config_files job) fs = (c, fs')" by (rule prod.exhaust)
  obtain s D where 4: "remove_deployment X sha (de_store E) (dj_deployment_id job)
      (dj_expected_revision job) (dj_operation_id job) (un_store w) = (s, D)" by (rule prod.exhaust)
  show thesis
  proof (cases a)
    case (Inl f)
    then have "(r, w') = (Inl f, w\<lparr>un_host := h\<rparr>)"
      using exec [symmetric] by (simp add: execute_deletion_def 1 True)
    then show thesis using object [OF 1 [unfolded Inl]] by simp
  next
    case a: (Inr u)
    show thesis
    proof (cases b)
      case (Inl f)
      then have "(r, w') = (Inl f, w\<lparr>un_host := h, un_files := fs\<rparr>)"
        using exec [symmetric] a by (simp add: execute_deletion_def 1 2 True)
      then show thesis using resources [OF 1 [unfolded a] 2 [unfolded Inl]] by simp
    next
      case b: (Inr v)
      show thesis
      proof (cases c)
        case (Inl f)
        then have "(r, w') = (Inl f, w\<lparr>un_host := h, un_files := fs'\<rparr>)"
          using exec [symmetric] a b by (simp add: execute_deletion_def 1 2 3 True)
        then show thesis using config [OF 1 [unfolded a] 2 [unfolded b] 3 [unfolded Inl]] by simp
      next
        case (Inr x)
        then have "(r, w') = (map_err StoreRefused s, \<lparr>un_host = h, un_files = fs', un_store = D\<rparr>)"
          using exec [symmetric] a b by (simp add: execute_deletion_def 1 2 3 4 True)
        then show thesis
          using state [OF 1 [unfolded a] 2 [unfolded b] 3 [unfolded Inr] 4] by simp
      qed
    qed
  qed
qed

lemma execute_deletion_removes:
  assumes exec: "execute_deletion H X sha E job w = (r, w')"
  shows "only_removes (job_path job) (un_files w) (un_files w')"
proof -
  have res: "only_removes (job_path job) (un_files w) fs"
    if "delete_resources E (dj_declared job) (un_files w) = (x, fs)" for x fs
    using delete_resources_removes [of "dj_declared job" "un_files w" E] that
    by (auto simp: job_path_def elim: only_removes_mono)
  have cfg: "only_removes (job_path job) fs fs'"
    if "remove_config_files E (config_files job) fs = (x, fs')" for x fs fs'
    using remove_config_files_removes [of "config_files job" fs E] that
    by (auto simp: job_path_def elim: only_removes_mono)
  from exec show ?thesis
    by (cases rule: execute_deletion_cases)
       (auto intro: res only_removes_trans [OF res cfg])
qed

text \<open>The state documents change only in the last step, after everything else is done.\<close>

lemma execute_deletion_store:
  assumes exec: "execute_deletion H X sha E job w = (r, w')"
    and "un_store w' \<noteq> un_store w"
  shows "\<exists>v fs x. delete_resources E (dj_declared job) (un_files w) = (Inr v, fs)
    \<and> remove_config_files E (config_files job) fs = (Inr x, un_files w')
    \<and> un_store w' = snd (remove_deployment X sha (de_store E) (dj_deployment_id job)
         (dj_expected_revision job) (dj_operation_id job) (un_store w))"
  using assms by (cases rule: execute_deletion_cases) auto

section \<open>Trees\<close>

text \<open>Above every entry there are directories only.\<close>

definition tree :: "(path \<rightharpoonup> entry) \<Rightarrow> bool" where
  "tree files \<longleftrightarrow> (\<forall>p q. below p q \<longrightarrow> p \<noteq> q \<longrightarrow> files q \<noteq> None \<longrightarrow> files p = Some DirEntry)"

text \<open>A recursive removal that stops has removed the contents of a directory before it.\<close>

definition children_first :: "(path \<Rightarrow> bool) \<Rightarrow> bool" where
  "children_first gone \<longleftrightarrow> (\<forall>p q. below p q \<longrightarrow> gone p \<longrightarrow> gone q)"

definition orderly :: "'w deletion_env \<Rightarrow> bool" where
  "orderly E \<longleftrightarrow> (\<forall>p gone. de_remove_tree E p = TreeStopped gone \<longrightarrow> children_first gone)"

lemma tree_leaf: "tree files \<Longrightarrow> files p \<noteq> Some DirEntry \<Longrightarrow> below p q \<Longrightarrow> q \<noteq> p \<Longrightarrow> files q = None"
  unfolding tree_def by blast

lemma tree_without:
  assumes "tree files" and removed: "\<And>p. files' p = files p \<or> files' p = None"
    and closed: "\<And>p q. files p = Some DirEntry \<Longrightarrow> files' p = None \<Longrightarrow> below p q \<Longrightarrow> files' q = None"
  shows "tree files'"
  unfolding tree_def
proof (intro allI impI)
  fix p q assume pq: "below p q" "p \<noteq> q" "files' q \<noteq> None"
  then have "files q \<noteq> None" using removed [of q] by auto
  then have dir: "files p = Some DirEntry" using assms(1) pq unfolding tree_def by blast
  then have "files' p \<noteq> None" using closed [OF dir _ pq(1)] pq(3) by blast
  then show "files' p = Some DirEntry" using removed [of p] dir by auto
qed

lemma unlink_tree: "tree files \<Longrightarrow> tree (snd (unlink out p files))"
proof (rule tree_without, assumption)
  fix q
  show "snd (unlink out p files) q = files q \<or> snd (unlink out p files) q = None"
    by (rule only_removes_cases [OF unlink_removes])
next
  fix q q' assume "files q = Some DirEntry" "snd (unlink out p files) q = None"
  then have False using unlink_removes [of p files out] unfolding only_removes_def
    by (auto simp: unlink_def dest: spec [where x = q])
  then show "snd (unlink out p files) q' = None" ..
qed

lemma remove_dir_all_tree:
  assumes "tree files" "\<And>gone. out = TreeStopped gone \<Longrightarrow> children_first gone"
  shows "tree (snd (remove_dir_all out root files))"
proof (rule tree_without [OF assms(1)])
  fix p show "snd (remove_dir_all out root files) p = files p \<or> snd (remove_dir_all out root files) p = None"
    by (rule only_removes_cases [OF remove_dir_all_removes])
next
  fix p q assume "files p = Some DirEntry" "snd (remove_dir_all out root files) p = None" "below p q"
  then show "snd (remove_dir_all out root files) q = None"
    using assms(2) by (auto simp: remove_dir_all_def children_first_def intro: below_trans
        split: tree_removal.splits if_splits)
qed

lemma delete_directory_tree:
  assumes "tree files" "orderly E" shows "tree (snd (delete_directory E locator files))"
proof -
  let ?p = "path_components locator"
  obtain ok files' where 1: "remove_dir_all (de_remove_tree E ?p) ?p files = (ok, files')"
    by (rule prod.exhaust)
  have "tree files'"
    using remove_dir_all_tree [OF assms(1), of "de_remove_tree E ?p" ?p] assms(2) by (simp add: 1 orderly_def)
  then show ?thesis using assms(1) by (simp add: delete_directory_def Let_def 1 split: option.split)
qed

lemma remove_real_file_tree:
  assumes "tree files" shows "tree (snd (remove_real_file E p files))"
proof -
  obtain ok files' where 1: "unlink (de_unlink E p) p files = (ok, files')" by (rule prod.exhaust)
  have "tree files'" using unlink_tree [OF assms, of "de_unlink E p" p] by (simp add: 1)
  then show ?thesis using assms by (simp add: remove_real_file_def 1 split: option.split entry.split)
qed

lemma delete_file_tree:
  assumes "tree files" shows "tree (snd (delete_file E locator files))"
proof -
  obtain r files1 where 1: "remove_real_file E (path_components locator) files = (r, files1)"
    by (rule prod.exhaust)
  obtain ok files2 where 2: "unlink (de_unlink E (owned_marker locator)) (owned_marker locator) files1 = (ok, files2)"
    by (rule prod.exhaust)
  have a: "tree files1" using remove_real_file_tree [OF assms, of E "path_components locator"] by (simp add: 1)
  have "tree files2" using unlink_tree [OF a, of "de_unlink E (owned_marker locator)" "owned_marker locator"]
    by (simp add: 2)
  then show ?thesis using assms a by (cases r) (simp_all add: delete_file_def Let_def 1 2)
qed

lemma delete_managed_resource_tree:
  "tree files \<Longrightarrow> orderly E \<Longrightarrow> tree (snd (delete_managed_resource E k locator files))"
  by (simp add: delete_managed_resource_def delete_directory_tree delete_file_tree)

lemma delete_resources_tree:
  "tree files \<Longrightarrow> orderly E \<Longrightarrow> tree (snd (delete_resources E rs files))"
proof (induction rs arbitrary: files)
  case (Cons r rs)
  obtain x files1 where 1: "delete_managed_resource E (res_kind r) (res_locator r) files = (x, files1)"
    by (rule prod.exhaust)
  have "tree files1"
    using delete_managed_resource_tree [OF Cons.prems, of "res_kind r" "res_locator r"] by (simp add: 1)
  then show ?case using Cons by (cases x) (simp_all add: 1)
qed simp

lemma remove_config_files_tree: "tree files \<Longrightarrow> tree (snd (remove_config_files E ps files))"
proof (induction ps arbitrary: files)
  case (Cons p ps)
  obtain ok files1 where 1: "unlink (de_unlink E p) p files = (ok, files1)" by (rule prod.exhaust)
  have "tree files1" using unlink_tree [OF Cons.prems, of "de_unlink E p" p] by (simp add: 1)
  then show ?case using Cons by (cases ok) (simp_all add: 1)
qed simp

lemma execute_deletion_tree:
  assumes exec: "execute_deletion H X sha E job w = (r, w')" and t: "tree (un_files w)" "orderly E"
  shows "tree (un_files w')"
proof -
  have res: "tree fs" if "delete_resources E (dj_declared job) (un_files w) = (x, fs)" for x fs
    using delete_resources_tree [OF t, of "dj_declared job"] that by simp
  have cfg: "tree fs'" if "tree fs" "remove_config_files E (config_files job) fs = (x, fs')" for x fs fs'
    using remove_config_files_tree [OF that(1), of E "config_files job"] that(2) by simp
  from exec show ?thesis
    by (cases rule: execute_deletion_cases) (auto intro: t res cfg [OF res])
qed

section \<open>What success means\<close>

lemma delete_directory_ok:
  assumes "tree files" "delete_directory E locator files = (Inr u, files')"
    and "below (path_components locator) p"
  shows "files' p = None"
proof (cases "files (path_components locator)")
  case None
  then have "files' = files" using assms(2) by (auto simp: delete_directory_def Let_def split: if_splits)
  then show ?thesis using tree_leaf [OF assms(1) _ assms(3)] None by auto
next
  case (Some e)
  then show ?thesis using assms(2,3)
    by (auto simp: delete_directory_def Let_def remove_dir_all_def require_Inr_iff
        split: if_splits prod.splits tree_removal.splits)
qed

lemma remove_real_file_ok:
  "remove_real_file E p files = (Inr u, files') \<Longrightarrow> files' p = None"
  by (auto simp: remove_real_file_def require_Inr_iff dest: unlink_ok
      split: option.splits entry.splits prod.splits)

lemma delete_file_ok:
  assumes "delete_file E locator files = (Inr u, files')"
  shows "files' (path_components locator) = None \<and> files' (owned_marker locator) = None"
proof -
  obtain r files1 where 1: "remove_real_file E (path_components locator) files = (r, files1)"
    by (rule prod.exhaust)
  obtain ok files2 where 2: "unlink (de_unlink E (owned_marker locator)) (owned_marker locator) files1 = (ok, files2)"
    by (rule prod.exhaust)
  have ok: "ok" "files' = files2" and r: "\<exists>v. r = Inr v"
    using assms by (auto simp: delete_file_def Let_def 1 2 require_Inr_iff split: if_splits sum.splits)
  have "files1 (path_components locator) = None" using r 1 by (auto intro: remove_real_file_ok)
  then have "files2 (path_components locator) = None"
    using only_removes_None [OF unlink_removes] 2 by (metis snd_conv)
  then show ?thesis using unlink_ok 2 ok by simp
qed

lemma delete_managed_resource_ok:
  assumes "tree files" "delete_managed_resource E (res_kind r) (res_locator r) files = (Inr u, files')"
    and "resource_path r p"
  shows "files' p = None"
  using assms delete_directory_ok [of files E "res_locator r" u files' p]
    delete_file_ok [of E "res_locator r" files u files']
  by (auto simp: delete_managed_resource_def resource_path_def split: if_splits)

lemma delete_resources_ok:
  assumes "tree files" "orderly E" "delete_resources E rs files = (Inr u, files')"
    and "list_ex (\<lambda>r. resource_path r p) rs"
  shows "files' p = None"
  using assms
proof (induction rs arbitrary: files)
  case (Cons r rs)
  show ?case
  proof (cases "deletable r")
    case True
    obtain x files1 where 1: "delete_managed_resource E (res_kind r) (res_locator r) files = (x, files1)"
      by (rule prod.exhaust)
    obtain v where x: "x = Inr v" and rest: "delete_resources E rs files1 = (Inr u, files')"
      using Cons.prems(3) True by (cases x) (simp_all add: 1)
    have t: "tree files1"
      using delete_managed_resource_tree [OF Cons.prems(1,2), of "res_kind r" "res_locator r"] by (simp add: 1)
    show ?thesis
    proof (cases "resource_path r p")
      case True
      then have "files1 p = None" using delete_managed_resource_ok [OF Cons.prems(1) 1 [unfolded x]] by simp
      then show ?thesis using only_removes_None [OF delete_resources_removes, of files1 p E rs] rest by simp
    next
      case False
      then show ?thesis using Cons.IH [OF t Cons.prems(2) rest] Cons.prems(4) by simp
    qed
  next
    case False
    then have "\<not> resource_path r p" by (simp add: resource_path_def)
    then show ?thesis using Cons False by simp
  qed
qed simp

lemma remove_config_files_ok:
  "remove_config_files E ps files = (Inr u, files') \<Longrightarrow> p \<in> set ps \<Longrightarrow> files' p = None"
proof (induction ps arbitrary: files)
  case (Cons q ps)
  obtain ok files1 where 1: "unlink (de_unlink E q) q files = (ok, files1)" by (rule prod.exhaust)
  have ok: "ok" and rest: "remove_config_files E ps files1 = (Inr u, files')"
    using Cons.prems(1) by (cases ok; simp add: 1)+
  show ?case
  proof (cases "p = q")
    case True
    then have "files1 p = None" using unlink_ok 1 ok by simp
    then show ?thesis using only_removes_None [OF remove_config_files_removes, of files1 p E ps] rest by simp
  next
    case False
    then show ?thesis using Cons.IH [OF rest] Cons.prems(2) by simp
  qed
qed simp

lemma files_gone:
  assumes "tree files" "orderly E" "delete_resources E (dj_declared job) files = (Inr u, fs)"
    and "remove_config_files E (config_files job) fs = (Inr v, fs')" and "job_path job p"
  shows "fs' p = None"
  using assms(5) delete_resources_ok [OF assms(1-3), of p] remove_config_files_ok [OF assms(4), of p]
    only_removes_None [OF remove_config_files_removes, of fs p E "config_files job"] assms(4)
  by (auto simp: job_path_def)

lemma remove_state_file_ok:
  "remove_state_file out d D = (Inr u, D') \<Longrightarrow> st_states D' d = None"
  by (auto simp: remove_state_file_def remove_file_durable_def require_Inr_iff
      split: commit.splits if_splits)

lemma remove_deployment_removes:
  assumes "remove_deployment X sha E d e op D = (Inr u, D')"
  shows "st_states D' d = None"
proof (cases rule: remove_deployment_cases [of X sha E d e op D])
  case unchanged
  then have "D' = D" using assms by simp
  then show ?thesis using assms remove_state_file_ok
    by (auto simp: remove_deployment_def deployment_scope_ok
        split: sum.splits option.splits if_splits prod.splits)
next
  case (proved f s D1)
  then show ?thesis using assms remove_state_file_ok by (auto split: sum.splits)
qed

lemma execute_deletion_ok:
  assumes exec: "execute_deletion H X sha E job w = (Inr u, w')" and t: "tree (un_files w)" "orderly E"
  shows "nothing_left job w'"
  using exec
proof (cases rule: execute_deletion_cases)
  case (state x y z s h fs fs' D)
  have "st_states D (dj_deployment_id job) = None"
    using state(4,5) by (cases s) (auto dest: remove_deployment_removes)
  then show ?thesis using files_gone [OF t state(2,3)] by (simp add: nothing_left_def state(6))
qed auto

section \<open>A repetition finishes\<close>

text \<open>A target on which every step of the deletion succeeds.\<close>

definition ready :: "'w deletion_env \<Rightarrow> string \<Rightarrow> bool" where
  "ready E d \<longleftrightarrow>
     de_privileged E
     \<and> (\<forall>p. de_stat E p \<and> de_chmod E p \<and> de_remove_tree E p = TreeRemoved \<and> de_unlink E p = Committed)
     \<and> rbind (lock_path d) (acquire_state_lock (env_held (de_store E))) = Inr ()
     \<and> env_hash_readable (de_store E)
     \<and> env_commit (de_store E) = Committed \<and> env_commit_2 (de_store E) = Committed"

text \<open>The entries of a job are what its resources say they are, or absent.\<close>

definition sound_resource :: "(path \<rightharpoonup> entry) \<Rightarrow> Resource \<Rightarrow> bool" where
  "sound_resource files r \<longleftrightarrow>
     (deletable r \<longrightarrow>
        safe_managed_path (res_locator r)
        \<and> (res_kind r = ''directory'' \<and> files (path_components (res_locator r)) \<in> {None, Some DirEntry}
           \<or> res_kind r = ''file'' \<and> files (path_components (res_locator r)) \<in> {None} \<union> Some ` range FileEntry
             \<and> files (owned_marker (res_locator r)) \<noteq> Some DirEntry))"

definition sound_files :: "DeletionJob \<Rightarrow> (path \<rightharpoonup> entry) \<Rightarrow> bool" where
  "sound_files job files \<longleftrightarrow>
     (\<forall>r \<in> set (dj_declared job). sound_resource files r)
     \<and> (\<forall>p \<in> set (config_files job). files p \<noteq> Some DirEntry)"

lemma sound_resource_persists: "only_removes S a b \<Longrightarrow> sound_resource a r \<Longrightarrow> sound_resource b r"
  using only_removes_cases [of S a b "path_components (res_locator r)"]
    only_removes_cases [of S a b "owned_marker (res_locator r)"]
  by (auto simp: sound_resource_def)

lemma sound_files_persist: "only_removes S a b \<Longrightarrow> sound_files job a \<Longrightarrow> sound_files job b"
  using only_removes_cases [of S a b] sound_resource_persists [of S a b]
  unfolding sound_files_def by (metis option.distinct(1))

lemma delete_managed_resource_ready:
  assumes e: "ready E d" and s: "sound_resource files r" "deletable r"
  shows "\<exists>u. fst (delete_managed_resource E (res_kind r) (res_locator r) files) = Inr u"
proof (cases "res_kind r = ''directory''")
  case True
  then show ?thesis using e s
    by (auto simp: delete_managed_resource_def delete_directory_def Let_def ready_def sound_resource_def
        remove_dir_all_def require_def)
next
  case False
  let ?p = "path_components (res_locator r)" and ?m = "owned_marker (res_locator r)"
  have facts: "res_kind r = ''file''" "safe_managed_path (res_locator r)" "files ?m \<noteq> Some DirEntry"
    "files ?p = None \<or> (\<exists>b. files ?p = Some (FileEntry b))"
    using s False by (auto simp: sound_resource_def)
  obtain x files1 where 1: "remove_real_file E ?p files = (x, files1)" by (rule prod.exhaust)
  have x: "\<exists>u. x = Inr u"
    using 1 facts(4) e by (auto simp: remove_real_file_def ready_def unlink_def remove_file_durable_def require_def)
  have "files1 ?m \<noteq> Some DirEntry"
    using only_removes_cases [OF remove_real_file_removes, of E ?p files ?m] facts(3) by (auto simp: 1)
  then have "fst (unlink Committed ?m files1)" by (rule unlink_committed)
  then have "\<exists>u. fst (delete_file E (res_locator r) files) = Inr u"
    using x facts(2) e by (auto simp: delete_file_def Let_def 1 ready_def require_def split: prod.split)
  then show ?thesis using facts(1) by (simp add: delete_managed_resource_def)
qed

lemma delete_resources_ready:
  assumes "ready E d" "\<forall>r \<in> set rs. sound_resource files r"
  shows "\<exists>u. fst (delete_resources E rs files) = Inr u"
  using assms(2)
proof (induction rs arbitrary: files)
  case (Cons r rs)
  show ?case
  proof (cases "deletable r")
    case True
    obtain x files1 where 1: "delete_managed_resource E (res_kind r) (res_locator r) files = (x, files1)"
      by (rule prod.exhaust)
    obtain u where x: "x = Inr u"
      using delete_managed_resource_ready [OF assms(1), of files r] Cons.prems True by (auto simp: 1)
    have "only_removes (resource_path r) files files1"
      using delete_managed_resource_removes [OF True, of files E] by (simp add: 1)
    then have "\<forall>r \<in> set rs. sound_resource files1 r"
      using Cons.prems sound_resource_persists by auto
    then show ?thesis using Cons.IH [of files1] True by (simp add: 1 x)
  qed (use Cons in simp)
qed simp

lemma remove_config_files_ready:
  assumes "ready E d" "\<forall>p \<in> set ps. files p \<noteq> Some DirEntry"
  shows "\<exists>u. fst (remove_config_files E ps files) = Inr u"
  using assms(2)
proof (induction ps arbitrary: files)
  case (Cons p ps)
  obtain ok files1 where 1: "unlink (de_unlink E p) p files = (ok, files1)" by (rule prod.exhaust)
  have ok: ok using unlink_committed [of files p] Cons.prems assms(1) 1 by (simp add: ready_def)
  have "\<forall>q \<in> set ps. files1 q \<noteq> Some DirEntry"
    using only_removes_cases [OF unlink_removes, of "de_unlink E p" p files] Cons.prems 1
    by (metis list.set_intros(2) option.distinct(1) snd_conv)
  then show ?case using Cons.IH [of files1] ok by (simp add: 1)
qed simp

lemma remove_deployment_ready:
  assumes "ready E d" and load: "load_existing X D d = Inr st" and rev: "cfg_revision (ds_config st) = e"
  shows "\<exists>u. fst (remove_deployment X sha (de_store E) d e op D) = Inr u"
proof -
  have scope: "deployment_scope d = Inr d"
    using load by (auto simp: load_existing_def rbind_Inr_iff map_err_Inr_iff deployment_scope_ok)
  obtain f where f: "st_states D d = Some f" "\<not> refused_file X f" "read_deployment_state X f = Inr st"
    using load by (auto simp: load_existing_def scope read_state_def map_err_Inr_iff
        split: option.splits if_splits state_file.splits)
  show ?thesis using assms(1) scope f rev
    by (simp add: remove_deployment_def ready_def write_uninstall_completion_def atomic_write_def
        remove_state_file_def remove_file_durable_def require_def)
qed

lemma execute_deletion_ready:
  assumes e: "ready E (dj_deployment_id job)" and s: "sound_files job (un_files w)"
    and host: "fst (remove_runtime_object H E job (un_host w)) = Inr u"
    and load: "load_existing X (un_store w) (dj_deployment_id job) = Inr st"
      "cfg_revision (ds_config st) = dj_expected_revision job"
  shows "\<exists>v. fst (execute_deletion H X sha E job w) = Inr v"
proof -
  obtain h where 1: "remove_runtime_object H E job (un_host w) = (Inr u, h)"
    using host by (metis prod.collapse)
  obtain v fs where 2: "delete_resources E (dj_declared job) (un_files w) = (Inr v, fs)"
    using delete_resources_ready [OF e] s unfolding sound_files_def by (metis prod.collapse)
  have "only_removes (\<lambda>p. list_ex (\<lambda>r. resource_path r p) (dj_declared job)) (un_files w) fs"
    using delete_resources_removes [of "dj_declared job" "un_files w" E] by (simp add: 2)
  then have "sound_files job fs" using s by (rule sound_files_persist)
  then obtain x fs' where 3: "remove_config_files E (config_files job) fs = (Inr x, fs')"
    using remove_config_files_ready [OF e] unfolding sound_files_def by (metis prod.collapse)
  obtain y D where 4: "remove_deployment X sha (de_store E) (dj_deployment_id job)
      (dj_expected_revision job) (dj_operation_id job) (un_store w) = (Inr y, D)"
    using remove_deployment_ready [OF e load] by (metis prod.collapse)
  show ?thesis using e by (simp add: execute_deletion_def ready_def 1 2 3 4)
qed

text \<open>Without a record of this very removal, converging changes nothing and completes nothing.\<close>

lemma converge_fresh:
  assumes "read_uninstall_completion (st_completions D d) = Inr c" "\<not> completion_matches c d e op"
  shows "snd (converge_uninstall_completion sha E d e op D) = D"
    and "fst (converge_uninstall_completion sha E d e op D) \<noteq> Inr True"
  using assms
  by (auto simp: converge_uninstall_completion_def deployment_scope_ok split: sum.splits option.splits)

lemma converge_fresh_ready:
  assumes "read_uninstall_completion (st_completions D d) = Inr c" "\<not> completion_matches c d e op"
    and "ready E d" "deployment_scope d = Inr d"
  shows "converge_uninstall_completion sha (de_store E) d e op D = (Inr False, D)"
  using assms by (auto simp: converge_uninstall_completion_def ready_def split: option.splits)

lemma first_attempt:
  assumes fresh: "read_uninstall_completion (st_completions (un_store w) (lo_deployment_id ord)) = Inr c"
      "\<not> completion_matches c (lo_deployment_id ord) (lo_expected_revision ord) (lo_operation_id ord)"
    and load: "load_existing X (un_store w) (lo_deployment_id ord) = Inr st"
    and run: "run_uninstall H X sha E ord w = (r, w')"
  shows "w' = w \<or> (\<exists>s. execute_deletion H X sha E (deletion_job ord st) w = (s, w'))"
proof -
  obtain b D where c: "converge_uninstall_completion sha (de_store E) (lo_deployment_id ord)
      (lo_expected_revision ord) (lo_operation_id ord) (un_store w) = (b, D)" by (rule prod.exhaust)
  have D: "D = un_store w" and b: "b \<noteq> Inr True"
    using converge_fresh [OF fresh, of sha "de_store E"] by (simp_all add: c)
  obtain s w'' where ex: "execute_deletion H X sha E (deletion_job ord st) w = (s, w'')" by (rule prod.exhaust)
  show ?thesis
  proof (cases b)
    case (Inl f)
    then show ?thesis using run by (simp add: run_uninstall_def c D)
  next
    case (Inr x)
    then have "answer_uninstall H X sha E ord w = (r, w')" using run b by (simp add: run_uninstall_def c D)
    then show ?thesis using load ex by (auto simp: answer_uninstall_def split: if_splits)
  qed
qed

text \<open>What the host loses is an object that carries the deployment's label.\<close>

lemma remove_runtime_object_host:
  assumes "snd (remove_runtime_object H E job h) \<noteq> h"
  shows "\<exists>ob. backend_inspect_optional H (dj_runtime_kind job) h (dj_runtime_object job) = Inr (Some ob)
    \<and> (is_container (dj_runtime_kind job) \<longrightarrow> map_of (ob_labels ob) DEPLOYMENT_LABEL = Some (dj_deployment_id job))"
  using assms by (auto simp: remove_runtime_object_def Let_def split: sum.splits option.splits if_splits)

lemma execute_deletion_host:
  assumes exec: "execute_deletion H X sha E job w = (r, w')" and "un_host w' \<noteq> un_host w"
  shows "snd (remove_runtime_object H E job (un_host w)) \<noteq> un_host w"
  using assms by (cases rule: execute_deletion_cases) auto

text \<open>A call that changed the host or the files has executed the order.\<close>

lemma run_uninstall_executes:
  assumes run: "run_uninstall H X sha E ord w = (r, w')"
    and changed: "un_files w' \<noteq> un_files w \<or> un_host w' \<noteq> un_host w"
  obtains st s where "load_existing X (un_store w) (lo_deployment_id ord) = Inr st"
    "cfg_revision (ds_config st) = lo_expected_revision ord"
    "execute_deletion H X sha E (deletion_job ord st) w = (s, w')"
proof -
  obtain b D where c: "converge_uninstall_completion sha (de_store E) (lo_deployment_id ord)
      (lo_expected_revision ord) (lo_operation_id ord) (un_store w) = (b, D)" by (rule prod.exhaust)
  have b: "b = Inr False" using run changed
    by (cases b) (auto simp: run_uninstall_def c split: bool.splits)
  then have D: "D = un_store w" using c
    by (auto simp: converge_uninstall_completion_def split: sum.splits option.splits if_splits prod.splits)
  have ans: "answer_uninstall H X sha E ord w = (r, w')" using run by (simp add: run_uninstall_def c b D)
  then obtain st where load: "load_existing X (un_store w) (lo_deployment_id ord) = Inr st"
    using changed by (cases "load_existing X (un_store w) (lo_deployment_id ord)") (auto simp: answer_uninstall_def)
  obtain s w'' where ex: "execute_deletion H X sha E (deletion_job ord st) w = (s, w'')" by (rule prod.exhaust)
  have "cfg_revision (ds_config st) = lo_expected_revision ord \<and> w'' = w'"
    using ans changed by (auto simp: answer_uninstall_def load ex split: if_splits)
  then show thesis using that load ex by blast
qed

end
