(* ===== verification/UninstallProperties.thy ===== *)
theory UninstallProperties
  imports UninstallProofs UpdateSample
begin

text \<open>
  The properties of the uninstall executor, with a sample order: the deployment \<open>alpha\<close> on the sample
  Podman host, with a managed directory, a managed file and a shared directory.
\<close>

section \<open>A sample order\<close>

definition un_resource ::
  "string \<Rightarrow> string \<Rightarrow> string \<Rightarrow> ResourceOwnership \<Rightarrow> ResourceScope \<Rightarrow> Resource" where
  "un_resource i k locator ownership scope =
     \<lparr>res_id = i, res_kind = k, res_locator = locator, res_ownership = ownership, res_scope = scope\<rparr>"

definition un_state :: DeploymentState where
  "un_state = sample_state\<lparr>ds_resources :=
     [un_resource ''app-data'' ''directory'' ''/d/a'' Managed DeploymentScoped,
      un_resource ''key'' ''file'' ''/d/k'' Managed DeploymentScoped,
      un_resource ''proxy'' ''directory'' ''/d/p'' External Shared]\<rparr>"

definition un_order :: lifecycle_order where
  "un_order = \<lparr>lo_operation_id = ''o5'', lo_deployment_id = ''alpha'', lo_expected_revision = 1\<rparr>"

definition un_world :: "up_container uninstall_world" where
  "un_world =
     \<lparr>un_host = Some (True, False),
      un_files = [[] \<mapsto> DirEntry, [''c''] \<mapsto> FileEntry [], [''d''] \<mapsto> DirEntry,
        [''d'', ''a''] \<mapsto> DirEntry, [''d'', ''a'', ''x''] \<mapsto> FileEntry [],
        [''d'', ''k''] \<mapsto> FileEntry [], [''d'', ''p''] \<mapsto> DirEntry],
      un_store = \<lparr>st_dirs = [''alpha''], st_states = [''alpha'' \<mapsto> StateDoc un_state],
                  st_completions = Map.empty\<rparr>\<rparr>"

text \<open>An environment in which removing a tree may stop after its contents are gone.\<close>

definition un_env :: "bool \<Rightarrow> up_container deletion_env" where
  "un_env stops =
     \<lparr>de_privileged = True, de_fragment = (\<lambda>_ _. None), de_unlink_fragment = (\<lambda>_ w. (True, w)),
      de_stat = (\<lambda>_. True), de_chmod = (\<lambda>_. True),
      de_remove_tree = (\<lambda>p. if stops then TreeStopped (\<lambda>q. length p < length q) else TreeRemoved),
      de_unlink = (\<lambda>_. Committed), de_store = sample_E\<rparr>"

lemma un_loads: "load_existing sample_X (un_store un_world) ''alpha'' = Inr un_state"
  by code_simp

definition un_stopped :: "up_container uninstall_world" where
  "un_stopped = un_world\<lparr>un_host := None,
     un_files := (\<lambda>p. if below [''d'', ''a''] p \<and> 2 < length p then None else un_files un_world p)\<rparr>"

lemma un_job:
  "dj_deployment_id (deletion_job un_order un_state) = ''alpha''"
  "dj_runtime_kind (deletion_job un_order un_state) = Podman"
  "dj_runtime_object (deletion_job un_order un_state) = ''nazo''"
  "dj_declared (deletion_job un_order un_state) = ds_resources un_state"
  "dj_expected_revision (deletion_job un_order un_state) = 1"
  "dj_config_reference (deletion_job un_order un_state) = ''/c''"
  by (simp_all add: deletion_job_def un_order_def un_state_def sample_state_def fresh_state_def
      sample_params_def sample_config_def)

lemma un_resources: "ds_resources un_state =
    [un_resource ''app-data'' ''directory'' ''/d/a'' Managed DeploymentScoped,
     un_resource ''key'' ''file'' ''/d/k'' Managed DeploymentScoped,
     un_resource ''proxy'' ''directory'' ''/d/p'' External Shared]"
  by (simp add: un_state_def)

lemma un_paths:
  "path_components ''/d/a'' = [''d'', ''a'']" "path_components ''/d/k'' = [''d'', ''k'']"
  "path_components ''/c'' = [''c'']" "owned_marker ''/d/k'' = [''d'', ''k.nazoauth-owned'']"
  "owned_marker ''/c'' = [''c.nazoauth-owned'']"
  "safe_managed_path ''/d/a''" "safe_managed_path ''/d/k''"
  by code_simp+

lemma un_inspect:
  "backend_inspect_optional up_host Podman (Some (running, new)) ''nazo'' = Inr (Some (up_observation running new))"
  "backend_inspect_optional up_host Podman None ''nazo'' = Inr None"
proof -
  have doc: "inspect_document_optional up_host (Some (running, new))
      [engine_name Podman, ''container'', ''inspect'', ''nazo''] = Inr (Some (up_document running new))"
    by (simp add: inspect_document_optional_def up_host_def)
  then have "observation_from_document up_host (Some (running, new)) Podman (up_document running new)
      = Inr (up_observation running new)"
    using up_inspect [of running new] by (simp add: backend_inspect_def container_inspect_def inspect_document_def)
  then show "backend_inspect_optional up_host Podman (Some (running, new)) ''nazo'' = Inr (Some (up_observation running new))"
    by (simp add: backend_inspect_optional_def container_inspect_optional_def doc)
  have "is_not_found_error (to_ascii_lowercase ''no such container'')"
    "\<not> stderr_engine_unavailable (to_ascii_lowercase ''no such container'')" by code_simp+
  then have "inspect_document_optional up_host None
      [engine_name Podman, ''container'', ''inspect'', ''nazo''] = Inr None"
    by (simp add: inspect_document_optional_def up_host_def)
  then show "backend_inspect_optional up_host Podman None ''nazo'' = Inr None"
    by (simp add: backend_inspect_optional_def container_inspect_optional_def)
qed

lemma un_object:
  "remove_runtime_object up_host E (deletion_job un_order un_state) (Some (running, new)) = (Inr (), None)"
  "remove_runtime_object up_host E (deletion_job un_order un_state) None = (Inr (), None)"
proof -
  have run: "h_run up_host = up_run" by (simp add: up_host_def)
  have some: "Ex Not" by (rule exI [of _ False]) simp
  show "remove_runtime_object up_host E (deletion_job un_order un_state) (Some (running, new)) = (Inr (), None)"
    by (simp add: remove_runtime_object_def Let_def un_job un_inspect up_observation_def then_host_def
        backend_stop_def container_command_def run_quiet_def backend_remove_def run up_run_def some)
  show "remove_runtime_object up_host E (deletion_job un_order un_state) None = (Inr (), None)"
    by (simp add: remove_runtime_object_def Let_def un_job un_inspect)
qed

lemma un_attempt:
  "run_uninstall up_host sample_X sample_sha (un_env True) un_order un_world = (Inl NotDeleted, un_stopped)"
proof -
  have scope: "deployment_scope ''alpha'' = Inr ''alpha''" by (rule sample_facts)
  have lock: "rbind (lock_path ''alpha'') (acquire_state_lock (env_held sample_E)) = Inr ()" by code_simp
  have ord: "lo_deployment_id un_order = ''alpha''" "lo_expected_revision un_order = 1"
    by (simp_all add: un_order_def)
  have rev: "cfg_revision (ds_config un_state) = 1"
    by (simp add: un_state_def sample_state_def fresh_state_def sample_config_def)
  have conv: "converge_uninstall_completion sample_sha sample_E ''alpha'' 1 (lo_operation_id un_order) (un_store un_world)
      = (Inr False, un_store un_world)"
    by (simp add: converge_uninstall_completion_def scope lock read_uninstall_completion_def un_world_def)
  have dir: "un_files un_world [''d'', ''a''] = Some DirEntry" by (simp add: un_world_def)
  have del: "delete_resources (un_env True) (ds_resources un_state) (un_files un_world)
      = (Inl NotDeleted, un_files un_stopped)"
    using dir by (simp add: un_resources un_resource_def deletable_def delete_managed_resource_def
        delete_directory_def un_paths un_env_def un_stopped_def remove_dir_all_def Let_def numeral_2_eq_2)
  have "un_host un_world = Some (True, False)" by (simp add: un_world_def)
  then have "execute_deletion up_host sample_X sample_sha (un_env True) (deletion_job un_order un_state) un_world
      = (Inl NotDeleted, un_stopped)"
    using del by (simp add: execute_deletion_def un_object un_job un_env_def) (simp add: un_stopped_def)
  then show ?thesis
    using un_loads rev by (simp add: run_uninstall_def ord conv answer_uninstall_def un_env_def)
qed

section \<open>Whose things are removed\<close>

text \<open>C36: An uninstall removes nothing that is not the deployment's. Whatever the call meets, an entry
  that changed is gone, and it is the configuration file, its ownership marker, an entry at or
  below a directory, or a file or its marker, that the live document declares as managed and scoped
  to this deployment, with a locator at least two levels below the root; and the runtime host
  changed only where an object of the document's name was found, which in a container engine
  carries the label of this deployment. Both need a live document at the revision of the order.\<close>

theorem uninstall_removes_only_its_own:
  assumes run: "run_uninstall H X sha E ord w = (r, w')"
    and changed: "un_files w' p \<noteq> un_files w p \<or> un_host w' \<noteq> un_host w"
  shows "\<exists>st. load_existing X (un_store w) (lo_deployment_id ord) = Inr st
    \<and> cfg_revision (ds_config st) = lo_expected_revision ord
    \<and> (un_files w' p \<noteq> un_files w p \<longrightarrow>
         un_files w' p = None
         \<and> (p = path_components (cfg_reference (ds_config st)) \<or> p = owned_marker (cfg_reference (ds_config st))
            \<or> (\<exists>d \<in> set (ds_resources st).
                 res_ownership d = Managed \<and> res_scope d = DeploymentScoped
                 \<and> 2 \<le> length (path_components (res_locator d))
                 \<and> (res_kind d = ''directory'' \<and> below (path_components (res_locator d)) p
                    \<or> res_kind d = ''file''
                      \<and> p \<in> {path_components (res_locator d), owned_marker (res_locator d)}))))
    \<and> (un_host w' \<noteq> un_host w \<longrightarrow>
         (\<exists>ob. backend_inspect_optional H (rt_kind (ds_runtime st)) (un_host w) (rt_object (ds_runtime st))
               = Inr (Some ob)
             \<and> (is_container (rt_kind (ds_runtime st)) \<longrightarrow>
                  map_of (ob_labels ob) DEPLOYMENT_LABEL = Some (lo_deployment_id ord))))"
proof -
  have "un_files w' \<noteq> un_files w \<or> un_host w' \<noteq> un_host w" using changed by auto
  then obtain st s where load: "load_existing X (un_store w) (lo_deployment_id ord) = Inr st"
      "cfg_revision (ds_config st) = lo_expected_revision ord"
    and exec: "execute_deletion H X sha E (deletion_job ord st) w = (s, w')"
    by (rule run_uninstall_executes [OF run])
  have files: "un_files w' p = un_files w p \<or> job_path (deletion_job ord st) p \<and> un_files w' p = None"
    using execute_deletion_removes [OF exec] by (simp add: only_removes_def)
  have host: "\<exists>ob. backend_inspect_optional H (rt_kind (ds_runtime st)) (un_host w) (rt_object (ds_runtime st))
               = Inr (Some ob)
      \<and> (is_container (rt_kind (ds_runtime st)) \<longrightarrow>
           map_of (ob_labels ob) DEPLOYMENT_LABEL = Some (lo_deployment_id ord))"
    if "un_host w' \<noteq> un_host w"
    using remove_runtime_object_host [OF execute_deletion_host [OF exec that]] by (simp add: deletion_job_def)
  show ?thesis
    using load files host
    by (auto simp: job_path_def config_files_def resource_path_def deletable_def deletion_job_def
        safe_managed_path_def list_ex_iff)
qed

lemma uninstall_removes_only_its_own_witness:
  "\<exists>w'. run_uninstall up_host sample_X sample_sha (un_env True) un_order un_world = (Inl NotDeleted, w')
    \<and> un_files un_world [''d'', ''a'', ''x''] \<noteq> None \<and> un_files w' [''d'', ''a'', ''x''] = None
    \<and> un_files w' [''d'', ''p''] \<noteq> None
    \<and> (\<exists>ob. backend_inspect_optional up_host Podman (un_host un_world) ''nazo'' = Inr (Some ob)
         \<and> map_of (ob_labels ob) DEPLOYMENT_LABEL = Some ''alpha'')"
proof -
  have sample: "un_files un_world [''d'', ''a'', ''x''] \<noteq> None" "un_files un_stopped [''d'', ''a'', ''x''] = None"
    "un_files un_stopped [''d'', ''p''] \<noteq> None" "un_host un_stopped \<noteq> un_host un_world"
    by (simp_all add: un_world_def un_stopped_def below_def)
  have "un_files un_stopped [''d'', ''a'', ''x''] \<noteq> un_files un_world [''d'', ''a'', ''x'']
    \<or> un_host un_stopped \<noteq> un_host un_world" using sample by simp
  from uninstall_removes_only_its_own [OF un_attempt this]
  obtain st ob where "load_existing sample_X (un_store un_world) (lo_deployment_id un_order) = Inr st"
      "backend_inspect_optional up_host (rt_kind (ds_runtime st)) (un_host un_world) (rt_object (ds_runtime st))
         = Inr (Some ob)"
      "is_container (rt_kind (ds_runtime st)) \<longrightarrow>
         map_of (ob_labels ob) DEPLOYMENT_LABEL = Some (lo_deployment_id un_order)"
    using sample(4) by auto
  moreover from this(1) have "st = un_state" using un_loads by (simp add: un_order_def)
  ultimately have "backend_inspect_optional up_host Podman (un_host un_world) ''nazo'' = Inr (Some ob)
      \<and> map_of (ob_labels ob) DEPLOYMENT_LABEL = Some ''alpha''"
    using un_job(2,3) by (simp add: deletion_job_def) (simp add: un_order_def)
  then show ?thesis using un_attempt sample by blast
qed

section \<open>An uninstall can be finished\<close>

text \<open>C37: An interrupted uninstall is finished by running it again. Wherever the first attempt at an
  order stopped - at the runtime object, in the middle of a directory, between a file and its
  marker, before, between or after the two writes to the state store - a second run of the same
  order on a target where every step succeeds answers the revision of the order, and then the
  deployment has no state document and none of its managed directories, files, markers or
  configuration exists. Required is that the entries were of the declared kinds to begin with, that
  recursive removal takes contents before their directory, that the order had not been completed
  before, and that the object the first attempt left behind, if any, can be removed.\<close>

theorem interrupted_uninstall_is_finished:
  assumes digest: "\<And>f. valid_lower_hex_sha256 (sha f)"
    and load: "load_existing X (un_store w) (lo_deployment_id ord) = Inr st"
      "cfg_revision (ds_config st) = lo_expected_revision ord"
    and fresh: "read_uninstall_completion (st_completions (un_store w) (lo_deployment_id ord)) = Inr c"
      "\<not> completion_matches c (lo_deployment_id ord) (lo_expected_revision ord) (lo_operation_id ord)"
    and files: "tree (un_files w)" "sound_files (deletion_job ord st) (un_files w)" "orderly E1"
    and first: "run_uninstall H X sha E1 ord w = (r1, w1)"
    and good: "ready E2 (lo_deployment_id ord)"
    and host: "fst (remove_runtime_object H E2 (deletion_job ord st) (un_host w1)) = Inr ()"
  shows "\<exists>w2. run_uninstall H X sha E2 ord w1 = (Inr (lo_expected_revision ord), w2)
    \<and> nothing_left (deletion_job ord st) w2"
proof -
  let ?d = "lo_deployment_id ord" and ?job = "deletion_job ord st"
  have job: "dj_deployment_id ?job = ?d" "dj_expected_revision ?job = lo_expected_revision ord"
    "dj_operation_id ?job = lo_operation_id ord"
    by (simp_all add: deletion_job_def)
  have scope: "deployment_scope ?d = Inr ?d"
    using load(1) by (auto simp: load_existing_def rbind_Inr_iff map_err_Inr_iff deployment_scope_ok)
  have attempt1: "w1 = w \<or> (\<exists>s. execute_deletion H X sha E1 ?job w = (s, w1))"
    by (rule first_attempt [OF fresh load(1) first])
  have removed: "only_removes (job_path ?job) (un_files w) (un_files w1)"
    using attempt1 execute_deletion_removes by auto
  have tree1: "tree (un_files w1)"
    using attempt1 execute_deletion_tree files by auto
  show ?thesis
  proof (cases "un_store w1 = un_store w")
    case True
    obtain s w2 where exec: "execute_deletion H X sha E2 ?job w1 = (s, w2)" by (rule prod.exhaust)
    have "\<exists>v. s = Inr v"
      using execute_deletion_ready [of E2 ?job w1 H "()" X st sha] good host load
        sound_files_persist [OF removed files(2)] by (simp add: job True exec)
    then obtain v where s: "s = Inr v" ..
    have same: "w1\<lparr>un_store := un_store w\<rparr> = w1" using True [symmetric] by simp
    have "orderly E2" using good by (simp add: orderly_def ready_def)
    then have "nothing_left ?job w2" using execute_deletion_ok [OF exec [unfolded s] tree1] by simp
    moreover have "run_uninstall H X sha E2 ord w1 = answer_uninstall H X sha E2 ord (w1\<lparr>un_store := un_store w\<rparr>)"
      using converge_fresh_ready [OF fresh good scope, of sha] by (simp add: run_uninstall_def True)
    moreover have "answer_uninstall H X sha E2 ord w1 = (Inr (lo_expected_revision ord), w2)"
      using load exec s by (simp add: answer_uninstall_def True)
    ultimately show ?thesis by (simp add: same)
  next
    case False
    then obtain s where exec: "execute_deletion H X sha E1 ?job w = (s, w1)" using attempt1 by auto
    obtain v fs x where parts: "delete_resources E1 (dj_declared ?job) (un_files w) = (Inr v, fs)"
        "remove_config_files E1 (config_files ?job) fs = (Inr x, un_files w1)"
      and D: "un_store w1 = snd (remove_deployment X sha (de_store E1) ?d (lo_expected_revision ord)
         (lo_operation_id ord) (un_store w))"
      using execute_deletion_store [OF exec False] by (auto simp: job)
    let ?c = "converge_uninstall_completion sha (de_store E2) ?d (lo_expected_revision ord)
      (lo_operation_id ord) (un_store w1)"
    have "fst ?c = Inr True \<and> st_states (snd ?c) ?d = None"
      using changed_removal_converges [OF digest D False] good by (simp add: ready_def)
    then obtain D2 where c: "?c = (Inr True, D2)" "st_states D2 ?d = None" by (metis prod.collapse)
    have "nothing_left ?job (w1\<lparr>un_store := D2\<rparr>)"
      using files_gone [OF files(1,3) parts] c(2) by (simp add: nothing_left_def job)
    then show ?thesis by (simp add: run_uninstall_def c(1))
  qed
qed

lemma interrupted_uninstall_is_finished_witness:
  "\<exists>w2. run_uninstall up_host sample_X sample_sha (un_env False) un_order un_stopped = (Inr 1, w2)
    \<and> nothing_left (deletion_job un_order un_state) w2"
proof -
  have ord: "lo_deployment_id un_order = ''alpha''" "lo_expected_revision un_order = 1"
    by (simp_all add: un_order_def)
  have rev: "cfg_revision (ds_config un_state) = lo_expected_revision un_order"
    by (simp add: ord un_state_def sample_state_def fresh_state_def sample_config_def)
  have load: "load_existing sample_X (un_store un_world) (lo_deployment_id un_order) = Inr un_state"
    using un_loads by (simp add: ord)
  have fresh: "read_uninstall_completion (st_completions (un_store un_world) (lo_deployment_id un_order)) = Inr None"
    "\<not> completion_matches None (lo_deployment_id un_order) (lo_expected_revision un_order) (lo_operation_id un_order)"
    by (simp_all add: un_world_def read_uninstall_completion_def completion_matches_def)
  have tree: "tree (un_files un_world)"
    unfolding tree_def un_world_def
    by (auto simp: below_iff Cons_eq_append_conv split: if_splits)
  have sound: "sound_files (deletion_job un_order un_state) (un_files un_world)"
    by (simp add: sound_files_def sound_resource_def un_job un_resources un_resource_def deletable_def
        un_paths config_files_def un_world_def)
  have order: "orderly (un_env True)"
    by (auto simp: orderly_def un_env_def children_first_def below_iff)
  have lock: "rbind (lock_path ''alpha'') (acquire_state_lock (env_held sample_E)) = Inr ()" by code_simp
  have ready: "ready (un_env False) (lo_deployment_id un_order)"
    using lock by (simp add: ready_def un_env_def ord) (simp add: sample_E_def)
  have host: "fst (remove_runtime_object up_host (un_env False) (deletion_job un_order un_state) (un_host un_stopped))
      = Inr ()"
    by (simp add: un_stopped_def un_object)
  show ?thesis
    using interrupted_uninstall_is_finished [OF sample_sha_ok load rev fresh tree sound order un_attempt ready host]
    by (simp add: ord)
qed

end
