(* ===== verification/RecoveryJournal.thy ===== *)
theory RecoveryJournal
  imports KeyStore Wire
begin

text \<open>
  The controller's pointer for one disaster recovery
  (\<open>src/src/controller/recovery_journal.rs\<close>): the plan, its validation, and the file that holds it,
  with the reader of the first published schema. The lock is held from \<open>open\<close> on. \<open>sz\<close> is the
  length of the file a plan was read from.
\<close>

section \<open>Plans\<close>

datatype RecoveryPhase = Restoring | Invalidating | WaitingForDeadline | CleanupPending

record CandidatePointer =
  cp_object_reference :: string
  cp_object_id :: string
  cp_loopback_port :: u16
  cp_https :: bool

record RecoveryPlan =
  rp_schema :: nat
  rp_deployment_id :: string
  rp_phase :: RecoveryPhase
  rp_source_revision :: u64
  rp_restored_revision :: "u64 option"
  rp_manifest_sha256 :: string
  rp_target_version :: "string option"
  rp_state_epoch :: string
  rp_recover_operation_id :: string
  rp_candidate_stage_operation_id :: "string option"
  rp_candidate :: "CandidatePointer option"
  rp_invalidation_operation_id :: "string option"
  rp_invalidation_request_hash :: "string option"
  rp_candidate_control_operation_id :: "string option"
  rp_not_before :: "int option"
  rp_activate_operation_id :: "string option"
  rp_cleanup_operation_id :: "string option"

definition RECOVERY_SCHEMA :: nat where "RECOVERY_SCHEMA = 2"
definition MAX_RECOVERY_BYTES :: nat where "MAX_RECOVERY_BYTES = 16 * 1024"

text \<open>The two ids are the ones \<open>new_plan\<close> draws.\<close>

definition new_plan :: "string \<Rightarrow> string \<Rightarrow> string \<Rightarrow> u64 \<Rightarrow> string \<Rightarrow> RecoveryPlan" where
  "new_plan epoch operation_id deployment_id source_revision manifest_sha256 =
     \<lparr>rp_schema = RECOVERY_SCHEMA, rp_deployment_id = deployment_id, rp_phase = Restoring,
      rp_source_revision = source_revision, rp_restored_revision = None,
      rp_manifest_sha256 = manifest_sha256, rp_target_version = None, rp_state_epoch = epoch,
      rp_recover_operation_id = operation_id, rp_candidate_stage_operation_id = None,
      rp_candidate = None, rp_invalidation_operation_id = None, rp_invalidation_request_hash = None,
      rp_candidate_control_operation_id = None, rp_not_before = None,
      rp_activate_operation_id = None, rp_cleanup_operation_id = None\<rparr>"

section \<open>Validation\<close>

datatype recovery_fault =
    RecoveryIdentity
  | RecoveryOperationId
  | RecoveryRequestHash
  | RecoveryCandidate
  | RecoveryPhaseCandidate
  | RecoveryPhaseInvalidation

text \<open>The ids a plan holds: those that are there, the epoch last.\<close>

definition plan_ids :: "RecoveryPlan \<Rightarrow> string list" where
  "plan_ids p = List.map_filter id
     [Some (rp_recover_operation_id p), rp_candidate_stage_operation_id p,
      rp_invalidation_operation_id p, rp_candidate_control_operation_id p,
      rp_activate_operation_id p, rp_cleanup_operation_id p, Some (rp_state_epoch p)]"

definition candidate_ok :: "CandidatePointer \<Rightarrow> bool" where
  "candidate_ok c \<longleftrightarrow>
     \<not> (cp_object_reference c = [] \<or> cp_object_id c = [] \<or> cp_loopback_port c = 0)"

definition validate_plan :: "externals \<Rightarrow> RecoveryPlan \<Rightarrow> recovery_fault + unit" where
  "validate_plan X p = first_error
     [require (\<not> (rp_schema p \<noteq> RECOVERY_SCHEMA \<or> rp_deployment_id p = []
        \<or> length (rp_manifest_sha256 p) \<noteq> 64)) RecoveryIdentity,
      require (list_all (is_uuid_v7 X) (plan_ids p)) RecoveryOperationId,
      on_some (rp_invalidation_request_hash p) (\<lambda>h.
        require (length h = 64 \<and> list_all (\<lambda>b. is_hexdigit b \<and> \<not> is_upper b) h) RecoveryRequestHash),
      on_some (rp_candidate p) (\<lambda>c. require (candidate_ok c) RecoveryCandidate),
      require (rp_phase p = Restoring
        \<or> \<not> (rp_restored_revision p = None \<or> rp_candidate_stage_operation_id p = None
             \<or> rp_candidate p = None)) RecoveryPhaseCandidate,
      require (\<not> (rp_phase p \<in> {WaitingForDeadline, CleanupPending}
        \<and> (rp_invalidation_operation_id p = None \<or> rp_invalidation_request_hash p = None
           \<or> rp_not_before p = None))) RecoveryPhaseInvalidation]"

section \<open>The journal file\<close>

text \<open>
  A file that parses is a plan. The first schema could leave out the candidate's \<open>https\<close>: such a file
  is no plan, but reads as one after the member is added.
\<close>

datatype plan_doc = PlanDoc RecoveryPlan | WithoutHttps RecoveryPlan

type_synonym recovery_slot = "plan_doc record_file option"

datatype plan_error =
    PlanUnsafe
  | PlanUnparsable
  | PlanInvalid recovery_fault
  | PlanNotPersisted
  | PlanNotCleared

definition read_plan :: "plan_doc \<Rightarrow> plan_error + RecoveryPlan" where
  "read_plan d =
     (case d of
        PlanDoc p \<Rightarrow> Inr p
      | WithoutHttps p \<Rightarrow>
          if rp_schema p = 1
          then Inr (p\<lparr>rp_candidate := map_option (\<lambda>c. c\<lparr>cp_https := False\<rparr>) (rp_candidate p)\<rparr>)
          else Inl PlanUnparsable)"

definition load_plan ::
  "externals \<Rightarrow> (plan_doc \<Rightarrow> nat) \<Rightarrow> recovery_slot \<Rightarrow> plan_error + RecoveryPlan option" where
  "load_plan X sz path =
     (case path of
        None \<Rightarrow> Inr None
      | Some Unsafe \<Rightarrow> Inl PlanUnsafe
      | Some Unparsable \<Rightarrow> Inl PlanUnparsable
      | Some (Record d) \<Rightarrow>
          if MAX_RECOVERY_BYTES < sz d then Inl PlanUnsafe
          else rbind (read_plan d) (\<lambda>p.
            let plan = (if rp_schema p = 1 then p\<lparr>rp_schema := RECOVERY_SCHEMA\<rparr> else p)
            in rbind (map_err PlanInvalid (validate_plan X plan)) (\<lambda>_. Inr (Some plan))))"

definition store_plan ::
  "externals \<Rightarrow> commit \<Rightarrow> RecoveryPlan \<Rightarrow> recovery_slot \<Rightarrow> (plan_error + unit) \<times> recovery_slot" where
  "store_plan X outcome p path =
     (case validate_plan X p of
        Inl e \<Rightarrow> (Inl (PlanInvalid e), path)
      | Inr _ \<Rightarrow>
          (case put_one outcome (Record (PlanDoc p)) path of
             (ok, path') \<Rightarrow> (require ok PlanNotPersisted, path')))"

definition clear_plan :: "commit \<Rightarrow> recovery_slot \<Rightarrow> (plan_error + unit) \<times> recovery_slot" where
  "clear_plan outcome path =
     (case drop_one outcome path of (ok, path') \<Rightarrow> (require ok PlanNotCleared, path'))"

section \<open>Facts\<close>

lemma store_plan_cases:
  obtains (stored) "store_plan X outcome p path = (Inr (), Some (Record (PlanDoc p)))" "validate_plan X p = Inr ()"
  | (failed) e where "store_plan X outcome p path = (Inl e, path)"
  | (unsynced) e where "store_plan X outcome p path = (Inl e, Some (Record (PlanDoc p)))" "validate_plan X p = Inr ()"
  by (cases outcome; cases "validate_plan X p") (auto simp: store_plan_def put_one_def)

lemma store_plan_Inr:
  "store_plan X outcome p path = (Inr u, path') \<Longrightarrow>
     path' = Some (Record (PlanDoc p)) \<and> validate_plan X p = Inr ()"
  by (cases rule: store_plan_cases [of X outcome p path]) auto

lemma load_stored_plan:
  "validate_plan X p = Inr () \<Longrightarrow> sz (PlanDoc p) \<le> MAX_RECOVERY_BYTES
   \<Longrightarrow> load_plan X sz (Some (Record (PlanDoc p))) = Inr (Some p)"
  by (auto simp: load_plan_def read_plan_def validate_plan_def RECOVERY_SCHEMA_def guard_simps Let_def
      split: if_splits)

end
