(* ===== verification/RecoveryCeremony.thy ===== *)
theory RecoveryCeremony
  imports ControlDispatch
begin

text \<open>
  The break-glass ceremony of \<open>src/src/controller_identity/recovery.rs\<close>: one controller key is
  re-established from the offline Recovery Secret. The server's registry API is a state of its own,
  reached by calls that may fail; key derivation and signatures are the record \<open>recovery_crypto\<close>.
\<close>

section \<open>Pending submissions\<close>

record RecoveryAnswerBody =
  ra_deployment_id :: string
  ra_challenge_id :: string
  ra_nonce :: string
  ra_signature :: string

record PendingRecovery =
  pr_schema :: nat
  pr_deployment_id :: string
  pr_candidate_kid :: string
  pr_answer :: RecoveryAnswerBody

definition PENDING_RECOVERY_SCHEMA :: nat where "PENDING_RECOVERY_SCHEMA = 1"

datatype ceremony_error =
    PendingUnsafe
  | PendingUnparsable
  | PendingMismatch
  | PendingNotPersisted
  | PendingNotCleared
  | CeremonyKey key_error
  | CeremonyRegistry registry_error
  | CeremonyReference violation
  | CeremonyDirectory
  | CeremonyLocked
  | SecretRejected
  | CandidateKeyEncoding
  | ProposalRejected
  | ChallengeFailed
  | DeliveryFailed
  | CommitMismatch
  | RecoveryOutcomeUnknown
  | RecoveryRejected bool

type_synonym pending_slot = "PendingRecovery record_file option"

definition MAX_PENDING_RECOVERY_BYTES :: nat where "MAX_PENDING_RECOVERY_BYTES = 16 * 1024"

text \<open>\<open>sz\<close> is the length of the JSON text of a submission; a file above the bound is not read.\<close>

definition load_pending_recovery ::
  "(PendingRecovery \<Rightarrow> nat) \<Rightarrow> string \<Rightarrow> pending_slot \<Rightarrow> ceremony_error + PendingRecovery option" where
  "load_pending_recovery sz deployment_id path =
     (case path of
        None \<Rightarrow> Inr None
      | Some Unsafe \<Rightarrow> Inl PendingUnsafe
      | Some Unparsable \<Rightarrow> Inl PendingUnparsable
      | Some (Record p) \<Rightarrow>
          if MAX_PENDING_RECOVERY_BYTES < sz p then Inl PendingUnsafe
          else if pr_schema p \<noteq> PENDING_RECOVERY_SCHEMA \<or> pr_deployment_id p \<noteq> deployment_id
             \<or> ra_deployment_id (pr_answer p) \<noteq> deployment_id \<or> pr_candidate_kid p = []
          then Inl PendingMismatch else Inr (Some p))"

definition save_pending_recovery ::
  "commit \<Rightarrow> PendingRecovery \<Rightarrow> pending_slot \<Rightarrow> (ceremony_error + unit) \<times> pending_slot" where
  "save_pending_recovery outcome p path =
     (case put_one outcome (Record p) path of (ok, path') \<Rightarrow> (require ok PendingNotPersisted, path'))"

definition clear_pending_recovery :: "commit \<Rightarrow> pending_slot \<Rightarrow> (ceremony_error + unit) \<times> pending_slot" where
  "clear_pending_recovery outcome path =
     (case drop_one outcome path of (ok, path') \<Rightarrow> (require ok PendingNotCleared, path'))"

section \<open>The world and what a call meets\<close>

record RecoveryCommitView =
  rcv_deployment_id :: string
  rcv_kid :: string
  rcv_controller_id :: string
  rcv_recovery_generation :: nat

record RecoveryProposal =
  pl_deployment_id :: string
  pl_controller_label :: string
  pl_controller_kid :: string
  pl_controller_public_key :: bytes
  pl_recovery_kid :: string
  pl_recovery_public_key :: bytes

record RecoveryChallengeBody =
  ch_deployment_id :: string
  ch_label :: string
  ch_controller_public_key :: string
  ch_kid :: string
  ch_recovery_public_key :: string
  ch_recovery_kid :: string
  ch_allocation_nonce :: string
  ch_allocation_signature :: string

text \<open>The answer to a submission, as the API client classifies it.\<close>

datatype submission = SubmissionCommitted RecoveryCommitView | SubmissionUnknown | SubmissionRejected

record RecoveryMaterial =
  mt_display :: string
  mt_public_key :: bytes
  mt_kid :: string

record recovery_crypto =
  parse_recovery_secret :: "string \<Rightarrow> bytes option"
  derive_recovery_seed :: "bytes \<Rightarrow> string \<Rightarrow> bytes"
  format_recovery_secret :: "bytes \<Rightarrow> string"
  recovery_public_key_bytes :: "bytes \<Rightarrow> bytes"
  recovery_kid :: "bytes \<Rightarrow> string"
  proposal_ok :: "RecoveryProposal \<Rightarrow> bool"
  pending_bytes :: "PendingRecovery \<Rightarrow> nat"
  sign_allocation :: "RecoveryProposal \<Rightarrow> bytes \<Rightarrow> bytes \<Rightarrow> bytes"
  sign_challenge :: "RecoveryProposal \<Rightarrow> string \<Rightarrow> bytes \<Rightarrow> bytes \<Rightarrow> bytes"

text \<open>
  One ceremony: the server's two calls, whether the directory is private, the recovery lock is held
  and the delivery is acknowledged, the random bytes, the key-store calls in their order, and the
  writes of the pending submission.
\<close>

record 's ceremony_env =
  ce_challenge :: "RecoveryChallengeBody \<Rightarrow> 's \<Rightarrow> (string \<times> bytes) option \<times> 's"
  ce_answer :: "RecoveryAnswerBody \<Rightarrow> 's \<Rightarrow> submission \<times> 's"
  ce_dir_ok :: bool
  ce_held :: bool
  ce_delivers :: bool
  ce_secret :: bytes
  ce_nonce :: bytes
  ce_generate :: key_env
  ce_activate :: key_env
  ce_retire :: key_env
  ce_registry :: registry_env
  ce_save :: commit
  ce_clear :: commit

record ('j, 's) ceremony_world =
  cw_dir :: "'j instance_dir"
  cw_registry :: registry
  cw_pending :: pending_slot
  cw_server :: 's

section \<open>Finishing and submitting\<close>

definition finish_recovery ::
  "registry_codec \<Rightarrow> key_crypto \<Rightarrow> 's ceremony_env \<Rightarrow> string \<Rightarrow> string \<Rightarrow> RecoveryCommitView
   \<Rightarrow> ('j, 's) ceremony_world \<Rightarrow> (ceremony_error + RecoveryCommitView) \<times> ('j, 's) ceremony_world" where
  "finish_recovery C K E deployment_id candidate_kid view w =
     (if rcv_deployment_id view \<noteq> deployment_id \<or> rcv_kid view \<noteq> candidate_kid
      then (Inl CommitMismatch, w)
      else case set_active_kid K (ce_activate E) deployment_id candidate_kid (cw_dir w) of
        (Inl e, D) \<Rightarrow> (Inl (CeremonyKey e), w\<lparr>cw_dir := D\<rparr>)
      | (Inr _, D) \<Rightarrow>
     (let w1 = w\<lparr>cw_dir := D\<rparr>
      in case controller_key_ref_for deployment_id of
        Inl v \<Rightarrow> (Inl (CeremonyReference v), w1)
      | Inr key_ref \<Rightarrow>
     (case update_controller_binding C (ce_registry E) deployment_id (Some (rcv_controller_id view))
             (Some key_ref) (cw_registry w1) of
        (Inl e, G) \<Rightarrow> (Inl (CeremonyRegistry e), w1\<lparr>cw_registry := G\<rparr>)
      | (Inr _, G) \<Rightarrow>
     (case clear_pending_recovery (ce_clear E) (cw_pending w1) of
        (r, path) \<Rightarrow>
          (rbind r (\<lambda>_. Inr view), w1\<lparr>cw_registry := G, cw_pending := path\<rparr>)))))"

text \<open>
  A rejected submission is cleaned up as far as possible; the flag of \<open>RecoveryRejected\<close> tells
  whether the clean-up was complete.
\<close>

definition reject_recovery ::
  "key_crypto \<Rightarrow> 's ceremony_env \<Rightarrow> PendingRecovery \<Rightarrow> ('j, 's) ceremony_world
   \<Rightarrow> (ceremony_error + RecoveryCommitView) \<times> ('j, 's) ceremony_world" where
  "reject_recovery K E p w =
     (case retire_kid K (ce_retire E) (pr_deployment_id p) (pr_candidate_kid p) (cw_dir w) of
        (r1, D) \<Rightarrow>
          (case clear_pending_recovery (ce_clear E) (cw_pending w) of
             (r2, path) \<Rightarrow>
               (Inl (RecoveryRejected (r1 = Inr () \<and> r2 = Inr ())),
                w\<lparr>cw_dir := D, cw_pending := path\<rparr>)))"

definition submit_pending_recovery ::
  "registry_codec \<Rightarrow> key_crypto \<Rightarrow> 's ceremony_env \<Rightarrow> PendingRecovery \<Rightarrow> ('j, 's) ceremony_world
   \<Rightarrow> (ceremony_error + RecoveryCommitView) \<times> ('j, 's) ceremony_world" where
  "submit_pending_recovery C K E p w =
     (case ce_answer E (pr_answer p) (cw_server w) of
        (answer, s) \<Rightarrow>
          (let w1 = w\<lparr>cw_server := s\<rparr>
           in case answer of
                SubmissionCommitted view \<Rightarrow>
                  finish_recovery C K E (pr_deployment_id p) (pr_candidate_kid p) view w1
              | SubmissionUnknown \<Rightarrow> (Inl RecoveryOutcomeUnknown, w1)
              | SubmissionRejected \<Rightarrow> reject_recovery K E p w1))"

section \<open>The ceremony\<close>

definition generate_material :: "recovery_crypto \<Rightarrow> bytes \<Rightarrow> string \<Rightarrow> RecoveryMaterial" where
  "generate_material R secret deployment_id =
     (let public = recovery_public_key_bytes R (derive_recovery_seed R secret deployment_id)
      in \<lparr>mt_display = format_recovery_secret R secret, mt_public_key = public, mt_kid = recovery_kid R public\<rparr>)"

definition recovery_proposal ::
  "string \<Rightarrow> string \<Rightarrow> ControllerKeySummary \<Rightarrow> bytes \<Rightarrow> RecoveryMaterial \<Rightarrow> RecoveryProposal" where
  "recovery_proposal deployment_id label candidate candidate_public replacement =
     \<lparr>pl_deployment_id = deployment_id, pl_controller_label = label,
      pl_controller_kid = sum_kid candidate, pl_controller_public_key = candidate_public,
      pl_recovery_kid = mt_kid replacement, pl_recovery_public_key = mt_public_key replacement\<rparr>"

definition challenge_body ::
  "key_crypto \<Rightarrow> recovery_crypto \<Rightarrow> bytes \<Rightarrow> bytes \<Rightarrow> ControllerKeySummary \<Rightarrow> RecoveryProposal
   \<Rightarrow> RecoveryChallengeBody" where
  "challenge_body K R allocation_nonce old_seed candidate p =
     \<lparr>ch_deployment_id = pl_deployment_id p, ch_label = pl_controller_label p,
      ch_controller_public_key = sum_public_key candidate, ch_kid = pl_controller_kid p,
      ch_recovery_public_key = encode_b64 K (pl_recovery_public_key p),
      ch_recovery_kid = pl_recovery_kid p, ch_allocation_nonce = encode_b64 K allocation_nonce,
      ch_allocation_signature = encode_b64 K (sign_allocation R p allocation_nonce old_seed)\<rparr>"

text \<open>From the staged candidate on: challenge, delivery, the durable submission.\<close>

definition propose_recovery ::
  "registry_codec \<Rightarrow> key_crypto \<Rightarrow> recovery_crypto \<Rightarrow> 's ceremony_env \<Rightarrow> string \<Rightarrow> string \<Rightarrow> bytes
   \<Rightarrow> ControllerKeySummary \<Rightarrow> ('j, 's) ceremony_world
   \<Rightarrow> (ceremony_error + RecoveryCommitView) \<times> ('j, 's) ceremony_world" where
  "propose_recovery C K R E deployment_id label old_seed candidate w =
     (case decode32 K (sum_public_key candidate) of
        None \<Rightarrow> (Inl CandidateKeyEncoding, w)
      | Some candidate_public \<Rightarrow>
     (if length candidate_public \<noteq> 32 then (Inl CandidateKeyEncoding, w)
      else let proposal = recovery_proposal deployment_id label candidate candidate_public
                 (generate_material R (ce_secret E) deployment_id)
      in if \<not> proposal_ok R proposal then (Inl ProposalRejected, w)
      else case ce_challenge E (challenge_body K R (ce_nonce E) old_seed candidate proposal) (cw_server w) of
        (None, s) \<Rightarrow> (Inl ChallengeFailed, w\<lparr>cw_server := s\<rparr>)
      | (Some (challenge_id, nonce), s) \<Rightarrow>
          (let w1 = w\<lparr>cw_server := s\<rparr>;
               p = \<lparr>pr_schema = PENDING_RECOVERY_SCHEMA, pr_deployment_id = deployment_id,
                    pr_candidate_kid = sum_kid candidate,
                    pr_answer = \<lparr>ra_deployment_id = deployment_id, ra_challenge_id = challenge_id,
                      ra_nonce = encode_b64 K nonce,
                      ra_signature = encode_b64 K (sign_challenge R proposal challenge_id nonce old_seed)\<rparr>\<rparr>
           in if \<not> ce_delivers E then (Inl DeliveryFailed, w1)
              else case save_pending_recovery (ce_save E) p (cw_pending w1) of
                (Inl e, path) \<Rightarrow> (Inl e, w1\<lparr>cw_pending := path\<rparr>)
              | (Inr _, path) \<Rightarrow> submit_pending_recovery C K E p (w1\<lparr>cw_pending := path\<rparr>))))"

definition recover_controller_identity ::
  "registry_codec \<Rightarrow> key_crypto \<Rightarrow> recovery_crypto \<Rightarrow> 's ceremony_env \<Rightarrow> string \<Rightarrow> string \<Rightarrow> string
   \<Rightarrow> ('j, 's) ceremony_world \<Rightarrow> (ceremony_error + RecoveryCommitView) \<times> ('j, 's) ceremony_world" where
  "recover_controller_identity C K R E deployment_id old_secret_text label w =
     attempt (map_err (\<lambda>v. CeremonyKey (KeyInstance v)) (validate_instance_identifier deployment_id)) w (\<lambda>_.
     attempt (require (ce_dir_ok E) CeremonyDirectory) w (\<lambda>_.
     attempt (require (\<not> ce_held E) CeremonyLocked) w (\<lambda>_.
     attempt (load_pending_recovery (pending_bytes R) deployment_id (cw_pending w)) w (\<lambda>pending.
     case pending of
       Some p \<Rightarrow> submit_pending_recovery C K E p w
     | None \<Rightarrow>
         (case parse_recovery_secret R old_secret_text of
            None \<Rightarrow> (Inl SecretRejected, w)
          | Some old_secret \<Rightarrow>
              (case generate_candidate K (ce_generate E) deployment_id (cw_dir w) of
                 (Inl e, D) \<Rightarrow> (Inl (CeremonyKey e), w\<lparr>cw_dir := D\<rparr>)
               | (Inr candidate, D) \<Rightarrow>
                   propose_recovery C K R E deployment_id label
                     (derive_recovery_seed R old_secret deployment_id) candidate (w\<lparr>cw_dir := D\<rparr>)))))))"

end
