(* ===== verification/RecoverRun.thy ===== *)
theory RecoverRun
  imports RecoveryJournal RecoveryCeremony TransferControl
begin

text \<open>
  The \<open>recover\<close> command (\<open>run_recover\<close> of \<open>src/src/controller/surface_run.rs\<close>): restore the last
  snapshot, stage a candidate runtime next to it, have the candidate invalidate the sessions of the
  lost epoch, wait for the deadline it names, activate, clean up. Every phase is journaled, and a run
  continues where the journal says.

  The target is a state of its own, reached by calls that may fail. The command's own instance,
  host and first inspection are given, as \<open>resolve_live_instance\<close> found them.
\<close>

section \<open>The target and the world\<close>

text \<open>The completions the command tells apart, and the two that carry a control result.\<close>

datatype 'r recover_body =
    BackupRecovered string u64
  | BackupRecoveryCandidateStaged RecoveryCandidateEndpoint
  | BackupRecoveryCandidateControlExecuted "'r ControlResult"
  | ControlOperationExecuted "'r ControlResult"
  | BackupRecoveryCandidateCleaned
  | BackupRecoveryActivated
  | OtherCompletion

definition control_result_in :: "'r recover_body \<Rightarrow> 'r ControlResult option" where
  "control_result_in body =
     (case body of
        ControlOperationExecuted result \<Rightarrow> Some result
      | BackupRecoveryCandidateControlExecuted result \<Rightarrow> Some result
      | _ \<Rightarrow> None)"

text \<open>The members of an inspection the command reads.\<close>

record InstanceInspection =
  ii_revision :: u64
  ii_active_host_operation :: "string option"
  ii_config_revision_marker :: "string option"
  ii_snapshot :: "SnapshotProjection option"

text \<open>
  What the command has done and seen, newest first: its calls with their answers and the readings of
  its clock. It records the run and is read by nothing.
\<close>

datatype 'r recover_event = Called HostOperation "'r recover_body HostResult option" | ClockRead int

record ('r, 's) recover_world =
  vw_slot :: recovery_slot
  vw_dirs :: instance_dirs
  vw_registry :: registry
  vw_pending :: pending_slot
  vw_target :: 's
  vw_events :: "'r recover_event list"

text \<open>
  \<open>vc_invalidate\<close> is the payload of an invalidation of an epoch; \<open>vc_facts\<close> the epoch and the deadline in
  the data of its result. \<open>vc_size\<close> is the length of a recovery journal.
\<close>

record ('a, 'r) recover_codec =
  vc_registry :: registry_codec
  vc_keys :: key_crypto
  vc_protocol :: "('a, 'r) protocol"
  vc_crypto :: recovery_crypto
  vc_size :: "plan_doc \<Rightarrow> nat"
  vc_invalidate :: "string \<Rightarrow> 'a"
  vc_facts :: "'r \<Rightarrow> string \<times> int"

abbreviation vc_externals :: "('a, 'r) recover_codec \<Rightarrow> externals" where
  "vc_externals C \<equiv> rc_externals (vc_registry C)"

text \<open>
  The command line and what it resolved to. The secret file is \<open>Some None\<close> where it cannot be read or
  is not text.
\<close>

record recover_request =
  vq_record :: InstanceRecord
  vq_host :: HostRecord
  vq_inspection :: InstanceInspection
  vq_version :: "string option"
  vq_recovery_secret_file :: "string option option"

abbreviation vq_deployment_id :: "recover_request \<Rightarrow> string" where
  "vq_deployment_id q \<equiv> inst_deployment_id (vq_record q)"

text \<open>The places where one run writes the recovery journal, and those where it draws an id.\<close>

datatype store_site =
    StoreNew | StoreCandidateCleanup | StoreVersion | StoreRestored | StoreStageId | StoreCandidate
  | StoreActivateId | StoreActivated | StoreCleanupId | StoreClear

datatype id_site =
    DrawEpoch | DrawRecover | DrawCandidateCleanup | DrawStage | DrawActivate | DrawCleanup

record ('r, 's) recover_env =
  ve_call :: "HostOperation \<Rightarrow> 's \<Rightarrow> 'r recover_body HostResult option \<times> 's"
  ve_inspect :: "string \<Rightarrow> 's \<Rightarrow> InstanceInspection option \<times> 's"
  ve_store :: "store_site \<Rightarrow> commit"
  ve_id :: "id_site \<Rightarrow> string"
  ve_journal_opens :: bool
  ve_registry :: registry_env
  ve_uninstall_pending :: "bool option"
  ve_clock :: "int list"

text \<open>One round of the invalidation loop.\<close>

datatype loop_site = StoreStale | StoreIds | StoreWrapperId | StoreWithoutIds | StoreDeadline

datatype RecoveryCeremonyRoute = DirectLoopback u16 | SshForward string u16

record 's round_env =
  iv_store :: "loop_site \<Rightarrow> commit"
  iv_registry :: registry_env
  iv_key :: key_env
  iv_dispatched :: slot_env
  iv_settle :: slot_env
  iv_settle_2 :: slot_env
  iv_operation_id :: string
  iv_wrapper_id :: string
  iv_now :: time
  iv_connects :: "RecoveryCeremonyRoute \<Rightarrow> bool"
  iv_ceremony :: "'s ceremony_env"

datatype recover_error =
    RecoverPlan plan_error
  | RecoverLocked
  | RecoverBinding transfer_error
  | RecoverOtherDeployment
  | RecoverNoSnapshot
  | RecoverNotTested
  | RecoverUnreachable
  | RecoverTargetFailed string
  | RecoverUnexpected
  | RecoverUnbound
  | RecoverNoRevision
  | RecoverOtherCandidate
  | RecoverNotProved
  | RecoverNoMarker
  | RecoverDispatch dispatch_error
  | RecoverOtherInvalidation
  | RecoverNoCandidate
  | RecoverSecretRequired string
  | RecoverSecretFile
  | RecoverNoProfile
  | RecoverNotConnected
  | RecoverCeremony ceremony_error
  | RecoverRejected string
  | RecoverNoResult
  | RecoverUnsuccessful
  | RecoverUntypedResult
  | RecoverOtherEpoch
  | RecoverNoDeadline
  | RecoverInterrupted

section \<open>Calls and writes\<close>

definition at_target ::
  "('r, 's) recover_env \<Rightarrow> HostOperation \<Rightarrow> ('r, 's) recover_world
   \<Rightarrow> 'r recover_body HostResult option \<times> ('r, 's) recover_world" where
  "at_target E op w =
     (case ve_call E op (vw_target w) of
        (answer, s) \<Rightarrow> (answer, w\<lparr>vw_target := s, vw_events := Called op answer # vw_events w\<rparr>))"

text \<open>The answer of a call, and the completion the phase expects.\<close>

definition expect_completion ::
  "('r recover_body \<Rightarrow> 'v option) \<Rightarrow> 'r recover_body HostResult option \<Rightarrow> recover_error + 'v" where
  "expect_completion pick answer =
     (case answer of
        None \<Rightarrow> Inl RecoverUnreachable
      | Some r \<Rightarrow>
          (case hr_outcome r of
             Failed failure_code _ \<Rightarrow> Inl (RecoverTargetFailed failure_code)
           | Completed body \<Rightarrow>
               (case pick body of None \<Rightarrow> Inl RecoverUnexpected | Some v \<Rightarrow> Inr v)))"

definition save_plan ::
  "('a, 'r) recover_codec \<Rightarrow> commit \<Rightarrow> RecoveryPlan \<Rightarrow> ('r, 's) recover_world
   \<Rightarrow> (recover_error + unit) \<times> ('r, 's) recover_world" where
  "save_plan C outcome p w =
     (case store_plan (vc_externals C) outcome p (vw_slot w) of
        (r, slot) \<Rightarrow> (map_err RecoverPlan r, w\<lparr>vw_slot := slot\<rparr>))"

text \<open>\<open>get_or_insert_with\<close>\<close>

definition or_drawn :: "string option \<Rightarrow> string \<Rightarrow> string" where
  "or_drawn v drawn = (case v of Some i \<Rightarrow> i | None \<Rightarrow> drawn)"

definition candidate_endpoint :: "string \<Rightarrow> RecoveryPlan \<Rightarrow> CandidatePointer \<Rightarrow> RecoveryCandidateEndpoint" where
  "candidate_endpoint deployment_id p c =
     \<lparr>rce_object_reference = cp_object_reference c, rce_object_id = cp_object_id c,
      rce_deployment_id = deployment_id, rce_operation_id = rp_recover_operation_id p,
      rce_loopback_port = cp_loopback_port c, rce_https = cp_https c\<rparr>"

definition clean_candidate ::
  "('a, 'r) recover_codec \<Rightarrow> ('r, 's) recover_env \<Rightarrow> store_site \<Rightarrow> id_site \<Rightarrow> string \<Rightarrow> CandidatePointer
   \<Rightarrow> RecoveryPlan \<Rightarrow> ('r, 's) recover_world \<Rightarrow> (recover_error + RecoveryPlan) \<times> ('r, 's) recover_world" where
  "clean_candidate C E site draw deployment_id c p w =
     (let operation_id = or_drawn (rp_cleanup_operation_id p) (ve_id E draw);
          p1 = p\<lparr>rp_cleanup_operation_id := Some operation_id\<rparr>
      in then_run (save_plan C (ve_store E site) p1 w) (\<lambda>_ w1.
         case at_target E (backup_recovery_candidate_cleanup operation_id deployment_id
             (candidate_endpoint deployment_id p1 c)) w1 of
           (answer, w2) \<Rightarrow>
             (rbind (expect_completion (\<lambda>body. if body = BackupRecoveryCandidateCleaned then Some () else None) answer)
                (\<lambda>_. Inr p1), w2)))"

section \<open>The plan of a run\<close>

definition validate_recovery_snapshot :: "SnapshotProjection \<Rightarrow> recover_error + unit" where
  "validate_recovery_snapshot snapshot = require (sp_restore_tested_at snapshot \<noteq> None) RecoverNotTested"

definition open_plan ::
  "('a, 'r) recover_codec \<Rightarrow> ('r, 's) recover_env \<Rightarrow> recover_request \<Rightarrow> ('r, 's) recover_world
   \<Rightarrow> (recover_error + RecoveryPlan) \<times> ('r, 's) recover_world" where
  "open_plan C E q w =
     attempt (require (ve_journal_opens E) RecoverLocked) w (\<lambda>_.
     attempt (map_err RecoverBinding (validate_lifecycle_binding (vc_registry C) (ve_registry E) (vw_registry w)
         (vq_deployment_id q) (host_host_id (vq_host q)) (ve_uninstall_pending E))) w (\<lambda>_.
     attempt (map_err RecoverPlan (load_plan (vc_externals C) (vc_size C) (vw_slot w))) w (\<lambda>loaded.
     case loaded of
       Some p \<Rightarrow> (if rp_deployment_id p \<noteq> vq_deployment_id q then Inl RecoverOtherDeployment else Inr p, w)
     | None \<Rightarrow>
         attempt (expect RecoverNoSnapshot (ii_snapshot (vq_inspection q))) w (\<lambda>snapshot.
         attempt (validate_recovery_snapshot snapshot) w (\<lambda>_.
           let p = new_plan (ve_id E DrawEpoch) (ve_id E DrawRecover) (vq_deployment_id q)
                 (ii_revision (vq_inspection q)) (sp_manifest_sha256 snapshot)
           in then_run (save_plan C (ve_store E StoreNew) p w) (\<lambda>_ w1. (Inr p, w1)))))))"

text \<open>Another version was asked for: the candidate goes and the recovery stages a new one.\<close>

definition restage :: "string \<Rightarrow> RecoveryPlan \<Rightarrow> RecoveryPlan" where
  "restage requested p =
     p\<lparr>rp_phase := Restoring, rp_target_version := Some requested, rp_candidate_stage_operation_id := None,
       rp_candidate := None, rp_invalidation_operation_id := None, rp_invalidation_request_hash := None,
       rp_candidate_control_operation_id := None, rp_not_before := None, rp_activate_operation_id := None,
       rp_cleanup_operation_id := None\<rparr>"

definition change_version ::
  "('a, 'r) recover_codec \<Rightarrow> ('r, 's) recover_env \<Rightarrow> recover_request \<Rightarrow> RecoveryPlan \<Rightarrow> ('r, 's) recover_world
   \<Rightarrow> (recover_error + RecoveryPlan) \<times> ('r, 's) recover_world" where
  "change_version C E q p w =
     (case vq_version q of
        None \<Rightarrow> (Inr p, w)
      | Some requested \<Rightarrow>
          if rp_target_version p = Some requested then (Inr p, w)
          else then_run
            (case rp_candidate p of
               None \<Rightarrow> (Inr p, w)
             | Some c \<Rightarrow>
                 clean_candidate C E StoreCandidateCleanup DrawCandidateCleanup (vq_deployment_id q) c p w)
            (\<lambda>p1 w1. then_run (save_plan C (ve_store E StoreVersion) (restage requested p1) w1)
              (\<lambda>_ w2. (Inr (restage requested p1), w2))))"

section \<open>Restoring and staging\<close>

definition restore_phase ::
  "('a, 'r) recover_codec \<Rightarrow> ('r, 's) recover_env \<Rightarrow> recover_request \<Rightarrow> RecoveryPlan \<Rightarrow> ('r, 's) recover_world
   \<Rightarrow> (recover_error + RecoveryPlan) \<times> ('r, 's) recover_world" where
  "restore_phase C E q p w =
     (if \<not> (rp_phase p = Restoring \<and> rp_restored_revision p = None) then (Inr p, w)
      else case at_target E (backup_recover (rp_recover_operation_id p) (vq_deployment_id q) (rp_source_revision p)
          (rp_manifest_sha256 p) (rp_state_epoch p)) w of
        (answer, w1) \<Rightarrow>
          attempt (expect_completion
              (\<lambda>body. case body of BackupRecovered manifest revision \<Rightarrow> Some (manifest, revision) | _ \<Rightarrow> None) answer) w1
            (\<lambda>(manifest, revision).
              if manifest \<noteq> rp_manifest_sha256 p \<or> revision \<noteq> rp_source_revision p + 1 then (Inl RecoverUnbound, w1)
              else let p1 = p\<lparr>rp_restored_revision := Some revision\<rparr>
                in then_run (save_plan C (ve_store E StoreRestored) p1 w1) (\<lambda>_ w2. (Inr p1, w2))))"

definition SERVER_REPOSITORY :: string where "SERVER_REPOSITORY = ''nazozero/NazoAuth''"

definition stage_phase ::
  "('a, 'r) recover_codec \<Rightarrow> ('r, 's) recover_env \<Rightarrow> recover_request \<Rightarrow> RecoveryPlan \<Rightarrow> ('r, 's) recover_world
   \<Rightarrow> (recover_error + RecoveryPlan) \<times> ('r, 's) recover_world" where
  "stage_phase C E q p w =
     (if rp_candidate p \<noteq> None then (Inr p, w)
      else attempt (expect RecoverNoRevision (rp_restored_revision p)) w (\<lambda>revision.
        let operation_id = or_drawn (rp_candidate_stage_operation_id p) (ve_id E DrawStage);
            p1 = p\<lparr>rp_candidate_stage_operation_id := Some operation_id\<rparr>
        in then_run (save_plan C (ve_store E StoreStageId) p1 w) (\<lambda>_ w1.
        case at_target E (backup_recovery_candidate_stage operation_id (vq_deployment_id q) revision
            (rp_recover_operation_id p1) (rp_state_epoch p1)
            \<lparr>oa_repository = SERVER_REPOSITORY, oa_version = rp_target_version p1\<rparr>) w1 of
          (answer, w2) \<Rightarrow>
            attempt (expect_completion
                (\<lambda>body. case body of BackupRecoveryCandidateStaged endpoint \<Rightarrow> Some endpoint | _ \<Rightarrow> None) answer) w2
              (\<lambda>endpoint.
                if rce_deployment_id endpoint \<noteq> vq_deployment_id q
                   \<or> rce_operation_id endpoint \<noteq> rp_recover_operation_id p1
                then (Inl RecoverOtherCandidate, w2)
                else let p2 = p1\<lparr>rp_candidate := Some \<lparr>cp_object_reference = rce_object_reference endpoint,
                         cp_object_id = rce_object_id endpoint, cp_loopback_port = rce_loopback_port endpoint,
                         cp_https = rce_https endpoint\<rparr>,
                       rp_phase := Invalidating\<rparr>
                  in then_run (save_plan C (ve_store E StoreCandidate) p2 w2) (\<lambda>_ w3. (Inr p2, w3))))))"

section \<open>Invalidating\<close>

text \<open>The marker of the configuration revision, from a target that still proves the recovery.\<close>

definition restored_target ::
  "('r, 's) recover_env \<Rightarrow> recover_request \<Rightarrow> RecoveryPlan \<Rightarrow> ('r, 's) recover_world
   \<Rightarrow> (recover_error + u64 \<times> string) \<times> ('r, 's) recover_world" where
  "restored_target E q p w =
     (case ve_inspect E (vq_deployment_id q) (vw_target w) of
        (answer, s) \<Rightarrow>
          (rbind (expect RecoverUnreachable answer) (\<lambda>restored.
           rbind (expect RecoverNoRevision (rp_restored_revision p)) (\<lambda>revision.
             if ii_revision restored \<noteq> revision
                \<or> ii_active_host_operation restored \<noteq> Some (rp_recover_operation_id p)
             then Inl RecoverNotProved
             else rbind (expect RecoverNoMarker (ii_config_revision_marker restored)) (\<lambda>marker.
               Inr (revision, marker)))),
           w\<lparr>vw_target := s\<rparr>))"

definition without_ids :: "RecoveryPlan \<Rightarrow> RecoveryPlan" where
  "without_ids p = p\<lparr>rp_invalidation_operation_id := None, rp_invalidation_request_hash := None,
     rp_candidate_control_operation_id := None\<rparr>"

definition drop_stale_ids ::
  "('a, 'r) recover_codec \<Rightarrow> 's round_env \<Rightarrow> recover_request \<Rightarrow> RecoveryPlan \<Rightarrow> ('r, 's) recover_world
   \<Rightarrow> (recover_error + RecoveryPlan) \<times> ('r, 's) recover_world" where
  "drop_stale_ids C I q p w =
     attempt (map_err (\<lambda>e. RecoverDispatch (SlotFailed e))
         (load_slot (vc_externals C) (vc_protocol C) (id_journal (vw_dirs w (vq_deployment_id q))))) w (\<lambda>journaled.
       if journaled = None \<and> (rp_invalidation_operation_id p \<noteq> None \<or> rp_invalidation_request_hash p \<noteq> None)
       then then_run (save_plan C (iv_store I StoreStale) (without_ids p) w) (\<lambda>_ w1. (Inr (without_ids p), w1))
       else (Inr p, w))"

definition prepare_invalidation ::
  "('a, 'r) recover_codec \<Rightarrow> 's round_env \<Rightarrow> recover_request \<Rightarrow> string \<Rightarrow> RecoveryPlan \<Rightarrow> ('r, 's) recover_world
   \<Rightarrow> (recover_error + 'a PreparedOperation) \<times> ('r, 's) recover_world" where
  "prepare_invalidation C I q config_revision p w =
     (case prepare_control_operation (vc_registry C) (vc_keys C) (vc_protocol C) (iv_registry I) (iv_key I)
         (iv_dispatched I) (iv_operation_id I) (iv_now I) (vw_registry w) (vq_deployment_id q) (vq_deployment_id q)
         \<lparr>ci_operation = RecoveryInvalidate (vc_invalidate C (rp_state_epoch p)), ci_config_revision = config_revision\<rparr>
         (vw_dirs w) of
        (r, dirs) \<Rightarrow> (map_err RecoverDispatch r, w\<lparr>vw_dirs := dirs\<rparr>))"

definition bind_prepared ::
  "('a, 'r) recover_codec \<Rightarrow> 's round_env \<Rightarrow> 'a PreparedOperation \<Rightarrow> RecoveryPlan \<Rightarrow> ('r, 's) recover_world
   \<Rightarrow> (recover_error + RecoveryPlan) \<times> ('r, 's) recover_world" where
  "bind_prepared C I prepared p w =
     (let signed = pp_signed prepared; operation_id = co_operation_id (sg_operation signed);
          request_hash = sg_request_hash signed
      in case (rp_invalidation_operation_id p, rp_invalidation_request_hash p) of
           (None, None) \<Rightarrow>
             (let p1 = p\<lparr>rp_invalidation_operation_id := Some operation_id,
                rp_invalidation_request_hash := Some request_hash\<rparr>
              in then_run (save_plan C (iv_store I StoreIds) p1 w) (\<lambda>_ w1. (Inr p1, w1)))
         | (Some i, Some h) \<Rightarrow>
             (if i = operation_id \<and> h = request_hash then Inr p else Inl RecoverOtherInvalidation, w)
         | _ \<Rightarrow> (Inl RecoverOtherInvalidation, w))"

text \<open>The operation is sent wrapped in a call to the candidate, under an id recorded before.\<close>

definition send_invalidation ::
  "('a, 'r) recover_codec \<Rightarrow> ('r, 's) recover_env \<Rightarrow> 's round_env \<Rightarrow> recover_request \<Rightarrow> u64 \<Rightarrow> 'a PreparedOperation
   \<Rightarrow> RecoveryPlan \<Rightarrow> ('r, 's) recover_world
   \<Rightarrow> (recover_error + RecoveryPlan \<times> 'r DispatchVerdict) \<times> ('r, 's) recover_world" where
  "send_invalidation C E I q revision prepared p w =
     attempt (expect RecoverNoCandidate (rp_candidate p)) w (\<lambda>c.
       let wrapper_id = or_drawn (rp_candidate_control_operation_id p) (iv_wrapper_id I);
           p1 = p\<lparr>rp_candidate_control_operation_id := Some wrapper_id\<rparr>;
           operation_id = co_operation_id (sg_operation (pp_signed prepared))
       in then_run (save_plan C (iv_store I StoreWrapperId) p1 w) (\<lambda>_ w1.
       case at_target E (backup_recovery_candidate_control wrapper_id (vq_deployment_id q) revision
           (candidate_endpoint (vq_deployment_id q) p1 c) (rp_state_epoch p1) operation_id
           (sg_compact_jws (pp_signed prepared))) w1 of
         (answer, w2) \<Rightarrow>
           (rbind (expect RecoverUnreachable answer) (\<lambda>host_result.
            map_err RecoverDispatch
              (rbind (control_operation_receipt (vc_protocol C) control_result_in operation_id (hr_outcome host_result))
                (\<lambda>receipt. rbind (classify_receipt (vc_protocol C) prepared receipt) (\<lambda>verdict. Inr (p1, verdict))))),
            w2)))"

definition settle_invalidation ::
  "('a, 'r) recover_codec \<Rightarrow> 's round_env \<Rightarrow> string \<Rightarrow> 'a PreparedOperation \<Rightarrow> 'r DispatchVerdict
   \<Rightarrow> ('r, 's) recover_world \<Rightarrow> (recover_error + unit) \<times> ('r, 's) recover_world" where
  "settle_invalidation C I d prepared verdict w =
     (case settle_journal (vc_externals C) (vc_protocol C) (iv_settle I) (iv_settle_2 I) (iv_now I) prepared verdict
         True (id_journal (vw_dirs w d)) of
        (r, slot) \<Rightarrow>
          (map_err RecoverDispatch r,
           w\<lparr>vw_dirs := (vw_dirs w)(d := (vw_dirs w d)\<lparr>id_journal := slot\<rparr>)\<rparr>))"

definition requires_controller_identity_recovery :: "string \<Rightarrow> bool" where
  "requires_controller_identity_recovery rejection \<longleftrightarrow> rejection = ''CONTROLLER_KEY_UNAUTHORIZED''"

definition select_recovery_ceremony_route ::
  "HostTransport \<Rightarrow> string option \<Rightarrow> u16 \<Rightarrow> recover_error + RecoveryCeremonyRoute" where
  "select_recovery_ceremony_route transport ssh_profile candidate_loopback_port =
     (case transport of
        LocalTransport \<Rightarrow> Inr (DirectLoopback candidate_loopback_port)
      | SshTransport \<Rightarrow>
          rbind (expect RecoverNoProfile ssh_profile) (\<lambda>profile.
            Inr (SshForward profile candidate_loopback_port)))"

definition line_end :: "char \<Rightarrow> bool" where
  "line_end c \<longleftrightarrow> c = CHR 0x0D \<or> c = CHR 0x0A"

definition read_recovery_secret_file :: "string option \<Rightarrow> recover_error + string" where
  "read_recovery_secret_file contents =
     rbind (expect RecoverSecretFile contents) (\<lambda>text.
       let secret = rev (dropWhile line_end (rev text))
       in if secret = [] then Inl RecoverSecretFile else Inr secret)"

definition run_ceremony ::
  "('a, 'r) recover_codec \<Rightarrow> 's round_env \<Rightarrow> string \<Rightarrow> string \<Rightarrow> ('r, 's) recover_world
   \<Rightarrow> (recover_error + unit) \<times> ('r, 's) recover_world" where
  "run_ceremony C I d secret w =
     (case recover_controller_identity (vc_registry C) (vc_keys C) (vc_crypto C) (iv_ceremony I) d secret
         ''recovered-controller''
         \<lparr>cw_dir = vw_dirs w d, cw_registry = vw_registry w, cw_pending = vw_pending w, cw_server = vw_target w\<rparr> of
        (r, cw) \<Rightarrow>
          (map_err RecoverCeremony (rbind r (\<lambda>_. Inr ())),
           w\<lparr>vw_dirs := (vw_dirs w)(d := cw_dir cw), vw_registry := cw_registry cw,
             vw_pending := cw_pending cw, vw_target := cw_server cw\<rparr>))"

text \<open>The restored registry does not know the controller's key: it is re-established.\<close>

definition recover_identity ::
  "('a, 'r) recover_codec \<Rightarrow> 's round_env \<Rightarrow> recover_request \<Rightarrow> string option \<Rightarrow> RecoveryPlan
   \<Rightarrow> ('r, 's) recover_world \<Rightarrow> (recover_error + RecoveryPlan) \<times> ('r, 's) recover_world" where
  "recover_identity C I q contents p w =
     then_run (save_plan C (iv_store I StoreWithoutIds) (without_ids p) w) (\<lambda>_ w1.
     attempt (expect RecoverNoCandidate (rp_candidate p)) w1 (\<lambda>c.
     attempt (read_recovery_secret_file contents) w1 (\<lambda>secret.
     attempt (select_recovery_ceremony_route (host_transport (vq_host q)) (host_ssh_profile (vq_host q))
         (cp_loopback_port c)) w1 (\<lambda>route.
     attempt (require (iv_connects I route) RecoverNotConnected) w1 (\<lambda>_.
     then_run (run_ceremony C I (vq_deployment_id q) secret w1) (\<lambda>_ w2. (Inr (without_ids p), w2)))))))"

definition conclude_invalidation ::
  "('a, 'r) recover_codec \<Rightarrow> 's round_env \<Rightarrow> recover_request \<Rightarrow> 'a PreparedOperation \<Rightarrow> 'r DispatchVerdict
   \<Rightarrow> RecoveryPlan \<Rightarrow> ('r, 's) recover_world \<Rightarrow> (recover_error + RecoveryPlan) \<times> ('r, 's) recover_world" where
  "conclude_invalidation C I q prepared verdict p w =
     (let settle = settle_invalidation C I (vq_deployment_id q) prepared verdict;
          drop_then_fail = (\<lambda>e.
            then_run (save_plan C (iv_store I StoreWithoutIds) (without_ids p) w) (\<lambda>_ w1.
            then_run (settle w1) (\<lambda>_ w2. (Inl e, w2))))
      in case verdict of
           DefinitivelyRejected rejection \<Rightarrow>
             if requires_controller_identity_recovery rejection
             then then_run (settle w) (\<lambda>_ w1.
               case vq_recovery_secret_file q of
                 None \<Rightarrow> (Inl (RecoverSecretRequired rejection), w1)
               | Some contents \<Rightarrow> recover_identity C I q contents p w1)
             else drop_then_fail (RecoverRejected rejection)
         | OutcomeUnknown \<Rightarrow> then_run (settle w) (\<lambda>_ w1. (Inl RecoverNoResult, w1))
         | InProgressAccepted \<Rightarrow> then_run (settle w) (\<lambda>_ w1. (Inl RecoverNoResult, w1))
         | Terminal result \<Rightarrow>
             if cr_outcome result \<noteq> OutcomeSucceeded then drop_then_fail RecoverUnsuccessful
             else case cr_result result of
                 Some (RecoveryInvalidation facts) \<Rightarrow>
                   (case vc_facts C facts of
                      (state_epoch, not_before) \<Rightarrow>
                        if state_epoch \<noteq> rp_state_epoch p then (Inl RecoverOtherEpoch, w)
                        else let p1 = p\<lparr>rp_not_before := Some not_before, rp_phase := WaitingForDeadline\<rparr>
                          in then_run (save_plan C (iv_store I StoreDeadline) p1 w) (\<lambda>_ w1.
                             then_run (settle w1) (\<lambda>_ w2. (Inr p1, w2))))
               | _ \<Rightarrow> (Inl RecoverUntypedResult, w))"

definition invalidation_round ::
  "('a, 'r) recover_codec \<Rightarrow> ('r, 's) recover_env \<Rightarrow> 's round_env \<Rightarrow> recover_request \<Rightarrow> RecoveryPlan
   \<Rightarrow> ('r, 's) recover_world \<Rightarrow> (recover_error + RecoveryPlan) \<times> ('r, 's) recover_world" where
  "invalidation_round C E I q p w =
     then_run (restored_target E q p w) (\<lambda>(revision, marker) w1.
     then_run (drop_stale_ids C I q p w1) (\<lambda>p2 w2.
     then_run (prepare_invalidation C I q marker p2 w2) (\<lambda>prepared w3.
     then_run (bind_prepared C I prepared p2 w3) (\<lambda>p4 w4.
     then_run (send_invalidation C E I q revision prepared p4 w4) (\<lambda>(p5, verdict) w5.
     conclude_invalidation C I q prepared verdict p5 w5)))))"

text \<open>One environment for each round; the run that outlives them was interrupted.\<close>

fun invalidate ::
  "('a, 'r) recover_codec \<Rightarrow> ('r, 's) recover_env \<Rightarrow> recover_request \<Rightarrow> 's round_env list \<Rightarrow> RecoveryPlan
   \<Rightarrow> ('r, 's) recover_world \<Rightarrow> (recover_error + RecoveryPlan) \<times> ('r, 's) recover_world" where
  "invalidate C E q [] p w = (if rp_phase p = Invalidating then Inl RecoverInterrupted else Inr p, w)"
| "invalidate C E q (I # Is) p w =
     (if rp_phase p \<noteq> Invalidating then (Inr p, w)
      else then_run (invalidation_round C E I q p w) (\<lambda>p1 w1. invalidate C E q Is p1 w1))"

section \<open>Waiting, activating, cleaning up\<close>

text \<open>The readings of the clock the loop makes; between them it sleeps.\<close>

fun wait_until ::
  "int \<Rightarrow> int list \<Rightarrow> ('r, 's) recover_world \<Rightarrow> (recover_error + unit) \<times> ('r, 's) recover_world" where
  "wait_until not_before [] w = (Inl RecoverInterrupted, w)"
| "wait_until not_before (now # later) w =
     (let w1 = w\<lparr>vw_events := ClockRead now # vw_events w\<rparr>
      in if now \<le> not_before then wait_until not_before later w1 else (Inr (), w1))"

definition activate_phase ::
  "('a, 'r) recover_codec \<Rightarrow> ('r, 's) recover_env \<Rightarrow> recover_request \<Rightarrow> RecoveryPlan \<Rightarrow> ('r, 's) recover_world
   \<Rightarrow> (recover_error + RecoveryPlan) \<times> ('r, 's) recover_world" where
  "activate_phase C E q p w =
     (if rp_phase p \<noteq> WaitingForDeadline then (Inr p, w)
      else attempt (expect RecoverNoDeadline (rp_not_before p)) w (\<lambda>not_before.
        then_run (wait_until not_before (ve_clock E) w) (\<lambda>_ w1.
        attempt (expect RecoverNoRevision (rp_restored_revision p)) w1 (\<lambda>revision.
          let operation_id = or_drawn (rp_activate_operation_id p) (ve_id E DrawActivate);
              p1 = p\<lparr>rp_activate_operation_id := Some operation_id\<rparr>
          in then_run (save_plan C (ve_store E StoreActivateId) p1 w1) (\<lambda>_ w2.
          case at_target E (backup_recovery_activate operation_id (vq_deployment_id q) revision
              (rp_recover_operation_id p1) (rp_state_epoch p1) not_before) w2 of
            (answer, w3) \<Rightarrow>
              attempt (expect_completion (\<lambda>body. if body = BackupRecoveryActivated then Some () else None) answer) w3
                (\<lambda>_. let p2 = p1\<lparr>rp_phase := CleanupPending\<rparr>
                  in then_run (save_plan C (ve_store E StoreActivated) p2 w3) (\<lambda>_ w4. (Inr p2, w4))))))))"

definition cleanup_phase ::
  "('a, 'r) recover_codec \<Rightarrow> ('r, 's) recover_env \<Rightarrow> recover_request \<Rightarrow> RecoveryPlan \<Rightarrow> ('r, 's) recover_world
   \<Rightarrow> (recover_error + unit) \<times> ('r, 's) recover_world" where
  "cleanup_phase C E q p w =
     (if rp_phase p \<noteq> CleanupPending then (Inr (), w)
      else attempt (expect RecoverNoCandidate (rp_candidate p)) w (\<lambda>c.
        then_run (clean_candidate C E StoreCleanupId DrawCleanup (vq_deployment_id q) c p w) (\<lambda>_ w1.
          case clear_plan (ve_store E StoreClear) (vw_slot w1) of
            (r, slot) \<Rightarrow> (map_err RecoverPlan r, w1\<lparr>vw_slot := slot\<rparr>))))"

section \<open>The command\<close>

definition run_recover ::
  "('a, 'r) recover_codec \<Rightarrow> ('r, 's) recover_env \<Rightarrow> 's round_env list \<Rightarrow> recover_request \<Rightarrow> ('r, 's) recover_world
   \<Rightarrow> (recover_error + unit) \<times> ('r, 's) recover_world" where
  "run_recover C E Is q w =
     then_run (open_plan C E q w) (\<lambda>p w.
     then_run (change_version C E q p w) (\<lambda>p w.
     then_run (restore_phase C E q p w) (\<lambda>p w.
     then_run (stage_phase C E q p w) (\<lambda>p w.
     then_run (invalidate C E q Is p w) (\<lambda>p w.
     then_run (activate_phase C E q p w) (\<lambda>p w.
     cleanup_phase C E q p w))))))"

end
