(* ===== verification/RecoverProofs.thy ===== *)
theory RecoverProofs
  imports RecoverRun
begin

text \<open>
  What a recovery has established when its journal says so. A run is followed phase by phase: each
  keeps the invariant of the journal, whatever fails, and hands a plan on that the calls so far bear
  out.
\<close>

section \<open>Evidence in the calls\<close>

definition restored_by :: "'r recover_event list \<Rightarrow> RecoveryPlan \<Rightarrow> bool" where
  "restored_by es p \<longleftrightarrow>
     (\<exists>r. Called (backup_recover (rp_recover_operation_id p) (rp_deployment_id p) (rp_source_revision p)
            (rp_manifest_sha256 p) (rp_state_epoch p)) (Some r) \<in> set es
        \<and> hr_outcome r = Completed (BackupRecovered (rp_manifest_sha256 p) (rp_source_revision p + 1)))"

text \<open>A candidate confirmed the invalidation of the epoch, with this deadline.\<close>

definition invalidated :: "('a, 'r) recover_codec \<Rightarrow> 'r recover_event list \<Rightarrow> string \<Rightarrow> int \<Rightarrow> bool" where
  "invalidated C es epoch not_before \<longleftrightarrow>
     (\<exists>op r endpoint control jws body result facts. Called op (Some r) \<in> set es
        \<and> ho_operation op = BackupRecoveryCandidateControl endpoint epoch control jws
        \<and> hr_outcome r = Completed body \<and> control_result_in body = Some result
        \<and> cr_outcome result = OutcomeSucceeded \<and> cr_operation_id result = control
        \<and> cr_result result = Some (RecoveryInvalidation facts) \<and> vc_facts C facts = (epoch, not_before))"

definition activated_by :: "'r recover_event list \<Rightarrow> RecoveryPlan \<Rightarrow> int \<Rightarrow> bool" where
  "activated_by es p not_before \<longleftrightarrow>
     (\<exists>i r. Called (backup_recovery_activate i (rp_deployment_id p) (rp_source_revision p + 1)
            (rp_recover_operation_id p) (rp_state_epoch p) not_before) (Some r) \<in> set es
        \<and> hr_outcome r = Completed BackupRecoveryActivated)"

text \<open>The events before an activation: an invalidation, and later a clock past its deadline.\<close>

definition deadline_passed :: "('a, 'r) recover_codec \<Rightarrow> 'r recover_event list \<Rightarrow> string \<Rightarrow> int \<Rightarrow> bool" where
  "deadline_passed C es epoch not_before \<longleftrightarrow>
     (\<exists>newer now older. es = newer @ ClockRead now # older \<and> not_before < now \<and> invalidated C older epoch not_before)"

fun justified :: "('a, 'r) recover_codec \<Rightarrow> 'r recover_event list \<Rightarrow> bool" where
  "justified C [] \<longleftrightarrow> True"
| "justified C (ClockRead t # es) \<longleftrightarrow> justified C es"
| "justified C (Called op answer # es) \<longleftrightarrow> justified C es \<and>
     (case ho_operation op of
        BackupRecoveryActivate recovery epoch not_before \<Rightarrow> deadline_passed C es epoch not_before
      | _ \<Rightarrow> True)"

lemma justified_split:
  "justified C (newer @ Called op answer # older) \<Longrightarrow> ho_operation op = BackupRecoveryActivate recovery epoch nb
   \<Longrightarrow> deadline_passed C older epoch nb"
proof (induction newer)
  case (Cons e es)
  then show ?case by (cases e) simp_all
qed simp

section \<open>The invariant\<close>

definition same_recovery :: "RecoveryPlan \<Rightarrow> RecoveryPlan \<Rightarrow> bool" where
  "same_recovery p p' \<longleftrightarrow>
     rp_deployment_id p' = rp_deployment_id p \<and> rp_source_revision p' = rp_source_revision p
     \<and> rp_manifest_sha256 p' = rp_manifest_sha256 p \<and> rp_state_epoch p' = rp_state_epoch p
     \<and> rp_recover_operation_id p' = rp_recover_operation_id p"

text \<open>What the events bear out of a plan of the recovery \<open>p0\<close>.\<close>

definition borne_out :: "('a, 'r) recover_codec \<Rightarrow> RecoveryPlan \<Rightarrow> 'r recover_event list \<Rightarrow> RecoveryPlan \<Rightarrow> bool" where
  "borne_out C p0 es p \<longleftrightarrow>
     same_recovery p0 p
     \<and> (rp_phase p = Restoring \<longleftrightarrow> rp_candidate p = None)
     \<and> (case rp_restored_revision p of
          None \<Rightarrow> rp_phase p = Restoring
        | Some revision \<Rightarrow> revision = rp_source_revision p0 + 1 \<and> restored_by es p0)
     \<and> (rp_phase p \<in> {WaitingForDeadline, CleanupPending} \<longrightarrow>
          (\<exists>nb. rp_not_before p = Some nb \<and> invalidated C es (rp_state_epoch p0) nb
             \<and> (rp_phase p = CleanupPending \<longrightarrow> activated_by es p0 nb)))"

definition journal_ok :: "('a, 'r) recover_codec \<Rightarrow> RecoveryPlan \<Rightarrow> ('r, 's) recover_world \<Rightarrow> bool" where
  "journal_ok C p0 w \<longleftrightarrow> justified C (vw_events w) \<and>
     (vw_slot w = None \<or>
      (\<exists>p. vw_slot w = Some (record_file.Record (PlanDoc p)) \<and> validate_plan (vc_externals C) p = Inr ()
         \<and> borne_out C p0 (vw_events w) p))"

lemma same_recovery_refl [simp]: "same_recovery p p"
  by (simp add: same_recovery_def)

lemma same_recovery_update [simp]:
  "same_recovery p0 (p\<lparr>rp_phase := a\<rparr>) \<longleftrightarrow> same_recovery p0 p"
  "same_recovery p0 (p\<lparr>rp_restored_revision := b\<rparr>) \<longleftrightarrow> same_recovery p0 p"
  "same_recovery p0 (p\<lparr>rp_candidate := c\<rparr>) \<longleftrightarrow> same_recovery p0 p"
  "same_recovery p0 (p\<lparr>rp_not_before := d\<rparr>) \<longleftrightarrow> same_recovery p0 p"
  "same_recovery p0 (restage v p) \<longleftrightarrow> same_recovery p0 p"
  by (simp_all add: same_recovery_def restage_def)

lemma evidence_grows:
  assumes "set es \<subseteq> set es'"
  shows "restored_by es p \<Longrightarrow> restored_by es' p" "invalidated C es epoch nb \<Longrightarrow> invalidated C es' epoch nb"
    "activated_by es p nb \<Longrightarrow> activated_by es' p nb"
  using assms unfolding restored_by_def invalidated_def activated_by_def by blast+

lemma borne_out_grows: "borne_out C p0 es p \<Longrightarrow> set es \<subseteq> set es' \<Longrightarrow> borne_out C p0 es' p"
  using evidence_grows [of es es'] unfolding borne_out_def by (auto split: option.splits)

text \<open>The ids of single calls play no part in it.\<close>

lemma borne_out_ids [simp]:
  "borne_out C p0 es (p\<lparr>rp_candidate_stage_operation_id := a\<rparr>) \<longleftrightarrow> borne_out C p0 es p"
  "borne_out C p0 es (p\<lparr>rp_invalidation_operation_id := a\<rparr>) \<longleftrightarrow> borne_out C p0 es p"
  "borne_out C p0 es (p\<lparr>rp_invalidation_request_hash := a\<rparr>) \<longleftrightarrow> borne_out C p0 es p"
  "borne_out C p0 es (p\<lparr>rp_candidate_control_operation_id := a\<rparr>) \<longleftrightarrow> borne_out C p0 es p"
  "borne_out C p0 es (p\<lparr>rp_activate_operation_id := a\<rparr>) \<longleftrightarrow> borne_out C p0 es p"
  "borne_out C p0 es (p\<lparr>rp_cleanup_operation_id := a\<rparr>) \<longleftrightarrow> borne_out C p0 es p"
  by (simp_all add: borne_out_def same_recovery_def cong: option.case_cong)

lemma borne_out_without_ids [simp]: "borne_out C p0 es (without_ids p) \<longleftrightarrow> borne_out C p0 es p"
  by (simp add: without_ids_def)

lemma borne_out_restage: "borne_out C p0 es p \<Longrightarrow> borne_out C p0 es (restage v p)"
  by (auto simp: borne_out_def restage_def same_recovery_def split: option.splits)

section \<open>Following a run\<close>

text \<open>Whatever a part answers, the journal is in order; and what it answers is right.\<close>

definition follows ::
  "('a, 'r) recover_codec \<Rightarrow> RecoveryPlan \<Rightarrow> ('v \<Rightarrow> ('r, 's) recover_world \<Rightarrow> bool)
   \<Rightarrow> ('e + 'v) \<times> ('r, 's) recover_world \<Rightarrow> bool" where
  "follows C p0 R out \<longleftrightarrow> journal_ok C p0 (snd out) \<and> (\<forall>v. fst out = Inr v \<longrightarrow> R v (snd out))"

text \<open>The claim of a phase about the plan it hands on.\<close>

definition hands_on ::
  "('a, 'r) recover_codec \<Rightarrow> RecoveryPlan \<Rightarrow> (RecoveryPlan \<Rightarrow> bool) \<Rightarrow> RecoveryPlan \<Rightarrow> ('r, 's) recover_world \<Rightarrow> bool" where
  "hands_on C p0 G p w \<longleftrightarrow> borne_out C p0 (vw_events w) p \<and> G p"

lemma follows_simps [simp]:
  "follows C p0 R (Inl e, w) \<longleftrightarrow> journal_ok C p0 w"
  "follows C p0 R (Inr v, w) \<longleftrightarrow> journal_ok C p0 w \<and> R v w"
  by (simp_all add: follows_def)

lemma follows_then_run:
  assumes "follows C p0 R m" and "\<And>v w. R v w \<Longrightarrow> journal_ok C p0 w \<Longrightarrow> follows C p0 S (k v w)"
  shows "follows C p0 S (then_run m k)"
  using assms by (cases rule: then_run_cases [of m k]) (auto simp: follows_def)

lemma follows_attempt:
  assumes "journal_ok C p0 w" and "\<And>v. r = Inr v \<Longrightarrow> follows C p0 S (k v)"
  shows "follows C p0 S (attempt r w k)"
  using assms by (cases r) auto

lemma follows_rbind:
  "journal_ok C p0 w \<Longrightarrow> (\<And>v. r = Inr v \<Longrightarrow> follows C p0 S (f v, w)) \<Longrightarrow> follows C p0 S (rbind r f, w)"
  by (cases r) auto

lemma journal_ok_same:
  "vw_slot w' = vw_slot w \<Longrightarrow> vw_events w' = vw_events w \<Longrightarrow> journal_ok C p0 w \<Longrightarrow> journal_ok C p0 w'"
  by (simp add: journal_ok_def)

lemma save_plan_follows:
  assumes "journal_ok C p0 w" and "borne_out C p0 (vw_events w) p"
  shows "follows C p0 (\<lambda>_ w'. vw_events w' = vw_events w) (save_plan C outcome p w)"
  using assms
  by (cases rule: store_plan_cases [of "vc_externals C" outcome p "vw_slot w"])
     (auto simp: follows_def save_plan_def journal_ok_def)

lemma save_and_hand_on:
  assumes "journal_ok C p0 w" and "borne_out C p0 (vw_events w) p" and "G p"
  shows "follows C p0 (hands_on C p0 G) (then_run (save_plan C outcome p w) (\<lambda>_ w1. (Inr p, w1)))"
  by (rule follows_then_run [OF save_plan_follows [OF assms(1,2)]])
     (use assms in \<open>auto simp: hands_on_def\<close>)

lemma at_target_ok:
  assumes "at_target E op w = (answer, w')" and "journal_ok C p0 w"
    and "\<And>recovery epoch nb. ho_operation op = BackupRecoveryActivate recovery epoch nb
      \<Longrightarrow> deadline_passed C (vw_events w) epoch nb"
  shows "journal_ok C p0 w' \<and> vw_events w' = Called op answer # vw_events w"
proof -
  have e: "vw_events w' = Called op answer # vw_events w" and s: "vw_slot w' = vw_slot w"
    using assms(1) by (auto simp: at_target_def split: prod.splits)
  have "justified C (vw_events w')"
    using assms(2,3) by (auto simp: e journal_ok_def split: HostOperationBody.split)
  moreover have "borne_out C p0 (vw_events w) p \<Longrightarrow> borne_out C p0 (vw_events w') p" for p
    by (erule borne_out_grows) (auto simp: e)
  ultimately show ?thesis
    using assms(2) e s by (auto simp: journal_ok_def)
qed

lemma expect_completion_Inr:
  "expect_completion pick answer = Inr v \<Longrightarrow>
     \<exists>r body. answer = Some r \<and> hr_outcome r = Completed body \<and> pick body = Some v"
  by (auto simp: expect_completion_def split: option.splits HostOutcome.splits)

text \<open>A call keeps the journal in order, an activation if the deadline has passed.\<close>

lemma call_follows:
  assumes "journal_ok C p0 w"
    and "\<And>recovery epoch nb. ho_operation op = BackupRecoveryActivate recovery epoch nb
      \<Longrightarrow> deadline_passed C (vw_events w) epoch nb"
    and "\<And>answer w'. vw_events w' = Called op answer # vw_events w \<Longrightarrow> journal_ok C p0 w' \<Longrightarrow> follows C p0 S (k answer w')"
  shows "follows C p0 S (case at_target E op w of (answer, w') \<Rightarrow> k answer w')"
proof -
  obtain answer w' where a: "at_target E op w = (answer, w')" by (rule prod.exhaust)
  have "journal_ok C p0 w' \<and> vw_events w' = Called op answer # vw_events w"
    by (rule at_target_ok [OF a assms(1)]) (rule assms(2))
  then show ?thesis using assms(3) by (simp add: a)
qed

lemma borne_out_Cons: "borne_out C p0 es p \<Longrightarrow> borne_out C p0 (e # es) p"
  by (auto intro: borne_out_grows)

lemma recovery_bodies [simp]:
  "ho_operation (backup_recover i d e manifest epoch) = BackupRecover manifest epoch"
  "ho_operation (backup_recovery_candidate_stage i d e recovery epoch artifact)
     = BackupRecoveryCandidateStage recovery epoch artifact"
  "ho_operation (backup_recovery_candidate_cleanup i d endpoint) = BackupRecoveryCandidateCleanup endpoint"
  "ho_operation (backup_recovery_candidate_control i d e endpoint epoch control jws)
     = BackupRecoveryCandidateControl endpoint epoch control jws"
  "ho_operation (backup_recovery_activate i d e recovery epoch nb) = BackupRecoveryActivate recovery epoch nb"
  by (simp_all add: backup_recover_def backup_recovery_candidate_stage_def backup_recovery_candidate_cleanup_def
      backup_recovery_candidate_control_def backup_recovery_activate_def host_operation_def)

section \<open>The phases\<close>

lemma clean_candidate_follows:
  assumes "journal_ok C p0 w" and "borne_out C p0 (vw_events w) p"
  shows "follows C p0 (hands_on C p0 (\<lambda>p'. rp_phase p' = rp_phase p \<and> rp_candidate p' = rp_candidate p))
    (clean_candidate C E site draw d c p w)"
  unfolding clean_candidate_def Let_def
  by (rule follows_then_run [OF save_plan_follows call_follows])
     (use assms in \<open>auto simp: hands_on_def intro!: follows_rbind borne_out_Cons\<close>)

lemma change_version_follows:
  assumes "journal_ok C p0 w" and "borne_out C p0 (vw_events w) p"
  shows "follows C p0 (hands_on C p0 (\<lambda>_. True)) (change_version C E q p w)"
proof -
  have "follows C p0 (hands_on C p0 (\<lambda>_. True)) (case rp_candidate p of None \<Rightarrow> (Inr p, w)
      | Some c \<Rightarrow> clean_candidate C E StoreCandidateCleanup DrawCandidateCleanup (vq_deployment_id q) c p w)"
    using clean_candidate_follows [OF assms] assms
    by (auto simp: follows_def hands_on_def split: option.split)
  moreover have "follows C p0 (hands_on C p0 (\<lambda>_. True)) (then_run (save_plan C s (restage v p1) w1)
      (\<lambda>_ w2. (Inr (restage v p1), w2)))"
    if "hands_on C p0 (\<lambda>_. True) p1 w1" "journal_ok C p0 w1" for s v p1 and w1 :: "('b, 'c) recover_world"
    by (rule save_and_hand_on) (use that in \<open>auto simp: hands_on_def intro: borne_out_restage\<close>)
  ultimately have "follows C p0 (hands_on C p0 (\<lambda>_. True)) (then_run (case rp_candidate p of None \<Rightarrow> (Inr p, w)
      | Some c \<Rightarrow> clean_candidate C E StoreCandidateCleanup DrawCandidateCleanup (vq_deployment_id q) c p w)
      (\<lambda>p1 w1. then_run (save_plan C (ve_store E StoreVersion) (restage v p1) w1) (\<lambda>_ w2. (Inr (restage v p1), w2))))" for v
    by (rule follows_then_run)
  then show ?thesis
    using assms by (simp add: change_version_def hands_on_def split: option.split)
qed

lemma restored_plan_borne_out:
  assumes "borne_out C p0 es p" and "rp_phase p = Restoring" and "d = rp_deployment_id p0"
    and "hr_outcome r = Completed (BackupRecovered (rp_manifest_sha256 p) (rp_source_revision p + 1))"
  shows "borne_out C p0 (Called (backup_recover (rp_recover_operation_id p) d (rp_source_revision p)
    (rp_manifest_sha256 p) (rp_state_epoch p)) (Some r) # es) (p\<lparr>rp_restored_revision := Some (rp_source_revision p + 1)\<rparr>)"
  using assms by (auto simp: borne_out_def same_recovery_def restored_by_def split: option.splits)

lemma restore_phase_follows:
  assumes "journal_ok C p0 w" and "borne_out C p0 (vw_events w) p" and d: "vq_deployment_id q = rp_deployment_id p0"
  shows "follows C p0 (hands_on C p0 (\<lambda>_. True)) (restore_phase C E q p w)"
proof (cases "rp_phase p = Restoring \<and> rp_restored_revision p = None")
  case True
  show ?thesis
    unfolding restore_phase_def Let_def
    by (simp only: True simp_thms if_False, rule call_follows [OF assms(1)], simp, rule follows_attempt)
       (use True assms in \<open>auto simp: restored_plan_borne_out intro!: save_and_hand_on
          split: recover_body.splits dest!: expect_completion_Inr\<close>)
next
  case False
  then show ?thesis using assms by (simp add: restore_phase_def hands_on_def)
qed

lemma stage_phase_follows:
  assumes "journal_ok C p0 w" and "borne_out C p0 (vw_events w) p"
  shows "follows C p0 (hands_on C p0 (\<lambda>p'. rp_phase p' \<noteq> Restoring)) (stage_phase C E q p w)"
proof (cases "rp_candidate p")
  case (Some c)
  then show ?thesis using assms by (auto simp: stage_phase_def hands_on_def borne_out_def)
next
  case None
  have staged: "borne_out C p0 (e # es) (p\<lparr>rp_candidate_stage_operation_id := i, rp_candidate := Some c, rp_phase := Invalidating\<rparr>)"
    if "rp_restored_revision p = Some rev" "borne_out C p0 es p" for e es i c rev
    using borne_out_Cons [OF that(2), of e] that(1) by (simp add: borne_out_def same_recovery_def)
  show ?thesis
    unfolding stage_phase_def Let_def
    by (simp only: None simp_thms if_False, rule follows_attempt [OF assms(1)], rule follows_then_run,
        rule save_plan_follows [OF assms(1)], simp add: assms(2), rule call_follows, assumption, simp, rule follows_attempt)
       (use assms staged in \<open>auto intro!: save_and_hand_on\<close>)
qed

section \<open>The invalidation\<close>

text \<open>A terminal result that a candidate answered to an invalidation of the epoch.\<close>

definition answered_by_candidate :: "'r recover_event list \<Rightarrow> string \<Rightarrow> 'r ControlResult \<Rightarrow> bool" where
  "answered_by_candidate es epoch result \<longleftrightarrow>
     (\<exists>op r endpoint control jws body. Called op (Some r) \<in> set es
        \<and> ho_operation op = BackupRecoveryCandidateControl endpoint epoch control jws
        \<and> hr_outcome r = Completed body \<and> control_result_in body = Some result \<and> cr_operation_id result = control)"

lemma answered_invalidates:
  "answered_by_candidate es epoch result \<Longrightarrow> cr_outcome result = OutcomeSucceeded
   \<Longrightarrow> cr_result result = Some (RecoveryInvalidation facts) \<Longrightarrow> vc_facts C facts = (epoch, nb)
   \<Longrightarrow> invalidated C es epoch nb"
  unfolding answered_by_candidate_def invalidated_def by blast

lemma terminal_receipt:
  assumes "control_operation_receipt P f i outcome = Inr receipt" and "classify_receipt P prepared receipt = Inr (Terminal result)"
  shows "\<exists>body. outcome = Completed body \<and> f body = Some result \<and> cr_operation_id result = i"
  using assms
  by (auto simp: control_operation_receipt_def accepted_control_operation_receipt_def classify_receipt_def
      rbind_Inr_iff split: HostOutcome.splits option.splits if_splits ControlOutcome.splits)

abbreviation invalidating ::
  "('a, 'r) recover_codec \<Rightarrow> RecoveryPlan \<Rightarrow> RecoveryPlan \<Rightarrow> ('r, 's) recover_world \<Rightarrow> bool" where
  "invalidating C p0 \<equiv> hands_on C p0 (\<lambda>p. rp_phase p = Invalidating)"

lemma restored_target_follows:
  assumes "journal_ok C p0 w"
  shows "follows C p0 (\<lambda>_ w'. vw_events w' = vw_events w) (restored_target E q p w)"
  using assms
  by (auto simp: restored_target_def follows_def intro: journal_ok_same [of _ w] split: prod.split)

lemma drop_stale_ids_follows:
  assumes "journal_ok C p0 w" and "invalidating C p0 p w"
  shows "follows C p0 (invalidating C p0) (drop_stale_ids C I q p w)"
  unfolding drop_stale_ids_def
  by (rule follows_attempt [OF assms(1)])
     (use assms in \<open>auto simp: hands_on_def without_ids_def intro!: save_and_hand_on\<close>)

lemma prepare_invalidation_follows:
  assumes "journal_ok C p0 w"
  shows "follows C p0 (\<lambda>_ w'. vw_events w' = vw_events w) (prepare_invalidation C I q marker p w)"
  using assms
  by (auto simp: prepare_invalidation_def follows_def intro: journal_ok_same [of _ w] split: prod.split)

lemma bind_prepared_follows:
  assumes "journal_ok C p0 w" and "invalidating C p0 p w"
  shows "follows C p0 (invalidating C p0) (bind_prepared C I prepared p w)"
  using assms
  by (auto simp: bind_prepared_def Let_def hands_on_def intro!: save_and_hand_on split: option.split)

lemma settle_invalidation_follows:
  assumes "journal_ok C p0 w"
  shows "follows C p0 (\<lambda>_ w'. vw_events w' = vw_events w) (settle_invalidation C I d prepared verdict w)"
  using assms
  by (auto simp: settle_invalidation_def follows_def intro: journal_ok_same [of _ w] split: prod.split)

lemma run_ceremony_follows:
  assumes "journal_ok C p0 w"
  shows "follows C p0 (\<lambda>_ w'. vw_events w' = vw_events w) (run_ceremony C I d secret w)"
  using assms
  by (auto simp: run_ceremony_def follows_def intro: journal_ok_same [of _ w] split: prod.split)

lemma send_invalidation_follows:
  assumes "journal_ok C p0 w" and "invalidating C p0 p w"
  shows "follows C p0 (\<lambda>(p', verdict) w'. invalidating C p0 p' w' \<and>
      (\<forall>result. verdict = Terminal result \<longrightarrow> answered_by_candidate (vw_events w') (rp_state_epoch p') result))
    (send_invalidation C E I q revision prepared p w)"
  unfolding send_invalidation_def Let_def
proof (rule follows_attempt [OF assms(1)], rule follows_then_run, rule save_plan_follows [OF assms(1)],
    use assms(2) in \<open>simp add: hands_on_def\<close>, rule call_follows, assumption, simp, rule follows_rbind, assumption)
  fix c u and w1 w2 :: "('b, 'c) recover_world" and answer r
  let ?p = "p\<lparr>rp_candidate_control_operation_id := Some (or_drawn (rp_candidate_control_operation_id p) (iv_wrapper_id I))\<rparr>"
  let ?i = "co_operation_id (sg_operation (pp_signed prepared))"
  let ?op = "backup_recovery_candidate_control (or_drawn (rp_candidate_control_operation_id p) (iv_wrapper_id I))
      (vq_deployment_id q) revision (candidate_endpoint (vq_deployment_id q) ?p c) (rp_state_epoch ?p) ?i
      (sg_compact_jws (pp_signed prepared))"
  assume w2: "vw_events w1 = vw_events w" "vw_events w2 = Called ?op answer # vw_events w1" "journal_ok C p0 w2"
    and r: "expect RecoverUnreachable answer = Inr r"
  have "answered_by_candidate (vw_events w2) (rp_state_epoch ?p) result"
    if "control_operation_receipt (vc_protocol C) control_result_in ?i (hr_outcome r) = Inr receipt"
      "classify_receipt (vc_protocol C) prepared receipt = Inr (Terminal result)" for receipt result
  proof -
    from terminal_receipt [OF that] obtain body where b: "hr_outcome r = Completed body"
        "control_result_in body = Some result" "cr_operation_id result = ?i"
      by (elim exE conjE)
    then show ?thesis
      unfolding answered_by_candidate_def
      by (intro exI [of _ ?op] exI [of _ r] exI conjI) (use w2 r in auto)
  qed
  then show "follows C p0 (\<lambda>(p', verdict) w'. invalidating C p0 p' w' \<and>
      (\<forall>result. verdict = Terminal result \<longrightarrow> answered_by_candidate (vw_events w') (rp_state_epoch p') result))
    (map_err RecoverDispatch (rbind (control_operation_receipt (vc_protocol C) control_result_in ?i (hr_outcome r))
      (\<lambda>receipt. rbind (classify_receipt (vc_protocol C) prepared receipt) (\<lambda>verdict. Inr (?p, verdict)))), w2)"
    using w2 assms(2) by (auto simp: follows_def rbind_Inr_iff hands_on_def intro!: borne_out_Cons)
qed

lemma settle_then_fail:
  assumes "journal_ok C p0 w"
  shows "follows C p0 R (then_run (settle_invalidation C I d prepared verdict w) (\<lambda>_ w'. (Inl e, w')))"
  by (rule follows_then_run [OF settle_invalidation_follows [OF assms]]) simp

lemma recover_identity_follows:
  assumes "journal_ok C p0 w" and "invalidating C p0 p w"
  shows "follows C p0 (invalidating C p0) (recover_identity C I q contents p w)"
  unfolding recover_identity_def
  by (rule follows_then_run, rule save_plan_follows [OF assms(1)], use assms(2) in \<open>simp add: hands_on_def\<close>,
      intro follows_attempt, assumption+, rule follows_then_run, erule run_ceremony_follows)
     (use assms(2) in \<open>auto simp: hands_on_def without_ids_def\<close>)

lemma deadline_borne_out:
  assumes "borne_out C p0 es p" and "rp_phase p = Invalidating" and "invalidated C es (rp_state_epoch p) nb"
  shows "borne_out C p0 es (p\<lparr>rp_not_before := Some nb, rp_phase := WaitingForDeadline\<rparr>)"
  using assms by (auto simp: borne_out_def same_recovery_def split: option.splits)

lemma conclude_invalidation_follows:
  assumes "journal_ok C p0 w" and "invalidating C p0 p w"
    and "\<And>result. verdict = Terminal result \<Longrightarrow> answered_by_candidate (vw_events w) (rp_state_epoch p) result"
  shows "follows C p0 (hands_on C p0 (\<lambda>p'. rp_phase p' \<noteq> Restoring)) (conclude_invalidation C I q prepared verdict p w)"
proof -
  let ?R = "hands_on C p0 (\<lambda>p'. rp_phase p' \<noteq> Restoring)"
  have weaken: "follows C p0 ?R out" if "follows C p0 (invalidating C p0) out" for out :: "(recover_error + RecoveryPlan) \<times> ('b, 'c) recover_world"
    using that by (auto simp: follows_def hands_on_def)
  have drop: "follows C p0 ?R (then_run (save_plan C s (without_ids p) w) (\<lambda>_ w1.
      then_run (settle_invalidation C I d prepared v w1) (\<lambda>_ w2. (Inl e, w2))))" for s d v e
    by (rule follows_then_run, rule save_plan_follows [OF assms(1)], use assms(2) in \<open>simp add: hands_on_def\<close>)
       (rule settle_then_fail)
  show ?thesis
  proof (cases verdict)
    case (DefinitivelyRejected rejection)
    have "follows C p0 ?R (then_run (settle_invalidation C I d prepared v w) (\<lambda>_ w1.
        case vq_recovery_secret_file q of None \<Rightarrow> (Inl (RecoverSecretRequired rejection), w1)
        | Some contents \<Rightarrow> recover_identity C I q contents p w1))" for d v
      by (rule follows_then_run [OF settle_invalidation_follows [OF assms(1)]])
         (use assms(2) in \<open>auto simp: hands_on_def intro!: weaken recover_identity_follows split: option.split\<close>)
    then show ?thesis
      using drop by (simp add: DefinitivelyRejected conclude_invalidation_def Let_def)
  next
    case (Terminal result)
    have "follows C p0 ?R (then_run (save_plan C s (p\<lparr>rp_not_before := Some nb, rp_phase := WaitingForDeadline\<rparr>) w)
        (\<lambda>_ w1. then_run (settle_invalidation C I d prepared v w1)
          (\<lambda>_ w2. (Inr (p\<lparr>rp_not_before := Some nb, rp_phase := WaitingForDeadline\<rparr>), w2))))"
      if "invalidated C (vw_events w) (rp_state_epoch p) nb" for s d v nb
      by (rule follows_then_run, rule save_plan_follows [OF assms(1)],
          use assms(2) that in \<open>simp add: hands_on_def deadline_borne_out\<close>, rule follows_then_run, erule settle_invalidation_follows)
         (use assms(2) that in \<open>auto simp: hands_on_def deadline_borne_out\<close>)
    moreover have "invalidated C (vw_events w) (rp_state_epoch p) nb"
      if "cr_outcome result = OutcomeSucceeded" "cr_result result = Some (RecoveryInvalidation facts)"
        "vc_facts C facts = (rp_state_epoch p, nb)" for facts nb
      by (rule answered_invalidates [OF assms(3) that]) (rule Terminal)
    ultimately show ?thesis
      using drop assms(1)
      by (auto simp: Terminal conclude_invalidation_def Let_def split: option.split ControlResultData.split prod.split)
  qed (use settle_then_fail [OF assms(1)] in \<open>simp_all add: conclude_invalidation_def Let_def\<close>)
qed

lemma invalidation_round_follows:
  assumes "journal_ok C p0 w" and "invalidating C p0 p w"
  shows "follows C p0 (hands_on C p0 (\<lambda>p'. rp_phase p' \<noteq> Restoring)) (invalidation_round C E I q p w)"
  unfolding invalidation_round_def
proof (rule follows_then_run [OF restored_target_follows [OF assms(1)]], clarify)
  fix revision marker and w1 :: "('b, 'c) recover_world"
  assume w1: "vw_events w1 = vw_events w" "journal_ok C p0 w1"
  show "follows C p0 (hands_on C p0 (\<lambda>p'. rp_phase p' \<noteq> Restoring)) (then_run (drop_stale_ids C I q p w1) (\<lambda>p2 w2.
     then_run (prepare_invalidation C I q marker p2 w2) (\<lambda>prepared w3.
     then_run (bind_prepared C I prepared p2 w3) (\<lambda>p4 w4.
     then_run (send_invalidation C E I q revision prepared p4 w4) (\<lambda>(p5, verdict) w5.
     conclude_invalidation C I q prepared verdict p5 w5)))))"
  proof (rule follows_then_run [OF drop_stale_ids_follows [OF w1(2)]])
    show "invalidating C p0 p w1" using w1(1) assms(2) by (simp add: hands_on_def)
  next
    fix p2 and w2 :: "('b, 'c) recover_world"
    assume p2: "invalidating C p0 p2 w2" "journal_ok C p0 w2"
    show "follows C p0 (hands_on C p0 (\<lambda>p'. rp_phase p' \<noteq> Restoring)) (then_run (prepare_invalidation C I q marker p2 w2) (\<lambda>prepared w3.
     then_run (bind_prepared C I prepared p2 w3) (\<lambda>p4 w4.
     then_run (send_invalidation C E I q revision prepared p4 w4) (\<lambda>(p5, verdict) w5.
     conclude_invalidation C I q prepared verdict p5 w5))))"
      by (rule follows_then_run [OF prepare_invalidation_follows [OF p2(2)]], rule follows_then_run,
          erule bind_prepared_follows, use p2(1) in \<open>simp add: hands_on_def\<close>, rule follows_then_run,
          erule (1) send_invalidation_follows)
         (auto intro!: conclude_invalidation_follows)
  qed
qed

lemma invalidate_follows:
  assumes "journal_ok C p0 w" and "hands_on C p0 (\<lambda>p'. rp_phase p' \<noteq> Restoring) p w"
  shows "follows C p0 (hands_on C p0 (\<lambda>p'. rp_phase p' \<in> {WaitingForDeadline, CleanupPending})) (invalidate C E q Is p w)"
  using assms
proof (induction Is arbitrary: p w)
  case Nil
  then show ?case by (cases "rp_phase p") (auto simp: follows_def hands_on_def)
next
  case (Cons I Is)
  show ?case
  proof (cases "rp_phase p = Invalidating")
    case True
    then have "follows C p0 (hands_on C p0 (\<lambda>p'. rp_phase p' \<noteq> Restoring)) (invalidation_round C E I q p w)"
      using Cons.prems by (intro invalidation_round_follows) (auto simp: hands_on_def)
    then show ?thesis using True Cons.IH by (auto intro: follows_then_run)
  next
    case False
    then show ?thesis using Cons.prems by (cases "rp_phase p") (auto simp: hands_on_def)
  qed
qed

section \<open>Waiting, activating, cleaning up\<close>

lemma clock_read_ok:
  "journal_ok C p0 w \<Longrightarrow> journal_ok C p0 (w\<lparr>vw_events := ClockRead t # vw_events w\<rparr>)"
  by (auto simp: journal_ok_def intro: borne_out_Cons)

lemma wait_until_follows:
  assumes "journal_ok C p0 w" and "borne_out C p0 (vw_events w) p" and "invalidated C (vw_events w) epoch nb"
  shows "follows C p0 (\<lambda>_ w'. borne_out C p0 (vw_events w') p \<and> deadline_passed C (vw_events w') epoch nb)
    (wait_until nb ts w)"
  using assms
proof (induction ts arbitrary: w)
  case (Cons t ts)
  let ?w = "w\<lparr>vw_events := ClockRead t # vw_events w\<rparr>"
  have w: "journal_ok C p0 ?w" "borne_out C p0 (vw_events ?w) p" "invalidated C (vw_events ?w) epoch nb"
    using clock_read_ok [OF Cons.prems(1)] borne_out_Cons [OF Cons.prems(2)]
      evidence_grows(2) [OF _ Cons.prems(3), of "vw_events ?w"] by auto
  have "deadline_passed C (ClockRead t # vw_events w) epoch nb" if "nb < t"
    unfolding deadline_passed_def using that Cons.prems(3) by (intro exI [of _ "[]"] exI [of _ t] exI [of _ "vw_events w"]) simp
  then show ?case
    using Cons.IH [OF w] w by (auto simp: Let_def)
qed simp

lemma activated_borne_out:
  assumes "borne_out C p0 es p" and "rp_phase p = WaitingForDeadline" and "rp_not_before p = Some nb"
    and "rp_restored_revision p = Some revision" and "d = rp_deployment_id p0"
    and "hr_outcome r = Completed BackupRecoveryActivated"
  shows "borne_out C p0 (Called (backup_recovery_activate i d revision (rp_recover_operation_id p) (rp_state_epoch p) nb)
    (Some r) # es) (p\<lparr>rp_activate_operation_id := a, rp_phase := CleanupPending\<rparr>)"
proof -
  let ?op = "backup_recovery_activate i d revision (rp_recover_operation_id p) (rp_state_epoch p) nb"
  have "activated_by (Called ?op (Some r) # es) p0 nb"
    unfolding activated_by_def
    by (intro exI [of _ i] exI [of _ r]) (use assms in \<open>simp add: borne_out_def same_recovery_def\<close>)
  moreover have "borne_out C p0 (Called ?op (Some r) # es) p" by (rule borne_out_Cons [OF assms(1)])
  ultimately show ?thesis
    using assms(2-4) by (auto simp: borne_out_def same_recovery_def)
qed

lemma activate_phase_follows:
  assumes "journal_ok C p0 w" and "hands_on C p0 (\<lambda>p'. rp_phase p' \<in> {WaitingForDeadline, CleanupPending}) p w"
    and d: "vq_deployment_id q = rp_deployment_id p0"
  shows "follows C p0 (hands_on C p0 (\<lambda>p'. rp_phase p' = CleanupPending)) (activate_phase C E q p w)"
proof (cases "rp_phase p = WaitingForDeadline")
  case False
  then show ?thesis using assms by (auto simp: activate_phase_def hands_on_def)
next
  case True
  have p: "borne_out C p0 (vw_events w) p" using assms(2) by (simp add: hands_on_def)
  then have epoch: "rp_state_epoch p = rp_state_epoch p0" by (simp add: borne_out_def same_recovery_def)
  show ?thesis
  proof (cases "rp_not_before p")
    case None
    then show ?thesis using assms(1) True by (simp add: activate_phase_def)
  next
    case (Some nb)
    then have "invalidated C (vw_events w) (rp_state_epoch p) nb"
      using p True by (auto simp: borne_out_def same_recovery_def)
    note wait = wait_until_follows [OF assms(1) p this]
    show ?thesis
      unfolding activate_phase_def Let_def
      by (simp only: True Some simp_thms if_False, rule follows_attempt [OF assms(1)], simp,
          rule follows_then_run [OF wait], rule follows_attempt, assumption,
          rule follows_then_run, erule save_plan_follows, simp, rule call_follows, assumption,
          simp add: epoch, rule follows_attempt, assumption)
         (use True Some d in \<open>auto intro!: save_and_hand_on activated_borne_out
           split: if_splits dest!: expect_completion_Inr\<close>)
  qed
qed

text \<open>The recovery is over: restored, invalidated, activated, and its journal gone.\<close>

definition recovered :: "('a, 'r) recover_codec \<Rightarrow> RecoveryPlan \<Rightarrow> ('r, 's) recover_world \<Rightarrow> bool" where
  "recovered C p0 w \<longleftrightarrow> vw_slot w = None \<and>
     (\<exists>nb. restored_by (vw_events w) p0 \<and> invalidated C (vw_events w) (rp_state_epoch p0) nb
        \<and> activated_by (vw_events w) p0 nb)"

lemma clear_plan_cases:
  obtains (kept) e where "clear_plan outcome path = (Inl e, path)"
  | (cleared) r where "clear_plan outcome path = (r, None)"
  by (cases outcome; cases path) (auto simp: clear_plan_def drop_one_def)

lemma cleanup_pending_evidence:
  "borne_out C p0 es p \<Longrightarrow> rp_phase p = CleanupPending
   \<Longrightarrow> \<exists>nb. restored_by es p0 \<and> invalidated C es (rp_state_epoch p0) nb \<and> activated_by es p0 nb"
  by (auto simp: borne_out_def split: option.splits)

lemma cleanup_phase_follows:
  assumes "journal_ok C p0 w" and "hands_on C p0 (\<lambda>p'. rp_phase p' = CleanupPending) p w"
  shows "follows C p0 (\<lambda>_. recovered C p0) (cleanup_phase C E q p w)"
proof -
  have p: "borne_out C p0 (vw_events w) p" "rp_phase p = CleanupPending"
    using assms(2) by (simp_all add: hands_on_def)
  have clear: "follows C p0 (\<lambda>_. recovered C p0) (case clear_plan outcome (vw_slot w1) of
      (r, slot) \<Rightarrow> (map_err RecoverPlan r, w1\<lparr>vw_slot := slot\<rparr>))"
    if "journal_ok C p0 w1" "hands_on C p0 (\<lambda>p'. rp_phase p' = rp_phase p \<and> rp_candidate p' = rp_candidate p) p1 w1"
    for outcome p1 and w1 :: "('b, 'c) recover_world"
  proof -
    have "\<exists>nb. restored_by (vw_events w1) p0 \<and> invalidated C (vw_events w1) (rp_state_epoch p0) nb
        \<and> activated_by (vw_events w1) p0 nb"
      using that(2) p(2) by (intro cleanup_pending_evidence [of C p0 _ p1]) (simp_all add: hands_on_def)
    then show ?thesis
      using that(1)
      by (cases rule: clear_plan_cases [of outcome "vw_slot w1"])
         (auto simp: follows_def recovered_def journal_ok_def)
  qed
  show ?thesis
    unfolding cleanup_phase_def
    by (simp only: p(2) simp_thms if_False, rule follows_attempt [OF assms(1)],
        rule follows_then_run [OF clean_candidate_follows [OF assms(1) p(1)]], rule clear)
qed

section \<open>The command\<close>

text \<open>The recovery a run works on: the one it finds, or the one it opens.\<close>

definition recovery_of :: "('r, 's) recover_env \<Rightarrow> recover_request \<Rightarrow> ('r, 's) recover_world \<Rightarrow> RecoveryPlan" where
  "recovery_of E q w =
     (case vw_slot w of
        Some (record_file.Record (PlanDoc p)) \<Rightarrow> p
      | _ \<Rightarrow> new_plan (ve_id E DrawEpoch) (ve_id E DrawRecover) (vq_deployment_id q)
               (ii_revision (vq_inspection q))
               (case ii_snapshot (vq_inspection q) of Some s \<Rightarrow> sp_manifest_sha256 s | None \<Rightarrow> []))"

lemma load_plan_valid:
  "load_plan X sz (Some (record_file.Record (PlanDoc p))) = Inr r \<Longrightarrow> validate_plan X p = Inr () \<Longrightarrow> r = Some p"
  by (auto simp: load_plan_def read_plan_def validate_plan_def RECOVERY_SCHEMA_def guard_simps Let_def rbind_Inr_iff
      split: if_splits)

lemma new_plan_borne_out [simp]: "borne_out C (new_plan e i d s m) es (new_plan e i d s m)"
  by (simp add: borne_out_def new_plan_def)

lemma open_plan_follows:
  assumes "journal_ok C p0 w" and "vw_slot w = None \<Longrightarrow> p0 = recovery_of E q w"
  shows "follows C p0 (hands_on C p0 (\<lambda>_. True)) (open_plan C E q w)"
proof (cases "vw_slot w")
  case None
  have load: "load_plan (vc_externals C) (vc_size C) None = Inr None" by (simp add: load_plan_def)
  have ok: "journal_ok C p w" for p using assms(1) None by (simp add: journal_ok_def)
  show ?thesis
    unfolding open_plan_def Let_def
    by (intro follows_attempt assms(1))
       (auto simp: None load ok assms(2) recovery_of_def intro!: follows_attempt save_and_hand_on)
next
  case (Some f)
  then obtain p where p: "vw_slot w = Some (record_file.Record (PlanDoc p))" "validate_plan (vc_externals C) p = Inr ()"
      "borne_out C p0 (vw_events w) p"
    using assms(1) by (auto simp: journal_ok_def)
  then have "loaded = Some p" if "load_plan (vc_externals C) (vc_size C) (vw_slot w) = Inr loaded" for loaded
    using that load_plan_valid by simp
  then show ?thesis
    unfolding open_plan_def Let_def
    by (intro follows_attempt assms(1)) (use p assms(1) in \<open>auto simp: follows_def hands_on_def\<close>)
qed

lemma run_recover_follows:
  assumes "journal_ok C p0 w" and "vw_slot w = None \<Longrightarrow> p0 = recovery_of E q w"
    and "vq_deployment_id q = rp_deployment_id p0"
  shows "follows C p0 (\<lambda>_. recovered C p0) (run_recover C E Is q w)"
  unfolding run_recover_def
  by (rule follows_then_run [OF open_plan_follows [OF assms(1,2)]], assumption,
      rule follows_then_run, rule change_version_follows, assumption, simp add: hands_on_def,
      rule follows_then_run, rule restore_phase_follows, assumption, simp add: hands_on_def, rule assms(3),
      rule follows_then_run, rule stage_phase_follows, assumption, simp add: hands_on_def,
      rule follows_then_run, erule (1) invalidate_follows,
      rule follows_then_run, rule activate_phase_follows, assumption, assumption, rule assms(3),
      erule (1) cleanup_phase_follows)

section \<open>Reachable worlds\<close>

text \<open>
  The recoveries of one deployment: runs in any environment, each wherever it stops, and between them
  any change that leaves the recovery journal alone.
\<close>

inductive recover_reachable :: "('a, 'r) recover_codec \<Rightarrow> string \<Rightarrow> ('r, 's) recover_world \<Rightarrow> bool"
  for C d where
  no_recovery: "vw_slot w = None \<Longrightarrow> vw_events w = [] \<Longrightarrow> recover_reachable C d w"
| ran: "recover_reachable C d w \<Longrightarrow> vq_deployment_id q = d \<Longrightarrow> run_recover C E Is q w = (r, w')
    \<Longrightarrow> recover_reachable C d w'"
| others_moved: "recover_reachable C d w \<Longrightarrow> vw_slot w' = vw_slot w \<Longrightarrow> vw_events w' = vw_events w
    \<Longrightarrow> recover_reachable C d w'"

lemma recovery_of_deployment:
  assumes "journal_ok C p0 w" and "rp_deployment_id p0 = vq_deployment_id q"
  shows "rp_deployment_id (recovery_of E q w) = vq_deployment_id q"
  using assms by (auto simp: journal_ok_def recovery_of_def new_plan_def borne_out_def same_recovery_def)

lemma same_recovery_borne_out:
  assumes "same_recovery p0 p1" shows "borne_out C p0 es p \<longleftrightarrow> borne_out C p1 es p"
  using assms by (simp add: borne_out_def same_recovery_def restored_by_def activated_by_def cong: option.case_cong)

lemma same_recovery_recovered:
  assumes "same_recovery p0 p1" shows "recovered C p0 w \<longleftrightarrow> recovered C p1 w"
  using assms by (simp add: recovered_def same_recovery_def restored_by_def activated_by_def)

text \<open>The journal is in order for the very recovery the next run works on.\<close>

lemma journal_ok_recovery_of:
  assumes "journal_ok C p0 w"
  shows "journal_ok C (recovery_of E q w) w"
proof (cases "vw_slot w")
  case (Some f)
  then obtain p where p: "vw_slot w = Some (record_file.Record (PlanDoc p))" "borne_out C p0 (vw_events w) p"
    using assms by (auto simp: journal_ok_def)
  then have "same_recovery p0 p" by (simp add: borne_out_def)
  then have "borne_out C p (vw_events w) p" by (rule iffD1 [OF same_recovery_borne_out p(2)])
  then show ?thesis using assms p(1) by (simp add: journal_ok_def recovery_of_def)
qed (use assms in \<open>simp add: journal_ok_def\<close>)

lemma reachable_journal_ok:
  "recover_reachable C d w \<Longrightarrow> \<exists>p0. rp_deployment_id p0 = d \<and> journal_ok C p0 w"
proof (induction rule: recover_reachable.induct)
  case (no_recovery w)
  have "rp_deployment_id (new_plan [] [] d 0 []) = d" by (simp add: new_plan_def)
  then show ?case using no_recovery by (intro exI [of _ "new_plan [] [] d 0 []"]) (simp add: journal_ok_def)
next
  case (ran w q E Is r w')
  then obtain p0 where p0: "rp_deployment_id p0 = d" "journal_ok C p0 w" by blast
  let ?p = "recovery_of E q w"
  have d: "rp_deployment_id ?p = d" using recovery_of_deployment [OF p0(2)] p0(1) ran.hyps(2) by simp
  have "follows C ?p (\<lambda>_. recovered C ?p) (run_recover C E Is q w)"
    by (rule run_recover_follows [OF journal_ok_recovery_of [OF p0(2)]]) (simp_all add: d ran.hyps(2))
  then show ?case using d ran.hyps(3) by (intro exI [of _ ?p]) (simp add: follows_def)
next
  case (others_moved w w')
  then show ?case by (auto simp: journal_ok_def)
qed

lemma reachable_run:
  assumes "recover_reachable C d w" and "vq_deployment_id q = d"
  shows "follows C (recovery_of E q w) (\<lambda>_. recovered C (recovery_of E q w)) (run_recover C E Is q w)"
proof -
  obtain p0 where p0: "rp_deployment_id p0 = d" "journal_ok C p0 w"
    using reachable_journal_ok [OF assms(1)] by (elim exE conjE)
  have d: "rp_deployment_id (recovery_of E q w) = d" using recovery_of_deployment [OF p0(2)] p0(1) assms(2) by simp
  show ?thesis
    by (rule run_recover_follows [OF journal_ok_recovery_of [OF p0(2)]]) (simp_all add: d assms(2))
qed

end
