(* ===== verification/RecoverSample.thy ===== *)
theory RecoverSample
  imports RecoverProofs ControlProperties
begin

text \<open>
  A recovery on the sample registry and protocol: the first run is cut off while it settles the
  control journal, the second one finishes.
\<close>

section \<open>The setting\<close>

definition rec_R :: recovery_crypto where
  "rec_R = \<lparr>parse_recovery_secret = (\<lambda>s. Some (map (\<lambda>c. word_of_nat (of_char c)) s)),
     derive_recovery_seed = (\<lambda>s _. s), format_recovery_secret = map (\<lambda>b. char_of (unat b)),
     recovery_public_key_bytes = id, recovery_kid = (\<lambda>_. ''kid''), proposal_ok = (\<lambda>_. True),
     pending_bytes = (\<lambda>_. 600),
     sign_allocation = (\<lambda>_ _ s. s), sign_challenge = (\<lambda>_ _ _ s. s)\<rparr>"

definition rec_C :: "(unit, unit) recover_codec" where
  "rec_C = \<lparr>vc_registry = reg_C, vc_keys = ctl_K, vc_protocol = ctl_P, vc_crypto = rec_R,
     vc_size = (\<lambda>_. 900), vc_invalidate = (\<lambda>_. ()), vc_facts = (\<lambda>_. (''epoch'', 10))\<rparr>"

definition rec_endpoint :: RecoveryCandidateEndpoint where
  "rec_endpoint = \<lparr>rce_object_reference = ''ref'', rce_object_id = ''obj'', rce_deployment_id = ''prod'',
     rce_operation_id = ''recover'', rce_loopback_port = 9000, rce_https = True\<rparr>"

definition rec_answer :: "HostOperation \<Rightarrow> unit recover_body HostResult" where
  "rec_answer op = HostResult_completed (ho_operation_id op)
     (case ho_operation op of
        BackupRecover manifest epoch \<Rightarrow> BackupRecovered manifest 8
      | BackupRecoveryCandidateStage recovery epoch artifact \<Rightarrow> BackupRecoveryCandidateStaged rec_endpoint
      | BackupRecoveryCandidateControl endpoint epoch control jws \<Rightarrow>
          BackupRecoveryCandidateControlExecuted
            \<lparr>cr_operation_id = control, cr_request_hash = replicate 64 CHR ''0'', cr_outcome = OutcomeSucceeded,
             cr_result = Some (RecoveryInvalidation ())\<rparr>
      | BackupRecoveryCandidateCleanup endpoint \<Rightarrow> BackupRecoveryCandidateCleaned
      | BackupRecoveryActivate recovery epoch not_before \<Rightarrow> BackupRecoveryActivated
      | _ \<Rightarrow> OtherCompletion)"

definition rec_ids :: "id_site \<Rightarrow> string" where
  "rec_ids site = (case site of DrawEpoch \<Rightarrow> ''epoch'' | DrawRecover \<Rightarrow> ''recover'' | DrawStage \<Rightarrow> ''stage''
     | DrawActivate \<Rightarrow> ''activate'' | _ \<Rightarrow> ''clean'')"

definition rec_E :: "(unit, unit) recover_env" where
  "rec_E = \<lparr>ve_call = (\<lambda>op s. (Some (rec_answer op), s)),
     ve_inspect = (\<lambda>_ s. (Some \<lparr>ii_revision = 8, ii_active_host_operation = Some ''recover'',
       ii_config_revision_marker = Some ''1'', ii_snapshot = None\<rparr>, s)),
     ve_store = (\<lambda>_. Committed), ve_id = rec_ids, ve_journal_opens = True, ve_registry = reg_E,
     ve_uninstall_pending = Some False, ve_clock = [9, 11]\<rparr>"

definition rec_ceremony :: "unit ceremony_env" where
  "rec_ceremony = \<lparr>ce_challenge = (\<lambda>_ s. (None, s)), ce_answer = (\<lambda>_ s. (SubmissionUnknown, s)), ce_dir_ok = True,
     ce_held = False, ce_delivers = True, ce_secret = [], ce_nonce = [], ce_generate = ctl_KE, ce_activate = ctl_KE,
     ce_retire = ctl_KE, ce_registry = reg_E, ce_save = Committed, ce_clear = Committed\<rparr>"

text \<open>While the round settles, another command holds the lock of the control journal.\<close>

definition rec_I :: "unit round_env" where
  "rec_I = \<lparr>iv_store = (\<lambda>_. Committed), iv_registry = reg_E, iv_key = ctl_KE, iv_dispatched = ctl_SE,
     iv_settle = ctl_SE\<lparr>se_held := True\<rparr>, iv_settle_2 = ctl_SE, iv_operation_id = ''op'', iv_wrapper_id = ''wrap'',
     iv_now = 4, iv_connects = (\<lambda>_. True), iv_ceremony = rec_ceremony\<rparr>"

definition rec_q :: recover_request where
  "rec_q = \<lparr>vq_record = ctl_prod, vq_host = reg_ssh,
     vq_inspection = \<lparr>ii_revision = 7, ii_active_host_operation = None, ii_config_revision_marker = None,
       ii_snapshot = Some \<lparr>sp_snapshot_id = ''s'', sp_created_at = 1, sp_manifest_sha256 = replicate 64 CHR ''a'',
         sp_restore_tested_at = Some 2, sp_off_host_verified_at = None\<rparr>\<rparr>,
     vq_version = None, vq_recovery_secret_file = None\<rparr>"

definition rec_w :: "recovery_slot \<Rightarrow> instance_dirs \<Rightarrow> unit recover_event list \<Rightarrow> (unit, unit) recover_world" where
  "rec_w slot dirs es = \<lparr>vw_slot = slot, vw_dirs = dirs, vw_registry = ctl_G, vw_pending = None, vw_target = (), vw_events = es\<rparr>"

text \<open>The plan, from the members that change.\<close>

definition rec_plan ::
  "RecoveryPhase \<Rightarrow> u64 option \<Rightarrow> string option \<Rightarrow> CandidatePointer option \<Rightarrow> string option \<Rightarrow> string option
   \<Rightarrow> string option \<Rightarrow> int option \<Rightarrow> string option \<Rightarrow> string option \<Rightarrow> RecoveryPlan" where
  "rec_plan phase revision stage candidate op h wrapper nb activate clean =
     \<lparr>rp_schema = 2, rp_deployment_id = ''prod'', rp_phase = phase, rp_source_revision = 7,
      rp_restored_revision = revision, rp_manifest_sha256 = replicate 64 CHR ''a'', rp_target_version = None,
      rp_state_epoch = ''epoch'', rp_recover_operation_id = ''recover'', rp_candidate_stage_operation_id = stage,
      rp_candidate = candidate, rp_invalidation_operation_id = op, rp_invalidation_request_hash = h,
      rp_candidate_control_operation_id = wrapper, rp_not_before = nb, rp_activate_operation_id = activate,
      rp_cleanup_operation_id = clean\<rparr>"

lemma rec_plan_parts [simp]:
  "rp_phase (rec_plan a b c d e f g h i j) = a" "rp_restored_revision (rec_plan a b c d e f g h i j) = b"
  "rp_candidate_stage_operation_id (rec_plan a b c d e f g h i j) = c" "rp_candidate (rec_plan a b c d e f g h i j) = d"
  "rp_invalidation_operation_id (rec_plan a b c d e f g h i j) = e"
  "rp_invalidation_request_hash (rec_plan a b c d e f g h i j) = f"
  "rp_candidate_control_operation_id (rec_plan a b c d e f g h i j) = g" "rp_not_before (rec_plan a b c d e f g h i j) = h"
  "rp_activate_operation_id (rec_plan a b c d e f g h i j) = i" "rp_cleanup_operation_id (rec_plan a b c d e f g h i j) = j"
  "rp_deployment_id (rec_plan a b c d e f g h i j) = ''prod''" "rp_source_revision (rec_plan a b c d e f g h i j) = 7"
  "rp_manifest_sha256 (rec_plan a b c d e f g h i j) = replicate 64 CHR ''a''"
  "rp_target_version (rec_plan a b c d e f g h i j) = None" "rp_state_epoch (rec_plan a b c d e f g h i j) = ''epoch''"
  "rp_recover_operation_id (rec_plan a b c d e f g h i j) = ''recover''"
  by (simp_all add: rec_plan_def)

lemma rec_plan_updates [simp]:
  "rec_plan a b c d e f g h i j\<lparr>rp_phase := x\<rparr> = rec_plan x b c d e f g h i j"
  "rec_plan a b c d e f g h i j\<lparr>rp_restored_revision := y\<rparr> = rec_plan a y c d e f g h i j"
  "rec_plan a b c d e f g h i j\<lparr>rp_candidate_stage_operation_id := z\<rparr> = rec_plan a b z d e f g h i j"
  "rec_plan a b c d e f g h i j\<lparr>rp_candidate := u\<rparr> = rec_plan a b c u e f g h i j"
  "rec_plan a b c d e f g h i j\<lparr>rp_invalidation_operation_id := z\<rparr> = rec_plan a b c d z f g h i j"
  "rec_plan a b c d e f g h i j\<lparr>rp_invalidation_request_hash := z\<rparr> = rec_plan a b c d e z g h i j"
  "rec_plan a b c d e f g h i j\<lparr>rp_candidate_control_operation_id := z\<rparr> = rec_plan a b c d e f z h i j"
  "rec_plan a b c d e f g h i j\<lparr>rp_not_before := v\<rparr> = rec_plan a b c d e f g v i j"
  "rec_plan a b c d e f g h i j\<lparr>rp_activate_operation_id := z\<rparr> = rec_plan a b c d e f g h z j"
  "rec_plan a b c d e f g h i j\<lparr>rp_cleanup_operation_id := z\<rparr> = rec_plan a b c d e f g h i z"
  by (simp_all add: rec_plan_def)

text \<open>Writes, calls and answers, one rule each.\<close>

definition rec_candidate :: CandidatePointer where
  "rec_candidate = \<lparr>cp_object_reference = ''ref'', cp_object_id = ''obj'', cp_loopback_port = 9000, cp_https = True\<rparr>"

lemma rec_save:
  assumes "list_all (is_uuid_v7 reg_X) (plan_ids (rec_plan a b c d e f g h i j))"
    and "f = None \<or> f = Some (replicate 64 CHR ''0'')" and "d = None \<or> d = Some rec_candidate"
    and "a = Restoring \<or> b \<noteq> None \<and> c \<noteq> None \<and> d \<noteq> None"
    and "a \<in> {WaitingForDeadline, CleanupPending} \<longrightarrow> e \<noteq> None \<and> f \<noteq> None \<and> h \<noteq> None"
  shows "save_plan rec_C Committed (rec_plan a b c d e f g h i j) (rec_w s D es)
    = (Inr (), rec_w (Some (record_file.Record (PlanDoc (rec_plan a b c d e f g h i j)))) D es)"
proof -
  have "validate_plan reg_X (rec_plan a b c d e f g h i j) = Inr ()"
    using assms
    by (auto simp: validate_plan_def rec_plan_def RECOVERY_SCHEMA_def on_some_def candidate_ok_def rec_candidate_def
        list_all_iff is_hexdigit_def is_upper_def char_class_defs split: option.split)
  then show ?thesis by (simp add: save_plan_def store_plan_def put_one_def rec_C_def reg_C_def rec_w_def)
qed

lemma rec_ids_ok [simp]:
  "list_all (is_uuid_v7 reg_X) (plan_ids (rec_plan a b c d e f g h i j)) \<longleftrightarrow>
     (\<forall>v \<in> set [c, e, g, i, j]. v \<noteq> Some [])"
  by (auto simp: plan_ids_def map_filter_simps is_uuid_v7_def reg_X_def list_all_iff split: option.splits)

lemma rec_call [simp]:
  "at_target rec_E op (rec_w s D es) = (Some (rec_answer op), rec_w s D (Called op (Some (rec_answer op)) # es))"
  by (simp add: at_target_def rec_E_def rec_w_def)

lemma rec_fields [simp]:
  "ve_store rec_E x = Committed" "ve_id rec_E = rec_ids" "ve_clock rec_E = [9, 11]" "iv_store rec_I y = Committed"
  "iv_wrapper_id rec_I = ''wrap''" "vq_deployment_id rec_q = ''prod''" "vq_version rec_q = None"
  "rc_externals reg_C = reg_X" "vc_size rec_C p = 900" "vc_protocol rec_C = ctl_P" "vc_facts rec_C u = (''epoch'', 10)"
  "rec_ids DrawStage = ''stage''" "rec_ids DrawActivate = ''activate''" "rec_ids DrawCleanup = ''clean''"
  "or_drawn None v = v"
  "vc_registry rec_C = reg_C" "vc_keys rec_C = ctl_K" "vc_invalidate rec_C epoch = ()"
  "ve_journal_opens rec_E" "ve_registry rec_E = reg_E" "ve_uninstall_pending rec_E = Some False"
  "host_host_id (vq_host rec_q) = ''u2''" "ii_revision (vq_inspection rec_q) = 7"
  "iv_registry rec_I = reg_E" "iv_key rec_I = ctl_KE" "iv_dispatched rec_I = ctl_SE" "iv_operation_id rec_I = ''op''"
  "iv_now rec_I = 4"
  by (simp_all add: rec_E_def rec_I_def rec_q_def rec_C_def reg_C_def rec_ids_def or_drawn_def)

lemma rec_world [simp]:
  "vw_slot (rec_w s D es) = s" "vw_dirs (rec_w s D es) = D" "vw_events (rec_w s D es) = es"
  "vw_registry (rec_w s D es) = ctl_G"
  "rec_w s D es\<lparr>vw_slot := s'\<rparr> = rec_w s' D es" "rec_w s D es\<lparr>vw_dirs := D'\<rparr> = rec_w s D' es"
  "rec_w s D es\<lparr>vw_events := es'\<rparr> = rec_w s D es'" "rec_w s D es\<lparr>vw_target := u\<rparr> = rec_w s D es"
  by (simp_all add: rec_w_def)

section \<open>Phase by phase\<close>

definition rec_w0 :: "(unit, unit) recover_world" where "rec_w0 = rec_w None ctl_dirs []"

abbreviation rec_slot :: "RecoveryPlan \<Rightarrow> recovery_slot" where
  "rec_slot p \<equiv> Some (record_file.Record (PlanDoc p))"

lemma rec_binding: "validate_lifecycle_binding reg_C reg_E ctl_G ''prod'' ''u2'' (Some False) = Inr ()"
proof -
  have "instance_by_deployment reg_C reg_E ctl_G ''prod'' = Inr (Some ctl_prod)"
    using ctl_prod_ok reg_texts by (simp add: instance_by_deployment_def reg_run ctl_G_def)
  moreover have "host_by_id reg_C reg_E ctl_G ''u2'' = Inr (Some reg_ssh)"
    using reg_records_ok reg_texts by (simp add: host_by_id_def reg_run ctl_G_def reg_register reg_hosts_eq)
  moreover have "inst_host_id ctl_prod = ''u2''" by (simp add: ctl_prod_def)
  ultimately show ?thesis by (simp add: validate_lifecycle_binding_def)
qed

abbreviation rec_restoring where "rec_restoring \<equiv> rec_plan Restoring None None None None None None None None None"

lemma rec_open: "open_plan rec_C rec_E rec_q rec_w0 = (Inr rec_restoring, rec_w (rec_slot rec_restoring) ctl_dirs [])"
proof -
  have "new_plan (rec_ids DrawEpoch) (rec_ids DrawRecover) ''prod'' 7 (replicate 64 CHR ''a'') = rec_restoring"
    by (simp add: new_plan_def rec_plan_def rec_ids_def RECOVERY_SCHEMA_def)
  moreover have "ii_snapshot (vq_inspection rec_q) = Some \<lparr>sp_snapshot_id = ''s'', sp_created_at = 1,
      sp_manifest_sha256 = replicate 64 CHR ''a'', sp_restore_tested_at = Some 2, sp_off_host_verified_at = None\<rparr>"
    by (simp add: rec_q_def)
  ultimately show ?thesis
    using rec_binding
    by (simp add: open_plan_def rec_w0_def rec_save load_plan_def validate_recovery_snapshot_def Let_def)
qed

text \<open>The three calls of the first run.\<close>

definition rec_result :: "unit ControlResult" where
  "rec_result = \<lparr>cr_operation_id = ''op'', cr_request_hash = replicate 64 CHR ''0'', cr_outcome = OutcomeSucceeded,
     cr_result = Some (RecoveryInvalidation ())\<rparr>"

definition rec_restore_call :: "unit recover_event" where
  "rec_restore_call = (let op = backup_recover ''recover'' ''prod'' 7 (replicate 64 CHR ''a'') ''epoch''
     in Called op (Some (rec_answer op)))"

definition rec_stage_call :: "unit recover_event" where
  "rec_stage_call = (let op = backup_recovery_candidate_stage ''stage'' ''prod'' 8 ''recover'' ''epoch''
       \<lparr>oa_repository = SERVER_REPOSITORY, oa_version = None\<rparr>
     in Called op (Some (rec_answer op)))"

definition rec_control_call :: "unit recover_event" where
  "rec_control_call = (let op = backup_recovery_candidate_control ''wrap'' ''prod'' 8 rec_endpoint ''epoch'' ''op''
       (ctl_kid @ ''.op:prod.s'')
     in Called op (Some (rec_answer op)))"

lemma rec_answers [simp]:
  "hr_outcome (rec_answer (backup_recover i d e manifest epoch)) = Completed (BackupRecovered manifest 8)"
  "hr_outcome (rec_answer (backup_recovery_candidate_stage i d e recovery epoch artifact))
     = Completed (BackupRecoveryCandidateStaged rec_endpoint)"
  "hr_outcome (rec_answer (backup_recovery_candidate_cleanup i d endpoint)) = Completed BackupRecoveryCandidateCleaned"
  "hr_outcome (rec_answer (backup_recovery_activate i d e recovery epoch nb)) = Completed BackupRecoveryActivated"
  "hr_outcome (rec_answer (backup_recovery_candidate_control i d e endpoint epoch ''op'' jws))
     = Completed (BackupRecoveryCandidateControlExecuted rec_result)"
  by (simp_all add: rec_answer_def HostResult_completed_def rec_result_def)

abbreviation rec_restored where "rec_restored \<equiv> rec_plan Restoring (Some 8) None None None None None None None None"

lemma rec_restore:
  "restore_phase rec_C rec_E rec_q rec_restoring (rec_w s D es) =
     (Inr rec_restored, rec_w (rec_slot rec_restored) D (rec_restore_call # es))"
  by (simp add: restore_phase_def expect_completion_def rec_save rec_restore_call_def Let_def)

abbreviation rec_staged where
  "rec_staged op h wrapper \<equiv> rec_plan Invalidating (Some 8) (Some ''stage'') (Some rec_candidate) op h wrapper None None None"

lemma rec_endpoint_fields [simp]: "rce_deployment_id rec_endpoint = ''prod''" "rce_operation_id rec_endpoint = ''recover''"
  "\<lparr>cp_object_reference = rce_object_reference rec_endpoint, cp_object_id = rce_object_id rec_endpoint,
     cp_loopback_port = rce_loopback_port rec_endpoint, cp_https = rce_https rec_endpoint\<rparr> = rec_candidate"
  "candidate_endpoint ''prod'' (rec_plan a b c d e f g h i j) rec_candidate = rec_endpoint"
  by (simp_all add: rec_endpoint_def rec_candidate_def candidate_endpoint_def)

lemma rec_stage:
  "stage_phase rec_C rec_E rec_q rec_restored (rec_w s D es) =
     (Inr (rec_staged None None None), rec_w (rec_slot (rec_staged None None None)) D (rec_stage_call # es))"
  by (simp add: stage_phase_def expect_completion_def rec_save rec_stage_call_def Let_def)

section \<open>The round that is cut off\<close>

abbreviation rec_prepared :: "unit PreparedOperation" where
  "rec_prepared \<equiv> ctl_prepared_for (RecoveryInvalidate ())"

lemma rec_prepare:
  "prepare_invalidation rec_C rec_I rec_q ''1'' (rec_staged a b c) (rec_w s ctl_dirs es) = (Inr rec_prepared, rec_w s ctl_dirs' es)"
  using ctl_prepare_for [of "RecoveryInvalidate ()"] by (simp add: prepare_invalidation_def ctl_input_for_def)

lemma rec_restored_target:
  "restored_target rec_E rec_q (rec_staged a b c) (rec_w s D es) = (Inr (8, ''1''), rec_w s D es)"
  by (simp add: restored_target_def rec_E_def)

lemma rec_prepared_parts [simp]:
  "co_operation_id (sg_operation (pp_signed rec_prepared)) = ''op''"
  "co_operation (sg_operation (pp_signed rec_prepared)) = RecoveryInvalidate ()"
  "sg_request_hash (pp_signed rec_prepared) = replicate 64 CHR ''0''"
  "sg_compact_jws (pp_signed rec_prepared) = ctl_kid @ ''.op:prod.s''"
  by (simp_all add: ctl_prepared_for_def)

lemma rec_result_parts [simp]:
  "cr_operation_id rec_result = ''op''" "cr_request_hash rec_result = replicate 64 CHR ''0''"
  "cr_outcome rec_result = OutcomeSucceeded" "cr_result rec_result = Some (RecoveryInvalidation ())"
  "control_result_ok ctl_P r"
  by (simp_all add: rec_result_def ctl_P_def Let_def)

lemma rec_bound: "validate_result_binding ctl_P rec_prepared rec_result = Inr ()"
  by (simp add: validate_result_binding_def validate_control_result_binding_def validate_result_contract_def)

abbreviation rec_sent where "rec_sent \<equiv> rec_staged (Some ''op'') (Some (replicate 64 CHR ''0'')) (Some ''wrap'')"

lemma rec_send:
  "send_invalidation rec_C rec_E rec_I rec_q 8 rec_prepared
     (rec_staged (Some ''op'') (Some (replicate 64 CHR ''0'')) None) (rec_w s D es) =
   (Inr (rec_sent, Terminal rec_result), rec_w (rec_slot rec_sent) D (rec_control_call # es))"
  using rec_bound
  by (simp add: send_invalidation_def rec_save rec_control_call_def Let_def control_operation_receipt_def
      control_result_in_def accepted_control_operation_receipt_def classify_receipt_def)

definition rec_waiting :: RecoveryPlan where
  "rec_waiting = rec_plan WaitingForDeadline (Some 8) (Some ''stage'') (Some rec_candidate) (Some ''op'')
     (Some (replicate 64 CHR ''0'')) (Some ''wrap'') (Some 10) None None"

lemma rec_locked:
  "settle_invalidation rec_C rec_I d rec_prepared (Terminal rec_result) (rec_w s D es)
     = (Inl (RecoverDispatch (SlotFailed SlotLocked)), rec_w s D es)"
proof -
  have "se_held (iv_settle rec_I)" by (simp add: rec_I_def ctl_SE_def)
  then have "settle_journal reg_X ctl_P (iv_settle rec_I) (iv_settle_2 rec_I) 4 rec_prepared (Terminal rec_result) True path
      = (Inl (SlotFailed SlotLocked), path)" for path
    using rec_bound by (simp add: settle_journal_def Let_def mark_accepted_if_matches_def lock_slot_def acquire_lock_def)
  then show ?thesis by (simp add: settle_invalidation_def)
qed

lemma rec_round:
  "invalidation_round rec_C rec_E rec_I rec_q (rec_staged None None None) (rec_w s ctl_dirs es) =
     (Inl (RecoverDispatch (SlotFailed SlotLocked)), rec_w (rec_slot rec_waiting) ctl_dirs' (rec_control_call # es))"
proof -
  have "drop_stale_ids rec_C rec_I rec_q (rec_staged None None None) (rec_w s ctl_dirs es)
      = (Inr (rec_staged None None None), rec_w s ctl_dirs es)"
    by (simp add: drop_stale_ids_def ctl_dirs_def load_slot_def)
  then show ?thesis
    by (simp add: invalidation_round_def rec_restored_target rec_prepare bind_prepared_def rec_save Let_def rec_send
        conclude_invalidation_def rec_locked rec_waiting_def)
qed

definition rec_w1 :: "(unit, unit) recover_world" where
  "rec_w1 = rec_w (rec_slot rec_waiting) ctl_dirs' [rec_control_call, rec_stage_call, rec_restore_call]"

lemma rec_first_run:
  "run_recover rec_C rec_E [rec_I] rec_q rec_w0 = (Inl (RecoverDispatch (SlotFailed SlotLocked)), rec_w1)"
  by (simp add: run_recover_def rec_open change_version_def rec_restore rec_stage rec_round rec_w1_def)

section \<open>The run that finishes\<close>

definition rec_activate_call :: "unit recover_event" where
  "rec_activate_call = (let op = backup_recovery_activate ''activate'' ''prod'' 8 ''recover'' ''epoch'' 10
     in Called op (Some (rec_answer op)))"

definition rec_cleanup_call :: "unit recover_event" where
  "rec_cleanup_call = (let op = backup_recovery_candidate_cleanup ''clean'' ''prod'' rec_endpoint
     in Called op (Some (rec_answer op)))"

definition rec_w2 :: "(unit, unit) recover_world" where
  "rec_w2 = rec_w None ctl_dirs' [rec_cleanup_call, rec_activate_call, ClockRead 11, ClockRead 9, rec_control_call,
     rec_stage_call, rec_restore_call]"

lemma rec_reload: "load_plan reg_X sz (rec_slot rec_waiting) = Inr (Some rec_waiting)" if "sz (PlanDoc rec_waiting) \<le> MAX_RECOVERY_BYTES"
proof -
  have "save_plan rec_C Committed rec_waiting rec_w0 = (Inr (), rec_w (rec_slot rec_waiting) ctl_dirs [])"
    by (simp add: rec_waiting_def rec_w0_def rec_save)
  then have "validate_plan reg_X rec_waiting = Inr ()"
    by (auto simp: save_plan_def store_plan_def split: sum.splits)
  then show ?thesis using that by (rule load_stored_plan)
qed

lemma rec_second_run: "run_recover rec_C rec_E [] rec_q rec_w1 = (Inr (), rec_w2)"
proof -
  have "open_plan rec_C rec_E rec_q rec_w1 = (Inr rec_waiting, rec_w1)"
    using rec_binding rec_reload [of "vc_size rec_C"]
    by (simp add: open_plan_def rec_w1_def rec_waiting_def MAX_RECOVERY_BYTES_def)
  then show ?thesis
    by (simp add: run_recover_def change_version_def restore_phase_def stage_phase_def activate_phase_def cleanup_phase_def
        clean_candidate_def clear_plan_def drop_one_def expect_completion_def rec_save rec_waiting_def rec_w1_def rec_w2_def Let_def
        rec_activate_call_def rec_cleanup_call_def)
qed

lemma rec_reachable: "recover_reachable rec_C ''prod'' rec_w1" "recover_reachable rec_C ''prod'' rec_w2"
proof -
  have "recover_reachable rec_C ''prod'' rec_w0" by (rule no_recovery) (simp_all add: rec_w0_def)
  then show "recover_reachable rec_C ''prod'' rec_w1" by (rule ran [OF _ _ rec_first_run]) simp
  then show "recover_reachable rec_C ''prod'' rec_w2" by (rule ran [OF _ _ rec_second_run]) simp
qed

end
