(* ===== verification/RecoverProperties.thy ===== *)
theory RecoverProperties
  imports RecoverSample
begin

text \<open>
  The properties of the disaster recovery, each with a witness on the sample recovery.
\<close>

section \<open>Past the invalidation\<close>

text \<open>What a run keeps of the controller's own files: keys, control journals, registry, submissions.\<close>

definition controller_side :: "('r, 's) recover_world \<Rightarrow> instance_dirs \<times> registry \<times> pending_slot" where
  "controller_side w = (vw_dirs w, vw_registry w, vw_pending w)"

lemma controller_side_updates [simp]:
  "controller_side (w\<lparr>vw_slot := a\<rparr>) = controller_side w" "controller_side (w\<lparr>vw_target := b\<rparr>) = controller_side w"
  "controller_side (w\<lparr>vw_events := c\<rparr>) = controller_side w"
  by (simp_all add: controller_side_def)

lemma save_plan_side: "controller_side (snd (save_plan C outcome p w)) = controller_side w"
  by (simp add: save_plan_def split: prod.split)

lemma at_target_side: "controller_side (snd (at_target E op w)) = controller_side w"
  by (simp add: at_target_def split: prod.split)

lemma wait_until_side: "controller_side (snd (wait_until nb ts w)) = controller_side w"
  by (induction ts arbitrary: w) (simp_all add: Let_def)

lemma call_side:
  assumes "\<And>answer w'. controller_side w' = controller_side w \<Longrightarrow> controller_side (snd (k answer w')) = K"
  shows "controller_side (snd (case at_target E op w of (answer, w') \<Rightarrow> k answer w')) = K"
  using assms at_target_side [of E op w] by (cases "at_target E op w") simp

lemmas side_rules = then_run_state [where Q = "\<lambda>w'. controller_side w' = K" for K]
  attempt_state [where Q = "\<lambda>w'. controller_side w' = K" for K]

lemma clean_candidate_side: "controller_side (snd (clean_candidate C E site draw d c p w)) = controller_side w"
  unfolding clean_candidate_def Let_def
  by (intro side_rules) (simp_all add: save_plan_side at_target_side call_side)

lemma activate_phase_side: "controller_side (snd (activate_phase C E q p w)) = controller_side w"
  unfolding activate_phase_def Let_def
  by (auto simp: save_plan_side wait_until_side intro!: side_rules call_side)

lemma cleanup_phase_side: "controller_side (snd (cleanup_phase C E q p w)) = controller_side w"
  unfolding cleanup_phase_def
  by (auto simp: clean_candidate_side intro!: side_rules split: prod.split)

lemma load_plan_Some: "load_plan X sz path = Inr (Some p) \<Longrightarrow> validate_plan X p = Inr ()"
  by (auto simp: load_plan_def rbind_Inr_iff Let_def split: option.splits record_file.splits if_splits)

lemma valid_late_plan:
  "validate_plan X p = Inr () \<Longrightarrow> rp_phase p \<noteq> Restoring \<Longrightarrow> rp_candidate p \<noteq> None"
  by (auto simp: validate_plan_def)

lemma late_run:
  assumes "load_plan (vc_externals C) (vc_size C) (vw_slot w) = Inr (Some p)"
    and "rp_phase p \<in> {WaitingForDeadline, CleanupPending}"
    and "vq_version q = None \<or> vq_version q = rp_target_version p"
  shows "(\<exists>e. run_recover C E Is q w = (Inl e, w)) \<or>
    run_recover C E Is q w = then_run (activate_phase C E q p w) (cleanup_phase C E q)"
proof -
  have candidate: "rp_candidate p \<noteq> None"
    by (rule valid_late_plan [OF load_plan_Some [OF assms(1)]]) (use assms(2) in auto)
  have phases: "change_version C E q p w = (Inr p, w)" "restore_phase C E q p w = (Inr p, w)"
      "stage_phase C E q p w = (Inr p, w)" "invalidate C E q Is p w = (Inr p, w)"
    using assms(2,3) candidate
    by (auto simp: change_version_def restore_phase_def stage_phase_def split: option.split) (cases Is; auto)+
  have "(\<exists>e. open_plan C E q w = (Inl e, w)) \<or> open_plan C E q w = (Inr p, w)"
    using assms(1) by (auto simp: open_plan_def attempt_def split: sum.split)
  then show ?thesis
    unfolding run_recover_def by (elim disjE exE) (simp_all add: phases)
qed

section \<open>The properties\<close>

text \<open>C38: Whatever runs of a recovery were cut off, repeated or asked for another version: the recovered
  runtime was told to activate only after a candidate had confirmed the invalidation of the lost epoch,
  and after the controller's clock had passed the deadline that confirmation named.\<close>

theorem activation_waits_for_the_invalidation:
  assumes "recover_reachable C d w" and "vw_events w = newer @ Called op answer # older"
    and "ho_operation op = BackupRecoveryActivate recovery epoch not_before"
  shows "\<exists>later now earlier. older = later @ ClockRead now # earlier \<and> not_before < now
     \<and> invalidated C earlier epoch not_before"
proof -
  obtain p0 where "journal_ok C p0 w" using reachable_journal_ok [OF assms(1)] by (elim exE conjE)
  then have "justified C (newer @ Called op answer # older)" using assms(2) by (simp add: journal_ok_def)
  from justified_split [OF this assms(3)] show ?thesis by (simp add: deadline_passed_def)
qed

theorem activation_waits_for_the_invalidation_witness:
  "\<exists>later now earlier. [ClockRead 11, ClockRead 9, rec_control_call, rec_stage_call, rec_restore_call]
     = later @ ClockRead now # earlier \<and> 10 < now \<and> invalidated rec_C earlier ''epoch'' 10"
proof -
  let ?op = "backup_recovery_activate ''activate'' ''prod'' 8 ''recover'' ''epoch'' 10"
  have "vw_events rec_w2 = [rec_cleanup_call] @ Called ?op (Some (rec_answer ?op))
      # [ClockRead 11, ClockRead 9, rec_control_call, rec_stage_call, rec_restore_call]"
    unfolding rec_w2_def rec_activate_call_def Let_def rec_world append.simps by (rule refl)
  from activation_waits_for_the_invalidation [OF rec_reachable(2) this recovery_bodies(5)] show ?thesis .
qed

text \<open>C39: A run that answers success has carried out the recovery it found in the journal, or the one it
  opened: the target restored that manifest, a candidate invalidated that epoch, the target activated
  with the deadline of that invalidation, and the journal is gone. A run that fails leaves the journal
  of that same recovery, valid, or none.\<close>

theorem finished_recovery_was_carried_out:
  assumes "recover_reachable C d w" and "vq_deployment_id q = d" and "run_recover C E Is q w = (r, w')"
  shows "(r = Inr () \<longrightarrow> vw_slot w' = None \<and>
       (\<exists>nb. restored_by (vw_events w') (recovery_of E q w)
          \<and> invalidated C (vw_events w') (rp_state_epoch (recovery_of E q w)) nb
          \<and> activated_by (vw_events w') (recovery_of E q w) nb))
     \<and> (vw_slot w' = None \<or>
       (\<exists>p. vw_slot w' = Some (record_file.Record (PlanDoc p)) \<and> validate_plan (vc_externals C) p = Inr ()
          \<and> same_recovery (recovery_of E q w) p))"
proof -
  have "follows C (recovery_of E q w) (\<lambda>_. recovered C (recovery_of E q w)) (r, w')"
    using reachable_run [OF assms(1,2), of E Is] assms(3) by simp
  then show ?thesis by (auto simp: follows_def recovered_def journal_ok_def borne_out_def)
qed

theorem finished_recovery_was_carried_out_witness:
  "vw_slot rec_w2 = None \<and> (\<exists>nb. restored_by (vw_events rec_w2) rec_waiting
     \<and> invalidated rec_C (vw_events rec_w2) ''epoch'' nb \<and> activated_by (vw_events rec_w2) rec_waiting nb)"
proof -
  have "recovery_of rec_E rec_q rec_w1 = rec_waiting" by (simp add: recovery_of_def rec_w1_def)
  moreover have "rp_state_epoch rec_waiting = ''epoch''" by (simp add: rec_waiting_def)
  ultimately show ?thesis
    using finished_recovery_was_carried_out [OF rec_reachable(1) _ rec_second_run] by simp
qed

text \<open>C40: Once the invalidation is recorded, no run that asks for no other version than the plan's
  target touches the controller's keys, its control journals or its registry, however it ends: an
  entry that an interrupted settlement left in the single control slot is still there when the
  recovery has succeeded. A run asked for another version stages the recovery again and is not
  covered.\<close>

theorem late_recovery_leaves_the_control_slot:
  assumes "load_plan (vc_externals C) (vc_size C) (vw_slot w) = Inr (Some p)"
    and "rp_phase p \<in> {WaitingForDeadline, CleanupPending}"
    and "vq_version q = None \<or> vq_version q = rp_target_version p"
    and "run_recover C E Is q w = (r, w')"
  shows "vw_dirs w' = vw_dirs w \<and> vw_registry w' = vw_registry w \<and> vw_pending w' = vw_pending w"
proof -
  have "controller_side (snd (then_run (activate_phase C E q p w) (cleanup_phase C E q))) = controller_side w"
    by (rule then_run_state) (simp_all add: activate_phase_side cleanup_phase_side)
  moreover have "w' = snd (run_recover C E Is q w)" using assms(4) by simp
  ultimately have "controller_side w' = controller_side w"
    using late_run [OF assms(1-3), of E Is] by (elim disjE exE) simp_all
  then show ?thesis by (simp add: controller_side_def)
qed

text \<open>The second run answers success, and the slot still holds the invalidation.\<close>

theorem late_recovery_leaves_the_control_slot_witness:
  "run_recover rec_C rec_E [] rec_q rec_w1 = (Inr (), rec_w2) \<and> vw_slot rec_w2 = None \<and>
   id_journal (vw_dirs rec_w2 ''prod'') = Some (record_file.Record (journal_entry 4 rec_prepared))"
proof -
  have "load_plan (vc_externals rec_C) (vc_size rec_C) (vw_slot rec_w1) = Inr (Some rec_waiting)"
    using rec_reload [of "vc_size rec_C"] by (simp add: rec_w1_def MAX_RECOVERY_BYTES_def)
  moreover have "rp_phase rec_waiting = WaitingForDeadline" by (simp add: rec_waiting_def)
  ultimately have "vw_dirs rec_w2 = vw_dirs rec_w1"
    using late_recovery_leaves_the_control_slot [OF _ _ _ rec_second_run, of rec_waiting] by simp
  then show ?thesis
    using rec_second_run by (simp add: rec_w1_def rec_w2_def ctl_dirs'_def ctl_entry_same [of 4 "RecoveryInvalidate ()"])
qed

end
