(* ===== verification/Spec2Isabelle.thy ===== *)
theory Spec2Isabelle
  imports StateProperties BackupProperties WireProperties JournalProperties RegistryProperties
    ControlProperties CliProperties TransferProperties UpdateProperties UninstallProperties RecoverProperties
begin

text \<open>
  A verification development for \<open>nazoauthctl\<close>, the command-line controller of NazoAuth deployments.

  \<^bold>\<open>The program.\<close> A controller on the administrator's machine drives target hosts, locally or over
  SSH. The command line (\<open>src/src/cli\<close>) turns an invocation into one command for one instance. The
  registry (\<open>src/src/registry.rs\<close>) records the hosts and the instances bound to them; the key store
  and the single-slot operation journal (\<open>src/src/controller_identity\<close>) hold the controller's keys
  and the one control operation in flight. What a target is asked to do is a HostOperation
  (\<open>src/src/target/wire.rs\<close>). A target admits it, writes it to its journal
  (\<open>src/src/target/journal.rs\<close>) before it runs and answers a repetition from there. The executors
  change the deployment state (\<open>persistence.rs\<close>, \<open>deployment_state.rs\<close>) and the backup evidence
  (\<open>backup.rs\<close>) of \<open>src/src/target\<close>. An off-host copy of a backup is a loop of the controller
  (\<open>controller/surface_run.rs\<close>, \<open>transfer_journal.rs\<close>) over calls of two targets (\<open>backup_exec.rs\<close>).
  An update or a rollback of a deployment (\<open>update_exec.rs\<close>) works on the host through the container
  and systemd backends of \<open>crates/nazoauthctl-runtime/src/runtime_backend\<close>. A disaster recovery
  (\<open>run_recover\<close> of \<open>surface_run.rs\<close>, \<open>recovery_journal.rs\<close>) drives one target through restore,
  staging, invalidation, waiting and activation, and re-establishes the controller's key
  (\<open>controller_identity/recovery.rs\<close>) where the restored registry does not know it.

  \<^bold>\<open>Conventions.\<close> A Rust \<open>Result\<close> is a sum with the error on the left, its prose dropped: every
  error is a constructor. The \<open>?\<close> operator is \<open>rbind\<close>, and \<open>attempt\<close> where a state is threaded.
  Strings are their UTF-8 bytes. Words keep their width and wrap as a release build does. A JSON
  file is its parsed value, or one of the ways it can fail to be one; the parser, the digest, the
  base64 decoder, the length of a serialized record, the UUID, URL and semver parsers and the
  signature protocol are parameters (the records \<open>externals\<close>, \<open>registry_codec\<close>, \<open>key_crypto\<close>,
  \<open>protocol\<close>, \<open>backup_codec\<close>, \<open>transfer_codec\<close>), about which a theorem assumes only what it names as
  a hypothesis. The environment is an argument of every step (\<open>env\<close>, \<open>registry_env\<close>, \<open>handler_env\<close>
  and their like): whether a lock is held, a file is readable, a call arrives and its answer comes
  back, and how a durable write ends - \<open>Committed\<close>, \<open>Rejected\<close>, or \<open>Unsynced\<close>, where the new bytes
  are there and the caller gets an error (FileStore).

  \<^bold>\<open>Shared theories.\<close> Prelude: results, guards, the collections \<open>guard_simps\<close> and \<open>step_defs\<close>.
  Names: the text rules of all stores and the record \<open>externals\<close>. FileStore: the durable primitives,
  with the locale \<open>durable_files\<close> interpreted on them.

  \<^bold>\<open>Deployment state.\<close> DeploymentTypes: the document \<open>DeploymentState\<close> and its parts, which stands
  first because \<open>externals\<close> holds the length of a serialised document. Deployment: its validation.
  Persistence: readers of published formats. Orders: install orders, update orders and mutation
  payloads (\<open>install_exec.rs\<close>, \<open>deployment_state.rs\<close>). StateStore and StateMutations:
  \<open>TargetStateStore\<close>, one function per operation, with the 1 MiB bound of the reader that no writer
  enforces. StateProofs: every compare-and-swap mutation as an interpretation of \<open>guarded_mutation\<close>
  or \<open>cas_mutation\<close>. StateInvariant: the step relation of the store and its invariant.
  StateProperties: reachable documents are valid and load where they fit, ports are unique across
  deployments, a stale revision changes nothing, retries are idempotent, an open migration fences
  the deployment, a second rollback restores, an interrupted uninstall converges, and what the last
  revision does.

  \<^bold>\<open>Backup evidence.\<close> Backup: manifests, receipts, their validation and projection.
  BackupProperties: archived paths stay below the restore root, the hash binds the manifest, a
  projected fact is backed by a document on disk.

  \<^bold>\<open>The wire.\<close> Wire: the operation kinds, their constructors, admission, the replay identity and the
  bounded result texts. WireProperties: admission binds an operation to what its kind may name, an
  admitted chunk lies inside its file. The replay identity is the JSON value the code builds without
  the password, or the derived serialisation, a parameter of the record \<open>hasher\<close>.

  \<^bold>\<open>The operation journal.\<close> Journal: reading, settling a torn tail, compaction under the byte and
  line bounds of \<open>JournalBounds\<close>, and \<open>run_journaled\<close>. JournalProofs: what compaction selects and
  the invariant of a file. JournalProperties: a journal never wedges, nothing runs before its
  pending line is durable, an interrupted operation resumes, a settled one is replayed and never run
  again, an id used for two operations is refused.

  \<^bold>\<open>The registry.\<close> Registry, RegistryStore, RegistryOps: records, queries and operations on the two
  directories of record files. RegistryProofs: directories as finite maps, once for both kinds of
  record in the locale \<open>conforming_record\<close>. RegistryInvariant: reachable registries.
  RegistryBinding: the abstract registry of two maps that every operation refines.
  RegistryProperties: the invariant, the refinement, what a registration may bind, and that a
  refused call changes nothing.

  \<^bold>\<open>Keys and control operations.\<close> KeyStore and KeyStoreProofs: the key directory of a deployment and
  its invariant. OperationJournal: the single-slot journal and the construction of a signed
  operation. ControlDispatch: one authorization per operation. ControlSystem: the controller side of
  one instance as a system, the operations released and neither concluded nor given up (by a clear
  of the slot or the removal of the instance) as a ghost set. ControlProperties: released operations
  are anchored in the journal, an unsettled one resumes exactly, preparation is journaled first, key
  directories always load.

  \<^bold>\<open>The command line.\<close> CliTypes, CliOptions, CliTls, CliParser: the model of \<open>src/src/cli\<close>, each
  \<open>parse_\<close> function under its own name, loops over the words as recursion on the list. CliProofs and
  CliGrammar: the option grammar and the commands the parser can produce. CliPrint, CliRoundTrip,
  CliWords, CliReadBack: one spelling of every command, read back. CliProperties: the option loop
  accepts exactly its grammar, the parser yields exactly the well-formed commands, every well-formed
  command has words that parse to it, an instance is named once.

  \<^bold>\<open>Off-host copies.\<close> TransferJournal: the controller's record of a copy. TransferTarget: the
  handlers of \<open>backup_exec.rs\<close> on the snapshots, export and import directories of one deployment
  scope, and a call through the target's journal, here its stored terminal answers only, which may
  not arrive, may run without its terminal line written, or may lose its answer. TransferControl:
  \<open>run_backup_copy\<close> and its phases; a run is given one environment per iteration, and ends as
  interrupted where they run out. TransferProofs: what a call and an iteration can do.
  TransferSystem: the reachable worlds, in which the controller stops and is run again anywhere and
  other operations of the targets run in between. TransferSafety: a receipt means a published and
  verified copy. TransferRun: a run leaves one transfer behind, ends, and is stuck behind a recorded
  refusal. TransferSample is a complete transfer, evaluated call by call, for the witnesses of
  TransferProperties.

  \<^bold>\<open>Runtime backends.\<close> Numbers: decimal and octal readers. RuntimeTypes: artifacts, observations,
  replacements, tasks. Container: Podman and Docker, from the engine's documents to the argument
  lists of what is run, with the guarded removal of a replaced container. Systemd: the \<open>ExecStart\<close>
  reader, units, the replacement of a host binary, transient tasks. The engines are the record
  \<open>host\<close> over an abstract host state: what a command prints, and the state it leaves.

  \<^bold>\<open>Updates and rollbacks.\<close> UpdateTypes: orders, performed steps, configuration snapshots.
  UpdateExec: the single steps and the clean-ups. UpdateRun: \<open>run_update\<close> and \<open>run_rollback\<close> in the
  order of the code, cut into parts, the migration with its fence, and what \<open>execute_update\<close> and
  \<open>execute_rollback\<close> do with a failure. UpdateDispatch: from an operation to the order and back to a
  completion. UpdateProofs: what each part can change, as relations on runs that compose.
  UpdateRefusal: a container that runs is never removed, so an explicit rollback of it is refused.
  UpdateTrace: a run stays undoable, and leaves the state documents alone until it commits.
  UpdateSample and UpdateSampleRun: a Podman host with one deployment, its update evaluated part by
  part. UpdateProperties: an activated update is in service and on record, a failure without a note
  leaves no trace, what was saved reads back, and two failures that cannot be undone.

  \<^bold>\<open>Uninstalls.\<close> UninstallExec: the deletion executor of \<open>uninstall_exec.rs\<close> on the files of the
  deployment, the runtime host and the state store, and the target's answer with the completion of
  an earlier removal in front. UninstallProofs: every step only removes, and only paths of the job;
  success leaves none; a second run finishes the first. UninstallProperties: the two properties and
  a sample order, stopped in the middle of a directory.

  \<^bold>\<open>Disaster recovery.\<close> RecoveryJournal: the plan of a recovery, its validation and its file.
  RecoveryCeremony: the break-glass ceremony with its pending submission. RecoverRun: \<open>run_recover\<close>,
  one function per phase, each given what its writes, calls and ids turn out to be; the world keeps
  the calls with their answers and the readings of the clock. RecoverProofs: assertions carried from
  phase to phase on every way out of them, what the calls bear out of a plan, and the reachable
  worlds: runs cut off anywhere, and anything else that leaves the recovery journal alone.
  RecoverSample is a recovery in two runs, the first cut off while it settles the control journal.
  RecoverProperties: activation waits for a confirmed invalidation and its deadline, success means
  the recovery was carried out, and a late run for the same version leaves the control slot as it
  found it.

  \<^bold>\<open>Bounds.\<close> No definition takes fuel. Loops of the code are recursions on what they consume: words,
  lines, records. The transfer loop, which the code writes as \<open>loop\<close>, recurses on the list of
  environments, and \<open>backup_copy_ends\<close> proves that every stream of environments has a finite prefix
  that is enough: phases, files and bytes left decrease lexicographically. The invalidation loop of
  a recovery and its wait recurse on the environments and clock readings they are given; they may go
  on for as long as the server rejects keys or the deadline lies ahead, and no theorem claims an
  end.

  \<^bold>\<open>Not modelled.\<close> The install executor, snapshot, restore test and recovery of backups on the
  target, SSH, TLS and ACME, release downloads, the browser-driven conformance suite, discovery,
  logs and the installation of services are sequences of process, network and archive effects of
  third-party programs; the state transitions they record, the orders they take and the evidence
  they leave are modelled. Human output, prompts and help texts are not. The locks are modelled
  where an operation fails on a held lock, not as concurrent interleavings within a critical
  section, since the code takes one lock around each operation modelled here.
\<close>

end
